(* ===== verification/Prelude.thy ===== *)
theory Prelude
  imports Main "HOL-Library.Char_ord"
begin

text \<open>
  Shared vocabulary of the development: Go errors as values, the environment
  that answers every interaction of the program with the outside, the io type
  of stateful operations, SQL-style operations on tables kept as lists of rows,
  and the few functions of the Go string library the sources call.
\<close>

named_theorems io_simps \<open>running the io combinators\<close>
named_theorems table_simps \<open>selecting from and updating tables\<close>
named_theorems go_simps \<open>Go library functions on strings\<close>

section \<open>Go errors\<close>

text \<open>
  One constructor per kind of error value the sources create or compare
  with. \<open>Wrap m e\<close> is \<open>fmt.Errorf("m: %w", e)\<close>, \<open>DBError\<close> an error of the
  database driver, \<open>ApiErr\<close> is \<open>provider.APIError\<close>.
\<close>

datatype gerr =
    ErrNotFound
  | ErrNoRows
  | ErrConflict
  | ErrUnsupportedAuthType
  | ErrInvalidCredentials
  | Canceled
  | DBError string
  | ErrMsg string
  | Wrap string gerr
  | ApiErr int string string

text \<open>\<open>errors.Is\<close> walks the chain of wrapped errors.\<close>

fun errors_is :: "gerr \<Rightarrow> gerr \<Rightarrow> bool" where
  "errors_is (Wrap m e) t = (Wrap m e = t \<or> errors_is e t)"
| "errors_is e t = (e = t)"

section \<open>Decimal numerals\<close>

fun nat_str :: "nat \<Rightarrow> string" where
  "nat_str n = (if n < 10 then [char_of (48 + n)]
                else nat_str (n div 10) @ [char_of (48 + n mod 10)])"

declare nat_str.simps [simp del]

definition int_str :: "int \<Rightarrow> string" where
  "int_str i = (if i < 0 then CHR ''-'' # nat_str (nat (- i)) else nat_str (nat i))"

text \<open>\<open>err.Error()\<close>.\<close>

fun err_str :: "gerr \<Rightarrow> string" where
  "err_str ErrNotFound = ''not found''"
| "err_str ErrNoRows = ''sql: no rows in result set''"
| "err_str ErrConflict = ''conflict''"
| "err_str ErrUnsupportedAuthType = ''unsupported auth type''"
| "err_str ErrInvalidCredentials = ''invalid credentials''"
| "err_str Canceled = ''context canceled''"
| "err_str (DBError m) = m"
| "err_str (ErrMsg m) = m"
| "err_str (Wrap m e) = m @ '': '' @ err_str e"
| "err_str (ApiErr code t m) =
     (if code > 0 then ''provider '' @ int_str code @ '' ('' @ t @ ''): '' @ m
      else ''provider error ('' @ t @ ''): '' @ m)"

section \<open>The environment, contexts and the io type\<close>

text \<open>
  Every interaction of the program with its surroundings (a statement sent to
  the database, a reading of the clock, an identifier drawn, a model or tool
  call) happens at a tick, and the tick is counted in the state. The
  environment says what each tick answers, so that a run of the program is a
  function of the state and the environment, for every clock, every pattern
  of failing statements and every moment at which a context is cancelled.
\<close>

record env =
  clock :: "nat \<Rightarrow> int"
  ulid :: "nat \<Rightarrow> string"
  fault :: "nat \<Rightarrow> string option"

text \<open>
  \<open>context.Background()\<close> and a \<open>context.WithCancel\<close> child that another
  goroutine cancels at some tick (or never).
\<close>

datatype ctx = Background | WithCancel "nat option"

definition cancelled :: "ctx \<Rightarrow> nat \<Rightarrow> bool" where
  "cancelled c n = (case c of WithCancel (Some k) \<Rightarrow> k \<le> n | _ \<Rightarrow> False)"

text \<open>\<open>ctx.Err()\<close>.\<close>

definition ctx_err :: "ctx \<Rightarrow> nat \<Rightarrow> gerr option" where
  "ctx_err c n = (if cancelled c n then Some Canceled else None)"

lemma cancelled_simps [simp]:
  "\<not> cancelled Background n" "\<not> cancelled (WithCancel None) n"
  "cancelled (WithCancel (Some k)) n \<longleftrightarrow> k \<le> n"
  by (simp_all add: cancelled_def)

lemma cancelled_mono: "cancelled c n \<Longrightarrow> n \<le> m \<Longrightarrow> cancelled c m"
  by (auto simp: cancelled_def split: ctx.splits option.splits)

record base =
  tick :: nat

type_synonym ('w, 'a) io = "'w \<Rightarrow> (gerr + 'a) \<times> 'w"

definition returnE :: "'a \<Rightarrow> ('w, 'a) io" where
  "returnE x w = (Inr x, w)"

definition throwE :: "gerr \<Rightarrow> ('w, 'a) io" where
  "throwE e w = (Inl e, w)"

text \<open>\<open>x, err := m; if err != nil { return err }; f(x)\<close>.\<close>

definition bindE :: "('w, 'a) io \<Rightarrow> ('a \<Rightarrow> ('w, 'b) io) \<Rightarrow> ('w, 'b) io" where
  "bindE m f w = (case m w of (Inl e, w') \<Rightarrow> (Inl e, w') | (Inr x, w') \<Rightarrow> f x w')"

text \<open>\<open>if err := m; err != nil { return g(err) }\<close>.\<close>

definition catchE :: "('w, 'a) io \<Rightarrow> (gerr \<Rightarrow> ('w, 'a) io) \<Rightarrow> ('w, 'a) io" where
  "catchE m g w = (case m w of (Inl e, w') \<Rightarrow> g e w' | (Inr x, w') \<Rightarrow> (Inr x, w'))"

text \<open>\<open>_, _ = m\<close>: only the effect on the state remains.\<close>

definition exec_io :: "('w, 'a) io \<Rightarrow> 'w \<Rightarrow> 'w" where
  "exec_io m w = snd (m w)"

definition result_io :: "('w, 'a) io \<Rightarrow> 'w \<Rightarrow> gerr + 'a" where
  "result_io m w = fst (m w)"

definition modifyE :: "('w \<Rightarrow> 'w) \<Rightarrow> ('w, unit) io" where
  "modifyE f w = (Inr (), f w)"

definition getsE :: "('w \<Rightarrow> 'a) \<Rightarrow> ('w, 'a) io" where
  "getsE f w = (Inr (f w), w)"

lemma io_run [io_simps]:
  "returnE x w = (Inr x, w)" "throwE e w = (Inl e, w)"
  "modifyE f w = (Inr (), f w)" "getsE g w = (Inr (g w), w)"
  by (simp_all add: returnE_def throwE_def modifyE_def getsE_def)

lemma bindE_Inr [io_simps]: "m w = (Inr x, w') \<Longrightarrow> bindE m f w = f x w'"
  by (simp add: bindE_def)

lemma bindE_Inl [io_simps]: "m w = (Inl e, w') \<Longrightarrow> bindE m f w = (Inl e, w')"
  by (simp add: bindE_def)

lemma bindE_Inr_iff:
  "bindE m f w = (Inr y, w'') \<longleftrightarrow> (\<exists>x w'. m w = (Inr x, w') \<and> f x w' = (Inr y, w''))"
  by (auto simp: bindE_def split: prod.splits sum.splits)

lemma bindE_Inl_iff:
  "bindE m f w = (Inl e, w'') \<longleftrightarrow>
     m w = (Inl e, w'') \<or> (\<exists>x w'. m w = (Inr x, w') \<and> f x w' = (Inl e, w''))"
  by (auto simp: bindE_def split: prod.splits sum.splits)

text \<open>A property of states that every part of an operation keeps is kept by the operation.\<close>

definition keeps :: "('w \<Rightarrow> 'w \<Rightarrow> bool) \<Rightarrow> ('w, 'a) io \<Rightarrow> bool" where
  "keeps R m \<longleftrightarrow> (\<forall>w. R w (snd (m w)))"

lemma keepsI: "(\<And>w. R w (snd (m w))) \<Longrightarrow> keeps R m"
  by (simp add: keeps_def)

lemma keepsD: "keeps R m \<Longrightarrow> R w (snd (m w))"
  by (simp add: keeps_def)

lemma keeps_bindE:
  assumes "keeps R m" "\<And>x. keeps R (f x)" "\<And>a b c. R a b \<Longrightarrow> R b c \<Longrightarrow> R a c"
  shows "keeps R (bindE m f)"
proof (rule keepsI)
  fix w
  obtain r w' where m: "m w = (r, w')" by (cases "m w")
  have w': "R w w'" using keepsD [OF assms(1), of w] m by simp
  show "R w (snd (bindE m f w))"
  proof (cases r)
    case (Inl e)
    then show ?thesis using m w' by (simp add: bindE_def)
  next
    case (Inr x)
    then have "R w' (snd (f x w'))" using keepsD [OF assms(2)] by blast
    then show ?thesis using Inr m assms(3) [OF w'] by (simp add: bindE_def)
  qed
qed

text \<open>
  The weakest precondition of an operation: what must hold before for \<open>Q\<close> to
  hold of its result and its final state. Proofs about long operations run
  through it step by step.
\<close>

named_theorems wp_simps \<open>weakest preconditions of the combinators\<close>

definition wp :: "('w, 'a) io \<Rightarrow> (gerr + 'a \<Rightarrow> 'w \<Rightarrow> bool) \<Rightarrow> 'w \<Rightarrow> bool" where
  "wp m Q w = (case m w of (r, w') \<Rightarrow> Q r w')"

lemma wpD: "wp m Q w \<Longrightarrow> m w = (r, w') \<Longrightarrow> Q r w'"
  by (simp add: wp_def)

lemma wpI: "(\<And>r w'. m w = (r, w') \<Longrightarrow> Q r w') \<Longrightarrow> wp m Q w"
  by (cases "m w") (simp add: wp_def)

lemma wp_mono: "wp m Q w \<Longrightarrow> (\<And>r w'. Q r w' \<Longrightarrow> Q' r w') \<Longrightarrow> wp m Q' w"
  by (auto simp: wp_def)

lemma wp_bindE [wp_simps]:
  "wp (bindE m f) Q w = wp m (\<lambda>r w'. case r of Inl e \<Rightarrow> Q (Inl e) w' | Inr x \<Rightarrow> wp (f x) Q w') w"
  by (auto simp: wp_def bindE_def split: prod.splits sum.splits)

lemma wp_returnE [wp_simps]: "wp (returnE x) Q w = Q (Inr x) w"
  by (simp add: wp_def io_run)

lemma wp_throwE [wp_simps]: "wp (throwE e) Q w = Q (Inl e) w"
  by (simp add: wp_def io_run)

lemma wp_modifyE [wp_simps]: "wp (modifyE f) Q w = Q (Inr ()) (f w)"
  by (simp add: wp_def io_run)

lemma wp_getsE [wp_simps]: "wp (getsE g) Q w = Q (Inr (g w)) w"
  by (simp add: wp_def io_run)

lemma wp_if [wp_simps]: "wp (if b then m else m') Q w = (if b then wp m Q w else wp m' Q w)"
  by simp

lemma wp_catchE [wp_simps]:
  "wp (catchE m g) Q w = wp m (\<lambda>r w'. case r of Inl e \<Rightarrow> wp (g e) Q w' | Inr x \<Rightarrow> Q (Inr x) w') w"
  by (auto simp: wp_def catchE_def split: prod.splits sum.splits)

text \<open>The same as rules: a known postcondition of the first part is what the second starts from.\<close>

lemma wp_bind:
  assumes "wp m R w" "\<And>x w'. R (Inl x) w' \<Longrightarrow> Q (Inl x) w'" "\<And>x w'. R (Inr x) w' \<Longrightarrow> wp (f x) Q w'"
  shows "wp (bindE m f) Q w"
proof -
  obtain r w' where m: "m w = (r, w')" by (cases "m w")
  then have "R r w'" by (rule wpD [OF assms(1)])
  then show ?thesis using m assms(2,3) by (cases r) (auto simp: wp_bindE wp_def [of m])
qed

lemma wp_if_I: "(b \<Longrightarrow> wp m Q w) \<Longrightarrow> (\<not> b \<Longrightarrow> wp m' Q w) \<Longrightarrow> wp (if b then m else m') Q w"
  by simp

lemma wp_option_I:
  "(r = None \<Longrightarrow> wp m Q w) \<Longrightarrow> (\<And>x. r = Some x \<Longrightarrow> wp (f x) Q w) \<Longrightarrow>
     wp (case r of None \<Rightarrow> m | Some x \<Rightarrow> f x) Q w"
  by (cases r) auto

lemma wp_prod_I: "(\<And>a b. r = (a, b) \<Longrightarrow> wp (f a b) Q w) \<Longrightarrow> wp (case r of (a, b) \<Rightarrow> f a b) Q w"
  by (cases r) auto

text \<open>\<open>_, _ = m\<close> as a step of a sequence.\<close>

definition ignoreE :: "('w, 'a) io \<Rightarrow> ('w, unit) io" where
  "ignoreE m w = (Inr (), snd (m w))"

lemma wp_ignoreE [wp_simps]: "wp (ignoreE m) Q w = wp m (\<lambda>r w'. Q (Inr ()) w') w"
  by (simp add: wp_def ignoreE_def split: prod.splits)

lemma wp_ignore: "wp m R w \<Longrightarrow> (\<And>r w'. R r w' \<Longrightarrow> Q (Inr ()) w') \<Longrightarrow> wp (ignoreE m) Q w"
  by (auto simp: wp_def ignoreE_def split: prod.splits)

text \<open>
  A statement of \<open>database/sql\<close>: a cancelled context is reported before the
  statement runs, otherwise the driver may fail, otherwise the statement runs.
\<close>

definition stmt :: "env \<Rightarrow> ctx \<Rightarrow> ('w base_scheme, unit) io" where
  "stmt e c w =
     (let n = tick w; w' = w\<lparr>tick := Suc n\<rparr> in
      case ctx_err c n of
        Some err \<Rightarrow> (Inl err, w')
      | None \<Rightarrow> (case fault e n of Some m \<Rightarrow> (Inl (DBError m), w') | None \<Rightarrow> (Inr (), w')))"

text \<open>\<open>time.Now().UTC().UnixMilli()\<close> and \<open>store.NewID(prefix)\<close>.\<close>

definition now :: "env \<Rightarrow> ('w base_scheme, int) io" where
  "now e w = (Inr (clock e (tick w)), w\<lparr>tick := Suc (tick w)\<rparr>)"

definition lower_char :: "char \<Rightarrow> char" where
  "lower_char ch = (let n = of_char ch :: nat in if 65 \<le> n \<and> n \<le> 90 then char_of (n + 32) else ch)"

definition ToLower :: "string \<Rightarrow> string" where
  "ToLower = map lower_char"

definition NewID :: "env \<Rightarrow> string \<Rightarrow> ('w base_scheme, string) io" where
  "NewID e prefix w = (Inr (prefix @ ''-'' @ ToLower (ulid e (tick w))), w\<lparr>tick := Suc (tick w)\<rparr>)"

definition no_faults :: "env \<Rightarrow> bool" where
  "no_faults e \<longleftrightarrow> (\<forall>n. fault e n = None)"

text \<open>Identifiers drawn at different ticks are different.\<close>

definition distinct_ids :: "env \<Rightarrow> bool" where
  "distinct_ids e \<longleftrightarrow> inj (\<lambda>n. ToLower (ulid e n))"

lemma stmt_cases:
  obtains (ok) "stmt e c w = (Inr (), w\<lparr>tick := Suc (tick w)\<rparr>)"
          | (err) x where "stmt e c w = (Inl x, w\<lparr>tick := Suc (tick w)\<rparr>)"
  by (cases "ctx_err c (tick w)"; cases "fault e (tick w)") (auto simp: stmt_def Let_def)

definition stmt_res :: "env \<Rightarrow> ctx \<Rightarrow> nat \<Rightarrow> gerr + unit" where
  "stmt_res e c n =
     (case ctx_err c n of Some err \<Rightarrow> Inl err
      | None \<Rightarrow> (case fault e n of Some m \<Rightarrow> Inl (DBError m) | None \<Rightarrow> Inr ()))"

lemma stmt_run: "stmt e c w = (stmt_res e c (tick w), w\<lparr>tick := Suc (tick w)\<rparr>)"
  by (simp add: stmt_def stmt_res_def Let_def split: option.splits)

lemma stmt_res_ok: "no_faults e \<Longrightarrow> \<not> cancelled c n \<Longrightarrow> stmt_res e c n = Inr ()"
  by (simp add: stmt_res_def ctx_err_def no_faults_def)

lemma stmt_ok [io_simps]:
  "no_faults e \<Longrightarrow> \<not> cancelled c (tick w) \<Longrightarrow> stmt e c w = (Inr (), w\<lparr>tick := Suc (tick w)\<rparr>)"
  by (simp add: stmt_def Let_def ctx_err_def no_faults_def)

lemma stmt_cancelled [io_simps]:
  "cancelled c (tick w) \<Longrightarrow> stmt e c w = (Inl Canceled, w\<lparr>tick := Suc (tick w)\<rparr>)"
  by (simp add: stmt_def Let_def ctx_err_def)

lemma stmt_snd [simp]: "snd (stmt e c w) = w\<lparr>tick := Suc (tick w)\<rparr>"
  by (rule stmt_cases [of e c w]) auto

lemma now_run [io_simps]: "now e w = (Inr (clock e (tick w)), w\<lparr>tick := Suc (tick w)\<rparr>)"
  by (simp add: now_def)

lemma NewID_run: "NewID e p w = (Inr (p @ ''-'' @ ToLower (ulid e (tick w))), w\<lparr>tick := Suc (tick w)\<rparr>)"
  by (simp add: NewID_def)

section \<open>Tables\<close>

text \<open>
  A table is the list of its rows in insertion order. \<open>select\<close> is a
  \<open>SELECT ... WHERE\<close>, \<open>update_where\<close> an \<open>UPDATE ... WHERE\<close>, \<open>delete_where\<close> a
  \<open>DELETE ... WHERE\<close>, and \<open>affected\<close> the \<open>RowsAffected\<close> of either.
  \<open>ORDER BY\<close> is the library's stable \<open>sort_key\<close>, \<open>LIMIT\<close> is \<open>take\<close>.
\<close>

definition select :: "('r \<Rightarrow> bool) \<Rightarrow> 'r list \<Rightarrow> 'r list" where
  "select P t = filter P t"

definition select_one :: "('r \<Rightarrow> bool) \<Rightarrow> 'r list \<Rightarrow> 'r option" where
  "select_one P t = (case filter P t of [] \<Rightarrow> None | r # _ \<Rightarrow> Some r)"

definition update_where :: "('r \<Rightarrow> bool) \<Rightarrow> ('r \<Rightarrow> 'r) \<Rightarrow> 'r list \<Rightarrow> 'r list" where
  "update_where P f t = map (\<lambda>r. if P r then f r else r) t"

definition delete_where :: "('r \<Rightarrow> bool) \<Rightarrow> 'r list \<Rightarrow> 'r list" where
  "delete_where P t = filter (\<lambda>r. \<not> P r) t"

definition affected :: "('r \<Rightarrow> bool) \<Rightarrow> 'r list \<Rightarrow> nat" where
  "affected P t = length (filter P t)"

lemma select_simps [table_simps]:
  "set (select P t) = {r \<in> set t. P r}" "select P (t @ u) = select P t @ select P u"
  by (auto simp: select_def)

lemma select_one_find: "select_one P t = find P t"
  by (induction t) (auto simp: select_one_def)

lemma select_one_None [table_simps]: "select_one P t = None \<longleftrightarrow> (\<forall>r\<in>set t. \<not> P r)"
  by (auto simp: select_one_find find_None_iff)

lemma select_one_Some: "select_one P t = Some r \<Longrightarrow> r \<in> set t \<and> P r"
  by (auto simp: select_one_find find_Some_iff)

lemma select_one_append [table_simps]:
  "select_one P (t @ u) = (case select_one P t of None \<Rightarrow> select_one P u | Some r \<Rightarrow> Some r)"
  by (auto simp: select_one_def split: list.splits)

lemma select_one_single [table_simps]: "select_one P [r] = (if P r then Some r else None)"
  by (simp add: select_one_def)

lemma select_one_ex: "r \<in> set t \<Longrightarrow> P r \<Longrightarrow> \<exists>r'. select_one P t = Some r'"
  by (cases "select_one P t") (auto simp: table_simps)

lemma select_one_update:
  assumes "\<And>r. P (f r) = P r"
  shows "select_one P (update_where P f t) = map_option f (select_one P t)"
  using assms by (induction t) (auto simp: select_one_def update_where_def)

lemma select_one_update_None [table_simps]:
  "(\<And>r. P (f r) = P r) \<Longrightarrow> select_one P (update_where Q f t) = None \<longleftrightarrow> select_one P t = None"
  by (induction t) (auto simp: select_one_def update_where_def)

lemma select_one_update_other:
  assumes "\<And>r. r \<in> set t \<Longrightarrow> Q r \<Longrightarrow> P (f r) = P r" "\<And>r. r \<in> set t \<Longrightarrow> P r \<Longrightarrow> \<not> Q r"
  shows "select_one P (update_where Q f t) = select_one P t"
  using assms by (induction t) (auto simp: select_one_def update_where_def)

lemma update_where_simps [table_simps]:
  "update_where P f [] = []"
  "update_where P f (r # t) = (if P r then f r else r) # update_where P f t"
  "update_where P f (t @ u) = update_where P f t @ update_where P f u"
  "length (update_where P f t) = length t"
  by (simp_all add: update_where_def)

lemma map_update_where [table_simps]:
  "(\<And>r. g (f r) = g r) \<Longrightarrow> map g (update_where P f t) = map g t"
  by (simp add: update_where_def)

lemma key_update_where: "(\<And>x. g (f x) = g x) \<Longrightarrow> g ` set (update_where P f t) = g ` set t"
  by (simp add: map_update_where flip: set_map)

lemma set_update_where [table_simps]:
  "set (update_where P f t) = {r \<in> set t. \<not> P r} \<union> f ` {r \<in> set t. P r}"
  by (auto simp: update_where_def)

lemma delete_where_simps [table_simps]:
  "set (delete_where P t) = {r \<in> set t. \<not> P r}" "delete_where P (t @ u) = delete_where P t @ delete_where P u"
  by (auto simp: delete_where_def)

lemma affected_0 [table_simps]: "affected P t = 0 \<longleftrightarrow> (\<forall>r\<in>set t. \<not> P r)"
  by (auto simp: affected_def filter_empty_conv)

text \<open>A unique key identifies its row.\<close>

lemma distinct_keyD: "distinct (map f t) \<Longrightarrow> a \<in> set t \<Longrightarrow> b \<in> set t \<Longrightarrow> f a = f b \<Longrightarrow> a = b"
  by (auto simp: distinct_map inj_on_def)

lemma distinct_update_key:
  assumes "distinct (map i t)" "distinct (map k t)"
    and "\<And>r x. r \<in> set t \<Longrightarrow> i r = m \<Longrightarrow> x \<in> set t \<Longrightarrow> i x \<noteq> m \<Longrightarrow> k x \<noteq> k (f r)"
  shows "distinct (map k (update_where (\<lambda>r. i r = m) f t))"
  using assms
proof (induction t)
  case (Cons r t)
  have rest: "distinct (map k (update_where (\<lambda>r. i r = m) f t))"
    using Cons by auto
  show ?case
  proof (cases "i r = m")
    case True
    then have "\<forall>x\<in>set t. i x \<noteq> m" using Cons.prems(1) by (auto simp: image_iff)
    then have "update_where (\<lambda>r. i r = m) f t = t" by (simp add: update_where_def map_idI)
    then show ?thesis using True Cons.prems \<open>\<forall>x\<in>set t. i x \<noteq> m\<close> by (fastforce simp: update_where_simps)
  next
    case False
    have "k r \<noteq> k y" if "y \<in> set (update_where (\<lambda>r. i r = m) f t)" for y
      using that False Cons.prems(2) Cons.prems(3) [of _ r] by (auto simp: set_update_where)
    then show ?thesis using False rest by (auto simp: update_where_simps)
  qed
qed (simp add: update_where_def)

section \<open>Strings of the Go library\<close>

text \<open>Go strings are byte strings; so are HOL strings of type \<open>char list\<close>.\<close>

fun HasPrefix :: "string \<Rightarrow> string \<Rightarrow> bool" where
  "HasPrefix s [] = True"
| "HasPrefix [] (p # ps) = False"
| "HasPrefix (c # s) (p # ps) = (c = p \<and> HasPrefix s ps)"

definition TrimPrefix :: "string \<Rightarrow> string \<Rightarrow> string" where
  "TrimPrefix s p = (if HasPrefix s p then drop (length p) s else s)"

lemma HasPrefix_iff [go_simps]: "HasPrefix s p \<longleftrightarrow> (\<exists>r. s = p @ r)"
  by (induction s p rule: HasPrefix.induct) auto

lemma HasPrefix_append [simp]: "HasPrefix (p @ r) p"
  by (auto simp: HasPrefix_iff)

lemma TrimPrefix_append [go_simps]: "TrimPrefix (p @ r) p = r"
  by (simp add: TrimPrefix_def)

text \<open>\<open>strings.Contains\<close> and \<open>strings.SplitN(s, sep, 2)\<close>, which cuts at the first occurrence.\<close>

fun Contains :: "string \<Rightarrow> string \<Rightarrow> bool" where
  "Contains [] sep = (sep = [])"
| "Contains (c # s) sep = (HasPrefix (c # s) sep \<or> Contains s sep)"

fun cut :: "string \<Rightarrow> string \<Rightarrow> (string \<times> string) option" where
  "cut [] sep = (if sep = [] then Some ([], []) else None)"
| "cut (c # s) sep =
     (if HasPrefix (c # s) sep then Some ([], drop (length sep) (c # s))
      else map_option (\<lambda>(a, b). (c # a, b)) (cut s sep))"

lemma cut_Some: "cut s sep = Some (a, b) \<Longrightarrow> s = a @ sep @ b"
proof (induction s arbitrary: a)
  case Nil
  then show ?case by (auto split: if_splits)
next
  case (Cons c s)
  show ?case
  proof (cases "HasPrefix (c # s) sep")
    case True
    then show ?thesis using Cons.prems by (auto simp: HasPrefix_iff)
  next
    case False
    then show ?thesis using Cons by (auto split: option.splits)
  qed
qed

lemma cut_None: "cut s sep = None \<longleftrightarrow> \<not> Contains s sep"
  by (induction s) auto

text \<open>\<open>strings.ReplaceAll(s, c, r)\<close> for a one-character pattern, and \<open>strings.Split\<close> at one character.\<close>

definition replace_char :: "char \<Rightarrow> string \<Rightarrow> string \<Rightarrow> string" where
  "replace_char c r s = concat (map (\<lambda>x. if x = c then r else [x]) s)"

lemma replace_char_simps [go_simps]:
  "replace_char c r [] = []"
  "replace_char c r (x # s) = (if x = c then r else [x]) @ replace_char c r s"
  by (simp_all add: replace_char_def)

fun split_char :: "char \<Rightarrow> string \<Rightarrow> string list" where
  "split_char c [] = [[]]"
| "split_char c (x # s) =
     (if x = c then [] # split_char c s
      else (case split_char c s of [] \<Rightarrow> [[x]] | p # ps \<Rightarrow> (x # p) # ps))"

definition is_space :: "char \<Rightarrow> bool" where
  "is_space ch = (let n = of_char ch :: nat in n = 32 \<or> (9 \<le> n \<and> n \<le> 13))"

definition TrimSpace :: "string \<Rightarrow> string" where
  "TrimSpace s = rev (dropWhile is_space (rev (dropWhile is_space s)))"

end
