(* ===== verification/GoJson.thy ===== *)
theory GoJson
  imports Prelude
begin

text \<open>
  JSON values and the decoding rules of \<open>encoding/json\<close> that the sources rely
  on. A \<open>json.RawMessage\<close> is \<open>raw\<close>: \<open>None\<close> stands for bytes that are no JSON
  document (the empty message among them), \<open>Some v\<close> for a document with value
  \<open>v\<close>. Numbers keep their literal text. Decoding into a struct visits the
  members of an object in order, matches a member to a field whose name is
  equal up to case, lets the last match win, ignores members of no field,
  leaves a field alone on \<open>null\<close>, and on a value of the wrong kind leaves the
  field alone, goes on, and reports an error at the end.
\<close>

datatype json = JNull | JBool bool | JNum string | JStr string | JArr "json list"
  | JObj "(string \<times> json) list"

type_synonym raw = "json option"

text \<open>\<open>strconv.ParseInt(s, 10, 64)\<close>: sign, digits, and the range of \<open>int64\<close>.\<close>

definition is_digit :: "char \<Rightarrow> bool" where
  "is_digit ch = (let n = of_char ch :: nat in 48 \<le> n \<and> n \<le> 57)"

fun digits_val :: "nat \<Rightarrow> string \<Rightarrow> nat option" where
  "digits_val acc [] = Some acc"
| "digits_val acc (ch # s) =
     (if is_digit ch then digits_val (10 * acc + (of_char ch - 48)) s else None)"

definition parse_nat :: "string \<Rightarrow> nat option" where
  "parse_nat s = (if s = [] then None else digits_val 0 s)"

definition int64_range :: "int \<Rightarrow> bool" where
  "int64_range i \<longleftrightarrow> - (2 ^ 63) \<le> i \<and> i < 2 ^ 63"

definition ParseInt :: "string \<Rightarrow> int option" where
  "ParseInt s =
     (let r = (case s of
                 [] \<Rightarrow> None
               | ch # t \<Rightarrow> (if ch = CHR ''-'' then map_option (\<lambda>n. - int n) (parse_nat t)
                            else if ch = CHR ''+'' then map_option int (parse_nat t)
                            else map_option int (parse_nat s)))
      in case r of Some i \<Rightarrow> (if int64_range i then Some i else None) | None \<Rightarrow> None)"

lemma digits_val_append:
  "digits_val a (s @ t) = (case digits_val a s of None \<Rightarrow> None | Some b \<Rightarrow> digits_val b t)"
  by (induction a s rule: digits_val.induct) auto

lemma of_char_digit: "d < 10 \<Longrightarrow> (of_char (char_of (48 + d) :: char) :: nat) = 48 + d"
  by simp

lemma digits_val_nat_str: "digits_val a (nat_str n) = Some (a * 10 ^ length (nat_str n) + n)"
proof (induction n arbitrary: a rule: nat_str.induct)
  case (1 n)
  show ?case
  proof (cases "n < 10")
    case True
    then show ?thesis by (simp add: nat_str.simps [of n] is_digit_def Let_def of_char_digit)
  next
    case False
    let ?q = "n div 10" and ?r = "n mod 10"
    have ns: "nat_str n = nat_str ?q @ [char_of (48 + ?r)]"
      using False by (simp add: nat_str.simps [of n])
    have r: "?r < 10" by simp
    have "digits_val a (nat_str n) = digits_val (a * 10 ^ length (nat_str ?q) + ?q) [char_of (48 + ?r)]"
      using "1.IH" [OF False, of a] by (simp add: ns digits_val_append)
    also have "\<dots> = Some (10 * (a * 10 ^ length (nat_str ?q) + ?q) + ?r)"
      using of_char_digit [OF r] r by (simp add: is_digit_def Let_def)
    also have "\<dots> = Some (a * 10 ^ length (nat_str n) + n)"
      by (simp add: ns algebra_simps)
    finally show ?thesis .
  qed
qed

lemma nat_str_not_Nil [simp]: "nat_str n \<noteq> []"
  by (simp add: nat_str.simps [of n])

lemma parse_nat_nat_str: "parse_nat (nat_str n) = Some n"
  using digits_val_nat_str [of 0 n] by (simp add: parse_nat_def)

lemma nat_str_digits: "c \<in> set (nat_str n) \<Longrightarrow> is_digit c"
proof (induction n rule: nat_str.induct)
  case (1 n)
  have d: "is_digit (char_of (48 + n mod 10))"
    using of_char_digit [of "n mod 10"] by (simp add: is_digit_def Let_def)
  show ?case
  proof (cases "n < 10")
    case True
    then show ?thesis using "1.prems" d by (simp add: nat_str.simps [of n])
  next
    case False
    then have "c \<in> set (nat_str (n div 10)) \<or> c = char_of (48 + n mod 10)"
      using "1.prems" by (auto simp: nat_str.simps [of n])
    then show ?thesis using "1.IH" [OF False] d by blast
  qed
qed

lemma nat_str_inj [simp]: "nat_str m = nat_str n \<longleftrightarrow> m = n"
  using parse_nat_nat_str by (metis option.inject)

lemma ToLower_digits: "(\<And>c. c \<in> set s \<Longrightarrow> is_digit c) \<Longrightarrow> ToLower s = s"
  unfolding ToLower_def
proof (rule map_idI)
  fix c assume "\<And>c. c \<in> set s \<Longrightarrow> is_digit c" "c \<in> set s"
  then have "is_digit c" by blast
  then show "lower_char c = c" by (simp add: lower_char_def is_digit_def Let_def)
qed

lemma ToLower_nat_str [simp]: "ToLower (nat_str n) = nat_str n"
  by (rule ToLower_digits) (rule nat_str_digits)

lemma ParseInt_int_str: "int64_range i \<Longrightarrow> ParseInt (int_str i) = Some i"
proof (cases "i < 0")
  case True
  assume "int64_range i"
  with True show ?thesis
    by (simp add: ParseInt_def int_str_def Let_def parse_nat_nat_str)
next
  case False
  assume rng: "int64_range i"
  obtain c s where cs: "nat_str (nat i) = c # s" by (cases "nat_str (nat i)") auto
  then have "is_digit c" using nat_str_digits [of c "nat i"] by simp
  then have "c \<noteq> CHR ''-''" "c \<noteq> CHR ''+''" by (auto simp: is_digit_def)
  then show ?thesis using False rng cs parse_nat_nat_str [of "nat i"]
    by (simp add: ParseInt_def int_str_def Let_def)
qed

section \<open>Decoding\<close>

type_synonym 'a dec = "json \<Rightarrow> 'a \<Rightarrow> 'a \<times> bool"

definition dec_str :: "string dec" where
  "dec_str v old = (case v of JStr s \<Rightarrow> (s, False) | JNull \<Rightarrow> (old, False) | _ \<Rightarrow> (old, True))"

definition dec_bool :: "bool dec" where
  "dec_bool v old = (case v of JBool b \<Rightarrow> (b, False) | JNull \<Rightarrow> (old, False) | _ \<Rightarrow> (old, True))"

definition dec_int64 :: "int dec" where
  "dec_int64 v old =
     (case v of
        JNum t \<Rightarrow> (case ParseInt t of Some i \<Rightarrow> (i, False) | None \<Rightarrow> (old, True))
      | JNull \<Rightarrow> (old, False) | _ \<Rightarrow> (old, True))"

text \<open>A \<open>json.RawMessage\<close> field takes any value, \<open>null\<close> included.\<close>

definition dec_raw :: "raw dec" where
  "dec_raw v old = (Some v, False)"

text \<open>A pointer field: \<open>null\<close> resets it, any other value is decoded into a fresh target.\<close>

definition dec_ptr :: "'a \<Rightarrow> 'a dec \<Rightarrow> 'a option dec" where
  "dec_ptr zero d v old =
     (if v = JNull then (None, False)
      else let (x, err) = d v (case old of Some o' \<Rightarrow> o' | None \<Rightarrow> zero) in (Some x, err))"

definition dec_list :: "'a \<Rightarrow> 'a dec \<Rightarrow> 'a list dec" where
  "dec_list zero d v old =
     (case v of
        JArr vs \<Rightarrow> (map (\<lambda>x. fst (d x zero)) vs, list_ex (\<lambda>x. snd (d x zero)) vs)
      | JNull \<Rightarrow> ([], False) | _ \<Rightarrow> (old, True))"

definition key_match :: "string \<Rightarrow> string \<Rightarrow> bool" where
  "key_match field key = (field = key \<or> ToLower field = ToLower key)"

text \<open>A field of a struct: its name, how to read it and how to store it.\<close>

type_synonym 'r field = "string \<times> 'r dec"

definition fld :: "string \<Rightarrow> ('r \<Rightarrow> 'a) \<Rightarrow> (('a \<Rightarrow> 'a) \<Rightarrow> 'r \<Rightarrow> 'r) \<Rightarrow> 'a dec \<Rightarrow> 'r field" where
  "fld name get upd d = (name, \<lambda>v r. let (x, err) = d v (get r) in (upd (\<lambda>_. x) r, err))"

fun dec_member :: "'r field list \<Rightarrow> string \<times> json \<Rightarrow> 'r \<Rightarrow> 'r \<times> bool" where
  "dec_member [] kv r = (r, False)"
| "dec_member (f # fs) kv r =
     (if key_match (fst f) (fst kv) then snd f (snd kv) r else dec_member fs kv r)"

fun dec_members :: "'r field list \<Rightarrow> (string \<times> json) list \<Rightarrow> 'r \<Rightarrow> 'r \<times> bool" where
  "dec_members fs [] r = (r, False)"
| "dec_members fs (kv # kvs) r =
     (let (r1, e1) = dec_member fs kv r; (r2, e2) = dec_members fs kvs r1 in (r2, e1 \<or> e2))"

definition dec_struct :: "'r field list \<Rightarrow> 'r dec" where
  "dec_struct fs v r =
     (case v of JObj kvs \<Rightarrow> dec_members fs kvs r | JNull \<Rightarrow> (r, False) | _ \<Rightarrow> (r, True))"

text \<open>\<open>err := json.Unmarshal(raw, &x)\<close> with \<open>x\<close> at its zero value: the value left in \<open>x\<close>, and whether \<open>err != nil\<close>.\<close>

definition unmarshal :: "'a dec \<Rightarrow> 'a \<Rightarrow> raw \<Rightarrow> 'a \<times> bool" where
  "unmarshal d zero r = (case r of None \<Rightarrow> (zero, True) | Some v \<Rightarrow> d v zero)"

definition jint :: "int \<Rightarrow> json" where
  "jint i = JNum (int_str i)"

text \<open>\<open>json.Marshal\<close> of a map or struct that embeds raw messages fails when one of them is no document.\<close>

definition marshal_obj :: "(string \<times> raw) list \<Rightarrow> raw" where
  "marshal_obj kvs =
     (if list_all (\<lambda>(k, v). v \<noteq> None) kvs then Some (JObj (map (\<lambda>(k, v). (k, the v)) kvs)) else None)"

lemma dec_int64_jint: "int64_range i \<Longrightarrow> dec_int64 (jint i) old = (i, False)"
  by (simp add: dec_int64_def jint_def ParseInt_int_str)

lemmas json_simps = dec_str_def dec_bool_def dec_raw_def dec_int64_jint dec_struct_def fld_def
  key_match_def ToLower_def lower_char_def unmarshal_def marshal_obj_def Let_def

section \<open>Encoding\<close>

text \<open>
  The compact text \<open>json.Marshal\<close> writes: strings escape the quote, the
  backslash, control characters and, as Go does by default, the three
  characters that are special in HTML.
\<close>

definition hex_digit :: "nat \<Rightarrow> char" where
  "hex_digit n = char_of (if n < 10 then 48 + n else 87 + n)"

definition esc_char :: "char \<Rightarrow> string" where
  "esc_char ch =
     (let n = of_char ch :: nat in
      if n = 34 then [CHR 0x5C, CHR 0x22]
      else if n = 92 then [CHR 0x5C, CHR 0x5C]
      else if n = 8 then [CHR 0x5C, CHR ''b'']
      else if n = 9 then [CHR 0x5C, CHR ''t'']
      else if n = 10 then [CHR 0x5C, CHR ''n'']
      else if n = 12 then [CHR 0x5C, CHR ''f'']
      else if n = 13 then [CHR 0x5C, CHR ''r'']
      else if n < 32 \<or> n = 38 \<or> n = 60 \<or> n = 62
        then CHR 0x5C # ''u00'' @ [hex_digit (n div 16), hex_digit (n mod 16)]
      else [ch])"

definition quote_json :: "string \<Rightarrow> string" where
  "quote_json s = CHR 0x22 # concat (map esc_char s) @ [CHR 0x22]"

fun join :: "string \<Rightarrow> string list \<Rightarrow> string" where
  "join sep [] = []"
| "join sep [x] = x"
| "join sep (x # y # xs) = x @ sep @ join sep (y # xs)"

fun jprint :: "json \<Rightarrow> string" where
  "jprint JNull = ''null''"
| "jprint (JBool b) = (if b then ''true'' else ''false'')"
| "jprint (JNum t) = t"
| "jprint (JStr s) = quote_json s"
| "jprint (JArr vs) = ''['' @ join '','' (map jprint vs) @ '']''"
| "jprint (JObj kvs) =
     ''{'' @ join '','' (map (\<lambda>kv. quote_json (fst kv) @ '':'' @ jprint (snd kv)) kvs) @ ''}''"

text \<open>\<open>len(raw)\<close> of a raw message in its compact form.\<close>

definition raw_text :: "raw \<Rightarrow> string" where
  "raw_text r = (case r of None \<Rightarrow> [] | Some v \<Rightarrow> jprint v)"

definition raw_len :: "raw \<Rightarrow> nat" where
  "raw_len r = length (raw_text r)"

section \<open>Parsing\<close>

text \<open>
  The scanner of \<open>encoding/json\<close>: white space, literals, numbers kept as text,
  strings with their escapes (a lone surrogate becomes U+FFFD), arrays and
  objects. Strings are UTF-8 byte strings; the input is taken to be valid
  UTF-8. The fuel \<open>2 * length s + 2\<close> covers every nesting, since every second
  call consumes a character.
\<close>

definition json_space :: "char \<Rightarrow> bool" where
  "json_space ch = (let n = of_char ch :: nat in n = 32 \<or> n = 9 \<or> n = 10 \<or> n = 13)"

definition hex_val :: "char \<Rightarrow> nat option" where
  "hex_val ch =
     (let n = of_char ch :: nat in
      if 48 \<le> n \<and> n \<le> 57 then Some (n - 48)
      else if 97 \<le> n \<and> n \<le> 102 then Some (n - 87)
      else if 65 \<le> n \<and> n \<le> 70 then Some (n - 55) else None)"

fun hex4 :: "string \<Rightarrow> (nat \<times> string) option" where
  "hex4 (a # b # c # d # s) =
     (case (hex_val a, hex_val b, hex_val c, hex_val d) of
        (Some w, Some x, Some y, Some z) \<Rightarrow> Some (((w * 16 + x) * 16 + y) * 16 + z, s)
      | _ \<Rightarrow> None)"
| "hex4 _ = None"

definition utf8 :: "nat \<Rightarrow> string" where
  "utf8 n =
     (if n < 128 then [char_of n]
      else if n < 2048 then [char_of (192 + n div 64), char_of (128 + n mod 64)]
      else if n < 65536 then [char_of (224 + n div 4096), char_of (128 + n div 64 mod 64), char_of (128 + n mod 64)]
      else [char_of (240 + n div 262144), char_of (128 + n div 4096 mod 64), char_of (128 + n div 64 mod 64),
            char_of (128 + n mod 64)])"

text \<open>After \<open>\u\<close>: one code unit, or a surrogate pair.\<close>

definition unescape_u :: "string \<Rightarrow> (string \<times> string) option" where
  "unescape_u s =
     (case hex4 s of
        None \<Rightarrow> None
      | Some (u, rest) \<Rightarrow>
          (if 55296 \<le> u \<and> u < 57344 then
             (case (if u < 56320 \<and> take 2 rest = [CHR 0x5C, CHR ''u''] then hex4 (drop 2 rest) else None) of
                Some (v, rest') \<Rightarrow>
                  (if 56320 \<le> v \<and> v < 57344
                   then Some (utf8 (65536 + (u - 55296) * 1024 + (v - 56320)), rest')
                   else Some (utf8 65533, rest))
              | None \<Rightarrow> Some (utf8 65533, rest))
           else Some (utf8 u, rest)))"

definition unescape1 :: "char \<Rightarrow> string option" where
  "unescape1 ch =
     (if ch = CHR 0x22 \<or> ch = CHR 0x5C \<or> ch = CHR ''/'' then Some [ch]
      else if ch = CHR ''b'' then Some [CHR 0x08]
      else if ch = CHR ''f'' then Some [CHR 0x0C]
      else if ch = CHR ''n'' then Some [CHR 0x0A]
      else if ch = CHR ''r'' then Some [CHR 0x0D]
      else if ch = CHR ''t'' then Some [CHR 0x09] else None)"

text \<open>The rest of a string literal after its opening quote.\<close>

fun parse_str :: "nat \<Rightarrow> string \<Rightarrow> (string \<times> string) option" where
  "parse_str 0 s = None"
| "parse_str (Suc n) s =
     (case s of
        [] \<Rightarrow> None
      | ch # t \<Rightarrow>
          (if ch = CHR 0x22 then Some ([], t)
           else if ch = CHR 0x5C then
             (case t of
                [] \<Rightarrow> None
              | esc # u \<Rightarrow>
                  (case (if esc = CHR ''u'' then unescape_u u else map_option (\<lambda>x. (x, u)) (unescape1 esc)) of
                     None \<Rightarrow> None
                   | Some (x, rest) \<Rightarrow> map_option (\<lambda>(y, r). (x @ y, r)) (parse_str n rest)))
           else if (of_char ch :: nat) < 32 then None
           else map_option (\<lambda>(y, r). (ch # y, r)) (parse_str n t)))"

definition digits1 :: "string \<Rightarrow> (string \<times> string) option" where
  "digits1 s = (let ds = takeWhile is_digit s in if ds = [] then None else Some (ds, dropWhile is_digit s))"

definition parse_num :: "string \<Rightarrow> (string \<times> string) option" where
  "parse_num s0 =
     (let (sgn, s1) = (case s0 of ch # t \<Rightarrow> if ch = CHR ''-'' then ([ch], t) else ([], s0) | [] \<Rightarrow> ([], s0)) in
      case (case s1 of ch # t \<Rightarrow> if ch = CHR ''0'' then Some ([ch], t) else digits1 s1 | [] \<Rightarrow> None) of
        None \<Rightarrow> None
      | Some (ip, s2) \<Rightarrow>
          (case (case s2 of ch # t \<Rightarrow> if ch = CHR ''.'' then map_option (\<lambda>(d, r). (ch # d, r)) (digits1 t)
                                      else Some ([], s2)
                 | [] \<Rightarrow> Some ([], s2)) of
             None \<Rightarrow> None
           | Some (fp, s3) \<Rightarrow>
               (case s3 of
                  [] \<Rightarrow> Some (sgn @ ip @ fp, [])
                | ch # t \<Rightarrow>
                    (if ch = CHR ''e'' \<or> ch = CHR ''E'' then
                       (let (es, t1) = (case t of g # t' \<Rightarrow> if g = CHR ''+'' \<or> g = CHR ''-'' then ([g], t') else ([], t)
                                        | [] \<Rightarrow> ([], t))
                        in map_option (\<lambda>(d, r). (sgn @ ip @ fp @ ch # es @ d, r)) (digits1 t1))
                     else Some (sgn @ ip @ fp, s3)))))"

definition skip_space :: "string \<Rightarrow> string" where
  "skip_space = dropWhile json_space"

fun parse_value :: "nat \<Rightarrow> string \<Rightarrow> (json \<times> string) option"
  and parse_elems :: "nat \<Rightarrow> string \<Rightarrow> (json list \<times> string) option"
  and parse_members :: "nat \<Rightarrow> string \<Rightarrow> ((string \<times> json) list \<times> string) option" where
  "parse_value 0 s = None"
| "parse_value (Suc n) s0 =
     (case skip_space s0 of
        [] \<Rightarrow> None
      | ch # t \<Rightarrow>
          (if ch = CHR 0x22 then map_option (\<lambda>(x, r). (JStr x, r)) (parse_str (length t) t)
           else if ch = CHR ''['' then
             (case skip_space t of
                c2 # r \<Rightarrow> if c2 = CHR '']'' then Some (JArr [], r)
                           else map_option (\<lambda>(vs, r). (JArr vs, r)) (parse_elems n t)
              | [] \<Rightarrow> None)
           else if ch = CHR ''{'' then
             (case skip_space t of
                c2 # r \<Rightarrow> if c2 = CHR ''}'' then Some (JObj [], r)
                           else map_option (\<lambda>(ms, r). (JObj ms, r)) (parse_members n t)
              | [] \<Rightarrow> None)
           else if HasPrefix (ch # t) ''null'' then Some (JNull, drop 3 t)
           else if HasPrefix (ch # t) ''true'' then Some (JBool True, drop 3 t)
           else if HasPrefix (ch # t) ''false'' then Some (JBool False, drop 4 t)
           else map_option (\<lambda>(x, r). (JNum x, r)) (parse_num (ch # t))))"
| "parse_elems 0 s = None"
| "parse_elems (Suc n) s =
     (case parse_value n s of
        None \<Rightarrow> None
      | Some (v, r) \<Rightarrow>
          (case skip_space r of
             ch # r' \<Rightarrow> if ch = CHR '','' then map_option (\<lambda>(vs, r). (v # vs, r)) (parse_elems n r')
                        else if ch = CHR '']'' then Some ([v], r') else None
           | [] \<Rightarrow> None))"
| "parse_members 0 s = None"
| "parse_members (Suc n) s =
     (case skip_space s of
        ch # t \<Rightarrow>
          (if ch = CHR 0x22 then
             (case parse_str (length t) t of
                None \<Rightarrow> None
              | Some (k, r) \<Rightarrow>
                  (case skip_space r of
                     c2 # r2 \<Rightarrow>
                       (if c2 = CHR '':'' then
                          (case parse_value n r2 of
                             None \<Rightarrow> None
                           | Some (v, r3) \<Rightarrow>
                               (case skip_space r3 of
                                  c4 # r4 \<Rightarrow>
                                    (if c4 = CHR '','' then map_option (\<lambda>(ms, r). ((k, v) # ms, r)) (parse_members n r4)
                                     else if c4 = CHR ''}'' then Some ([(k, v)], r4) else None)
                                | [] \<Rightarrow> None))
                        else None)
                   | [] \<Rightarrow> None))
           else None)
      | [] \<Rightarrow> None)"

definition jparse :: "string \<Rightarrow> raw" where
  "jparse s =
     (case parse_value (2 * length s + 2) s of
        Some (v, r) \<Rightarrow> if skip_space r = [] then Some v else None
      | None \<Rightarrow> None)"

lemma jparse_empty [simp]: "jparse [] = None"
  by (simp add: jparse_def skip_space_def)

section \<open>Quoting and wrapping\<close>

text \<open>\<open>%q\<close>: a Go string literal; bytes from 128 on belong to printable runes and stay.\<close>

definition goquote_char :: "char \<Rightarrow> string" where
  "goquote_char ch =
     (let n = of_char ch :: nat in
      if n = 34 then [CHR 0x5C, CHR 0x22]
      else if n = 92 then [CHR 0x5C, CHR 0x5C]
      else if n = 7 then [CHR 0x5C, CHR ''a''] else if n = 8 then [CHR 0x5C, CHR ''b'']
      else if n = 12 then [CHR 0x5C, CHR ''f''] else if n = 10 then [CHR 0x5C, CHR ''n'']
      else if n = 13 then [CHR 0x5C, CHR ''r''] else if n = 9 then [CHR 0x5C, CHR ''t'']
      else if n = 11 then [CHR 0x5C, CHR ''v'']
      else if n < 32 \<or> n = 127 then CHR 0x5C # ''x'' @ [hex_digit (n div 16), hex_digit (n mod 16)]
      else [ch])"

definition goquote :: "string \<Rightarrow> string" where
  "goquote s = CHR 0x22 # concat (map goquote_char s) @ [CHR 0x22]"

text \<open>Arithmetic of \<open>int\<close> and \<open>time.Duration\<close> wraps at 64 bits.\<close>

definition wrap64 :: "int \<Rightarrow> int" where
  "wrap64 i = (i + 2 ^ 63) mod 2 ^ 64 - 2 ^ 63"

lemma wrap64_id: "int64_range i \<Longrightarrow> wrap64 i = i"
  by (simp add: wrap64_def int64_range_def)

lemma wrap64_range: "int64_range (wrap64 i)"
  using pos_mod_sign [of "2 ^ 64 :: int" "i + 2 ^ 63"] pos_mod_bound [of "2 ^ 64 :: int" "i + 2 ^ 63"]
  by (simp add: wrap64_def int64_range_def)

end
