(* ===== verification/Provider.thy ===== *)
theory Provider
  imports GoJson
begin

text \<open>
  The types of \<open>internal/provider/provider.go\<close>: the messages handed to a
  language model, the events it streams back, and the classification of its
  errors that drives the retry loop.
\<close>

section \<open>Errors and their classification\<close>

text \<open>\<open>(*APIError).Retryable\<close>: by HTTP status where there is one, else by the error type.\<close>

definition api_retryable :: "int \<Rightarrow> string \<Rightarrow> bool" where
  "api_retryable code t =
     (if code = 429 then True
      else if code \<ge> 500 then True
      else if code \<ge> 400 then False
      else t = ''network'' \<or> t = ''timeout'' \<or> t = ''overloaded_error'' \<or> t = ''api_error''
           \<or> t = ''rate_limit_error'')"

text \<open>\<open>retryable(err)\<close> of the harness: \<open>errors.As\<close> finds the first \<open>APIError\<close> of the chain.\<close>

fun retryable :: "gerr \<Rightarrow> bool" where
  "retryable (ApiErr code t m) = api_retryable code t"
| "retryable (Wrap m e) = retryable e"
| "retryable _ = False"

section \<open>Messages\<close>

datatype role = RoleSystem | RoleUser | RoleAssistant | RoleTool

record content_block =
  cb_Type :: string
  cb_Text :: string
  cb_ToolUseID :: string
  cb_ToolName :: string
  cb_ToolInput :: raw
  cb_ToolResult :: string
  cb_IsError :: bool

definition zero_block :: content_block where
  "zero_block = \<lparr>cb_Type = [], cb_Text = [], cb_ToolUseID = [], cb_ToolName = [],
     cb_ToolInput = None, cb_ToolResult = [], cb_IsError = False\<rparr>"

text \<open>The struct tags of \<open>ContentBlock\<close>.\<close>

definition dec_block :: "content_block dec" where
  "dec_block = dec_struct
     [fld ''type'' cb_Type cb_Type_update dec_str,
      fld ''text'' cb_Text cb_Text_update dec_str,
      fld ''tool_use_id'' cb_ToolUseID cb_ToolUseID_update dec_str,
      fld ''name'' cb_ToolName cb_ToolName_update dec_str,
      fld ''input'' cb_ToolInput cb_ToolInput_update dec_raw,
      fld ''content'' cb_ToolResult cb_ToolResult_update dec_str,
      fld ''is_error'' cb_IsError cb_IsError_update dec_bool]"

record message =
  m_Role :: role
  m_Content :: "content_block list"

record tool_def =
  td_Name :: string
  td_Description :: string
  td_InputSchema :: raw

text \<open>The temperature of a request, which no caller sets, is handed to the builder of a body separately.\<close>

record chat_request =
  cr_Model :: string
  cr_System :: string
  cr_Messages :: "message list"
  cr_Tools :: "tool_def list"
  cr_MaxTokens :: int

section \<open>Stream events\<close>

record usage =
  u_InputTokens :: int
  u_OutputTokens :: int
  u_CacheCreation :: int
  u_CacheRead :: int

definition zero_usage :: usage where
  "zero_usage = \<lparr>u_InputTokens = 0, u_OutputTokens = 0, u_CacheCreation = 0, u_CacheRead = 0\<rparr>"

text \<open>\<open>ChatEvent\<close>; a stream is the list of the events received before its channel is closed.\<close>

datatype chat_event =
    TextDelta string
  | ToolUseStart string string
  | ToolUseDelta string string
  | StopReason string usage
  | ErrorEvent string string int

text \<open>\<open>Provider.Stream\<close> is an interface: at each tick and request it fails or answers with a stream.\<close>

type_synonym provider = "nat \<Rightarrow> chat_request \<Rightarrow> gerr + chat_event list"

section \<open>The sandbox interface\<close>

text \<open>
  \<open>Sandbox.Exec\<close> of \<open>internal/sandbox/sandbox.go\<close>: the outcome of running arguments at a
  tick, with a timeout in nanoseconds (0: none given).
\<close>

record exec_result =
  er_ExitCode :: int
  er_Stdout :: string
  er_Stderr :: string

type_synonym exec = "nat \<Rightarrow> string list \<Rightarrow> int \<Rightarrow> gerr + exec_result"

lemma retryable_Wrap_iff: "retryable (Wrap m e) \<longleftrightarrow> retryable e"
  by simp

end
