(* ===== verification/Tables.thy ===== *)
theory Tables
  imports Provider
begin

text \<open>
  The rows of the database tables (\<open>internal/store\<close>), the channels of the
  event broker, and the state of the whole program: one list per table, the
  broker, logs of the calls that leave the program, and whether a goroutine panicked.
\<close>

section \<open>Rows\<close>

record SessionRow =
  ss_ID :: string
  ss_TenantID :: string
  ss_AgentID :: string
  ss_AgentVersion :: int
  ss_AgentSnapshot :: raw
  ss_EnvironmentID :: string
  ss_Status :: string
  ss_Title :: "string option"
  ss_Metadata :: raw
  ss_VaultIDs :: raw
  ss_CreatedAt :: int
  ss_UpdatedAt :: int
  ss_ArchivedAt :: "int option"
  ss_TerminatedAt :: "int option"
  ss_NextSeq :: int
  ss_UsageInput :: int
  ss_UsageOutput :: int
  ss_UsageCacheCreate :: int
  ss_UsageCacheRead :: int

record EventRow =
  ev_ID :: string
  ev_SessionID :: string
  ev_ThreadID :: string
  ev_Seq :: int
  ev_Type :: string
  ev_Payload :: raw
  ev_ProcessedAt :: "int option"
  ev_CreatedAt :: int

record SessionResourceRow =
  sr_ID :: string
  sr_SessionID :: string
  sr_Type :: string
  sr_Payload :: raw
  sr_CreatedAt :: int

record AgentTableRow =
  at_ID :: string
  at_TenantID :: string
  at_Name :: string
  at_ArchivedAt :: "int option"
  at_CreatedAt :: int
  at_UpdatedAt :: int
  at_CurrentVersion :: int

record AgentVersionRow =
  av_AgentID :: string
  av_Version :: int
  av_Name :: string
  av_Model :: raw
  av_System :: "string option"
  av_Description :: "string option"
  av_Tools :: raw
  av_MCPServers :: raw
  av_Skills :: raw
  av_Multiagent :: "json option"
  av_Metadata :: raw
  av_CreatedAt :: int

record EnvironmentRow =
  en_ID :: string
  en_TenantID :: string
  en_Name :: string
  en_Config :: raw
  en_ArchivedAt :: "int option"
  en_CreatedAt :: int
  en_UpdatedAt :: int

record VaultRow =
  va_ID :: string
  va_TenantID :: string
  va_DisplayName :: string
  va_Metadata :: raw
  va_ArchivedAt :: "int option"
  va_CreatedAt :: int
  va_UpdatedAt :: int

record CredentialRow =
  cd_ID :: string
  cd_VaultID :: string
  cd_TenantID :: string
  cd_DisplayName :: string
  cd_AuthType :: string
  cd_MCPServerURL :: string
  cd_MCPServerHost :: string
  cd_Cipher :: string
  cd_CipherNonce :: string
  cd_CipherLabel :: string
  cd_ArchivedAt :: "int option"
  cd_CreatedAt :: int
  cd_UpdatedAt :: int

record MemoryStoreRow =
  ms_ID :: string
  ms_TenantID :: string
  ms_Name :: string
  ms_Description :: "string option"
  ms_ArchivedAt :: "int option"
  ms_CreatedAt :: int
  ms_UpdatedAt :: int

record MemoryRow =
  mm_ID :: string
  mm_StoreID :: string
  mm_TenantID :: string
  mm_Path :: string
  mm_Content :: string
  mm_Sha256 :: string
  mm_Size :: int
  mm_CreatedAt :: int
  mm_UpdatedAt :: int

record MemoryVersionRow =
  mv_ID :: string
  mv_StoreID :: string
  mv_MemoryID :: string
  mv_TenantID :: string
  mv_Operation :: string
  mv_Path :: "string option"
  mv_Content :: "string option"
  mv_Sha256 :: "string option"
  mv_Size :: "int option"
  mv_CreatedAt :: int
  mv_RedactedAt :: "int option"

record WebhookEndpointRow =
  we_ID :: string
  we_TenantID :: string
  we_URL :: string
  we_EventTypes :: raw
  we_SigningSecret :: string
  we_DisabledAt :: "int option"
  we_DisabledReason :: "string option"
  we_Failures :: int
  we_CreatedAt :: int
  we_UpdatedAt :: int

record WebhookDeliveryRow =
  wd_ID :: string
  wd_EndpointID :: string
  wd_EventID :: string
  wd_EventType :: string
  wd_Payload :: raw
  wd_Attempt :: int
  wd_NextAttemptAt :: "int option"
  wd_DeliveredAt :: "int option"
  wd_LastStatus :: "int option"
  wd_LastError :: "string option"
  wd_CreatedAt :: int

record UserRow =
  us_ID :: string
  us_TenantID :: string
  us_Email :: string
  us_Name :: string
  us_PasswordHash :: string
  us_CreatedAt :: int
  us_UpdatedAt :: int

record AuthSessionRow =
  as_ID :: string
  as_UserID :: string
  as_TenantID :: string
  as_ExpiresAt :: int
  as_CreatedAt :: int

record APIKeyRow =
  ak_ID :: string
  ak_TenantID :: string
  ak_UserID :: "string option"
  ak_Name :: string
  ak_Prefix :: string
  ak_Hash :: string
  ak_CreatedAt :: int
  ak_RevokedAt :: "int option"

record FileRow =
  fi_ID :: string
  fi_TenantID :: string
  fi_Filename :: string
  fi_ContentType :: string
  fi_Blob :: string
  fi_Size :: int
  fi_CreatedAt :: int
  fi_UpdatedAt :: int

record SkillRow =
  sk_ID :: string
  sk_TenantID :: string
  sk_Name :: string
  sk_Description :: string
  sk_FilesJSON :: raw
  sk_SkillMD :: string
  sk_CreatedAt :: int
  sk_UpdatedAt :: int

section \<open>The broker's channels\<close>

text \<open>
  \<open>event.Event\<close>, and a buffered Go channel of them: the items not yet received,
  and whether the channel has been closed. Channels are named by their
  position in the list of all channels made so far.
\<close>

record Event =
  be_ID :: string
  be_SessionID :: string
  be_ThreadID :: string
  be_Type :: string
  be_Seq :: int
  be_Payload :: raw
  be_ProcessedAt :: int

record chan =
  ch_buf :: "Event list"
  ch_closed :: bool

section \<open>The state of the program\<close>

record world = base +
  sessions :: "SessionRow list"
  events :: "EventRow list"
  resources :: "SessionResourceRow list"
  agents :: "AgentTableRow list"
  agent_versions :: "AgentVersionRow list"
  environments :: "EnvironmentRow list"
  vaults :: "VaultRow list"
  credentials :: "CredentialRow list"
  memory_stores :: "MemoryStoreRow list"
  memories :: "MemoryRow list"
  memory_versions :: "MemoryVersionRow list"
  endpoints :: "WebhookEndpointRow list"
  deliveries :: "WebhookDeliveryRow list"
  users :: "UserRow list"
  auth_sessions :: "AuthSessionRow list"
  api_keys :: "APIKeyRow list"
  files :: "FileRow list"
  skills :: "SkillRow list"
  chans :: "chan list"
  subs :: "(string \<times> nat) list"
  hooked :: "Event list"
  llm_log :: "chat_request list"
  exec_log :: "(string \<times> raw) list"
  panicked :: bool

definition empty_world :: world where
  "empty_world = \<lparr>tick = 0, sessions = [], events = [], resources = [], agents = [],
     agent_versions = [], environments = [], vaults = [], credentials = [], memory_stores = [],
     memories = [], memory_versions = [], endpoints = [], deliveries = [], users = [],
     auth_sessions = [], api_keys = [], files = [], skills = [], chans = [], subs = [],
     hooked = [], llm_log = [], exec_log = [], panicked = False\<rparr>"

text \<open>
  \<open>tx.Rollback()\<close>: the tables are those of the start of the transaction, while
  the ticks that passed have passed.
\<close>

definition in_tx :: "(world, 'a) io \<Rightarrow> (world, 'a) io" where
  "in_tx m w = (case m w of (Inl e, w') \<Rightarrow> (Inl e, w\<lparr>tick := tick w'\<rparr>) | (Inr x, w') \<Rightarrow> (Inr x, w'))"

section \<open>Statements on the state\<close>

text \<open>A question to the outside: the answer of a function at the current tick.\<close>

definition askE :: "(nat \<Rightarrow> 'a) \<Rightarrow> (world, 'a) io" where
  "askE f w = (Inr (f (tick w)), w\<lparr>tick := Suc (tick w)\<rparr>)"

text \<open>
  A query reads the state after its statement was accepted; an insert checks
  the constraints of its table; an update or delete yields the number of rows
  it affected. Each of them can fail at its tick without touching a table.
\<close>

definition queryE :: "env \<Rightarrow> ctx \<Rightarrow> (world \<Rightarrow> 'a) \<Rightarrow> (world, 'a) io" where
  "queryE e c f = bindE (stmt e c) (\<lambda>_. getsE f)"

definition insertE :: "env \<Rightarrow> ctx \<Rightarrow> (world \<Rightarrow> bool) \<Rightarrow> (world \<Rightarrow> world) \<Rightarrow> (world, unit) io" where
  "insertE e c ok f = bindE (stmt e c)
     (\<lambda>_ w. if ok w then (Inr (), f w) else (Inl (DBError ''constraint failed''), w))"

definition updateE :: "env \<Rightarrow> ctx \<Rightarrow> (world \<Rightarrow> nat) \<Rightarrow> (world \<Rightarrow> world) \<Rightarrow> (world, nat) io" where
  "updateE e c n f = bindE (stmt e c) (\<lambda>_ w. (Inr (n w), f w))"

text \<open>An update whose new values must satisfy the constraints of the table.\<close>

definition checked_updateE ::
  "env \<Rightarrow> ctx \<Rightarrow> (world \<Rightarrow> bool) \<Rightarrow> (world \<Rightarrow> nat) \<Rightarrow> (world \<Rightarrow> world) \<Rightarrow> (world, nat) io" where
  "checked_updateE e c ok n f = bindE (stmt e c)
     (\<lambda>_ w. if ok w then (Inr (n w), f w) else (Inl (DBError ''constraint failed''), w))"

text \<open>\<open>fmt.Errorf("m: %w", err)\<close> around a failing call, and a missing row reported as \<open>ErrNotFound\<close>.\<close>

definition wrapE :: "string \<Rightarrow> (world, 'a) io \<Rightarrow> (world, 'a) io" where
  "wrapE m f = catchE f (\<lambda>err. throwE (Wrap m err))"

definition optE :: "gerr \<Rightarrow> 'a option \<Rightarrow> (world, 'a) io" where
  "optE err r = (case r of None \<Rightarrow> throwE err | Some x \<Rightarrow> returnE x)"

text \<open>The loops \<open>for rows.Next()\<close> that fetch each row by its id.\<close>

fun mapE :: "('a \<Rightarrow> (world, 'b) io) \<Rightarrow> 'a list \<Rightarrow> (world, 'b list) io" where
  "mapE f [] = returnE []"
| "mapE f (x # xs) = bindE (f x) (\<lambda>y. bindE (mapE f xs) (\<lambda>ys. returnE (y # ys)))"

text \<open>A loop that stops at the first error.\<close>

fun forE :: "('a \<Rightarrow> (world, unit) io) \<Rightarrow> 'a list \<Rightarrow> (world, unit) io" where
  "forE f [] = returnE ()"
| "forE f (x # xs) = bindE (f x) (\<lambda>_. forE f xs)"

definition same_tables :: "world \<Rightarrow> world \<Rightarrow> bool" where
  "same_tables w w' \<longleftrightarrow> (\<exists>d. w' = w\<lparr>tick := tick w + d\<rparr>)"

lemma same_tablesI: "w' = w\<lparr>tick := tick w + d\<rparr> \<Longrightarrow> same_tables w w'"
  by (auto simp: same_tables_def)

lemma same_tables_refl [simp]: "same_tables w w"
  by (rule same_tablesI [where d = 0]) simp

lemma same_tables_trans: "same_tables a b \<Longrightarrow> same_tables b c \<Longrightarrow> same_tables a c"
  by (auto simp: same_tables_def add.assoc)

lemma same_tables_Suc [simp]: "same_tables w (w\<lparr>tick := Suc (tick w)\<rparr>)"
  by (rule same_tablesI [where d = 1]) simp

lemma same_tables_fields:
  assumes "same_tables w w'"
  shows "sessions w' = sessions w" "events w' = events w" "resources w' = resources w"
    "agents w' = agents w" "agent_versions w' = agent_versions w" "environments w' = environments w"
    "vaults w' = vaults w" "credentials w' = credentials w" "memory_stores w' = memory_stores w"
    "memories w' = memories w" "memory_versions w' = memory_versions w" "endpoints w' = endpoints w"
    "deliveries w' = deliveries w" "users w' = users w" "auth_sessions w' = auth_sessions w"
    "api_keys w' = api_keys w" "chans w' = chans w" "subs w' = subs w" "hooked w' = hooked w"
    "llm_log w' = llm_log w" "exec_log w' = exec_log w" "panicked w' = panicked w" "tick w \<le> tick w'"
  using assms by (auto simp: same_tables_def)

text \<open>How each statement can end.\<close>

lemma queryE_cases:
  obtains (ok) "queryE e c f w = (Inr (f (w\<lparr>tick := Suc (tick w)\<rparr>)), w\<lparr>tick := Suc (tick w)\<rparr>)"
          | (err) x where "queryE e c f w = (Inl x, w\<lparr>tick := Suc (tick w)\<rparr>)"
  by (rule stmt_cases [of e c w]) (auto simp: queryE_def bindE_def getsE_def)

lemma queryE_snd [simp]: "snd (queryE e c f w) = w\<lparr>tick := Suc (tick w)\<rparr>"
  by (rule queryE_cases [of e c f w]) auto

lemma queryE_ok [io_simps]:
  "no_faults e \<Longrightarrow> \<not> cancelled c (tick w) \<Longrightarrow>
     queryE e c f w = (Inr (f (w\<lparr>tick := Suc (tick w)\<rparr>)), w\<lparr>tick := Suc (tick w)\<rparr>)"
  by (simp add: queryE_def bindE_def getsE_def stmt_ok)

lemma insertE_cases:
  obtains (ok) "ok (w\<lparr>tick := Suc (tick w)\<rparr>)"
               "insertE e c ok f w = (Inr (), f (w\<lparr>tick := Suc (tick w)\<rparr>))"
          | (err) x where "insertE e c ok f w = (Inl x, w\<lparr>tick := Suc (tick w)\<rparr>)"
  by (rule stmt_cases [of e c w]; cases "ok (w\<lparr>tick := Suc (tick w)\<rparr>)")
    (auto simp: insertE_def bindE_def)

lemma insertE_ok [io_simps]:
  "no_faults e \<Longrightarrow> \<not> cancelled c (tick w) \<Longrightarrow> ok (w\<lparr>tick := Suc (tick w)\<rparr>) \<Longrightarrow>
     insertE e c ok f w = (Inr (), f (w\<lparr>tick := Suc (tick w)\<rparr>))"
  by (simp add: insertE_def bindE_def stmt_ok)

lemma insertE_violation [io_simps]:
  "no_faults e \<Longrightarrow> \<not> cancelled c (tick w) \<Longrightarrow> \<not> ok (w\<lparr>tick := Suc (tick w)\<rparr>) \<Longrightarrow>
     insertE e c ok f w = (Inl (DBError ''constraint failed''), w\<lparr>tick := Suc (tick w)\<rparr>)"
  by (simp add: insertE_def bindE_def stmt_ok)

lemma updateE_cases:
  obtains (ok) "updateE e c n f w =
                 (Inr (n (w\<lparr>tick := Suc (tick w)\<rparr>)), f (w\<lparr>tick := Suc (tick w)\<rparr>))"
          | (err) x where "updateE e c n f w = (Inl x, w\<lparr>tick := Suc (tick w)\<rparr>)"
  by (rule stmt_cases [of e c w]) (auto simp: updateE_def bindE_def)

lemma updateE_ok [io_simps]:
  "no_faults e \<Longrightarrow> \<not> cancelled c (tick w) \<Longrightarrow>
     updateE e c n f w = (Inr (n (w\<lparr>tick := Suc (tick w)\<rparr>)), f (w\<lparr>tick := Suc (tick w)\<rparr>))"
  by (simp add: updateE_def bindE_def stmt_ok)

lemma checked_updateE_ok [io_simps]:
  "no_faults e \<Longrightarrow> \<not> cancelled c (tick w) \<Longrightarrow> ok (w\<lparr>tick := Suc (tick w)\<rparr>) \<Longrightarrow>
     checked_updateE e c ok n f w = (Inr (n (w\<lparr>tick := Suc (tick w)\<rparr>)), f (w\<lparr>tick := Suc (tick w)\<rparr>))"
  by (simp add: checked_updateE_def bindE_def stmt_ok)

lemma checked_updateE_violation [io_simps]:
  "no_faults e \<Longrightarrow> \<not> cancelled c (tick w) \<Longrightarrow> \<not> ok (w\<lparr>tick := Suc (tick w)\<rparr>) \<Longrightarrow>
     checked_updateE e c ok n f w = (Inl (DBError ''constraint failed''), w\<lparr>tick := Suc (tick w)\<rparr>)"
  by (simp add: checked_updateE_def bindE_def stmt_ok)

text \<open>
  On a cancelled context the three statements fail and touch nothing.
\<close>

lemma cancelled_stmts [io_simps]:
  assumes "cancelled c (tick w)"
  shows "queryE e c f w = (Inl Canceled, w\<lparr>tick := Suc (tick w)\<rparr>)"
    "insertE e c ok g w = (Inl Canceled, w\<lparr>tick := Suc (tick w)\<rparr>)"
    "updateE e c n g w = (Inl Canceled, w\<lparr>tick := Suc (tick w)\<rparr>)"
  using assms by (simp_all add: queryE_def insertE_def updateE_def bindE_def stmt_cancelled)

section \<open>Small conventions of the store\<close>

text \<open>\<open>nullStr\<close>: the empty string is stored as \<open>NULL\<close>.\<close>

definition nullStr :: "string \<Rightarrow> string option" where
  "nullStr s = (if s = [] then None else Some s)"

text \<open>The default tenant, and the bounds of \<open>limit\<close> the list operations share.\<close>

definition or_default_tenant :: "string \<Rightarrow> string" where
  "or_default_tenant t = (if t = [] then ''tnt-default'' else t)"

definition clamp_limit :: "int \<Rightarrow> int \<Rightarrow> nat" where
  "clamp_limit dflt limit = nat (if limit \<le> 0 \<or> limit > 1000 then dflt else limit)"

text \<open>\<open>if len(raw) == 0 { raw = dflt }\<close> for raw messages.\<close>

definition or_raw :: "raw \<Rightarrow> json \<Rightarrow> raw" where
  "or_raw r d = (case r of None \<Rightarrow> Some d | Some v \<Rightarrow> Some v)"

lemma clamp_limit_bounds: "0 < dflt \<Longrightarrow> dflt \<le> 1000 \<Longrightarrow> 1 \<le> clamp_limit dflt l \<and> clamp_limit dflt l \<le> 1000"
  by (auto simp: clamp_limit_def)

end
