(* ===== verification/KeptRelations.thy ===== *)
theory KeptRelations
  imports Tables
begin

text \<open>
  A calculus of relations between the state before and after an operation: reflexive, transitive
  and indifferent to the passing of ticks, they are kept by the combinators, by every query, and by
  every statement whose effect on the tables keeps them.
\<close>

lemma queryE_value: "queryE e c f w = (Inr x, w') \<Longrightarrow> x = f (w\<lparr>tick := Suc (tick w)\<rparr>) \<and> w' = w\<lparr>tick := Suc (tick w)\<rparr>"
  by (rule queryE_cases [of e c f w]) auto

lemma insertE_value: "insertE e c ok f w = (Inr x, w') \<Longrightarrow> ok (w\<lparr>tick := Suc (tick w)\<rparr>) \<and> w' = f (w\<lparr>tick := Suc (tick w)\<rparr>)"
  by (rule insertE_cases [of ok w e c f]) auto

lemma updateE_value: "updateE e c n f w = (Inr x, w') \<Longrightarrow> x = n (w\<lparr>tick := Suc (tick w)\<rparr>) \<and> w' = f (w\<lparr>tick := Suc (tick w)\<rparr>)"
  by (rule updateE_cases [of e c n f w]) auto

lemma wrapE_value: "wrapE m f w = (Inr x, w') \<longleftrightarrow> f w = (Inr x, w')"
  by (auto simp: wrapE_def catchE_def throwE_def split: prod.splits sum.splits)

lemma optE_value: "optE err r w = (Inr x, w') \<longleftrightarrow> r = Some x \<and> w' = w"
  by (cases r) (auto simp: optE_def throwE_def returnE_def)

lemmas run_values = bindE_Inr_iff optE_value wrapE_value
lemmas run_dests = queryE_value insertE_value updateE_value

locale kept =
  fixes R :: "world \<Rightarrow> world \<Rightarrow> bool"
  assumes refl: "R w w"
    and trans: "R a b \<Longrightarrow> R b d \<Longrightarrow> R a d"
    and ticks: "n \<ge> tick w \<Longrightarrow> R w (w\<lparr>tick := n\<rparr>)"
begin

lemma tick_step: "R w (w\<lparr>tick := Suc (tick w)\<rparr>)"
  by (rule ticks) simp

lemma bind: "keeps R m \<Longrightarrow> (\<And>x. keeps R (f x)) \<Longrightarrow> keeps R (bindE m f)"
  by (rule keeps_bindE) (auto intro: trans)

lemma bind_post:
  assumes "keeps R m" "\<And>x w w'. m w = (Inr x, w') \<Longrightarrow> keeps R (f x)"
  shows "keeps R (bindE m f)"
proof (rule keepsI)
  fix w
  obtain r w' where m: "m w = (r, w')" by (cases "m w")
  have w': "R w w'" using keepsD [OF assms(1), of w] m by simp
  show "R w (snd (bindE m f w))"
  proof (cases r)
    case (Inl x)
    then show ?thesis using m w' by (simp add: bindE_Inl)
  next
    case (Inr x)
    then have "R w' (snd (f x w'))" using keepsD [OF assms(2)] m by blast
    then show ?thesis using Inr m trans [OF w'] by (simp add: bindE_Inr)
  qed
qed

lemma return: "keeps R (returnE x)"
  by (simp add: keeps_def returnE_def refl)

lemma throw: "keeps R (throwE x)"
  by (simp add: keeps_def throwE_def refl)

lemma catch: "keeps R m \<Longrightarrow> (\<And>x. keeps R (g x)) \<Longrightarrow> keeps R (catchE m g)"
  unfolding keeps_def catchE_def by (auto intro: trans split: prod.splits sum.splits) (metis snd_conv trans)

lemma ignore: "keeps R m \<Longrightarrow> keeps R (ignoreE m)"
  by (simp add: keeps_def ignoreE_def)

lemma wrapping: "keeps R m \<Longrightarrow> keeps R (wrapE s m)"
  unfolding wrapE_def by (rule catch) (auto intro: throw)

lemma opt: "keeps R (optE err r)"
  by (cases r) (auto simp: optE_def intro: return throw)

lemma forloop: "(\<And>x. keeps R (f x)) \<Longrightarrow> keeps R (forE f xs)"
  by (induction xs) (auto intro: bind return)

lemma maploop: "(\<And>x. keeps R (f x)) \<Longrightarrow> keeps R (mapE f xs)"
  by (induction xs) (auto intro!: bind return)

lemma query: "keeps R (queryE e c f)"
  by (simp add: keeps_def tick_step)

lemma ask: "keeps R (askE f)"
  by (simp add: keeps_def askE_def tick_step)

lemma insert:
  assumes "\<And>w. ok w \<Longrightarrow> R w (f w)"
  shows "keeps R (insertE e c ok f)"
proof (rule keepsI)
  fix w
  show "R w (snd (insertE e c ok f w))"
    by (rule insertE_cases [of ok w e c f]) (use assms [of "w\<lparr>tick := Suc (tick w)\<rparr>"] in \<open>auto intro: trans tick_step\<close>)
qed

lemma update:
  assumes "\<And>w. R w (f w)"
  shows "keeps R (updateE e c n f)"
proof (rule keepsI)
  fix w
  show "R w (snd (updateE e c n f w))"
    by (rule updateE_cases [of e c n f w]) (use assms [of "w\<lparr>tick := Suc (tick w)\<rparr>"] in \<open>auto intro: trans tick_step\<close>)
qed

lemma checked_update:
  assumes "\<And>w. ok w \<Longrightarrow> R w (f w)"
  shows "keeps R (checked_updateE e c ok n f)"
proof (rule keepsI)
  fix w
  show "R w (snd (checked_updateE e c ok n f w))"
    by (rule stmt_cases [of e c w])
      (use assms [of "w\<lparr>tick := Suc (tick w)\<rparr>"] in \<open>auto simp: checked_updateE_def bindE_def intro: trans tick_step\<close>)
qed

lemma clock_id: "keeps R (now e)" "keeps R (NewID e p)"
  by (simp_all add: keeps_def now_def NewID_def tick_step)

lemma gets: "keeps R (getsE f)"
  by (simp add: keeps_def getsE_def refl)

lemmas plain = return throw opt query clock_id gets ask

end

text \<open>
  An invariant that does not look at the ticks is the relation that it is not lost.
\<close>

definition kept_inv :: "(world \<Rightarrow> bool) \<Rightarrow> world \<Rightarrow> world \<Rightarrow> bool" where
  "kept_inv I w w' \<longleftrightarrow> (I w \<longrightarrow> I w')"

locale table_invariant =
  fixes I :: "world \<Rightarrow> bool"
  assumes blind: "I (w\<lparr>tick := n\<rparr>) = I w"

sublocale table_invariant \<subseteq> kept "kept_inv I"
  by unfold_locales (auto simp: kept_inv_def blind)

context table_invariant begin

lemma insert_inv: "(\<And>w. I w \<Longrightarrow> ok w \<Longrightarrow> I (f w)) \<Longrightarrow> keeps (kept_inv I) (insertE e c ok f)"
  by (rule insert) (simp add: kept_inv_def)

lemma update_inv: "(\<And>w. I w \<Longrightarrow> I (f w)) \<Longrightarrow> keeps (kept_inv I) (updateE e c n f)"
  by (rule update) (simp add: kept_inv_def)

lemma checked_inv: "(\<And>w. I w \<Longrightarrow> ok w \<Longrightarrow> I (f w)) \<Longrightarrow> keeps (kept_inv I) (checked_updateE e c ok n f)"
  by (rule checked_update) (simp add: kept_inv_def)

lemma invD: "keeps (kept_inv I) m \<Longrightarrow> I w \<Longrightarrow> I (snd (m w))"
  by (simp add: keeps_def kept_inv_def)

lemma inv_of: "keeps (kept_inv I) m \<Longrightarrow> I w \<Longrightarrow> m w = (r, w') \<Longrightarrow> I w'"
  using invD [of m w] by simp

end

end
