(* ===== verification/StoreAuth.thy ===== *)
theory StoreAuth
  imports KeptRelations
begin

text \<open>
  \<open>internal/store/auth.go\<close>: users, the sessions of signed-in browsers, and API keys, of which
  only the hash is stored. Mail addresses and hashes are unique, also by an index.
\<close>

section \<open>Users\<close>

record CreateUserInput =
  cu_TenantID :: string
  cu_Email :: string
  cu_Name :: string
  cu_PasswordHash :: string

definition user_by :: "string \<Rightarrow> world \<Rightarrow> UserRow option" where
  "user_by uid w = select_one (\<lambda>r. us_ID r = uid) (users w)"

definition with_email :: "string \<Rightarrow> UserRow \<Rightarrow> bool" where
  "with_email email r \<longleftrightarrow> us_Email r = email"

definition GetUser :: "env \<Rightarrow> ctx \<Rightarrow> string \<Rightarrow> (world, UserRow) io" where
  "GetUser e c uid = bindE (queryE e c (user_by uid)) (optE ErrNotFound)"

definition GetUserByEmail :: "env \<Rightarrow> ctx \<Rightarrow> string \<Rightarrow> (world, UserRow) io" where
  "GetUserByEmail e c email = bindE (queryE e c (\<lambda>w. select_one (with_email email) (users w))) (optE ErrNotFound)"

definition user_row :: "string \<Rightarrow> int \<Rightarrow> CreateUserInput \<Rightarrow> UserRow" where
  "user_row uid t i = \<lparr>us_ID = uid, us_TenantID = or_default_tenant (cu_TenantID i), us_Email = cu_Email i,
     us_Name = cu_Name i, us_PasswordHash = cu_PasswordHash i, us_CreatedAt = t, us_UpdatedAt = t\<rparr>"

definition user_insert_ok :: "UserRow \<Rightarrow> world \<Rightarrow> bool" where
  "user_insert_ok r w \<longleftrightarrow> user_by (us_ID r) w = None \<and> \<not> list_ex (with_email (us_Email r)) (users w)"

definition CreateUser :: "env \<Rightarrow> ctx \<Rightarrow> CreateUserInput \<Rightarrow> (world, UserRow) io" where
  "CreateUser e c i =
     bindE (queryE e c (\<lambda>w. affected (with_email (cu_Email i)) (users w))) (\<lambda>existing.
       if existing > 0 then throwE ErrConflict
       else bindE (NewID e ''usr'') (\<lambda>uid. bindE (now e) (\<lambda>t.
         let r = user_row uid t i
         in bindE (insertE e c (user_insert_ok r) (\<lambda>w. w\<lparr>users := users w @ [r]\<rparr>)) (\<lambda>_. GetUser e c uid))))"

section \<open>Sessions of browsers\<close>

definition auth_session_by :: "string \<Rightarrow> world \<Rightarrow> AuthSessionRow option" where
  "auth_session_by sid w = select_one (\<lambda>r. as_ID r = sid) (auth_sessions w)"

definition auth_session_ok :: "AuthSessionRow \<Rightarrow> world \<Rightarrow> bool" where
  "auth_session_ok r w \<longleftrightarrow> auth_session_by (as_ID r) w = None \<and> user_by (as_UserID r) w \<noteq> None"

definition auth_session_row :: "string \<Rightarrow> string \<Rightarrow> string \<Rightarrow> int \<Rightarrow> int \<Rightarrow> AuthSessionRow" where
  "auth_session_row sid uid tenant expires t =
     \<lparr>as_ID = sid, as_UserID = uid, as_TenantID = tenant, as_ExpiresAt = expires, as_CreatedAt = t\<rparr>"

definition CreateAuthSession :: "env \<Rightarrow> ctx \<Rightarrow> string \<Rightarrow> string \<Rightarrow> string \<Rightarrow> int \<Rightarrow> (world, unit) io" where
  "CreateAuthSession e c sid uid tenant expires =
     bindE (now e) (\<lambda>t. let r = auth_session_row sid uid tenant expires t
       in insertE e c (auth_session_ok r) (\<lambda>w. w\<lparr>auth_sessions := auth_sessions w @ [r]\<rparr>))"

definition GetAuthSession :: "env \<Rightarrow> ctx \<Rightarrow> string \<Rightarrow> (world, AuthSessionRow) io" where
  "GetAuthSession e c sid = bindE (queryE e c (auth_session_by sid)) (optE ErrNotFound)"

definition DeleteAuthSession :: "env \<Rightarrow> ctx \<Rightarrow> string \<Rightarrow> (world, unit) io" where
  "DeleteAuthSession e c sid =
     bindE (updateE e c (\<lambda>w. affected (\<lambda>r. as_ID r = sid) (auth_sessions w))
         (\<lambda>w. w\<lparr>auth_sessions := delete_where (\<lambda>r. as_ID r = sid) (auth_sessions w)\<rparr>))
       (\<lambda>_. returnE ())"

section \<open>API keys\<close>

record CreateAPIKeyInput =
  ck_TenantID :: string
  ck_UserID :: string
  ck_Name :: string
  ck_Prefix :: string
  ck_Hash :: string

definition key_by :: "string \<Rightarrow> world \<Rightarrow> APIKeyRow option" where
  "key_by kid w = select_one (\<lambda>r. ak_ID r = kid) (api_keys w)"

definition live_hash :: "string \<Rightarrow> APIKeyRow \<Rightarrow> bool" where
  "live_hash h r \<longleftrightarrow> ak_Hash r = h \<and> ak_RevokedAt r = None"

definition key_insert_ok :: "APIKeyRow \<Rightarrow> world \<Rightarrow> bool" where
  "key_insert_ok r w \<longleftrightarrow> key_by (ak_ID r) w = None \<and> \<not> list_ex (\<lambda>x. ak_Hash x = ak_Hash r) (api_keys w)"

definition key_row :: "string \<Rightarrow> int \<Rightarrow> CreateAPIKeyInput \<Rightarrow> APIKeyRow" where
  "key_row kid t i = \<lparr>ak_ID = kid, ak_TenantID = or_default_tenant (ck_TenantID i), ak_UserID = nullStr (ck_UserID i),
     ak_Name = ck_Name i, ak_Prefix = ck_Prefix i, ak_Hash = ck_Hash i, ak_CreatedAt = t, ak_RevokedAt = None\<rparr>"

definition GetAPIKey :: "env \<Rightarrow> ctx \<Rightarrow> string \<Rightarrow> (world, APIKeyRow) io" where
  "GetAPIKey e c kid = bindE (queryE e c (key_by kid)) (optE ErrNotFound)"

definition CreateAPIKey :: "env \<Rightarrow> ctx \<Rightarrow> CreateAPIKeyInput \<Rightarrow> (world, APIKeyRow) io" where
  "CreateAPIKey e c i =
     bindE (NewID e ''key'') (\<lambda>kid. bindE (now e) (\<lambda>t.
       let r = key_row kid t i
       in bindE (insertE e c (key_insert_ok r) (\<lambda>w. w\<lparr>api_keys := api_keys w @ [r]\<rparr>)) (\<lambda>_. GetAPIKey e c kid)))"

definition GetAPIKeyByHash :: "env \<Rightarrow> ctx \<Rightarrow> string \<Rightarrow> (world, APIKeyRow) io" where
  "GetAPIKeyByHash e c h = bindE (queryE e c (\<lambda>w. select_one (live_hash h) (api_keys w))) (optE ErrNotFound)"

definition store_ListAPIKeys :: "env \<Rightarrow> ctx \<Rightarrow> string \<Rightarrow> (world, APIKeyRow list) io" where
  "store_ListAPIKeys e c tenant =
     queryE e c (\<lambda>w. sort_key (\<lambda>r. - ak_CreatedAt r)
       (select (\<lambda>r. ak_TenantID r = tenant \<and> ak_RevokedAt r = None) (api_keys w)))"

definition live_key :: "string \<Rightarrow> APIKeyRow \<Rightarrow> bool" where
  "live_key kid r \<longleftrightarrow> ak_ID r = kid \<and> ak_RevokedAt r = None"

definition store_RevokeAPIKey :: "env \<Rightarrow> ctx \<Rightarrow> string \<Rightarrow> (world, unit) io" where
  "store_RevokeAPIKey e c kid =
     bindE (now e) (\<lambda>t. bindE (updateE e c (\<lambda>w. affected (live_key kid) (api_keys w))
         (\<lambda>w. w\<lparr>api_keys := update_where (live_key kid) (\<lambda>r. r\<lparr>ak_RevokedAt := Some t\<rparr>) (api_keys w)\<rparr>))
       (\<lambda>n. if n = 0 then throwE ErrNotFound else returnE ()))"

section \<open>The tables\<close>

text \<open>
  Keys of the three tables are unique, so are mail addresses and hashes, and every session belongs
  to a user.
\<close>

definition auth_ok :: "world \<Rightarrow> bool" where
  "auth_ok w \<longleftrightarrow> distinct (map us_ID (users w)) \<and> distinct (map us_Email (users w))
     \<and> distinct (map as_ID (auth_sessions w)) \<and> (\<forall>s\<in>set (auth_sessions w). as_UserID s \<in> us_ID ` set (users w))
     \<and> distinct (map ak_ID (api_keys w)) \<and> distinct (map ak_Hash (api_keys w))"

text \<open>A key that is revoked stays in the table, revoked.\<close>

definition key_dead :: "string \<Rightarrow> world \<Rightarrow> bool" where
  "key_dead h w \<longleftrightarrow> list_ex (\<lambda>r. ak_Hash r = h \<and> ak_RevokedAt r \<noteq> None) (api_keys w)"

text \<open>The invariant of the tables when the keys with the hashes \<open>D\<close> are dead.\<close>

definition auth_inv :: "string set \<Rightarrow> world \<Rightarrow> bool" where
  "auth_inv D w \<longleftrightarrow> auth_ok w \<and> (\<forall>h\<in>D. key_dead h w)"

interpretation au: table_invariant "auth_inv D" for D
  by unfold_locales (simp add: auth_inv_def auth_ok_def key_dead_def)

lemma auth_ok_user: "auth_ok w \<Longrightarrow> user_insert_ok r w \<Longrightarrow> auth_ok (w\<lparr>users := users w @ [r]\<rparr>)"
  by (auto simp: auth_ok_def user_insert_ok_def user_by_def table_simps list_ex_iff with_email_def)

lemma auth_ok_session: "auth_ok w \<Longrightarrow> auth_session_ok r w \<Longrightarrow> auth_ok (w\<lparr>auth_sessions := auth_sessions w @ [r]\<rparr>)"
  by (auto simp: auth_ok_def auth_session_ok_def auth_session_by_def user_by_def table_simps dest!: select_one_Some
      intro: rev_image_eqI)

lemma auth_ok_logout: "auth_ok w \<Longrightarrow> auth_ok (w\<lparr>auth_sessions := delete_where P (auth_sessions w)\<rparr>)"
  by (auto simp: auth_ok_def table_simps delete_where_def distinct_map_filter)

lemma auth_ok_key: "auth_ok w \<Longrightarrow> key_insert_ok r w \<Longrightarrow> auth_ok (w\<lparr>api_keys := api_keys w @ [r]\<rparr>)"
  by (auto simp: auth_ok_def key_insert_ok_def key_by_def table_simps list_ex_iff)

lemma auth_ok_revoke:
  "auth_ok w \<Longrightarrow> auth_ok (w\<lparr>api_keys := update_where P (\<lambda>r. r\<lparr>ak_RevokedAt := Some t\<rparr>) (api_keys w)\<rparr>)"
  by (simp add: auth_ok_def table_simps)

lemma dead_row_revoke:
  "list_ex (\<lambda>r. ak_Hash r = h \<and> ak_RevokedAt r \<noteq> None) t \<Longrightarrow>
     list_ex (\<lambda>r. ak_Hash r = h \<and> ak_RevokedAt r \<noteq> None) (update_where P (\<lambda>r. r\<lparr>ak_RevokedAt := Some n\<rparr>) t)"
  by (induction t) (auto simp: table_simps)

lemma key_dead_revoke:
  "key_dead h w \<Longrightarrow> key_dead h (w\<lparr>api_keys := update_where P (\<lambda>r. r\<lparr>ak_RevokedAt := Some n\<rparr>) (api_keys w)\<rparr>)"
  using dead_row_revoke [of h "api_keys w" P n] by (simp add: key_dead_def)

lemma key_dead_frames [simp]:
  "key_dead h (w\<lparr>users := us\<rparr>) = key_dead h w" "key_dead h (w\<lparr>auth_sessions := ss\<rparr>) = key_dead h w"
  "key_dead h w \<Longrightarrow> key_dead h (w\<lparr>api_keys := api_keys w @ rs\<rparr>)"
  by (auto simp: key_dead_def)

text \<open>Every operation keeps it.\<close>

lemma keeps_CreateUser: "keeps (kept_inv (auth_inv D)) (CreateUser e c i)"
  unfolding CreateUser_def GetUser_def Let_def
  by (auto intro!: au.bind au.plain au.insert_inv au.update_inv
      simp: auth_inv_def auth_ok_user auth_ok_session auth_ok_logout auth_ok_key auth_ok_revoke key_dead_revoke)

lemma keeps_CreateAuthSession: "keeps (kept_inv (auth_inv D)) (CreateAuthSession e c sid uid tenant t)"
  unfolding CreateAuthSession_def Let_def
  by (auto intro!: au.bind au.plain au.insert_inv au.update_inv
      simp: auth_inv_def auth_ok_user auth_ok_session auth_ok_logout auth_ok_key auth_ok_revoke key_dead_revoke)

lemma keeps_DeleteAuthSession: "keeps (kept_inv (auth_inv D)) (DeleteAuthSession e c sid)"
  unfolding DeleteAuthSession_def
  by (auto intro!: au.bind au.plain au.insert_inv au.update_inv
      simp: auth_inv_def auth_ok_user auth_ok_session auth_ok_logout auth_ok_key auth_ok_revoke key_dead_revoke)

lemma keeps_CreateAPIKey: "keeps (kept_inv (auth_inv D)) (CreateAPIKey e c i)"
  unfolding CreateAPIKey_def GetAPIKey_def Let_def
  by (auto intro!: au.bind au.plain au.insert_inv au.update_inv
      simp: auth_inv_def auth_ok_user auth_ok_session auth_ok_logout auth_ok_key auth_ok_revoke key_dead_revoke)

lemma keeps_RevokeAPIKey: "keeps (kept_inv (auth_inv D)) (store_RevokeAPIKey e c kid)"
  unfolding store_RevokeAPIKey_def
  by (auto intro!: au.bind au.plain au.insert_inv au.update_inv
      simp: auth_inv_def auth_ok_user auth_ok_session auth_ok_logout auth_ok_key auth_ok_revoke key_dead_revoke)

lemma keeps_reads:
  "keeps (kept_inv (auth_inv D)) (GetUser e c uid)" "keeps (kept_inv (auth_inv D)) (GetUserByEmail e c email)"
  "keeps (kept_inv (auth_inv D)) (GetAuthSession e c sid)" "keeps (kept_inv (auth_inv D)) (GetAPIKeyByHash e c h)"
  unfolding GetUser_def GetUserByEmail_def GetAuthSession_def GetAPIKeyByHash_def by (intro au.bind au.plain)+

lemmas keeps_auth_store = keeps_CreateUser keeps_CreateAuthSession keeps_DeleteAuthSession keeps_CreateAPIKey
  keeps_RevokeAPIKey keeps_reads

text \<open>The hash of a dead key is the hash of no live one.\<close>

lemma dead_key_not_live:
  assumes "auth_ok w" "key_dead h w"
  shows "select_one (live_hash h) (api_keys w) = None"
proof -
  have d: "distinct (map ak_Hash (api_keys w))" using assms(1) by (simp add: auth_ok_def)
  obtain r where r: "r \<in> set (api_keys w)" "ak_Hash r = h" "ak_RevokedAt r \<noteq> None"
    using assms(2) by (auto simp: key_dead_def list_ex_iff)
  have "\<not> live_hash h x" if "x \<in> set (api_keys w)" for x
    using distinct_keyD [OF d that r(1)] r(2,3) by (auto simp: live_hash_def)
  then show ?thesis by (simp add: table_simps)
qed

end
