(* ===== verification/StoreVault.thy ===== *)
theory StoreVault
  imports KeptRelations
begin

text \<open>
  \<open>internal/store/vault.go\<close>: vaults and their credentials. A vault has at most one active
  credential per host, by a check of the operations and by a partial unique index.
\<close>

section \<open>Vaults\<close>

definition vault_by :: "string \<Rightarrow> world \<Rightarrow> VaultRow option" where
  "vault_by vid w = select_one (\<lambda>r. va_ID r = vid) (vaults w)"

definition of_tenant :: "string \<Rightarrow> string \<Rightarrow> VaultRow \<Rightarrow> bool" where
  "of_tenant tenant vid r \<longleftrightarrow> va_ID r = vid \<and> va_TenantID r = tenant"

definition live_vault :: "string \<Rightarrow> string \<Rightarrow> VaultRow \<Rightarrow> bool" where
  "live_vault tenant vid r \<longleftrightarrow> of_tenant tenant vid r \<and> va_ArchivedAt r = None"

definition GetVault :: "env \<Rightarrow> ctx \<Rightarrow> string \<Rightarrow> string \<Rightarrow> (world, VaultRow) io" where
  "GetVault e c tenant vid = bindE (queryE e c (\<lambda>w. select_one (of_tenant tenant vid) (vaults w))) (optE ErrNotFound)"

definition CreateVault :: "env \<Rightarrow> ctx \<Rightarrow> string \<Rightarrow> string \<Rightarrow> raw \<Rightarrow> (world, VaultRow) io" where
  "CreateVault e c tenant0 name metadata0 =
     (let tenant = or_default_tenant tenant0; metadata = or_raw metadata0 (JObj []) in
      bindE (NewID e ''vlt'') (\<lambda>vid. bindE (now e) (\<lambda>t.
        let r = \<lparr>va_ID = vid, va_TenantID = tenant, va_DisplayName = name, va_Metadata = metadata,
                 va_ArchivedAt = None, va_CreatedAt = t, va_UpdatedAt = t\<rparr>
        in bindE (wrapE ''insert vault'' (insertE e c (\<lambda>w. vault_by vid w = None) (\<lambda>w. w\<lparr>vaults := vaults w @ [r]\<rparr>)))
             (\<lambda>_. GetVault e c tenant vid))))"

definition ListVaults :: "env \<Rightarrow> ctx \<Rightarrow> string \<Rightarrow> int \<Rightarrow> (world, VaultRow list) io" where
  "ListVaults e c tenant limit =
     bindE (queryE e c (\<lambda>w. map va_ID (take (clamp_limit 50 limit)
        (sort_key (\<lambda>r. - va_CreatedAt r)
          (select (\<lambda>r. va_TenantID r = tenant \<and> va_ArchivedAt r = None) (vaults w))))))
       (mapE (GetVault e c tenant))"

definition ArchiveVault :: "env \<Rightarrow> ctx \<Rightarrow> string \<Rightarrow> string \<Rightarrow> (world, unit) io" where
  "ArchiveVault e c tenant vid =
     bindE (now e) (\<lambda>t. bindE (updateE e c (\<lambda>w. affected (live_vault tenant vid) (vaults w))
         (\<lambda>w. w\<lparr>vaults := update_where (live_vault tenant vid)
            (\<lambda>r. r\<lparr>va_ArchivedAt := Some t, va_UpdatedAt := t\<rparr>) (vaults w)\<rparr>))
       (\<lambda>n. if n = 0 then throwE ErrNotFound else returnE ()))"

definition UpdateVault :: "env \<Rightarrow> ctx \<Rightarrow> string \<Rightarrow> string \<Rightarrow> string \<Rightarrow> raw \<Rightarrow> (world, VaultRow) io" where
  "UpdateVault e c tenant vid name metadata =
     bindE (now e) (\<lambda>t. bindE (updateE e c (\<lambda>w. affected (live_vault tenant vid) (vaults w))
         (\<lambda>w. w\<lparr>vaults := update_where (live_vault tenant vid)
            (\<lambda>r. r\<lparr>va_DisplayName := name, va_Metadata := or_raw metadata (JObj []), va_UpdatedAt := t\<rparr>) (vaults w)\<rparr>))
       (\<lambda>n. if n = 0 then throwE ErrNotFound else GetVault e c tenant vid))"

text \<open>Deleting a vault cascades to its credentials.\<close>

definition DeleteVault :: "env \<Rightarrow> ctx \<Rightarrow> string \<Rightarrow> string \<Rightarrow> (world, unit) io" where
  "DeleteVault e c tenant vid =
     bindE (updateE e c (\<lambda>w. affected (of_tenant tenant vid) (vaults w))
         (\<lambda>w. w\<lparr>vaults := delete_where (of_tenant tenant vid) (vaults w),
                 credentials := delete_where (\<lambda>r. cd_VaultID r = vid
                   \<and> list_ex (of_tenant tenant vid) (vaults w)) (credentials w)\<rparr>))
       (\<lambda>n. if n = 0 then throwE ErrNotFound else returnE ())"

section \<open>Credentials\<close>

record CreateCredentialInput =
  ci_VaultID :: string
  ci_TenantID :: string
  ci_DisplayName :: string
  ci_AuthType :: string
  ci_MCPServerURL :: string
  ci_MCPServerHost :: string
  ci_Cipher :: string
  ci_CipherNonce :: string
  ci_CipherLabel :: string

record UpdateCredentialInput =
  ui_ID :: string
  ui_VaultID :: string
  ui_TenantID :: string
  ui_DisplayName :: string
  ui_AuthType :: string
  ui_MCPServerURL :: string
  ui_MCPServerHost :: string
  ui_Cipher :: string
  ui_CipherNonce :: string
  ui_CipherLabel :: string

definition credential_by :: "string \<Rightarrow> world \<Rightarrow> CredentialRow option" where
  "credential_by cid w = select_one (\<lambda>r. cd_ID r = cid) (credentials w)"

definition active_for :: "string \<Rightarrow> string \<Rightarrow> CredentialRow \<Rightarrow> bool" where
  "active_for vid host r \<longleftrightarrow> cd_VaultID r = vid \<and> cd_MCPServerHost r = host \<and> cd_ArchivedAt r = None"

definition scoped :: "string \<Rightarrow> string \<Rightarrow> string \<Rightarrow> CredentialRow \<Rightarrow> bool" where
  "scoped tenant vid cid r \<longleftrightarrow> cd_ID r = cid \<and> cd_VaultID r = vid \<and> cd_TenantID r = tenant"

definition live_credential :: "string \<Rightarrow> string \<Rightarrow> string \<Rightarrow> CredentialRow \<Rightarrow> bool" where
  "live_credential tenant vid cid r \<longleftrightarrow> scoped tenant vid cid r \<and> cd_ArchivedAt r = None"

definition auth_type_ok :: "string \<Rightarrow> bool" where
  "auth_type_ok ty \<longleftrightarrow> ty = ''static_bearer'' \<or> ty = ''mcp_oauth''"

text \<open>The key, the vault, the check of the type and the partial unique index.\<close>

definition credential_insert_ok :: "CredentialRow \<Rightarrow> world \<Rightarrow> bool" where
  "credential_insert_ok r w \<longleftrightarrow> credential_by (cd_ID r) w = None \<and> vault_by (cd_VaultID r) w \<noteq> None
     \<and> auth_type_ok (cd_AuthType r)
     \<and> (cd_ArchivedAt r = None \<longrightarrow> \<not> list_ex (active_for (cd_VaultID r) (cd_MCPServerHost r)) (credentials w))"

definition credential_row :: "string \<Rightarrow> int \<Rightarrow> CreateCredentialInput \<Rightarrow> CredentialRow" where
  "credential_row cid t i = \<lparr>cd_ID = cid, cd_VaultID = ci_VaultID i, cd_TenantID = or_default_tenant (ci_TenantID i),
     cd_DisplayName = ci_DisplayName i, cd_AuthType = ci_AuthType i, cd_MCPServerURL = ci_MCPServerURL i,
     cd_MCPServerHost = ci_MCPServerHost i, cd_Cipher = ci_Cipher i, cd_CipherNonce = ci_CipherNonce i,
     cd_CipherLabel = ci_CipherLabel i, cd_ArchivedAt = None, cd_CreatedAt = t, cd_UpdatedAt = t\<rparr>"

definition GetCredential :: "env \<Rightarrow> ctx \<Rightarrow> string \<Rightarrow> (world, CredentialRow) io" where
  "GetCredential e c cid = bindE (queryE e c (credential_by cid)) (optE ErrNotFound)"

definition GetCredentialScoped :: "env \<Rightarrow> ctx \<Rightarrow> string \<Rightarrow> string \<Rightarrow> string \<Rightarrow> (world, CredentialRow) io" where
  "GetCredentialScoped e c tenant vid cid =
     bindE (queryE e c (\<lambda>w. select_one (scoped tenant vid cid) (credentials w))) (optE ErrNotFound)"

definition CreateCredential :: "env \<Rightarrow> ctx \<Rightarrow> CreateCredentialInput \<Rightarrow> (world, CredentialRow) io" where
  "CreateCredential e c i =
     bindE (NewID e ''crd'') (\<lambda>cid. bindE (now e) (\<lambda>t.
       bindE (queryE e c (\<lambda>w. affected (active_for (ci_VaultID i) (ci_MCPServerHost i)) (credentials w))) (\<lambda>existing.
         if existing > 0 then throwE ErrConflict
         else let r = credential_row cid t i
              in bindE (wrapE ''insert credential''
                   (insertE e c (credential_insert_ok r) (\<lambda>w. w\<lparr>credentials := credentials w @ [r]\<rparr>)))
                   (\<lambda>_. GetCredential e c cid))))"

definition ListCredentialsByVault :: "env \<Rightarrow> ctx \<Rightarrow> string \<Rightarrow> string \<Rightarrow> (world, CredentialRow list) io" where
  "ListCredentialsByVault e c tenant vid =
     queryE e c (\<lambda>w. sort_key (\<lambda>r. - cd_CreatedAt r)
       (select (\<lambda>r. cd_VaultID r = vid \<and> cd_TenantID r = tenant \<and> cd_ArchivedAt r = None) (credentials w)))"

definition set_credential :: "UpdateCredentialInput \<Rightarrow> int \<Rightarrow> CredentialRow \<Rightarrow> CredentialRow" where
  "set_credential i t r = r\<lparr>cd_DisplayName := ui_DisplayName i, cd_AuthType := ui_AuthType i,
     cd_MCPServerURL := ui_MCPServerURL i, cd_MCPServerHost := ui_MCPServerHost i, cd_Cipher := ui_Cipher i,
     cd_CipherNonce := ui_CipherNonce i, cd_CipherLabel := ui_CipherLabel i, cd_UpdatedAt := t\<rparr>"

text \<open>The constraints an update of the row must keep, when there is a row to update.\<close>

definition credential_update_ok :: "string \<Rightarrow> UpdateCredentialInput \<Rightarrow> world \<Rightarrow> bool" where
  "credential_update_ok tenant i w \<longleftrightarrow>
     list_ex (live_credential tenant (ui_VaultID i) (ui_ID i)) (credentials w) \<longrightarrow>
       auth_type_ok (ui_AuthType i)
       \<and> \<not> list_ex (\<lambda>r. active_for (ui_VaultID i) (ui_MCPServerHost i) r \<and> cd_ID r \<noteq> ui_ID i) (credentials w)"

definition UpdateCredential :: "env \<Rightarrow> ctx \<Rightarrow> UpdateCredentialInput \<Rightarrow> (world, CredentialRow) io" where
  "UpdateCredential e c i =
     (let tenant = or_default_tenant (ui_TenantID i);
          live = live_credential tenant (ui_VaultID i) (ui_ID i) in
      bindE (queryE e c (\<lambda>w. affected (\<lambda>r. active_for (ui_VaultID i) (ui_MCPServerHost i) r \<and> cd_ID r \<noteq> ui_ID i)
          (credentials w))) (\<lambda>existing.
        if existing > 0 then throwE ErrConflict
        else bindE (now e) (\<lambda>t.
          bindE (checked_updateE e c (credential_update_ok tenant i) (\<lambda>w. affected live (credentials w))
              (\<lambda>w. w\<lparr>credentials := update_where live (set_credential i t) (credentials w)\<rparr>)) (\<lambda>n.
            if n = 0 then throwE ErrNotFound else GetCredentialScoped e c tenant (ui_VaultID i) (ui_ID i)))))"

definition ArchiveCredential :: "env \<Rightarrow> ctx \<Rightarrow> string \<Rightarrow> string \<Rightarrow> string \<Rightarrow> (world, unit) io" where
  "ArchiveCredential e c tenant vid cid =
     bindE (now e) (\<lambda>t. bindE (updateE e c (\<lambda>w. affected (live_credential tenant vid cid) (credentials w))
         (\<lambda>w. w\<lparr>credentials := update_where (live_credential tenant vid cid)
            (\<lambda>r. r\<lparr>cd_ArchivedAt := Some t, cd_UpdatedAt := t\<rparr>) (credentials w)\<rparr>))
       (\<lambda>n. if n = 0 then throwE ErrNotFound else returnE ()))"

text \<open>No vault, no query.\<close>

definition ListActiveCredentialsByHost ::
  "env \<Rightarrow> ctx \<Rightarrow> string \<Rightarrow> string list \<Rightarrow> string \<Rightarrow> (world, CredentialRow list) io" where
  "ListActiveCredentialsByHost e c tenant vaultIDs host =
     (if vaultIDs = [] then returnE []
      else queryE e c (\<lambda>w. sort_key (\<lambda>r. - cd_CreatedAt r)
        (select (\<lambda>r. cd_VaultID r \<in> set vaultIDs \<and> cd_MCPServerHost r = host \<and> cd_TenantID r = tenant
           \<and> cd_ArchivedAt r = None) (credentials w))))"

definition DeleteCredential :: "env \<Rightarrow> ctx \<Rightarrow> string \<Rightarrow> string \<Rightarrow> string \<Rightarrow> (world, unit) io" where
  "DeleteCredential e c tenant vid cid =
     bindE (updateE e c (\<lambda>w. affected (scoped tenant vid cid) (credentials w))
         (\<lambda>w. w\<lparr>credentials := delete_where (scoped tenant vid cid) (credentials w)\<rparr>))
       (\<lambda>n. if n = 0 then throwE ErrNotFound else returnE ())"

end
