(* ===== verification/GoMap.thy ===== *)
theory GoMap
  imports GoJson "HOL-Library.AList" "HOL-Library.List_Lexorder"
begin

text \<open>
  Go's \<open>map[string]string\<close>: \<open>None\<close> is the nil map, otherwise the entries, with distinct keys.
\<close>

type_synonym smap = "(string \<times> string) list option"

definition entries :: "smap \<Rightarrow> (string \<times> string) list" where
  "entries m = (case m of None \<Rightarrow> [] | Some kvs \<Rightarrow> kvs)"

text \<open>\<open>json.Marshal\<close> sorts the keys; a nil map is \<open>null\<close>.\<close>

definition marshal_smap :: "smap \<Rightarrow> json" where
  "marshal_smap m = (case m of None \<Rightarrow> JNull
     | Some kvs \<Rightarrow> JObj (map (\<lambda>(k, v). (k, JStr v)) (sort_key fst kvs)))"

text \<open>
  Decoding adds to the map there is, or to a fresh one; a member that is not a string is
  an error, but its key is stored with the zero value.
\<close>

definition put_member :: "string \<times> json \<Rightarrow> (string \<times> string) list \<Rightarrow> (string \<times> string) list" where
  "put_member kv m = AList.update (fst kv) (fst (dec_str (snd kv) [])) m"

definition dec_smap :: "smap dec" where
  "dec_smap v old =
     (case v of
        JObj kvs \<Rightarrow> (Some (fold put_member kvs (entries old)), list_ex (\<lambda>kv. snd (dec_str (snd kv) [])) kvs)
      | JNull \<Rightarrow> (None, False) | _ \<Rightarrow> (old, True))"

lemma fold_put_fresh:
  "distinct (map fst kvs) \<Longrightarrow> set (map fst kvs) \<inter> set (map fst m) = {} \<Longrightarrow>
     fold put_member (map (\<lambda>(k, v). (k, JStr v)) kvs) m = m @ kvs"
proof (induction kvs arbitrary: m)
  case (Cons kv kvs)
  obtain k v where kv: "kv = (k, v)" by (cases kv)
  have "AList.update k v m = m @ [(k, v)]" if "k \<notin> fst ` set m" for m :: "(string \<times> string) list"
    using that by (induction m) auto
  then have "fold put_member (map (\<lambda>(k, v). (k, JStr v)) (kv # kvs)) m
      = fold put_member (map (\<lambda>(k, v). (k, JStr v)) kvs) (m @ [(k, v)])"
    using Cons.prems by (simp add: kv put_member_def dec_str_def)
  also have "\<dots> = m @ (k, v) # kvs" using Cons by (subst Cons.IH) (auto simp: kv)
  finally show ?case by (simp add: kv)
qed simp

text \<open>What was marshalled is decoded to the same map, up to the order of its entries.\<close>

lemma smap_roundtrip:
  assumes "distinct (map fst kvs)"
  shows "dec_smap (marshal_smap (Some kvs)) (Some []) = (Some (sort_key fst kvs), False)"
proof -
  have d: "distinct (map fst (sort_key fst kvs))"
    using assms by (simp add: distinct_map inj_on_def)
  have "fold put_member (map (\<lambda>(k, v). (k, JStr v)) (sort_key fst kvs)) [] = sort_key fst kvs"
    using fold_put_fresh [OF d, of "[]"] by simp
  moreover have "\<not> list_ex (\<lambda>kv. snd (dec_str (snd kv) [])) (map (\<lambda>(k, v). (k, JStr v)) xs)" for xs
    by (induction xs) (auto simp: dec_str_def)
  ultimately show ?thesis by (simp add: dec_smap_def marshal_smap_def entries_def)
qed

end
