(* ===== verification/JsonCodec.thy ===== *)
theory JsonCodec
  imports GoJson
begin

text \<open>
  Printing a JSON value and parsing the text again yields the value: what the program stores as
  text (payloads, configurations, secrets) is what it reads back.
\<close>

section \<open>Strings\<close>

lemma of_char_less_256: "(of_char (c :: char) :: nat) < 256"
  by simp

lemma char_of_of_char: "char_of (of_char (c :: char) :: nat) = c"
  by simp

lemma hex_round: "n < 16 \<Longrightarrow> hex_val (hex_digit n) = Some n"
  by (auto simp: hex_val_def hex_digit_def Let_def)

lemma hex4_low:
  assumes "n < 128"
  shows "hex4 (CHR ''0'' # CHR ''0'' # hex_digit (n div 16) # hex_digit (n mod 16) # s) = Some (n, s)"
proof -
  have z: "hex_val (CHR ''0'') = Some 0" by code_simp
  have "n div 16 < 16" using assms by simp
  then show ?thesis by (simp add: z hex_round)
qed

text \<open>The escape of one character is read back as the character.\<close>

lemma char_eqI: "(of_char c :: nat) = of_char (d :: char) \<Longrightarrow> c = d"
  by simp

lemma esc_plain: "32 \<le> (of_char c :: nat) \<Longrightarrow> (of_char c :: nat) \<notin> {34, 92, 38, 60, 62} \<Longrightarrow> esc_char c = [c]"
  by (simp add: esc_char_def Let_def)

lemma esc_hex:
  assumes "(of_char c :: nat) < 32 \<or> of_char c = (38 :: nat) \<or> of_char c = (60 :: nat) \<or> of_char c = (62 :: nat)"
    "(of_char c :: nat) \<notin> {8, 9, 10, 12, 13, 34, 92}"
  shows "esc_char c = CHR 0x5C # CHR ''u'' # CHR ''0'' # CHR ''0'' # hex_digit (of_char c div 16) # [hex_digit (of_char c mod 16)]"
  using assms by (simp add: esc_char_def Let_def)

lemma unescape_low: "n < 128 \<Longrightarrow> unescape_u (CHR ''0'' # CHR ''0'' # hex_digit (n div 16) # hex_digit (n mod 16) # s) = Some ([char_of n], s)"
  unfolding unescape_u_def by (subst hex4_low, assumption) (simp add: utf8_def)

lemma parse_esc:
  "parse_str (Suc n) (esc_char c @ s) = map_option (\<lambda>(y, r). (c # y, r)) (parse_str n s)"
proof -
  let ?n = "of_char c :: nat"
  consider (q) "c = CHR 0x22" | (b) "c = CHR 0x5C" | (e) "c \<in> {CHR 0x08, CHR 0x09, CHR 0x0A, CHR 0x0C, CHR 0x0D}"
    | (u) "?n < 32 \<or> ?n = 38 \<or> ?n = 60 \<or> ?n = 62" "?n \<notin> {8, 9, 10, 12, 13, 34, 92}"
    | (p) "32 \<le> ?n" "?n \<notin> {34, 92, 38, 60, 62}"
    using char_eqI [of c "CHR 0x22"] char_eqI [of c "CHR 0x5C"] char_eqI [of c "CHR 0x08"] char_eqI [of c "CHR 0x09"]
      char_eqI [of c "CHR 0x0A"] char_eqI [of c "CHR 0x0C"] char_eqI [of c "CHR 0x0D"] by fastforce
  then show ?thesis
  proof cases
    case u
    have "?n < 128" using u(1) by auto
    from unescape_low [OF this, of s] show ?thesis by (simp add: esc_hex [OF u])
  next
    case p
    then have "c \<noteq> CHR 0x22" "c \<noteq> CHR 0x5C" "\<not> ?n < 32" by auto
    then show ?thesis by (simp add: esc_plain [OF p])
  next
    case e
    then show ?thesis by (elim insertE emptyE) (simp_all add: esc_char_def Let_def unescape1_def)
  qed (simp_all add: esc_char_def Let_def unescape1_def)
qed

lemma parse_escs:
  "length s < n \<Longrightarrow> parse_str n (concat (map esc_char s) @ CHR 0x22 # rest) = Some (s, rest)"
proof (induction s arbitrary: n)
  case Nil
  then show ?case by (cases n) simp_all
next
  case (Cons c s)
  then obtain m where m: "n = Suc m" "length s < m" by (cases n) auto
  have "parse_str n (concat (map esc_char (c # s)) @ CHR 0x22 # rest)
      = parse_str (Suc m) (esc_char c @ (concat (map esc_char s) @ CHR 0x22 # rest))" by (simp only: m(1) list.map concat.simps append_assoc)
  also have "\<dots> = Some (c # s, rest)" using Cons.IH [OF m(2)] by (simp only: parse_esc) simp
  finally show ?case .
qed

lemma esc_length: "length s \<le> length (concat (map esc_char s))"
proof (induction s)
  case (Cons c s)
  have "esc_char c \<noteq> []" by (simp add: esc_char_def Let_def)
  then have "1 \<le> length (esc_char c)" by (cases "esc_char c") simp_all
  then show ?case using Cons by simp
qed simp

lemma parse_quoted:
  "parse_str (length (concat (map esc_char s) @ CHR 0x22 # rest)) (concat (map esc_char s) @ CHR 0x22 # rest) = Some (s, rest)"
  by (rule parse_escs) (use esc_length [of s] in simp)

section \<open>Numbers\<close>

text \<open>What follows a value inside an array or object.\<close>

definition delim :: "string \<Rightarrow> bool" where
  "delim rest \<longleftrightarrow> (case rest of [] \<Rightarrow> True | c # r \<Rightarrow> c = CHR '','' \<or> c = CHR '']'' \<or> c = CHR ''}'')"

lemma nat_str_head: "nat_str n = CHR ''0'' # s \<Longrightarrow> n = 0"
proof (induction n arbitrary: s rule: nat_str.induct)
  case (1 n)
  show ?case
  proof (cases "n < 10")
    case True
    then have "char_of (48 + n) = CHR ''0''" using 1(2) by (simp add: nat_str.simps [of n])
    then have "(of_char (char_of (48 + n) :: char) :: nat) = of_char (CHR ''0'')" by (rule arg_cong)
    then show ?thesis using of_char_digit [of n] True by simp
  next
    case False
    then obtain t where "nat_str (n div 10) = CHR ''0'' # t"
      using 1(2) by (cases "nat_str (n div 10)") (auto simp: nat_str.simps [of n])
    then have "n div 10 = 0" using 1(1) [OF False] by simp
    then show ?thesis using False by simp
  qed
qed

lemma digits1_nat_str:
  assumes "delim rest"
  shows "digits1 (nat_str n @ rest) = Some (nat_str n, rest)"
proof -
  have ds: "\<forall>c\<in>set (nat_str n). is_digit c" using nat_str_digits by blast
  have "takeWhile is_digit rest = [] \<and> dropWhile is_digit rest = rest"
    using assms by (cases rest) (auto simp: delim_def is_digit_def)
  then show ?thesis using ds by (simp add: digits1_def takeWhile_append dropWhile_append)
qed

lemma parse_num_nat_str:
  assumes rest: "delim rest" and sg0: "sg0 = [] \<or> sg0 = [CHR ''-'']"
  shows "parse_num (sg0 @ nat_str n @ rest) = Some (sg0 @ nat_str n, rest)"
proof -
  obtain c s where cs: "nat_str n = c # s" by (cases "nat_str n") auto
  have dig: "is_digit c" using nat_str_digits [of c n] cs by simp
  have sg: "c \<noteq> CHR ''-''" using dig by (auto simp: is_digit_def)
  have zero: "c = CHR ''0'' \<Longrightarrow> s = []" using nat_str_head [of n s] cs by (auto simp: nat_str.simps [of 0])
  have sign: "(case sg0 @ nat_str n @ rest of ch # t \<Rightarrow> if ch = CHR ''-'' then ([ch], t) else ([], sg0 @ nat_str n @ rest)
      | [] \<Rightarrow> ([], sg0 @ nat_str n @ rest)) = (sg0, nat_str n @ rest)"
    using sg0 sg by (auto simp: cs)
  have ip: "(case nat_str n @ rest of ch # t \<Rightarrow> if ch = CHR ''0'' then Some ([ch], t) else digits1 (nat_str n @ rest) | [] \<Rightarrow> None)
      = Some (nat_str n, rest)"
    using zero digits1_nat_str [OF rest, of n] by (simp add: cs)
  consider "rest = []" | t where "rest = CHR '','' # t" | t where "rest = CHR '']'' # t" | t where "rest = CHR ''}'' # t"
    using rest by (cases rest) (auto simp: delim_def)
  then show ?thesis
    unfolding parse_num_def sign prod.case Let_def ip option.case by cases simp_all
qed

lemma parse_num_int_str: "delim rest \<Longrightarrow> parse_num (int_str i @ rest) = Some (int_str i, rest)"
  using parse_num_nat_str [of rest "[]" "nat i"] parse_num_nat_str [of rest "[CHR ''-'']" "nat (- i)"]
  by (simp add: int_str_def)

section \<open>Values\<close>

text \<open>The values the program builds: their numbers are integers.\<close>

fun wf_json :: "json \<Rightarrow> bool" where
  "wf_json (JNum t) = (\<exists>i. t = int_str i)"
| "wf_json (JArr vs) = (\<forall>v\<in>set vs. wf_json v)"
| "wf_json (JObj kvs) = (\<forall>kv\<in>set kvs. wf_json (snd kv))"
| "wf_json v = True"

lemma int_str_head: "\<exists>c s. int_str i = c # s \<and> (c = CHR ''-'' \<or> is_digit c)"
proof (cases "i < 0")
  case False
  obtain c s where "nat_str (nat i) = c # s" by (cases "nat_str (nat i)") auto
  then show ?thesis using False nat_str_digits [of c "nat i"] by (simp add: int_str_def)
qed (simp add: int_str_def)

definition starts_value :: "char \<Rightarrow> bool" where
  "starts_value c \<longleftrightarrow> \<not> json_space c \<and> c \<noteq> CHR '']'' \<and> c \<noteq> CHR ''}''"

lemma digit_starts: "c = CHR ''-'' \<or> is_digit c \<Longrightarrow> starts_value c
    \<and> c \<noteq> CHR 0x22 \<and> c \<noteq> CHR ''['' \<and> c \<noteq> CHR ''{'' \<and> c \<noteq> CHR ''n'' \<and> c \<noteq> CHR ''t'' \<and> c \<noteq> CHR ''f''"
  by (auto simp: starts_value_def json_space_def is_digit_def Let_def)

lemma jprint_head: "wf_json v \<Longrightarrow> \<exists>c s. jprint v = c # s \<and> starts_value c"
proof (cases v)
  case (JNum t)
  assume "wf_json v"
  then obtain i where "t = int_str i" using JNum by auto
  then show ?thesis using int_str_head [of i] digit_starts JNum by auto
qed (auto simp: quote_json_def starts_value_def json_space_def Let_def)

lemma skip_head: "starts_value c \<Longrightarrow> skip_space (c # s) = c # s"
  by (simp add: skip_space_def starts_value_def)

lemma skip_delims [simp]:
  "skip_space (CHR '','' # s) = CHR '','' # s" "skip_space (CHR '']'' # s) = CHR '']'' # s"
  "skip_space (CHR ''}'' # s) = CHR ''}'' # s" "skip_space (CHR '':'' # s) = CHR '':'' # s"
  "skip_space (CHR 0x22 # s) = CHR 0x22 # s" "skip_space (CHR ''['' # s) = CHR ''['' # s" "skip_space (CHR ''{'' # s) = CHR ''{'' # s"
  by (simp_all add: skip_space_def json_space_def Let_def)

text \<open>A value is parsed from its text when there is fuel for twice its length.\<close>

definition parses :: "json \<Rightarrow> bool" where
  "parses v \<longleftrightarrow> (\<forall>n rest. 2 * length (jprint v) \<le> n \<longrightarrow> delim rest \<longrightarrow> parse_value (Suc n) (jprint v @ rest) = Some (v, rest))"

definition elems_text :: "json list \<Rightarrow> string" where
  "elems_text vs = join '','' (map jprint vs)"

lemma parse_elems_text:
  assumes "\<And>v. v \<in> set vs \<Longrightarrow> parses v" "vs \<noteq> []" "2 * length (elems_text vs) + 2 \<le> n"
  shows "parse_elems n (elems_text vs @ CHR '']'' # rest) = Some (vs, rest)"
  using assms
proof (induction vs arbitrary: n)
  case (Cons v vs)
  obtain m where m: "n = Suc (Suc m)" using Cons.prems(3) by (cases n; cases "n - 1") auto
  show ?case
  proof (cases vs)
    case Nil
    have "parse_value (Suc m) (jprint v @ CHR '']'' # rest) = Some (v, CHR '']'' # rest)"
      using Cons.prems(1) [of v] Cons.prems(3) m Nil
      by (simp add: parses_def delim_def elems_text_def del: parse_value.simps)
    then show ?thesis by (simp add: m Nil elems_text_def del: parse_value.simps)
  next
    case (Cons v2 vs2)
    have jt: "elems_text (v # vs) = jprint v @ CHR '','' # elems_text vs" by (simp add: Cons elems_text_def)
    have len: "length (elems_text (v # vs)) = Suc (length (jprint v) + length (elems_text vs))" by (simp only: jt) simp
    have "parse_value (Suc m) (jprint v @ CHR '','' # elems_text vs @ CHR '']'' # rest)
        = Some (v, CHR '','' # elems_text vs @ CHR '']'' # rest)"
      using Cons.prems(1) [of v] Cons.prems(3) m len by (simp add: parses_def delim_def del: parse_value.simps)
    moreover have "parse_elems (Suc m) (elems_text vs @ CHR '']'' # rest) = Some (vs, rest)"
      by (rule Cons.IH) (use Cons.prems(1,3) len m Cons in auto)
    ultimately show ?thesis by (simp add: m jt del: parse_value.simps)
  qed
qed simp

definition members_text :: "(string \<times> json) list \<Rightarrow> string" where
  "members_text kvs = join '','' (map (\<lambda>kv. quote_json (fst kv) @ '':'' @ jprint (snd kv)) kvs)"

lemma parse_members_text:
  assumes "\<And>kv. kv \<in> set kvs \<Longrightarrow> parses (snd kv)" "kvs \<noteq> []" "2 * length (members_text kvs) + 2 \<le> n"
  shows "parse_members n (members_text kvs @ CHR ''}'' # rest) = Some (kvs, rest)"
  using assms
proof (induction kvs arbitrary: n)
  case (Cons kv kvs)
  obtain k v where kv: "kv = (k, v)" by (cases kv)
  obtain m where m: "n = Suc (Suc m)" using Cons.prems(3) by (cases n; cases "n - 1") auto
  have q: "quote_json k @ s = CHR 0x22 # concat (map esc_char k) @ CHR 0x22 # s" for s by (simp add: quote_json_def)
  show ?case
  proof (cases kvs)
    case Nil
    have "parse_value (Suc m) (jprint v @ CHR ''}'' # rest) = Some (v, CHR ''}'' # rest)"
      using Cons.prems(1) [of kv] Cons.prems(3) m Nil
      by (simp add: parses_def delim_def members_text_def kv quote_json_def del: parse_value.simps)
    then show ?thesis
      using parse_quoted [of k "CHR '':'' # jprint v @ CHR ''}'' # rest"] by (simp add: m Nil members_text_def kv q del: parse_value.simps)
  next
    case (Cons kv2 kvs2)
    have jt: "members_text (kv # kvs) = quote_json k @ CHR '':'' # jprint v @ CHR '','' # members_text kvs"
      by (simp add: Cons members_text_def kv)
    have len: "length (jprint v) + length (members_text kvs) + 2 \<le> length (members_text (kv # kvs))" by (simp only: jt) simp
    have "parse_value (Suc m) (jprint v @ CHR '','' # members_text kvs @ CHR ''}'' # rest)
        = Some (v, CHR '','' # members_text kvs @ CHR ''}'' # rest)"
      using Cons.prems(1) [of kv] Cons.prems(3) m len by (simp add: parses_def delim_def kv del: parse_value.simps)
    moreover have "parse_members (Suc m) (members_text kvs @ CHR ''}'' # rest) = Some (kvs, rest)"
      by (rule Cons.IH) (use Cons.prems(1,3) len m Cons in auto)
    ultimately show ?thesis
      using parse_quoted [of k "CHR '':'' # jprint v @ CHR '','' # members_text kvs @ CHR ''}'' # rest"] by (simp add: m jt [unfolded kv] kv q del: parse_value.simps)
  qed
qed simp

lemma HasPrefix_other: "c \<noteq> d \<Longrightarrow> \<not> HasPrefix (c # s) (d # p)"
  by simp

lemma wf_parses: "wf_json v \<Longrightarrow> parses v"
proof (induction v)
  case JNull
  show ?case by (auto simp: parses_def skip_space_def json_space_def Let_def)
next
  case (JBool b)
  show ?case by (auto simp: parses_def skip_space_def json_space_def Let_def)
next
  case (JNum t)
  then obtain i where t: "t = int_str i" by auto
  obtain c s where cs: "int_str i = c # s" "c = CHR ''-'' \<or> is_digit c" using int_str_head by blast
  note d = digit_starts [OF cs(2)]
  show ?case
    unfolding parses_def
  proof (intro allI impI)
    fix n rest assume "delim rest"
    note pn = parse_num_int_str [OF this, of i]
    have "skip_space (c # s @ rest) = c # s @ rest" using d by (simp add: skip_head)
    then show "parse_value (Suc n) (jprint (JNum t) @ rest) = Some (JNum t, rest)"
      using d pn by (simp add: t cs(1))
  qed
next
  case (JStr x)
  show ?case using parse_quoted [of x] by (auto simp: parses_def quote_json_def)
next
  case (JArr vs)
  have p: "parses v" if "v \<in> set vs" for v using JArr that by auto
  show ?case
    unfolding parses_def
  proof (intro allI impI)
    fix n rest assume n: "2 * length (jprint (JArr vs)) \<le> n" and "delim rest"
    have jt: "jprint (JArr vs) = CHR ''['' # elems_text vs @ [CHR '']'']" by (simp add: elems_text_def)
    show "parse_value (Suc n) (jprint (JArr vs) @ rest) = Some (JArr vs, rest)"
    proof (cases vs)
      case Nil
      then show ?thesis by simp
    next
      case (Cons v ws)
      have "wf_json v" using JArr.prems Cons by simp
      then obtain c s where "jprint v = c # s" "starts_value c" using jprint_head by blast
      then obtain s' where hd: "elems_text vs = c # s'" "starts_value c"
        by (cases ws) (auto simp: elems_text_def Cons)
      have "parse_elems n (elems_text vs @ CHR '']'' # rest) = Some (vs, rest)"
        by (rule parse_elems_text) (use p n jt Cons in auto)
      then show ?thesis using hd by (simp add: jt skip_head starts_value_def del: jprint.simps)
    qed
  qed
next
  case (JObj kvs)
  have p: "parses (snd kv)" if "kv \<in> set kvs" for kv using JObj that by (cases kv) (auto intro: snds.intros)
  show ?case
    unfolding parses_def
  proof (intro allI impI)
    fix n rest assume n: "2 * length (jprint (JObj kvs)) \<le> n" and "delim rest"
    have jt: "jprint (JObj kvs) = CHR ''{'' # members_text kvs @ [CHR ''}'']" by (simp add: members_text_def)
    show "parse_value (Suc n) (jprint (JObj kvs) @ rest) = Some (JObj kvs, rest)"
    proof (cases kvs)
      case Nil
      then show ?thesis by simp
    next
      case (Cons kv ws)
      obtain s' where hd: "members_text kvs = CHR 0x22 # s'"
        by (cases ws) (auto simp: members_text_def Cons quote_json_def)
      have "parse_members n (members_text kvs @ CHR ''}'' # rest) = Some (kvs, rest)"
        by (rule parse_members_text) (use p n jt Cons in auto)
      then show ?thesis using hd by (simp add: jt del: jprint.simps)
    qed
  qed
qed

theorem json_roundtrip: "wf_json v \<Longrightarrow> jparse (jprint v) = Some v"
proof -
  assume "wf_json v"
  then have "parses v" by (rule wf_parses)
  then have "parse_value (Suc (2 * length (jprint v) + 1)) (jprint v @ []) = Some (v, [])"
    using spec [OF spec [OF \<open>parses v\<close> [unfolded parses_def], of "2 * length (jprint v) + 1"], of "[]"]
    by (simp add: delim_def del: parse_value.simps)
  then show ?thesis by (simp add: jparse_def skip_space_def numeral_2_eq_2 del: parse_value.simps)
qed

end
