(* ===== verification/VaultService.thy ===== *)
theory VaultService
  imports StoreVault GoMap JsonCodec "HOL-Library.Word"
begin

text \<open>
  \<open>internal/vault/service.go\<close> and \<open>crypto.go\<close>: the vault API, the encryption of secrets at
  rest, their decryption for injection, and the refresh of OAuth tokens. AES-GCM, SHA-256, the
  source of nonces, the parsing of URLs and times, and the token endpoint are parameters.
\<close>

section \<open>What the service is given\<close>

record refresh_request =
  rq_URL :: string
  rq_Form :: "(string \<times> string) list"
  rq_Basic :: "(string \<times> string) option"

record vault_lib =
  vl_Seal :: "string \<Rightarrow> string \<Rightarrow> string \<Rightarrow> string \<Rightarrow> string"
  vl_Open :: "string \<Rightarrow> string \<Rightarrow> string \<Rightarrow> string \<Rightarrow> string option"
  vl_Sha256 :: "string \<Rightarrow> string"
  vl_Rand :: "nat \<Rightarrow> gerr + string"
  vl_Hostname :: "string \<Rightarrow> gerr + string"
  vl_Quote :: "string \<Rightarrow> string"
  vl_ParseTime :: "string \<Rightarrow> gerr + int"
  vl_FormatTime :: "int \<Rightarrow> string"
  vl_Http :: "nat \<Rightarrow> refresh_request \<Rightarrow> gerr + int \<times> string"

section \<open>The cipher box\<close>

record cipherBox =
  cb_Key :: string

definition newCipherBox :: "vault_lib \<Rightarrow> string \<Rightarrow> cipherBox" where
  "newCipherBox L rootSecret = \<lparr>cb_Key = vl_Sha256 L rootSecret\<rparr>"

text \<open>A fresh nonce, and the text sealed with the label as additional data.\<close>

definition Encrypt :: "vault_lib \<Rightarrow> cipherBox \<Rightarrow> string \<Rightarrow> string \<Rightarrow> (world, string \<times> string) io" where
  "Encrypt L box plaintext label =
     bindE (wrapE ''nonce'' (bindE (askE (vl_Rand L)) (\<lambda>r. case r of Inl err \<Rightarrow> throwE err | Inr nonce \<Rightarrow> returnE nonce)))
       (\<lambda>nonce. returnE (vl_Seal L (cb_Key box) nonce plaintext label, nonce))"

definition Decrypt :: "vault_lib \<Rightarrow> cipherBox \<Rightarrow> string \<Rightarrow> string \<Rightarrow> string \<Rightarrow> gerr + string" where
  "Decrypt L box ciphertext nonce label =
     (case vl_Open L (cb_Key box) nonce ciphertext label of
        None \<Rightarrow> Inl (Wrap ''decrypt'' (ErrMsg ''cipher: message authentication failed''))
      | Some p \<Rightarrow> Inr p)"

definition credentialTokenLabel :: string where
  "credentialTokenLabel = ''vault.credential.token''"

definition credentialOAuthLabel :: string where
  "credentialOAuthLabel = ''vault.credential.oauth''"

text \<open>\<open>New\<close>: an empty root secret is replaced by the development one.\<close>

definition NewVaultService :: "vault_lib \<Rightarrow> string \<Rightarrow> cipherBox" where
  "NewVaultService L rootSecret = newCipherBox L (if rootSecret = [] then ''jadeenvoy-dev-insecure-root-secret'' else rootSecret)"

section \<open>Requests and answers\<close>

record CredentialOAuthEndpointAuthIn =
  ea_Type :: string
  ea_ClientSecret :: string

record CredentialOAuthRefreshInput =
  rf_TokenEndpoint :: string
  rf_ClientID :: string
  rf_Scope :: string
  rf_RefreshToken :: string
  rf_TokenEndpointAuth :: CredentialOAuthEndpointAuthIn

record CredentialAuthInput =
  ca_Type :: string
  ca_MCPServerURL :: string
  ca_Token :: string
  ca_AccessToken :: string
  ca_ExpiresAt :: string
  ca_Refresh :: "CredentialOAuthRefreshInput option"

record CreateCredentialRequest =
  cr_DisplayName :: string
  cr_Auth :: CredentialAuthInput

record CreateVaultRequest =
  vr_DisplayName :: string
  vr_Metadata :: smap

record Vault =
  vt_ID :: string
  vt_DisplayName :: string
  vt_Metadata :: smap
  vt_CreatedAt :: int
  vt_UpdatedAt :: int
  vt_ArchivedAt :: "int option"

record Credential =
  ct_ID :: string
  ct_VaultID :: string
  ct_DisplayName :: string
  ct_AuthType :: string
  ct_MCPServerURL :: string
  ct_CreatedAt :: int
  ct_UpdatedAt :: int
  ct_ArchivedAt :: "int option"

record ResolvedCredential =
  rc_CredentialID :: string
  rc_AuthType :: string
  rc_Token :: string

definition vaultToAPI :: "VaultRow \<Rightarrow> Vault" where
  "vaultToAPI r = \<lparr>vt_ID = va_ID r, vt_DisplayName = va_DisplayName r,
     vt_Metadata = fst (unmarshal dec_smap (Some []) (va_Metadata r)),
     vt_CreatedAt = va_CreatedAt r, vt_UpdatedAt = va_UpdatedAt r, vt_ArchivedAt = va_ArchivedAt r\<rparr>"

definition credentialToAPI :: "CredentialRow \<Rightarrow> Credential" where
  "credentialToAPI r = \<lparr>ct_ID = cd_ID r, ct_VaultID = cd_VaultID r, ct_DisplayName = cd_DisplayName r,
     ct_AuthType = cd_AuthType r, ct_MCPServerURL = cd_MCPServerURL r, ct_CreatedAt = cd_CreatedAt r,
     ct_UpdatedAt = cd_UpdatedAt r, ct_ArchivedAt = cd_ArchivedAt r\<rparr>"

definition mapE_result :: "('a \<Rightarrow> 'b) \<Rightarrow> (world, 'a) io \<Rightarrow> (world, 'b) io" where
  "mapE_result f m = bindE m (\<lambda>x. returnE (f x))"

section \<open>Vaults\<close>

definition request_metadata :: "smap \<Rightarrow> raw" where
  "request_metadata m = (if entries m = [] then Some (JObj []) else Some (marshal_smap m))"

definition svc_CreateVault :: "env \<Rightarrow> ctx \<Rightarrow> string \<Rightarrow> CreateVaultRequest \<Rightarrow> (world, Vault) io" where
  "svc_CreateVault e c tenant req =
     (if vr_DisplayName req = [] then throwE (ErrMsg ''display_name is required'')
      else mapE_result vaultToAPI (CreateVault e c tenant (vr_DisplayName req) (request_metadata (vr_Metadata req))))"

definition svc_GetVault :: "env \<Rightarrow> ctx \<Rightarrow> string \<Rightarrow> string \<Rightarrow> (world, Vault) io" where
  "svc_GetVault e c tenant vid = mapE_result vaultToAPI (GetVault e c tenant vid)"

definition svc_ListVaults :: "env \<Rightarrow> ctx \<Rightarrow> string \<Rightarrow> int \<Rightarrow> (world, Vault list) io" where
  "svc_ListVaults e c tenant limit = mapE_result (map vaultToAPI) (ListVaults e c tenant limit)"

definition svc_ArchiveVault :: "env \<Rightarrow> ctx \<Rightarrow> string \<Rightarrow> string \<Rightarrow> (world, unit) io" where
  "svc_ArchiveVault = ArchiveVault"

definition svc_UpdateVault :: "env \<Rightarrow> ctx \<Rightarrow> string \<Rightarrow> string \<Rightarrow> CreateVaultRequest \<Rightarrow> (world, Vault) io" where
  "svc_UpdateVault e c tenant vid req =
     (if vr_DisplayName req = [] then throwE (ErrMsg ''display_name is required'')
      else mapE_result vaultToAPI (UpdateVault e c tenant vid (vr_DisplayName req) (request_metadata (vr_Metadata req))))"

definition svc_DeleteVault :: "env \<Rightarrow> ctx \<Rightarrow> string \<Rightarrow> string \<Rightarrow> (world, unit) io" where
  "svc_DeleteVault = DeleteVault"

section \<open>Secrets\<close>

record oauthSecret =
  os_AccessToken :: string
  os_ExpiresAt :: string
  os_Refresh :: "CredentialOAuthRefreshInput option"

definition omitempty :: "string \<Rightarrow> string \<Rightarrow> (string \<times> json) list" where
  "omitempty k s = (if s = [] then [] else [(k, JStr s)])"

definition refresh_json :: "CredentialOAuthRefreshInput \<Rightarrow> json" where
  "refresh_json r = JObj ([(''token_endpoint'', JStr (rf_TokenEndpoint r)), (''client_id'', JStr (rf_ClientID r))]
     @ omitempty ''scope'' (rf_Scope r)
     @ [(''refresh_token'', JStr (rf_RefreshToken r)),
        (''token_endpoint_auth'', JObj ((''type'', JStr (ea_Type (rf_TokenEndpointAuth r)))
           # omitempty ''client_secret'' (ea_ClientSecret (rf_TokenEndpointAuth r))))])"

definition secret_json :: "oauthSecret \<Rightarrow> json" where
  "secret_json s = JObj ((''access_token'', JStr (os_AccessToken s)) # omitempty ''expires_at'' (os_ExpiresAt s)
     @ (case os_Refresh s of None \<Rightarrow> [] | Some r \<Rightarrow> [(''refresh'', refresh_json r)]))"

definition dec_endpoint_auth :: "CredentialOAuthEndpointAuthIn dec" where
  "dec_endpoint_auth = dec_struct
     [fld ''type'' ea_Type ea_Type_update dec_str,
      fld ''client_secret'' ea_ClientSecret ea_ClientSecret_update dec_str]"

definition dec_refresh :: "CredentialOAuthRefreshInput dec" where
  "dec_refresh = dec_struct
     [fld ''token_endpoint'' rf_TokenEndpoint rf_TokenEndpoint_update dec_str,
      fld ''client_id'' rf_ClientID rf_ClientID_update dec_str,
      fld ''scope'' rf_Scope rf_Scope_update dec_str,
      fld ''refresh_token'' rf_RefreshToken rf_RefreshToken_update dec_str,
      fld ''token_endpoint_auth'' rf_TokenEndpointAuth rf_TokenEndpointAuth_update dec_endpoint_auth]"

definition zero_refresh :: CredentialOAuthRefreshInput where
  "zero_refresh = \<lparr>rf_TokenEndpoint = [], rf_ClientID = [], rf_Scope = [], rf_RefreshToken = [],
     rf_TokenEndpointAuth = \<lparr>ea_Type = [], ea_ClientSecret = []\<rparr>\<rparr>"

definition zero_secret :: oauthSecret where
  "zero_secret = \<lparr>os_AccessToken = [], os_ExpiresAt = [], os_Refresh = None\<rparr>"

definition dec_secret :: "oauthSecret dec" where
  "dec_secret = dec_struct
     [fld ''access_token'' os_AccessToken os_AccessToken_update dec_str,
      fld ''expires_at'' os_ExpiresAt os_ExpiresAt_update dec_str,
      fld ''refresh'' os_Refresh os_Refresh_update (dec_ptr zero_refresh dec_refresh)]"

text \<open>\<open>auth.Refresh\<close> is checked, and an empty authentication type becomes \<open>none\<close>.\<close>

definition check_refresh :: "vault_lib \<Rightarrow> CredentialOAuthRefreshInput \<Rightarrow> gerr + CredentialOAuthRefreshInput" where
  "check_refresh L r =
     (let ty = ea_Type (rf_TokenEndpointAuth r) in
      if rf_TokenEndpoint r = [] then Inl (ErrMsg ''auth.refresh.token_endpoint is required'')
      else if rf_RefreshToken r = [] then Inl (ErrMsg ''auth.refresh.refresh_token is required'')
      else if ty \<notin> {[], ''none'', ''client_secret_basic'', ''client_secret_post''}
        then Inl (ErrMsg (''unsupported token_endpoint_auth.type '' @ vl_Quote L ty))
      else Inr (if ty = [] then r\<lparr>rf_TokenEndpointAuth := (rf_TokenEndpointAuth r)\<lparr>ea_Type := ''none''\<rparr>\<rparr> else r))"

definition expires_error :: "vault_lib \<Rightarrow> string \<Rightarrow> string \<Rightarrow> gerr option" where
  "expires_error L m t = (if t = [] then None else (case vl_ParseTime L t of Inl err \<Rightarrow> Some (Wrap m err) | Inr _ \<Rightarrow> None))"

definition oauthSecretFromInput :: "vault_lib \<Rightarrow> CredentialAuthInput \<Rightarrow> gerr + oauthSecret" where
  "oauthSecretFromInput L a =
     (if ca_AccessToken a = [] then Inl (ErrMsg ''auth.access_token is required'')
      else (case expires_error L ''auth.expires_at must be RFC3339'' (ca_ExpiresAt a) of Some err \<Rightarrow> Inl err | None \<Rightarrow>
        (case ca_Refresh a of
          None \<Rightarrow> Inr \<lparr>os_AccessToken = ca_AccessToken a, os_ExpiresAt = ca_ExpiresAt a, os_Refresh = None\<rparr>
        | Some r \<Rightarrow> (case check_refresh L r of Inl err \<Rightarrow> Inl err
            | Inr r' \<Rightarrow> Inr \<lparr>os_AccessToken = ca_AccessToken a, os_ExpiresAt = ca_ExpiresAt a, os_Refresh = Some r'\<rparr>))))"

definition encryptCredentialAuth ::
  "vault_lib \<Rightarrow> cipherBox \<Rightarrow> CredentialAuthInput \<Rightarrow> (world, string \<times> string \<times> string) io" where
  "encryptCredentialAuth L box a =
     (if ca_Type a = ''static_bearer'' then
        (if ca_Token a = [] then throwE (ErrMsg ''auth.token is required'')
         else bindE (Encrypt L box (ca_Token a) credentialTokenLabel) (\<lambda>(ct, n). returnE (ct, n, credentialTokenLabel)))
      else if ca_Type a = ''mcp_oauth'' then
        (case oauthSecretFromInput L a of Inl err \<Rightarrow> throwE err
         | Inr secret \<Rightarrow> bindE (Encrypt L box (jprint (secret_json secret)) credentialOAuthLabel)
             (\<lambda>(ct, n). returnE (ct, n, credentialOAuthLabel)))
      else throwE ErrUnsupportedAuthType)"

definition decryptOAuthSecret :: "vault_lib \<Rightarrow> cipherBox \<Rightarrow> CredentialRow \<Rightarrow> gerr + oauthSecret" where
  "decryptOAuthSecret L box r =
     (case Decrypt L box (cd_Cipher r) (cd_CipherNonce r) (cd_CipherLabel r) of Inl err \<Rightarrow> Inl err
      | Inr p \<Rightarrow> (case unmarshal dec_secret zero_secret (jparse p) of
          (s, False) \<Rightarrow> Inr s
        | (_, True) \<Rightarrow> Inl (ErrMsg ''json: cannot unmarshal'')))"

definition hostFromURL :: "vault_lib \<Rightarrow> string \<Rightarrow> gerr + string" where
  "hostFromURL L url =
     (case vl_Hostname L url of Inl err \<Rightarrow> Inl (Wrap ''invalid mcp_server_url'' err)
      | Inr host \<Rightarrow> if host = [] then Inl (ErrMsg (''mcp_server_url has no host: '' @ vl_Quote L url)) else Inr host)"

definition liftE :: "gerr + 'a \<Rightarrow> (world, 'a) io" where
  "liftE r = (case r of Inl err \<Rightarrow> throwE err | Inr x \<Rightarrow> returnE x)"

section \<open>Credentials\<close>

definition AddCredential ::
  "env \<Rightarrow> ctx \<Rightarrow> vault_lib \<Rightarrow> cipherBox \<Rightarrow> string \<Rightarrow> string \<Rightarrow> CreateCredentialRequest \<Rightarrow> (world, Credential) io" where
  "AddCredential e c L box vid tenant req =
     (let a = cr_Auth req in
      if ca_Type a \<noteq> ''static_bearer'' \<and> ca_Type a \<noteq> ''mcp_oauth'' then throwE ErrUnsupportedAuthType
      else if ca_MCPServerURL a = [] then throwE (ErrMsg ''auth.mcp_server_url is required'')
      else bindE (liftE (hostFromURL L (ca_MCPServerURL a))) (\<lambda>host.
        bindE (GetVault e c tenant vid) (\<lambda>_.
        bindE (encryptCredentialAuth L box a) (\<lambda>(ct, nonce, label).
        mapE_result credentialToAPI (CreateCredential e c
          \<lparr>ci_VaultID = vid, ci_TenantID = tenant, ci_DisplayName = cr_DisplayName req, ci_AuthType = ca_Type a,
           ci_MCPServerURL = ca_MCPServerURL a, ci_MCPServerHost = host, ci_Cipher = ct, ci_CipherNonce = nonce,
           ci_CipherLabel = label\<rparr>)))))"

definition ListCredentials :: "env \<Rightarrow> ctx \<Rightarrow> string \<Rightarrow> string \<Rightarrow> (world, Credential list) io" where
  "ListCredentials e c tenant vid =
     bindE (GetVault e c tenant vid) (\<lambda>_. mapE_result (map credentialToAPI) (ListCredentialsByVault e c tenant vid))"

definition svc_GetCredential :: "env \<Rightarrow> ctx \<Rightarrow> string \<Rightarrow> string \<Rightarrow> string \<Rightarrow> (world, Credential) io" where
  "svc_GetCredential e c tenant vid cid =
     bindE (GetVault e c tenant vid) (\<lambda>_. mapE_result credentialToAPI (GetCredentialScoped e c tenant vid cid))"

text \<open>The secret is encrypted again when any part of it, or the type, is new.\<close>

definition new_secret :: "CredentialAuthInput \<Rightarrow> string \<Rightarrow> string \<Rightarrow> bool" where
  "new_secret a authType current \<longleftrightarrow> ca_Token a \<noteq> [] \<or> ca_AccessToken a \<noteq> [] \<or> ca_Refresh a \<noteq> None
     \<or> ca_ExpiresAt a \<noteq> [] \<or> authType \<noteq> current"

definition svc_UpdateCredential ::
  "env \<Rightarrow> ctx \<Rightarrow> vault_lib \<Rightarrow> cipherBox \<Rightarrow> string \<Rightarrow> string \<Rightarrow> string \<Rightarrow> CreateCredentialRequest \<Rightarrow> (world, Credential) io" where
  "svc_UpdateCredential e c L box tenant vid cid req =
     (let a = cr_Auth req in
      if ca_Type a \<noteq> [] \<and> ca_Type a \<noteq> ''static_bearer'' \<and> ca_Type a \<noteq> ''mcp_oauth'' then throwE ErrUnsupportedAuthType
      else if ca_MCPServerURL a = [] then throwE (ErrMsg ''auth.mcp_server_url is required'')
      else bindE (liftE (hostFromURL L (ca_MCPServerURL a))) (\<lambda>host.
        bindE (GetVault e c tenant vid) (\<lambda>_.
        bindE (GetCredentialScoped e c tenant vid cid) (\<lambda>current.
        let authType = (if ca_Type a = [] then cd_AuthType current else ca_Type a) in
        bindE (if new_secret a authType (cd_AuthType current) then encryptCredentialAuth L box (a\<lparr>ca_Type := authType\<rparr>)
               else returnE (cd_Cipher current, cd_CipherNonce current, cd_CipherLabel current)) (\<lambda>(ct, nonce, label).
        mapE_result credentialToAPI (UpdateCredential e c
          \<lparr>ui_ID = cid, ui_VaultID = vid, ui_TenantID = tenant,
           ui_DisplayName = (if cr_DisplayName req = [] then cd_DisplayName current else cr_DisplayName req),
           ui_AuthType = authType, ui_MCPServerURL = ca_MCPServerURL a, ui_MCPServerHost = host, ui_Cipher = ct,
           ui_CipherNonce = nonce, ui_CipherLabel = label\<rparr>))))))"

definition svc_ArchiveCredential :: "env \<Rightarrow> ctx \<Rightarrow> string \<Rightarrow> string \<Rightarrow> string \<Rightarrow> (world, unit) io" where
  "svc_ArchiveCredential e c tenant vid cid =
     bindE (GetVault e c tenant vid) (\<lambda>_. ArchiveCredential e c tenant vid cid)"

definition svc_DeleteCredential :: "env \<Rightarrow> ctx \<Rightarrow> string \<Rightarrow> string \<Rightarrow> string \<Rightarrow> (world, unit) io" where
  "svc_DeleteCredential = DeleteCredential"

section \<open>Refreshing\<close>

text \<open>Instants are nanoseconds; the clock of the environment ticks in milliseconds.\<close>

definition instant :: "int \<Rightarrow> int" where
  "instant ms = ms * 1000000"

definition oauthNeedsRefresh :: "vault_lib \<Rightarrow> oauthSecret \<Rightarrow> int \<Rightarrow> bool" where
  "oauthNeedsRefresh L s t =
     (if os_ExpiresAt s = [] then False
      else (case vl_ParseTime L (os_ExpiresAt s) of Inl _ \<Rightarrow> False
        | Inr expiresAt \<Rightarrow> \<not> t + 60000000000 < expiresAt))"

text \<open>\<open>time.Duration(n) * time.Second\<close> is a 64-bit product.\<close>

definition seconds :: "int \<Rightarrow> int" where
  "seconds n = sint (word_of_int (n * 1000000000) :: 64 word)"

definition refresh_form :: "CredentialOAuthRefreshInput \<Rightarrow> refresh_request" where
  "refresh_form r =
     (let a = rf_TokenEndpointAuth r in
      \<lparr>rq_URL = rf_TokenEndpoint r,
       rq_Form = [(''grant_type'', ''refresh_token''), (''refresh_token'', rf_RefreshToken r)]
         @ (if rf_ClientID r \<noteq> [] then [(''client_id'', rf_ClientID r)] else [])
         @ (if rf_Scope r \<noteq> [] then [(''scope'', rf_Scope r)] else [])
         @ (if ea_Type a = ''client_secret_post'' then [(''client_secret'', ea_ClientSecret a)] else []),
       rq_Basic = (if ea_Type a = ''client_secret_basic'' then Some (rf_ClientID r, ea_ClientSecret a) else None)\<rparr>)"

record token_response =
  tr_AccessToken :: string
  tr_RefreshToken :: string
  tr_ExpiresIn :: int
  tr_ExpiresAt :: string
  tr_Scope :: string

definition dec_token_response :: "token_response dec" where
  "dec_token_response = dec_struct
     [fld ''access_token'' tr_AccessToken tr_AccessToken_update dec_str,
      fld ''refresh_token'' tr_RefreshToken tr_RefreshToken_update dec_str,
      fld ''expires_in'' tr_ExpiresIn tr_ExpiresIn_update dec_int64,
      fld ''expires_at'' tr_ExpiresAt tr_ExpiresAt_update dec_str,
      fld ''scope'' tr_Scope tr_Scope_update dec_str]"

definition zero_response :: token_response where
  "zero_response = \<lparr>tr_AccessToken = [], tr_RefreshToken = [], tr_ExpiresIn = 0, tr_ExpiresAt = [], tr_Scope = []\<rparr>"

definition renewed_refresh :: "token_response \<Rightarrow> CredentialOAuthRefreshInput \<Rightarrow> CredentialOAuthRefreshInput" where
  "renewed_refresh ans r =
     (let r1 = (if tr_RefreshToken ans \<noteq> [] then r\<lparr>rf_RefreshToken := tr_RefreshToken ans\<rparr> else r)
      in if tr_Scope ans \<noteq> [] then r1\<lparr>rf_Scope := tr_Scope ans\<rparr> else r1)"

definition limited_body :: "string \<Rightarrow> string" where
  "limited_body = take 1048576"

definition refreshOAuth :: "env \<Rightarrow> ctx \<Rightarrow> vault_lib \<Rightarrow> oauthSecret \<Rightarrow> (world, oauthSecret) io" where
  "refreshOAuth e c L s =
     (case os_Refresh s of None \<Rightarrow> returnE s
      | Some r \<Rightarrow> bindE (askE (\<lambda>n. if cancelled c n then Inl Canceled else vl_Http L n (refresh_form r))) (\<lambda>resp.
          bindE (liftE resp) (\<lambda>(status, body0).
          let body = limited_body body0; (ans, bad) = unmarshal dec_token_response zero_response (jparse body);
              s1 = s\<lparr>os_AccessToken := tr_AccessToken ans, os_Refresh := Some (renewed_refresh ans r)\<rparr> in
          if status < 200 \<or> status \<ge> 300
            then throwE (ErrMsg (''oauth refresh failed: status '' @ int_str status @ '': '' @ TrimSpace body))
          else if bad then throwE (ErrMsg ''json: cannot unmarshal'')
          else if tr_AccessToken ans = [] then throwE (ErrMsg ''oauth refresh response missing access_token'')
          else if tr_ExpiresIn ans > 0
            then bindE (now e) (\<lambda>t. returnE (s1\<lparr>os_ExpiresAt := vl_FormatTime L (instant t + seconds (tr_ExpiresIn ans))\<rparr>))
          else if tr_ExpiresAt ans \<noteq> []
            then (case expires_error L ''oauth refresh response expires_at must be RFC3339'' (tr_ExpiresAt ans) of
                    Some err \<Rightarrow> throwE err
                  | None \<Rightarrow> returnE (s1\<lparr>os_ExpiresAt := tr_ExpiresAt ans\<rparr>))
          else returnE (s1\<lparr>os_ExpiresAt := []\<rparr>))))"

definition persistOAuthSecret ::
  "env \<Rightarrow> ctx \<Rightarrow> vault_lib \<Rightarrow> cipherBox \<Rightarrow> CredentialRow \<Rightarrow> oauthSecret \<Rightarrow> (world, unit) io" where
  "persistOAuthSecret e c L box r s =
     bindE (Encrypt L box (jprint (secret_json s)) credentialOAuthLabel) (\<lambda>(ct, nonce).
       bindE (UpdateCredential e c
         \<lparr>ui_ID = cd_ID r, ui_VaultID = cd_VaultID r, ui_TenantID = cd_TenantID r, ui_DisplayName = cd_DisplayName r,
          ui_AuthType = cd_AuthType r, ui_MCPServerURL = cd_MCPServerURL r, ui_MCPServerHost = cd_MCPServerHost r,
          ui_Cipher = ct, ui_CipherNonce = nonce, ui_CipherLabel = credentialOAuthLabel\<rparr>) (\<lambda>_. returnE ()))"

section \<open>Resolving\<close>

text \<open>The OAuth branch: decrypt, refresh when due, keep what was refreshed.\<close>

definition resolve_oauth ::
  "env \<Rightarrow> ctx \<Rightarrow> vault_lib \<Rightarrow> cipherBox \<Rightarrow> CredentialRow \<Rightarrow> (world, ResolvedCredential) io" where
  "resolve_oauth e c L box r =
     bindE (liftE (decryptOAuthSecret L box r)) (\<lambda>secret.
     bindE (now e) (\<lambda>t.
     bindE (if oauthNeedsRefresh L secret (instant t) \<and> os_Refresh secret \<noteq> None
            then bindE (refreshOAuth e c L secret) (\<lambda>s'. bindE (persistOAuthSecret e c L box r s') (\<lambda>_. returnE s'))
            else returnE secret) (\<lambda>s.
     returnE \<lparr>rc_CredentialID = cd_ID r, rc_AuthType = cd_AuthType r, rc_Token = os_AccessToken s\<rparr>)))"

fun resolve_first ::
  "env \<Rightarrow> ctx \<Rightarrow> vault_lib \<Rightarrow> cipherBox \<Rightarrow> CredentialRow list \<Rightarrow> (world, ResolvedCredential option) io" where
  "resolve_first e c L box [] = returnE None"
| "resolve_first e c L box (r # rs) =
     (if cd_AuthType r = ''static_bearer'' then
        bindE (liftE (Decrypt L box (cd_Cipher r) (cd_CipherNonce r) (cd_CipherLabel r))) (\<lambda>token.
          returnE (Some \<lparr>rc_CredentialID = cd_ID r, rc_AuthType = cd_AuthType r, rc_Token = token\<rparr>))
      else if cd_AuthType r = ''mcp_oauth'' then mapE_result Some (resolve_oauth e c L box r)
      else resolve_first e c L box rs)"

definition Resolve ::
  "env \<Rightarrow> ctx \<Rightarrow> vault_lib \<Rightarrow> cipherBox \<Rightarrow> string \<Rightarrow> string list \<Rightarrow> string \<Rightarrow> (world, ResolvedCredential option) io" where
  "Resolve e c L box tenant vaultIDs host =
     bindE (ListActiveCredentialsByHost e c tenant vaultIDs host) (resolve_first e c L box)"

definition ValidateOAuthCredential ::
  "env \<Rightarrow> ctx \<Rightarrow> vault_lib \<Rightarrow> cipherBox \<Rightarrow> string \<Rightarrow> string \<Rightarrow> string \<Rightarrow> (world, unit) io" where
  "ValidateOAuthCredential e c L box tenant vid cid =
     bindE (GetCredentialScoped e c tenant vid cid) (\<lambda>r.
       if cd_AuthType r \<noteq> ''mcp_oauth'' then throwE (ErrMsg ''credential is not mcp_oauth'')
       else bindE (liftE (decryptOAuthSecret L box r)) (\<lambda>_. returnE ()))"

end
