(* ===== verification/VaultProperties.thy ===== *)
theory VaultProperties
  imports VaultService
begin

text \<open>
  What the vault promises: one active credential per host of a vault, credentials only of their
  vault's tenant, operations that stay within the tenant they are called for, and a secret that
  comes out of the vault as it went in.
\<close>

section \<open>Well-formedness\<close>

definition credential_ok :: "VaultRow list \<Rightarrow> CredentialRow \<Rightarrow> bool" where
  "credential_ok vs r \<longleftrightarrow> auth_type_ok (cd_AuthType r) \<and> list_ex (of_tenant (cd_TenantID r) (cd_VaultID r)) vs"

definition vault_ok :: "world \<Rightarrow> bool" where
  "vault_ok w \<longleftrightarrow> distinct (map va_ID (vaults w)) \<and> [] \<notin> set (map va_TenantID (vaults w))
     \<and> distinct (map cd_ID (credentials w)) \<and> list_all (credential_ok (vaults w)) (credentials w)
     \<and> distinct (map (\<lambda>r. (cd_VaultID r, cd_MCPServerHost r)) (filter (\<lambda>r. cd_ArchivedAt r = None) (credentials w)))"

text \<open>The rows of the other tenants.\<close>

definition others :: "string \<Rightarrow> world \<Rightarrow> VaultRow list \<times> CredentialRow list" where
  "others t w = (filter (\<lambda>v. va_TenantID v \<noteq> t) (vaults w), filter (\<lambda>r. cd_TenantID r \<noteq> t) (credentials w))"

text \<open>An operation for tenant \<open>t\<close>, which may rely on a vault of the tenant that it found.\<close>

definition has_vault :: "string \<Rightarrow> string option \<Rightarrow> world \<Rightarrow> bool" where
  "has_vault t v w = (case v of None \<Rightarrow> True | Some vid \<Rightarrow> list_ex (of_tenant t vid) (vaults w))"

definition within :: "string \<Rightarrow> string option \<Rightarrow> world \<Rightarrow> world \<Rightarrow> bool" where
  "within t v w w' \<longleftrightarrow> (vault_ok w \<and> has_vault t v w \<longrightarrow> vault_ok w' \<and> has_vault t v w' \<and> others t w' = others t w)"

interpretation tn: kept "within t v" for t v
  by unfold_locales (auto simp: within_def vault_ok_def has_vault_def others_def split: option.splits)

lemma within_credentials:
  assumes "vaults w' = vaults w" "vault_ok w \<Longrightarrow> has_vault t v w \<Longrightarrow> vault_ok w'"
    "vault_ok w \<Longrightarrow> filter (\<lambda>r. cd_TenantID r \<noteq> t) (credentials w') = filter (\<lambda>r. cd_TenantID r \<noteq> t) (credentials w)"
  shows "within t v w w'"
  using assms by (auto simp: within_def has_vault_def others_def split: option.splits)

lemma filter_update_other:
  "(\<And>r. P r \<Longrightarrow> \<not> Q r \<and> \<not> Q (f r)) \<Longrightarrow> filter Q (update_where P f t) = filter Q t"
  by (induction t) (auto simp: update_where_def)

lemma filter_delete_other: "(\<And>r. P r \<Longrightarrow> \<not> Q r) \<Longrightarrow> filter Q (delete_where P t) = filter Q t"
  by (induction t) (auto simp: delete_where_def)

lemma vault_at: "list_ex P (vaults w) \<longleftrightarrow> (\<exists>v\<in>set (vaults w). P v)"
  by (simp add: list_ex_iff)

section \<open>Changes of the vault table\<close>

definition steady :: "(VaultRow \<Rightarrow> VaultRow) \<Rightarrow> bool" where
  "steady f \<longleftrightarrow> (\<forall>r. va_ID (f r) = va_ID r \<and> va_TenantID (f r) = va_TenantID r)"

lemma steady_ok:
  assumes "steady f"
  shows "credential_ok (update_where P f vs) = credential_ok vs"
proof
  show "credential_ok (update_where P f vs) r = credential_ok vs r" for r
    using assms by (induction vs) (auto simp: credential_ok_def update_where_def of_tenant_def steady_def)
qed

lemma within_vault_update:
  assumes f: "steady f" and P: "\<And>v. P v \<Longrightarrow> va_TenantID v = t"
  shows "within t None w (w\<lparr>vaults := update_where P f (vaults w)\<rparr>)"
proof -
  have ids: "map va_ID (update_where P f (vaults w)) = map va_ID (vaults w)"
    "map va_TenantID (update_where P f (vaults w)) = map va_TenantID (vaults w)"
    using f by (auto simp: steady_def table_simps)
  have "filter (\<lambda>v. va_TenantID v \<noteq> t) (update_where P f (vaults w)) = filter (\<lambda>v. va_TenantID v \<noteq> t) (vaults w)"
    using f P by (intro filter_update_other) (auto simp: steady_def)
  then show ?thesis
    by (simp add: within_def vault_ok_def others_def has_vault_def steady_ok [OF f] ids del: set_map)
qed

lemma within_vault_insert:
  assumes "vault_by (va_ID r) w = None" "va_TenantID r = t" "t \<noteq> []"
  shows "within t None w (w\<lparr>vaults := vaults w @ [r]\<rparr>)"
  using assms
  by (auto simp: within_def vault_ok_def others_def has_vault_def vault_by_def table_simps list_all_iff credential_ok_def)

text \<open>Deleting a vault deletes its credentials, and they are its tenant's.\<close>

lemma vault_key: "vault_ok w \<Longrightarrow> v \<in> set (vaults w) \<Longrightarrow> v' \<in> set (vaults w) \<Longrightarrow> va_ID v = va_ID v' \<Longrightarrow> v = v'"
  by (rule distinct_keyD [of va_ID "vaults w"]) (simp_all add: vault_ok_def)

lemma within_vault_delete:
  "within t None w (w\<lparr>vaults := delete_where (of_tenant t vid) (vaults w),
     credentials := delete_where (\<lambda>r. cd_VaultID r = vid \<and> list_ex (of_tenant t vid) (vaults w)) (credentials w)\<rparr>)"
    (is "within t None w ?w")
proof -
  have "vault_ok ?w \<and> others t ?w = others t w" if ok: "vault_ok w"
  proof (cases "list_ex (of_tenant t vid) (vaults w)")
    case False
    then have "delete_where (of_tenant t vid) (vaults w) = vaults w"
      by (auto simp: delete_where_def list_ex_iff filter_id_conv)
    then show ?thesis using ok False by (simp add: delete_where_def vault_ok_def others_def)
  next
    case True
    then obtain v where v: "v \<in> set (vaults w)" "of_tenant t vid v" by (auto simp: list_ex_iff)
    have own: "cd_TenantID r = t" if "r \<in> set (credentials w)" "cd_VaultID r = vid" for r
    proof -
      obtain v' where "v' \<in> set (vaults w)" "of_tenant (cd_TenantID r) vid v'"
        using ok \<open>r \<in> _\<close> \<open>cd_VaultID r = vid\<close> by (auto simp: vault_ok_def list_all_iff credential_ok_def list_ex_iff)
      then show ?thesis using vault_key [OF ok v(1)] v(2) by (auto simp: of_tenant_def)
    qed
    have kept: "credential_ok (delete_where (of_tenant t vid) (vaults w)) r"
      if "r \<in> set (credentials w)" "cd_VaultID r \<noteq> vid" for r
    proof -
      have "credential_ok (vaults w) r" using ok that(1) by (simp add: vault_ok_def list_all_iff)
      then obtain v' where "v' \<in> set (vaults w)" "of_tenant (cd_TenantID r) (cd_VaultID r) v'" "auth_type_ok (cd_AuthType r)"
        by (auto simp: credential_ok_def list_ex_iff)
      moreover have "\<not> of_tenant t vid v'" using that(2) calculation(2) by (simp add: of_tenant_def)
      ultimately show ?thesis by (auto simp: credential_ok_def list_ex_iff delete_where_def)
    qed
    have "distinct (map (\<lambda>r. (cd_VaultID r, cd_MCPServerHost r))
        (filter (\<lambda>r. cd_VaultID r \<noteq> vid) (filter (\<lambda>r. cd_ArchivedAt r = None) (credentials w))))"
      "distinct (map cd_ID (filter (\<lambda>r. cd_VaultID r \<noteq> vid) (credentials w)))"
      "distinct (map va_ID (delete_where (of_tenant t vid) (vaults w)))"
      using ok by (simp_all add: vault_ok_def delete_where_def distinct_map_filter del: filter_filter)
    moreover have "filter (\<lambda>r. cd_TenantID r \<noteq> t) (filter (\<lambda>r. cd_VaultID r \<noteq> vid) (credentials w))
        = filter (\<lambda>r. cd_TenantID r \<noteq> t) (credentials w)"
      using own by (auto intro: filter_cong)
    moreover have "filter (\<lambda>v. va_TenantID v \<noteq> t) (delete_where (of_tenant t vid) (vaults w)) = filter (\<lambda>v. va_TenantID v \<noteq> t) (vaults w)"
      by (rule filter_delete_other) (simp add: of_tenant_def)
    ultimately show ?thesis
      using ok True kept by (auto simp: vault_ok_def others_def delete_where_def list_all_iff conj_commute)
  qed
  then show ?thesis by (simp add: within_def has_vault_def)
qed

section \<open>Changes of the credential table\<close>

lemma update_one:
  assumes "distinct (map k t)" "list_ex P t" "\<And>r. P r \<Longrightarrow> k r = m"
  obtains xs r ys where "t = xs @ r # ys" "P r" "update_where P f t = xs @ f r # ys"
    "\<And>x. x \<in> set xs \<union> set ys \<Longrightarrow> k x \<noteq> m"
proof -
  obtain r where r: "r \<in> set t" "P r" using assms(2) by (auto simp: list_ex_iff)
  then obtain xs ys where t: "t = xs @ r # ys" by (auto simp: in_set_conv_decomp)
  have no: "k x \<noteq> m" if "x \<in> set xs \<union> set ys" for x
    using assms(1) assms(3) [OF r(2)] that unfolding t by (auto simp: image_iff)
  then have "\<forall>x\<in>set xs \<union> set ys. \<not> P x" using assms(3) by auto
  then have "update_where P f t = xs @ f r # ys"
    using r(2) by (simp add: t update_where_def map_idI)
  then show ?thesis using that t r(2) no by blast
qed

lemma no_update: "\<not> list_ex P t \<Longrightarrow> update_where P f t = t"
  by (auto simp: list_ex_iff update_where_def map_idI)

lemma affected_list_ex: "affected P t = 0 \<longleftrightarrow> \<not> list_ex P t"
  by (auto simp: affected_0 list_ex_iff)

lemma within_credential_insert:
  assumes "credential_insert_ok r w" "cd_TenantID r = t"
  shows "within t (Some (cd_VaultID r)) w (w\<lparr>credentials := credentials w @ [r]\<rparr>)"
proof (rule within_credentials)
  assume ok: "vault_ok w" and v: "has_vault t (Some (cd_VaultID r)) w"
  have "cd_ID r \<notin> set (map cd_ID (credentials w))"
    using assms(1) by (auto simp: credential_insert_ok_def credential_by_def table_simps)
  moreover have "(cd_VaultID r, cd_MCPServerHost r)
      \<notin> set (map (\<lambda>r. (cd_VaultID r, cd_MCPServerHost r)) (filter (\<lambda>r. cd_ArchivedAt r = None) (credentials w)))"
    if "cd_ArchivedAt r = None"
    using assms(1) that by (auto simp: credential_insert_ok_def list_ex_iff active_for_def)
  ultimately show "vault_ok (w\<lparr>credentials := credentials w @ [r]\<rparr>)"
    using ok v assms by (simp add: vault_ok_def credential_ok_def credential_insert_ok_def has_vault_def del: set_map)
qed (use assms in auto)

definition in_place :: "(CredentialRow \<Rightarrow> CredentialRow) \<Rightarrow> bool" where
  "in_place f \<longleftrightarrow> (\<forall>r. cd_ID (f r) = cd_ID r \<and> cd_VaultID (f r) = cd_VaultID r \<and> cd_TenantID (f r) = cd_TenantID r)"

lemma within_credential_change:
  assumes f: "in_place f" and ty: "\<And>r. auth_type_ok (cd_AuthType r) \<Longrightarrow> list_ex (live_credential t vid cid) (credentials w) \<Longrightarrow>
      auth_type_ok (cd_AuthType (f r))"
    and host: "\<And>r x. r \<in> set (credentials w) \<Longrightarrow> live_credential t vid cid r \<Longrightarrow> cd_ArchivedAt (f r) = None \<Longrightarrow>
      x \<in> set (credentials w) \<Longrightarrow> cd_ID x \<noteq> cid \<Longrightarrow> \<not> active_for vid (cd_MCPServerHost (f r)) x"
  shows "within t None w (w\<lparr>credentials := update_where (live_credential t vid cid) f (credentials w)\<rparr>)"
proof (rule within_credentials)
  assume ok: "vault_ok w"
  let ?key = "\<lambda>r. (cd_VaultID r, cd_MCPServerHost r)"
  let ?act = "filter (\<lambda>r. cd_ArchivedAt r = None)"
  show "vault_ok (w\<lparr>credentials := update_where (live_credential t vid cid) f (credentials w)\<rparr>)"
  proof (cases "list_ex (live_credential t vid cid) (credentials w)")
    case False
    then show ?thesis using ok by (simp add: no_update vault_ok_def)
  next
    case True
    have "distinct (map cd_ID (credentials w))" using ok by (simp add: vault_ok_def)
    then obtain xs r ys where c: "credentials w = xs @ r # ys" and r: "live_credential t vid cid r"
      and u: "update_where (live_credential t vid cid) f (credentials w) = xs @ f r # ys"
      and no: "\<And>x. x \<in> set xs \<union> set ys \<Longrightarrow> cd_ID x \<noteq> cid"
      by (rule update_one [OF _ True, of cd_ID cid f]) (auto simp: live_credential_def scoped_def)
    have fr: "cd_ID (f r) = cd_ID r" "cd_VaultID (f r) = vid" "cd_TenantID (f r) = t" "cd_TenantID r = t" "cd_VaultID r = vid"
      using f r by (simp_all add: in_place_def live_credential_def scoped_def)
    have "?key (f r) \<notin> ?key ` set (?act (xs @ ys))" if "cd_ArchivedAt (f r) = None"
      using host [of r] no r that fr by (fastforce simp: c active_for_def)
    moreover have "auth_type_ok (cd_AuthType (f r))"
      using ty [of r] True ok by (simp add: vault_ok_def c credential_ok_def)
    moreover define w1 where "w1 = w\<lparr>credentials := update_where (live_credential t vid cid) f (credentials w)\<rparr>"
    have "credentials w1 = xs @ f r # ys" "vaults w1 = vaults w" by (simp_all add: w1_def u)
    ultimately have "vault_ok w1"
      using ok fr by (auto simp: vault_ok_def c credential_ok_def split: if_splits)
    then show ?thesis by (simp add: w1_def)
  qed
  show "filter (\<lambda>r. cd_TenantID r \<noteq> t) (credentials (w\<lparr>credentials := update_where (live_credential t vid cid) f (credentials w)\<rparr>))
      = filter (\<lambda>r. cd_TenantID r \<noteq> t) (credentials w)"
    using f by simp (rule filter_update_other, auto simp: live_credential_def scoped_def in_place_def)
qed simp

lemma within_credential_delete:
  "within t None w (w\<lparr>credentials := delete_where (scoped t vid cid) (credentials w)\<rparr>)"
proof (rule within_credentials)
  assume ok: "vault_ok w"
  have "distinct (map (\<lambda>r. (cd_VaultID r, cd_MCPServerHost r))
      (filter (\<lambda>r. \<not> scoped t vid cid r) (filter (\<lambda>r. cd_ArchivedAt r = None) (credentials w))))"
    using ok by (simp add: vault_ok_def distinct_map_filter del: filter_filter)
  then show "vault_ok (w\<lparr>credentials := delete_where (scoped t vid cid) (credentials w)\<rparr>)"
    using ok by (auto simp: vault_ok_def delete_where_def list_all_iff distinct_map_filter conj_commute)
  show "filter (\<lambda>r. cd_TenantID r \<noteq> t) (credentials (w\<lparr>credentials := delete_where (scoped t vid cid) (credentials w)\<rparr>))
      = filter (\<lambda>r. cd_TenantID r \<noteq> t) (credentials w)"
    by simp (rule filter_delete_other, simp add: scoped_def)
qed simp

section \<open>The operations\<close>

lemma within_found:
  assumes "\<And>x. keeps (within t (Some vid)) (f x)"
  shows "keeps (within t None) (bindE (GetVault e c t vid) f)"
proof (rule keepsI)
  fix w :: world
  let ?w = "w\<lparr>tick := Suc (tick w)\<rparr>"
  have t: "within t None w ?w" by (rule tn.tick_step)
  show "within t None w (snd (bindE (GetVault e c t vid) f w))"
  proof (cases "GetVault e c t vid w")
    case (Pair r w')
    have w': "w' = ?w"
      using Pair by (auto simp: GetVault_def bindE_def optE_def throwE_def returnE_def queryE_snd [THEN sym]
          dest!: arg_cong [of _ _ snd] split: option.splits prod.splits sum.splits)
    show ?thesis
    proof (cases r)
      case (Inl x)
      then show ?thesis using Pair w' t by (simp add: bindE_Inl)
    next
      case (Inr v)
      have "list_ex (of_tenant t vid) (vaults w)"
      proof -
        have "select_one (of_tenant t vid) (vaults w) = Some v"
          using Pair Inr by (auto simp: GetVault_def bindE_Inr_iff optE_value dest!: queryE_value)
        then show ?thesis by (auto simp: list_ex_iff dest: select_one_Some)
      qed
      moreover have "within t (Some vid) ?w (snd (f v ?w))" using keepsD [OF assms] .
      ultimately show ?thesis
        using Pair Inr w' t by (auto simp: bindE_Inr within_def has_vault_def vault_ok_def others_def)
    qed
  qed
qed

lemma or_default_nonempty: "or_default_tenant t \<noteq> []" "t \<noteq> [] \<Longrightarrow> or_default_tenant t = t"
  by (simp_all add: or_default_tenant_def)

lemma within_reads:
  "keeps (within t v) (GetVault e c t' vid)" "keeps (within t v) (ListVaults e c t' limit)"
  "keeps (within t v) (GetCredential e c cid)" "keeps (within t v) (GetCredentialScoped e c t' vid cid)"
  "keeps (within t v) (ListCredentialsByVault e c t' vid)" "keeps (within t v) (ListActiveCredentialsByHost e c t' vids host)"
  by (auto simp: GetVault_def ListVaults_def GetCredential_def GetCredentialScoped_def ListCredentialsByVault_def
      ListActiveCredentialsByHost_def intro!: tn.bind tn.plain tn.maploop)

lemma within_result: "keeps (within t v) m \<Longrightarrow> keeps (within t v) (mapE_result f m)"
  unfolding mapE_result_def by (intro tn.bind tn.return)

lemma within_lift: "keeps (within t v) (liftE r)"
  by (cases r) (auto simp: liftE_def intro: tn.plain)

lemma within_crypto:
  "keeps (within t v) (Encrypt L box p label)" "keeps (within t v) (encryptCredentialAuth L box a)"
proof -
  show E: "keeps (within t v) (Encrypt L box p label)" for p label
    unfolding Encrypt_def by (auto intro!: tn.bind tn.plain tn.wrapping split: sum.splits)
  show "keeps (within t v) (encryptCredentialAuth L box a)"
    unfolding encryptCredentialAuth_def by (auto intro!: tn.bind tn.plain E split: sum.splits)
qed

lemma within_CreateVault: "keeps (within (or_default_tenant t) None) (CreateVault e c t name m)"
  unfolding CreateVault_def Let_def
  by (intro tn.bind tn.plain tn.wrapping tn.insert within_vault_insert within_reads) (simp_all add: or_default_nonempty)

lemma within_vaults:
  "keeps (within t None) (ArchiveVault e c t vid)" "keeps (within t None) (UpdateVault e c t vid name m)"
  "keeps (within t None) (DeleteVault e c t vid)"
  unfolding ArchiveVault_def UpdateVault_def DeleteVault_def
  by (auto intro!: tn.bind tn.plain tn.update within_reads within_vault_delete within_vault_update
      simp: steady_def live_vault_def of_tenant_def)

lemma within_CreateCredential:
  "keeps (within (or_default_tenant (ci_TenantID i)) (Some (ci_VaultID i))) (CreateCredential e c i)"
proof -
  have row: "within (or_default_tenant (ci_TenantID i)) (Some (ci_VaultID i)) w (w\<lparr>credentials := credentials w @ [credential_row cid n i]\<rparr>)"
    if "credential_insert_ok (credential_row cid n i) w" for cid n w
    using within_credential_insert [OF that] by (simp add: credential_row_def)
  show ?thesis
    unfolding CreateCredential_def Let_def by (auto intro!: tn.bind tn.plain tn.wrapping tn.insert within_reads row)
qed

lemma within_UpdateCredential:
  assumes "or_default_tenant (ui_TenantID i) = t"
  shows "keeps (within t None) (UpdateCredential e c i)"
proof -
  have change: "within t None w (w\<lparr>credentials := update_where (live_credential t (ui_VaultID i) (ui_ID i)) (set_credential i n) (credentials w)\<rparr>)"
    if "credential_update_ok t i w" for n w
  proof (rule within_credential_change)
    show "in_place (set_credential i n)" by (simp add: in_place_def set_credential_def)
  next
    fix r assume "list_ex (live_credential t (ui_VaultID i) (ui_ID i)) (credentials w)"
    then show "auth_type_ok (cd_AuthType (set_credential i n r))"
      using that by (simp add: credential_update_ok_def set_credential_def)
  next
    fix r x assume "r \<in> set (credentials w)" "live_credential t (ui_VaultID i) (ui_ID i) r"
      "x \<in> set (credentials w)" "cd_ID x \<noteq> ui_ID i"
    then show "\<not> active_for (ui_VaultID i) (cd_MCPServerHost (set_credential i n r)) x"
      using that by (auto simp: credential_update_ok_def set_credential_def list_ex_iff)
  qed
  show ?thesis
    unfolding UpdateCredential_def Let_def assms
    by (auto intro!: tn.bind tn.plain tn.checked_update change within_reads)
qed

lemma within_archive_delete:
  "keeps (within t None) (ArchiveCredential e c t vid cid)" "keeps (within t None) (DeleteCredential e c t vid cid)"
proof -
  have archive: "within t None w (w\<lparr>credentials := update_where (live_credential t vid cid)
      (\<lambda>r. r\<lparr>cd_ArchivedAt := Some n, cd_UpdatedAt := n\<rparr>) (credentials w)\<rparr>)" for n w
    by (rule within_credential_change) (simp_all add: in_place_def)
  show "keeps (within t None) (ArchiveCredential e c t vid cid)"
    unfolding ArchiveCredential_def by (auto intro!: tn.bind tn.plain tn.update archive)
  show "keeps (within t None) (DeleteCredential e c t vid cid)"
    unfolding DeleteCredential_def by (auto intro!: tn.bind tn.plain tn.update within_credential_delete)
qed

lemma within_AddCredential:
  assumes "t \<noteq> []"
  shows "keeps (within t None) (AddCredential e c L box vid t req)"
proof -
  have C: "keeps (within t (Some vid)) (CreateCredential e c i)" if "ci_TenantID i = t" "ci_VaultID i = vid" for i
    using within_CreateCredential [of i e c] that assms by (simp add: or_default_nonempty)
  show ?thesis
    unfolding AddCredential_def Let_def
    by (auto intro!: tn.bind tn.plain within_lift within_found within_crypto within_result C)
qed

lemma within_svc_Update:
  assumes "t \<noteq> []"
  shows "keeps (within t None) (svc_UpdateCredential e c L box t vid cid req)"
  unfolding svc_UpdateCredential_def Let_def
  by (auto intro!: tn.bind tn.plain within_lift within_reads within_crypto within_result within_UpdateCredential
      simp: or_default_nonempty assms)

lemma within_refresh: "keeps (within t v) (refreshOAuth e c L s)"
  unfolding refreshOAuth_def Let_def
  by (auto intro!: tn.bind tn.plain within_lift simp: split_beta split: option.splits sum.splits)

lemma within_resolve_first:
  assumes "t \<noteq> []" "\<And>r. r \<in> set rs \<Longrightarrow> cd_TenantID r = t"
  shows "keeps (within t None) (resolve_first e c L box rs)"
  using assms(2)
proof (induction rs)
  case (Cons r rs)
  have "keeps (within t None) (persistOAuthSecret e c L box r s)" for s
    unfolding persistOAuthSecret_def using Cons.prems assms(1)
    by (auto intro!: tn.bind tn.plain within_crypto within_UpdateCredential simp: or_default_nonempty)
  then have "keeps (within t None) (resolve_oauth e c L box r)"
    unfolding resolve_oauth_def by (auto intro!: tn.bind tn.plain within_lift within_refresh)
  then show ?case using Cons by (auto intro!: tn.bind tn.plain within_lift within_result)
qed (simp add: tn.return)

lemma listed_scope:
  assumes "ListActiveCredentialsByHost e c t vids host w = (Inr rs, w')" "r \<in> set rs"
  shows "r \<in> set (credentials w) \<and> cd_VaultID r \<in> set vids \<and> cd_MCPServerHost r = host \<and> cd_TenantID r = t
    \<and> cd_ArchivedAt r = None"
proof -
  have v: "vids \<noteq> []" using assms by (auto simp: ListActiveCredentialsByHost_def returnE_def)
  show ?thesis
    using queryE_value [OF assms(1) [unfolded ListActiveCredentialsByHost_def if_not_P [OF v]]] assms(2)
    by (auto simp: select_simps)
qed

lemma within_Resolve: "t \<noteq> [] \<Longrightarrow> keeps (within t None) (Resolve e c L box t vids host)"
  unfolding Resolve_def
  by (rule tn.bind_post [OF within_reads(6)], rule within_resolve_first) (auto dest: listed_scope)

section \<open>What comes back out\<close>

lemma secret_wf: "wf_json (secret_json s)"
  by (auto simp: secret_json_def refresh_json_def omitempty_def split: option.splits if_splits)

lemma endpoint_auth_roundtrip:
  "dec_endpoint_auth (JObj ((''type'', JStr (ea_Type a)) # omitempty ''client_secret'' (ea_ClientSecret a)))
     \<lparr>ea_Type = [], ea_ClientSecret = []\<rparr> = (a, False)"
  by (cases a) (simp add: dec_endpoint_auth_def omitempty_def json_simps)

lemma refresh_roundtrip: "dec_refresh (refresh_json r) zero_refresh = (r, False)"
  using endpoint_auth_roundtrip [of "rf_TokenEndpointAuth r"]
  by (cases r) (simp add: dec_refresh_def refresh_json_def omitempty_def zero_refresh_def json_simps)

lemma secret_roundtrip: "dec_secret (secret_json s) zero_secret = (s, False)"
  using refresh_roundtrip
  by (cases s) (auto simp: dec_secret_def secret_json_def omitempty_def zero_secret_def json_simps dec_ptr_def refresh_json_def
      split: option.splits)

lemma stored_secret: "unmarshal dec_secret zero_secret (jparse (jprint (secret_json s))) = (s, False)"
  by (simp add: json_roundtrip [OF secret_wf] unmarshal_def secret_roundtrip)

lemma credential_row_fields [simp]:
  "cd_ID (credential_row cid n i) = cid" "cd_VaultID (credential_row cid n i) = ci_VaultID i"
  "cd_TenantID (credential_row cid n i) = or_default_tenant (ci_TenantID i)"
  "cd_MCPServerHost (credential_row cid n i) = ci_MCPServerHost i" "cd_ArchivedAt (credential_row cid n i) = None"
  "cd_AuthType (credential_row cid n i) = ci_AuthType i" "cd_Cipher (credential_row cid n i) = ci_Cipher i"
  "cd_CipherNonce (credential_row cid n i) = ci_CipherNonce i" "cd_CipherLabel (credential_row cid n i) = ci_CipherLabel i"
  by (simp_all add: credential_row_def)

lemma credential_insert_blind: "credential_insert_ok r (w\<lparr>tick := n\<rparr>) = credential_insert_ok r w"
  by (simp add: credential_insert_ok_def credential_by_def vault_by_def)

lemma GetCredential_value: "GetCredential e c cid w = (Inr r, w') \<Longrightarrow> credential_by cid w = Some r \<and> w' = w\<lparr>tick := Suc (tick w)\<rparr>"
  by (auto simp: GetCredential_def run_values credential_by_def dest!: run_dests)

lemma CreateCredential_ok:
  assumes "CreateCredential e c i w = (Inr r, w')"
  shows "\<exists>cid n. r = credential_row cid n i \<and> credentials w' = credentials w @ [r] \<and> credential_insert_ok r w"
proof -
  let ?w2 = "w\<lparr>tick := Suc (Suc (tick w))\<rparr>"
  obtain cid n v v' where ins: "insertE e c (credential_insert_ok (credential_row cid n i))
        (\<lambda>w. w\<lparr>credentials := credentials w @ [credential_row cid n i]\<rparr>) v = (Inr (), v')"
      and v: "v = ?w2\<lparr>tick := Suc (tick ?w2)\<rparr>" and get: "GetCredential e c cid v' = (Inr r, w')"
    using assms unfolding CreateCredential_def Let_def
    by (auto simp: run_values NewID_run now_run throwE_def split: if_splits dest!: queryE_value)
  have ok: "credential_insert_ok (credential_row cid n i) w"
    and v': "credentials v' = credentials w @ [credential_row cid n i]"
    using insertE_value [OF ins] by (simp_all add: v credential_insert_blind)
  have "select_one (\<lambda>r. cd_ID r = cid) (credentials w) = None"
    using ok by (simp add: credential_insert_ok_def credential_by_def)
  then have "credential_by cid v' = Some (credential_row cid n i)"
    by (simp add: credential_by_def v' select_one_append select_one_single)
  then show ?thesis using GetCredential_value [OF get] v' ok by auto
qed

text \<open>The secret of a request as the vault will inject it.\<close>

definition secret_token :: "CredentialAuthInput \<Rightarrow> string" where
  "secret_token a = (if ca_Type a = ''static_bearer'' then ca_Token a else ca_AccessToken a)"

definition opens :: "vault_lib \<Rightarrow> bool" where
  "opens L \<longleftrightarrow> (\<forall>k n p a. vl_Open L k n (vl_Seal L k n p a) a = Some p)"

text \<open>The token does not expire while the environment's clock runs, or cannot be refreshed.\<close>

definition not_due :: "env \<Rightarrow> vault_lib \<Rightarrow> CredentialAuthInput \<Rightarrow> bool" where
  "not_due e L a \<longleftrightarrow> ca_Refresh a = None \<or> ca_ExpiresAt a = []
     \<or> (\<exists>x. vl_ParseTime L (ca_ExpiresAt a) = Inr x \<and> (\<forall>n. instant (clock e n) + 60000000000 < x))"

lemma Encrypt_value:
  "Encrypt L box p label w = (Inr (ct, n), w') \<Longrightarrow> ct = vl_Seal L (cb_Key box) n p label \<and> w' = w\<lparr>tick := Suc (tick w)\<rparr>"
  by (auto simp: Encrypt_def run_values askE_def throwE_def returnE_def split: sum.splits)

lemma sealed_token:
  assumes "encryptCredentialAuth L box a w = (Inr (ct, n, label), w')" "opens L" "not_due e L a"
    "cd_Cipher r = ct" "cd_CipherNonce r = n" "cd_CipherLabel r = label" "cd_AuthType r = ca_Type a"
  shows "fst (resolve_first e Background L box [r] v) = Inr (Some \<lparr>rc_CredentialID = cd_ID r, rc_AuthType = ca_Type a, rc_Token = secret_token a\<rparr>)"
proof -
  have D: "Decrypt L box (vl_Seal L (cb_Key box) n p lb) n lb = Inr p" for p lb
    using assms(2) by (simp add: Decrypt_def opens_def)
  consider (static) "ca_Type a = ''static_bearer''" | (oauth) "ca_Type a = ''mcp_oauth''"
    using assms(1) by (auto simp: encryptCredentialAuth_def throwE_def split: if_splits)
  then show ?thesis
  proof cases
    case static
    then have "ct = vl_Seal L (cb_Key box) n (ca_Token a) credentialTokenLabel" "label = credentialTokenLabel"
      using assms(1) by (auto simp: encryptCredentialAuth_def throwE_def returnE_def run_values dest!: Encrypt_value split: if_splits)
    then show ?thesis using assms(4-7) static D
      by (simp add: liftE_def bindE_def returnE_def secret_token_def)
  next
    case oauth
    then obtain s where s: "oauthSecretFromInput L a = Inr s"
      "ct = vl_Seal L (cb_Key box) n (jprint (secret_json s)) credentialOAuthLabel" "label = credentialOAuthLabel"
      using assms(1) by (auto simp: encryptCredentialAuth_def throwE_def returnE_def run_values dest!: Encrypt_value split: if_splits sum.splits)
    have "decryptOAuthSecret L box r = Inr s"
      using assms(4-6) s(2,3) D by (simp add: decryptOAuthSecret_def stored_secret)
    moreover have nd: "(oauthNeedsRefresh L s (instant (clock e k)) \<and> os_Refresh s \<noteq> None) = False" for k
      using s(1) assms(3) by (auto simp: oauthSecretFromInput_def not_due_def oauthNeedsRefresh_def dest: spec [of _ k]
          split: if_splits option.splits sum.splits)
    moreover have "os_AccessToken s = ca_AccessToken a"
      using s(1) by (auto simp: oauthSecretFromInput_def split: if_splits option.splits sum.splits)
    ultimately show ?thesis using assms(7) oauth nd [of "tick v"]
      by (cases "os_Refresh s")
        (simp_all add: mapE_result_def resolve_oauth_def liftE_def bindE_def returnE_def now_run secret_token_def)
  qed
qed

lemma AddCredential_ok:
  assumes "AddCredential e c L box vid t req w = (Inr cr, w')"
  obtains host ct n label v v' v'' r where "hostFromURL L (ca_MCPServerURL (cr_Auth req)) = Inr host"
    "encryptCredentialAuth L box (cr_Auth req) v = (Inr (ct, n, label), v')"
    "CreateCredential e c \<lparr>ci_VaultID = vid, ci_TenantID = t, ci_DisplayName = cr_DisplayName req,
       ci_AuthType = ca_Type (cr_Auth req), ci_MCPServerURL = ca_MCPServerURL (cr_Auth req), ci_MCPServerHost = host,
       ci_Cipher = ct, ci_CipherNonce = n, ci_CipherLabel = label\<rparr> v'' = (Inr r, w')" "cr = credentialToAPI r"
  using assms unfolding AddCredential_def Let_def
  by (auto simp: run_values throwE_def mapE_result_def liftE_def returnE_def split: if_splits sum.splits prod.splits)

section \<open>Properties\<close>

text \<open>C19: A secret comes out of the vault as it went in: after a credential was added for a
host, resolving the host in its vault yields the token, or the access token, of the request.\<close>

theorem added_credential_resolves:
  assumes "no_faults e" "opens L" "not_due e L (cr_Auth req)" "t \<noteq> []"
    and add: "AddCredential e Background L box vid t req w = (Inr cr, w')"
    and host: "hostFromURL L (ca_MCPServerURL (cr_Auth req)) = Inr host"
  shows "fst (Resolve e Background L box t [vid] host w')
    = Inr (Some \<lparr>rc_CredentialID = ct_ID cr, rc_AuthType = ca_Type (cr_Auth req), rc_Token = secret_token (cr_Auth req)\<rparr>)"
proof -
  obtain ct n label v v' v'' r where enc: "encryptCredentialAuth L box (cr_Auth req) v = (Inr (ct, n, label), v')"
    and create: "CreateCredential e Background \<lparr>ci_VaultID = vid, ci_TenantID = t, ci_DisplayName = cr_DisplayName req,
       ci_AuthType = ca_Type (cr_Auth req), ci_MCPServerURL = ca_MCPServerURL (cr_Auth req), ci_MCPServerHost = host,
       ci_Cipher = ct, ci_CipherNonce = n, ci_CipherLabel = label\<rparr> v'' = (Inr r, w')" and cr: "cr = credentialToAPI r"
    using AddCredential_ok [OF add] host by (metis sum.inject(2))
  from CreateCredential_ok [OF create] obtain cid k where r: "r = credential_row cid k
      \<lparr>ci_VaultID = vid, ci_TenantID = t, ci_DisplayName = cr_DisplayName req,
       ci_AuthType = ca_Type (cr_Auth req), ci_MCPServerURL = ca_MCPServerURL (cr_Auth req), ci_MCPServerHost = host,
       ci_Cipher = ct, ci_CipherNonce = n, ci_CipherLabel = label\<rparr>"
    and w': "credentials w' = credentials v'' @ [r]" and ok: "credential_insert_ok r v''" by blast
  have "filter (\<lambda>x. cd_VaultID x \<in> set [vid] \<and> cd_MCPServerHost x = host \<and> cd_TenantID x = t \<and> cd_ArchivedAt x = None)
      (credentials v'') = []"
    using ok r by (auto simp: credential_insert_ok_def active_for_def list_ex_iff filter_empty_conv)
  then have sel: "select (\<lambda>x. cd_VaultID x \<in> set [vid] \<and> cd_MCPServerHost x = host \<and> cd_TenantID x = t \<and> cd_ArchivedAt x = None)
      (credentials w') = [r]"
    using assms(4) by (simp add: select_def w' r or_default_nonempty)
  have "ListActiveCredentialsByHost e Background t [vid] host w' = (Inr [r], w'\<lparr>tick := Suc (tick w')\<rparr>)"
    unfolding ListActiveCredentialsByHost_def using sel by (simp add: queryE_ok [OF assms(1)])
  then have "Resolve e Background L box t [vid] host w' = resolve_first e Background L box [r] (w'\<lparr>tick := Suc (tick w')\<rparr>)"
    unfolding Resolve_def by (rule bindE_Inr)
  then show ?thesis
    using sealed_token [OF enc assms(2,3), of r "w'\<lparr>tick := Suc (tick w')\<rparr>"] cr
    by (simp add: r credentialToAPI_def)
qed

text \<open>An example: a vault with a cipher that marks the text with its label.\<close>

definition vault_env :: env where
  "vault_env = \<lparr>clock = int, ulid = (\<lambda>n. nat_str n), fault = (\<lambda>_. None)\<rparr>"

definition demo_lib :: vault_lib where
  "demo_lib = \<lparr>vl_Seal = (\<lambda>k n p a. a @ p), vl_Open = (\<lambda>k n x a. if HasPrefix x a then Some (drop (length a) x) else None),
     vl_Sha256 = id, vl_Rand = (\<lambda>n. Inr ''nonce''), vl_Hostname = (\<lambda>u. Inr u), vl_Quote = id,
     vl_ParseTime = (\<lambda>t. Inr 0), vl_FormatTime = int_str, vl_Http = (\<lambda>n rq. Inl Canceled)\<rparr>"

definition vault_world :: world where
  "vault_world = empty_world\<lparr>vaults := [\<lparr>va_ID = ''vlt-1'', va_TenantID = ''acme'', va_DisplayName = ''v'',
     va_Metadata = Some (JObj []), va_ArchivedAt = None, va_CreatedAt = 0, va_UpdatedAt = 0\<rparr>]\<rparr>"

definition bearer_request :: CreateCredentialRequest where
  "bearer_request = \<lparr>cr_DisplayName = ''key'', cr_Auth = \<lparr>ca_Type = ''mcp_oauth'', ca_MCPServerURL = ''mcp.io'',
     ca_Token = [], ca_AccessToken = ''s3cret'', ca_ExpiresAt = [], ca_Refresh = None\<rparr>\<rparr>"

definition demo_credential :: Credential where
  "demo_credential = \<lparr>ct_ID = ''crd-2'', ct_VaultID = ''vlt-1'', ct_DisplayName = ''key'', ct_AuthType = ''mcp_oauth'',
     ct_MCPServerURL = ''mcp.io'', ct_CreatedAt = 3, ct_UpdatedAt = 3, ct_ArchivedAt = None\<rparr>"

definition demo_add :: "(world, Credential) io" where
  "demo_add = AddCredential vault_env Background demo_lib (NewVaultService demo_lib ''root'') ''vlt-1'' ''acme'' bearer_request"

lemma vault_env_ok [simp]: "no_faults vault_env"
  by (simp add: no_faults_def vault_env_def)

lemma demo_add_run: "fst (demo_add vault_world) = Inr demo_credential"
  by code_simp

lemma demo_add_pair: "demo_add vault_world = (Inr demo_credential, snd (demo_add vault_world))"
  by (metis demo_add_run prod.collapse)

lemma demo_lib_opens: "opens demo_lib"
  by (simp add: opens_def demo_lib_def)

lemma added_credential_resolves_witness:
  "fst (Resolve vault_env Background demo_lib (NewVaultService demo_lib ''root'') ''acme'' [''vlt-1''] ''mcp.io'' (snd (demo_add vault_world)))
    = Inr (Some \<lparr>rc_CredentialID = ''crd-2'', rc_AuthType = ''mcp_oauth'', rc_Token = ''s3cret''\<rparr>)"
  using added_credential_resolves [OF vault_env_ok demo_lib_opens _ _ demo_add_pair [unfolded demo_add_def], of "''mcp.io''"]
  by (simp add: demo_add_def not_due_def bearer_request_def hostFromURL_def demo_lib_def demo_credential_def secret_token_def)

text \<open>The operations the API and the harness call for a tenant.\<close>

datatype vault_op =
    OpCreateVault CreateVaultRequest
  | OpUpdateVault string CreateVaultRequest
  | OpArchiveVault string
  | OpDeleteVault string
  | OpAdd string CreateCredentialRequest
  | OpUpdateCredential string string CreateCredentialRequest
  | OpArchiveCredential string string
  | OpDeleteCredential string string
  | OpResolve "string list" string

definition run_vault_op :: "env \<Rightarrow> ctx \<Rightarrow> vault_lib \<Rightarrow> cipherBox \<Rightarrow> string \<Rightarrow> vault_op \<Rightarrow> (world, unit) io" where
  "run_vault_op e c L box t op =
     (case op of
        OpCreateVault req \<Rightarrow> ignoreE (svc_CreateVault e c t req)
      | OpUpdateVault vid req \<Rightarrow> ignoreE (svc_UpdateVault e c t vid req)
      | OpArchiveVault vid \<Rightarrow> ignoreE (svc_ArchiveVault e c t vid)
      | OpDeleteVault vid \<Rightarrow> ignoreE (svc_DeleteVault e c t vid)
      | OpAdd vid req \<Rightarrow> ignoreE (AddCredential e c L box vid t req)
      | OpUpdateCredential vid cid req \<Rightarrow> ignoreE (svc_UpdateCredential e c L box t vid cid req)
      | OpArchiveCredential vid cid \<Rightarrow> ignoreE (svc_ArchiveCredential e c t vid cid)
      | OpDeleteCredential vid cid \<Rightarrow> ignoreE (svc_DeleteCredential e c t vid cid)
      | OpResolve vids host \<Rightarrow> ignoreE (Resolve e c L box t vids host))"

lemma within_op:
  assumes "t \<noteq> []"
  shows "keeps (within t None) (run_vault_op e c L box t op)"
proof -
  have create: "keeps (within t None) (CreateVault e c t name m)" for name m
    using within_CreateVault [of t e c name m] assms by (simp add: or_default_nonempty)
  show ?thesis
    unfolding run_vault_op_def svc_CreateVault_def svc_UpdateVault_def svc_ArchiveVault_def svc_DeleteVault_def
      svc_ArchiveCredential_def svc_DeleteCredential_def
    by (cases op) (auto intro!: tn.ignore tn.bind tn.plain within_result create within_vaults within_AddCredential within_svc_Update
        within_archive_delete within_Resolve within_reads assms)
qed

text \<open>C7: Whatever is called for a tenant, and whatever statement fails, the vaults stay
well-formed (every credential its vault's tenant's, at most one active credential for a host of a
vault) and the vaults and credentials of the other tenants are not touched.\<close>

theorem vaults_are_isolated:
  assumes "vault_ok w" "t \<noteq> []"
  shows "vault_ok (snd (run_vault_op e c L box t op w)) \<and> others t (snd (run_vault_op e c L box t op w)) = others t w"
  using keepsD [OF within_op [OF assms(2), of e c L box op], of w] assms(1) by (simp add: within_def has_vault_def)

lemma vaults_are_isolated_witness:
  "vault_ok (snd (run_vault_op vault_env Background demo_lib (NewVaultService demo_lib ''root'') ''acme''
     (OpAdd ''vlt-1'' bearer_request) vault_world))"
  using vaults_are_isolated [of vault_world "''acme''" vault_env Background demo_lib "NewVaultService demo_lib ''root''" "OpAdd ''vlt-1'' bearer_request"]
  by (simp add: vault_ok_def vault_world_def empty_world_def)

lemma resolved_row:
  assumes "Resolve e c L box t vids host w = (Inr (Some rc), w')"
  shows "\<exists>r\<in>set (credentials w). cd_ID r = rc_CredentialID rc \<and> cd_TenantID r = t \<and> cd_VaultID r \<in> set vids
    \<and> cd_MCPServerHost r = host \<and> cd_ArchivedAt r = None"
proof -
  obtain rs v where l: "ListActiveCredentialsByHost e c t vids host w = (Inr rs, v)"
    and f: "resolve_first e c L box rs v = (Inr (Some rc), w')"
    using assms by (auto simp: Resolve_def bindE_Inr_iff)
  have "\<exists>r\<in>set rs. cd_ID r = rc_CredentialID rc"
    using f by (induction rs) (auto simp: run_values returnE_def mapE_result_def resolve_oauth_def split: if_splits)
  then show ?thesis using listed_scope [OF l] by blast
qed

text \<open>Only a tenant's own credential is ever resolved: one of the vaults named, for the
host named, not archived, whatever else the tables hold.\<close>

theorem resolve_is_scoped:
  assumes "Resolve e c L box t vids host w = (Inr (Some rc), w')"
  shows "\<exists>r\<in>set (credentials w). cd_ID r = rc_CredentialID rc \<and> cd_TenantID r = t \<and> cd_VaultID r \<in> set vids
    \<and> cd_MCPServerHost r = host \<and> cd_ArchivedAt r = None"
  using resolved_row [OF assms] .

lemma resolve_is_scoped_witness:
  "\<exists>r\<in>set (credentials (snd (demo_add vault_world))). cd_ID r = ''crd-2'' \<and> cd_TenantID r = ''acme''"
proof -
  have "Resolve vault_env Background demo_lib (NewVaultService demo_lib ''root'') ''acme'' [''vlt-1''] ''mcp.io'' (snd (demo_add vault_world))
    = (Inr (Some \<lparr>rc_CredentialID = ''crd-2'', rc_AuthType = ''mcp_oauth'', rc_Token = ''s3cret''\<rparr>),
       snd (Resolve vault_env Background demo_lib (NewVaultService demo_lib ''root'') ''acme'' [''vlt-1''] ''mcp.io'' (snd (demo_add vault_world))))"
    (is "?r = _")
  proof -
    have "fst ?r = Inr (Some \<lparr>rc_CredentialID = ''crd-2'', rc_AuthType = ''mcp_oauth'', rc_Token = ''s3cret''\<rparr>)" by code_simp
    then show ?thesis by (metis prod.collapse)
  qed
  from resolve_is_scoped [OF this] show ?thesis by auto
qed

text \<open>Archiving a vault hides it, but its credentials are still resolved.\<close>

lemma archived_vault_still_resolves:
  assumes "ArchiveVault e c t vid w = (Inr (), w')"
  shows "credentials w' = credentials w"
  using assms by (auto simp: ArchiveVault_def run_values now_run throwE_def returnE_def split: if_splits dest!: run_dests)

text \<open>A lifetime of more than 9223372036 seconds wraps: the token counts as expired at once.\<close>

lemma long_lifetime_wraps: "seconds 9223372037 < 0"
  by (simp add: seconds_def)

end
