(* ===== verification/StoreSession.thy ===== *)
theory StoreSession
  imports Tables
begin

text \<open>
  \<open>internal/store/session.go\<close> and \<open>internal/store/event.go\<close>: the session
  table with its status column, and the append-only event log of each session.
\<close>

section \<open>Sessions\<close>

definition session_by :: "string \<Rightarrow> world \<Rightarrow> SessionRow option" where
  "session_by sid w = select_one (\<lambda>r. ss_ID r = sid) (sessions w)"

definition on_session :: "string \<Rightarrow> (SessionRow \<Rightarrow> SessionRow) \<Rightarrow> world \<Rightarrow> world" where
  "on_session sid f w = w\<lparr>sessions := update_where (\<lambda>r. ss_ID r = sid) f (sessions w)\<rparr>"

definition session_count :: "string \<Rightarrow> world \<Rightarrow> nat" where
  "session_count sid w = affected (\<lambda>r. ss_ID r = sid) (sessions w)"

record CreateSessionInput =
  ci_TenantID :: string
  ci_AgentID :: string
  ci_AgentVersion :: int
  ci_AgentSnapshot :: raw
  ci_EnvironmentID :: string
  ci_Title :: string
  ci_VaultIDs :: "string list option"
  ci_Metadata :: raw

text \<open>\<open>json.Marshal\<close> of a \<open>[]string\<close>; the nil slice is written \<open>null\<close>.\<close>

definition marshal_strs :: "string list option \<Rightarrow> raw" where
  "marshal_strs v = Some (case v of None \<Rightarrow> JNull | Some xs \<Rightarrow> JArr (map JStr xs))"

definition GetSession :: "env \<Rightarrow> ctx \<Rightarrow> string \<Rightarrow> (world, SessionRow) io" where
  "GetSession e c sid = bindE (queryE e c (session_by sid)) (optE ErrNotFound)"

definition session_insert_ok :: "SessionRow \<Rightarrow> world \<Rightarrow> bool" where
  "session_insert_ok r w \<longleftrightarrow>
     session_by (ss_ID r) w = None \<and> ss_AgentSnapshot r \<noteq> None \<and> ss_Metadata r \<noteq> None
     \<and> ss_VaultIDs r \<noteq> None"

definition CreateSession :: "env \<Rightarrow> ctx \<Rightarrow> CreateSessionInput \<Rightarrow> (world, SessionRow) io" where
  "CreateSession e c inp =
     bindE (NewID e ''sess'') (\<lambda>id. bindE (now e) (\<lambda>t.
       let row = \<lparr>ss_ID = id, ss_TenantID = or_default_tenant (ci_TenantID inp),
             ss_AgentID = ci_AgentID inp, ss_AgentVersion = ci_AgentVersion inp,
             ss_AgentSnapshot = ci_AgentSnapshot inp,
             ss_EnvironmentID =
               (if ci_EnvironmentID inp = [] then ''default'' else ci_EnvironmentID inp),
             ss_Status = ''idle'', ss_Title = nullStr (ci_Title inp),
             ss_Metadata = or_raw (ci_Metadata inp) (JObj []),
             ss_VaultIDs = marshal_strs (ci_VaultIDs inp),
             ss_CreatedAt = t, ss_UpdatedAt = t, ss_ArchivedAt = None, ss_TerminatedAt = None,
             ss_NextSeq = 1, ss_UsageInput = 0, ss_UsageOutput = 0, ss_UsageCacheCreate = 0,
             ss_UsageCacheRead = 0\<rparr>
       in bindE (wrapE ''insert session''
            (insertE e c (session_insert_ok row) (\<lambda>w. w\<lparr>sessions := sessions w @ [row]\<rparr>)))
          (\<lambda>_. GetSession e c id)))"

text \<open>The \<open>CHECK\<close> on the status column.\<close>

definition status_allowed :: "string \<Rightarrow> bool" where
  "status_allowed st \<longleftrightarrow>
     st \<in> {''idle'', ''running'', ''rescheduling'', ''terminated'', ''requires_action''}"

definition UpdateSessionStatus :: "env \<Rightarrow> ctx \<Rightarrow> string \<Rightarrow> string \<Rightarrow> (world, unit) io" where
  "UpdateSessionStatus e c sid st =
     bindE (now e) (\<lambda>t.
       insertE e c (\<lambda>w. status_allowed st \<or> session_by sid w = None)
         (on_session sid (\<lambda>r. r\<lparr>ss_Status := st, ss_UpdatedAt := t\<rparr>)))"

definition ListSessionsByStatus :: "env \<Rightarrow> ctx \<Rightarrow> string list \<Rightarrow> (world, string list) io" where
  "ListSessionsByStatus e c sts =
     (if sts = [] then returnE []
      else queryE e c (\<lambda>w. map ss_ID (select (\<lambda>r. ss_Status r \<in> set sts) (sessions w))))"

definition MarkSessionTerminated :: "env \<Rightarrow> ctx \<Rightarrow> string \<Rightarrow> (world, unit) io" where
  "MarkSessionTerminated e c sid =
     bindE (now e) (\<lambda>t. bindE (updateE e c (session_count sid)
       (on_session sid (\<lambda>r. r\<lparr>ss_Status := ''terminated'', ss_TerminatedAt := Some t,
                             ss_UpdatedAt := t\<rparr>)))
       (\<lambda>_. returnE ()))"

definition UpdateSessionUsage :: "env \<Rightarrow> ctx \<Rightarrow> string \<Rightarrow> int \<Rightarrow> int \<Rightarrow> int \<Rightarrow> int \<Rightarrow> (world, unit) io" where
  "UpdateSessionUsage e c sid inp out cc cr =
     bindE (updateE e c (session_count sid)
       (on_session sid (\<lambda>r. r\<lparr>ss_UsageInput := ss_UsageInput r + inp,
          ss_UsageOutput := ss_UsageOutput r + out,
          ss_UsageCacheCreate := ss_UsageCacheCreate r + cc,
          ss_UsageCacheRead := ss_UsageCacheRead r + cr\<rparr>)))
       (\<lambda>_. returnE ())"

text \<open>Updates and archiving apply to sessions that are not archived.\<close>

definition live_session :: "string \<Rightarrow> SessionRow \<Rightarrow> bool" where
  "live_session sid r \<longleftrightarrow> ss_ID r = sid \<and> ss_ArchivedAt r = None"

definition UpdateSession ::
  "env \<Rightarrow> ctx \<Rightarrow> string \<Rightarrow> string \<Rightarrow> raw \<Rightarrow> string list option \<Rightarrow> (world, SessionRow) io" where
  "UpdateSession e c sid title meta vids =
     bindE (now e) (\<lambda>t. bindE (updateE e c (\<lambda>w. affected (live_session sid) (sessions w))
       (\<lambda>w. w\<lparr>sessions := update_where (live_session sid)
          (\<lambda>r. r\<lparr>ss_Title := nullStr title, ss_Metadata := or_raw meta (JObj []),
                 ss_VaultIDs := marshal_strs vids, ss_UpdatedAt := t\<rparr>) (sessions w)\<rparr>))
       (\<lambda>n. if n = 0 then throwE ErrNotFound else GetSession e c sid))"

definition ArchiveSession :: "env \<Rightarrow> ctx \<Rightarrow> string \<Rightarrow> (world, unit) io" where
  "ArchiveSession e c sid =
     bindE (now e) (\<lambda>t. bindE (updateE e c (\<lambda>w. affected (live_session sid) (sessions w))
       (\<lambda>w. w\<lparr>sessions := update_where (live_session sid)
          (\<lambda>r. r\<lparr>ss_ArchivedAt := Some t, ss_UpdatedAt := t\<rparr>) (sessions w)\<rparr>))
       (\<lambda>n. if n = 0 then throwE ErrNotFound else returnE ()))"

definition ListSessions :: "env \<Rightarrow> ctx \<Rightarrow> string \<Rightarrow> int \<Rightarrow> (world, SessionRow list) io" where
  "ListSessions e c tenant limit =
     bindE (queryE e c (\<lambda>w. map ss_ID (take (clamp_limit 50 limit)
        (sort_key (\<lambda>r. - ss_CreatedAt r)
          (select (\<lambda>r. ss_TenantID r = tenant \<and> ss_ArchivedAt r = None) (sessions w))))))
       (mapE (GetSession e c))"

text \<open>Deleting a session cascades to its events and resources.\<close>

definition DeleteSession :: "env \<Rightarrow> ctx \<Rightarrow> string \<Rightarrow> (world, unit) io" where
  "DeleteSession e c sid =
     bindE (updateE e c (session_count sid)
       (\<lambda>w. w\<lparr>sessions := delete_where (\<lambda>r. ss_ID r = sid) (sessions w),
               events := delete_where (\<lambda>r. ev_SessionID r = sid \<and> session_count sid w \<noteq> 0) (events w),
               resources := delete_where (\<lambda>r. sr_SessionID r = sid \<and> session_count sid w \<noteq> 0)
                 (resources w)\<rparr>))
       (\<lambda>n. if n = 0 then throwE ErrNotFound else returnE ())"

section \<open>Events\<close>

record AppendEventInput =
  ae_SessionID :: string
  ae_ThreadID :: string
  ae_Type :: string
  ae_Payload :: raw

text \<open>The constraints of \<open>session_event\<close>: foreign key, valid JSON, the unique sequence number and the key.\<close>

definition event_insert_ok :: "EventRow \<Rightarrow> world \<Rightarrow> bool" where
  "event_insert_ok r w \<longleftrightarrow>
     session_by (ev_SessionID r) w \<noteq> None \<and> ev_Payload r \<noteq> None
     \<and> list_all (\<lambda>x. \<not> (ev_SessionID x = ev_SessionID r \<and> ev_Seq x = ev_Seq r)) (events w)
     \<and> list_all (\<lambda>x. ev_ID x \<noteq> ev_ID r) (events w)"

definition AppendEvent :: "env \<Rightarrow> ctx \<Rightarrow> AppendEventInput \<Rightarrow> (world, EventRow) io" where
  "AppendEvent e c inp =
     (let sid = ae_SessionID inp;
          thread = (if ae_ThreadID inp = [] then ''primary'' else ae_ThreadID inp)
      in in_tx (bindE (stmt e c) (\<lambda>_.
        bindE (bindE (queryE e c (\<lambda>w. map_option ss_NextSeq (session_by sid w))) (optE ErrNoRows))
          (\<lambda>seq.
        bindE (updateE e c (session_count sid)
                 (on_session sid (\<lambda>r. r\<lparr>ss_NextSeq := ss_NextSeq r + 1\<rparr>))) (\<lambda>_.
        bindE (NewID e ''evt'') (\<lambda>id.
        bindE (now e) (\<lambda>t.
          let row = \<lparr>ev_ID = id, ev_SessionID = sid, ev_ThreadID = thread, ev_Seq = seq,
                ev_Type = ae_Type inp, ev_Payload = ae_Payload inp, ev_ProcessedAt = Some t,
                ev_CreatedAt = t\<rparr>
          in bindE (insertE e c (event_insert_ok row) (\<lambda>w. w\<lparr>events := events w @ [row]\<rparr>)) (\<lambda>_.
             bindE (stmt e c) (\<lambda>_. returnE row)))))))))"

definition session_events :: "string \<Rightarrow> world \<Rightarrow> EventRow list" where
  "session_events sid w = filter (\<lambda>r. ev_SessionID r = sid) (events w)"

definition ListEvents :: "env \<Rightarrow> ctx \<Rightarrow> string \<Rightarrow> string list \<Rightarrow> (world, EventRow list) io" where
  "ListEvents e c sid types = queryE e c (\<lambda>w. sort_key ev_Seq
     (select (\<lambda>r. ev_SessionID r = sid \<and> (types = [] \<or> ev_Type r \<in> set types)) (events w)))"

end
