(* ===== verification/Dialect.thy ===== *)
theory Dialect
  imports GoJson
begin

text \<open>
  Text that another language reads: the SQL dialects of
  \<open>internal/store/dialect.go\<close> (string literals, placeholders, splitting a schema into
  statements) and the shell words of \<open>internal/memory/service.go\<close>. Both quote strings for
  a reader; the interface \<open>quoting\<close> says what quoting must guarantee.
\<close>

definition apos :: char where
  "apos = CHR 0x27"

definition backslash :: char where
  "backslash = CHR 0x5C"

section \<open>The quoting contract\<close>

text \<open>
  A reader takes a quoted word off the front of a text. \<open>stop\<close> are the texts that may
  follow a word.
\<close>

locale quoting =
  fixes quote :: "string \<Rightarrow> string"
    and read :: "string \<Rightarrow> (string \<times> string) option"
    and stop :: "string \<Rightarrow> bool"
  assumes read_quote: "stop rest \<Longrightarrow> read (quote s @ rest) = Some (s, rest)"
    and stop_Nil: "stop []"
begin

lemma read_quote_only: "read (quote s) = Some (s, [])"
  using read_quote [OF stop_Nil, of s] by simp

lemma quote_inj: "quote s = quote t \<longleftrightarrow> s = t"
  using read_quote_only by (metis option.inject prod.inject)

lemma quote_prefix_free: "stop r \<Longrightarrow> stop r' \<Longrightarrow> quote s @ r = quote t @ r' \<Longrightarrow> s = t \<and> r = r'"
  using read_quote by (metis option.inject prod.inject)

end

section \<open>SQL literals\<close>

definition sqlStringLiteral :: "string \<Rightarrow> string" where
  "sqlStringLiteral value = apos # replace_char apos [apos, apos] value @ [apos]"

text \<open>How SQL reads a string literal: a doubled quote is a quote, a single one ends it.\<close>

fun sql_body :: "string \<Rightarrow> (string \<times> string) option" where
  "sql_body [] = None"
| "sql_body [c] = (if c = apos then Some ([], []) else None)"
| "sql_body (c # d # s) =
     (if c = apos then (if d = apos then map_option (\<lambda>(x, r). (apos # x, r)) (sql_body s) else Some ([], d # s))
      else map_option (\<lambda>(x, r). (c # x, r)) (sql_body (d # s)))"

definition sql_read :: "string \<Rightarrow> (string \<times> string) option" where
  "sql_read s = (case s of c # t \<Rightarrow> if c = apos then sql_body t else None | [] \<Rightarrow> None)"

definition sql_stop :: "string \<Rightarrow> bool" where
  "sql_stop r = (case r of [] \<Rightarrow> True | c # _ \<Rightarrow> c \<noteq> apos)"

lemma sql_body_quote: "sql_stop rest \<Longrightarrow> sql_body (replace_char apos [apos, apos] s @ apos # rest) = Some (s, rest)"
proof (induction s)
  case Nil
  then show ?case by (cases rest) (auto simp: sql_stop_def go_simps)
next
  case (Cons c s)
  show ?case
  proof (cases "c = apos")
    case True
    then show ?thesis using Cons by (simp add: go_simps)
  next
    case False
    obtain d u where "replace_char apos [apos, apos] s @ apos # rest = d # u"
      by (cases "replace_char apos [apos, apos] s @ apos # rest") auto
    then show ?thesis using Cons False by (simp add: go_simps)
  qed
qed

interpretation sql_quoting: quoting sqlStringLiteral sql_read sql_stop
  by unfold_locales (auto simp: sqlStringLiteral_def sql_read_def sql_body_quote sql_stop_def)

section \<open>Shell words\<close>

definition shellQuote :: "string \<Rightarrow> string" where
  "shellQuote s = apos # replace_char apos [apos, backslash, apos, apos] s @ [apos]"

text \<open>How a POSIX shell reads a word: quoted pieces and escaped characters up to a blank.\<close>

fun sh_word :: "bool \<Rightarrow> string \<Rightarrow> (string \<times> string) option" where
  "sh_word q [] = (if q then None else Some ([], []))"
| "sh_word True (c # s) =
     (if c = apos then sh_word False s else map_option (\<lambda>(x, r). (c # x, r)) (sh_word True s))"
| "sh_word False (c # s) =
     (if c = apos then sh_word True s
      else if c = backslash then
        (case s of [] \<Rightarrow> None | d # t \<Rightarrow> map_option (\<lambda>(x, r). (d # x, r)) (sh_word False t))
      else if c = CHR '' '' then Some ([], c # s)
      else map_option (\<lambda>(x, r). (c # x, r)) (sh_word False s))"

definition sh_stop :: "string \<Rightarrow> bool" where
  "sh_stop r = (case r of [] \<Rightarrow> True | c # _ \<Rightarrow> c = CHR '' '')"

lemma sh_word_quote:
  "sh_stop rest \<Longrightarrow> sh_word True (replace_char apos [apos, backslash, apos, apos] s @ apos # rest) = Some (s, rest)"
proof (induction s)
  case Nil
  then show ?case by (cases rest) (auto simp: sh_stop_def go_simps apos_def backslash_def)
next
  case (Cons c s)
  have "apos \<noteq> backslash" "backslash \<noteq> apos" by (simp_all add: apos_def backslash_def)
  then show ?case using Cons by (cases "c = apos") (simp_all add: go_simps)
qed

interpretation sh_quoting: quoting shellQuote "sh_word False" sh_stop
  by unfold_locales (auto simp: shellQuote_def sh_word_quote sh_stop_def)

section \<open>Dialects\<close>

text \<open>\<open>dialects\<close>: the driver's name selects one of two.\<close>

datatype dialect = Sqlite | Postgres

definition dialectForDriver :: "string \<Rightarrow> gerr + dialect" where
  "dialectForDriver driver =
     (if driver = ''sqlite'' then Inr Sqlite else if driver = ''postgres'' then Inr Postgres
      else Inl (ErrMsg (''unsupported store driver '' @ driver)))"

definition SelectSessionNextSeqSQL :: "dialect \<Rightarrow> string" where
  "SelectSessionNextSeqSQL d = (case d of Sqlite \<Rightarrow> ''SELECT next_seq FROM session WHERE id = ?''
     | Postgres \<Rightarrow> ''SELECT next_seq FROM session WHERE id = ? FOR UPDATE'')"

definition JSONBoolTrue :: "dialect \<Rightarrow> string \<Rightarrow> string \<Rightarrow> string" where
  "JSONBoolTrue d column f = (case d of
       Sqlite \<Rightarrow> ''json_extract('' @ column @ '', '' @ [apos] @ ''$.'' @ f @ [apos] @ '') = 1''
     | Postgres \<Rightarrow> ''('' @ column @ ''->>'' @ [apos] @ f @ [apos] @ '')::boolean = true'')"

definition JSONTextEquals :: "dialect \<Rightarrow> string \<Rightarrow> string list \<Rightarrow> string \<Rightarrow> string" where
  "JSONTextEquals d column path value = (case d of
       Sqlite \<Rightarrow> ''json_extract('' @ column @ '', '' @ [apos] @ ''$.'' @ join ''.'' path @ [apos] @ '') = ''
         @ sqlStringLiteral value
     | Postgres \<Rightarrow> ''('' @ column @ '' #>> '' @ [apos] @ ''{'' @ join '','' path @ ''}'' @ [apos] @ '') = ''
         @ sqlStringLiteral value)"

text \<open>\<open>postgresBind\<close>: placeholders outside string literals are numbered from \<open>arg\<close>.\<close>

fun bind_from :: "nat \<Rightarrow> bool \<Rightarrow> string \<Rightarrow> string" where
  "bind_from arg inSingle [] = []"
| "bind_from arg inSingle (ch # s) =
     (if ch = apos then
        (case s of
           d # t \<Rightarrow> (if inSingle \<and> d = apos then ch # d # bind_from arg inSingle t
                     else ch # bind_from arg (\<not> inSingle) s)
         | [] \<Rightarrow> [ch])
      else if ch = CHR ''?'' \<and> \<not> inSingle then CHR ''$'' # nat_str arg @ bind_from (Suc arg) inSingle s
      else ch # bind_from arg inSingle s)"

definition postgresBind :: "string \<Rightarrow> string" where
  "postgresBind query = bind_from 1 False query"

definition bind :: "dialect \<Rightarrow> string \<Rightarrow> string" where
  "bind d query = (case d of Sqlite \<Rightarrow> query | Postgres \<Rightarrow> postgresBind query)"

text \<open>\<open>schemaStatements\<close>: split at semicolons outside string literals; \<open>acc\<close> is the current statement.\<close>

definition keep_stmt :: "string \<Rightarrow> string list" where
  "keep_stmt s = (if TrimSpace s \<noteq> [] then [TrimSpace s] else [])"

fun split_stmts :: "bool \<Rightarrow> string \<Rightarrow> string \<Rightarrow> string list" where
  "split_stmts inSingle acc [] = keep_stmt acc"
| "split_stmts inSingle acc (ch # s) =
     (if ch = apos then
        (case s of
           d # t \<Rightarrow> (if inSingle \<and> d = apos then split_stmts inSingle (acc @ [ch, d]) t
                     else split_stmts (\<not> inSingle) (acc @ [ch]) s)
         | [] \<Rightarrow> keep_stmt (acc @ [ch]))
      else if ch = CHR '';'' \<and> \<not> inSingle then keep_stmt acc @ split_stmts inSingle [] s
      else split_stmts inSingle (acc @ [ch]) s)"

definition schemaStatements :: "string \<Rightarrow> string list" where
  "schemaStatements schema = split_stmts False [] schema"

section \<open>Lemmas on scanning\<close>

text \<open>A well-formed piece of SQL text: literals and other characters.\<close>

datatype piece = Lit string | Chr char

definition piece_ok :: "piece \<Rightarrow> bool" where
  "piece_ok p = (case p of Lit s \<Rightarrow> True | Chr c \<Rightarrow> c \<noteq> apos)"

fun no_adjacent :: "piece list \<Rightarrow> bool" where
  "no_adjacent (Lit s # Lit t # ps) = False"
| "no_adjacent (p # ps) = no_adjacent ps"
| "no_adjacent [] = True"

fun render :: "piece list \<Rightarrow> string" where
  "render [] = []"
| "render (Lit s # ps) = sqlStringLiteral s @ render ps"
| "render (Chr c # ps) = c # render ps"

fun bind_pieces :: "nat \<Rightarrow> piece list \<Rightarrow> string" where
  "bind_pieces n [] = []"
| "bind_pieces n (Lit s # ps) = sqlStringLiteral s @ bind_pieces n ps"
| "bind_pieces n (Chr c # ps) =
     (if c = CHR ''?'' then CHR ''$'' # nat_str n @ bind_pieces (Suc n) ps else c # bind_pieces n ps)"

lemma apos_neq [simp]: "apos \<noteq> CHR ''?''" "CHR ''?'' \<noteq> apos" "apos \<noteq> CHR '';''" "CHR '';'' \<noteq> apos"
  by (simp_all add: apos_def)

lemma bind_literal:
  "sql_stop rest \<Longrightarrow> bind_from n True (replace_char apos [apos, apos] s @ apos # rest)
     = replace_char apos [apos, apos] s @ apos # bind_from n False rest"
proof (induction s)
  case Nil
  then show ?case by (cases rest) (auto simp: sql_stop_def go_simps)
next
  case (Cons c s)
  then show ?case by (cases "c = apos") (simp_all add: go_simps)
qed

lemma render_stop:
  "list_all piece_ok ps \<Longrightarrow> no_adjacent (Lit s # ps) \<Longrightarrow> sql_stop (render ps)"
  by (cases ps rule: render.cases) (auto simp: sql_stop_def piece_ok_def)

lemma bind_open: "bind_from n False (apos # s) = apos # bind_from n True s"
  by (cases s) auto

lemma bind_sql: "sql_stop r \<Longrightarrow> bind_from n False (sqlStringLiteral s @ r) = sqlStringLiteral s @ bind_from n False r"
  by (simp only: sqlStringLiteral_def append_Cons append.assoc append_Nil bind_open bind_literal)

lemma bind_render:
  "list_all piece_ok ps \<Longrightarrow> no_adjacent ps \<Longrightarrow> bind_from n False (render ps) = bind_pieces n ps"
proof (induction n ps rule: bind_pieces.induct)
  case (2 n s ps)
  have na: "no_adjacent ps" using "2.prems"(2) by (cases ps rule: render.cases) auto
  have "sql_stop (render ps)" using render_stop "2.prems" by simp
  then show ?case
    using 2 na by (simp add: bind_sql)
next
  case (3 n c ps)
  then show ?case by (auto simp: piece_ok_def)
qed simp

section \<open>Properties\<close>

text \<open>A value put into a query as a literal is read back by SQL as that
value and nothing else, whatever characters it holds and whatever follows it: it cannot end the
literal early.\<close>

theorem sql_literal_roundtrip:
  "sql_stop rest \<Longrightarrow> sql_read (sqlStringLiteral value @ rest) = Some (value, rest)"
  by (rule sql_quoting.read_quote)

lemma sql_literal_roundtrip_witness:
  "sql_read (sqlStringLiteral [CHR ''a'', apos, CHR '';''] @ '' AND 1'') = Some ([CHR ''a'', apos, CHR '';''], '' AND 1'')"
  by (rule sql_literal_roundtrip) (simp add: sql_stop_def apos_def)

text \<open>Binding for PostgreSQL turns the placeholders of a query into
\<open>$1, $2, ...\<close> from left to right and changes nothing else: a question mark in a string
literal stays, for every query whose literals are closed.\<close>

theorem postgresBind_numbers_placeholders:
  assumes "list_all piece_ok ps" "no_adjacent ps"
  shows "postgresBind (render ps) = bind_pieces 1 ps"
  using bind_render [OF assms] by (simp add: postgresBind_def)

lemma postgresBind_numbers_placeholders_witness:
  "postgresBind (render [Chr CHR ''?'', Chr CHR '','', Lit ''why?'', Chr CHR '','', Chr CHR ''?''])
     = ''$1,'' @ sqlStringLiteral ''why?'' @ '',$2''"
proof -
  let ?ps = "[Chr CHR ''?'', Chr CHR '','', Lit ''why?'', Chr CHR '','', Chr CHR ''?'']"
  have "list_all piece_ok ?ps" by (simp add: piece_ok_def apos_def)
  moreover have "no_adjacent ?ps" by simp
  ultimately have "postgresBind (render ?ps) = bind_pieces 1 ?ps" by (rule postgresBind_numbers_placeholders)
  moreover have "bind_pieces 1 ?ps = ''$1,'' @ sqlStringLiteral ''why?'' @ '',$2''" by code_simp
  ultimately show ?thesis by simp
qed

end
