(* ===== verification/Paths.thy ===== *)
theory Paths
  imports Dialect "HOL-Library.Sublist"
begin

text \<open>
  Paths: \<open>path/filepath\<close> as the sources use it (\<open>Clean\<close>, \<open>Join\<close>), the virtual paths and
  the write check of the subprocess sandbox (\<open>internal/sandbox/subprocess.go\<close>), and the
  checks on names and paths of \<open>internal/harness/skills.go\<close> and \<open>resources.go\<close>.
\<close>

section \<open>Clean\<close>

text \<open>The components of a cleaned path, built from the left; \<open>st\<close> is reversed.\<close>

definition clean_step :: "bool \<Rightarrow> string \<Rightarrow> string list \<Rightarrow> string list" where
  "clean_step rooted c st =
     (if c = [] \<or> c = ''.'' then st
      else if c = ''..'' then
        (case st of
           [] \<Rightarrow> (if rooted then [] else [''..''])
         | t # ts \<Rightarrow> (if t = ''..'' then ''..'' # st else ts))
      else c # st)"

definition clean_comps :: "bool \<Rightarrow> string list \<Rightarrow> string list" where
  "clean_comps rooted cs = rev (fold (clean_step rooted) cs [])"

definition is_rooted :: "string \<Rightarrow> bool" where
  "is_rooted p = HasPrefix p ''/''"

definition comps :: "string \<Rightarrow> string list" where
  "comps p = clean_comps (is_rooted p) (split_char CHR ''/'' p)"

definition Clean :: "string \<Rightarrow> string" where
  "Clean p = (let body = join ''/'' (comps p) in
     if is_rooted p then ''/'' @ body else if body = [] then ''.'' else body)"

definition Join :: "string list \<Rightarrow> string" where
  "Join elems = (let es = filter (\<lambda>x. x \<noteq> []) elems in if es = [] then [] else Clean (join ''/'' es))"

definition normal_comp :: "string \<Rightarrow> bool" where
  "normal_comp c \<longleftrightarrow> c \<noteq> [] \<and> c \<noteq> ''.'' \<and> c \<noteq> ''..'' \<and> CHR ''/'' \<notin> set c"

lemma split_char_no_sep: "x \<in> set (split_char c s) \<Longrightarrow> c \<notin> set x"
proof (induction c s arbitrary: x rule: split_char.induct)
  case (2 c y s)
  then show ?case by (auto split: if_splits list.splits)
qed simp

lemma fold_set_inv:
  assumes "\<And>c st. Q c \<Longrightarrow> (\<forall>x\<in>set st. P x) \<Longrightarrow> \<forall>x\<in>set (f c st). P x" "\<forall>c\<in>set cs. Q c" "\<forall>x\<in>set st. P x"
  shows "\<forall>x\<in>set (fold f cs st). P x"
  using assms(2,3)
proof (induction cs arbitrary: st)
  case (Cons c cs)
  then show ?case using assms(1) [of c st] by simp
qed simp

text \<open>A cleaned rooted path has no empty, dot or dot-dot component.\<close>

lemma clean_step_normal:
  assumes "CHR ''/'' \<notin> set c" "\<forall>x\<in>set st. normal_comp x"
  shows "\<forall>x\<in>set (clean_step True c st). normal_comp x"
proof (cases st)
  case Nil
  then show ?thesis using assms by (simp add: clean_step_def normal_comp_def)
next
  case (Cons t ts)
  have "t \<noteq> ''..''" using assms(2) Cons by (simp add: normal_comp_def)
  then show ?thesis using assms Cons by (simp add: clean_step_def normal_comp_def)
qed

lemma comps_normal: "is_rooted p \<Longrightarrow> c \<in> set (comps p) \<Longrightarrow> normal_comp c"
proof -
  assume r: "is_rooted p" and c: "c \<in> set (comps p)"
  have "\<forall>x\<in>set (fold (clean_step True) (split_char CHR ''/'' p) []). normal_comp x"
    by (rule fold_set_inv [where Q = "\<lambda>c. CHR ''/'' \<notin> set c"])
      (rule clean_step_normal, simp_all add: split_char_no_sep)
  then show ?thesis using r c by (simp add: comps_def clean_comps_def)
qed

text \<open>No component, of a rooted path or not, is empty or holds a slash.\<close>

lemma clean_step_part:
  assumes "CHR ''/'' \<notin> set c" "\<forall>x\<in>set st. CHR ''/'' \<notin> set x \<and> x \<noteq> []"
  shows "\<forall>x\<in>set (clean_step rooted c st). CHR ''/'' \<notin> set x \<and> x \<noteq> []"
  using assms by (cases st) (simp_all add: clean_step_def)

lemma comps_parts: "c \<in> set (comps p) \<Longrightarrow> CHR ''/'' \<notin> set c \<and> c \<noteq> []"
proof -
  assume c: "c \<in> set (comps p)"
  have "\<forall>x\<in>set (fold (clean_step (is_rooted p)) (split_char CHR ''/'' p) []). CHR ''/'' \<notin> set x \<and> x \<noteq> []"
    by (rule fold_set_inv [where Q = "\<lambda>c. CHR ''/'' \<notin> set c"])
      (rule clean_step_part, simp_all add: split_char_no_sep)
  then show ?thesis using c by (simp add: comps_def clean_comps_def)
qed

section \<open>Virtual paths of the sandbox\<close>

definition isPathBoundary :: "char \<Rightarrow> bool" where
  "isPathBoundary ch = (ch \<in> {CHR '' '', CHR 0x09, CHR 0x0A, CHR 0x22, CHR 0x27, CHR 0x60, CHR ''$'', CHR ''('',
     CHR '')'', CHR ''|'', CHR ''&'', CHR '';'', CHR ''>'', CHR ''<'', CHR '',''})"

text \<open>The loop of \<open>replaceAtBoundary\<close>; \<open>prev\<close> is the byte before the current position.\<close>

definition right_ok :: "string \<Rightarrow> bool" where
  "right_ok r = (case r of [] \<Rightarrow> True
     | ch # _ \<Rightarrow> ch = CHR 0x00 \<or> ch = CHR ''/'' \<or> isPathBoundary ch)"

function replace_from :: "char option \<Rightarrow> string \<Rightarrow> string \<Rightarrow> string \<Rightarrow> string" where
  "replace_from prev frm tgt s =
     (case s of
        [] \<Rightarrow> []
      | ch # t \<Rightarrow>
          (if frm \<noteq> [] \<and> HasPrefix s frm \<and> (case prev of None \<Rightarrow> True | Some p \<Rightarrow> isPathBoundary p)
              \<and> right_ok (drop (length frm) s)
           then tgt @ replace_from (Some (last frm)) frm tgt (drop (length frm) s)
           else ch # replace_from (Some ch) frm tgt t))"
  by pat_completeness auto
termination
  by (relation "measure (\<lambda>(p, f, t, s). length s)") auto

declare replace_from.simps [simp del]

definition replaceAtBoundary :: "string \<Rightarrow> string \<Rightarrow> string \<Rightarrow> string" where
  "replaceAtBoundary s frm tgt = (if \<not> Contains s frm then s else replace_from None frm tgt s)"

definition path_mappings :: "string \<Rightarrow> (string \<times> string) list" where
  "path_mappings workdir =
     [(''/workspace'', Join [workdir, ''workspace'']),
      (''/home/user/.skills'', Join [workdir, ''_home_user_skills'']),
      (''/mnt/memory'', Join [workdir, ''_mnt_memory'']),
      (''/mnt/session'', Join [workdir, ''_mnt_session'']),
      (''/mnt/skills'', Join [workdir, ''_mnt_skills''])]"

definition rewriteVirtualPaths :: "string \<Rightarrow> string \<Rightarrow> string" where
  "rewriteVirtualPaths workdir arg =
     fold (\<lambda>(f, t) a. replaceAtBoundary a f t) (path_mappings workdir) arg"

text \<open>\<open>WriteFile\<close>: where the content goes, or the refusal.\<close>

definition WriteFile_target :: "string \<Rightarrow> string \<Rightarrow> gerr + string" where
  "WriteFile_target workdir path =
     (let resolved = rewriteVirtualPaths workdir path in
      if \<not> HasPrefix (Clean resolved) (Clean workdir @ ''/'')
      then Inl (ErrMsg (''path escapes sandbox: '' @ path)) else Inr resolved)"

section \<open>Names and relative paths\<close>

definition safe_name_char :: "char \<Rightarrow> bool" where
  "safe_name_char ch = (let n = of_char ch :: nat in
     (97 \<le> n \<and> n \<le> 122) \<or> (65 \<le> n \<and> n \<le> 90) \<or> (48 \<le> n \<and> n \<le> 57)
     \<or> ch = CHR ''-'' \<or> ch = CHR ''_'' \<or> ch = CHR ''.'')"

definition sanitizeName :: "string \<Rightarrow> string" where
  "sanitizeName s = (if s = [] then ''store'' else map (\<lambda>ch. if safe_name_char ch then ch else CHR ''_'') s)"

text \<open>The pattern is a raw string: two backslashes.\<close>

definition two_backslashes :: string where
  "two_backslashes = [CHR 0x5C, CHR 0x5C]"

fun replace_two :: "string \<Rightarrow> string" where
  "replace_two (a # b # s) = (if [a, b] = two_backslashes then CHR ''/'' # replace_two s else a # replace_two (b # s))"
| "replace_two s = s"

definition safeRelativePath :: "string \<Rightarrow> bool" where
  "safeRelativePath p =
     (if p = [] \<or> HasPrefix p ''/'' \<or> HasPrefix p two_backslashes then False
      else list_all (\<lambda>part. part \<noteq> [] \<and> part \<noteq> ''.'' \<and> part \<noteq> ''..'') (split_char CHR ''/'' (replace_two p)))"

section \<open>Lemmas\<close>

lemma join_Cons: "xs \<noteq> [] \<Longrightarrow> join sep (x # xs) = x @ sep @ join sep xs"
  by (cases xs) auto

lemma join_hd: "c \<noteq> [] \<Longrightarrow> hd (join sep (c # cs)) = hd c"
  by (cases cs) auto

text \<open>Splitting a joined list of components gives it back.\<close>

lemma split_char_append:
  "c \<notin> set x \<Longrightarrow> split_char c (x @ c # s) = x # split_char c s"
  by (induction x) auto

lemma split_char_single: "c \<notin> set x \<Longrightarrow> split_char c x = [x]"
  by (induction x) auto

lemma split_join:
  "xs \<noteq> [] \<Longrightarrow> (\<forall>x\<in>set xs. c \<notin> set x) \<Longrightarrow> split_char c (join [c] xs) = xs"
proof (induction xs)
  case (Cons x xs)
  then show ?case
    by (cases "xs = []") (simp_all add: join_Cons split_char_append split_char_single)
qed simp

lemma split_char_cons: "split_char CHR ''/'' (''/'' @ s) = [] # split_char CHR ''/'' s"
  by simp

lemma fold_clean_normal: "(\<forall>c\<in>set cs. normal_comp c) \<Longrightarrow> fold (clean_step rooted) cs st = rev cs @ st"
  by (induction cs arbitrary: st) (auto simp: normal_comp_def clean_step_def)

lemma clean_comps_normal: "(\<forall>c\<in>set cs. normal_comp c) \<Longrightarrow> clean_comps rooted cs = cs"
  by (simp add: clean_comps_def fold_clean_normal)

lemma clean_comps_skip: "clean_comps rooted ([] # cs) = clean_comps rooted cs"
  by (simp add: clean_comps_def clean_step_def)

text \<open>The components of a cleaned path are those of the path: cleaning is idempotent.\<close>

lemma comps_Clean: "is_rooted p \<Longrightarrow> comps (Clean p) = comps p"
proof -
  assume r: "is_rooted p"
  have n: "\<forall>c\<in>set (comps p). normal_comp c" using comps_normal [OF r] by blast
  have root: "is_rooted (Clean p)" using r by (simp add: Clean_def Let_def is_rooted_def)
  have "split_char CHR ''/'' (join ''/'' (comps p)) = (if comps p = [] then [[]] else comps p)"
    using n split_join [of "comps p" "CHR ''/''"] by (auto simp: normal_comp_def)
  moreover have "Clean p = ''/'' @ join ''/'' (comps p)" using r by (simp add: Clean_def Let_def)
  ultimately have "split_char CHR ''/'' (Clean p) = (if comps p = [] then [[], []] else [] # comps p)" by simp
  then have "comps (Clean p) = clean_comps True (if comps p = [] then [[], []] else [] # comps p)"
    unfolding comps_def [of "Clean p"] using root by simp
  also have "\<dots> = comps p" using clean_comps_normal [OF n, of True] clean_comps_normal [of "[]" True] by (simp add: clean_comps_skip)
  finally show ?thesis .
qed

text \<open>A cleaned rooted path in the directory of another has that one's components first.\<close>

lemma comps_prefix:
  assumes p: "is_rooted p" and d: "is_rooted d" and pre: "HasPrefix (Clean p) (Clean d @ ''/'')" and ne: "comps d \<noteq> []"
  shows "\<exists>rest. rest \<noteq> [] \<and> comps p = comps d @ rest"
proof -
  obtain s where s: "Clean p = Clean d @ ''/'' @ s" using pre by (auto simp: HasPrefix_iff)
  have nd: "\<forall>c\<in>set (comps d). CHR ''/'' \<notin> set c" using comps_normal [OF d] by (auto simp: normal_comp_def)
  have np: "\<forall>c\<in>set (comps p). normal_comp c" using comps_normal [OF p] by blast
  have body: "join ''/'' (comps p) = join ''/'' (comps d) @ ''/'' @ s"
    using s p d by (simp add: Clean_def Let_def)
  then have pne: "comps p \<noteq> []" by auto
  have split_app: "(\<forall>c\<in>set ds. CHR ''/'' \<notin> set c) \<Longrightarrow> ds \<noteq> [] \<Longrightarrow>
      split_char CHR ''/'' (join ''/'' ds @ ''/'' @ s) = ds @ split_char CHR ''/'' s" for ds
  proof (induction ds)
    case (Cons x ds)
    then show ?case by (cases "ds = []") (simp_all add: join_Cons split_char_append)
  qed simp
  have "comps p = split_char CHR ''/'' (join ''/'' (comps p))"
    using split_join [OF pne, of "CHR ''/''"] np by (simp add: normal_comp_def)
  also have "\<dots> = comps d @ split_char CHR ''/'' s"
    using split_app [OF nd ne] by (simp add: body)
  finally have "comps p = comps d @ split_char CHR ''/'' s" .
  moreover have "split_char CHR ''/'' s \<noteq> []" by (cases s) (auto split: list.splits)
  ultimately show ?thesis by blast
qed

lemma split_char_not_Nil: "split_char c s \<noteq> []"
  by (induction s) (simp_all split: list.split)

lemma split_char_app: "split_char c (a @ c # b) = split_char c a @ split_char c b"
proof (induction a)
  case (Cons x a)
  obtain p ps where a: "split_char c a = p # ps" by (cases "split_char c a") (simp add: split_char_not_Nil)
  show ?case
  proof (cases "x = c")
    case True
    have "split_char c ((x # a) @ c # b) = [] # split_char c (a @ c # b)" using True by simp
    then show ?thesis using True by (simp only: Cons.IH) simp
  next
    case False
    then have "split_char c ((x # a) @ c # b) = (x # p) # ps @ split_char c b" using Cons.IH a by simp
    then show ?thesis using False a by simp
  qed
qed simp

lemma comps_mount:
  assumes "is_rooted d" "\<forall>c\<in>set (split_char CHR ''/'' rest). normal_comp c"
  shows "comps (Join [d, rest]) = comps d @ split_char CHR ''/'' rest"
proof -
  have ne: "rest \<noteq> []"
  proof
    assume "rest = []"
    then show False using assms(2) by (simp add: normal_comp_def)
  qed
  obtain d' where d': "d = CHR ''/'' # d'" using assms(1) by (auto simp: is_rooted_def HasPrefix_iff)
  then have d: "d \<noteq> []" by simp
  have r: "is_rooted (d @ ''/'' @ rest)" by (simp add: is_rooted_def d')
  have "Join [d, rest] = Clean (d @ ''/'' @ rest)" using ne d by (simp add: Join_def Let_def)
  then have "comps (Join [d, rest]) = comps (d @ ''/'' @ rest)" using comps_Clean [OF r] by simp
  also have "\<dots> = clean_comps True (split_char CHR ''/'' d @ split_char CHR ''/'' rest)"
    using r by (simp add: comps_def split_char_app)
  also have "\<dots> = comps d @ split_char CHR ''/'' rest"
    using assms fold_clean_normal [OF assms(2)] by (simp add: comps_def clean_comps_def)
  finally show ?thesis .
qed

section \<open>Properties\<close>

lemma inside_rooted:
  assumes "HasPrefix (Clean p) (Clean d @ ''/'')" "is_rooted d"
  shows "is_rooted p"
proof (rule ccontr)
  assume n: "\<not> is_rooted p"
  obtain s where "Clean p = Clean d @ ''/'' @ s" using assms(1) by (auto simp: HasPrefix_iff)
  then have "\<exists>x. Clean p = ''/'' @ x" using assms(2) by (simp add: Clean_def [of d] Let_def)
  moreover have "Clean p \<noteq> ''/'' @ x" for x
  proof -
    have "\<forall>c\<in>set (comps p). CHR ''/'' \<notin> set c \<and> c \<noteq> []" using comps_parts by blast
    then have "join ''/'' (comps p) = [] \<or> hd (join ''/'' (comps p)) \<noteq> CHR ''/''"
    proof (cases "comps p")
      case (Cons a cs)
      then have "a \<noteq> []" "CHR ''/'' \<notin> set a" using comps_parts [of a p] by auto
      then have "hd a \<noteq> CHR ''/''" by (cases a) auto
      then show ?thesis using Cons \<open>a \<noteq> []\<close> by (simp add: join_hd)
    qed simp
    then show ?thesis using n by (auto simp: Clean_def Let_def)
  qed
  ultimately show False by blast
qed

text \<open>A write the sandbox accepts stays in the session's working directory:
the cleaned target has the directory's components followed by at least one more, none of
which is empty, a dot or a dot-dot, whatever path was asked for.\<close>

theorem sandbox_write_stays_inside:
  assumes "WriteFile_target workdir path = Inr resolved" "is_rooted workdir" "comps workdir \<noteq> []"
  shows "\<exists>rest. rest \<noteq> [] \<and> comps resolved = comps workdir @ rest \<and> (\<forall>c\<in>set rest. normal_comp c)"
proof -
  have pre: "HasPrefix (Clean resolved) (Clean workdir @ ''/'')"
    using assms(1) by (auto simp: WriteFile_target_def Let_def split: if_splits)
  have r: "is_rooted resolved" by (rule inside_rooted [OF pre assms(2)])
  obtain rest where rest: "rest \<noteq> []" "comps resolved = comps workdir @ rest"
    using comps_prefix [OF r assms(2) pre assms(3)] by blast
  then have "\<forall>c\<in>set rest. normal_comp c" using comps_normal [OF r] by auto
  then show ?thesis using rest by blast
qed

lemma sandbox_write_stays_inside_witness:
  "\<exists>rest. comps ''/data/s1/workspace/a/../b.txt'' = comps ''/data/s1'' @ rest"
proof -
  have w: "WriteFile_target ''/data/s1'' ''/workspace/a/../b.txt'' = Inr ''/data/s1/workspace/a/../b.txt''"
    "is_rooted ''/data/s1''" "comps ''/data/s1'' \<noteq> []"
    by code_simp+
  show ?thesis using sandbox_write_stays_inside [OF w] by blast
qed

end
