(* ===== verification/Tools.thy ===== *)
theory Tools
  imports Paths Provider
begin

text \<open>
  The built-in tools of \<open>internal/tool\<close>: each decodes its input, builds one command
  for the sandbox, and reports the command's outcome. The sandbox is a parameter: what a
  command answers at a tick.
\<close>

text \<open>\<open>sb.Exec\<close> with its timeout in nanoseconds (0: none given), and the text of a decoding error.\<close>

record sandbox =
  sb_Exec :: exec
  sb_JsonErr :: "raw \<Rightarrow> string"

type_synonym result = "string \<times> bool"

section \<open>Helpers\<close>

definition nl :: string where
  "nl = [CHR 0x0A]"

text \<open>\<open>dirOf\<close> and \<open>parentDir\<close>: what stands before the last slash.\<close>

definition before_last_slash :: "string \<Rightarrow> string option" where
  "before_last_slash p =
     (let tail = takeWhile (\<lambda>c. c \<noteq> CHR ''/'') (rev p) in
      if length tail = length p then None else Some (take (length p - length tail - 1) p))"

definition dirOf :: "string \<Rightarrow> string" where
  "dirOf p = (case before_last_slash p of None \<Rightarrow> ''.'' | Some d \<Rightarrow> if d = [] then ''.'' else d)"

text \<open>Standard base64 with padding.\<close>

definition b64_char :: "nat \<Rightarrow> char" where
  "b64_char n =
     (if n < 26 then char_of (65 + n) else if n < 52 then char_of (71 + n) else if n < 62 then char_of (n - 4)
      else if n = 62 then CHR ''+'' else CHR ''/'')"

fun base64 :: "string \<Rightarrow> string" where
  "base64 [] = []"
| "base64 [a] = (let x = of_char a :: nat in [b64_char (x div 4), b64_char (x mod 4 * 16), CHR ''='', CHR ''=''])"
| "base64 [a, b] = (let x = of_char a :: nat; y = of_char b :: nat in
     [b64_char (x div 4), b64_char (x mod 4 * 16 + y div 16), b64_char (y mod 16 * 4), CHR ''=''])"
| "base64 (a # b # c # s) = (let x = of_char a :: nat; y = of_char b :: nat; z = of_char c :: nat in
     [b64_char (x div 4), b64_char (x mod 4 * 16 + y div 16), b64_char (y mod 16 * 4 + z div 64), b64_char (z mod 64)]
     @ base64 s)"

definition write_command :: "string \<Rightarrow> string \<Rightarrow> string" where
  "write_command path content = ''mkdir -p '' @ shellQuote (dirOf path) @ '' && echo ''
     @ shellQuote (base64 content) @ '' | base64 -d > '' @ shellQuote path"

text \<open>The common tail: run and report.\<close>

definition run_args ::
  "sandbox \<Rightarrow> nat \<Rightarrow> string list \<Rightarrow> int \<Rightarrow> (exec_result \<Rightarrow> result) \<Rightarrow> gerr + result" where
  "run_args sb n args timeout k =
     (case sb_Exec sb n args timeout of
        Inl err \<Rightarrow> Inr (''exec error: '' @ err_str err, True)
      | Inr res \<Rightarrow> Inr (k res))"

definition run_bash :: "sandbox \<Rightarrow> nat \<Rightarrow> string \<Rightarrow> (exec_result \<Rightarrow> result) \<Rightarrow> gerr + result" where
  "run_bash sb n cmd k = run_args sb n [''bash'', ''-c'', cmd] 0 k"

definition failed :: "string \<Rightarrow> exec_result \<Rightarrow> string" where
  "failed what res = what @ '' failed (exit '' @ int_str (er_ExitCode res) @ ''):'' @ nl @ er_Stderr res"

section \<open>bash\<close>

record bashInput =
  bi_Command :: string
  bi_Timeout :: int

definition dec_bash :: "bashInput dec" where
  "dec_bash = dec_struct [fld ''command'' bi_Command bi_Command_update dec_str,
     fld ''timeout'' bi_Timeout bi_Timeout_update dec_int64]"

definition bash_timeout :: "bashInput \<Rightarrow> int" where
  "bash_timeout i = (let t = wrap64 (bi_Timeout i * 1000000) in if t = 0 then 60 * 1000000000 else t)"

definition BashTool :: "sandbox \<Rightarrow> nat \<Rightarrow> raw \<Rightarrow> gerr + result" where
  "BashTool sb n input =
     (case unmarshal dec_bash \<lparr>bi_Command = [], bi_Timeout = 0\<rparr> input of
        (i, True) \<Rightarrow> Inr (''invalid input: '' @ sb_JsonErr sb input, True)
      | (i, False) \<Rightarrow>
          (if bi_Command i = [] then Inr (''command is required'', True)
           else run_args sb n [''bash'', ''-c'', bi_Command i] (bash_timeout i) (\<lambda>res.
             (''exit='' @ int_str (er_ExitCode res) @ nl @ er_Stdout res
                @ (if er_Stderr res \<noteq> [] then nl @ ''stderr: '' @ er_Stderr res else []),
              er_ExitCode res \<noteq> 0))))"

section \<open>read and write\<close>

record readInput =
  ri_Path :: string
  ri_Offset :: int
  ri_Limit :: int

definition dec_read :: "readInput dec" where
  "dec_read = dec_struct [fld ''path'' ri_Path ri_Path_update dec_str,
     fld ''offset'' ri_Offset ri_Offset_update dec_int64, fld ''limit'' ri_Limit ri_Limit_update dec_int64]"

definition read_command :: "readInput \<Rightarrow> string" where
  "read_command i =
     (if ri_Offset i > 0 \<or> ri_Limit i > 0 then
        (let off = (if ri_Offset i \<le> 0 then 1 else ri_Offset i) in
         if ri_Limit i > 0
         then ''sed -n '' @ [apos] @ int_str off @ '','' @ int_str (wrap64 (off + ri_Limit i - 1)) @ ''p'' @ [apos] @ '' ''
                @ shellQuote (ri_Path i)
         else ''tail -n +'' @ int_str off @ '' '' @ shellQuote (ri_Path i))
      else ''cat '' @ shellQuote (ri_Path i))"

definition ReadTool :: "sandbox \<Rightarrow> nat \<Rightarrow> raw \<Rightarrow> gerr + result" where
  "ReadTool sb n input =
     (case unmarshal dec_read \<lparr>ri_Path = [], ri_Offset = 0, ri_Limit = 0\<rparr> input of
        (i, True) \<Rightarrow> Inr (''invalid input: '' @ sb_JsonErr sb input, True)
      | (i, False) \<Rightarrow>
          (if ri_Path i = [] then Inr (''path is required'', True)
           else run_bash sb n (read_command i) (\<lambda>res.
             if er_ExitCode res \<noteq> 0 then (failed ''read'' res, True) else (er_Stdout res, False))))"

record writeInput =
  wi_Path :: string
  wi_Content :: string

definition dec_write :: "writeInput dec" where
  "dec_write = dec_struct [fld ''path'' wi_Path wi_Path_update dec_str,
     fld ''content'' wi_Content wi_Content_update dec_str]"

definition WriteTool :: "sandbox \<Rightarrow> nat \<Rightarrow> raw \<Rightarrow> gerr + result" where
  "WriteTool sb n input =
     (case unmarshal dec_write \<lparr>wi_Path = [], wi_Content = []\<rparr> input of
        (i, True) \<Rightarrow> Inr (''invalid input: '' @ sb_JsonErr sb input, True)
      | (i, False) \<Rightarrow>
          (if wi_Path i = [] then Inr (''path is required'', True)
           else run_bash sb n (write_command (wi_Path i) (wi_Content i)) (\<lambda>res.
             if er_ExitCode res \<noteq> 0 then (failed ''write'' res, True)
             else (''wrote '' @ int_str (int (length (wi_Content i))) @ '' bytes to '' @ wi_Path i, False))))"

section \<open>edit\<close>

record editInput =
  ei_Path :: string
  ei_OldString :: string
  ei_NewString :: string

definition dec_edit :: "editInput dec" where
  "dec_edit = dec_struct [fld ''path'' ei_Path ei_Path_update dec_str,
     fld ''old_string'' ei_OldString ei_OldString_update dec_str,
     fld ''new_string'' ei_NewString ei_NewString_update dec_str]"

definition dquote :: string where
  "dquote = [CHR 0x22]"

text \<open>The Python script, line by line.\<close>

definition edit_script :: "editInput \<Rightarrow> string" where
  "edit_script i =
     (let path = goquote (ei_Path i); q = [apos]; d = dquote in
      join nl
       [[],
        ''import sys, base64'',
        ''with open('' @ path @ '', '' @ q @ ''r'' @ q @ '', encoding='' @ q @ ''utf-8'' @ q @ '') as f:'',
        ''    s = f.read()'',
        ''old = base64.b64decode('' @ goquote (base64 (ei_OldString i)) @ '').decode('' @ q @ ''utf-8'' @ q @ '')'',
        ''new = base64.b64decode('' @ goquote (base64 (ei_NewString i)) @ '').decode('' @ q @ ''utf-8'' @ q @ '')'',
        ''count = s.count(old)'',
        ''if count == 0:'',
        ''    print('' @ d @ ''ERROR: old_string not found'' @ d @ '', file=sys.stderr)'',
        ''    sys.exit(2)'',
        ''if count > 1:'',
        ''    print(f'' @ d @ ''ERROR: old_string appears {count} times, must be unique'' @ d @ '', file=sys.stderr)'',
        ''    sys.exit(3)'',
        ''s = s.replace(old, new)'',
        ''with open('' @ path @ '', '' @ q @ ''w'' @ q @ '', encoding='' @ q @ ''utf-8'' @ q @ '') as f:'',
        ''    f.write(s)'',
        ''print(f'' @ d @ ''edited {'' @ path @ ''}: {count} replacement(s)'' @ d @ '')'',
        []])"

definition EditTool :: "sandbox \<Rightarrow> nat \<Rightarrow> raw \<Rightarrow> gerr + result" where
  "EditTool sb n input =
     (case unmarshal dec_edit \<lparr>ei_Path = [], ei_OldString = [], ei_NewString = []\<rparr> input of
        (i, True) \<Rightarrow> Inr (''invalid input: '' @ sb_JsonErr sb input, True)
      | (i, False) \<Rightarrow>
          (if ei_Path i = [] \<or> ei_OldString i = [] then Inr (''path and old_string are required'', True)
           else run_args sb n [''python3'', ''-c'', edit_script i] 0 (\<lambda>res.
             if er_ExitCode res \<noteq> 0 then (failed ''edit'' res, True) else (TrimSpace (er_Stdout res), False))))"

section \<open>glob and grep\<close>

record globInput =
  gi_Pattern :: string

definition GlobTool :: "sandbox \<Rightarrow> nat \<Rightarrow> raw \<Rightarrow> gerr + result" where
  "GlobTool sb n input =
     (case unmarshal (dec_struct [fld ''pattern'' gi_Pattern gi_Pattern_update dec_str]) \<lparr>gi_Pattern = []\<rparr> input of
        (i, True) \<Rightarrow> Inr (''invalid input: '' @ sb_JsonErr sb input, True)
      | (i, False) \<Rightarrow>
          (if gi_Pattern i = [] then Inr (''pattern is required'', True)
           else run_bash sb n (''find . '' @ (if Contains (gi_Pattern i) ''/'' then ''-path '' else ''-name '')
                @ shellQuote (gi_Pattern i) @ '' -type f 2>/dev/null | head -100'')
             (\<lambda>res. if er_Stdout res = [] then (''no matches'', False) else (er_Stdout res, False))))"

record grepInput =
  pi_Pattern :: string
  pi_Path :: string
  pi_Glob :: string

definition dec_grep :: "grepInput dec" where
  "dec_grep = dec_struct [fld ''pattern'' pi_Pattern pi_Pattern_update dec_str,
     fld ''path'' pi_Path pi_Path_update dec_str, fld ''glob'' pi_Glob pi_Glob_update dec_str]"

definition grep_command :: "grepInput \<Rightarrow> string" where
  "grep_command i =
     (let path = (if pi_Path i = [] then ''.'' else pi_Path i);
          args = shellQuote (pi_Pattern i) @ '' '' @ shellQuote path @ '' | head -200'' in
      if pi_Glob i \<noteq> []
      then ''command -v rg >/dev/null && rg -n --no-heading --glob '' @ shellQuote (pi_Glob i) @ '' -- '' @ args
             @ '' || grep -rn --include='' @ shellQuote (pi_Glob i) @ '' -E -- '' @ args
      else ''command -v rg >/dev/null && rg -n --no-heading -- '' @ args @ '' || grep -rn -E -- '' @ args)"

definition GrepTool :: "sandbox \<Rightarrow> nat \<Rightarrow> raw \<Rightarrow> gerr + result" where
  "GrepTool sb n input =
     (case unmarshal dec_grep \<lparr>pi_Pattern = [], pi_Path = [], pi_Glob = []\<rparr> input of
        (i, True) \<Rightarrow> Inr (''invalid input: '' @ sb_JsonErr sb input, True)
      | (i, False) \<Rightarrow>
          (if pi_Pattern i = [] then Inr (''pattern is required'', True)
           else run_bash sb n (grep_command i)
             (\<lambda>res. if er_Stdout res = [] then (''no matches'', False) else (er_Stdout res, False))))"

section \<open>The registry\<close>

text \<open>The tools \<open>jed\<close> registers.\<close>

definition registry :: "sandbox \<Rightarrow> string \<Rightarrow> (nat \<Rightarrow> raw \<Rightarrow> gerr + result) option" where
  "registry sb = [''bash'' \<mapsto> BashTool sb, ''read'' \<mapsto> ReadTool sb, ''write'' \<mapsto> WriteTool sb,
     ''edit'' \<mapsto> EditTool sb, ''glob'' \<mapsto> GlobTool sb, ''grep'' \<mapsto> GrepTool sb]"

section \<open>How a shell reads the commands\<close>

text \<open>
  The words of a command line, each with whether it is quoted from its first
  character on: an unquoted \<open>&&\<close> is an operator, a quoted one a word. \<open>None\<close> means the
  line is incomplete. The fuel is the length of the line plus one.
\<close>

fun sh_words :: "nat \<Rightarrow> string \<Rightarrow> (bool \<times> string) list option" where
  "sh_words 0 s = None"
| "sh_words (Suc n) s =
     (case s of
        [] \<Rightarrow> Some []
      | c # t \<Rightarrow>
          (if c = CHR '' '' then sh_words n t
           else (case sh_word False s of
                   None \<Rightarrow> None
                 | Some (x, r) \<Rightarrow> map_option (\<lambda>xs. (c = apos, x) # xs) (sh_words n r))))"

definition sh_line :: "string \<Rightarrow> (bool \<times> string) list option" where
  "sh_line s = sh_words (Suc (length s)) s"

definition plain :: "string \<Rightarrow> bool" where
  "plain w \<longleftrightarrow> w \<noteq> [] \<and> (\<forall>c\<in>set w. c \<noteq> apos \<and> c \<noteq> backslash \<and> c \<noteq> CHR '' '')"

lemma sh_word_plain: "(\<forall>c\<in>set w. c \<noteq> apos \<and> c \<noteq> backslash \<and> c \<noteq> CHR '' '') \<Longrightarrow> sh_stop r \<Longrightarrow> sh_word False (w @ r) = Some (w, r)"
proof (induction w)
  case Nil
  then show ?case by (cases r) (auto simp: sh_stop_def apos_def backslash_def)
qed simp

text \<open>Reading is compositional: a plain or quoted word, then a blank, then the rest.\<close>

definition reads :: "string \<Rightarrow> (bool \<times> string) list \<Rightarrow> bool" where
  "reads s xs \<longleftrightarrow> (\<exists>n. sh_words n s = Some xs)"

lemma reads_Nil: "reads [] []"
  unfolding reads_def by (rule exI [of _ 1]) simp

lemma reads_plain_end: "plain w \<Longrightarrow> reads w [(False, w)]"
proof -
  assume p: "plain w"
  then obtain c t where w: "w = c # t" "c \<noteq> apos" "c \<noteq> CHR '' ''" by (cases w) (auto simp: plain_def)
  have "sh_word False w = Some (w, [])" using p sh_word_plain [of w "[]"] by (simp add: plain_def sh_stop_def)
  then have "sh_words 2 w = Some [(False, w)]" using w by (simp add: numeral_2_eq_2)
  then show ?thesis unfolding reads_def by blast
qed

lemma reads_plain: "plain w \<Longrightarrow> reads r xs \<Longrightarrow> reads (w @ CHR '' '' # r) ((False, w) # xs)"
proof -
  assume p: "plain w" and "reads r xs"
  then obtain n where n: "sh_words n r = Some xs" by (auto simp: reads_def)
  obtain c t where w: "w = c # t" "c \<noteq> apos" "c \<noteq> CHR '' ''" using p by (cases w) (auto simp: plain_def)
  have "sh_word False (w @ CHR '' '' # r) = Some (w, CHR '' '' # r)"
    using p sh_word_plain [of w "CHR '' '' # r"] by (simp add: plain_def sh_stop_def)
  then have "sh_words (Suc (Suc n)) (w @ CHR '' '' # r) = Some ((False, w) # xs)" using w n by simp
  then show ?thesis unfolding reads_def by blast
qed

lemma shellQuote_Cons: "shellQuote s = apos # tl (shellQuote s)"
  by (simp add: shellQuote_def)

lemma reads_quoted_end: "reads (shellQuote s) [(True, s)]"
proof -
  have "sh_word False (shellQuote s) = Some (s, [])" by (rule sh_quoting.read_quote_only)
  moreover obtain t where t: "shellQuote s = apos # t" using shellQuote_Cons by blast
  ultimately have "sh_words 2 (shellQuote s) = Some [(True, s)]" by (simp add: numeral_2_eq_2 apos_def)
  then show ?thesis unfolding reads_def by blast
qed

lemma reads_quoted: "reads r xs \<Longrightarrow> reads (shellQuote s @ CHR '' '' # r) ((True, s) # xs)"
proof -
  assume "reads r xs"
  then obtain n where n: "sh_words n r = Some xs" by (auto simp: reads_def)
  have "sh_word False (shellQuote s @ CHR '' '' # r) = Some (s, CHR '' '' # r)"
    by (rule sh_quoting.read_quote) (simp add: sh_stop_def)
  moreover obtain t where t: "shellQuote s = apos # t" using shellQuote_Cons by blast
  ultimately have "sh_words (Suc (Suc n)) (shellQuote s @ CHR '' '' # r) = Some ((True, s) # xs)"
    using n by (simp add: apos_def)
  then show ?thesis unfolding reads_def by blast
qed

lemma plain_words: "plain ''mkdir''" "plain ''-p''" "plain ''&&''" "plain ''echo''" "plain ''|''" "plain ''base64''"
  "plain ''-d''" "plain ''>''" "plain ''cat''"
  by (simp_all add: plain_def apos_def backslash_def)

section \<open>Properties\<close>

text \<open>Whatever the path and the content, a shell reads the command of the
\<open>write\<close> tool as the intended words: neither can end its quotes, add an operator or a word.\<close>

theorem write_command_words:
  "\<exists>n. sh_words n (write_command path content) =
     Some [(False, ''mkdir''), (False, ''-p''), (True, dirOf path), (False, ''&&''), (False, ''echo''),
           (True, base64 content), (False, ''|''), (False, ''base64''), (False, ''-d''), (False, ''>''), (True, path)]"
proof -
  have "reads (''mkdir'' @ CHR '' '' # ''-p'' @ CHR '' '' # shellQuote (dirOf path) @ CHR '' '' # ''&&'' @ CHR '' '' #
     ''echo'' @ CHR '' '' # shellQuote (base64 content) @ CHR '' '' # ''|'' @ CHR '' '' # ''base64'' @ CHR '' '' #
     ''-d'' @ CHR '' '' # ''>'' @ CHR '' '' # shellQuote path)
     [(False, ''mkdir''), (False, ''-p''), (True, dirOf path), (False, ''&&''), (False, ''echo''),
           (True, base64 content), (False, ''|''), (False, ''base64''), (False, ''-d''), (False, ''>''), (True, path)]"
    by (intro reads_plain reads_quoted reads_quoted_end plain_words)
  then show ?thesis by (simp add: reads_def write_command_def)
qed

end
