(* ===== verification/VaultProxy.thy ===== *)
theory VaultProxy
  imports VaultProperties StoreSession Tools
begin

text \<open>
  \<open>internal/vault/proxy.go\<close> and the injection of \<open>cmd/je-vault\<close>: which session an outgoing request
  belongs to, which token it gets, and what is stripped from it. Certificates, TLS and the
  connections are left out; the servers behind the proxy are a parameter.
\<close>

section \<open>Decoding base64\<close>

definition b64_val :: "char \<Rightarrow> nat option" where
  "b64_val ch =
     (let n = of_char ch :: nat in
      if 65 \<le> n \<and> n \<le> 90 then Some (n - 65) else if 97 \<le> n \<and> n \<le> 122 then Some (n - 71)
      else if 48 \<le> n \<and> n \<le> 57 then Some (n + 4) else if n = 43 then Some 62 else if n = 47 then Some 63 else None)"

text \<open>\<open>base64.StdEncoding.DecodeString\<close>: line breaks are skipped, padding ends the text.\<close>

fun b64_quads :: "string \<Rightarrow> string option" where
  "b64_quads [] = Some []"
| "b64_quads (a # b # c # d # s) =
     (case (b64_val a, b64_val b) of
        (Some x, Some y) \<Rightarrow>
          if d = CHR ''='' then
            (if s \<noteq> [] then None
             else if c = CHR ''='' then Some [char_of (x * 4 + y div 16)]
             else (case b64_val c of None \<Rightarrow> None
               | Some z \<Rightarrow> Some [char_of (x * 4 + y div 16), char_of (y mod 16 * 16 + z div 4)]))
          else (case (b64_val c, b64_val d, b64_quads s) of
              (Some z, Some u, Some r) \<Rightarrow> Some (char_of (x * 4 + y div 16) # char_of (y mod 16 * 16 + z div 4)
                # char_of (z mod 4 * 64 + u) # r)
            | _ \<Rightarrow> None)
      | _ \<Rightarrow> None)"
| "b64_quads s = None"

definition DecodeString :: "string \<Rightarrow> string option" where
  "DecodeString s = b64_quads (filter (\<lambda>ch. ch \<noteq> CHR 0x0A \<and> ch \<noteq> CHR 0x0D) s)"

section \<open>Requests\<close>

type_synonym header = "string \<Rightarrow> string list option"

definition header_get :: "header \<Rightarrow> string \<Rightarrow> string" where
  "header_get h k = (case h k of Some (v # _) \<Rightarrow> v | _ \<Rightarrow> [])"

record http_req =
  hq_Scheme :: string
  hq_Host :: string
  hq_Header :: header
  hq_Body :: string
  hq_Close :: bool

record http_resp =
  hs_Status :: int
  hs_Header :: header
  hs_Body :: string
  hs_Close :: bool

definition sessionHeader :: string where
  "sessionHeader = ''X-Je-Session''"

definition strippedHeaders :: "string list" where
  "strippedHeaders = [''Authorization'', ''X-Api-Key'', ''Private-Token'']"

text \<open>The user name of basic proxy authentication.\<close>

definition sessionFromProxyAuth :: "string \<Rightarrow> string" where
  "sessionFromProxyAuth h =
     (if \<not> HasPrefix h ''Basic '' then []
      else (case DecodeString (TrimPrefix h ''Basic '') of None \<Rightarrow> []
        | Some creds \<Rightarrow> takeWhile (\<lambda>ch. ch \<noteq> CHR '':'') creds))"

text \<open>\<open>net.SplitHostPort\<close>, of which only the host is used.\<close>

definition cut_last :: "char \<Rightarrow> string \<Rightarrow> (string \<times> string) option" where
  "cut_last ch s = (case dropWhile (\<lambda>x. x \<noteq> ch) (rev s) of [] \<Rightarrow> None
     | _ # r \<Rightarrow> Some (rev r, rev (takeWhile (\<lambda>x. x \<noteq> ch) (rev s))))"

definition split_host :: "string \<Rightarrow> string option" where
  "split_host s =
     (case cut_last CHR '':'' s of None \<Rightarrow> None
      | Some (pre, port) \<Rightarrow>
          if hd s = CHR ''['' then
            (if CHR '']'' \<notin> set s then None
             else let host = takeWhile (\<lambda>x. x \<noteq> CHR '']'') (tl s); stop = length host + 1 in
               if stop + 1 \<noteq> length pre \<or> CHR ''['' \<in> set (tl s) \<or> CHR '']'' \<in> set (drop (stop + 1) s) then None
               else Some host)
          else if CHR '':'' \<in> set pre \<or> CHR ''['' \<in> set s \<or> CHR '']'' \<in> set s then None
          else Some pre)"

definition hostnameOnly :: "string \<Rightarrow> string" where
  "hostnameOnly hostport = (case split_host hostport of Some h \<Rightarrow> h | None \<Rightarrow> hostport)"

section \<open>The injected token\<close>

text \<open>A call whose error is looked at, not passed on.\<close>

definition attempt :: "('w, 'a) io \<Rightarrow> ('w, gerr + 'a) io" where
  "attempt m w = (Inr (fst (m w)), snd (m w))"

definition vault_ids_of :: "SessionRow \<Rightarrow> string list option" where
  "vault_ids_of s = (case unmarshal (dec_list [] dec_str) [] (ss_VaultIDs s) of (ids, False) \<Rightarrow> Some ids | (_, True) \<Rightarrow> None)"

text \<open>\<open>inject\<close>: session, its vaults, the credential for the host; anything missing means no token.\<close>

definition inject :: "env \<Rightarrow> ctx \<Rightarrow> vault_lib \<Rightarrow> cipherBox \<Rightarrow> string \<Rightarrow> string \<Rightarrow> (world, string option) io" where
  "inject e c L box sid host =
     (if sid = [] then returnE None
      else bindE (attempt (GetSession e c sid)) (\<lambda>r. case r of Inl _ \<Rightarrow> returnE None
        | Inr sess \<Rightarrow> (case vault_ids_of sess of None \<Rightarrow> returnE None
          | Some ids \<Rightarrow> if ids = [] then returnE None
              else bindE (attempt (Resolve e c L box (ss_TenantID sess) ids host)) (\<lambda>rc. case rc of
                Inr (Some x) \<Rightarrow> returnE (Some (rc_Token x)) | _ \<Rightarrow> returnE None))))"

text \<open>\<open>applyInjection\<close>, with the function that finds the token.\<close>

definition set_token :: "string \<Rightarrow> header \<Rightarrow> header" where
  "set_token token h = (fold (\<lambda>k h. h(k := None)) strippedHeaders h)(''Authorization'' := Some [''Bearer '' @ token])"

definition named_session :: "header \<Rightarrow> string \<Rightarrow> string" where
  "named_session h sid = (if sid = [] then header_get h sessionHeader else sid)"

definition applyInjection ::
  "(string \<Rightarrow> string \<Rightarrow> (world, string option) io) \<Rightarrow> http_req \<Rightarrow> string \<Rightarrow> string \<Rightarrow> (world, http_req) io" where
  "applyInjection ij req host sid =
     (let h = (hq_Header req)(sessionHeader := None) in
      bindE (ij (named_session (hq_Header req) sid) host) (\<lambda>r.
        returnE (req\<lparr>hq_Header := (case r of None \<Rightarrow> h | Some token \<Rightarrow> set_token token h)\<rparr>)))"

section \<open>The proxy\<close>

text \<open>A round trip to the server, at a tick.\<close>

type_synonym upstream = "nat \<Rightarrow> http_req \<Rightarrow> gerr + http_resp"

definition http_error :: "int \<Rightarrow> string \<Rightarrow> http_resp" where
  "http_error status m = \<lparr>hs_Status = status, hs_Header = Map.empty(''Content-Type'' \<mapsto> [''text/plain; charset=utf-8''],
     ''X-Content-Type-Options'' \<mapsto> [''nosniff'']), hs_Body = m @ [CHR 0x0A], hs_Close = False\<rparr>"

definition raw_error :: "gerr \<Rightarrow> http_resp" where
  "raw_error err = \<lparr>hs_Status = 502, hs_Header = Map.empty(''Content-Type'' \<mapsto> [''text/plain'']),
     hs_Body = ''vault proxy upstream error: '' @ err_str err, hs_Close = False\<rparr>"

definition handlePlain ::
  "(string \<Rightarrow> string \<Rightarrow> (world, string option) io) \<Rightarrow> upstream \<Rightarrow> http_req \<Rightarrow> (world, http_resp) io" where
  "handlePlain ij up r =
     (if hq_Host r = [] then returnE (http_error 400 ''non-proxy request'')
      else bindE (applyInjection ij (r\<lparr>hq_Header := (hq_Header r)(''Proxy-Authorization'' := None)\<rparr>) (hostnameOnly (hq_Host r))
              (sessionFromProxyAuth (header_get (hq_Header r) ''Proxy-Authorization''))) (\<lambda>sent.
           bindE (askE (\<lambda>n. up n sent)) (\<lambda>resp. case resp of
             Inl err \<Rightarrow> returnE (http_error 502 (''upstream error: '' @ err_str err))
           | Inr a \<Rightarrow> returnE a)))"

text \<open>One request of a tunnel: what is written to the client, and whether the tunnel stays open.\<close>

definition proxyOne ::
  "(string \<Rightarrow> string \<Rightarrow> (world, string option) io) \<Rightarrow> upstream \<Rightarrow> (nat \<Rightarrow> bool) \<Rightarrow> http_req \<Rightarrow> string \<Rightarrow> string \<Rightarrow> (world, http_resp \<times> bool) io" where
  "proxyOne ij up writes req host sid =
     bindE (applyInjection ij req host sid) (\<lambda>sent.
     bindE (askE (\<lambda>n. up n sent)) (\<lambda>resp. case resp of
       Inl err \<Rightarrow> returnE (raw_error err, False)
     | Inr a \<Rightarrow> bindE (askE writes) (\<lambda>ok. returnE (a, ok \<and> \<not> hq_Close req \<and> \<not> hs_Close a))))"

text \<open>
  A tunnel: \<open>connect\<close> is the host and the headers of the CONNECT request, the list the requests the
  client sends in it before it closes.
\<close>

fun tunnel ::
  "(string \<Rightarrow> string \<Rightarrow> (world, string option) io) \<Rightarrow> upstream \<Rightarrow> (nat \<Rightarrow> bool) \<Rightarrow> string \<Rightarrow> string \<Rightarrow> http_req list \<Rightarrow> (world, http_resp list) io" where
  "tunnel ij up writes target sid [] = returnE []"
| "tunnel ij up writes target sid (req # reqs) =
     bindE (proxyOne ij up writes (req\<lparr>hq_Scheme := ''https'', hq_Host := target\<rparr>) (hostnameOnly target) sid) (\<lambda>(a, alive).
       if \<not> alive then returnE [a]
       else bindE (tunnel ij up writes target sid reqs) (\<lambda>rest. returnE (a # rest)))"

section \<open>Sessions named by the proxy's user\<close>

lemma b64_char_code:
  "n < 64 \<Longrightarrow> (of_char (b64_char n) :: nat)
     = (if n < 26 then 65 + n else if n < 52 then 71 + n else if n < 62 then n - 4 else if n = 62 then 43 else 47)"
  by (simp add: b64_char_def)

lemma b64_val_char: "n < 64 \<Longrightarrow> b64_val (b64_char n) = Some n"
  unfolding b64_val_def by (simp only: b64_char_code Let_def) (simp, presburger)

lemma b64_char_plain:
  assumes "n < 64"
  shows "b64_char n \<noteq> CHR ''='' \<and> b64_char n \<noteq> CHR 0x0A \<and> b64_char n \<noteq> CHR 0x0D"
proof -
  have "(of_char (b64_char n) :: nat) \<notin> {61, 10, 13}" using assms by (simp add: b64_char_code) presburger
  then show ?thesis by auto
qed

lemma pack_div: "b < k \<Longrightarrow> (a * k + b) div k = a" and pack_mod: "b < k \<Longrightarrow> (a * k + b) mod k = b" for a b k :: nat
  by simp_all

lemma byte_ranges:
  fixes x y z :: nat
  assumes "x < 256" "y < 256" "z < 256"
  shows "x div 4 < 64" "x mod 4 * 16 + y div 16 < 64" "y mod 16 * 4 + z div 64 < 64" "z mod 64 < 64"
    "x mod 4 * 16 < 64" "y mod 16 * 4 < 64" "y div 16 < 16" "z div 64 < 4"
proof -
  have "x mod 4 < 4" "y mod 16 < 16" by simp_all
  moreover show "x div 4 < 64" "z mod 64 < 64" using assms by simp_all
  moreover show d: "y div 16 < 16" "z div 64 < 4" using assms by simp_all
  ultimately show "x mod 4 * 16 + y div 16 < 64" "y mod 16 * 4 + z div 64 < 64" "x mod 4 * 16 < 64" "y mod 16 * 4 < 64"
    by linarith+
qed

lemma quad3:
  fixes x y z :: nat
  assumes r: "x < 256" "y < 256" "z < 256"
  shows "b64_quads (b64_char (x div 4) # b64_char (x mod 4 * 16 + y div 16) # b64_char (y mod 16 * 4 + z div 64) # b64_char (z mod 64) # s)
    = map_option (\<lambda>t. char_of x # char_of y # char_of z # t) (b64_quads s)"
proof -
  note R = byte_ranges [OF r]
  have "b64_char (z mod 64) \<noteq> CHR ''=''" using b64_char_plain [OF R(4)] by simp
  then show ?thesis
    by (simp only: b64_quads.simps b64_val_char [OF R(1)] b64_val_char [OF R(2)] b64_val_char [OF R(3)] b64_val_char [OF R(4)]
        prod.case option.case pack_div [OF R(7)] pack_mod [OF R(7)] pack_div [OF R(8)] pack_mod [OF R(8)] div_mult_mod_eq if_False)
      (simp split: option.split)
qed

lemma quad2:
  fixes x y :: nat
  assumes r: "x < 256" "y < 256"
  shows "b64_quads [b64_char (x div 4), b64_char (x mod 4 * 16 + y div 16), b64_char (y mod 16 * 4), CHR ''=''] = Some [char_of x, char_of y]"
proof -
  note R = byte_ranges [OF r, of 0, simplified]
  have "b64_char (y mod 16 * 4) \<noteq> CHR ''=''" using b64_char_plain [OF byte_ranges(6) [OF r, of 0]] by simp
  then show ?thesis
    using pack_div [OF byte_ranges(7) [OF r, of 0], of "x mod 4"] pack_mod [OF byte_ranges(7) [OF r, of 0], of "x mod 4"]
    by (simp add: b64_val_char [OF byte_ranges(1) [OF r, of 0]] b64_val_char [OF byte_ranges(2) [OF r, of 0]]
        b64_val_char [OF byte_ranges(6) [OF r, of 0]])
qed

lemma quad1:
  fixes x :: nat
  assumes "x < 256"
  shows "b64_quads [b64_char (x div 4), b64_char (x mod 4 * 16), CHR ''='', CHR ''=''] = Some [char_of x]"
proof -
  have "x div 4 < 64" "x mod 4 * 16 < 64" using byte_ranges [OF assms, of 0 0] by simp_all
  then show ?thesis by (simp add: b64_val_char)
qed

lemma char_below: "(of_char c :: nat) < 256"
  by simp

lemma b64_quads_base64: "b64_quads (base64 s) = Some s"
proof (induction s rule: base64.induct)
  case (2 a)
  then show ?case by (simp only: base64.simps Let_def quad1 [OF char_below] char_of_char)
next
  case (3 a b)
  then show ?case by (simp only: base64.simps Let_def quad2 [OF char_below char_below] char_of_char)
next
  case (4 a b c s)
  then show ?case
    by (simp only: base64.simps Let_def append.simps quad3 [OF char_below char_below char_below] option.map char_of_char)
qed simp

lemma base64_plain: "filter (\<lambda>ch. ch \<noteq> CHR 0x0A \<and> ch \<noteq> CHR 0x0D) (base64 s) = base64 s"
proof (induction s rule: base64.induct)
  case (2 a)
  note R = byte_ranges [OF char_below [of a] char_below [of a] char_below [of a]]
  show ?case using b64_char_plain [OF R(1)] b64_char_plain [OF R(5)] by (simp add: Let_def)
next
  case (3 a b)
  note R = byte_ranges [OF char_below [of a] char_below [of b] char_below [of b]]
  show ?case using b64_char_plain [OF R(1)] b64_char_plain [OF R(2)] b64_char_plain [OF R(6)] by (simp add: Let_def)
next
  case (4 a b c s)
  note R = byte_ranges [OF char_below [of a] char_below [of b] char_below [of c]]
  show ?case using b64_char_plain [OF R(1)] b64_char_plain [OF R(2)] b64_char_plain [OF R(3)] b64_char_plain [OF R(4)] 4
    by (simp add: Let_def)
qed simp

lemma takeWhile_user: "CHR '':'' \<notin> set s \<Longrightarrow> takeWhile (\<lambda>ch. ch \<noteq> CHR '':'') (s @ CHR '':'' # r) = s"
  by (induction s) auto

text \<open>A sandbox that names its session as the user of the proxy is recognised as that
session, whatever the password, as long as the name has no colon.\<close>

theorem proxy_user_is_session:
  "CHR '':'' \<notin> set sid \<Longrightarrow> sessionFromProxyAuth (''Basic '' @ base64 (sid @ CHR '':'' # password)) = sid"
proof -
  assume c: "CHR '':'' \<notin> set sid"
  have "DecodeString (base64 x) = Some x" for x by (simp only: DecodeString_def base64_plain b64_quads_base64)
  then show ?thesis using takeWhile_user [OF c] by (simp only: sessionFromProxyAuth_def HasPrefix_append TrimPrefix_append) simp
qed

lemma proxy_user_is_session_witness: "sessionFromProxyAuth (''Basic '' @ base64 ''sess-7:x'') = ''sess-7''"
  using proxy_user_is_session [of "''sess-7''" "''x''"] by simp

section \<open>What a request carries\<close>

text \<open>A request for which a token was found leaves with that token alone: the sandbox's
own credentials and the name of its session are gone, every other header is as it was. Without a
token only the name of the session is removed.\<close>

theorem proxy_replaces_credentials:
  assumes "applyInjection ij req host sid w = (Inr sent, w')" "ij (named_session (hq_Header req) sid) host w = (Inr r, w')"
  shows "hq_Header sent k =
    (if k = ''X-Je-Session'' then None
     else (case r of None \<Rightarrow> hq_Header req k
       | Some token \<Rightarrow> if k = ''Authorization'' then Some [''Bearer '' @ token]
           else if k = ''X-Api-Key'' \<or> k = ''Private-Token'' then None else hq_Header req k))"
proof -
  have "hq_Header sent = (case r of None \<Rightarrow> (hq_Header req)(sessionHeader := None)
      | Some token \<Rightarrow> set_token token ((hq_Header req)(sessionHeader := None)))"
    using assms by (auto simp: applyInjection_def Let_def bindE_def returnE_def)
  then show ?thesis by (cases r) (simp_all add: set_token_def strippedHeaders_def sessionHeader_def)
qed

definition own_token :: "string \<Rightarrow> string \<Rightarrow> (world, string option) io" where
  "own_token sid host = returnE (if sid = ''sess-1'' then Some ''tk'' else None)"

definition client_req :: http_req where
  "client_req = \<lparr>hq_Scheme = ''https'', hq_Host = ''mcp.io'', hq_Header = Map.empty(''Authorization'' \<mapsto> [''dummy''],
     ''X-Je-Session'' \<mapsto> [''sess-1''], ''Accept'' \<mapsto> [''*'']), hq_Body = [], hq_Close = False\<rparr>"

lemma proxy_replaces_credentials_witness:
  "\<exists>sent :: http_req. hq_Header sent ''Authorization'' = Some [''Bearer tk''] \<and> hq_Header sent ''Accept'' = Some [''*'']
     \<and> hq_Header sent ''X-Je-Session'' = None"
proof -
  obtain sent where a: "applyInjection own_token client_req ''mcp.io'' [] empty_world = (Inr sent, empty_world)"
    by (auto simp: applyInjection_def own_token_def bindE_def returnE_def Let_def)
  have o: "own_token (named_session (hq_Header client_req) []) ''mcp.io'' empty_world = (Inr (Some ''tk''), empty_world)"
    by (simp add: own_token_def named_session_def client_req_def header_get_def sessionHeader_def returnE_def)
  show ?thesis
    using proxy_replaces_credentials [OF a o, of "''Authorization''"] proxy_replaces_credentials [OF a o, of "''Accept''"]
      proxy_replaces_credentials [OF a o, of "''X-Je-Session''"]
    by (auto simp: client_req_def intro!: exI [of _ sent])
qed

lemma attempt_value: "attempt m w = (Inr r, w') \<longleftrightarrow> m w = (r, w')"
  by (cases "m w") (auto simp: attempt_def)


definition proxied_session :: SessionRow where
  "proxied_session = \<lparr>ss_ID = ''sess-1'', ss_TenantID = ''acme'', ss_AgentID = ''agent-1'', ss_AgentVersion = 1,
     ss_AgentSnapshot = Some (JObj []), ss_EnvironmentID = ''default'', ss_Status = ''running'', ss_Title = None,
     ss_Metadata = Some (JObj []), ss_VaultIDs = Some (JArr [JStr ''vlt-1'']), ss_CreatedAt = 0, ss_UpdatedAt = 0,
     ss_ArchivedAt = None, ss_TerminatedAt = None, ss_NextSeq = 1, ss_UsageInput = 0, ss_UsageOutput = 0,
     ss_UsageCacheCreate = 0, ss_UsageCacheRead = 0\<rparr>"

definition proxied_world :: world where
  "proxied_world = (snd (demo_add vault_world))\<lparr>sessions := [proxied_session]\<rparr>"


end
