(* ===== verification/StoreWebhook.thy ===== *)
theory StoreWebhook
  imports KeptRelations
begin

text \<open>
  \<open>internal/store/webhook.go\<close>: webhook endpoints, and the queue of deliveries to them.
\<close>

section \<open>Endpoints\<close>

record CreateWebhookEndpointInput =
  wi_TenantID :: string
  wi_URL :: string
  wi_EventTypes :: "string list"
  wi_SigningSecret :: string

definition endpoint_by :: "string \<Rightarrow> world \<Rightarrow> WebhookEndpointRow option" where
  "endpoint_by eid w = select_one (\<lambda>r. we_ID r = eid) (endpoints w)"

definition GetWebhookEndpoint :: "env \<Rightarrow> ctx \<Rightarrow> string \<Rightarrow> (world, WebhookEndpointRow) io" where
  "GetWebhookEndpoint e c eid = bindE (queryE e c (endpoint_by eid)) (optE ErrNotFound)"

definition CreateWebhookEndpoint :: "env \<Rightarrow> ctx \<Rightarrow> CreateWebhookEndpointInput \<Rightarrow> (world, WebhookEndpointRow) io" where
  "CreateWebhookEndpoint e c i =
     bindE (NewID e ''whk'') (\<lambda>eid. bindE (now e) (\<lambda>t.
       let r = \<lparr>we_ID = eid, we_TenantID = or_default_tenant (wi_TenantID i), we_URL = wi_URL i,
             we_EventTypes = Some (JArr (map JStr (wi_EventTypes i))), we_SigningSecret = wi_SigningSecret i,
             we_DisabledAt = None, we_DisabledReason = None, we_Failures = 0, we_CreatedAt = t, we_UpdatedAt = t\<rparr>
       in bindE (insertE e c (\<lambda>w. endpoint_by eid w = None) (\<lambda>w. w\<lparr>endpoints := endpoints w @ [r]\<rparr>))
            (\<lambda>_. GetWebhookEndpoint e c eid)))"

text \<open>No subscription is a subscription to everything.\<close>

definition subscriptions :: "WebhookEndpointRow \<Rightarrow> string list" where
  "subscriptions r = fst (unmarshal (dec_list [] dec_str) [] (we_EventTypes r))"

definition subscribed :: "string \<Rightarrow> WebhookEndpointRow \<Rightarrow> bool" where
  "subscribed ty r \<longleftrightarrow> subscriptions r = [] \<or> ty \<in> set (subscriptions r)"

definition ListWebhookEndpointsByEventType ::
  "env \<Rightarrow> ctx \<Rightarrow> string \<Rightarrow> string \<Rightarrow> (world, WebhookEndpointRow list) io" where
  "ListWebhookEndpointsByEventType e c tenant ty =
     bindE (queryE e c (\<lambda>w. map we_ID (select (\<lambda>r. we_TenantID r = tenant \<and> we_DisabledAt r = None) (endpoints w))))
       (\<lambda>ids. bindE (mapE (GetWebhookEndpoint e c) ids) (\<lambda>eps. returnE (filter (subscribed ty) eps)))"

definition ListWebhookEndpoints :: "env \<Rightarrow> ctx \<Rightarrow> string \<Rightarrow> (world, WebhookEndpointRow list) io" where
  "ListWebhookEndpoints e c tenant =
     bindE (queryE e c (\<lambda>w. map we_ID (sort_key (\<lambda>r. - we_CreatedAt r) (select (\<lambda>r. we_TenantID r = tenant) (endpoints w)))))
       (mapE (GetWebhookEndpoint e c))"

text \<open>Deleting an endpoint cascades to its deliveries.\<close>

definition DeleteWebhookEndpoint :: "env \<Rightarrow> ctx \<Rightarrow> string \<Rightarrow> (world, unit) io" where
  "DeleteWebhookEndpoint e c eid =
     bindE (updateE e c (\<lambda>w. affected (\<lambda>r. we_ID r = eid) (endpoints w))
       (\<lambda>w. w\<lparr>endpoints := delete_where (\<lambda>r. we_ID r = eid) (endpoints w),
               deliveries := delete_where (\<lambda>d. wd_EndpointID d = eid \<and> endpoint_by eid w \<noteq> None) (deliveries w)\<rparr>))
       (\<lambda>_. returnE ())"

definition on_endpoint :: "string \<Rightarrow> (WebhookEndpointRow \<Rightarrow> WebhookEndpointRow) \<Rightarrow> world \<Rightarrow> world" where
  "on_endpoint eid f w = w\<lparr>endpoints := update_where (\<lambda>r. we_ID r = eid) f (endpoints w)\<rparr>"

text \<open>The last error is an argument that the statement does not use.\<close>

definition IncrementWebhookFailures :: "env \<Rightarrow> ctx \<Rightarrow> string \<Rightarrow> string \<Rightarrow> (world, unit) io" where
  "IncrementWebhookFailures e c eid lastErr =
     bindE (updateE e c (\<lambda>w. affected (\<lambda>r. we_ID r = eid) (endpoints w))
       (on_endpoint eid (\<lambda>r. r\<lparr>we_Failures := we_Failures r + 1\<rparr>))) (\<lambda>_. returnE ())"

definition ResetWebhookFailures :: "env \<Rightarrow> ctx \<Rightarrow> string \<Rightarrow> (world, unit) io" where
  "ResetWebhookFailures e c eid =
     bindE (updateE e c (\<lambda>w. affected (\<lambda>r. we_ID r = eid) (endpoints w))
       (on_endpoint eid (\<lambda>r. r\<lparr>we_Failures := 0\<rparr>))) (\<lambda>_. returnE ())"

definition DisableWebhookEndpoint :: "env \<Rightarrow> ctx \<Rightarrow> string \<Rightarrow> string \<Rightarrow> (world, unit) io" where
  "DisableWebhookEndpoint e c eid reason =
     bindE (now e) (\<lambda>t. bindE (updateE e c (\<lambda>w. affected (\<lambda>r. we_ID r = eid) (endpoints w))
       (on_endpoint eid (\<lambda>r. r\<lparr>we_DisabledAt := Some t, we_DisabledReason := Some reason\<rparr>))) (\<lambda>_. returnE ()))"

section \<open>Deliveries\<close>

record EnqueueDeliveryInput =
  qi_EndpointID :: string
  qi_EventID :: string
  qi_EventType :: string
  qi_Payload :: raw

definition delivery_by :: "string \<Rightarrow> world \<Rightarrow> WebhookDeliveryRow option" where
  "delivery_by did w = select_one (\<lambda>d. wd_ID d = did) (deliveries w)"

definition delivery_row :: "string \<Rightarrow> int \<Rightarrow> EnqueueDeliveryInput \<Rightarrow> WebhookDeliveryRow" where
  "delivery_row did t i = \<lparr>wd_ID = did, wd_EndpointID = qi_EndpointID i, wd_EventID = qi_EventID i,
     wd_EventType = qi_EventType i, wd_Payload = qi_Payload i, wd_Attempt = 0, wd_NextAttemptAt = Some t,
     wd_DeliveredAt = None, wd_LastStatus = None, wd_LastError = None, wd_CreatedAt = t\<rparr>"

definition delivery_insert_ok :: "WebhookDeliveryRow \<Rightarrow> world \<Rightarrow> bool" where
  "delivery_insert_ok d w \<longleftrightarrow> delivery_by (wd_ID d) w = None \<and> endpoint_by (wd_EndpointID d) w \<noteq> None \<and> wd_Payload d \<noteq> None"

definition EnqueueWebhookDelivery :: "env \<Rightarrow> ctx \<Rightarrow> EnqueueDeliveryInput \<Rightarrow> (world, WebhookDeliveryRow) io" where
  "EnqueueWebhookDelivery e c i =
     bindE (NewID e ''whd'') (\<lambda>did. bindE (now e) (\<lambda>t.
       let d = delivery_row did t i
       in bindE (insertE e c (delivery_insert_ok d) (\<lambda>w. w\<lparr>deliveries := deliveries w @ [d]\<rparr>)) (\<lambda>_. returnE d)))"

definition pending_at :: "int \<Rightarrow> WebhookDeliveryRow \<Rightarrow> bool" where
  "pending_at t d \<longleftrightarrow> wd_DeliveredAt d = None \<and> (case wd_NextAttemptAt d of None \<Rightarrow> False | Some k \<Rightarrow> k \<le> t)"

text \<open>The row as it is scanned: the columns that are not selected are at their zero value.\<close>

definition claimed :: "WebhookDeliveryRow \<Rightarrow> WebhookDeliveryRow" where
  "claimed d = d\<lparr>wd_DeliveredAt := None, wd_LastStatus := None, wd_LastError := None\<rparr>"

definition ClaimPendingDeliveries :: "env \<Rightarrow> ctx \<Rightarrow> int \<Rightarrow> (world, WebhookDeliveryRow list) io" where
  "ClaimPendingDeliveries e c limit =
     bindE (now e) (\<lambda>t. queryE e c (\<lambda>w. map claimed (take (nat (if limit \<le> 0 then 16 else limit))
       (sort_key (\<lambda>d. the (wd_NextAttemptAt d)) (select (pending_at t) (deliveries w))))))"

definition on_delivery :: "string \<Rightarrow> (WebhookDeliveryRow \<Rightarrow> WebhookDeliveryRow) \<Rightarrow> world \<Rightarrow> world" where
  "on_delivery did f w = w\<lparr>deliveries := update_where (\<lambda>d. wd_ID d = did) f (deliveries w)\<rparr>"

definition delivered :: "int \<Rightarrow> int \<Rightarrow> WebhookDeliveryRow \<Rightarrow> WebhookDeliveryRow" where
  "delivered t status d = d\<lparr>wd_DeliveredAt := Some t, wd_LastStatus := Some status\<rparr>"

definition MarkDeliveryDelivered :: "env \<Rightarrow> ctx \<Rightarrow> string \<Rightarrow> int \<Rightarrow> (world, unit) io" where
  "MarkDeliveryDelivered e c did status =
     bindE (now e) (\<lambda>t. bindE (updateE e c (\<lambda>w. affected (\<lambda>d. wd_ID d = did) (deliveries w))
       (on_delivery did (delivered t status))) (\<lambda>_. returnE ()))"

definition failed_attempt :: "int \<Rightarrow> string \<Rightarrow> int \<Rightarrow> WebhookDeliveryRow \<Rightarrow> WebhookDeliveryRow" where
  "failed_attempt status m t d = d\<lparr>wd_Attempt := wd_Attempt d + 1, wd_LastStatus := Some status, wd_LastError := Some m,
     wd_NextAttemptAt := Some t\<rparr>"

definition MarkDeliveryFailed :: "env \<Rightarrow> ctx \<Rightarrow> string \<Rightarrow> int \<Rightarrow> string \<Rightarrow> int \<Rightarrow> (world, unit) io" where
  "MarkDeliveryFailed e c did status errMsg nextAt =
     bindE (updateE e c (\<lambda>w. affected (\<lambda>d. wd_ID d = did) (deliveries w))
       (on_delivery did (failed_attempt status errMsg nextAt))) (\<lambda>_. returnE ())"

end
