(* ===== verification/Ssrf.thy ===== *)
theory Ssrf
  imports Prelude "HOL-Library.Word"
begin

text \<open>
  \<open>internal/webhook/ssrf.go\<close>: which addresses a webhook may not reach. The tests of \<open>net.IP\<close> are
  those of the Go library on the bytes of the address; they are compared with the
  address ranges they stand for.
\<close>

unbundle bit_operations_syntax

section \<open>Addresses\<close>

type_synonym ip = "8 word list"

definition To4 :: "ip \<Rightarrow> ip option" where
  "To4 ip =
     (if length ip = 4 then Some ip
      else if length ip = 16 \<and> take 10 ip = replicate 10 0 \<and> ip ! 10 = 0xFF \<and> ip ! 11 = 0xFF then Some (drop 12 ip)
      else None)"

text \<open>\<open>ip.Equal\<close>: an IPv4 address and its IPv6 form are equal.\<close>

definition ip_equal :: "ip \<Rightarrow> ip \<Rightarrow> bool" where
  "ip_equal a b \<longleftrightarrow> a = b
     \<or> (length a = 4 \<and> length b = 16 \<and> To4 b = Some a) \<or> (length a = 16 \<and> length b = 4 \<and> To4 a = Some b)"

definition IPv6loopback :: ip where
  "IPv6loopback = replicate 15 0 @ [1]"

definition IPv4zero :: ip where
  "IPv4zero = replicate 10 0 @ [0xFF, 0xFF, 0, 0, 0, 0]"

definition IPv6zero :: ip where
  "IPv6zero = replicate 16 0"

definition IsLoopback :: "ip \<Rightarrow> bool" where
  "IsLoopback ip = (case To4 ip of Some a \<Rightarrow> a ! 0 = 127 | None \<Rightarrow> ip_equal ip IPv6loopback)"

definition IsPrivate :: "ip \<Rightarrow> bool" where
  "IsPrivate ip =
     (case To4 ip of
        Some a \<Rightarrow> a ! 0 = 10 \<or> (a ! 0 = 172 \<and> (a ! 1) AND 0xF0 = 16) \<or> (a ! 0 = 192 \<and> a ! 1 = 168)
      | None \<Rightarrow> length ip = 16 \<and> (ip ! 0) AND 0xFE = 0xFC)"

definition IsLinkLocalUnicast :: "ip \<Rightarrow> bool" where
  "IsLinkLocalUnicast ip =
     (case To4 ip of
        Some a \<Rightarrow> a ! 0 = 169 \<and> a ! 1 = 254
      | None \<Rightarrow> length ip = 16 \<and> ip ! 0 = 0xFE \<and> (ip ! 1) AND 0xC0 = 0x80)"

definition IsLinkLocalMulticast :: "ip \<Rightarrow> bool" where
  "IsLinkLocalMulticast ip =
     (case To4 ip of
        Some a \<Rightarrow> a ! 0 = 224 \<and> a ! 1 = 0 \<and> a ! 2 = 0
      | None \<Rightarrow> length ip = 16 \<and> ip ! 0 = 0xFF \<and> (ip ! 1) AND 0x0F = 0x02)"

definition IsMulticast :: "ip \<Rightarrow> bool" where
  "IsMulticast ip =
     (case To4 ip of Some a \<Rightarrow> (a ! 0) AND 0xF0 = 0xE0 | None \<Rightarrow> length ip = 16 \<and> ip ! 0 = 0xFF)"

definition IsUnspecified :: "ip \<Rightarrow> bool" where
  "IsUnspecified ip \<longleftrightarrow> ip_equal ip IPv4zero \<or> ip_equal ip IPv6zero"

definition metadata_ip :: ip where
  "metadata_ip = replicate 10 0 @ [0xFF, 0xFF, 169, 254, 169, 254]"

definition isBlockedIP :: "ip \<Rightarrow> bool" where
  "isBlockedIP ip =
     (if IsLoopback ip \<or> IsPrivate ip \<or> IsLinkLocalUnicast ip \<or> IsLinkLocalMulticast ip \<or> IsMulticast ip
         \<or> IsUnspecified ip then True
      else if ip_equal ip metadata_ip then True
      else False)"

section \<open>Checking a target\<close>

text \<open>
  \<open>url.Parse\<close> yields the scheme and the host name, \<open>net.LookupIP\<close> the addresses of a host;
  both are parameters, the second at the tick at which it is asked.
\<close>

record url_lib =
  ul_Parse :: "string \<Rightarrow> gerr + string \<times> string"
  ul_Lookup :: "nat \<Rightarrow> string \<Rightarrow> gerr + ip list"
  ul_Quote :: "string \<Rightarrow> string"
  ul_Show :: "ip \<Rightarrow> string"

definition blocked_error :: "url_lib \<Rightarrow> ip \<Rightarrow> gerr" where
  "blocked_error U ip = ErrMsg (''url resolves to a disallowed address ('' @ ul_Show U ip
     @ ''); set JE_WEBHOOK_ALLOW_PRIVATE=1 to permit internal targets'')"

text \<open>The error, if any, of a check whose lookup happens at tick \<open>n\<close>.\<close>

definition validateWebhookURL :: "url_lib \<Rightarrow> nat \<Rightarrow> string \<Rightarrow> bool \<Rightarrow> gerr option" where
  "validateWebhookURL U n url allowPrivate =
     (case ul_Parse U url of Inl err \<Rightarrow> Some (Wrap ''invalid url'' err)
      | Inr (scheme, host) \<Rightarrow>
          if scheme \<noteq> ''http'' \<and> scheme \<noteq> ''https'' then Some (ErrMsg ''url must be http or https'')
          else if host = [] then Some (ErrMsg ''url has no host'')
          else if allowPrivate then None
          else (case ul_Lookup U n host of
              Inl err \<Rightarrow> Some (Wrap (''cannot resolve host '' @ ul_Quote U host) err)
            | Inr ips \<Rightarrow> map_option (blocked_error U) (find isBlockedIP ips)))"

section \<open>The ranges\<close>

text \<open>An IPv4 address as a number, and the addresses that share the first \<open>len\<close> bits with a network.\<close>

definition number :: "8 word \<Rightarrow> 8 word \<Rightarrow> 8 word \<Rightarrow> 8 word \<Rightarrow> nat" where
  "number a b c d = unat a * 2 ^ 24 + unat b * 2 ^ 16 + unat c * 2 ^ 8 + unat d"

definition in_range :: "nat \<Rightarrow> nat \<Rightarrow> nat \<Rightarrow> bool" where
  "in_range len net n \<longleftrightarrow> n div 2 ^ (32 - len) = net div 2 ^ (32 - len)"

definition internal :: "nat \<Rightarrow> bool" where
  "internal n \<longleftrightarrow> in_range 8 (127 * 2 ^ 24) n \<or> in_range 8 (10 * 2 ^ 24) n \<or> in_range 12 (172 * 2 ^ 24 + 16 * 2 ^ 16) n
     \<or> in_range 16 (192 * 2 ^ 24 + 168 * 2 ^ 16) n \<or> in_range 16 (169 * 2 ^ 24 + 254 * 2 ^ 16) n
     \<or> in_range 4 (224 * 2 ^ 24) n \<or> n = 0"

lemma high_bits: "k + m = 8 \<Longrightarrow> (b :: 8 word) AND push_bit k (mask m) = push_bit k (drop_bit k b)"
  by (rule bit_word_eqI) (auto simp: bit_simps)

lemma high_nibble: "unat ((b :: 8 word) AND 0xF0) = unat b div 16 * 16"
proof -
  have f0: "(0xF0 :: 8 word) = push_bit 4 (mask 4)" by (simp add: mask_eq_exp_minus_1 push_bit_eq_mult)
  have "(b :: 8 word) AND 0xF0 = push_bit 4 (drop_bit 4 b)"
    unfolding f0 by (rule high_bits) simp
  then have "unat ((b :: 8 word) AND 0xF0) = unat (push_bit 4 (drop_bit 4 b))" by simp
  also have "\<dots> = (unat b div 16 * 16) mod 256"
    by (simp add: push_bit_eq_mult drop_bit_eq_div unat_div unat_mult_lem unat_word_ariths)
  also have "\<dots> = unat b div 16 * 16" using unsigned_less [of b, where 'a = nat] by simp
  finally show ?thesis .
qed

lemma byte_eq: "(b :: 8 word) = word_of_nat k \<longleftrightarrow> unat b = k" if "k < 256"
  using that by (auto simp: unat_of_nat word_unat_eq_iff)

lemma nibble_eq: "((b :: 8 word) AND 0xF0 = 0x10) = (unat b div 16 = 1)" "((b :: 8 word) AND 0xF0 = 0xE0) = (unat b div 16 = 14)"
  by (auto simp: word_unat_eq_iff high_nibble)

lemma byte_bounds: "unat (b :: 8 word) < 256"
  using unsigned_less [of b, where 'a = nat] by simp

lemma number_div:
  "number a b c d div 2 ^ 24 = unat a" "number a b c d div 2 ^ 16 = unat a * 256 + unat b"
  "number a b c d div 2 ^ 20 = unat a * 16 + unat b div 16" "number a b c d div 2 ^ 28 = unat a div 16"
  using byte_bounds [of b] byte_bounds [of c] byte_bounds [of d] by (simp_all add: number_def)

lemma number_zero: "number a b c d = 0 \<longleftrightarrow> [a, b, c, d] = [0, 0, 0, 0]"
  by (simp add: number_def word_unat_eq_iff)

lemma pair_eq:
  fixes a b x y k :: nat
  assumes "x < k" "y < k"
  shows "a * k + x = b * k + y \<longleftrightarrow> a = b \<and> x = y"
proof
  assume eq: "a * k + x = b * k + y"
  have "(a * k + x) div k = a" "(b * k + y) div k = b" using assms by simp_all
  then have "a = b" using eq by simp
  then show "a = b \<and> x = y" using eq by simp
qed simp

lemma four: "length ip = 4 \<Longrightarrow> \<exists>a b c d. ip = [a, b, c, d]"
  by (auto simp: length_Suc_conv numeral_eq_Suc)

lemma in_ranges:
  "in_range 8 (k * 2 ^ 24) (number a b c d) \<longleftrightarrow> unat a = k"
  "y < 256 \<Longrightarrow> in_range 16 (k * 2 ^ 24 + y * 2 ^ 16) (number a b c d) \<longleftrightarrow> unat a = k \<and> unat b = y"
  "in_range 12 (172 * 2 ^ 24 + 16 * 2 ^ 16) (number a b c d) \<longleftrightarrow> unat a = 172 \<and> unat b div 16 = 1"
  "in_range 4 (224 * 2 ^ 24) (number a b c d) \<longleftrightarrow> unat a div 16 = 14"
proof -
  show "in_range 8 (k * 2 ^ 24) (number a b c d) \<longleftrightarrow> unat a = k"
    by (simp only: in_range_def) (simp add: number_div [simplified])
  show "in_range 4 (224 * 2 ^ 24) (number a b c d) \<longleftrightarrow> unat a div 16 = 14"
    by (simp only: in_range_def) (simp add: number_div [simplified])
  have "(k * 2 ^ 24 + y * 2 ^ 16) div 2 ^ 16 = k * 256 + y" by simp
  then show "in_range 16 (k * 2 ^ 24 + y * 2 ^ 16) (number a b c d) \<longleftrightarrow> unat a = k \<and> unat b = y" if "y < 256"
    using pair_eq [OF byte_bounds [of b] that, of "unat a" k] that
    by (simp add: in_range_def number_div [simplified] mult.commute)
  have "unat b div 16 < 16" using byte_bounds [of b] by simp
  from pair_eq [OF this, of 1 "unat a" 172]
  show "in_range 12 (172 * 2 ^ 24 + 16 * 2 ^ 16) (number a b c d) \<longleftrightarrow> unat a = 172 \<and> unat b div 16 = 1"
    by (simp add: in_range_def number_div [simplified])
qed

lemma To4_constants:
  "To4 IPv4zero = Some [0, 0, 0, 0]" "To4 IPv6zero = None" "To4 metadata_ip = Some [169, 254, 169, 254]"
  "length IPv4zero = 16" "length IPv6zero = 16" "length metadata_ip = 16"
  by code_simp+

lemma To4_cases:
  assumes "To4 ip = Some a"
  shows "length a = 4 \<and> (ip = a \<or> ip = replicate 10 0 @ [0xFF, 0xFF] @ a)"
proof (cases "length ip = 4")
  case False
  then have l: "length ip = 16" and t: "take 10 ip = replicate 10 0" "ip ! 10 = 0xFF" "ip ! 11 = 0xFF" "a = drop 12 ip"
    using assms by (auto simp: To4_def split: if_splits)
  have "ip = take 10 ip @ [ip ! 10, ip ! 11] @ drop 12 ip"
    using l id_take_nth_drop [of 10 ip] id_take_nth_drop [of 0 "drop 11 ip"]
    by (simp add: numeral_eq_Suc) 
  then show ?thesis using t l by simp
qed (use assms in \<open>auto simp: To4_def\<close>)

lemma equal_by_To4:
  assumes "To4 ip = Some a" "To4 z = Some b" "z = replicate 10 0 @ [0xFF, 0xFF] @ b"
  shows "ip_equal ip z \<longleftrightarrow> a = b"
  using To4_cases [OF assms(1)] To4_cases [OF assms(2)] assms by (auto simp: ip_equal_def)

text \<open>The ranges of RFC 1918, loopback, link-local, multicast and the unspecified address, and those of IPv6.\<close>

definition disallowed :: "ip \<Rightarrow> bool" where
  "disallowed ip =
     (case To4 ip of
        Some a \<Rightarrow> internal (number (a ! 0) (a ! 1) (a ! 2) (a ! 3))
      | None \<Rightarrow> ip = IPv6loopback \<or> ip = IPv6zero
          \<or> (length ip = 16 \<and> (unat (ip ! 0) div 2 = 126 \<or> (unat (ip ! 0) = 254 \<and> unat (ip ! 1) div 64 = 2) \<or> unat (ip ! 0) = 255)))"

lemma byte_literals:
  "(x :: 8 word) = 127 \<longleftrightarrow> unat x = 127" "x = 10 \<longleftrightarrow> unat x = 10" "x = 172 \<longleftrightarrow> unat x = 172" "x = 192 \<longleftrightarrow> unat x = 192"
  "x = 168 \<longleftrightarrow> unat x = 168" "x = 169 \<longleftrightarrow> unat x = 169" "x = 254 \<longleftrightarrow> unat x = 254" "x = 224 \<longleftrightarrow> unat x = 224"
  "x = 0 \<longleftrightarrow> unat x = 0" "x = 255 \<longleftrightarrow> unat x = 255"
  by (simp_all add: word_unat_eq_iff)

lemma blocked_four:
  assumes "To4 ip = Some [a, b, c, d]"
  shows "isBlockedIP ip \<longleftrightarrow> internal (number a b c d)"
proof -
  have m: "IPv4zero = replicate 10 0 @ [0xFF, 0xFF] @ [0, 0, 0, 0]" "metadata_ip = replicate 10 0 @ [0xFF, 0xFF] @ [169, 254, 169, 254]"
    by (simp_all add: IPv4zero_def metadata_ip_def)
  have z: "ip_equal ip IPv4zero = ([a, b, c, d] = [0, 0, 0, 0])" "ip_equal ip metadata_ip = ([a, b, c, d] = [169, 254, 169, 254])"
    using equal_by_To4 [OF assms To4_constants(1) m(1)] equal_by_To4 [OF assms To4_constants(3) m(2)] by auto
  have lits: "168 < (256 :: nat)" "254 < (256 :: nat)" by simp_all
  have n: "\<not> ip_equal ip IPv6zero"
    using To4_cases [OF assms] To4_constants assms by (auto simp: ip_equal_def)
  have "isBlockedIP ip \<longleftrightarrow> (a = 127 \<or> (a = 10 \<or> (a = 172 \<and> b AND 0xF0 = 0x10) \<or> (a = 192 \<and> b = 168)) \<or> (a = 169 \<and> b = 254)
      \<or> (a = 224 \<and> b = 0 \<and> c = 0) \<or> a AND 0xF0 = 0xE0 \<or> [a, b, c, d] = [0, 0, 0, 0])"
    unfolding isBlockedIP_def IsUnspecified_def z IsLoopback_def IsPrivate_def IsLinkLocalUnicast_def IsLinkLocalMulticast_def
      IsMulticast_def assms option.case
    using n by simp
  also have "\<dots> \<longleftrightarrow> internal (number a b c d)"
    unfolding internal_def number_zero in_ranges(1,3,4) in_ranges(2) [OF lits(1)] in_ranges(2) [OF lits(2)] nibble_eq
    unfolding byte_literals list.inject by auto
  finally show ?thesis .
qed

lemma low_seven: "(b :: 8 word) AND 0xFE = 0xFC \<longleftrightarrow> unat b div 2 = 126"
proof -
  have fe: "(0xFE :: 8 word) = push_bit 1 (mask 7)" by (simp add: mask_eq_exp_minus_1 push_bit_eq_mult)
  have "(b :: 8 word) AND 0xFE = push_bit 1 (drop_bit 1 b)" unfolding fe by (rule high_bits) simp
  then have "unat ((b :: 8 word) AND 0xFE) = (unat b div 2 * 2) mod 256"
    by (simp add: push_bit_eq_mult drop_bit_eq_div unat_div unat_word_ariths)
  then have "unat ((b :: 8 word) AND 0xFE) = unat b div 2 * 2" using byte_bounds [of b] by simp
  then show ?thesis by (auto simp: word_unat_eq_iff)
qed

lemma top_two: "(b :: 8 word) AND 0xC0 = 0x80 \<longleftrightarrow> unat b div 64 = 2"
proof -
  have c0: "(0xC0 :: 8 word) = push_bit 6 (mask 2)" by (simp add: mask_eq_exp_minus_1 push_bit_eq_mult)
  have "(b :: 8 word) AND 0xC0 = push_bit 6 (drop_bit 6 b)" unfolding c0 by (rule high_bits) simp
  then have "unat ((b :: 8 word) AND 0xC0) = (unat b div 64 * 64) mod 256"
    by (simp add: push_bit_eq_mult drop_bit_eq_div unat_div unat_word_ariths)
  then have "unat ((b :: 8 word) AND 0xC0) = unat b div 64 * 64" using byte_bounds [of b] by simp
  then show ?thesis by (auto simp: word_unat_eq_iff)
qed

lemma blocked_disallowed: "isBlockedIP ip \<longleftrightarrow> disallowed ip"
proof (cases "To4 ip")
  case None
  have "ip_equal ip IPv6loopback \<longleftrightarrow> ip = IPv6loopback" "ip_equal ip IPv4zero \<longleftrightarrow> False" "ip_equal ip metadata_ip \<longleftrightarrow> False"
    "ip_equal ip IPv6zero \<longleftrightarrow> ip = IPv6zero"
    using None To4_constants by (auto simp: ip_equal_def To4_def split: if_splits)
  then show ?thesis
    unfolding isBlockedIP_def IsUnspecified_def IsLoopback_def IsPrivate_def IsLinkLocalUnicast_def IsLinkLocalMulticast_def
      IsMulticast_def None option.case disallowed_def low_seven top_two
    unfolding byte_literals by auto
next
  case (Some a)
  obtain w x y z where a: "a = [w, x, y, z]" using four To4_cases [OF Some] by blast
  show ?thesis using blocked_four [OF Some [unfolded a]] by (simp add: disallowed_def Some a)
qed

text \<open>C24: The byte and mask tests block exactly the addresses of the internal ranges, also when
an IPv4 address is written as an IPv6 one: loopback, private, link-local, multicast and unspecified
addresses. The extra test for the metadata address blocks nothing more.\<close>

theorem blocks_exactly_internal: "isBlockedIP ip \<longleftrightarrow> disallowed ip"
  by (rule blocked_disallowed)

end
