(* ===== verification/Webhook.thy ===== *)
theory Webhook
  imports StoreWebhook Ssrf
begin

text \<open>
  \<open>internal/webhook/dispatcher.go\<close>: endpoints, the queueing of events for them, and the worker that
  delivers the queue with signatures and a bounded number of retries. HMAC, the random bytes, the
  layout of times and the servers that are posted to are parameters.
\<close>

section \<open>What the service is given\<close>

text \<open>A request the worker makes, and the answer: a response, an error, or both.\<close>

record webhook_post =
  po_URL :: string
  po_Event :: string
  po_EventID :: string
  po_Timestamp :: string
  po_Signature :: string
  po_Body :: string

record webhook_svc =
  wh_AllowPrivate :: bool
  wh_URLs :: url_lib
  wh_Random :: "nat \<Rightarrow> string"
  wh_Hmac :: "string \<Rightarrow> string \<Rightarrow> string"
  wh_Format :: "int \<Rightarrow> string"
  wh_Do :: "nat \<Rightarrow> webhook_post \<Rightarrow> (int \<times> string) option \<times> gerr option"

text \<open>\<open>hex.EncodeToString\<close>.\<close>

definition hex_string :: "string \<Rightarrow> string" where
  "hex_string s = concat (map (\<lambda>ch. let n = of_char ch :: nat in [hex_digit (n div 16), hex_digit (n mod 16)]) s)"

definition randomHex :: "webhook_svc \<Rightarrow> nat \<Rightarrow> (world, string) io" where
  "randomHex W n = askE (\<lambda>k. hex_string (take n (wh_Random W k)))"

definition checkE :: "webhook_svc \<Rightarrow> string \<Rightarrow> (world, gerr option) io" where
  "checkE W url = askE (\<lambda>n. validateWebhookURL (wh_URLs W) n url (wh_AllowPrivate W))"

section \<open>Endpoints\<close>

record Endpoint =
  ep_ID :: string
  ep_URL :: string
  ep_EventTypes :: "string list"
  ep_SigningSecret :: string
  ep_CreatedAt :: int
  ep_UpdatedAt :: int
  ep_DisabledReason :: string

record CreateEndpointRequest =
  er_URL :: string
  er_EventTypes :: "string list"

definition endpointRowToAPI :: "WebhookEndpointRow \<Rightarrow> Endpoint" where
  "endpointRowToAPI r = \<lparr>ep_ID = we_ID r, ep_URL = we_URL r, ep_EventTypes = subscriptions r, ep_SigningSecret = [],
     ep_CreatedAt = we_CreatedAt r, ep_UpdatedAt = we_UpdatedAt r,
     ep_DisabledReason = (case we_DisabledReason r of None \<Rightarrow> [] | Some m \<Rightarrow> m)\<rparr>"

definition CreateEndpoint :: "env \<Rightarrow> ctx \<Rightarrow> webhook_svc \<Rightarrow> string \<Rightarrow> CreateEndpointRequest \<Rightarrow> (world, Endpoint) io" where
  "CreateEndpoint e c W tenant req =
     (if er_URL req = [] then throwE (ErrMsg ''url is required'')
      else bindE (checkE W (er_URL req)) (\<lambda>bad. case bad of Some err \<Rightarrow> throwE err
        | None \<Rightarrow> bindE (randomHex W 32) (\<lambda>hex.
            let secret = ''whsec_'' @ hex in
            bindE (CreateWebhookEndpoint e c \<lparr>wi_TenantID = tenant, wi_URL = er_URL req,
                wi_EventTypes = er_EventTypes req, wi_SigningSecret = secret\<rparr>) (\<lambda>r.
              returnE ((endpointRowToAPI r)\<lparr>ep_SigningSecret := secret\<rparr>)))))"

definition ListEndpoints :: "env \<Rightarrow> ctx \<Rightarrow> string \<Rightarrow> (world, Endpoint list) io" where
  "ListEndpoints e c tenant = bindE (ListWebhookEndpoints e c tenant) (\<lambda>rs. returnE (map endpointRowToAPI rs))"

definition DeleteEndpoint :: "env \<Rightarrow> ctx \<Rightarrow> string \<Rightarrow> (world, unit) io" where
  "DeleteEndpoint = DeleteWebhookEndpoint"

section \<open>Queueing\<close>

text \<open>The body of a delivery; \<open>json.Marshal\<close> sorts the keys of the maps.\<close>

definition event_body :: "webhook_svc \<Rightarrow> int \<Rightarrow> Event \<Rightarrow> json" where
  "event_body W t ev = JObj
     [(''created_at'', JStr (wh_Format W t)),
      (''data'', JObj [(''id'', JStr (be_SessionID ev)), (''session_id'', JStr (be_SessionID ev)), (''type'', JStr (be_Type ev))]),
      (''id'', JStr (''evte_'' @ be_ID ev)),
      (''type'', JStr ''event'')]"

definition enqueue_for :: "env \<Rightarrow> ctx \<Rightarrow> webhook_svc \<Rightarrow> Event \<Rightarrow> WebhookEndpointRow \<Rightarrow> (world, unit) io" where
  "enqueue_for e c W ev r =
     bindE (now e) (\<lambda>t. ignoreE (EnqueueWebhookDelivery e c
       \<lparr>qi_EndpointID = we_ID r, qi_EventID = be_ID ev, qi_EventType = be_Type ev, qi_Payload = Some (event_body W t ev)\<rparr>))"

definition PublishEvent :: "env \<Rightarrow> ctx \<Rightarrow> webhook_svc \<Rightarrow> string \<Rightarrow> Event \<Rightarrow> (world, unit) io" where
  "PublishEvent e c W tenant ev =
     bindE (ListWebhookEndpointsByEventType e c tenant (be_Type ev)) (forE (enqueue_for e c W ev))"

section \<open>Delivering\<close>

text \<open>\<open>now.Unix()\<close> of a time in milliseconds.\<close>

definition unix_seconds :: "int \<Rightarrow> int" where
  "unix_seconds t = t div 1000"

definition signing_key :: "string \<Rightarrow> string" where
  "signing_key secret = (let key = TrimPrefix secret ''whsec_'' in if key = [] then secret else key)"

definition signed_text :: "string \<Rightarrow> int \<Rightarrow> string" where
  "signed_text body t = int_str (unix_seconds t) @ ''.'' @ body"

definition sign :: "webhook_svc \<Rightarrow> string \<Rightarrow> string \<Rightarrow> int \<Rightarrow> string" where
  "sign W secret body t = hex_string (wh_Hmac W (signing_key secret) (signed_text body t))"

definition delays :: "int list" where
  "delays = [1000, 5000, 30000, 300000, 3600000]"

text \<open>The next attempt, or none when the retries are used up.\<close>

definition nextAttemptAfter :: "int \<Rightarrow> int \<Rightarrow> int option" where
  "nextAttemptAfter attempt t = (if attempt \<ge> int (length delays) then None else Some (t + delays ! nat attempt))"

definition post_of :: "webhook_svc \<Rightarrow> WebhookEndpointRow \<Rightarrow> WebhookDeliveryRow \<Rightarrow> int \<Rightarrow> webhook_post" where
  "post_of W ep d t = \<lparr>po_URL = we_URL ep, po_Event = wd_EventType d, po_EventID = wd_EventID d,
     po_Timestamp = int_str (unix_seconds t),
     po_Signature = ''v1,'' @ sign W (we_SigningSecret ep) (raw_text (wd_Payload d)) t,
     po_Body = raw_text (wd_Payload d)\<rparr>"

definition delivery_error :: "(int \<times> string) option \<times> gerr option \<Rightarrow> string" where
  "delivery_error resp =
     (case resp of (_, Some err) \<Rightarrow> err_str err
      | (Some (status, body), None) \<Rightarrow> ''status '' @ int_str status @ '': '' @ take 1024 body
      | (None, None) \<Rightarrow> ''status 0: '')"

definition resp_status :: "(int \<times> string) option \<times> gerr option \<Rightarrow> int" where
  "resp_status resp = (case fst resp of None \<Rightarrow> 0 | Some (status, _) \<Rightarrow> status)"

definition accepted :: "(int \<times> string) option \<times> gerr option \<Rightarrow> bool" where
  "accepted resp \<longleftrightarrow> snd resp = None \<and> 200 \<le> resp_status resp \<and> resp_status resp < 300"

text \<open>What is recorded about an attempt.\<close>

definition record_attempt ::
  "env \<Rightarrow> ctx \<Rightarrow> WebhookEndpointRow \<Rightarrow> WebhookDeliveryRow \<Rightarrow> (int \<times> string) option \<times> gerr option \<Rightarrow> (world, unit) io" where
  "record_attempt e c ep d resp =
     (if accepted resp then
        bindE (ignoreE (MarkDeliveryDelivered e c (wd_ID d) (resp_status resp))) (\<lambda>_. ignoreE (ResetWebhookFailures e c (we_ID ep)))
      else bindE (now e) (\<lambda>t. case nextAttemptAfter (wd_Attempt d) t of
          None \<Rightarrow> bindE (ignoreE (MarkDeliveryDelivered e c (wd_ID d) (resp_status resp)))
            (\<lambda>_. ignoreE (IncrementWebhookFailures e c (we_ID ep) (delivery_error resp)))
        | Some nextAt \<Rightarrow> ignoreE (MarkDeliveryFailed e c (wd_ID d) (resp_status resp) (delivery_error resp) nextAt)))"

text \<open>\<open>deliverOne\<close>; its value is the request that was made, if any.\<close>

definition deliverOne :: "env \<Rightarrow> ctx \<Rightarrow> webhook_svc \<Rightarrow> WebhookDeliveryRow \<Rightarrow> (world, webhook_post option) io" where
  "deliverOne e c W d w0 =
     (case GetWebhookEndpoint e c (wd_EndpointID d) w0 of
        (Inl _, w1) \<Rightarrow> (Inr None, w1)
      | (Inr ep, w1) \<Rightarrow>
          (if we_DisabledAt ep \<noteq> None
           then bindE (ignoreE (MarkDeliveryDelivered e c (wd_ID d) 0)) (\<lambda>_. returnE None)
           else bindE (checkE W (we_URL ep)) (\<lambda>bad. case bad of
               Some err \<Rightarrow> bindE (ignoreE (MarkDeliveryDelivered e c (wd_ID d) 0)) (\<lambda>_.
                   bindE (ignoreE (IncrementWebhookFailures e c (we_ID ep) (''blocked target: '' @ err_str err))) (\<lambda>_. returnE None))
             | None \<Rightarrow> bindE (now e) (\<lambda>t. let post = post_of W ep d t in
                 bindE (askE (\<lambda>n. wh_Do W n post)) (\<lambda>resp.
                 bindE (record_attempt e c ep d resp) (\<lambda>_. returnE (Some post)))))) w1)"

text \<open>The requests of one round of the worker, each with the delivery it is for.\<close>

fun deliver_all :: "env \<Rightarrow> ctx \<Rightarrow> webhook_svc \<Rightarrow> WebhookDeliveryRow list \<Rightarrow> (world, (string \<times> webhook_post) list) io" where
  "deliver_all e c W [] = returnE []"
| "deliver_all e c W (d # ds) = bindE (deliverOne e c W d) (\<lambda>p. bindE (deliver_all e c W ds) (\<lambda>ps.
     returnE ((case p of None \<Rightarrow> [] | Some post \<Rightarrow> [(wd_ID d, post)]) @ ps)))"

definition dispatchPending :: "env \<Rightarrow> ctx \<Rightarrow> webhook_svc \<Rightarrow> (world, (string \<times> webhook_post) list) io" where
  "dispatchPending e c W = catchE (bindE (ClaimPendingDeliveries e c 16) (deliver_all e c W)) (\<lambda>_. returnE [])"

text \<open>The worker's loop: a round each time its ticker fires, until its context is done.\<close>

fun rounds :: "env \<Rightarrow> ctx \<Rightarrow> webhook_svc \<Rightarrow> nat \<Rightarrow> (world, (string \<times> webhook_post) list) io" where
  "rounds e c W 0 = returnE []"
| "rounds e c W (Suc n) = (\<lambda>w. if cancelled c (tick w) then returnE [] w
     else bindE (dispatchPending e c W) (\<lambda>ps. bindE (rounds e c W n) (\<lambda>qs. returnE (ps @ qs))) w)"

end
