(* ===== verification/AuthService.thy ===== *)
theory AuthService
  imports StoreAuth VaultProxy Webhook
begin

text \<open>
  \<open>internal/auth/service.go\<close>: passwords, signed cookies, API keys. PBKDF2, HMAC-SHA256, SHA-256
  and the source of random bytes are parameters; the encodings around them are written out.
\<close>

section \<open>Encodings\<close>

text \<open>\<open>base64.RawStdEncoding\<close> and \<open>RawURLEncoding\<close>: no padding, and two other letters for URLs.\<close>

definition url_char :: "char \<Rightarrow> char" where
  "url_char ch = (if ch = CHR ''+'' then CHR ''-'' else if ch = CHR ''/'' then CHR ''_'' else ch)"

fun unpadded :: "string \<Rightarrow> string" where
  "unpadded [] = []"
| "unpadded [a] = (let x = of_char a :: nat in [b64_char (x div 4), b64_char (x mod 4 * 16)])"
| "unpadded [a, b] = (let x = of_char a; y = of_char b :: nat in
     [b64_char (x div 4), b64_char (x mod 4 * 16 + y div 16), b64_char (y mod 16 * 4)])"
| "unpadded (a # b # c # s) = (let x = of_char a; y = of_char b; z = of_char c :: nat in
     [b64_char (x div 4), b64_char (x mod 4 * 16 + y div 16), b64_char (y mod 16 * 4 + z div 64), b64_char (z mod 64)]
     @ unpadded s)"

definition raw_encode :: "string \<Rightarrow> string" where
  "raw_encode = unpadded"

definition raw_url_encode :: "string \<Rightarrow> string" where
  "raw_url_encode s = map url_char (unpadded s)"

definition url_val :: "char \<Rightarrow> nat option" where
  "url_val ch =
     (if ch = CHR ''-'' then Some 62 else if ch = CHR ''_'' then Some 63
      else if ch \<in> {CHR ''+'', CHR ''/''} then None else b64_val ch)"

text \<open>Unused bits of the last character are not looked at.\<close>

fun unpad :: "(char \<Rightarrow> nat option) \<Rightarrow> string \<Rightarrow> string option" where
  "unpad v [] = Some []"
| "unpad v [a] = None"
| "unpad v [a, b] = (case (v a, v b) of (Some x, Some y) \<Rightarrow> Some [char_of (x * 4 + y div 16)] | _ \<Rightarrow> None)"
| "unpad v [a, b, c] =
     (case (v a, v b, v c) of
        (Some x, Some y, Some z) \<Rightarrow> Some [char_of (x * 4 + y div 16), char_of (y mod 16 * 16 + z div 4)] | _ \<Rightarrow> None)"
| "unpad v (a # b # c # d # s) =
     (case (v a, v b, v c, v d, unpad v s) of
        (Some x, Some y, Some z, Some u, Some r) \<Rightarrow> Some (char_of (x * 4 + y div 16) # char_of (y mod 16 * 16 + z div 4)
          # char_of (z mod 4 * 64 + u) # r)
      | _ \<Rightarrow> None)"

definition no_breaks :: "string \<Rightarrow> string" where
  "no_breaks = filter (\<lambda>ch. ch \<noteq> CHR 0x0A \<and> ch \<noteq> CHR 0x0D)"

definition raw_decode :: "string \<Rightarrow> string option" where
  "raw_decode s = unpad b64_val (no_breaks s)"

definition raw_url_decode :: "string \<Rightarrow> string option" where
  "raw_url_decode s = unpad url_val (no_breaks s)"

text \<open>
  \<open>base32.StdEncoding\<close> without padding, in lower case: groups of five bits, the last one filled up
  with zeros.
\<close>

definition byte_bits :: "char \<Rightarrow> bool list" where
  "byte_bits ch = map (\<lambda>k. (of_char ch :: nat) div 2 ^ k mod 2 = 1) [7, 6, 5, 4, 3, 2, 1, 0]"

definition b32_char :: "bool list \<Rightarrow> char" where
  "b32_char bs = (let n = foldl (\<lambda>n b. 2 * n + of_bool b) 0 bs :: nat in
     if n < 26 then char_of (97 + n) else char_of (24 + n))"

fun b32_groups :: "bool list \<Rightarrow> string" where
  "b32_groups (a # b # c # d # f # bs) = b32_char [a, b, c, d, f] # b32_groups bs"
| "b32_groups [] = []"
| "b32_groups bs = [b32_char (take 5 (bs @ replicate 4 False))]"

definition lower_base32 :: "string \<Rightarrow> string" where
  "lower_base32 s = b32_groups (concat (map byte_bits s))"

section \<open>The service\<close>

record auth_lib =
  al_Random :: "nat \<Rightarrow> nat \<Rightarrow> gerr + string"
  al_Pbkdf2 :: "string \<Rightarrow> string \<Rightarrow> int \<Rightarrow> nat \<Rightarrow> gerr + string"
  al_Hmac :: "string \<Rightarrow> string \<Rightarrow> string"
  al_Sha256 :: "string \<Rightarrow> string"

record auth_service =
  sv_Secret :: string
  sv_Mode :: string
  sv_MaxAge :: int

definition cookieName :: string where
  "cookieName = ''jadeenvoy_session''"

definition pbkdf2Iter :: int where
  "pbkdf2Iter = 120000"

definition pbkdf2KeyLen :: nat where
  "pbkdf2KeyLen = 32"

text \<open>Twenty-four hours, in milliseconds.\<close>

definition defaultMaxAge :: int where
  "defaultMaxAge = 24 * 60 * 60 * 1000"

definition NewAuthService :: "string \<Rightarrow> string \<Rightarrow> auth_service" where
  "NewAuthService mode secret =
     \<lparr>sv_Secret = (if secret = [] then ''jadeenvoy-dev-insecure-cookie-secret'' else secret),
      sv_Mode = (if mode = [] then ''bypass'' else mode), sv_MaxAge = defaultMaxAge\<rparr>"

section \<open>Passwords\<close>

definition encoded_hash :: "int \<Rightarrow> string \<Rightarrow> string \<Rightarrow> string" where
  "encoded_hash iter salt dk = ''pbkdf2_sha256$'' @ int_str iter @ ''$'' @ raw_encode salt @ ''$'' @ raw_encode dk"

definition hashPassword :: "auth_lib \<Rightarrow> string \<Rightarrow> (world, string) io" where
  "hashPassword A password =
     bindE (askE (\<lambda>n. al_Random A n 16)) (\<lambda>r. case r of Inl err \<Rightarrow> throwE err
       | Inr salt \<Rightarrow> (case al_Pbkdf2 A password salt pbkdf2Iter pbkdf2KeyLen of Inl err \<Rightarrow> throwE err
         | Inr dk \<Rightarrow> returnE (encoded_hash pbkdf2Iter salt dk)))"

definition verifyPassword :: "auth_lib \<Rightarrow> string \<Rightarrow> string \<Rightarrow> bool" where
  "verifyPassword A password encoded =
     (case split_char CHR ''$'' encoded of
        [p0, p1, p2, p3] \<Rightarrow>
          if p0 \<noteq> ''pbkdf2_sha256'' then False
          else (case ParseInt p1 of None \<Rightarrow> False
          | Some iter \<Rightarrow> (case raw_decode p2 of None \<Rightarrow> False
          | Some salt \<Rightarrow> (case raw_decode p3 of None \<Rightarrow> False
          | Some want \<Rightarrow> (case al_Pbkdf2 A password salt iter (length want) of Inl _ \<Rightarrow> False
          | Inr got \<Rightarrow> got = want))))
      | _ \<Rightarrow> False)"

section \<open>Cookies\<close>

definition signCookie :: "auth_lib \<Rightarrow> auth_service \<Rightarrow> string \<Rightarrow> string" where
  "signCookie A S sid = sid @ ''.'' @ raw_url_encode (al_Hmac A (sv_Secret S) sid)"

definition verifyCookie :: "auth_lib \<Rightarrow> auth_service \<Rightarrow> string \<Rightarrow> string option" where
  "verifyCookie A S v =
     (case cut_last CHR ''.'' v of None \<Rightarrow> None
      | Some (sid, rest) \<Rightarrow>
          if sid = [] then None
          else (case raw_url_decode rest of None \<Rightarrow> None
            | Some mac \<Rightarrow> if mac \<noteq> al_Hmac A (sv_Secret S) sid then None else Some sid))"

section \<open>Signing up, in and out\<close>

definition Signup :: "env \<Rightarrow> ctx \<Rightarrow> auth_lib \<Rightarrow> string \<Rightarrow> string \<Rightarrow> string \<Rightarrow> (world, UserRow) io" where
  "Signup e c A email password name =
     (if email = [] \<or> password = [] then throwE (ErrMsg ''email and password are required'')
      else bindE (hashPassword A password) (\<lambda>hash.
        CreateUser e c \<lparr>cu_TenantID = ''tnt-default'', cu_Email = email, cu_Name = name, cu_PasswordHash = hash\<rparr>))"

definition Login :: "env \<Rightarrow> ctx \<Rightarrow> auth_lib \<Rightarrow> auth_service \<Rightarrow> string \<Rightarrow> string \<Rightarrow> (world, string \<times> UserRow) io" where
  "Login e c A S email password =
     bindE (catchE (GetUserByEmail e c email)
         (\<lambda>err. throwE (if errors_is err ErrNotFound then ErrInvalidCredentials else err))) (\<lambda>u.
       if \<not> verifyPassword A password (us_PasswordHash u) then throwE ErrInvalidCredentials
       else bindE (NewID e ''ses'') (\<lambda>sid. bindE (now e) (\<lambda>t.
         bindE (CreateAuthSession e c sid (us_ID u) (us_TenantID u) (t + sv_MaxAge S)) (\<lambda>_.
           returnE (signCookie A S sid, u)))))"

definition Logout :: "env \<Rightarrow> ctx \<Rightarrow> auth_lib \<Rightarrow> auth_service \<Rightarrow> string \<Rightarrow> (world, unit) io" where
  "Logout e c A S cookie =
     (case verifyCookie A S cookie of None \<Rightarrow> returnE () | Some sid \<Rightarrow> DeleteAuthSession e c sid)"

definition ResolveSession ::
  "env \<Rightarrow> ctx \<Rightarrow> auth_lib \<Rightarrow> auth_service \<Rightarrow> string \<Rightarrow> (world, AuthSessionRow \<times> UserRow) io" where
  "ResolveSession e c A S cookie =
     (case verifyCookie A S cookie of None \<Rightarrow> throwE ErrInvalidCredentials
      | Some sid \<Rightarrow> bindE (GetAuthSession e c sid) (\<lambda>sess. bindE (now e) (\<lambda>t.
          if t > as_ExpiresAt sess
          then bindE (ignoreE (DeleteAuthSession e c sid)) (\<lambda>_. throwE ErrInvalidCredentials)
          else bindE (GetUser e c (as_UserID sess)) (\<lambda>u. returnE (sess, u)))))"

section \<open>API keys\<close>

text \<open>The key and its public beginning; what a failing source leaves in the buffers is zeros.\<close>

definition random_or_zero :: "auth_lib \<Rightarrow> nat \<Rightarrow> (world, string) io" where
  "random_or_zero A k = bindE (askE (\<lambda>n. al_Random A n k)) (\<lambda>r.
     returnE (case r of Inl _ \<Rightarrow> replicate k (CHR 0x00) | Inr s \<Rightarrow> s))"

definition generateAPIKey :: "auth_lib \<Rightarrow> (world, string \<times> string) io" where
  "generateAPIKey A =
     bindE (random_or_zero A 5) (\<lambda>id_bytes. bindE (random_or_zero A 20) (\<lambda>secret_bytes.
       let i = lower_base32 id_bytes; secret = lower_base32 secret_bytes
       in returnE (''je_'' @ i @ ''_'' @ secret, ''je_'' @ i)))"

definition hashAPIKey :: "auth_lib \<Rightarrow> string \<Rightarrow> string" where
  "hashAPIKey A plaintext = hex_string (al_Sha256 A plaintext)"

definition IssueAPIKey ::
  "env \<Rightarrow> ctx \<Rightarrow> auth_lib \<Rightarrow> string \<Rightarrow> string \<Rightarrow> string \<Rightarrow> (world, APIKeyRow \<times> string) io" where
  "IssueAPIKey e c A tenant user name =
     bindE (generateAPIKey A) (\<lambda>(plaintext, pre).
       bindE (CreateAPIKey e c \<lparr>ck_TenantID = tenant, ck_UserID = user, ck_Name = name, ck_Prefix = pre,
                ck_Hash = hashAPIKey A plaintext\<rparr>) (\<lambda>row. returnE (row, plaintext)))"

definition ResolveAPIKey :: "env \<Rightarrow> ctx \<Rightarrow> auth_lib \<Rightarrow> string \<Rightarrow> (world, APIKeyRow) io" where
  "ResolveAPIKey e c A plaintext = GetAPIKeyByHash e c (hashAPIKey A plaintext)"

definition ListAPIKeys :: "env \<Rightarrow> ctx \<Rightarrow> string \<Rightarrow> (world, APIKeyRow list) io" where
  "ListAPIKeys e c tenant = store_ListAPIKeys e c tenant"

definition RevokeAPIKey :: "env \<Rightarrow> ctx \<Rightarrow> string \<Rightarrow> (world, unit) io" where
  "RevokeAPIKey e c kid = store_RevokeAPIKey e c kid"

section \<open>Who a request comes from\<close>

text \<open>
  \<open>RequireAuth\<close>: a tenant and a user for the request, or no answer but 401. The key is the header's
  value, empty when there is none, the cookie that of the session.
\<close>

definition bypassUserID :: string where
  "bypassUserID = ''usr-default''"

definition by_key :: "env \<Rightarrow> ctx \<Rightarrow> auth_lib \<Rightarrow> string \<Rightarrow> (world, (string \<times> string) option) io" where
  "by_key e c A k =
     (if k = [] then returnE None
      else bindE (attempt (ResolveAPIKey e c A k)) (\<lambda>r. returnE (case r of Inl _ \<Rightarrow> None
        | Inr key \<Rightarrow> Some (ak_TenantID key, case ak_UserID key of None \<Rightarrow> [] | Some u \<Rightarrow> u))))"

definition by_cookie :: "env \<Rightarrow> ctx \<Rightarrow> auth_lib \<Rightarrow> auth_service \<Rightarrow> string option \<Rightarrow> (world, (string \<times> string) option) io" where
  "by_cookie e c A S cookie =
     (case cookie of None \<Rightarrow> returnE None
      | Some v \<Rightarrow> bindE (attempt (ResolveSession e c A S v)) (\<lambda>r. returnE (case r of Inl _ \<Rightarrow> None
        | Inr (sess, u) \<Rightarrow> Some (as_TenantID sess, us_ID u))))"

definition RequireAuth ::
  "env \<Rightarrow> ctx \<Rightarrow> auth_lib \<Rightarrow> auth_service option \<Rightarrow> string \<Rightarrow> string \<Rightarrow> string option \<Rightarrow> (world, (string \<times> string) option) io" where
  "RequireAuth e c A svc mode k cookie =
     bindE (case svc of None \<Rightarrow> returnE None
        | Some S \<Rightarrow> bindE (by_key e c A k) (\<lambda>i. case i of Some x \<Rightarrow> returnE (Some x) | None \<Rightarrow> by_cookie e c A S cookie)) (\<lambda>i.
       returnE (case i of Some x \<Rightarrow> Some x
         | None \<Rightarrow> if mode = ''bypass'' \<or> mode = ''optional'' then Some (''tnt-default'', bypassUserID) else None))"

text \<open>What handlers read of it.\<close>

definition tenantFromCtx :: "(string \<times> string) option \<Rightarrow> string" where
  "tenantFromCtx i = (case i of Some (t, _) \<Rightarrow> if t \<noteq> [] then t else ''tnt-default'' | None \<Rightarrow> ''tnt-default'')"

definition userFromCtx :: "(string \<times> string) option \<Rightarrow> string" where
  "userFromCtx i = (case i of Some (_, u) \<Rightarrow> u | None \<Rightarrow> [])"

end
