(* ===== verification/AuthProperties.thy ===== *)
theory AuthProperties
  imports AuthService
begin

text \<open>
  What the authentication promises: cookies and passwords are read back, a login lasts until it
  expires or ends, a revoked key stays revoked, and a request is let in only on a credential.
\<close>

section \<open>Encodings are undone\<close>

lemma unpad_unpadded:
  assumes v: "\<And>n. n < 64 \<Longrightarrow> v (g (b64_char n)) = Some n"
  shows "unpad v (map g (unpadded s)) = Some s"
proof (induction s rule: unpadded.induct)
  case (2 a)
  note R = byte_ranges [OF char_below [of a] char_below [of "CHR 0x00"] char_below [of "CHR 0x00"]]
  show ?case by (simp only: unpadded.simps Let_def list.map unpad.simps v [OF R(1)] v [OF R(5)]) simp
next
  case (3 a b)
  note R = byte_ranges [OF char_below [of a] char_below [of b] char_below [of "CHR 0x00"]]
  show ?case
    by (simp only: unpadded.simps Let_def list.map unpad.simps v [OF R(1)] v [OF R(2)] v [OF R(6)] prod.case option.case
        pack_div [OF R(7)] pack_mod [OF R(7)] nonzero_mult_div_cancel_right div_mult_mod_eq char_of_char)
next
  case (4 a b c s)
  note R = byte_ranges [OF char_below [of a] char_below [of b] char_below [of c]]
  show ?case
    by (simp only: unpadded.simps Let_def list.map append.simps map_append unpad.simps 4 v [OF R(1)] v [OF R(2)]
        v [OF R(3)] v [OF R(4)] prod.case option.case pack_div [OF R(7)] pack_mod [OF R(7)]
        pack_div [OF R(8)] pack_mod [OF R(8)] div_mult_mod_eq char_of_char)
qed simp

lemma url_val_char: "n < 64 \<Longrightarrow> url_val (url_char (b64_char n)) = Some n"
  using b64_val_char [of n] by (auto simp: url_val_def url_char_def b64_val_def)

lemma set_unpadded: "ch \<in> set (unpadded s) \<Longrightarrow> \<exists>n<64. ch = b64_char n"
proof (induction s rule: unpadded.induct)
  case (2 a)
  note R = byte_ranges [OF char_below [of a] char_below [of "CHR 0x00"] char_below [of "CHR 0x00"]]
  show ?case using 2 by (simp only: unpadded.simps Let_def list.set append.simps set_append Un_iff insert_iff empty_iff) (use R(1,5) in blast)
next
  case (3 a b)
  note R = byte_ranges [OF char_below [of a] char_below [of b] char_below [of "CHR 0x00"]]
  show ?case using 3 by (simp only: unpadded.simps Let_def list.set append.simps set_append Un_iff insert_iff empty_iff) (use R(1,2,6) in blast)
next
  case (4 a b c s)
  note R = byte_ranges [OF char_below [of a] char_below [of b] char_below [of c]]
  show ?case using 4 by (simp only: unpadded.simps Let_def list.set append.simps set_append Un_iff insert_iff empty_iff) (use R(1,2,3,4) in blast)
qed simp

lemma b64_char_plain2:
  assumes "n < 64"
  shows "b64_char n \<noteq> CHR ''$''" "b64_char n \<noteq> CHR ''.''"
proof -
  have "(of_char (b64_char n) :: nat) \<notin> {36, 46}" using assms by (simp add: b64_char_code) presburger
  then show "b64_char n \<noteq> CHR ''$''" "b64_char n \<noteq> CHR ''.''" by auto
qed

lemma raw_plain: "CHR ''$'' \<notin> set (raw_encode s)" "no_breaks (raw_encode s) = raw_encode s"
  using set_unpadded [of _ s] b64_char_plain b64_char_plain2
  by (fastforce simp: raw_encode_def no_breaks_def filter_id_conv)+

lemma url_plain: "CHR ''.'' \<notin> set (raw_url_encode s)" "no_breaks (raw_url_encode s) = raw_url_encode s"
  using set_unpadded [of _ s] b64_char_plain b64_char_plain2
  by (fastforce simp: raw_url_encode_def url_char_def no_breaks_def filter_id_conv split: if_splits)+

lemma raw_roundtrip: "raw_decode (raw_encode s) = Some s"
  using unpad_unpadded [of b64_val id s] b64_val_char
  by (simp add: raw_decode_def raw_plain) (simp add: raw_encode_def)

lemma url_roundtrip: "raw_url_decode (raw_url_encode s) = Some s"
  using unpad_unpadded [of url_val url_char s] url_val_char
  by (simp add: raw_url_decode_def url_plain) (simp add: raw_url_encode_def)

lemma cut_last_append: "ch \<notin> set b \<Longrightarrow> cut_last ch (a @ ch # b) = Some (a, b)"
  by (simp add: cut_last_def dropWhile_append takeWhile_append)

lemma cookie_roundtrip: "verifyCookie A S (signCookie A S sid) = (if sid = [] then None else Some sid)"
  by (simp add: verifyCookie_def signCookie_def cut_last_append url_plain url_roundtrip)

text \<open>A signed cookie is read back as the session it was made for, whatever characters the
identifier has; only the empty one is refused.\<close>

theorem cookie_names_its_session: "verifyCookie A S (signCookie A S sid) = (if sid = [] then None else Some sid)"
  by (rule cookie_roundtrip)

section \<open>Passwords\<close>

lemma iter_plain: "CHR ''$'' \<notin> set (int_str pbkdf2Iter)"
  using nat_str_digits [of "CHR ''$''" "nat pbkdf2Iter"] by (auto simp: int_str_def pbkdf2Iter_def is_digit_def)

lemma encoded_parts:
  "split_char CHR ''$'' (encoded_hash pbkdf2Iter salt dk)
     = [''pbkdf2_sha256'', int_str pbkdf2Iter, raw_encode salt, raw_encode dk]"
proof -
  have "encoded_hash pbkdf2Iter salt dk
      = ''pbkdf2_sha256'' @ CHR ''$'' # int_str pbkdf2Iter @ CHR ''$'' # raw_encode salt @ CHR ''$'' # raw_encode dk"
    by (simp add: encoded_hash_def)
  moreover have "CHR ''$'' \<notin> set ''pbkdf2_sha256''" by simp
  ultimately show ?thesis using raw_plain(1) iter_plain
    by (simp only: split_char_append split_char_single append.assoc not_False_eq_True)
qed

lemma verify_encoded:
  assumes "length dk = pbkdf2KeyLen"
  shows "verifyPassword A q (encoded_hash pbkdf2Iter salt dk) \<longleftrightarrow> al_Pbkdf2 A q salt pbkdf2Iter pbkdf2KeyLen = Inr dk"
proof -
  have p: "ParseInt (int_str pbkdf2Iter) = Some pbkdf2Iter"
    by (rule ParseInt_int_str) (simp add: int64_range_def pbkdf2Iter_def)
  show ?thesis
    by (simp add: verifyPassword_def encoded_parts p raw_roundtrip assms split: sum.splits)
qed

text \<open>C36: The stored form of a password verifies that password, and any other exactly if the key
derivation, with the stored salt, maps both to the same key.\<close>

theorem passwords_compare_by_key:
  assumes run: "hashPassword A password w = (Inr h, w')"
    and keys: "\<And>p s i n k. al_Pbkdf2 A p s i n = Inr k \<Longrightarrow> length k = n"
  shows "verifyPassword A password h \<and>
    (\<exists>salt. \<forall>q. verifyPassword A q h \<longleftrightarrow> al_Pbkdf2 A q salt pbkdf2Iter pbkdf2KeyLen = al_Pbkdf2 A password salt pbkdf2Iter pbkdf2KeyLen)"
proof -
  obtain salt dk where dk: "al_Pbkdf2 A password salt pbkdf2Iter pbkdf2KeyLen = Inr dk" and h: "h = encoded_hash pbkdf2Iter salt dk"
    using run by (auto simp: hashPassword_def bindE_def askE_def throwE_def returnE_def split: sum.splits)
  have "verifyPassword A q h \<longleftrightarrow> al_Pbkdf2 A q salt pbkdf2Iter pbkdf2KeyLen = al_Pbkdf2 A password salt pbkdf2Iter pbkdf2KeyLen" for q
    using keys [OF dk] by (simp add: h verify_encoded dk)
  then show ?thesis by blast
qed

text \<open>A library for the witnesses: the salt is what its tick gives, keys are cut to size.\<close>

definition plain_auth :: auth_lib where
  "plain_auth = \<lparr>al_Random = (\<lambda>n k. Inr (take k (replicate 20 (char_of n)))),
     al_Pbkdf2 = (\<lambda>p s i n. Inr (take n (p @ s @ replicate n CHR ''0''))),
     al_Hmac = (\<lambda>k m. take 32 (m @ k)), al_Sha256 = (\<lambda>m. m)\<rparr>"

lemma plain_keys: "al_Pbkdf2 plain_auth p s i n = Inr k \<Longrightarrow> length k = n"
  by (auto simp: plain_auth_def)

lemma passwords_compare_by_key_witness:
  "case hashPassword plain_auth ''tulip'' empty_world of (Inr h, _) \<Rightarrow> verifyPassword plain_auth ''tulip'' h | _ \<Rightarrow> False"
proof -
  obtain h w' where r: "hashPassword plain_auth ''tulip'' empty_world = (Inr h, w')"
    by (simp add: hashPassword_def bindE_def askE_def returnE_def plain_auth_def)
  show ?thesis using passwords_compare_by_key [OF r plain_keys] by (simp add: r)
qed

section \<open>The tables under any sequence of operations\<close>

datatype auth_op =
    SignUp string string string
  | LogIn string string
  | LogOut string
  | IssueKey string string string
  | RevokeKey string
  | Request string "string option"

definition run_auth_op :: "env \<Rightarrow> auth_lib \<Rightarrow> auth_service \<Rightarrow> string \<Rightarrow> ctx \<times> auth_op \<Rightarrow> world \<Rightarrow> world" where
  "run_auth_op e A S mode op w =
     (case op of
        (c, SignUp email password name) \<Rightarrow> snd (Signup e c A email password name w)
      | (c, LogIn email password) \<Rightarrow> snd (Login e c A S email password w)
      | (c, LogOut cookie) \<Rightarrow> snd (Logout e c A S cookie w)
      | (c, IssueKey tenant user name) \<Rightarrow> snd (IssueAPIKey e c A tenant user name w)
      | (c, RevokeKey kid) \<Rightarrow> snd (RevokeAPIKey e c kid w)
      | (c, Request k cookie) \<Rightarrow> snd (RequireAuth e c A (Some S) mode k cookie w))"

lemma keeps_attempt: "keeps (kept_inv I) m \<Longrightarrow> keeps (kept_inv I) (attempt m)"
  by (simp add: keeps_def attempt_def)

lemma keeps_Signup: "keeps (kept_inv (auth_inv D)) (Signup e c A email password name)"
  unfolding Signup_def hashPassword_def
  by (auto intro!: au.bind au.plain keeps_auth_store split: sum.splits)

lemma keeps_Login: "keeps (kept_inv (auth_inv D)) (Login e c A S email password)"
  unfolding Login_def by (auto intro!: au.bind au.plain au.catch keeps_auth_store)

lemma keeps_Logout: "keeps (kept_inv (auth_inv D)) (Logout e c A S cookie)"
  unfolding Logout_def by (auto intro!: au.plain keeps_auth_store split: option.splits)

lemma keeps_ResolveSession: "keeps (kept_inv (auth_inv D)) (ResolveSession e c A S cookie)"
  unfolding ResolveSession_def by (auto intro!: au.bind au.plain au.ignore keeps_auth_store split: option.splits)

lemma keeps_IssueAPIKey: "keeps (kept_inv (auth_inv D)) (IssueAPIKey e c A tenant user name)"
  unfolding IssueAPIKey_def generateAPIKey_def random_or_zero_def Let_def
  by (auto intro!: au.bind au.plain keeps_auth_store)

lemma keeps_RequireAuth: "keeps (kept_inv (auth_inv D)) (RequireAuth e c A svc mode k cookie)"
  unfolding RequireAuth_def by_key_def by_cookie_def ResolveAPIKey_def
  by (auto intro!: au.bind au.plain keeps_attempt keeps_ResolveSession keeps_auth_store split: option.splits)

lemma auth_inv_op: "auth_inv D w \<Longrightarrow> auth_inv D (run_auth_op e A S mode op w)"
  using au.invD [OF keeps_Signup] au.invD [OF keeps_Login] au.invD [OF keeps_Logout] au.invD [OF keeps_IssueAPIKey]
    au.invD [OF keeps_RevokeAPIKey] au.invD [OF keeps_RequireAuth]
  by (cases op) (simp add: run_auth_op_def RevokeAPIKey_def split: auth_op.split)

lemma auth_inv_ops: "auth_inv D w \<Longrightarrow> auth_inv D (fold (run_auth_op e A S mode) ops w)"
  by (induction ops arbitrary: w) (simp_all add: auth_inv_op)


lemma GetAPIKeyByHash_cases:
  obtains (row) r where "GetAPIKeyByHash e c h w = (Inr r, w\<lparr>tick := Suc (tick w)\<rparr>)" "select_one (live_hash h) (api_keys w) = Some r"
        | (err) x where "GetAPIKeyByHash e c h w = (Inl x, w\<lparr>tick := Suc (tick w)\<rparr>)"
  by (rule queryE_cases [of e c "\<lambda>w. select_one (live_hash h) (api_keys w)" w]; cases "select_one (live_hash h) (api_keys w)")
    (auto simp: GetAPIKeyByHash_def bindE_def optE_def throwE_def returnE_def)

lemma by_key_cases:
  obtains (none) n where "by_key e c A k w = (Inr None, w\<lparr>tick := n\<rparr>)"
        | (key) r n where "by_key e c A k w = (Inr (Some (ak_TenantID r, case ak_UserID r of None \<Rightarrow> [] | Some u \<Rightarrow> u)), w\<lparr>tick := n\<rparr>)"
            "select_one (live_hash (hashAPIKey A k)) (api_keys w) = Some r"
proof (cases "k = []")
  case True
  then show thesis using none [of "tick w"] by (simp add: by_key_def returnE_def)
next
  case False
  show thesis
  proof (rule GetAPIKeyByHash_cases [of e c "hashAPIKey A k" w])
    fix r assume "GetAPIKeyByHash e c (hashAPIKey A k) w = (Inr r, w\<lparr>tick := Suc (tick w)\<rparr>)"
      and r: "select_one (live_hash (hashAPIKey A k)) (api_keys w) = Some r"
    then show thesis using key [OF _ r] False by (simp add: by_key_def ResolveAPIKey_def bindE_def attempt_def returnE_def)
  next
    fix x assume "GetAPIKeyByHash e c (hashAPIKey A k) w = (Inl x, w\<lparr>tick := Suc (tick w)\<rparr>)"
    then show thesis using none False by (simp add: by_key_def ResolveAPIKey_def bindE_def attempt_def returnE_def)
  qed
qed

lemma by_key_none:
  assumes "select_one (live_hash (hashAPIKey A k)) (api_keys w) = None"
  shows "\<exists>w'. by_key e c A k w = (Inr None, w')"
  by (rule by_key_cases [of e c A k w]) (use assms in auto)

text \<open>C12: Once a key has been revoked, it authenticates no request any more, whatever is called in
between: nothing un-revokes it, and no other key has its hash.\<close>

theorem revoked_key_stays_revoked:
  assumes ok: "auth_ok w" "r \<in> set (api_keys w)" "ak_Hash r = hashAPIKey A k"
    and run: "RevokeAPIKey e c (ak_ID r) w = (Inr (), w1)"
    and later: "w2 = fold (run_auth_op e A S mode) ops w1"
  shows "fst (RequireAuth e' c' A (Some S) ''required'' k None w2) = Inr None"
proof -
  let ?h = "hashAPIKey A k"
  have "auth_ok w1" using au.inv_of [OF keeps_RevokeAPIKey, of "{}" w e c "ak_ID r" "Inr ()" w1] ok(1) run
    by (simp add: auth_inv_def RevokeAPIKey_def)
  moreover have "key_dead ?h w1"
  proof -
    have "\<exists>t. api_keys w1 = update_where (live_key (ak_ID r)) (\<lambda>r. r\<lparr>ak_RevokedAt := Some t\<rparr>) (api_keys w)"
      using run by (auto simp: RevokeAPIKey_def store_RevokeAPIKey_def run_values now_run io_run split: if_splits
          dest!: run_dests)
    then obtain t where w1: "api_keys w1 = update_where (live_key (ak_ID r)) (\<lambda>r. r\<lparr>ak_RevokedAt := Some t\<rparr>) (api_keys w)" ..
    have "(if live_key (ak_ID r) r then r\<lparr>ak_RevokedAt := Some t\<rparr> else r) \<in> set (api_keys w1)"
      unfolding w1 update_where_def using ok(2) by simp
    moreover have "ak_Hash (if live_key (ak_ID r) r then r\<lparr>ak_RevokedAt := Some t\<rparr> else r) = ?h
        \<and> ak_RevokedAt (if live_key (ak_ID r) r then r\<lparr>ak_RevokedAt := Some t\<rparr> else r) \<noteq> None"
      by (simp add: ok(3) live_key_def)
    ultimately show ?thesis unfolding key_dead_def list_ex_iff by (rule bexI [rotated])
  qed
  ultimately have "auth_inv {?h} w2" using auth_inv_ops [of "{?h}" w1] later by (simp add: auth_inv_def)
  then have none: "select_one (live_hash ?h) (api_keys w2) = None" using dead_key_not_live by (simp add: auth_inv_def)
  obtain w3 where "by_key e' c' A k w2 = (Inr None, w3)" using by_key_none [OF none] by blast
  then show ?thesis by (simp add: RequireAuth_def by_cookie_def bindE_def returnE_def)
qed

section \<open>Requests\<close>

lemma ResolveSession_value:
  assumes "ResolveSession e c A S cookie w = (Inr (sess, u), w')"
  shows "verifyCookie A S cookie = Some (as_ID sess) \<and> auth_session_by (as_ID sess) w = Some sess
    \<and> user_by (as_UserID sess) w = Some u \<and> clock e (Suc (tick w)) \<le> as_ExpiresAt sess"
proof -
  obtain sid where v: "verifyCookie A S cookie = Some sid"
    using assms by (cases "verifyCookie A S cookie") (auto simp: ResolveSession_def throwE_def)
  from assms v have "auth_session_by sid w = Some sess \<and> user_by (as_UserID sess) w = Some u \<and> clock e (Suc (tick w)) \<le> as_ExpiresAt sess"
    by (auto simp: ResolveSession_def GetAuthSession_def GetUser_def run_values now_run io_run auth_session_by_def user_by_def
        split: if_splits dest!: run_dests)
  moreover from this have "as_ID sess = sid" by (auto simp: auth_session_by_def dest: select_one_Some)
  ultimately show ?thesis using v by simp
qed

text \<open>C10: Where authentication is required, a request is let in only on a key whose hash is that of a
live key, as that key's tenant and user, or else on a cookie that carries the right signature for
a session that has not expired, as the tenant and the user of that session.\<close>

theorem requests_need_a_credential:
  assumes "RequireAuth e c A (Some S) mode k cookie w = (Inr (Some (tenant, user)), w')"
    and "mode \<noteq> ''bypass''" "mode \<noteq> ''optional''"
  shows "(\<exists>r\<in>set (api_keys w). ak_Hash r = hashAPIKey A k \<and> ak_RevokedAt r = None \<and> ak_TenantID r = tenant
            \<and> (case ak_UserID r of None \<Rightarrow> [] | Some x \<Rightarrow> x) = user)
       \<or> (\<exists>v sess u n. cookie = Some v \<and> verifyCookie A S v = Some (as_ID sess) \<and> sess \<in> set (auth_sessions w)
            \<and> u \<in> set (users w) \<and> us_ID u = as_UserID sess \<and> tenant = as_TenantID sess \<and> user = us_ID u
            \<and> clock e n \<le> as_ExpiresAt sess)"
proof -
  show ?thesis
  proof (cases rule: by_key_cases [of e c A k w])
    case (key r n)
    then have "tenant = ak_TenantID r" "user = (case ak_UserID r of None \<Rightarrow> [] | Some u \<Rightarrow> u)"
      using assms(1) by (simp_all add: RequireAuth_def bindE_def returnE_def)
    then show ?thesis using select_one_Some [OF key(2)] by (auto simp: live_hash_def)
  next
    case (none n)
    let ?w = "w\<lparr>tick := n\<rparr>"
    obtain w2 where c: "by_cookie e c A S cookie ?w = (Inr (Some (tenant, user)), w2)"
      using assms none by (auto simp: RequireAuth_def bindE_def returnE_def split: prod.splits sum.splits option.splits)
    then obtain v sess u where v: "cookie = Some v" and res: "ResolveSession e c A S v ?w = (Inr (sess, u), snd (ResolveSession e c A S v ?w))"
      and tu: "tenant = as_TenantID sess" "user = us_ID u"
      by (auto simp: by_cookie_def bindE_def returnE_def attempt_def split: option.splits sum.splits)
        (metis prod.collapse)
    note R = ResolveSession_value [OF res]
    have "sess \<in> set (auth_sessions w)" "u \<in> set (users w)" "us_ID u = as_UserID sess"
      using R by (auto simp: auth_session_by_def user_by_def dest!: select_one_Some)
    then show ?thesis using R v tu by blast
  qed
qed

section \<open>Logging in\<close>

lemma ResolveSession_run:
  assumes e: "no_faults e" "\<And>n. \<not> cancelled c n" and v: "verifyCookie A S cookie = Some sid"
    and sess: "auth_session_by sid w = Some sess" and u: "user_by (as_UserID sess) w = Some u"
  shows "fst (ResolveSession e c A S cookie w)
    = (if clock e (Suc (tick w)) > as_ExpiresAt sess then Inl ErrInvalidCredentials else Inr (sess, u))"
proof -
  have "GetAuthSession e c sid w = (Inr sess, w\<lparr>tick := Suc (tick w)\<rparr>)"
    using sess by (simp add: GetAuthSession_def queryE_ok e bindE_Inr optE_def returnE_def auth_session_by_def)
  moreover have "GetUser e c (as_UserID sess) (w\<lparr>tick := n\<rparr>) = (Inr u, w\<lparr>tick := Suc n\<rparr>)" for n
    using u by (simp add: GetUser_def queryE_ok e bindE_Inr optE_def returnE_def user_by_def)
  ultimately show ?thesis using v
    by (simp add: ResolveSession_def bindE_def now_run ignoreE_def throwE_def returnE_def)
qed

text \<open>A user who gives the right password gets a cookie for a new session of theirs. As long as the
session and the user are in the tables, the cookie resolves to both until the session's time is
over, and not after it.\<close>

theorem login_lasts_until_it_expires:
  assumes e: "no_faults e" "\<And>n. \<not> cancelled c n" and ok: "auth_ok w"
    and u: "u \<in> set (users w)" "verifyPassword A password (us_PasswordHash u)"
    and fresh: "\<And>n. n \<ge> tick w \<Longrightarrow> auth_session_by (''ses-'' @ ToLower (ulid e n)) w = None"
  shows "\<exists>cookie sess w1. Login e c A S (us_Email u) password w = (Inr (cookie, u), w1)
    \<and> auth_sessions w1 = auth_sessions w @ [sess] \<and> users w1 = users w
    \<and> as_UserID sess = us_ID u \<and> as_TenantID sess = us_TenantID u
    \<and> as_ExpiresAt sess = clock e (tick w + 2) + sv_MaxAge S
    \<and> (\<forall>w2. auth_session_by (as_ID sess) w2 = Some sess \<and> user_by (us_ID u) w2 = Some u \<longrightarrow>
        fst (ResolveSession e c A S cookie w2)
          = (if clock e (Suc (tick w2)) > as_ExpiresAt sess then Inl ErrInvalidCredentials else Inr (sess, u)))"
proof -
  define sid where "sid = ''ses-'' @ ToLower (ulid e (Suc (tick w)))"
  let ?sess = "auth_session_row sid (us_ID u) (us_TenantID u) (clock e (tick w + 2) + sv_MaxAge S) (clock e (tick w + 3))"
  let ?w1 = "w\<lparr>tick := tick w + 5, auth_sessions := auth_sessions w @ [?sess]\<rparr>"
  have d: "distinct (map us_Email (users w))" "distinct (map us_ID (users w))" using ok by (simp_all add: auth_ok_def)
  obtain x where x: "select_one (with_email (us_Email u)) (users w) = Some x"
    using select_one_ex [OF u(1), of "with_email (us_Email u)"] by (auto simp: with_email_def)
  moreover have "x = u" using distinct_keyD [OF d(1) _ u(1)] select_one_Some [OF x] by (simp add: with_email_def)
  ultimately have get: "GetUserByEmail e c (us_Email u) w = (Inr u, w\<lparr>tick := Suc (tick w)\<rparr>)"
    by (simp add: GetUserByEmail_def queryE_ok e bindE_Inr optE_def returnE_def)
  have "user_by (us_ID u) w \<noteq> None" using u(1) by (auto simp: user_by_def table_simps)
  then have ins: "auth_session_ok (auth_session_row sid (us_ID u) (us_TenantID u) x y) (w\<lparr>tick := n\<rparr>)" for x y n
    using fresh [of "Suc (tick w)"]
    by (simp add: auth_session_ok_def auth_session_row_def auth_session_by_def user_by_def sid_def)
  have nid: "NewID e ''ses'' (w\<lparr>tick := Suc (tick w)\<rparr>) = (Inr sid, w\<lparr>tick := Suc (Suc (tick w))\<rparr>)"
    by (simp add: NewID_run sid_def)
  have run: "Login e c A S (us_Email u) password w = (Inr (signCookie A S sid, u), ?w1)"
    using u(2)
    by (simp add: Login_def get catchE_def bindE_def nid now_run CreateAuthSession_def Let_def insertE_ok e ins
        returnE_def eval_nat_numeral)
  have cookie: "verifyCookie A S (signCookie A S sid) = Some sid" by (simp add: cookie_roundtrip sid_def)
  have res: "fst (ResolveSession e c A S (signCookie A S sid) w2)
      = (if clock e (Suc (tick w2)) > as_ExpiresAt ?sess then Inl ErrInvalidCredentials else Inr (?sess, u))"
    if "auth_session_by (as_ID ?sess) w2 = Some ?sess" "user_by (us_ID u) w2 = Some u" for w2
    by (rule ResolveSession_run [OF e cookie]) (use that in \<open>simp_all add: auth_session_row_def\<close>)
  show ?thesis
    by (intro exI [of _ "signCookie A S sid"] exI [of _ ?sess] exI [of _ ?w1] conjI allI impI run res)
      (simp_all add: auth_session_row_def)
qed

text \<open>A login with an unknown address and one with a wrong password are answered alike.\<close>

theorem failed_logins_look_alike:
  assumes e: "no_faults e" "\<And>n. \<not> cancelled c n"
    and no: "\<And>u. u \<in> set (users w) \<Longrightarrow> us_Email u = email \<Longrightarrow> \<not> verifyPassword A password (us_PasswordHash u)"
  shows "Login e c A S email password w = (Inl ErrInvalidCredentials, w\<lparr>tick := Suc (tick w)\<rparr>)"
proof (cases "select_one (with_email email) (users w)")
  case None
  then have "GetUserByEmail e c email w = (Inl ErrNotFound, w\<lparr>tick := Suc (tick w)\<rparr>)"
    by (simp add: GetUserByEmail_def queryE_ok e bindE_Inr optE_def throwE_def)
  then show ?thesis by (simp add: Login_def catchE_def bindE_def throwE_def)
next
  case (Some u)
  then have "GetUserByEmail e c email w = (Inr u, w\<lparr>tick := Suc (tick w)\<rparr>)"
    by (simp add: GetUserByEmail_def queryE_ok e bindE_Inr optE_def returnE_def)
  moreover have "\<not> verifyPassword A password (us_PasswordHash u)"
    using no select_one_Some [OF Some] by (simp add: with_email_def)
  ultimately show ?thesis by (simp add: Login_def catchE_def bindE_def throwE_def)
qed

section \<open>Examples\<close>

definition auth_env :: env where
  "auth_env = \<lparr>clock = (\<lambda>n. 1000), ulid = nat_str, fault = (\<lambda>n. None)\<rparr>"

lemma auth_env_ok: "no_faults auth_env" "clock auth_env n = 1000"
  by (simp_all add: no_faults_def auth_env_def)

definition day_service :: auth_service where
  "day_service = NewAuthService ''required'' ''root''"

definition admin_key :: APIKeyRow where
  "admin_key = key_row ''key-1'' 5 \<lparr>ck_TenantID = ''acme'', ck_UserID = ''usr-1'', ck_Name = ''ci'', ck_Prefix = ''je_a'',
     ck_Hash = hashAPIKey plain_auth ''je_a_b''\<rparr>"

definition open_user :: UserRow where
  "open_user = user_row ''usr-1'' 5 \<lparr>cu_TenantID = ''acme'', cu_Email = ''a@b.c'', cu_Name = ''A'',
     cu_PasswordHash = encoded_hash pbkdf2Iter ''salt'' (take 32 (''tulip'' @ ''salt'' @ replicate 32 CHR ''0''))\<rparr>"

definition auth_world :: world where
  "auth_world = empty_world\<lparr>users := [open_user], api_keys := [admin_key]\<rparr>"

lemma auth_world_fields [simp]:
  "users auth_world = [open_user]" "api_keys auth_world = [admin_key]" "auth_sessions auth_world = []" "tick auth_world = 0"
  by (simp_all add: auth_world_def empty_world_def)

lemma auth_world_ok: "auth_ok auth_world"
  by (simp add: auth_ok_def)

lemma admin_key_fields [simp]: "ak_ID admin_key = ''key-1''" "ak_TenantID admin_key = ''acme''" "ak_UserID admin_key = Some ''usr-1''"
  "ak_RevokedAt admin_key = None" "ak_Hash admin_key = hashAPIKey plain_auth ''je_a_b''"
  by (simp_all add: admin_key_def key_row_def or_default_tenant_def nullStr_def)


lemma revoke_admin:
  "RevokeAPIKey auth_env Background ''key-1'' auth_world
     = (Inr (), auth_world\<lparr>tick := 2, api_keys := [admin_key\<lparr>ak_RevokedAt := Some 1000\<rparr>]\<rparr>)"
  by (simp add: RevokeAPIKey_def store_RevokeAPIKey_def bindE_def now_run updateE_ok auth_env_ok affected_def live_key_def
      update_where_def returnE_def eval_nat_numeral)

lemma revoked_key_stays_revoked_witness:
  "fst (RequireAuth auth_env Background plain_auth (Some day_service) ''required'' ''je_a_b'' None
     (fold (run_auth_op auth_env plain_auth day_service ''required'')
        [(Background, IssueKey ''acme'' ''usr-1'' ''ci'')] (snd (RevokeAPIKey auth_env Background ''key-1'' auth_world)))) = Inr None"
proof (rule revoked_key_stays_revoked [OF auth_world_ok _ _ _ refl])
  show "admin_key \<in> set (api_keys auth_world)" "ak_Hash admin_key = hashAPIKey plain_auth ''je_a_b''" by simp_all
  show "RevokeAPIKey auth_env Background (ak_ID admin_key) auth_world
      = (Inr (), snd (RevokeAPIKey auth_env Background ''key-1'' auth_world))"
    by (simp add: revoke_admin)
qed

lemma admin_request:
  "RequireAuth auth_env Background plain_auth (Some day_service) ''required'' ''je_a_b'' None auth_world
     = (Inr (Some (''acme'', ''usr-1'')), auth_world\<lparr>tick := 1\<rparr>)"
  by (simp add: RequireAuth_def by_key_def ResolveAPIKey_def GetAPIKeyByHash_def bindE_def attempt_def queryE_ok auth_env_ok
      select_one_def live_hash_def optE_def returnE_def eval_nat_numeral)

lemma requests_need_a_credential_witness:
  "\<exists>r\<in>set (api_keys auth_world). ak_Hash r = hashAPIKey plain_auth ''je_a_b'' \<and> ak_RevokedAt r = None \<and> ak_TenantID r = ''acme''"
  using requests_need_a_credential [OF admin_request] by auto

lemma login_lasts_until_it_expires_witness:
  "\<exists>cookie w1. Login auth_env Background plain_auth day_service ''a@b.c'' ''tulip'' auth_world = (Inr (cookie, open_user), w1)"
proof -
  have v: "verifyPassword plain_auth ''tulip'' (us_PasswordHash open_user)"
    by (simp add: open_user_def user_row_def verify_encoded pbkdf2KeyLen_def) (simp add: plain_auth_def)
  show ?thesis
    using login_lasts_until_it_expires [OF auth_env_ok(1) cancelled_simps(1) auth_world_ok _ v, of day_service]
    by (auto simp: auth_session_by_def select_one_def open_user_def user_row_def)
qed

lemma failed_logins_look_alike_witness:
  "fst (Login auth_env Background plain_auth day_service ''x@y.z'' ''tulip'' auth_world) = Inl ErrInvalidCredentials"
  using failed_logins_look_alike [OF auth_env_ok(1) cancelled_simps(1), of auth_world "''x@y.z''" plain_auth "''tulip''" day_service]
  by (simp add: open_user_def user_row_def)

end
