(* ===== verification/SseLines.thy ===== *)
theory SseLines
  imports JsonCodec
begin

text \<open>
  Reading server-sent events: the lines \<open>bufio.Scanner\<close> yields of a body, the data of a line, and
  what a server that prints a JSON document on a data line makes the reader see. The readers are
  those of \<open>internal/provider/anthropic.go\<close>, \<open>internal/provider/oaicompat.go\<close> and
  \<open>internal/mcp/client.go\<close>.
\<close>

section \<open>The scanner\<close>

definition drop_cr :: "string \<Rightarrow> string" where
  "drop_cr l = (if l \<noteq> [] \<and> last l = CHR 0x0D then butlast l else l)"

text \<open>A last line without a line end counts if it is not empty.\<close>

definition body_lines :: "string \<Rightarrow> string list" where
  "body_lines s = (let ps = split_char (CHR 0x0A) s in if last ps = [] then butlast ps else ps)"

text \<open>The scanner ends with an error at the first line that does not fit its buffer.\<close>

definition ScanLines :: "nat \<Rightarrow> string \<Rightarrow> string list \<times> bool" where
  "ScanLines limit s =
     (let ls = body_lines s; ok = takeWhile (\<lambda>l. length l < limit) ls in (map drop_cr ok, length ok < length ls))"

definition mebibytes :: "nat \<Rightarrow> nat" where
  "mebibytes n = n * 1024 * 1024"

text \<open>What follows \<open>data:\<close>, trimmed; other lines carry no data.\<close>

definition sse_data :: "string \<Rightarrow> string option" where
  "sse_data l = (if HasPrefix l ''data:'' then Some (TrimSpace (TrimPrefix l ''data:'')) else None)"

section \<open>A printed document is one line\<close>

definition printable :: "string \<Rightarrow> bool" where
  "printable s \<longleftrightarrow> (\<forall>c \<in> set s. 32 \<le> (of_char c :: nat))"

lemma printable_simps [simp]:
  "printable []" "printable (c # s) \<longleftrightarrow> 32 \<le> (of_char c :: nat) \<and> printable s"
  "printable (s @ t) \<longleftrightarrow> printable s \<and> printable t"
  by (auto simp: printable_def)

lemma hex_digit_printable: "n < 16 \<Longrightarrow> 32 \<le> (of_char (hex_digit n) :: nat)"
  by (simp add: hex_digit_def)

lemma esc_printable: "printable (esc_char c)"
proof -
  have "x div 16 < 16" if "x < 256" for x :: nat using that by simp
  then have "(of_char c :: nat) div 16 < 16" using of_char_less_256 [of c] by blast
  then show ?thesis by (simp add: esc_char_def Let_def hex_digit_printable)
qed

lemma escs_printable: "printable (concat (map esc_char s))"
  by (induction s) (simp_all add: esc_printable)

lemma quote_printable: "printable (quote_json s)"
  by (simp add: quote_json_def escs_printable)

lemma join_printable: "printable sep \<Longrightarrow> (\<And>x. x \<in> set xs \<Longrightarrow> printable x) \<Longrightarrow> printable (join sep xs)"
  by (induction sep xs rule: join.induct) auto

lemma digits_printable: "printable (nat_str n)"
  unfolding printable_def
proof
  fix c assume "c \<in> set (nat_str n)"
  from nat_str_digits [OF this] show "32 \<le> (of_char c :: nat)" by (simp add: is_digit_def Let_def)
qed

lemma int_printable: "printable (int_str i)"
  by (simp add: int_str_def digits_printable)

lemma jprint_printable: "wf_json v \<Longrightarrow> printable (jprint v)"
proof (induction v)
  case (JArr vs)
  then show ?case by (auto simp: list_all_iff intro!: join_printable)
next
  case (JObj kvs)
  have "printable (quote_json (fst kv) @ '':'' @ jprint (snd kv))" if "kv \<in> set kvs" for kv
    using JObj that by (cases kv) (auto simp: quote_printable list_all_iff snds.simps)
  then show ?case by (auto intro!: join_printable)
qed (auto simp: quote_printable int_printable)

lemma printable_no_end: "printable s \<Longrightarrow> CHR 0x0A \<notin> set s"
  by (auto simp: printable_def)

lemma drop_cr_printable: "printable s \<Longrightarrow> drop_cr s = s"
proof -
  assume "printable s"
  then have "last s \<noteq> CHR 0x0D" if "s \<noteq> []" using last_in_set [OF that] by (auto simp: printable_def)
  then show ?thesis by (cases "s = []") (simp_all add: drop_cr_def)
qed

section \<open>Lines and frames\<close>

definition nl :: char where
  "nl = CHR 0x0A"

lemma split_line: "c \<notin> set l \<Longrightarrow> split_char c (l @ c # s) = l # split_char c s"
  by (induction l) auto

lemma split_not_Nil [simp]: "split_char c s \<noteq> []"
  by (induction s) (auto split: list.splits)

lemma body_lines_Nil [simp]: "body_lines [] = []"
  by (simp add: body_lines_def)

lemma body_lines_line: "nl \<notin> set l \<Longrightarrow> body_lines (l @ nl # s) = l # body_lines s"
  by (simp add: body_lines_def nl_def split_line Let_def)

lemma body_lines_lines:
  "(\<And>l. l \<in> set ls \<Longrightarrow> nl \<notin> set l) \<Longrightarrow> body_lines (concat (map (\<lambda>l. l @ [nl]) ls) @ s) = ls @ body_lines s"
  by (induction ls) (simp_all add: body_lines_line)

text \<open>A server writes the name of an event, its document on one line, and an empty line.\<close>

definition sse_frame :: "string \<Rightarrow> json \<Rightarrow> string list" where
  "sse_frame name doc = [''event: '' @ name, ''data: '' @ jprint doc, []]"

definition lines_text :: "string list \<Rightarrow> string" where
  "lines_text ls = concat (map (\<lambda>l. l @ [nl]) ls)"

lemma ScanLines_text:
  assumes "\<And>l. l \<in> set ls \<Longrightarrow> printable l \<and> length l < limit"
  shows "ScanLines limit (lines_text ls) = (ls, False)"
proof -
  have "body_lines (lines_text ls @ []) = ls @ body_lines []"
    unfolding lines_text_def by (rule body_lines_lines) (use assms printable_no_end in \<open>auto simp: nl_def\<close>)
  then have b: "body_lines (lines_text ls) = ls" by simp
  moreover have "takeWhile (\<lambda>l. length l < limit) ls = ls" using assms by (auto simp: takeWhile_eq_all_conv)
  moreover have "map drop_cr ls = ls" using assms drop_cr_printable by (simp add: map_idI)
  ultimately show ?thesis by (simp only: ScanLines_def Let_def less_irrefl)
qed

lemma TrimSpace_doc:
  assumes "wf_json (JObj kvs)"
  shows "TrimSpace ('' '' @ jprint (JObj kvs)) = jprint (JObj kvs)"
proof -
  obtain s where s: "jprint (JObj kvs) = CHR ''{'' # s @ [CHR ''}'']" by simp
  show ?thesis unfolding s by (simp add: TrimSpace_def is_space_def)
qed

lemma sse_data_doc: "wf_json (JObj kvs) \<Longrightarrow> sse_data (''data: '' @ jprint (JObj kvs)) = Some (jprint (JObj kvs))"
  using TrimSpace_doc [of kvs] TrimPrefix_append [of "''data:''" "'' '' @ jprint (JObj kvs)"]
    HasPrefix_append [of "''data:''" "'' '' @ jprint (JObj kvs)"] by (simp add: sse_data_def del: jprint.simps)

lemma sse_data_other [simp]: "sse_data (''event: '' @ name) = None" "sse_data [] = None"
  by (simp_all add: sse_data_def)

end
