(* ===== verification/Anthropic.thy ===== *)
theory Anthropic
  imports Provider SseLines
begin

text \<open>
  The client of the Messages API (\<open>internal/provider/anthropic.go\<close>): the request it sends and the
  stream it reads. The HTTP client is a parameter: at a tick it fails or answers with a status and
  the body that was received before the connection ended. A raw message in a request comes out of a
  decoded document, so \<open>None\<close> is the empty one.
\<close>

section \<open>HTTP\<close>

record http_call =
  hc_URL :: string
  hc_Header :: "(string \<times> string) list"
  hc_Body :: string

text \<open>
  \<open>hl_BadURL\<close> is the error of \<open>http.NewRequest\<close> for a URL, \<open>hl_Do\<close> the exchange, and \<open>hl_Done\<close>
  whether the context is done when the n-th line of the answer is read.
\<close>

record http_lib =
  hl_BadURL :: "string \<Rightarrow> gerr option"
  hl_Do :: "nat \<Rightarrow> http_call \<Rightarrow> string + int \<times> string"
  hl_Done :: "nat \<Rightarrow> nat \<Rightarrow> bool"

text \<open>\<open>Header.Set\<close>: names are equal up to case.\<close>

definition set_header :: "string \<times> string \<Rightarrow> (string \<times> string) list \<Rightarrow> (string \<times> string) list" where
  "set_header kv hs = filter (\<lambda>h. ToLower (fst h) \<noteq> ToLower (fst kv)) hs @ [kv]"

definition TrimRight :: "char \<Rightarrow> string \<Rightarrow> string" where
  "TrimRight c s = rev (dropWhile (\<lambda>x. x = c) (rev s))"

text \<open>The exchange both clients share, up to the reading of the stream.\<close>

definition exchange ::
  "http_lib \<Rightarrow> string \<Rightarrow> (string \<times> string) list \<Rightarrow> raw \<Rightarrow> nat \<Rightarrow> (string \<Rightarrow> chat_event list) \<Rightarrow> gerr + chat_event list" where
  "exchange L url hs body n parse =
     (case hl_BadURL L url of
        Some err \<Rightarrow> Inl err
      | None \<Rightarrow>
          (case hl_Do L n \<lparr>hc_URL = url, hc_Header = hs, hc_Body = raw_text body\<rparr> of
             Inl m \<Rightarrow> Inl (ApiErr 0 ''network'' m)
           | Inr (status, received) \<Rightarrow>
               (if status \<ge> 400 then Inl (ApiErr status ''http_error'' received) else Inr (parse received))))"

section \<open>The request\<close>

record antMessage =
  xm_Role :: string
  xm_Content :: "json list"

record antTool =
  xt_Name :: string
  xt_Description :: string
  xt_InputSchema :: json
  xt_CacheControl :: "json option"

record antRequest =
  aq_Model :: string
  aq_MaxTokens :: int
  aq_System :: "json option"
  aq_Messages :: "antMessage list"
  aq_Tools :: "antTool list"
  aq_Temperature :: "string option"
  aq_Stream :: bool

definition ephemeral :: json where
  "ephemeral = JObj [(''type'', JStr ''ephemeral'')]"

text \<open>The members of a \<open>map[string]any\<close> are written in the order of their names.\<close>

definition toAntBlock :: "content_block \<Rightarrow> json" where
  "toAntBlock b =
     (if cb_Type b = ''tool_use'' then
        JObj [(''id'', JStr (cb_ToolUseID b)),
              (''input'', case cb_ToolInput b of None \<Rightarrow> JObj [] | Some v \<Rightarrow> v),
              (''name'', JStr (cb_ToolName b)), (''type'', JStr ''tool_use'')]
      else if cb_Type b = ''tool_result'' then
        JObj [(''content'', JStr (cb_ToolResult b)), (''is_error'', JBool (cb_IsError b)),
              (''tool_use_id'', JStr (cb_ToolUseID b)), (''type'', JStr ''tool_result'')]
      else JObj [(''text'', JStr (cb_Text b)), (''type'', JStr ''text'')])"

definition ant_role :: "role \<Rightarrow> string" where
  "ant_role r = (if r = RoleAssistant then ''assistant'' else ''user'')"

definition ant_tool :: "tool_def \<Rightarrow> antTool" where
  "ant_tool t = \<lparr>xt_Name = td_Name t, xt_Description = td_Description t,
     xt_InputSchema = (case td_InputSchema t of None \<Rightarrow> JObj [(''type'', JStr ''object'')] | Some v \<Rightarrow> v),
     xt_CacheControl = None\<rparr>"

definition mark_last :: "antTool list \<Rightarrow> antTool list" where
  "mark_last ts = (if ts = [] then [] else butlast ts @ [(last ts)\<lparr>xt_CacheControl := Some ephemeral\<rparr>])"

text \<open>The temperature, a \<open>float64\<close>, is passed as the text it is printed as, if it is positive.\<close>

definition buildAnthropicRequest :: "chat_request \<Rightarrow> string option \<Rightarrow> bool \<Rightarrow> antRequest" where
  "buildAnthropicRequest req temperature enableCaching =
     \<lparr>aq_Model = cr_Model req,
      aq_MaxTokens = (if cr_MaxTokens req \<le> 0 then 4096 else cr_MaxTokens req),
      aq_System = (if cr_System req = [] then None
                   else if enableCaching
                   then Some (JArr [JObj [(''cache_control'', ephemeral), (''text'', JStr (cr_System req)), (''type'', JStr ''text'')]])
                   else Some (JStr (cr_System req))),
      aq_Messages = map (\<lambda>m. \<lparr>xm_Role = ant_role (m_Role m), xm_Content = map toAntBlock (m_Content m)\<rparr>) (cr_Messages req),
      aq_Tools = (if enableCaching then mark_last (map ant_tool (cr_Tools req)) else map ant_tool (cr_Tools req)),
      aq_Temperature = temperature, aq_Stream = True\<rparr>"

text \<open>A nil slice is written as \<open>null\<close>.\<close>

definition jslice :: "json list \<Rightarrow> json" where
  "jslice vs = (if vs = [] then JNull else JArr vs)"

definition opt_member :: "string \<Rightarrow> json option \<Rightarrow> (string \<times> json) list" where
  "opt_member k v = (case v of None \<Rightarrow> [] | Some x \<Rightarrow> [(k, x)])"

definition ant_message_json :: "antMessage \<Rightarrow> json" where
  "ant_message_json m = JObj [(''role'', JStr (xm_Role m)), (''content'', jslice (xm_Content m))]"

definition ant_tool_json :: "antTool \<Rightarrow> json" where
  "ant_tool_json t = JObj ([(''name'', JStr (xt_Name t))]
     @ opt_member ''description'' (if xt_Description t = [] then None else Some (JStr (xt_Description t)))
     @ [(''input_schema'', xt_InputSchema t)] @ opt_member ''cache_control'' (xt_CacheControl t))"

definition ant_request_json :: "antRequest \<Rightarrow> json" where
  "ant_request_json q = JObj ([(''model'', JStr (aq_Model q)), (''max_tokens'', jint (aq_MaxTokens q))]
     @ opt_member ''system'' (aq_System q)
     @ [(''messages'', jslice (map ant_message_json (aq_Messages q)))]
     @ opt_member ''tools'' (if aq_Tools q = [] then None else Some (JArr (map ant_tool_json (aq_Tools q))))
     @ opt_member ''temperature'' (map_option JNum (aq_Temperature q))
     @ [(''stream'', JBool (aq_Stream q))])"

section \<open>Stream documents\<close>

record ant_block =
  ab_Type :: string
  ab_ID :: string
  ab_Name :: string

record ant_delta =
  ad_Type :: string
  ad_Text :: string
  ad_PartialJSON :: string
  ad_StopReason :: string

record antStreamEvent =
  xe_Type :: string
  xe_Index :: int
  xe_Message :: "usage option"
  xe_ContentBlock :: "ant_block option"
  xe_Delta :: "ant_delta option"
  xe_Usage :: "usage option"
  xe_Error :: "(string \<times> string) option"

definition dec_ant_usage :: "usage dec" where
  "dec_ant_usage = dec_struct
     [fld ''input_tokens'' u_InputTokens u_InputTokens_update dec_int64,
      fld ''output_tokens'' u_OutputTokens u_OutputTokens_update dec_int64,
      fld ''cache_creation_input_tokens'' u_CacheCreation u_CacheCreation_update dec_int64,
      fld ''cache_read_input_tokens'' u_CacheRead u_CacheRead_update dec_int64]"

definition dec_ant_message :: "usage dec" where
  "dec_ant_message = dec_struct [fld ''usage'' (\<lambda>u. u) (\<lambda>f u. f u) dec_ant_usage]"

definition dec_ant_block :: "ant_block dec" where
  "dec_ant_block = dec_struct
     [fld ''type'' ab_Type ab_Type_update dec_str, fld ''id'' ab_ID ab_ID_update dec_str,
      fld ''name'' ab_Name ab_Name_update dec_str]"

definition dec_ant_delta :: "ant_delta dec" where
  "dec_ant_delta = dec_struct
     [fld ''type'' ad_Type ad_Type_update dec_str, fld ''text'' ad_Text ad_Text_update dec_str,
      fld ''partial_json'' ad_PartialJSON ad_PartialJSON_update dec_str,
      fld ''stop_reason'' ad_StopReason ad_StopReason_update dec_str]"

definition dec_ant_error :: "(string \<times> string) dec" where
  "dec_ant_error = dec_struct
     [fld ''type'' fst (\<lambda>f (t, m). (f t, m)) dec_str, fld ''message'' snd (\<lambda>f (t, m). (t, f m)) dec_str]"

definition zero_ant_block :: ant_block where
  "zero_ant_block = \<lparr>ab_Type = [], ab_ID = [], ab_Name = []\<rparr>"

definition zero_ant_delta :: ant_delta where
  "zero_ant_delta = \<lparr>ad_Type = [], ad_Text = [], ad_PartialJSON = [], ad_StopReason = []\<rparr>"

definition zero_ant_event :: antStreamEvent where
  "zero_ant_event = \<lparr>xe_Type = [], xe_Index = 0, xe_Message = None, xe_ContentBlock = None, xe_Delta = None,
     xe_Usage = None, xe_Error = None\<rparr>"

definition ant_event_fields :: "antStreamEvent field list" where
  "ant_event_fields =
     [fld ''type'' xe_Type xe_Type_update dec_str, fld ''index'' xe_Index xe_Index_update dec_int64,
      fld ''message'' xe_Message xe_Message_update (dec_ptr zero_usage dec_ant_message),
      fld ''content_block'' xe_ContentBlock xe_ContentBlock_update (dec_ptr zero_ant_block dec_ant_block),
      fld ''delta'' xe_Delta xe_Delta_update (dec_ptr zero_ant_delta dec_ant_delta),
      fld ''usage'' xe_Usage xe_Usage_update (dec_ptr zero_usage dec_ant_usage),
      fld ''error'' xe_Error xe_Error_update (dec_ptr ([], []) dec_ant_error)]"

definition dec_ant_event :: "antStreamEvent dec" where
  "dec_ant_event = dec_struct ant_event_fields"

section \<open>Reading the stream\<close>

definition mapAnthropicStop :: "string \<Rightarrow> string" where
  "mapAnthropicStop reason =
     (if reason = ''end_turn'' \<or> reason = ''stop_sequence'' then ''end_turn''
      else if reason = ''tool_use'' then ''tool_use''
      else if reason = ''max_tokens'' then ''max_tokens'' else reason)"

record ant_reader =
  xr_Tools :: "int \<rightharpoonup> string"
  xr_Usage :: usage
  xr_Stop :: string

definition ant_start :: ant_reader where
  "ant_start = \<lparr>xr_Tools = Map.empty, xr_Usage = zero_usage, xr_Stop = ''end_turn''\<rparr>"

text \<open>One document: what is sent on, and the state to go on with, or the end.\<close>

definition started_usage :: "usage \<Rightarrow> ant_reader \<Rightarrow> ant_reader" where
  "started_usage u st = st\<lparr>xr_Usage := u\<rparr>"

definition ant_delta_events :: "antStreamEvent \<Rightarrow> ant_reader \<Rightarrow> chat_event list" where
  "ant_delta_events ev st =
     (case xe_Delta ev of
        None \<Rightarrow> []
      | Some d \<Rightarrow>
          (if ad_Type d = ''text_delta'' then (if ad_Text d \<noteq> [] then [TextDelta (ad_Text d)] else [])
           else if ad_Type d = ''input_json_delta'' then
             [ToolUseDelta (case xr_Tools st (xe_Index ev) of None \<Rightarrow> [] | Some i \<Rightarrow> i) (ad_PartialJSON d)]
           else []))"

definition ant_message_delta :: "antStreamEvent \<Rightarrow> ant_reader \<Rightarrow> ant_reader" where
  "ant_message_delta ev st =
     (let st1 = (case xe_Delta ev of
                   Some d \<Rightarrow> (if ad_StopReason d \<noteq> [] then st\<lparr>xr_Stop := mapAnthropicStop (ad_StopReason d)\<rparr> else st)
                 | None \<Rightarrow> st)
      in case xe_Usage ev of
           None \<Rightarrow> st1
         | Some u \<Rightarrow> st1\<lparr>xr_Usage := (xr_Usage st1)\<lparr>u_OutputTokens := u_OutputTokens u\<rparr>\<rparr>)"

definition ant_error_event :: "string \<Rightarrow> antStreamEvent \<Rightarrow> chat_event" where
  "ant_error_event data ev =
     (case xe_Error ev of
        None \<Rightarrow> ErrorEvent ''anthropic_error'' data 0
      | Some (t, m) \<Rightarrow> ErrorEvent (if t \<noteq> [] then t else ''anthropic_error'') (if m \<noteq> [] then m else data) 0)"

definition ant_step :: "string \<Rightarrow> antStreamEvent \<Rightarrow> ant_reader \<Rightarrow> chat_event list \<times> ant_reader option" where
  "ant_step data ev st =
     (if xe_Type ev = ''message_start'' then
        ([], Some (case xe_Message ev of None \<Rightarrow> st | Some u \<Rightarrow> started_usage u st))
      else if xe_Type ev = ''content_block_start'' then
        (case xe_ContentBlock ev of
           None \<Rightarrow> ([], Some st)
         | Some b \<Rightarrow>
             (if ab_Type b = ''tool_use''
              then ([ToolUseStart (ab_ID b) (ab_Name b)], Some (st\<lparr>xr_Tools := (xr_Tools st)(xe_Index ev \<mapsto> ab_ID b)\<rparr>))
              else ([], Some st)))
      else if xe_Type ev = ''content_block_delta'' then (ant_delta_events ev st, Some st)
      else if xe_Type ev = ''message_delta'' then ([], Some (ant_message_delta ev st))
      else if xe_Type ev = ''error'' then ([ant_error_event data ev, StopReason ''error'' (xr_Usage st)], None)
      else if xe_Type ev = ''message_stop'' then ([StopReason (xr_Stop st) (xr_Usage st)], None)
      else ([], Some st))"

text \<open>The document of a line, if it is one the loop looks at.\<close>

definition ant_line :: "string \<Rightarrow> (string \<times> antStreamEvent) option" where
  "ant_line l =
     (case sse_data l of
        None \<Rightarrow> None
      | Some data \<Rightarrow>
          (if data = [] then None
           else (case unmarshal dec_ant_event zero_ant_event (jparse data) of
                   (ev, err) \<Rightarrow> (if err then None else Some (data, ev)))))"

fun ant_lines :: "(nat \<Rightarrow> bool) \<Rightarrow> nat \<Rightarrow> string list \<Rightarrow> ant_reader \<Rightarrow> chat_event list" where
  "ant_lines done n [] st = [StopReason (xr_Stop st) (xr_Usage st)]"
| "ant_lines done n (l # ls) st =
     (if done n then []
      else (case ant_line l of
              None \<Rightarrow> ant_lines done (Suc n) ls st
            | Some (data, ev) \<Rightarrow>
                (case ant_step data ev st of
                   (evs, None) \<Rightarrow> evs
                 | (evs, Some st') \<Rightarrow> evs @ ant_lines done (Suc n) ls st')))"

definition parseAnthropicStream :: "(nat \<Rightarrow> bool) \<Rightarrow> string \<Rightarrow> chat_event list" where
  "parseAnthropicStream done body = ant_lines done 0 (fst (ScanLines (mebibytes 4) body)) ant_start"

section \<open>The provider\<close>

record AnthropicProvider =
  ap_BaseURL :: string
  ap_APIKey :: string
  ap_Version :: string
  ap_Headers :: "(string \<times> string) list"
  ap_NameStr :: string
  ap_EnableCaching :: bool

definition NewAnthropic :: "string \<Rightarrow> string \<Rightarrow> string \<Rightarrow> AnthropicProvider" where
  "NewAnthropic baseURL apiKey name =
     \<lparr>ap_BaseURL = TrimRight (CHR ''/'') (if baseURL = [] then ''https://api.anthropic.com'' else baseURL),
      ap_APIKey = apiKey, ap_Version = ''2023-06-01'', ap_Headers = [],
      ap_NameStr = (if name = [] then ''anthropic'' else name), ap_EnableCaching = True\<rparr>"

definition anthropic_Name :: "AnthropicProvider \<Rightarrow> string" where
  "anthropic_Name p = (if ap_NameStr p = [] then ''anthropic'' else ap_NameStr p)"

definition anthropic_headers :: "AnthropicProvider \<Rightarrow> (string \<times> string) list" where
  "anthropic_headers p = fold set_header (ap_Headers p)
     ([(''Content-Type'', ''application/json''), (''Accept'', ''text/event-stream''), (''anthropic-version'', ap_Version p)]
      @ (if ap_APIKey p \<noteq> [] then [(''x-api-key'', ap_APIKey p)] else []))"

definition anthropic_Stream :: "http_lib \<Rightarrow> AnthropicProvider \<Rightarrow> provider" where
  "anthropic_Stream L p n req =
     exchange L (ap_BaseURL p @ ''/v1/messages'') (anthropic_headers p)
       (Some (ant_request_json (buildAnthropicRequest req None (ap_EnableCaching p)))) n (parseAnthropicStream (hl_Done L n))"

end
