(* ===== verification/OaiCompat.thy ===== *)
theory OaiCompat
  imports Anthropic
begin

text \<open>
  The client of OpenAI-compatible gateways (\<open>internal/provider/oaicompat.go\<close>): the conversion of
  messages, the request, and the stream it reads.
\<close>

section \<open>Messages\<close>

record oaiToolCall =
  oi_ID :: string
  oi_Name :: string
  oi_Arguments :: string

record oaiMessage =
  om_Role :: string
  om_Content :: "string option"
  om_ToolCalls :: "oaiToolCall list"
  om_ToolCallID :: string

definition plain_message :: "string \<Rightarrow> oaiMessage" where
  "plain_message role = \<lparr>om_Role = role, om_Content = None, om_ToolCalls = [], om_ToolCallID = []\<rparr>"

fun role_str :: "role \<Rightarrow> string" where
  "role_str RoleSystem = ''system''"
| "role_str RoleUser = ''user''"
| "role_str RoleAssistant = ''assistant''"
| "role_str RoleTool = ''tool''"

text \<open>The assistant message, the tool messages and the text of the user, as far as the blocks were visited.\<close>

record conversion =
  cv_Assistant :: "oaiMessage option"
  cv_ToolResults :: "oaiMessage list"
  cv_UserText :: string

definition the_assistant :: "conversion \<Rightarrow> oaiMessage" where
  "the_assistant s = (case cv_Assistant s of None \<Rightarrow> plain_message ''assistant'' | Some a \<Rightarrow> a)"

definition append_text :: "string \<Rightarrow> oaiMessage \<Rightarrow> oaiMessage" where
  "append_text t a = a\<lparr>om_Content := Some ((case om_Content a of None \<Rightarrow> [] | Some x \<Rightarrow> x) @ t)\<rparr>"

definition arguments_of :: "content_block \<Rightarrow> string" where
  "arguments_of b = (if raw_text (cb_ToolInput b) = [] then ''{}'' else raw_text (cb_ToolInput b))"

definition convert_block :: "string \<Rightarrow> content_block \<Rightarrow> conversion \<Rightarrow> conversion" where
  "convert_block role b s =
     (if cb_Type b = ''text'' then
        (if role = ''assistant'' then s\<lparr>cv_Assistant := Some (append_text (cb_Text b) (the_assistant s))\<rparr>
         else s\<lparr>cv_UserText := cv_UserText s @ cb_Text b\<rparr>)
      else if cb_Type b = ''tool_use'' then
        s\<lparr>cv_Assistant := Some ((the_assistant s)\<lparr>om_ToolCalls := om_ToolCalls (the_assistant s) @
             [\<lparr>oi_ID = cb_ToolUseID b, oi_Name = cb_ToolName b, oi_Arguments = arguments_of b\<rparr>]\<rparr>)\<rparr>
      else if cb_Type b = ''tool_result'' then
        s\<lparr>cv_ToolResults := cv_ToolResults s @
             [(plain_message ''tool'')\<lparr>om_ToolCallID := cb_ToolUseID b, om_Content := Some (cb_ToolResult b)\<rparr>]\<rparr>
      else s)"

definition convertMessageToOAI :: "message \<Rightarrow> oaiMessage list" where
  "convertMessageToOAI m =
     (let role = role_str (m_Role m);
          s = fold (convert_block role) (m_Content m) \<lparr>cv_Assistant = None, cv_ToolResults = [], cv_UserText = []\<rparr>
      in (case cv_Assistant s of None \<Rightarrow> [] | Some a \<Rightarrow> [a])
         @ (if cv_UserText s \<noteq> [] then [(plain_message role)\<lparr>om_Content := Some (cv_UserText s)\<rparr>] else [])
         @ cv_ToolResults s)"

section \<open>The request\<close>

record oaiRequest =
  oq_Model :: string
  oq_Messages :: "oaiMessage list"
  oq_Tools :: "tool_def list"
  oq_MaxTokens :: int

text \<open>The type of a tool is always \<open>function\<close>; every request streams and asks for the usage.\<close>

definition buildOAIRequest :: "chat_request \<Rightarrow> oaiRequest" where
  "buildOAIRequest req =
     \<lparr>oq_Model = cr_Model req,
      oq_Messages = (if cr_System req \<noteq> [] then [(plain_message ''system'')\<lparr>om_Content := Some (cr_System req)\<rparr>] else [])
        @ concat (map convertMessageToOAI (cr_Messages req)),
      oq_Tools = cr_Tools req, oq_MaxTokens = cr_MaxTokens req\<rparr>"

definition opt_text :: "string \<Rightarrow> string \<Rightarrow> (string \<times> json) list" where
  "opt_text k s = (if s = [] then [] else [(k, JStr s)])"

definition oai_call_json :: "oaiToolCall \<Rightarrow> json" where
  "oai_call_json c = JObj (opt_text ''id'' (oi_ID c) @ [(''type'', JStr ''function''),
     (''function'', JObj (opt_text ''name'' (oi_Name c) @ [(''arguments'', JStr (oi_Arguments c))]))])"

definition oai_message_json :: "oaiMessage \<Rightarrow> json" where
  "oai_message_json m = JObj ([(''role'', JStr (om_Role m))]
     @ opt_member ''content'' (map_option JStr (om_Content m))
     @ opt_member ''tool_calls'' (if om_ToolCalls m = [] then None else Some (JArr (map oai_call_json (om_ToolCalls m))))
     @ opt_text ''tool_call_id'' (om_ToolCallID m))"

definition oai_tool_json :: "tool_def \<Rightarrow> json" where
  "oai_tool_json t = JObj [(''type'', JStr ''function''),
     (''function'', JObj [(''name'', JStr (td_Name t)), (''description'', JStr (td_Description t)),
        (''parameters'', case td_InputSchema t of None \<Rightarrow> JNull | Some v \<Rightarrow> v)])]"

definition oai_request_json :: "oaiRequest \<Rightarrow> json" where
  "oai_request_json q = JObj ([(''model'', JStr (oq_Model q)), (''messages'', jslice (map oai_message_json (oq_Messages q)))]
     @ opt_member ''tools'' (if oq_Tools q = [] then None else Some (JArr (map oai_tool_json (oq_Tools q))))
     @ (if oq_MaxTokens q = 0 then [] else [(''max_tokens'', jint (oq_MaxTokens q))])
     @ [(''stream'', JBool True), (''stream_options'', JObj [(''include_usage'', JBool True)])])"

section \<open>Stream documents\<close>

record oaiToolCallDelta =
  od_Index :: int
  od_ID :: string
  od_Name :: string
  od_Arguments :: string

record oaiChoice =
  oc_Content :: string
  oc_ToolCalls :: "oaiToolCallDelta list"
  oc_FinishReason :: string

record oaiStreamResp =
  oe_Choices :: "oaiChoice list"
  oe_Usage :: "(int \<times> int) option"

text \<open>
  The members the loop never reads (the index of a choice, the role of a delta, the type of a call)
  are decoded all the same: a value of another kind there makes the document an error.
\<close>

definition dec_ignored :: "'a dec \<Rightarrow> 'a \<Rightarrow> 'r dec" where
  "dec_ignored d zero v r = (r, snd (d v zero))"

definition zero_call_delta :: oaiToolCallDelta where
  "zero_call_delta = \<lparr>od_Index = 0, od_ID = [], od_Name = [], od_Arguments = []\<rparr>"

definition zero_choice :: oaiChoice where
  "zero_choice = \<lparr>oc_Content = [], oc_ToolCalls = [], oc_FinishReason = []\<rparr>"

definition zero_resp :: oaiStreamResp where
  "zero_resp = \<lparr>oe_Choices = [], oe_Usage = None\<rparr>"

definition dec_call_function :: "oaiToolCallDelta dec" where
  "dec_call_function = dec_struct
     [fld ''name'' od_Name od_Name_update dec_str, fld ''arguments'' od_Arguments od_Arguments_update dec_str]"

definition dec_call_delta :: "oaiToolCallDelta dec" where
  "dec_call_delta = dec_struct
     [fld ''index'' od_Index od_Index_update dec_int64, fld ''id'' od_ID od_ID_update dec_str,
      (''type'', dec_ignored dec_str []), (''function'', dec_call_function)]"

definition dec_delta :: "oaiChoice dec" where
  "dec_delta = dec_struct
     [(''role'', dec_ignored dec_str []), fld ''content'' oc_Content oc_Content_update dec_str,
      fld ''tool_calls'' oc_ToolCalls oc_ToolCalls_update (dec_list zero_call_delta dec_call_delta)]"

definition dec_choice :: "oaiChoice dec" where
  "dec_choice = dec_struct
     [(''index'', dec_ignored dec_int64 0), (''delta'', dec_delta),
      fld ''finish_reason'' oc_FinishReason oc_FinishReason_update dec_str]"

definition dec_oai_usage :: "(int \<times> int) dec" where
  "dec_oai_usage = dec_struct
     [fld ''prompt_tokens'' fst (\<lambda>f (i, j). (f i, j)) dec_int64,
      fld ''completion_tokens'' snd (\<lambda>f (i, j). (i, f j)) dec_int64]"

definition dec_oai_resp :: "oaiStreamResp dec" where
  "dec_oai_resp = dec_struct
     [fld ''choices'' oe_Choices oe_Choices_update (dec_list zero_choice dec_choice),
      fld ''usage'' oe_Usage oe_Usage_update (dec_ptr (0, 0) dec_oai_usage)]"

section \<open>Reading the stream\<close>

record toolCallAccum =
  ta_ID :: string
  ta_Name :: string
  ta_Arguments :: string

record oai_reader =
  ox_Tools :: "int \<rightharpoonup> toolCallAccum"
  ox_Usage :: usage
  ox_Stop :: string
  ox_StopSet :: bool

definition oai_start :: oai_reader where
  "oai_start = \<lparr>ox_Tools = Map.empty, ox_Usage = zero_usage, ox_Stop = ''end_turn'', ox_StopSet = False\<rparr>"

text \<open>One part of a tool call: the accumulated call keeps the identifier for the parts that do not carry it.\<close>

definition oai_call_step :: "oaiToolCallDelta \<Rightarrow> oai_reader \<Rightarrow> chat_event list \<times> oai_reader" where
  "oai_call_step tc st =
     (let acc = (case ox_Tools st (od_Index tc) of None \<Rightarrow> \<lparr>ta_ID = [], ta_Name = [], ta_Arguments = []\<rparr> | Some a \<Rightarrow> a);
          acc1 = (if od_ID tc \<noteq> [] then acc\<lparr>ta_ID := od_ID tc\<rparr> else acc);
          acc2 = (if od_Name tc \<noteq> [] then acc1\<lparr>ta_Name := od_Name tc\<rparr> else acc1);
          acc3 = (if od_Arguments tc \<noteq> [] then acc2\<lparr>ta_Arguments := ta_Arguments acc2 @ od_Arguments tc\<rparr> else acc2)
      in ((if od_Name tc \<noteq> [] then [ToolUseStart (ta_ID acc2) (ta_Name acc2)] else [])
          @ (if od_Arguments tc \<noteq> [] then [ToolUseDelta (ta_ID acc3) (od_Arguments tc)] else []),
          st\<lparr>ox_Tools := (ox_Tools st)(od_Index tc \<mapsto> acc3)\<rparr>))"

fun oai_calls :: "oaiToolCallDelta list \<Rightarrow> oai_reader \<Rightarrow> chat_event list \<times> oai_reader" where
  "oai_calls [] st = ([], st)"
| "oai_calls (tc # tcs) st =
     (let (evs, st1) = oai_call_step tc st; (more_evs, st2) = oai_calls tcs st1 in (evs @ more_evs, st2))"

definition mapOAIFinish :: "string \<Rightarrow> string" where
  "mapOAIFinish reason =
     (if reason = ''stop'' then ''end_turn'' else if reason = ''tool_calls'' then ''tool_use''
      else if reason = ''length'' then ''max_tokens'' else reason)"

definition oai_finish :: "string \<Rightarrow> oai_reader \<Rightarrow> oai_reader" where
  "oai_finish reason st =
     (if reason \<noteq> [] then st\<lparr>ox_Stop := mapOAIFinish reason, ox_StopSet := True\<rparr> else st)"

definition oai_choice_step :: "oaiChoice \<Rightarrow> oai_reader \<Rightarrow> chat_event list \<times> oai_reader" where
  "oai_choice_step ch st =
     (let (evs, st1) = oai_calls (oc_ToolCalls ch) st
      in ((if oc_Content ch \<noteq> [] then [TextDelta (oc_Content ch)] else []) @ evs, oai_finish (oc_FinishReason ch) st1))"

fun oai_choices :: "oaiChoice list \<Rightarrow> oai_reader \<Rightarrow> chat_event list \<times> oai_reader" where
  "oai_choices [] st = ([], st)"
| "oai_choices (ch # chs) st =
     (let (evs, st1) = oai_choice_step ch st; (more_evs, st2) = oai_choices chs st1 in (evs @ more_evs, st2))"

definition oai_usage_step :: "(int \<times> int) option \<Rightarrow> oai_reader \<Rightarrow> oai_reader" where
  "oai_usage_step u st =
     (case u of
        None \<Rightarrow> st
      | Some (prompt, completion) \<Rightarrow>
          st\<lparr>ox_Usage := (ox_Usage st)\<lparr>u_InputTokens := prompt, u_OutputTokens := completion\<rparr>\<rparr>)"

definition oai_line :: "string \<Rightarrow> oaiStreamResp option" where
  "oai_line l =
     (case sse_data l of
        None \<Rightarrow> None
      | Some data \<Rightarrow>
          (if data = ''[DONE]'' \<or> data = [] then None
           else (case unmarshal dec_oai_resp zero_resp (jparse data) of (r, err) \<Rightarrow> (if err then None else Some r))))"

definition oai_end :: "oai_reader \<Rightarrow> chat_event" where
  "oai_end st = StopReason (if ox_StopSet st then ox_Stop st else ''end_turn'') (ox_Usage st)"

fun oai_lines :: "(nat \<Rightarrow> bool) \<Rightarrow> nat \<Rightarrow> string list \<Rightarrow> oai_reader \<Rightarrow> chat_event list" where
  "oai_lines done n [] st = [oai_end st]"
| "oai_lines done n (l # ls) st =
     (if done n then []
      else (case oai_line l of
              None \<Rightarrow> oai_lines done (Suc n) ls st
            | Some r \<Rightarrow> (let (evs, st') = oai_choices (oe_Choices r) (oai_usage_step (oe_Usage r) st)
                        in evs @ oai_lines done (Suc n) ls st')))"

definition parseOAIStream :: "(nat \<Rightarrow> bool) \<Rightarrow> string \<Rightarrow> chat_event list" where
  "parseOAIStream done body = oai_lines done 0 (fst (ScanLines (mebibytes 4) body)) oai_start"

section \<open>The provider\<close>

record OAICompatProvider =
  op_BaseURL :: string
  op_APIKey :: string
  op_Headers :: "(string \<times> string) list"
  op_NameStr :: string

definition NewOAICompat :: "string \<Rightarrow> string \<Rightarrow> OAICompatProvider" where
  "NewOAICompat baseURL apiKey = \<lparr>op_BaseURL = TrimRight (CHR ''/'') baseURL, op_APIKey = apiKey, op_Headers = [],
     op_NameStr = ''openai_compat''\<rparr>"

definition oai_Name :: "OAICompatProvider \<Rightarrow> string" where
  "oai_Name p = (if op_NameStr p = [] then ''openai_compat'' else op_NameStr p)"

definition oai_headers :: "OAICompatProvider \<Rightarrow> (string \<times> string) list" where
  "oai_headers p = fold set_header (op_Headers p)
     ([(''Content-Type'', ''application/json''), (''Accept'', ''text/event-stream'')]
      @ (if op_APIKey p \<noteq> [] then [(''Authorization'', ''Bearer '' @ op_APIKey p)] else []))"

definition oai_Stream :: "http_lib \<Rightarrow> OAICompatProvider \<Rightarrow> provider" where
  "oai_Stream L p n req =
     exchange L (op_BaseURL p @ ''/chat/completions'') (oai_headers p)
       (Some (oai_request_json (buildOAIRequest req))) n (parseOAIStream (hl_Done L n))"

end
