(* ===== verification/EventLog.thy ===== *)
theory EventLog
  imports StoreSession "HOL-Library.Sublist"
begin

text \<open>
  The contract of the event log and the proof that the store keeps it: every
  session numbers its events 1, 2, 3, ... without gaps, an append adds one
  event at the end or changes nothing, and a reader that knows the last number
  it has seen can ask for exactly the rest.
\<close>

section \<open>Dense sequence numbers\<close>

definition seqs :: "nat \<Rightarrow> int list" where
  "seqs n = map (\<lambda>i. int i + 1) [0..<n]"

lemma seqs_simps [simp]: "seqs 0 = []" "seqs (Suc n) = seqs n @ [int n + 1]" "length (seqs n) = n"
  by (simp_all add: seqs_def)

lemma set_seqs: "x \<in> set (seqs n) \<longleftrightarrow> 1 \<le> x \<and> x \<le> int n"
  by (induction n) auto

lemma sorted_seqs: "sorted_wrt (<) (seqs n)"
  by (induction n) (auto simp: sorted_wrt_append set_seqs)

lemma nth_seqs: "i < n \<Longrightarrow> seqs n ! i = int i + 1"
  by (simp add: seqs_def)

section \<open>The interface\<close>

locale event_log =
  fixes append :: "'k \<Rightarrow> 'i \<Rightarrow> 's \<Rightarrow> 'r option \<times> 's"
    and log :: "'k \<Rightarrow> 's \<Rightarrow> 'r list"
    and seq :: "'r \<Rightarrow> int"
    and inv :: "'s \<Rightarrow> bool"
  assumes append_Some: "inv s \<Longrightarrow> append k i s = (Some r, s') \<Longrightarrow>
      log k s' = log k s @ [r] \<and> seq r = int (length (log k s)) + 1"
    and append_None: "append k i s = (None, s') \<Longrightarrow> log k s' = log k s"
    and append_other: "k' \<noteq> k \<Longrightarrow> log k' (snd (append k i s)) = log k' s"
    and inv_append: "inv s \<Longrightarrow> inv (snd (append k i s))"
    and inv_seqs: "inv s \<Longrightarrow> map seq (log k s) = seqs (length (log k s))"
begin

lemma append_prefix: "inv s \<Longrightarrow> \<exists>rs. log k (snd (append k' i s)) = log k s @ rs"
proof (cases "k = k'")
  case True
  assume "inv s"
  obtain r s' where a: "append k' i s = (r, s')" by (cases "append k' i s")
  show ?thesis
    using True \<open>inv s\<close> a append_Some [of s k' i _ s'] append_None [of k' i s s']
    by (cases r) auto
qed (use append_other in force)

text \<open>Any run of appends, to any logs, keeps the invariant and extends each log at its end.\<close>

lemma run_inv: "inv s \<Longrightarrow> inv (fold (\<lambda>(k, i) s. snd (append k i s)) ops s)"
  by (induction ops arbitrary: s) (auto simp: inv_append split: prod.splits)

lemma run_prefix: "inv s \<Longrightarrow> \<exists>rs. log k (fold (\<lambda>(k, i) s. snd (append k i s)) ops s) = log k s @ rs"
proof (induction ops arbitrary: s)
  case Nil
  then show ?case by simp
next
  case (Cons op ops)
  obtain k' i where op: "op = (k', i)" by (cases op)
  let ?s = "snd (append k' i s)"
  obtain xs where xs: "log k ?s = log k s @ xs" using append_prefix [OF Cons.prems] by blast
  obtain ys where "log k (fold (\<lambda>(k, i) s. snd (append k i s)) ops ?s) = log k ?s @ ys"
    using Cons.IH [OF inv_append [OF Cons.prems]] by blast
  then show ?case by (auto simp: op xs)
qed

lemma seq_nth: "inv s \<Longrightarrow> i < length (log k s) \<Longrightarrow> seq (log k s ! i) = int i + 1"
  using inv_seqs [of s k] nth_seqs by (metis length_map nth_map)

lemma sorted_log: "inv s \<Longrightarrow> sorted_wrt (\<lambda>a b. seq a < seq b) (log k s)"
  using inv_seqs [of s k] sorted_seqs [of "length (log k s)"] by (metis sorted_wrt_map)

lemma seq_inj: "inv s \<Longrightarrow> a \<in> set (log k s) \<Longrightarrow> b \<in> set (log k s) \<Longrightarrow> seq a = seq b \<Longrightarrow> a = b"
  by (metis in_set_conv_nth seq_nth add_right_cancel of_nat_eq_iff)

text \<open>Asking for the events after number \<open>n\<close> yields all but the first \<open>n\<close>.\<close>

lemma after_drop:
  assumes "inv s"
  shows "filter (\<lambda>r. int n < seq r) (log k s) = drop n (log k s)"
proof -
  have "filter (\<lambda>r. int n < f r) xs = drop n xs" if "map f xs = seqs (length xs)" for f :: "'r \<Rightarrow> int" and xs
    using that
  proof (induction xs rule: rev_induct)
    case Nil
    then show ?case by simp
  next
    case (snoc x xs)
    then show ?case by (auto simp: not_less)
  qed
  then show ?thesis using inv_seqs [OF assms] by blast
qed

lemma resume:
  assumes "inv s" and "log k s' = log k s @ rs" and "inv s'"
  shows "filter (\<lambda>r. int (length (log k s)) < seq r) (log k s') = rs"
  using assms after_drop [of s' "length (log k s)" k] by simp

end

section \<open>The store's log\<close>

definition log_ok :: "world \<Rightarrow> bool" where
  "log_ok w \<longleftrightarrow> distinct (map ss_ID (sessions w)) \<and> distinct (map ev_ID (events w))
     \<and> (\<forall>s\<in>set (sessions w).
          map ev_Seq (session_events (ss_ID s) w) = seqs (length (session_events (ss_ID s) w))
          \<and> ss_NextSeq s = int (length (session_events (ss_ID s) w)) + 1)
     \<and> (\<forall>r\<in>set (events w). session_by (ev_SessionID r) w \<noteq> None)"

lemma session_by_Some: "session_by sid w = Some s \<Longrightarrow> s \<in> set (sessions w) \<and> ss_ID s = sid"
  by (auto simp: session_by_def dest: select_one_Some)

lemma session_by_None: "session_by sid w = None \<longleftrightarrow> (\<forall>s\<in>set (sessions w). ss_ID s \<noteq> sid)"
  by (simp add: session_by_def table_simps)

lemma session_events_append:
  "session_events sid (w\<lparr>events := events w @ [r]\<rparr>) =
     session_events sid w @ (if ev_SessionID r = sid then [r] else [])"
  by (simp add: session_events_def)

text \<open>The row an append inserts: only its identifier and its times come from the environment.\<close>

definition appended_row :: "env \<Rightarrow> nat \<Rightarrow> AppendEventInput \<Rightarrow> int \<Rightarrow> EventRow" where
  "appended_row e n inp seq = \<lparr>ev_ID = ''evt-'' @ ToLower (ulid e (n + 3)),
     ev_SessionID = ae_SessionID inp,
     ev_ThreadID = (if ae_ThreadID inp = [] then ''primary'' else ae_ThreadID inp),
     ev_Seq = seq, ev_Type = ae_Type inp, ev_Payload = ae_Payload inp,
     ev_ProcessedAt = Some (clock e (n + 4)), ev_CreatedAt = clock e (n + 4)\<rparr>"

lemma event_insert_ok_frame [simp]:
  "event_insert_ok r (w\<lparr>tick := n\<rparr>) = event_insert_ok r w"
  "event_insert_ok r (w\<lparr>sessions := update_where P (\<lambda>r. r\<lparr>ss_NextSeq := ss_NextSeq r + 1\<rparr>) (sessions w)\<rparr>)
     = event_insert_ok r w"
  by (simp_all add: event_insert_ok_def session_by_def select_one_update_None)

lemma AppendEvent_cases:
  obtains (err) x d where "AppendEvent e c inp w = (Inl x, w\<lparr>tick := tick w + d\<rparr>)"
  | (ok) s where "session_by (ae_SessionID inp) w = Some s"
      "event_insert_ok (appended_row e (tick w) inp (ss_NextSeq s)) w"
      "AppendEvent e c inp w = (Inr (appended_row e (tick w) inp (ss_NextSeq s)),
         w\<lparr>tick := tick w + 7,
           sessions := update_where (\<lambda>r. ss_ID r = ae_SessionID inp)
             (\<lambda>r. r\<lparr>ss_NextSeq := ss_NextSeq r + 1\<rparr>) (sessions w),
           events := events w @ [appended_row e (tick w) inp (ss_NextSeq s)]\<rparr>)"
proof (cases "AppendEvent e c inp w")
  case (Pair r w')
  note defs = AppendEvent_def Let_def in_tx_def bindE_def queryE_def updateE_def insertE_def stmt_run
    getsE_def optE_def returnE_def throwE_def NewID_def now_def on_session_def
  show ?thesis
  proof (cases r)
    case (Inl x)
    have "\<exists>d. w' = w\<lparr>tick := tick w + d\<rparr>"
    proof -
      have "tick w \<le> tick w' \<and> w' = w\<lparr>tick := tick w'\<rparr>"
        using Pair unfolding defs Inl
        by (auto split: sum.splits option.splits if_splits prod.splits)
      then have "w' = w\<lparr>tick := tick w + (tick w' - tick w)\<rparr>" by simp
      then show ?thesis by blast
    qed
    then show ?thesis using err Pair Inl by blast
  next
    case (Inr row)
    then obtain s where s: "session_by (ae_SessionID inp) w = Some s"
      using Pair unfolding defs session_by_def
      by (auto split: sum.splits option.splits if_splits prod.splits)
    have "event_insert_ok (appended_row e (tick w) inp (ss_NextSeq s)) w
      \<and> AppendEvent e c inp w = (Inr (appended_row e (tick w) inp (ss_NextSeq s)),
         w\<lparr>tick := tick w + 7,
           sessions := update_where (\<lambda>r. ss_ID r = ae_SessionID inp)
             (\<lambda>r. r\<lparr>ss_NextSeq := ss_NextSeq r + 1\<rparr>) (sessions w),
           events := events w @ [appended_row e (tick w) inp (ss_NextSeq s)]\<rparr>)"
      using Pair s unfolding defs Inr appended_row_def
      by (auto simp: session_by_def numeral_eq_Suc split: sum.splits option.splits if_splits prod.splits)
    then show ?thesis using ok s by blast
  qed
qed

text \<open>The invariant reads the sessions' names and counters and the events only.\<close>

lemma log_ok_frame:
  assumes "map (\<lambda>s. (ss_ID s, ss_NextSeq s)) (sessions w') = map (\<lambda>s. (ss_ID s, ss_NextSeq s)) (sessions w)"
    and "events w' = events w"
  shows "log_ok w' = log_ok w"
proof -
  have ids: "map ss_ID (sessions w') = map ss_ID (sessions w)"
    using arg_cong [OF assms(1), of "map fst"] by (simp add: comp_def)
  have pairs: "(\<lambda>s. (ss_ID s, ss_NextSeq s)) ` set (sessions w') = (\<lambda>s. (ss_ID s, ss_NextSeq s)) ` set (sessions w)"
    using arg_cong [OF assms(1), of set] by simp
  have all: "(\<forall>s\<in>set (sessions w'). Q (ss_ID s) (ss_NextSeq s)) = (\<forall>s\<in>set (sessions w). Q (ss_ID s) (ss_NextSeq s))" for Q
  proof -
    have "(\<forall>s\<in>set (sessions v). Q (ss_ID s) (ss_NextSeq s)) =
        (\<forall>p\<in>(\<lambda>s. (ss_ID s, ss_NextSeq s)) ` set (sessions v). Q (fst p) (snd p))" for v :: world
      by simp
    from this [of w'] this [of w] show ?thesis
      unfolding pairs by (rule trans [OF _ sym])
  qed
  have "session_by sid w' \<noteq> None \<longleftrightarrow> sid \<in> set (map ss_ID (sessions w'))" for sid w'
    by (auto simp: session_by_None)
  then have ex: "session_by sid w' \<noteq> None \<longleftrightarrow> session_by sid w \<noteq> None" for sid
    using arg_cong [OF ids, of set] by (metis set_map)
  have evs: "session_events sid w' = session_events sid w" for sid
    using assms(2) by (simp add: session_events_def)
  show ?thesis
    unfolding log_ok_def ids evs ex assms(2)
    using all [of "\<lambda>i n. map ev_Seq (session_events i w) = seqs (length (session_events i w))
          \<and> n = int (length (session_events i w)) + 1"] by auto
qed

lemma log_ok_tick [simp]: "log_ok (w\<lparr>tick := n\<rparr>) = log_ok w"
  by (rule log_ok_frame) simp_all

lemma log_ok_session:
  assumes "log_ok w" "session_by sid w = Some s"
  shows "ss_NextSeq s = int (length (session_events sid w)) + 1"
    "map ev_Seq (session_events sid w) = seqs (length (session_events sid w))"
  using assms session_by_Some [OF assms(2)] by (auto simp: log_ok_def)

lemma log_ok_append:
  assumes ok: "log_ok w" and s: "session_by sid w = Some s"
    and ins: "event_insert_ok r w" and r: "ev_SessionID r = sid" "ev_Seq r = ss_NextSeq s"
  shows "log_ok (w\<lparr>sessions := update_where (\<lambda>r. ss_ID r = sid) (\<lambda>r. r\<lparr>ss_NextSeq := ss_NextSeq r + 1\<rparr>) (sessions w),
                   events := events w @ [r]\<rparr>)"
    (is "log_ok ?w")
proof -
  let ?n = "length (session_events sid w)"
  have n: "ss_NextSeq s = int ?n + 1" by (rule log_ok_session(1) [OF ok s])
  have evs: "session_events i ?w = session_events i w @ (if i = sid then [r] else [])" for i
    using r by (auto simp: session_events_def)
  have one: "ss_NextSeq t = ss_NextSeq s" if "t \<in> set (sessions w)" "ss_ID t = sid" for t
    using that ok s by (auto simp: log_ok_def dest!: session_by_Some)
  have sess: "map ev_Seq (session_events (ss_ID t) ?w) = seqs (length (session_events (ss_ID t) ?w))
      \<and> ss_NextSeq t = int (length (session_events (ss_ID t) ?w)) + 1" if t: "t \<in> set (sessions ?w)" for t
  proof -
    obtain t' where t': "t' \<in> set (sessions w)" "ss_ID t = ss_ID t'"
      "ss_NextSeq t = ss_NextSeq t' + (if ss_ID t' = sid then 1 else 0)"
      using t by (auto simp: table_simps)
    moreover have "map ev_Seq (session_events (ss_ID t') w) = seqs (length (session_events (ss_ID t') w))
      \<and> ss_NextSeq t' = int (length (session_events (ss_ID t') w)) + 1"
      using ok t'(1) by (auto simp: log_ok_def)
    ultimately show ?thesis using one [OF t'(1)] n r by (auto simp: evs)
  qed
  have "map ss_ID (sessions ?w) = map ss_ID (sessions w)"
    by (simp add: table_simps)
  moreover have "distinct (map ev_ID (events ?w))"
    using ok ins by (auto simp: log_ok_def event_insert_ok_def list_all_iff)
  moreover have "session_by i ?w = None \<longleftrightarrow> session_by i w = None" for i
    by (simp add: session_by_def select_one_update_None)
  ultimately show ?thesis
    using ok ins sess by (auto simp: log_ok_def event_insert_ok_def)
qed

lemma appended_row_fields [simp]:
  "ev_SessionID (appended_row e n inp q) = ae_SessionID inp" "ev_Seq (appended_row e n inp q) = q"
  "ev_Type (appended_row e n inp q) = ae_Type inp" "ev_Payload (appended_row e n inp q) = ae_Payload inp"
  by (simp_all add: appended_row_def)

lemma AppendEvent_log_ok: "log_ok w \<Longrightarrow> log_ok (snd (AppendEvent e c inp w))"
proof (cases rule: AppendEvent_cases [of e c inp w])
  case (ok s)
  assume "log_ok w"
  have "log_ok (snd (AppendEvent e c inp w)) =
      log_ok (w\<lparr>sessions := update_where (\<lambda>r. ss_ID r = ae_SessionID inp)
             (\<lambda>r. r\<lparr>ss_NextSeq := ss_NextSeq r + 1\<rparr>) (sessions w),
           events := events w @ [appended_row e (tick w) inp (ss_NextSeq s)]\<rparr>)"
    by (rule log_ok_frame) (simp_all add: ok(3))
  then show ?thesis
    using log_ok_append [OF \<open>log_ok w\<close> ok(1,2)] by simp
qed simp

definition append_op ::
  "env \<Rightarrow> ctx \<Rightarrow> string \<Rightarrow> string \<times> string \<times> raw \<Rightarrow> world \<Rightarrow> EventRow option \<times> world" where
  "append_op e c sid i w =
     (case AppendEvent e c \<lparr>ae_SessionID = sid, ae_ThreadID = fst i, ae_Type = fst (snd i),
              ae_Payload = snd (snd i)\<rparr> w of
        (Inl x, w') \<Rightarrow> (None, w')
      | (Inr r, w') \<Rightarrow> (Some r, w'))"

lemma session_events_frame [simp]:
  "session_events sid (w\<lparr>tick := n\<rparr>) = session_events sid w"
  "session_events sid (w\<lparr>sessions := ss\<rparr>) = session_events sid w"
  by (simp_all add: session_events_def)

interpretation slog: event_log "append_op e c" session_events ev_Seq log_ok for e c
proof
  fix s k i r s'
  assume "log_ok s" and "append_op e c k i s = (Some r, s')"
  then show "session_events k s' = session_events k s @ [r] \<and> ev_Seq r = int (length (session_events k s)) + 1"
    by (cases rule: AppendEvent_cases [of e c "\<lparr>ae_SessionID = k, ae_ThreadID = fst i, ae_Type = fst (snd i),
              ae_Payload = snd (snd i)\<rparr>" s])
      (auto simp: append_op_def session_events_append appended_row_def session_events_def log_ok_session)
next
  fix k i s s'
  assume "append_op e c k i s = (None, s')"
  then show "session_events k s' = session_events k s"
    by (cases rule: AppendEvent_cases [of e c "\<lparr>ae_SessionID = k, ae_ThreadID = fst i, ae_Type = fst (snd i),
              ae_Payload = snd (snd i)\<rparr>" s])
      (auto simp: append_op_def)
next
  fix k' k :: string and i s
  assume "k' \<noteq> k"
  then show "session_events k' (snd (append_op e c k i s)) = session_events k' s"
    by (cases rule: AppendEvent_cases [of e c "\<lparr>ae_SessionID = k, ae_ThreadID = fst i, ae_Type = fst (snd i),
              ae_Payload = snd (snd i)\<rparr>" s])
      (auto simp: append_op_def session_events_def appended_row_def)
next
  fix s k i
  assume "log_ok s"
  then show "log_ok (snd (append_op e c k i s))"
    using AppendEvent_log_ok [of s e c "\<lparr>ae_SessionID = k, ae_ThreadID = fst i, ae_Type = fst (snd i),
              ae_Payload = snd (snd i)\<rparr>"]
    by (auto simp: append_op_def split: prod.splits sum.splits)
next
  fix s k
  assume ok: "log_ok s"
  show "map ev_Seq (session_events k s) = seqs (length (session_events k s))"
  proof (cases "session_by k s")
    case None
    then have "session_events k s = []"
      using ok by (auto simp: log_ok_def session_events_def filter_empty_conv)
    then show ?thesis by simp
  next
    case (Some x)
    then show ?thesis by (rule log_ok_session(2) [OF ok])
  qed
qed

section \<open>Reading the log\<close>

lemma sort_key_sorted: "sorted_wrt (\<lambda>a b. f a < f b) xs \<Longrightarrow> sort_key f xs = xs"
  for f :: "'a \<Rightarrow> int"
proof (induction xs)
  case (Cons x xs)
  then have "\<forall>y\<in>set xs. f x \<le> f y" by auto
  then show ?case using Cons by (cases xs) auto
qed simp

lemma session_events_select:
  "select (\<lambda>r. ev_SessionID r = sid \<and> (types = [] \<or> ev_Type r \<in> set types)) (events w) =
     filter (\<lambda>r. types = [] \<or> ev_Type r \<in> set types) (session_events sid w)"
  by (induction "events w" arbitrary: w) (auto simp: select_def session_events_def filter_filter conj_commute)

text \<open>On a well-formed log, listing answers with the log itself.\<close>

lemma ListEvents_ok:
  assumes "log_ok w" "no_faults e" "\<not> cancelled c (tick w)"
  shows "ListEvents e c sid types w =
     (Inr (filter (\<lambda>r. types = [] \<or> ev_Type r \<in> set types) (session_events sid w)), w\<lparr>tick := Suc (tick w)\<rparr>)"
proof -
  have "sorted_wrt (\<lambda>a b. ev_Seq a < ev_Seq b) (filter (\<lambda>r. types = [] \<or> ev_Type r \<in> set types) (session_events sid w))"
    by (rule sorted_wrt_filter [OF slog.sorted_log [OF assms(1)]])
  then show ?thesis
    using assms(2,3) by (simp add: ListEvents_def queryE_ok session_events_select sort_key_sorted)
qed

lemma ListEvents_cases:
  obtains (ok) "ListEvents e c sid types w = (Inr (sort_key ev_Seq (filter (\<lambda>r. types = [] \<or> ev_Type r \<in> set types)
                  (session_events sid w))), w\<lparr>tick := Suc (tick w)\<rparr>)"
  | (err) x where "ListEvents e c sid types w = (Inl x, w\<lparr>tick := Suc (tick w)\<rparr>)"
  unfolding ListEvents_def by (rule queryE_cases) (auto simp: session_events_select)

lemma ListEvents_log:
  assumes "log_ok w" "ListEvents e c sid types w = (r, w')"
  shows "w' = w\<lparr>tick := Suc (tick w)\<rparr>"
    "r = Inr rows \<Longrightarrow> rows = filter (\<lambda>r. types = [] \<or> ev_Type r \<in> set types) (session_events sid w)"
proof -
  have "sorted_wrt (\<lambda>a b. ev_Seq a < ev_Seq b) (filter (\<lambda>r. types = [] \<or> ev_Type r \<in> set types) (session_events sid w))"
    by (rule sorted_wrt_filter [OF slog.sorted_log [OF assms(1)]])
  note so = sort_key_sorted [OF this]
  show "w' = w\<lparr>tick := Suc (tick w)\<rparr>"
    "r = Inr rows \<Longrightarrow> rows = filter (\<lambda>r. types = [] \<or> ev_Type r \<in> set types) (session_events sid w)"
    using assms(2) by (cases rule: ListEvents_cases [of e c sid types w]; simp add: so)+
qed

end
