(* ===== verification/Broker.thy ===== *)
theory Broker
  imports EventLog
begin

text \<open>
  \<open>internal/event/broker.go\<close>, run by one goroutine at a time: publishing appends
  to the event log first and then hands the event to the buffered channel of
  every subscriber, dropping a subscriber whose buffer is full. What happens
  when several goroutines dispatch at once is the subject of \<open>BrokerRace\<close>.
\<close>

definition chan_cap :: nat where
  "chan_cap = 64"

text \<open>\<open>ch <- ev\<close> in a \<open>select\<close> with a default: a closed channel panics, a full one takes the default.\<close>

datatype send_result = Sent chan | WouldBlock | SendPanic

definition try_send :: "Event \<Rightarrow> chan \<Rightarrow> send_result" where
  "try_send ev ch =
     (if ch_closed ch then SendPanic
      else if length (ch_buf ch) < chan_cap then Sent (ch\<lparr>ch_buf := ch_buf ch @ [ev]\<rparr>)
      else WouldBlock)"

definition dispatch_one :: "Event \<Rightarrow> nat \<Rightarrow> world \<Rightarrow> world" where
  "dispatch_one ev k w =
     (case try_send ev (chans w ! k) of
        Sent ch \<Rightarrow> w\<lparr>chans := (chans w)[k := ch]\<rparr>
      | SendPanic \<Rightarrow> w\<lparr>panicked := True\<rparr>
      | WouldBlock \<Rightarrow>
          (if (be_SessionID ev, k) \<in> set (subs w)
           then w\<lparr>subs := removeAll (be_SessionID ev, k) (subs w),
                  chans := (chans w)[k := (chans w ! k)\<lparr>ch_closed := True\<rparr>]\<rparr>
           else w))"

definition subscribers :: "string \<Rightarrow> world \<Rightarrow> nat list" where
  "subscribers sid w = map snd (filter (\<lambda>p. fst p = sid) (subs w))"

definition dispatch :: "Event \<Rightarrow> world \<Rightarrow> world" where
  "dispatch ev w = fold (dispatch_one ev) (subscribers (be_SessionID ev) w) w"

definition event_of_row :: "EventRow \<Rightarrow> Event" where
  "event_of_row row = \<lparr>be_ID = ev_ID row, be_SessionID = ev_SessionID row,
     be_ThreadID = ev_ThreadID row, be_Type = ev_Type row, be_Seq = ev_Seq row,
     be_Payload = ev_Payload row,
     be_ProcessedAt = (case ev_ProcessedAt row of Some t \<Rightarrow> t | None \<Rightarrow> 0)\<rparr>"

definition Publish :: "env \<Rightarrow> ctx \<Rightarrow> string \<Rightarrow> string \<Rightarrow> string \<Rightarrow> raw \<Rightarrow> (world, Event) io" where
  "Publish e c sid ty thread payload =
     bindE (AppendEvent e c \<lparr>ae_SessionID = sid, ae_ThreadID = thread, ae_Type = ty,
              ae_Payload = payload\<rparr>)
       (\<lambda>row. let ev = event_of_row row
              in bindE (modifyE (dispatch ev)) (\<lambda>_.
                 bindE (modifyE (\<lambda>w. w\<lparr>hooked := hooked w @ [ev]\<rparr>)) (\<lambda>_. returnE ev)))"

text \<open>\<open>Subscribe\<close> yields the name of the new channel, \<open>unsub\<close> forgets it without closing it.\<close>

definition Subscribe :: "string \<Rightarrow> world \<Rightarrow> nat \<times> world" where
  "Subscribe sid w =
     (let k = length (chans w)
      in (k, w\<lparr>chans := chans w @ [\<lparr>ch_buf = [], ch_closed = False\<rparr>], subs := (sid, k) # subs w\<rparr>))"

definition unsub :: "string \<Rightarrow> nat \<Rightarrow> world \<Rightarrow> world" where
  "unsub sid k w = w\<lparr>subs := removeAll (sid, k) (subs w)\<rparr>"

definition SubscriberCount :: "string \<Rightarrow> world \<Rightarrow> nat" where
  "SubscriberCount sid w = length (subscribers sid w)"

text \<open>\<open>ev, ok := <-ch\<close> without blocking: an item, the end of a closed channel, or nothing yet.\<close>

datatype recv_result = Received Event | ChanClosed | Empty

definition try_recv :: "nat \<Rightarrow> world \<Rightarrow> recv_result \<times> world" where
  "try_recv k w =
     (case ch_buf (chans w ! k) of
        ev # rest \<Rightarrow> (Received ev, w\<lparr>chans := (chans w)[k := (chans w ! k)\<lparr>ch_buf := rest\<rparr>]\<rparr>)
      | [] \<Rightarrow> (if ch_closed (chans w ! k) then ChanClosed else Empty, w))"

section \<open>The broker's invariant\<close>

text \<open>Subscribed channels exist, are open, belong to one session each, and hold at most 64 events of it.\<close>

definition sub_ok :: "chan list \<Rightarrow> string \<Rightarrow> nat \<Rightarrow> bool" where
  "sub_ok cs sid k \<longleftrightarrow> k < length cs \<and> \<not> ch_closed (cs ! k)
     \<and> (\<forall>ev\<in>set (ch_buf (cs ! k)). be_SessionID ev = sid)"

definition broker_ok :: "world \<Rightarrow> bool" where
  "broker_ok w \<longleftrightarrow> distinct (map snd (subs w)) \<and> \<not> panicked w
     \<and> (\<forall>p\<in>set (subs w). sub_ok (chans w) (fst p) (snd p))
     \<and> (\<forall>ch\<in>set (chans w). length (ch_buf ch) \<le> chan_cap)"

lemma broker_ok_frame:
  "subs w' = subs w \<Longrightarrow> chans w' = chans w \<Longrightarrow> panicked w' = panicked w \<Longrightarrow> broker_ok w' = broker_ok w"
  by (simp add: broker_ok_def)

lemma broker_okD:
  assumes "broker_ok w"
  shows "(sid, k) \<in> set (subs w) \<Longrightarrow> sub_ok (chans w) sid k" "ch \<in> set (chans w) \<Longrightarrow> length (ch_buf ch) \<le> chan_cap"
    "\<not> panicked w" "distinct (map snd (subs w))"
  using assms unfolding broker_ok_def by force+

lemma in_subscribers: "k \<in> set (subscribers sid w) \<longleftrightarrow> (sid, k) \<in> set (subs w)"
  by (force simp: subscribers_def)

lemma distinct_subscribers: "broker_ok w \<Longrightarrow> distinct (subscribers sid w)"
  unfolding broker_ok_def subscribers_def using distinct_map_filter by blast

lemma subs_inj: "broker_ok w \<Longrightarrow> (s, k) \<in> set (subs w) \<Longrightarrow> (s', k) \<in> set (subs w) \<Longrightarrow> s = s'"
  using broker_okD(4) [of w] by (metis distinct_map inj_onD prod.inject snd_conv)

text \<open>What one dispatch step does to the channels and subscriptions.\<close>

lemma dispatch_one_cases:
  assumes "broker_ok w" "(be_SessionID ev, k) \<in> set (subs w)"
  obtains (sent) "length (ch_buf (chans w ! k)) < chan_cap"
      "dispatch_one ev k w = w\<lparr>chans := (chans w)[k := (chans w ! k)\<lparr>ch_buf := ch_buf (chans w ! k) @ [ev]\<rparr>]\<rparr>"
  | (dropped) "length (ch_buf (chans w ! k)) = chan_cap"
      "dispatch_one ev k w = w\<lparr>subs := removeAll (be_SessionID ev, k) (subs w),
                  chans := (chans w)[k := (chans w ! k)\<lparr>ch_closed := True\<rparr>]\<rparr>"
proof -
  have k: "k < length (chans w)" "\<not> ch_closed (chans w ! k)"
    using broker_okD(1) [OF assms] by (auto simp: sub_ok_def)
  then have le: "length (ch_buf (chans w ! k)) \<le> chan_cap"
    using broker_okD(2) [OF assms(1)] by simp
  show ?thesis
  proof (cases "length (ch_buf (chans w ! k)) < chan_cap")
    case True
    then show ?thesis using sent k by (simp add: dispatch_one_def try_send_def)
  next
    case False
    then show ?thesis using dropped k le assms(2) by (simp add: dispatch_one_def try_send_def)
  qed
qed

lemma set_list_update_le: "\<forall>x\<in>set xs. P x \<Longrightarrow> P y \<Longrightarrow> \<forall>x\<in>set (xs[k := y]). P x"
  using set_update_subset_insert [of xs k y] by blast

lemma dispatch_one_ok:
  assumes ok: "broker_ok w" and s: "(be_SessionID ev, k) \<in> set (subs w)"
  shows "broker_ok (dispatch_one ev k w)"
  using assms
proof (cases rule: dispatch_one_cases)
  case sent
  let ?cs = "(chans w)[k := (chans w ! k)\<lparr>ch_buf := ch_buf (chans w ! k) @ [ev]\<rparr>]"
  have "\<forall>x\<in>set ?cs. length (ch_buf x) \<le> chan_cap"
    using broker_okD(2) [OF ok] sent(1) by (intro set_list_update_le) auto
  moreover have "sub_ok ?cs sid k'" if p: "(sid, k') \<in> set (subs w)" for sid k'
  proof (cases "k' = k")
    case True
    then show ?thesis
      using broker_okD(1) [OF ok p] subs_inj [OF ok _ s, of sid] p by (auto simp: sub_ok_def)
  next
    case False
    then show ?thesis using broker_okD(1) [OF ok p] by (simp add: sub_ok_def)
  qed
  ultimately show ?thesis
    using broker_okD(3,4) [OF ok] by (simp add: broker_ok_def sent(2))
next
  case dropped
  let ?cs = "(chans w)[k := (chans w ! k)\<lparr>ch_closed := True\<rparr>]"
  have "\<forall>x\<in>set ?cs. length (ch_buf x) \<le> chan_cap"
    using broker_okD(2) [OF ok] dropped(1) by (intro set_list_update_le) auto
  moreover have "distinct (map snd (removeAll (be_SessionID ev, k) (subs w)))"
    using broker_okD(4) [OF ok] by (simp add: removeAll_filter_not_eq distinct_map_filter)
  moreover have "\<forall>p\<in>set (removeAll (be_SessionID ev, k) (subs w)). sub_ok ?cs (fst p) (snd p)"
  proof
    fix p assume "p \<in> set (removeAll (be_SessionID ev, k) (subs w))"
    then have "p \<in> set (subs w) \<and> p \<noteq> (be_SessionID ev, k)" by simp
    then obtain sid k' where p: "p = (sid, k')" "(sid, k') \<in> set (subs w)" "(sid, k') \<noteq> (be_SessionID ev, k)"
      by (metis surj_pair)
    then have "k' \<noteq> k" using subs_inj [OF ok _ s, of sid] by auto
    then show "sub_ok ?cs (fst p) (snd p)" using broker_okD(1) [OF ok p(2)] p(1) by (simp add: sub_ok_def)
  qed
  ultimately show ?thesis
    using broker_okD(3) [OF ok] by (simp add: broker_ok_def dropped(2))
qed

lemma dispatch_one_other:
  "k' \<noteq> k \<Longrightarrow> chans (dispatch_one ev k w) ! k' = chans w ! k'"
  "p \<noteq> (be_SessionID ev, k) \<Longrightarrow> p \<in> set (subs (dispatch_one ev k w)) \<longleftrightarrow> p \<in> set (subs w)"
  "length (chans (dispatch_one ev k w)) = length (chans w)"
  by (auto simp: dispatch_one_def split: send_result.splits)

lemma dispatch_one_tables [simp]:
  "tick (dispatch_one ev k w) = tick w" "sessions (dispatch_one ev k w) = sessions w"
  "events (dispatch_one ev k w) = events w" "hooked (dispatch_one ev k w) = hooked w"
  "exec_log (dispatch_one ev k w) = exec_log w" "llm_log (dispatch_one ev k w) = llm_log w"
  by (auto simp: dispatch_one_def split: send_result.splits)

lemma dispatch_tables [simp]:
  "tick (dispatch ev w) = tick w" "sessions (dispatch ev w) = sessions w"
  "events (dispatch ev w) = events w" "hooked (dispatch ev w) = hooked w"
  "exec_log (dispatch ev w) = exec_log w" "llm_log (dispatch ev w) = llm_log w"
proof -
  have "tick (fold (dispatch_one ev) ks w) = tick w \<and> sessions (fold (dispatch_one ev) ks w) = sessions w
    \<and> events (fold (dispatch_one ev) ks w) = events w \<and> hooked (fold (dispatch_one ev) ks w) = hooked w
    \<and> exec_log (fold (dispatch_one ev) ks w) = exec_log w
    \<and> llm_log (fold (dispatch_one ev) ks w) = llm_log w" for ks
    by (induction ks arbitrary: w) simp_all
  then show "tick (dispatch ev w) = tick w" "sessions (dispatch ev w) = sessions w"
    "events (dispatch ev w) = events w" "hooked (dispatch ev w) = hooked w"
    "exec_log (dispatch ev w) = exec_log w" "llm_log (dispatch ev w) = llm_log w"
    by (simp_all add: dispatch_def)
qed

text \<open>
  The outcome for one channel: appended to where there is room, closed and
  forgotten where there is none, untouched when it belongs to another session.
\<close>

definition delivered :: "Event \<Rightarrow> nat \<Rightarrow> world \<Rightarrow> world \<Rightarrow> bool" where
  "delivered ev k w w' \<longleftrightarrow>
     (if (be_SessionID ev, k) \<notin> set (subs w)
      then chans w' ! k = chans w ! k \<and> (\<forall>s. (s, k) \<in> set (subs w') \<longleftrightarrow> (s, k) \<in> set (subs w))
      else if length (ch_buf (chans w ! k)) < chan_cap
      then chans w' ! k = (chans w ! k)\<lparr>ch_buf := ch_buf (chans w ! k) @ [ev]\<rparr>
        \<and> (be_SessionID ev, k) \<in> set (subs w')
      else chans w' ! k = (chans w ! k)\<lparr>ch_closed := True\<rparr> \<and> (be_SessionID ev, k) \<notin> set (subs w'))"

lemma dispatch_one_subs: "set (subs (dispatch_one ev k w)) \<subseteq> set (subs w)"
  by (auto simp: dispatch_one_def split: send_result.splits)

lemma dispatch_fold:
  assumes "broker_ok w" "distinct ks" "\<forall>k\<in>set ks. (be_SessionID ev, k) \<in> set (subs w)"
  defines "w' \<equiv> fold (dispatch_one ev) ks w"
  shows "broker_ok w' \<and> length (chans w') = length (chans w)
    \<and> (\<forall>k\<in>set ks. delivered ev k w w')
    \<and> (\<forall>k. k \<notin> set ks \<longrightarrow> chans w' ! k = chans w ! k \<and> (\<forall>s. (s, k) \<in> set (subs w') \<longleftrightarrow> (s, k) \<in> set (subs w)))"
  using assms(1-3) unfolding w'_def
proof (induction ks arbitrary: w)
  case Nil
  then show ?case by simp
next
  case (Cons k ks)
  let ?w = "dispatch_one ev k w"
  have s: "(be_SessionID ev, k) \<in> set (subs w)" using Cons.prems(3) by simp
  have ok: "broker_ok ?w" by (rule dispatch_one_ok [OF Cons.prems(1) s])
  have other: "k' \<noteq> k \<Longrightarrow> (t, k') \<in> set (subs ?w) \<longleftrightarrow> (t, k') \<in> set (subs w)" for t k'
    by (rule dispatch_one_other(2)) simp
  have k: "k < length (chans w)"
    using broker_okD(1) [OF Cons.prems(1) s] by (simp add: sub_ok_def)
  have rest: "\<forall>k'\<in>set ks. (be_SessionID ev, k') \<in> set (subs ?w)"
  proof
    fix k' assume k': "k' \<in> set ks"
    then have "k' \<noteq> k" using Cons.prems(2) by auto
    then show "(be_SessionID ev, k') \<in> set (subs ?w)" using other Cons.prems(3) k' by simp
  qed
  note IH = Cons.IH [OF ok _ rest]
  have dk: "delivered ev k w ?w"
    using Cons.prems(1) s by (cases rule: dispatch_one_cases) (use k s in \<open>auto simp: delivered_def\<close>)
  have ch: "k' \<noteq> k \<Longrightarrow> chans ?w ! k' = chans w ! k'" for k' by (rule dispatch_one_other(1))
  have dk': "delivered ev k w (fold (dispatch_one ev) ks ?w)"
    using IH Cons.prems(2) dk by (simp add: delivered_def)
  have "delivered ev k' w (fold (dispatch_one ev) ks ?w)" if k': "k' \<in> set ks" for k'
  proof -
    have ne: "k' \<noteq> k" using k' Cons.prems(2) by auto
    have "delivered ev k' ?w (fold (dispatch_one ev) ks ?w)" using IH Cons.prems(2) k' by simp
    then show ?thesis using other [OF ne] ch [OF ne] by (simp add: delivered_def)
  qed
  then show ?case
    using IH Cons.prems(2) dk' other ch dispatch_one_other(3) [of ev k w] by simp
qed

lemma dispatch_ok:
  assumes "broker_ok w"
  shows "broker_ok (dispatch ev w)" "delivered ev k w (dispatch ev w)"
    "length (chans (dispatch ev w)) = length (chans w)"
proof -
  note f = dispatch_fold [OF assms distinct_subscribers [OF assms], of "be_SessionID ev" ev]
  show "broker_ok (dispatch ev w)" "length (chans (dispatch ev w)) = length (chans w)"
    using f by (simp_all add: dispatch_def in_subscribers)
  show "delivered ev k w (dispatch ev w)"
  proof (cases "(be_SessionID ev, k) \<in> set (subs w)")
    case True
    then show ?thesis using f by (simp add: dispatch_def in_subscribers)
  next
    case False
    then show ?thesis using f by (simp add: dispatch_def in_subscribers delivered_def)
  qed
qed

section \<open>Publishing\<close>

text \<open>A publication either fails and changes nothing but the clock, or appends one event and delivers it.\<close>

definition published :: "env \<Rightarrow> string \<Rightarrow> string \<Rightarrow> string \<Rightarrow> raw \<Rightarrow> world \<Rightarrow> EventRow \<Rightarrow> world \<Rightarrow> bool" where
  "published e sid ty thread payload w row w' \<longleftrightarrow>
     (\<exists>s. session_by sid w = Some s
        \<and> row = appended_row e (tick w) \<lparr>ae_SessionID = sid, ae_ThreadID = thread, ae_Type = ty,
              ae_Payload = payload\<rparr> (ss_NextSeq s)
        \<and> event_insert_ok row w
        \<and> w' = (let w1 = dispatch (event_of_row row) (w\<lparr>tick := tick w + 7,
             sessions := update_where (\<lambda>r. ss_ID r = sid) (\<lambda>r. r\<lparr>ss_NextSeq := ss_NextSeq r + 1\<rparr>) (sessions w),
             events := events w @ [row]\<rparr>) in w1\<lparr>hooked := hooked w1 @ [event_of_row row]\<rparr>))"

lemma Publish_cases:
  obtains (err) x d where "Publish e c sid ty thread payload w = (Inl x, w\<lparr>tick := tick w + d\<rparr>)"
  | (ok) row w' where "Publish e c sid ty thread payload w = (Inr (event_of_row row), w')"
      "published e sid ty thread payload w row w'"
proof (cases rule: AppendEvent_cases [of e c "\<lparr>ae_SessionID = sid, ae_ThreadID = thread, ae_Type = ty,
              ae_Payload = payload\<rparr>" w])
  case (err x d)
  then show ?thesis using that(1) by (simp add: Publish_def bindE_def)
next
  case (ok s)
  then show ?thesis
    by (intro that(2)) (auto simp: Publish_def bindE_def modifyE_def returnE_def published_def Let_def)
qed

lemma broker_ok_frames [simp]:
  "broker_ok (w\<lparr>tick := n\<rparr>) = broker_ok w" "broker_ok (w\<lparr>hooked := h\<rparr>) = broker_ok w"
  "broker_ok (w\<lparr>sessions := ss\<rparr>) = broker_ok w" "broker_ok (w\<lparr>events := es\<rparr>) = broker_ok w"
  by (rule broker_ok_frame; simp)+

lemma log_ok_frames [simp]:
  "log_ok (w\<lparr>hooked := h\<rparr>) = log_ok w" "log_ok (dispatch ev w) = log_ok w"
  by (rule log_ok_frame; simp)+

lemma delivered_frame:
  "subs w = subs v \<Longrightarrow> chans w = chans v \<Longrightarrow> subs w' = subs v' \<Longrightarrow> chans w' = chans v' \<Longrightarrow>
     delivered ev k w w' = delivered ev k v v'"
  by (simp add: delivered_def)

lemma published_log:
  assumes "published e sid ty thread payload w row w'" "log_ok w"
  shows "log_ok w'" "session_events sid w' = session_events sid w @ [row]"
    "ev_Seq row = int (length (session_events sid w)) + 1" "hooked w' = hooked w @ [event_of_row row]"
    "i \<noteq> sid \<Longrightarrow> session_events i w' = session_events i w"
proof -
  obtain s where s: "session_by sid w = Some s" "event_insert_ok row w"
    and row: "row = appended_row e (tick w) \<lparr>ae_SessionID = sid, ae_ThreadID = thread, ae_Type = ty,
              ae_Payload = payload\<rparr> (ss_NextSeq s)"
    and w': "w' = (let w1 = dispatch (event_of_row row) (w\<lparr>tick := tick w + 7,
             sessions := update_where (\<lambda>r. ss_ID r = sid) (\<lambda>r. r\<lparr>ss_NextSeq := ss_NextSeq r + 1\<rparr>) (sessions w),
             events := events w @ [row]\<rparr>) in w1\<lparr>hooked := hooked w1 @ [event_of_row row]\<rparr>)"
    using assms(1) unfolding published_def by blast
  have r: "ev_SessionID row = sid" "ev_Seq row = ss_NextSeq s" by (simp_all add: row)
  have "log_ok w' = log_ok (w\<lparr>sessions := update_where (\<lambda>r. ss_ID r = sid) (\<lambda>r. r\<lparr>ss_NextSeq := ss_NextSeq r + 1\<rparr>) (sessions w),
                   events := events w @ [row]\<rparr>)"
    unfolding w' Let_def by (rule log_ok_frame) simp_all
  then show "log_ok w'" using log_ok_append [OF assms(2) s r] by simp
  show "ev_Seq row = int (length (session_events sid w)) + 1"
    using log_ok_session(1) [OF assms(2) s(1)] r by simp
  show "session_events sid w' = session_events sid w @ [row]"
    using r by (simp add: w' Let_def session_events_def)
  show "hooked w' = hooked w @ [event_of_row row]" by (simp add: w' Let_def)
  show "session_events i w' = session_events i w" if "i \<noteq> sid"
    using r that by (simp add: w' Let_def session_events_def)
qed

lemma published_broker:
  assumes "published e sid ty thread payload w row w'" "broker_ok w"
  shows "broker_ok w'" "delivered (event_of_row row) k w w'"
proof -
  let ?w = "w\<lparr>tick := tick w + 7,
             sessions := update_where (\<lambda>r. ss_ID r = sid) (\<lambda>r. r\<lparr>ss_NextSeq := ss_NextSeq r + 1\<rparr>) (sessions w),
             events := events w @ [row]\<rparr>"
  let ?w1 = "dispatch (event_of_row row) ?w"
  have w': "w' = ?w1\<lparr>hooked := hooked ?w1 @ [event_of_row row]\<rparr>"
    using assms(1) unfolding published_def Let_def by blast
  have ok: "broker_ok ?w" using assms(2) by (simp add: broker_ok_def)
  note d = dispatch_ok [OF ok, of "event_of_row row"]
  show "broker_ok w'" unfolding w' using d(1) by simp
  show "delivered (event_of_row row) k w w'"
    using d(2) [of k] by (simp add: w' delivered_def)
qed

section \<open>When publishing succeeds\<close>

text \<open>
  No statement fails, the identifiers drawn are new, and the session exists:
  then every publication of a document succeeds.
\<close>

definition fresh_ids :: "env \<Rightarrow> world \<Rightarrow> bool" where
  "fresh_ids e w \<longleftrightarrow> (\<forall>r\<in>set (events w). \<forall>n\<ge>tick w. ev_ID r \<noteq> ''evt-'' @ ToLower (ulid e n))"

definition healthy :: "env \<Rightarrow> world \<Rightarrow> bool" where
  "healthy e w \<longleftrightarrow> no_faults e \<and> distinct_ids e \<and> fresh_ids e w \<and> log_ok w \<and> broker_ok w"

lemma AppendEvent_succeeds:
  assumes "no_faults e" "\<And>n. \<not> cancelled c n" "session_by (ae_SessionID inp) w = Some s"
    and "event_insert_ok (appended_row e (tick w) inp (ss_NextSeq s)) w"
  shows "fst (AppendEvent e c inp w) = Inr (appended_row e (tick w) inp (ss_NextSeq s))"
proof -
  have st: "stmt_res e c n = Inr ()" for n using assms(1,2) by (rule stmt_res_ok)
  have ins: "event_insert_ok (appended_row e (tick w) inp (ss_NextSeq s))
       (w\<lparr>tick := n, sessions := update_where (\<lambda>r. ss_ID r = ae_SessionID inp)
             (\<lambda>r. r\<lparr>ss_NextSeq := ss_NextSeq r + 1\<rparr>) (sessions w)\<rparr>)" for n
    using assms(4) by (simp add: event_insert_ok_def session_by_def select_one_update_None)
  show ?thesis
    using assms(3) ins
    by (simp add: AppendEvent_def Let_def in_tx_def bindE_def queryE_def updateE_def insertE_def stmt_run st
      getsE_def optE_def returnE_def NewID_def now_def on_session_def session_by_def appended_row_def
      numeral_eq_Suc)
qed

lemma fresh_insert_ok:
  assumes "log_ok w" "fresh_ids e w" "session_by (ae_SessionID inp) w = Some s" "ae_Payload inp \<noteq> None"
  shows "event_insert_ok (appended_row e (tick w) inp (ss_NextSeq s)) w"
proof -
  have "ev_Seq r \<noteq> ss_NextSeq s" if "r \<in> set (events w)" "ev_SessionID r = ae_SessionID inp" for r
  proof -
    have "r \<in> set (session_events (ae_SessionID inp) w)" using that by (simp add: session_events_def)
    then obtain i where "i < length (session_events (ae_SessionID inp) w)" "r = session_events (ae_SessionID inp) w ! i"
      by (metis in_set_conv_nth)
    then show ?thesis
      using slog.seq_nth [OF assms(1)] log_ok_session(1) [OF assms(1,3)] by simp
  qed
  moreover have "ev_ID r \<noteq> ''evt-'' @ ToLower (ulid e (tick w + 3))" if "r \<in> set (events w)" for r
    using assms(2) that by (simp add: fresh_ids_def)
  ultimately show ?thesis
    using assms(3,4) by (auto simp: event_insert_ok_def appended_row_def list_all_iff)
qed

lemma dispatch_fresh: "published e sid ty thread payload w row w' \<Longrightarrow> distinct_ids e \<Longrightarrow> fresh_ids e w \<Longrightarrow> fresh_ids e w'"
proof -
  assume p: "published e sid ty thread payload w row w'" and d: "distinct_ids e" and f: "fresh_ids e w"
  have ev: "events w' = events w @ [row]" "tick w' = tick w + 7"
    using p by (auto simp: published_def Let_def)
  have row: "ev_ID row = ''evt-'' @ ToLower (ulid e (tick w + 3))"
    using p by (auto simp: published_def appended_row_def)
  have "ToLower (ulid e (tick w + 3)) \<noteq> ToLower (ulid e n)" if "tick w' \<le> n" for n
    using that ev(2) injD [OF d [unfolded distinct_ids_def], of "tick w + 3" n] by auto
  then show ?thesis using f by (auto simp: fresh_ids_def ev row)
qed

lemma Publish_succeeds:
  assumes "healthy e w" "\<And>n. \<not> cancelled c n" "session_by sid w \<noteq> None" "payload \<noteq> None"
  obtains row w' where "Publish e c sid ty thread payload w = (Inr (event_of_row row), w')"
    "published e sid ty thread payload w row w'" "healthy e w'"
proof -
  let ?inp = "\<lparr>ae_SessionID = sid, ae_ThreadID = thread, ae_Type = ty, ae_Payload = payload\<rparr>"
  have H: "log_ok w" "fresh_ids e w" "no_faults e" "distinct_ids e" "broker_ok w"
    using assms(1) by (simp_all add: healthy_def)
  obtain s where s: "session_by sid w = Some s" using assms(3) by blast
  have ok: "fst (AppendEvent e c ?inp w) = Inr (appended_row e (tick w) ?inp (ss_NextSeq s))"
    by (rule AppendEvent_succeeds [OF H(3) assms(2)]) (use s fresh_insert_ok [OF H(1,2), of ?inp s] assms(4) in auto)
  show ?thesis
  proof (cases rule: Publish_cases [of e c sid "ty" thread payload w])
    case (err x d)
    then show ?thesis using ok by (cases "AppendEvent e c ?inp w") (simp add: Publish_def bindE_def modifyE_def returnE_def Let_def)
  next
    case (ok row w')
    then show ?thesis
      using that dispatch_fresh [OF ok(2)] published_log(1) [OF ok(2)] published_broker(1) [OF ok(2)] H
      by (simp add: healthy_def)
  qed
qed

lemma published_session:
  "published e sid ty thread payload w row w' \<Longrightarrow> (session_by i w' = None) = (session_by i w = None)"
  "published e sid ty thread payload w row w' \<Longrightarrow> tick w' = tick w + 7"
  by (auto simp: published_def Let_def session_by_def select_one_update_None)

section \<open>Properties\<close>

text \<open>C1: publishing keeps the log and the broker well-formed, and it is all
or nothing: a failed publication changes nothing but the clock, a successful
one adds one event with the next sequence number at the end of its session's
log, hands it to the hooks, and puts it in the buffer of every subscriber of the
session that has room, while one without room is closed and unsubscribed.\<close>

theorem publish_all_or_nothing:
  assumes "log_ok w" "broker_ok w" "Publish e c sid ty thread payload w = (r, w')"
  shows "log_ok w' \<and> broker_ok w' \<and>
    (case r of
       Inl x \<Rightarrow> w' = w\<lparr>tick := tick w'\<rparr>
     | Inr ev \<Rightarrow> (\<exists>row. ev = event_of_row row \<and> session_events sid w' = session_events sid w @ [row]
         \<and> ev_Seq row = int (length (session_events sid w)) + 1 \<and> ev_Type row = ty \<and> ev_Payload row = payload
         \<and> hooked w' = hooked w @ [ev] \<and> (\<forall>k. delivered ev k w w')))"
proof (cases rule: Publish_cases [of e c sid ty thread payload w])
  case (err x d)
  then show ?thesis using assms by auto
next
  case (ok row v)
  have row: "ev_Type row = ty" "ev_Payload row = payload"
    using ok(2) by (auto simp: published_def)
  then show ?thesis
    using ok assms published_log [OF ok(2) assms(1)] published_broker [OF ok(2) assms(2)] by auto
qed

definition demo_env :: "env" where
  "demo_env = \<lparr>clock = \<lambda>n. int n, ulid = nat_str, fault = \<lambda>n. None\<rparr>"

definition demo_session :: "string \<Rightarrow> string \<Rightarrow> SessionRow" where
  "demo_session sid st = \<lparr>ss_ID = sid, ss_TenantID = ''tnt-default'', ss_AgentID = ''agent-1'',
     ss_AgentVersion = 1, ss_AgentSnapshot = Some (JObj []), ss_EnvironmentID = ''default'',
     ss_Status = st, ss_Title = None, ss_Metadata = Some (JObj []), ss_VaultIDs = Some (JArr []),
     ss_CreatedAt = 0, ss_UpdatedAt = 0, ss_ArchivedAt = None, ss_TerminatedAt = None, ss_NextSeq = 1,
     ss_UsageInput = 0, ss_UsageOutput = 0, ss_UsageCacheCreate = 0, ss_UsageCacheRead = 0\<rparr>"

definition demo_world :: "world" where
  "demo_world = snd (Subscribe ''s'' (empty_world\<lparr>sessions := [demo_session ''s'' ''idle'']\<rparr>))"

lemma demo_ok [simp]: "log_ok demo_world" "broker_ok demo_world"
  by (simp_all add: log_ok_def broker_ok_def sub_ok_def demo_world_def Subscribe_def empty_world_def
      demo_session_def session_events_def Let_def)

lemma healthy_demo:
  assumes "log_ok w" "broker_ok w" "map ev_ID (events w) = map (\<lambda>k. ''evt-'' @ nat_str k) ks"
    and "list_all (\<lambda>k. k < tick w) ks"
  shows "healthy demo_env w"
proof -
  have "\<exists>k<tick w. ev_ID r = ''evt-'' @ nat_str k" if r: "r \<in> set (events w)" for r
  proof -
    have "ev_ID r \<in> set (map (\<lambda>k. ''evt-'' @ nat_str k) ks)"
      unfolding assms(3) [symmetric] using r by simp
    then show ?thesis using assms(4) by (auto simp: list_all_iff)
  qed
  then have "fresh_ids demo_env w"
    by (fastforce simp: fresh_ids_def demo_env_def)
  moreover have "distinct_ids demo_env" "no_faults demo_env"
    by (simp_all add: distinct_ids_def inj_def demo_env_def no_faults_def)
  ultimately show ?thesis using assms(1,2) by (simp add: healthy_def)
qed

lemma publish_all_or_nothing_witness:
  "\<exists>ev w'. Publish demo_env Background ''s'' ''user.message'' [] (Some (JObj [])) demo_world = (Inr ev, w')
     \<and> log_ok w' \<and> be_Seq ev = 1 \<and> ch_buf (chans w' ! 0) = [ev]"
proof -
  let ?r = "Publish demo_env Background ''s'' ''user.message'' [] (Some (JObj [])) demo_world"
  obtain r w' where r: "?r = (r, w')" by (cases ?r)
  have "case fst ?r of Inl x \<Rightarrow> False | Inr ev \<Rightarrow> be_Seq ev = 1 \<and> ch_buf (chans (snd ?r) ! 0) = [ev]"
    by code_simp
  then show ?thesis
    using publish_all_or_nothing [OF demo_ok r] by (cases r) (auto simp: r)
qed

end
