(* ===== verification/HarnessMessages.thy ===== *)
theory HarnessMessages
  imports Broker
begin

text \<open>
  \<open>internal/harness/messages.go\<close>: the conversation handed to the model is a
  function of the event log. Each event of a turn contributes blocks under a
  role; neighbouring events of one role share a message; the newest compaction
  checkpoint replaces everything up to its sequence number by a summary.
\<close>

definition or_primary :: "string \<Rightarrow> string" where
  "or_primary t = (if t = [] then ''primary'' else t)"

definition filterThreadEvents :: "EventRow list \<Rightarrow> string \<Rightarrow> EventRow list" where
  "filterThreadEvents evs thread =
     filter (\<lambda>ev. ev_ThreadID ev = [] \<or> ev_ThreadID ev = or_primary thread) evs"

section \<open>Payloads\<close>

definition compactionEventType :: string where
  "compactionEventType = ''agent.thread_context_compacted''"

record compactionPayload =
  cp_Type :: string
  cp_Summary :: string
  cp_ThroughSeq :: int

definition zero_compaction :: compactionPayload where
  "zero_compaction = \<lparr>cp_Type = [], cp_Summary = [], cp_ThroughSeq = 0\<rparr>"

definition dec_compaction :: "compactionPayload dec" where
  "dec_compaction = dec_struct
     [fld ''type'' cp_Type cp_Type_update dec_str,
      fld ''summary'' cp_Summary cp_Summary_update dec_str,
      fld ''through_seq'' cp_ThroughSeq cp_ThroughSeq_update dec_int64]"

record content_payload =
  cpl_Content :: "content_block list"

definition dec_content :: "content_payload dec" where
  "dec_content = dec_struct [fld ''content'' cpl_Content cpl_Content_update (dec_list zero_block dec_block)]"

definition event_content :: "EventRow \<Rightarrow> content_block list" where
  "event_content ev = cpl_Content (fst (unmarshal dec_content \<lparr>cpl_Content = []\<rparr> (ev_Payload ev)))"

record id_payload =
  idp_ID :: string

definition dec_id :: "id_payload dec" where
  "dec_id = dec_struct [fld ''id'' idp_ID idp_ID_update dec_str]"

record tool_use_payload =
  tup_ID :: string
  tup_Name :: string
  tup_Input :: raw

definition zero_tool_use :: tool_use_payload where
  "zero_tool_use = \<lparr>tup_ID = [], tup_Name = [], tup_Input = None\<rparr>"

definition dec_tool_use :: "tool_use_payload dec" where
  "dec_tool_use = dec_struct
     [fld ''id'' tup_ID tup_ID_update dec_str,
      fld ''name'' tup_Name tup_Name_update dec_str,
      fld ''input'' tup_Input tup_Input_update dec_raw]"

record tool_result_payload =
  trp_ToolUseID :: string
  trp_CustomToolUseID :: string
  trp_Content :: string
  trp_IsError :: bool

definition zero_tool_result :: tool_result_payload where
  "zero_tool_result = \<lparr>trp_ToolUseID = [], trp_CustomToolUseID = [], trp_Content = [], trp_IsError = False\<rparr>"

definition dec_tool_result :: "tool_result_payload dec" where
  "dec_tool_result = dec_struct
     [fld ''tool_use_id'' trp_ToolUseID trp_ToolUseID_update dec_str,
      fld ''custom_tool_use_id'' trp_CustomToolUseID trp_CustomToolUseID_update dec_str,
      fld ''content'' trp_Content trp_Content_update dec_str,
      fld ''is_error'' trp_IsError trp_IsError_update dec_bool]"

definition tool_use_types :: "string list" where
  "tool_use_types = [''agent.tool_use'', ''agent.custom_tool_use'', ''agent.mcp_tool_use'']"

definition tool_result_types :: "string list" where
  "tool_result_types = [''agent.tool_result'', ''user.custom_tool_result'', ''agent.mcp_tool_result'']"

section \<open>The newest checkpoint\<close>

text \<open>The loop over the events keeps \<open>(cutoff, summary, maxSeq)\<close>; an unreadable checkpoint is skipped.\<close>

definition checkpoint_step :: "EventRow \<Rightarrow> int \<times> string \<times> int \<Rightarrow> int \<times> string \<times> int" where
  "checkpoint_step ev st =
     (case st of (cutoff, summary, maxSeq) \<Rightarrow>
        if ev_Type ev \<noteq> compactionEventType \<or> ev_Seq ev \<le> maxSeq then st
        else (case unmarshal dec_compaction zero_compaction (ev_Payload ev) of
                (p, False) \<Rightarrow> (cp_ThroughSeq p, cp_Summary p, ev_Seq ev)
              | (p, True) \<Rightarrow> st))"

definition latest_checkpoint :: "EventRow list \<Rightarrow> int \<times> string \<times> int" where
  "latest_checkpoint evs = fold checkpoint_step evs (-1, [], -1)"

section \<open>Building messages\<close>

definition model_id_step :: "EventRow \<Rightarrow> (string \<rightharpoonup> string) \<Rightarrow> (string \<rightharpoonup> string)" where
  "model_id_step ev m =
     (if ev_Type ev \<in> set tool_use_types then
        (case unmarshal dec_id \<lparr>idp_ID = []\<rparr> (ev_Payload ev) of
           (p, err) \<Rightarrow> if \<not> err \<and> idp_ID p \<noteq> [] then m(ev_ID ev \<mapsto> idp_ID p) else m)
      else m)"

definition toolUseEventToModelID :: "EventRow list \<Rightarrow> (string \<rightharpoonup> string)" where
  "toolUseEventToModelID evs = fold model_id_step evs Map.empty"

definition lookup_str :: "(string \<rightharpoonup> string) \<Rightarrow> string \<Rightarrow> string" where
  "lookup_str m k = (case m k of Some v \<Rightarrow> v | None \<Rightarrow> [])"

record building =
  bd_msgs :: "message list"
  bd_current :: "message option"
  bd_pending :: bool

definition flush :: "building \<Rightarrow> building" where
  "flush b =
     (case bd_current b of
        Some m \<Rightarrow> (if m_Content m \<noteq> [] then b\<lparr>bd_msgs := bd_msgs b @ [m], bd_current := None\<rparr>
                   else b\<lparr>bd_current := None\<rparr>)
      | None \<Rightarrow> b)"

definition ensure :: "role \<Rightarrow> building \<Rightarrow> building" where
  "ensure r b =
     (if (case bd_current b of None \<Rightarrow> True | Some m \<Rightarrow> m_Role m \<noteq> r)
      then (flush b)\<lparr>bd_current := Some \<lparr>m_Role = r, m_Content = []\<rparr>\<rparr> else b)"

definition add_blocks :: "content_block list \<Rightarrow> building \<Rightarrow> building" where
  "add_blocks bs b = b\<lparr>bd_current := map_option (\<lambda>m. m\<lparr>m_Content := m_Content m @ bs\<rparr>) (bd_current b)\<rparr>"

definition text_block :: "string \<Rightarrow> content_block" where
  "text_block t = zero_block\<lparr>cb_Type := ''text'', cb_Text := t\<rparr>"

definition summary_text :: "string \<Rightarrow> string" where
  "summary_text s = ''[Earlier conversation summary]'' @ [CHR 0x0A] @ s"

definition user_blocks :: "EventRow \<Rightarrow> content_block list" where
  "user_blocks ev = map (\<lambda>b. if cb_Type b = [] then b\<lparr>cb_Type := ''text''\<rparr> else b) (event_content ev)"

definition tool_use_block :: "EventRow \<Rightarrow> content_block" where
  "tool_use_block ev =
     (let p = fst (unmarshal dec_tool_use zero_tool_use (ev_Payload ev))
      in zero_block\<lparr>cb_Type := ''tool_use'', cb_ToolUseID := tup_ID p, cb_ToolName := tup_Name p,
                    cb_ToolInput := tup_Input p\<rparr>)"

definition tool_result_block :: "(string \<rightharpoonup> string) \<Rightarrow> EventRow \<Rightarrow> content_block" where
  "tool_result_block ids ev =
     (let p = fst (unmarshal dec_tool_result zero_tool_result (ev_Payload ev));
          tid = (if trp_ToolUseID p = [] then trp_CustomToolUseID p else trp_ToolUseID p);
          mid = lookup_str ids tid
      in zero_block\<lparr>cb_Type := ''tool_result'', cb_ToolUseID := (if mid \<noteq> [] then mid else tid),
                    cb_ToolResult := trp_Content p, cb_IsError := trp_IsError p\<rparr>)"

text \<open>The body of the loop: \<open>cutoff\<close> and \<open>summaryPrefix\<close> are fixed, the rest is the state.\<close>

definition apply_event :: "int \<Rightarrow> string \<Rightarrow> (string \<rightharpoonup> string) \<Rightarrow> EventRow \<Rightarrow> building \<Rightarrow> building" where
  "apply_event cutoff summary ids ev b =
     (if ev_Seq ev \<le> cutoff then b
      else if ev_Type ev = ''user.message'' then
        (let b1 = ensure RoleUser b;
             b2 = (if bd_pending b1
                   then (add_blocks [text_block (summary_text summary)] b1)\<lparr>bd_pending := False\<rparr> else b1)
         in add_blocks (user_blocks ev) b2)
      else if ev_Type ev = ''agent.message'' then
        add_blocks (event_content ev) (ensure RoleAssistant b)
      else if ev_Type ev \<in> set tool_use_types then
        add_blocks [tool_use_block ev] (ensure RoleAssistant b)
      else if ev_Type ev \<in> set tool_result_types then
        add_blocks [tool_result_block ids ev] (ensure RoleUser b)
      else b)"

definition messages_of :: "string \<Rightarrow> EventRow list \<Rightarrow> message list" where
  "messages_of thread rows =
     (let evs = filterThreadEvents rows thread;
          (cutoff, summary, _) = latest_checkpoint evs;
          b0 = \<lparr>bd_msgs = [], bd_current = None, bd_pending = summary \<noteq> []\<rparr>
      in bd_msgs (flush (fold (apply_event cutoff summary (toolUseEventToModelID evs)) evs b0)))"

definition buildMessages :: "env \<Rightarrow> ctx \<Rightarrow> string \<Rightarrow> string \<Rightarrow> (world, message list) io" where
  "buildMessages e c sid thread =
     bindE (ListEvents e c sid []) (\<lambda>rows. returnE (messages_of thread rows))"

section \<open>What the messages are\<close>

text \<open>
  The specification: each retained event contributes a role and blocks, the
  summary comes in front of the first retained user message, and the messages
  are the maximal runs of one role with their empty ones left out.
\<close>

fun contribution :: "int \<Rightarrow> string \<Rightarrow> (string \<rightharpoonup> string) \<Rightarrow> bool \<Rightarrow> EventRow list \<Rightarrow> (role \<times> content_block list) list" where
  "contribution cutoff summary ids pending [] = []"
| "contribution cutoff summary ids pending (ev # evs) =
     (if ev_Seq ev \<le> cutoff then contribution cutoff summary ids pending evs
      else if ev_Type ev = ''user.message'' then
        (RoleUser, (if pending then [text_block (summary_text summary)] else []) @ user_blocks ev)
          # contribution cutoff summary ids False evs
      else if ev_Type ev = ''agent.message'' then
        (RoleAssistant, event_content ev) # contribution cutoff summary ids pending evs
      else if ev_Type ev \<in> set tool_use_types then
        (RoleAssistant, [tool_use_block ev]) # contribution cutoff summary ids pending evs
      else if ev_Type ev \<in> set tool_result_types then
        (RoleUser, [tool_result_block ids ev]) # contribution cutoff summary ids pending evs
      else contribution cutoff summary ids pending evs)"

fun runs :: "(role \<times> content_block list) list \<Rightarrow> message list" where
  "runs [] = []"
| "runs ((r, bs) # rest) =
     (case runs rest of
        m # ms \<Rightarrow> (if m_Role m = r then m\<lparr>m_Content := bs @ m_Content m\<rparr> # ms
                   else \<lparr>m_Role = r, m_Content = bs\<rparr> # m # ms)
      | [] \<Rightarrow> [\<lparr>m_Role = r, m_Content = bs\<rparr>])"

definition nonempty :: "message list \<Rightarrow> message list" where
  "nonempty ms = filter (\<lambda>m. m_Content m \<noteq> []) ms"

definition push :: "role \<Rightarrow> content_block list \<Rightarrow> building \<Rightarrow> building" where
  "push r bs b = add_blocks bs (ensure r b)"

definition finished :: "building \<Rightarrow> message list" where
  "finished b = bd_msgs (flush b)"

text \<open>Runs with a first message already open.\<close>

definition runs_from :: "message option \<Rightarrow> (role \<times> content_block list) list \<Rightarrow> message list" where
  "runs_from cur xs = (case cur of None \<Rightarrow> runs xs | Some m \<Rightarrow> runs ((m_Role m, m_Content m) # xs))"

lemma runs_merge: "runs ((r, bs) # (r, cs) # rest) = runs ((r, bs @ cs) # rest)"
  by (auto split: list.splits)

lemma runs_split:
  assumes "r \<noteq> r'"
  shows "runs ((r, bs) # (r', cs) # rest) = \<lparr>m_Role = r, m_Content = bs\<rparr> # runs ((r', cs) # rest)"
  using assms by (auto split: list.splits)

lemma push_run:
  "bd_msgs (push r bs b) @ nonempty (runs_from (bd_current (push r bs b)) xs)
     = bd_msgs b @ nonempty (runs_from (bd_current b) ((r, bs) # xs))"
proof (cases "bd_current b")
  case None
  then show ?thesis by (simp add: push_def add_blocks_def ensure_def flush_def runs_from_def)
next
  case (Some m)
  show ?thesis
  proof (cases "m_Role m = r")
    case True
    then show ?thesis
      using Some by (simp add: push_def add_blocks_def ensure_def flush_def runs_from_def runs_merge
          del: runs.simps)
  next
    case False
    have "\<lparr>m_Role = m_Role m, m_Content = m_Content m\<rparr> = m" by (cases m) simp
    then show ?thesis
      using Some False by (simp add: push_def add_blocks_def ensure_def flush_def runs_from_def runs_split
          nonempty_def del: runs.simps)
  qed
qed

lemma push_pending [simp]: "bd_pending (push r bs b) = bd_pending b"
  by (simp add: push_def add_blocks_def ensure_def flush_def split: option.splits)

lemma push_eq: "m_Role m = r \<Longrightarrow> bd_current b = Some m \<Longrightarrow> push r bs b = add_blocks bs b"
  by (simp add: push_def ensure_def)

lemma add_blocks_twice: "add_blocks bs (add_blocks as b) = add_blocks (as @ bs) b"
  by (simp add: add_blocks_def option.map_comp comp_def)

lemma add_blocks_pending: "add_blocks bs (b\<lparr>bd_pending := p\<rparr>) = (add_blocks bs b)\<lparr>bd_pending := p\<rparr>"
  by (simp add: add_blocks_def)

lemma ensure_pending: "ensure r (b\<lparr>bd_pending := p\<rparr>) = (ensure r b)\<lparr>bd_pending := p\<rparr>"
  by (simp add: ensure_def flush_def split: option.splits)

lemma ensure_keeps_pending [simp]: "bd_pending (ensure r b) = bd_pending b"
  by (simp add: ensure_def flush_def split: option.splits)

lemma apply_user:
  "ev_Type ev = ''user.message'' \<Longrightarrow> \<not> ev_Seq ev \<le> cutoff \<Longrightarrow>
     apply_event cutoff summary ids ev b =
       (push RoleUser ((if bd_pending b then [text_block (summary_text summary)] else []) @ user_blocks ev) b)
         \<lparr>bd_pending := False\<rparr>"
  by (cases b) (auto simp: apply_event_def push_def Let_def add_blocks_twice add_blocks_pending add_blocks_def ensure_def flush_def
      split: option.splits)

lemma fold_apply:
  "bd_msgs b' @ nonempty (runs_from (bd_current b') xs)
     = bd_msgs b @ nonempty (runs_from (bd_current b) (contribution cutoff summary ids (bd_pending b) evs @ xs))"
  if "b' = fold (apply_event cutoff summary ids) evs b"
  using that
proof (induction evs arbitrary: b b')
  case Nil
  then show ?case by simp
next
  case (Cons ev evs)
  let ?b = "apply_event cutoff summary ids ev b"
  have b': "b' = fold (apply_event cutoff summary ids) evs ?b" using Cons.prems by simp
  note IH = Cons.IH [OF b']
  show ?case
  proof (cases "ev_Seq ev \<le> cutoff \<or> ev_Type ev \<noteq> ''user.message''")
    case True
    then consider (skip) "?b = b" "contribution cutoff summary ids (bd_pending b) (ev # evs) =
          contribution cutoff summary ids (bd_pending b) evs"
      | (push) r bs where "?b = push r bs b" "contribution cutoff summary ids (bd_pending b) (ev # evs)
                = (r, bs) # contribution cutoff summary ids (bd_pending b) evs"
    proof -
      consider "ev_Seq ev \<le> cutoff" | "\<not> ev_Seq ev \<le> cutoff" "ev_Type ev = ''agent.message''"
        | "\<not> ev_Seq ev \<le> cutoff" "ev_Type ev \<noteq> ''user.message''" "ev_Type ev \<noteq> ''agent.message''"
          "ev_Type ev \<in> set tool_use_types"
        | "\<not> ev_Seq ev \<le> cutoff" "ev_Type ev \<noteq> ''user.message''" "ev_Type ev \<noteq> ''agent.message''"
          "ev_Type ev \<notin> set tool_use_types" "ev_Type ev \<in> set tool_result_types"
        | "\<not> ev_Seq ev \<le> cutoff" "ev_Type ev \<noteq> ''user.message''" "ev_Type ev \<noteq> ''agent.message''"
          "ev_Type ev \<notin> set tool_use_types" "ev_Type ev \<notin> set tool_result_types"
        using True by blast
      then show ?thesis
        by cases (rule that(1) that(2), simp add: apply_event_def push_def, simp)+
    qed
    then show ?thesis
    proof cases
      case skip
      show ?thesis using IH unfolding skip by assumption
    next
      case push
      show ?thesis using IH unfolding push(2) by (simp only: push(1) push_run push_pending append_Cons)
    qed
  next
    case False
    then show ?thesis
      using IH push_run [of RoleUser _ b] by (simp add: apply_user)
  qed
qed

lemma finished_runs: "finished b = bd_msgs b @ nonempty (runs_from (bd_current b) [])"
proof -
  have "\<lparr>m_Role = m_Role m, m_Content = m_Content m\<rparr> = m" for m :: message by (cases m) simp
  then show ?thesis
    by (simp add: finished_def flush_def runs_from_def nonempty_def split: option.splits)
qed

lemma messages_of_runs:
  "messages_of thread rows =
     (let evs = filterThreadEvents rows thread; (cutoff, summary, _) = latest_checkpoint evs
      in nonempty (runs (contribution cutoff summary (toolUseEventToModelID evs) (summary \<noteq> []) evs)))"
  using fold_apply [OF refl, where xs = "[]"]
  by (simp add: messages_of_def Let_def finished_runs [unfolded finished_def] runs_from_def split: prod.splits)

section \<open>Properties\<close>

lemma runs_alternate: "successively (\<lambda>a b. m_Role a \<noteq> m_Role b) (runs xs)"
  by (induction xs rule: runs.induct) (auto split: list.splits simp: successively_Cons)

lemma runs_nonempty: "\<forall>(r, bs)\<in>set xs. bs \<noteq> [] \<Longrightarrow> nonempty (runs xs) = runs xs"
proof (induction xs rule: runs.induct)
  case (2 r bs rest)
  then have "\<forall>m\<in>set (runs rest). m_Content m \<noteq> []"
    by (auto simp: nonempty_def filter_id_conv)
  then show ?case using 2 by (auto simp: nonempty_def filter_id_conv split: list.splits)
qed (simp add: nonempty_def)

definition tagged :: "role \<times> content_block list \<Rightarrow> (role \<times> content_block) list" where
  "tagged p = map (Pair (fst p)) (snd p)"

definition tagged_messages :: "message list \<Rightarrow> (role \<times> content_block) list" where
  "tagged_messages ms = concat (map (\<lambda>m. map (Pair (m_Role m)) (m_Content m)) ms)"

lemma runs_Nil: "runs xs = [] \<longleftrightarrow> xs = []"
  by (cases xs) (auto split: list.splits if_splits)

lemma tagged_runs: "tagged_messages (nonempty (runs xs)) = concat (map tagged xs)"
  by (induction xs rule: runs.induct)
    (auto simp: tagged_messages_def nonempty_def tagged_def runs_Nil split: list.splits)



text \<open>When every retained event contributes at least one block, the
roles of neighbouring messages differ, as the model's interface demands.\<close>

theorem messages_alternate:
  assumes "latest_checkpoint (filterThreadEvents rows thread) = (cutoff, summary, mx)"
    and "\<forall>p\<in>set (contribution cutoff summary (toolUseEventToModelID (filterThreadEvents rows thread))
           (summary \<noteq> []) (filterThreadEvents rows thread)). snd p \<noteq> []"
  shows "successively (\<lambda>a b. m_Role a \<noteq> m_Role b) (messages_of thread rows)"
proof -
  have "messages_of thread rows = runs (contribution cutoff summary (toolUseEventToModelID (filterThreadEvents rows thread))
           (summary \<noteq> []) (filterThreadEvents rows thread))"
    using assms by (auto simp: messages_of_runs Let_def intro!: runs_nonempty)
  then show ?thesis by (simp add: runs_alternate)
qed

definition demo_event :: "int \<Rightarrow> string \<Rightarrow> json \<Rightarrow> EventRow" where
  "demo_event n ty p = \<lparr>ev_ID = ''evt-'' @ int_str n, ev_SessionID = ''s'', ev_ThreadID = ''primary'',
     ev_Seq = n, ev_Type = ty, ev_Payload = Some p, ev_ProcessedAt = Some 0, ev_CreatedAt = 0\<rparr>"

definition text_payload :: "string \<Rightarrow> json" where
  "text_payload t = JObj [(''content'', JArr [JObj [(''type'', JStr ''text''), (''text'', JStr t)]])]"

definition demo_dialogue :: "EventRow list" where
  "demo_dialogue = [demo_event 1 ''user.message'' (text_payload ''hi''),
     demo_event 2 ''agent.tool_use'' (JObj [(''id'', JStr ''t1''), (''name'', JStr ''bash''), (''input'', JObj [])]),
     demo_event 3 ''agent.tool_result'' (JObj [(''tool_use_id'', JStr ''evt-2''), (''content'', JStr ''ok'')]),
     demo_event 4 ''agent.message'' (text_payload ''done'')]"

lemma messages_alternate_witness:
  "successively (\<lambda>a b. m_Role a \<noteq> m_Role b) (messages_of ''primary'' demo_dialogue)
     \<and> length (messages_of ''primary'' demo_dialogue) = 4"
proof -
  let ?evs = "filterThreadEvents demo_dialogue ''primary''"
  have "latest_checkpoint ?evs = (-1, [], -1)" by code_simp
  moreover have "list_all (\<lambda>p. snd p \<noteq> []) (contribution (-1) [] (toolUseEventToModelID ?evs) ([] \<noteq> ([] :: string)) ?evs)"
    by code_simp
  moreover have "length (messages_of ''primary'' demo_dialogue) = 4" by code_simp
  ultimately show ?thesis
    using messages_alternate [of demo_dialogue "''primary''"] by (simp add: list_all_iff)
qed

text \<open>The alternation needs that condition: an assistant message
without blocks between two user messages is dropped when its run ends, and the model
is handed two user messages in a row.\<close>

theorem empty_agent_message_breaks_alternation:
  "map m_Role (messages_of ''primary''
     [demo_event 1 ''user.message'' (text_payload ''a''),
      demo_event 2 ''agent.message'' (JObj [(''content'', JArr [])]),
      demo_event 3 ''user.message'' (text_payload ''b'')]) = [RoleUser, RoleUser]"
  by code_simp

end
