(* ===== verification/Compaction.thy ===== *)
theory Compaction
  imports HarnessMessages
begin

text \<open>
  The harness's dependencies and settings (\<open>internal/harness/harness.go\<close>, type
  \<open>Harness\<close>) and context compaction (\<open>internal/harness/compaction.go\<close>): when the
  conversation exceeds its budget, everything but the newest user turns is
  summarised into a checkpoint event of the same log.
\<close>

section \<open>The harness\<close>

record mcp_tool =
  mt_Name :: string
  mt_Description :: string
  mt_InputSchema :: raw

text \<open>
  The interfaces the harness calls are functions of the tick: the model
  provider, the tools and the sandbox, MCP servers by URL and \<open>Authorization\<close>
  header, the vault's token lookup, and the host name of a URL.
\<close>

record harness =
  h_Provider :: provider
  h_Builtins :: "tool_def list"
  h_Execute :: "string \<Rightarrow> (nat \<Rightarrow> raw \<Rightarrow> gerr + (string \<times> bool)) option"
  h_Provision :: "nat \<Rightarrow> gerr option"
  h_Exec :: exec
  h_WriteFile :: "nat \<Rightarrow> string \<Rightarrow> string \<Rightarrow> gerr option"
  h_McpConnect :: "nat \<Rightarrow> string \<Rightarrow> string \<Rightarrow> gerr + mcp_tool list"
  h_McpCall :: "nat \<Rightarrow> string \<Rightarrow> string \<Rightarrow> raw \<Rightarrow> gerr + (string \<times> bool)"
  h_ResolveToken :: "(nat \<Rightarrow> string \<Rightarrow> string list \<Rightarrow> string \<Rightarrow> string) option"
  h_HostOf :: "string \<Rightarrow> string"
  h_HasMemory :: bool
  h_MaxSteps :: int
  h_CompactThreshold :: int
  h_KeepRecent :: int
  h_MaxRetries :: int
  h_RetryBackoff :: int

text \<open>A call of the provider takes a tick and is logged.\<close>

definition stream :: "harness \<Rightarrow> chat_request \<Rightarrow> (world, chat_event list) io" where
  "stream h req w = (h_Provider h (tick w) req, w\<lparr>tick := Suc (tick w), llm_log := llm_log w @ [req]\<rparr>)"

section \<open>Estimating\<close>

definition block_chars :: "content_block \<Rightarrow> nat" where
  "block_chars b = length (cb_Text b) + raw_len (cb_ToolInput b) + length (cb_ToolResult b)"

definition estimateTokens :: "message list \<Rightarrow> nat" where
  "estimateTokens msgs = sum_list (map (\<lambda>m. sum_list (map block_chars (m_Content m))) msgs) div 4"

section \<open>The transcript\<close>

record text_block_payload =
  tb_Text :: string

record text_payload =
  txp_Content :: "text_block_payload list"

definition dec_text_payload :: "text_payload dec" where
  "dec_text_payload = dec_struct [fld ''content'' txp_Content txp_Content_update
     (dec_list \<lparr>tb_Text = []\<rparr> (dec_struct [fld ''text'' tb_Text tb_Text_update dec_str]))]"

definition extractText :: "raw \<Rightarrow> string" where
  "extractText r = concat (map tb_Text (txp_Content (fst (unmarshal dec_text_payload \<lparr>txp_Content = []\<rparr> r))))"

text \<open>Decoding into a map: the last member of that exact name, or no document.\<close>

definition payloadString :: "raw \<Rightarrow> string \<Rightarrow> string" where
  "payloadString r key =
     (case r of
        Some (JObj kvs) \<Rightarrow> fst (unmarshal dec_str [] (map_of (rev kvs) key))
      | _ \<Rightarrow> [])"

definition newline :: string where
  "newline = [CHR 0x0A]"

definition render_event :: "EventRow \<Rightarrow> string" where
  "render_event ev =
     (if ev_Type ev = ''user.message'' then ''User: '' @ extractText (ev_Payload ev) @ newline
      else if ev_Type ev = ''agent.message'' then ''Assistant: '' @ extractText (ev_Payload ev) @ newline
      else if ev_Type ev \<in> {''agent.tool_use'', ''agent.custom_tool_use''} then
        ''Assistant called tool '' @ payloadString (ev_Payload ev) ''name'' @ newline
      else if ev_Type ev \<in> {''agent.tool_result'', ''user.custom_tool_result''} then
        ''Tool result: '' @ payloadString (ev_Payload ev) ''content'' @ newline
      else [])"

definition renderTranscript :: "EventRow list \<Rightarrow> int \<Rightarrow> int \<Rightarrow> string" where
  "renderTranscript evs after before =
     concat (map (\<lambda>ev. if ev_Seq ev \<le> after \<or> before \<le> ev_Seq ev then [] else render_event ev) evs)"

section \<open>The summary\<close>

definition compactionSystemPrompt :: string where
  "compactionSystemPrompt = ''You are a conversation-history compaction assistant. '' @
     ''Summarize the prior conversation faithfully and concisely, preserving the user's goals, '' @
     ''key decisions, file paths, and any state needed to continue the task. Output only the summary.''"

definition em_dash :: string where
  "em_dash = [CHR 0xE2, CHR 0x80, CHR 0x94]"

fun collect_summary :: "string \<Rightarrow> chat_event list \<Rightarrow> gerr + string" where
  "collect_summary buf [] = Inr (TrimSpace buf)"
| "collect_summary buf (TextDelta t # evs) = collect_summary (buf @ t) evs"
| "collect_summary buf (StopReason r u # evs) = Inr (TrimSpace buf)"
| "collect_summary buf (ErrorEvent t m n # evs) = Inl (ErrMsg (''summarize: '' @ t @ '' '' @ em_dash @ '' '' @ m))"
| "collect_summary buf (_ # evs) = collect_summary buf evs"

definition summary_request :: "string \<Rightarrow> string \<Rightarrow> chat_request" where
  "summary_request model material = \<lparr>cr_Model = model, cr_System = compactionSystemPrompt,
     cr_Messages = [\<lparr>m_Role = RoleUser, m_Content = [text_block material]\<rparr>], cr_Tools = [], cr_MaxTokens = 1024\<rparr>"

definition summarize :: "harness \<Rightarrow> string \<Rightarrow> string \<Rightarrow> (world, string) io" where
  "summarize h model material =
     bindE (stream h (summary_request model material))
       (\<lambda>evs w. (collect_summary [] evs, w))"

section \<open>Compacting\<close>

definition keep_recent :: "harness \<Rightarrow> int" where
  "keep_recent h = (if h_KeepRecent h \<le> 0 then 3 else h_KeepRecent h)"

definition turn_boundaries :: "int \<Rightarrow> EventRow list \<Rightarrow> int list" where
  "turn_boundaries prior evs = map ev_Seq (filter (\<lambda>ev. prior < ev_Seq ev \<and> ev_Type ev = ''user.message'') evs)"

text \<open>What to summarise: the new \<open>through_seq\<close> and the material, or nothing to do.\<close>

definition compaction_plan :: "int \<Rightarrow> EventRow list \<Rightarrow> (int \<times> string) option" where
  "compaction_plan keepRecent evs =
     (let (priorThrough, priorSummary, _) = latest_checkpoint evs;
          boundaries = turn_boundaries priorThrough evs in
      if int (length boundaries) < keepRecent + 1 then None
      else
        (let keepFromSeq = boundaries ! nat (int (length boundaries) - keepRecent);
             transcript = renderTranscript evs priorThrough keepFromSeq in
         if transcript = [] then None
         else Some (keepFromSeq - 1,
           if priorSummary \<noteq> [] then ''Summary of earlier conversation:'' @ newline @ priorSummary @ newline @ newline
              @ ''Newer conversation:'' @ newline @ transcript
           else transcript)))"

definition compaction_payload :: "string \<Rightarrow> int \<Rightarrow> raw" where
  "compaction_payload summary through = Some (JObj [(''type'', JStr compactionEventType),
     (''summary'', JStr summary), (''through_seq'', jint through)])"

definition write_checkpoint ::
  "env \<Rightarrow> ctx \<Rightarrow> harness \<Rightarrow> string \<Rightarrow> string \<Rightarrow> string \<Rightarrow> int \<times> string \<Rightarrow> (world, unit) io" where
  "write_checkpoint e c h sid thread model plan =
     bindE (summarize h model (snd plan)) (\<lambda>summary.
       if summary = [] then returnE ()
       else bindE (Publish e c sid compactionEventType thread (compaction_payload summary (fst plan)))
              (\<lambda>_. returnE ()))"

definition maybeCompact :: "env \<Rightarrow> ctx \<Rightarrow> harness \<Rightarrow> string \<Rightarrow> string \<Rightarrow> string \<Rightarrow> (world, unit) io" where
  "maybeCompact e c h sid thread model =
     (if h_CompactThreshold h \<le> 0 then returnE ()
      else bindE (buildMessages e c sid thread) (\<lambda>msgs.
        if int (estimateTokens msgs) \<le> h_CompactThreshold h then returnE ()
        else bindE (ListEvents e c sid []) (\<lambda>rows.
          case compaction_plan (keep_recent h) (filterThreadEvents rows thread) of
            None \<Rightarrow> returnE ()
          | Some plan \<Rightarrow> write_checkpoint e c h sid thread model plan)))"

section \<open>Facts about checkpoints\<close>

lemma compaction_roundtrip:
  "int64_range through \<Longrightarrow> unmarshal dec_compaction zero_compaction (compaction_payload summary through)
     = (\<lparr>cp_Type = compactionEventType, cp_Summary = summary, cp_ThroughSeq = through\<rparr>, False)"
  by (simp add: unmarshal_def dec_compaction_def compaction_payload_def dec_struct_def fld_def key_match_def
      ToLower_def lower_char_def dec_str_def dec_int64_jint zero_compaction_def)

lemma checkpoint_max:
  assumes "\<forall>ev\<in>set evs. ev_Seq ev < n" "mx < n"
  shows "snd (snd (fold checkpoint_step evs (co, su, mx))) < n"
  using assms
proof (induction evs arbitrary: co su mx)
  case (Cons ev evs)
  obtain co' su' mx' where st: "checkpoint_step ev (co, su, mx) = (co', su', mx')"
    by (metis prod_cases3)
  then have "mx' < n"
    using Cons.prems by (auto simp: checkpoint_step_def split: if_splits prod.splits bool.splits)
  then show ?case using Cons st by simp
qed simp

lemma latest_checkpoint_snoc:
  assumes "\<forall>ev\<in>set evs. ev_Seq ev < ev_Seq cp" "0 \<le> ev_Seq cp" "int64_range through"
    and "ev_Type cp = compactionEventType" "ev_Payload cp = compaction_payload summary through"
  shows "latest_checkpoint (evs @ [cp]) = (through, summary, ev_Seq cp)"
proof -
  have "snd (snd (latest_checkpoint evs)) < ev_Seq cp"
    using checkpoint_max [OF assms(1), of "-1"] assms(2) by (simp add: latest_checkpoint_def)
  then show ?thesis
    using assms(3-5) by (auto simp: latest_checkpoint_def checkpoint_step_def compaction_roundtrip split: prod.splits)
qed

lemma contribution_filter:
  "contribution cutoff summary ids p evs =
     contribution cutoff summary ids p (filter (\<lambda>ev. cutoff < ev_Seq ev) evs)"
  by (induction evs arbitrary: p) auto

lemma contribution_append_silent:
  "ev_Type cp = compactionEventType \<Longrightarrow> contribution cutoff summary ids p (evs @ [cp]) = contribution cutoff summary ids p evs"
  by (induction evs arbitrary: p)
    (auto simp: compactionEventType_def tool_use_types_def tool_result_types_def)

text \<open>Without a cutoff and a pending summary the contribution of a log is verbatim.\<close>

lemma contribution_no_summary:
  "(\<forall>ev\<in>set evs. cutoff < ev_Seq ev) \<Longrightarrow> (\<forall>ev\<in>set evs. cutoff' < ev_Seq ev) \<Longrightarrow>
     contribution cutoff summary ids False evs = contribution cutoff' summary' ids False evs"
  by (induction evs) auto

section \<open>What a plan keeps\<close>

lemma sorted_filter_tail:
  fixes bs :: "int list"
  assumes "sorted_wrt (<) bs" "i < length bs"
  shows "filter (\<lambda>b. bs ! i \<le> b) bs = drop i bs"
proof -
  have d: "bs = take i bs @ drop i bs" by simp
  have "b < bs ! i" if b: "b \<in> set (take i bs)" for b
  proof -
    obtain j where "j < i" "b = bs ! j" using b assms(2) by (auto simp: in_set_conv_nth)
    then show ?thesis using assms sorted_wrt_nth_less by blast
  qed
  moreover have "bs ! i \<le> b" if b: "b \<in> set (drop i bs)" for b
  proof -
    obtain j where j: "i \<le> j" "j < length bs" "b = bs ! j"
      using b by (auto simp: in_set_conv_nth) (metis add.commute le_add2 less_diff_conv)
    then show ?thesis using assms(1) sorted_wrt_nth_less [of "(<)" bs i j] by (cases "i = j") auto
  qed
  ultimately have "filter (\<lambda>b. bs ! i \<le> b) (take i bs) = []" "filter (\<lambda>b. bs ! i \<le> b) (drop i bs) = drop i bs"
    by (auto simp: filter_empty_conv not_le intro!: filter_True)
  then have "filter (\<lambda>b. bs ! i \<le> b) (take i bs @ drop i bs) = drop i bs" by (simp only: filter_append) simp
  then show ?thesis by simp
qed

text \<open>A plan covers more than the checkpoint before it, and leaves the newest \<open>keepRecent\<close> user turns.\<close>

lemma compaction_plan_bounds:
  assumes plan: "compaction_plan k evs = Some (t, m)" and k: "1 \<le> k"
    and so: "sorted_wrt (\<lambda>a b. ev_Seq a < ev_Seq b) evs"
  shows "fst (latest_checkpoint evs) < t"
    and "length (filter (\<lambda>ev. ev_Type ev = ''user.message'' \<and> t < ev_Seq ev) evs) = nat k"
    and "\<exists>ev. ev \<in> set evs \<and> ev_Type ev = ''user.message'' \<and> ev_Seq ev = t + 1"
proof -
  obtain prior ps mx where cp: "latest_checkpoint evs = (prior, ps, mx)" by (metis prod_cases3)
  let ?u = "filter (\<lambda>ev. prior < ev_Seq ev \<and> ev_Type ev = ''user.message'') evs"
  let ?bs = "turn_boundaries prior evs"
  let ?i = "nat (int (length ?bs) - k)"
  have len: "k + 1 \<le> int (length ?bs)" and t: "t = ?bs ! ?i - 1"
    using plan by (auto simp: compaction_plan_def cp Let_def split: if_splits)
  have bs: "?bs = map ev_Seq ?u" by (simp add: turn_boundaries_def)
  have i: "?i < length ?bs" "1 \<le> ?i" using len k by linarith+
  have sbs: "sorted_wrt (<) ?bs"
    using sorted_wrt_filter [OF so, of "\<lambda>ev. prior < ev_Seq ev \<and> ev_Type ev = ''user.message''"]
    by (simp add: turn_boundaries_def sorted_wrt_map)
  have "prior < ?bs ! 0"
  proof -
    have "?bs ! 0 \<in> set ?bs" by (rule nth_mem) (use i in linarith)
    then show ?thesis by (auto simp: turn_boundaries_def)
  qed
  moreover have "?bs ! 0 < ?bs ! ?i" by (rule sorted_wrt_nth_less [OF sbs]) (use i in linarith)+
  ultimately have prior: "prior < t" using t by linarith
  then show "fst (latest_checkpoint evs) < t" by (simp add: cp)
  have "filter (\<lambda>ev. ev_Type ev = ''user.message'' \<and> t < ev_Seq ev) evs = filter (\<lambda>ev. ?bs ! ?i \<le> ev_Seq ev) ?u"
    using prior t by (auto simp: filter_filter intro!: filter_cong)
  then have "length (filter (\<lambda>ev. ev_Type ev = ''user.message'' \<and> t < ev_Seq ev) evs)
      = length (filter (\<lambda>b. ?bs ! ?i \<le> b) ?bs)"
    by (simp add: bs filter_map comp_def)
  also have "\<dots> = length ?bs - ?i" using sorted_filter_tail [OF sbs i(1)] by simp
  also have "\<dots> = nat k" using len k by linarith
  finally show "length (filter (\<lambda>ev. ev_Type ev = ''user.message'' \<and> t < ev_Seq ev) evs) = nat k" .
  have "?bs ! ?i \<in> set ?bs" by (rule nth_mem [OF i(1)])
  then show "\<exists>ev. ev \<in> set evs \<and> ev_Type ev = ''user.message'' \<and> ev_Seq ev = t + 1"
    using t by (auto simp: turn_boundaries_def)
qed

text \<open>The conversation after a checkpoint was appended to the thread.\<close>

lemma contribution_after:
  assumes so: "sorted_wrt (\<lambda>a b. ev_Seq a < ev_Seq b) evs"
    and ev: "ev \<in> set evs" "ev_Type ev = ''user.message''" "ev_Seq ev = t + 1"
  shows "concat (map tagged (contribution t s ids True evs))
     = (RoleUser, text_block (summary_text s)) # concat (map tagged (contribution t [] ids False evs))"
  using assms
proof (induction evs)
  case (Cons x evs)
  show ?case
  proof (cases "ev_Seq x \<le> t")
    case True
    then show ?thesis using Cons by auto
  next
    case False
    then have "x = ev" using Cons.prems by force
    moreover have "\<forall>y\<in>set evs. t < ev_Seq y" using Cons.prems False by auto
    ultimately show ?thesis
      using Cons.prems(3,4) contribution_no_summary [of evs t t s ids "[]"] by (simp add: tagged_def)
  qed
qed simp

lemma messages_after_checkpoint:
  assumes plan: "compaction_plan k (filterThreadEvents rows thread) = Some (t, m)" and k: "1 \<le> k"
    and so: "sorted_wrt (\<lambda>a b. ev_Seq a < ev_Seq b) (rows @ [cp])" and pos: "0 \<le> ev_Seq cp" "int64_range t"
    and cp: "ev_Type cp = compactionEventType" "ev_Payload cp = compaction_payload s t"
      "ev_ThreadID cp = or_primary thread" and s: "s \<noteq> []"
  shows "tagged_messages (messages_of thread (rows @ [cp])) =
     (RoleUser, text_block (summary_text s))
       # concat (map tagged (contribution t [] (toolUseEventToModelID (filterThreadEvents rows thread)) False
           (filterThreadEvents rows thread)))"
proof -
  let ?evs = "filterThreadEvents rows thread"
  have app: "filterThreadEvents (rows @ [cp]) thread = ?evs @ [cp]"
    using cp(3) by (simp add: filterThreadEvents_def)
  have so': "sorted_wrt (\<lambda>a b. ev_Seq a < ev_Seq b) ?evs"
    using so by (simp add: filterThreadEvents_def sorted_wrt_append sorted_wrt_filter)
  have "\<forall>ev\<in>set ?evs. ev_Seq ev < ev_Seq cp"
    using so by (auto simp: filterThreadEvents_def sorted_wrt_append)
  note lc = latest_checkpoint_snoc [OF this pos(1,2) cp(1,2)]
  have ids: "toolUseEventToModelID (?evs @ [cp]) = toolUseEventToModelID ?evs"
    using cp(1) by (simp add: toolUseEventToModelID_def model_id_step_def compactionEventType_def tool_use_types_def)
  obtain ev where ev: "ev \<in> set ?evs" "ev_Type ev = ''user.message''" "ev_Seq ev = t + 1"
    using compaction_plan_bounds(3) [OF plan k so'] by blast
  show ?thesis
    using contribution_after [OF so' ev, of s] s
    by (simp add: messages_of_runs app lc ids contribution_append_silent [OF cp(1)] tagged_runs)
qed

section \<open>The whole operation\<close>

definition quiet :: "world \<Rightarrow> world \<Rightarrow> bool" where
  "quiet w w' \<longleftrightarrow> sessions w' = sessions w \<and> events w' = events w \<and> chans w' = chans w \<and> subs w' = subs w
     \<and> panicked w' = panicked w \<and> hooked w' = hooked w \<and> exec_log w' = exec_log w"

lemma quiet_refl [simp]: "quiet w w"
  and quiet_tick [simp]: "quiet w (w\<lparr>tick := n\<rparr>)"
  and quiet_trans: "quiet a b \<Longrightarrow> quiet b d \<Longrightarrow> quiet a d"
  by (simp_all add: quiet_def)

lemma quiet_ok:
  assumes "quiet w w'"
  shows "log_ok w' = log_ok w" "broker_ok w' = broker_ok w" "session_events sid w' = session_events sid w"
    "session_by sid w' = session_by sid w"
proof -
  show "log_ok w' = log_ok w" by (rule log_ok_frame) (use assms in \<open>simp_all add: quiet_def\<close>)
  show "broker_ok w' = broker_ok w" by (rule broker_ok_frame) (use assms in \<open>simp_all add: quiet_def\<close>)
qed (use assms in \<open>simp_all add: quiet_def session_events_def session_by_def\<close>)

lemma ListEvents_post:
  assumes "log_ok w"
  shows "wp (ListEvents e c sid []) (\<lambda>r w'. quiet w w' \<and> (\<forall>rows. r = Inr rows \<longrightarrow> rows = session_events sid w)) w"
proof (rule wpI)
  fix r w' assume run: "ListEvents e c sid [] w = (r, w')"
  note L = ListEvents_log [OF assms run]
  show "quiet w w' \<and> (\<forall>rows. r = Inr rows \<longrightarrow> rows = session_events sid w)"
    by (auto simp: L(1) dest: L(2))
qed

lemma buildMessages_post:
  assumes "log_ok w"
  shows "wp (buildMessages e c sid thread)
    (\<lambda>r w'. quiet w w' \<and> (\<forall>ms. r = Inr ms \<longrightarrow> ms = messages_of thread (session_events sid w))) w"
  unfolding buildMessages_def by (rule wp_bind [OF ListEvents_post [OF assms]]) (auto simp: wp_simps)

lemma stream_post: "wp (stream h req) (\<lambda>r w'. quiet w w') w"
  by (rule wpI) (auto simp: stream_def quiet_def)

lemma Publish_post:
  "wp (Publish e c sid ty thread payload)
     (\<lambda>r w'. case r of Inl x \<Rightarrow> quiet w w'
              | Inr ev \<Rightarrow> \<exists>row. ev = event_of_row row \<and> published e sid ty thread payload w row w') w"
  by (rule wpI, rule Publish_cases [of e c sid ty thread payload w]) auto

lemma summarize_post: "wp (summarize h model m) (\<lambda>r w'. quiet w w') w"
  unfolding summarize_def by (rule wp_bind [OF stream_post]) (auto simp: wp_def split: prod.splits)

text \<open>What compaction does to the log: nothing, or one checkpoint that follows a plan.\<close>

definition compacted :: "env \<Rightarrow> harness \<Rightarrow> string \<Rightarrow> string \<Rightarrow> world \<Rightarrow> world \<Rightarrow> bool" where
  "compacted e h sid thread w w' \<longleftrightarrow> quiet w w' \<or>
     (\<exists>t m s w1 row. quiet w w1 \<and> s \<noteq> []
        \<and> compaction_plan (keep_recent h) (filterThreadEvents (session_events sid w) thread) = Some (t, m)
        \<and> published e sid compactionEventType thread (compaction_payload s t) w1 row w')"

lemma write_checkpoint_post:
  "wp (write_checkpoint e c h sid thread model plan)
     (\<lambda>r w'. quiet w w' \<or> (\<exists>s w1 row. quiet w w1 \<and> s \<noteq> []
        \<and> published e sid compactionEventType thread (compaction_payload s (fst plan)) w1 row w')) w"
  unfolding write_checkpoint_def
proof (rule wp_bind [OF summarize_post])
  fix s w1 assume w1: "quiet w w1"
  show "wp (if s = [] then returnE () else bindE (Publish e c sid compactionEventType thread
          (compaction_payload s (fst plan))) (\<lambda>_. returnE ()))
     (\<lambda>r w'. quiet w w' \<or> (\<exists>s w1 row. quiet w w1 \<and> s \<noteq> []
        \<and> published e sid compactionEventType thread (compaction_payload s (fst plan)) w1 row w')) w1"
    by (rule wp_if_I, simp add: wp_simps w1, rule wp_bind [OF Publish_post])
      (use w1 quiet_trans [OF w1] in \<open>simp_all add: wp_simps, blast+\<close>)
qed simp

lemma maybeCompact_post:
  assumes ok: "log_ok w"
  shows "wp (maybeCompact e c h sid thread model) (\<lambda>r w'. compacted e h sid thread w w') w"
  unfolding maybeCompact_def
proof (rule wp_if_I; (rule wp_bind [OF buildMessages_post [OF ok]])?)
  fix ms w1 assume "quiet w w1 \<and> (\<forall>ms'. Inr ms = Inr ms' \<longrightarrow> ms' = messages_of thread (session_events sid w))"
  then have w1: "quiet w w1" by simp
  have ok1: "log_ok w1" using ok quiet_ok(1) [OF w1] by simp
  show "wp (if int (estimateTokens ms) \<le> h_CompactThreshold h then returnE ()
      else bindE (ListEvents e c sid []) (\<lambda>rows.
          case compaction_plan (keep_recent h) (filterThreadEvents rows thread) of
            None \<Rightarrow> returnE () | Some plan \<Rightarrow> write_checkpoint e c h sid thread model plan))
     (\<lambda>r w'. compacted e h sid thread w w') w1"
  proof (rule wp_if_I; (rule wp_bind [OF ListEvents_post [OF ok1]])?)
    fix rows w2 assume r: "quiet w1 w2 \<and> (\<forall>rows'. Inr rows = Inr rows' \<longrightarrow> rows' = session_events sid w1)"
    then have w2: "quiet w w2" and rows: "rows = session_events sid w"
      using quiet_trans [OF w1] quiet_ok(3) [OF w1] by simp_all
    show "wp (case compaction_plan (keep_recent h) (filterThreadEvents rows thread) of
            None \<Rightarrow> returnE () | Some plan \<Rightarrow> write_checkpoint e c h sid thread model plan)
       (\<lambda>r w'. compacted e h sid thread w w') w2"
    proof (rule wp_option_I)
      fix plan assume p: "compaction_plan (keep_recent h) (filterThreadEvents rows thread) = Some plan"
      show "wp (write_checkpoint e c h sid thread model plan) (\<lambda>r w'. compacted e h sid thread w w') w2"
      proof (rule wp_mono [OF write_checkpoint_post])
        fix r w' assume "quiet w2 w' \<or> (\<exists>s w1 row. quiet w2 w1 \<and> s \<noteq> []
          \<and> published e sid compactionEventType thread (compaction_payload s (fst plan)) w1 row w')"
        then show "compacted e h sid thread w w'"
          unfolding compacted_def using p quiet_trans [OF w2] by (cases plan) (auto simp: rows)
      qed
    qed (simp add: wp_simps compacted_def w2)
  qed (use w1 quiet_trans [OF w1] in \<open>auto simp: wp_simps compacted_def\<close>)
qed (auto simp: wp_simps compacted_def)

section \<open>Properties\<close>

lemma seq_bounds:
  assumes "log_ok w" "r \<in> set (session_events sid w)"
  shows "1 \<le> ev_Seq r \<and> ev_Seq r \<le> int (length (session_events sid w))"
proof -
  obtain i where "i < length (session_events sid w)" "r = session_events sid w ! i"
    using assms(2) by (metis in_set_conv_nth)
  then show ?thesis using slog.seq_nth [OF assms(1)] by simp
qed

lemma published_row:
  "published e sid ty thread payload w row w' \<Longrightarrow>
     ev_Type row = ty \<and> ev_Payload row = payload \<and> ev_ThreadID row = or_primary thread"
  by (auto simp: published_def appended_row_def or_primary_def)

lemma filter_thread_subset: "set (filterThreadEvents rows thread) \<subseteq> set rows"
  by (auto simp: filterThreadEvents_def)

lemma keep_recent_pos: "1 \<le> keep_recent h"
  by (simp add: keep_recent_def)

text \<open>C4: compaction, when it writes, moves the checkpoint forward, keeps
exactly the configured number of newest user turns, and the conversation built
afterwards is the summary followed by everything the thread contributed after
the checkpoint, word for word. When it does not write, the log is unchanged.
This holds for every answer of the model and every failing statement.\<close>

theorem compaction_keeps_recent_turns:
  assumes "log_ok w" "broker_ok w" "maybeCompact e c h sid thread model w = (r, w')"
    and "length (session_events sid w) < 2 ^ 62"
  defines "evs \<equiv> filterThreadEvents (session_events sid w) thread"
  shows "log_ok w' \<and> (session_events sid w' = session_events sid w \<or>
    (\<exists>t s. fst (latest_checkpoint evs) < t
       \<and> length (filter (\<lambda>ev. ev_Type ev = ''user.message'' \<and> t < ev_Seq ev) evs) = nat (keep_recent h)
       \<and> tagged_messages (messages_of thread (session_events sid w')) =
           (RoleUser, text_block (summary_text s))
             # concat (map tagged (contribution t [] (toolUseEventToModelID evs) False evs))))"
proof -
  have "compacted e h sid thread w w'"
    by (rule wpD [OF maybeCompact_post [OF assms(1)] assms(3)])
  then consider "quiet w w'" | t m s w1 row where "quiet w w1" "s \<noteq> []"
      "compaction_plan (keep_recent h) evs = Some (t, m)"
      "published e sid compactionEventType thread (compaction_payload s t) w1 row w'"
    unfolding compacted_def evs_def by blast
  then show ?thesis
  proof cases
    case 1
    then show ?thesis using quiet_ok [OF 1] assms(1) by simp
  next
    case 2
    have ok1: "log_ok w1" and evs1: "session_events sid w1 = session_events sid w"
      using quiet_ok [OF 2(1)] assms(1) by simp_all
    note P = published_log [OF 2(4) ok1] and R = published_row [OF 2(4)]
    have so: "sorted_wrt (\<lambda>a b. ev_Seq a < ev_Seq b) (session_events sid w @ [row])"
      using slog.sorted_log [OF P(1), of sid] P(2) evs1 by simp
    then have so': "sorted_wrt (\<lambda>a b. ev_Seq a < ev_Seq b) evs"
      by (simp add: evs_def filterThreadEvents_def sorted_wrt_append sorted_wrt_filter)
    note B = compaction_plan_bounds [OF 2(3) keep_recent_pos so']
    obtain ev where "ev \<in> set evs" "ev_Seq ev = t + 1" using B(3) by blast
    then have "0 \<le> t" "t < 2 ^ 62"
      using seq_bounds [OF assms(1), of ev sid] filter_thread_subset assms(4) unfolding evs_def by force+
    then have t: "int64_range t" by (simp add: int64_range_def)
    have "0 \<le> ev_Seq row" using P(3) by simp
    from messages_after_checkpoint [OF 2(3) [unfolded evs_def] keep_recent_pos so this t] R 2(2)
    show ?thesis using B P(1,2) evs1 by (auto simp: evs_def)
  qed
qed

text \<open>A log of three turns, a harness that keeps one, and a model that summarises.\<close>

definition plain_harness :: "provider \<Rightarrow> harness" where
  "plain_harness p = \<lparr>h_Provider = p, h_Builtins = [], h_Execute = (\<lambda>name. None), h_Provision = (\<lambda>n. None), h_Exec = (\<lambda>n args t. Inr \<lparr>er_ExitCode = 0, er_Stdout = [], er_Stderr = []\<rparr>),
     h_WriteFile = (\<lambda>n f s. None), h_McpConnect = (\<lambda>n u a. Inr []),
     h_McpCall = (\<lambda>n u t i. Inr ([], False)), h_ResolveToken = None, h_HostOf = (\<lambda>u. []),
     h_HasMemory = False, h_MaxSteps = 20, h_CompactThreshold = 0, h_KeepRecent = 0, h_MaxRetries = 2,
     h_RetryBackoff = 0\<rparr>"

definition summary_harness :: harness where
  "summary_harness = (plain_harness (\<lambda>n req. Inr [TextDelta ''sum'', StopReason ''end_turn'' zero_usage]))
     \<lparr>h_CompactThreshold := 1, h_KeepRecent := 1\<rparr>"

definition three_turns :: world where
  "three_turns = empty_world\<lparr>sessions := [(demo_session ''s'' ''idle'')\<lparr>ss_NextSeq := 4\<rparr>],
     events := [demo_event 1 ''user.message'' (text_payload ''first''),
                demo_event 2 ''agent.message'' (text_payload ''answer''),
                demo_event 3 ''user.message'' (text_payload ''second'')]\<rparr>"

lemma compaction_keeps_recent_turns_witness:
  "\<exists>w'. maybeCompact demo_env Background summary_harness ''s'' ''primary'' ''m'' three_turns = (Inr (), w')
     \<and> log_ok w' \<and> length (session_events ''s'' w') = 4"
proof -
  let ?r = "maybeCompact demo_env Background summary_harness ''s'' ''primary'' ''m'' three_turns"
  have ok: "log_ok three_turns" "broker_ok three_turns" by code_simp+
  have "length (session_events ''s'' three_turns) = 3" by code_simp
  then have len: "length (session_events ''s'' three_turns) < 2 ^ 62" by simp
  have "case fst ?r of Inl x \<Rightarrow> False | Inr u \<Rightarrow> length (session_events ''s'' (snd ?r)) = 4" by code_simp
  then show ?thesis
    using compaction_keeps_recent_turns [OF ok prod.collapse [symmetric] len,
      of demo_env Background summary_harness "''primary''" "''m''"]
    by (cases ?r; cases "fst ?r") auto
qed

text \<open>Whatever the events of the span between the last checkpoint and
the kept turns, the calls of MCP tools and their results leave no trace in the text
that is summarised, although the conversation contained them.\<close>

theorem transcript_omits_mcp:
  "renderTranscript (xs @ ev # ys) a b = renderTranscript (xs @ ys) a b
     \<and> contribution (-1) [] ids False [ev] \<noteq> []"
  if "ev_Type ev \<in> {''agent.mcp_tool_use'', ''agent.mcp_tool_result''}" "0 \<le> ev_Seq ev"
  using that by (auto simp: renderTranscript_def render_event_def tool_use_types_def tool_result_types_def)

lemma transcript_omits_mcp_witness:
  "renderTranscript [demo_event 1 ''agent.mcp_tool_use'' (JObj [])] 0 5 = []"
  using transcript_omits_mcp [of "demo_event 1 ''agent.mcp_tool_use'' (JObj [])" "[]" "[]" 0 5]
  by (simp add: demo_event_def renderTranscript_def)

end
