(* ===== verification/ModelCall.thy ===== *)
theory ModelCall
  imports Compaction
begin

text \<open>
  Calling the model (\<open>internal/harness/harness.go\<close>): one call accumulates the stream into a
  result, and transient errors are retried a bounded number of times.
\<close>

section \<open>One call\<close>

record pendingToolUse =
  pt_ID :: string
  pt_Name :: string
  pt_InputJSON :: string

record modelResult =
  mr_text :: string
  mr_tools :: "pendingToolUse list"
  mr_usage :: usage
  mr_stopReason :: string

text \<open>\<open>out.tools[len(out.tools)-1].InputJSON += e.InputJSON\<close>: the identifier of the delta is not looked at.\<close>

definition add_delta :: "string \<Rightarrow> pendingToolUse list \<Rightarrow> pendingToolUse list" where
  "add_delta d ts = (if ts = [] then ts
     else butlast ts @ [(last ts)\<lparr>pt_InputJSON := pt_InputJSON (last ts) @ d\<rparr>])"

definition stream_ended :: gerr where
  "stream_ended = ApiErr 0 ''api_error'' ''stream ended without stop_reason''"

text \<open>The loop over the stream; text and tools are what has been accumulated.\<close>

fun collect_model :: "string \<Rightarrow> pendingToolUse list \<Rightarrow> chat_event list \<Rightarrow> gerr + modelResult" where
  "collect_model text tools [] = Inl stream_ended"
| "collect_model text tools (ev # evs) =
     (case ev of
        TextDelta t \<Rightarrow> collect_model (text @ t) tools evs
      | ToolUseStart i n \<Rightarrow>
          collect_model text (tools @ [\<lparr>pt_ID = i, pt_Name = n, pt_InputJSON = []\<rparr>]) evs
      | ToolUseDelta i d \<Rightarrow> collect_model text (add_delta d tools) evs
      | StopReason r u \<Rightarrow> Inr \<lparr>mr_text = text, mr_tools = tools, mr_usage = u, mr_stopReason = r\<rparr>
      | ErrorEvent t m n \<Rightarrow> Inl (ApiErr n t m))"

definition callModelOnce :: "harness \<Rightarrow> chat_request \<Rightarrow> (world, modelResult) io" where
  "callModelOnce h req = bindE (stream h req) (\<lambda>evs w. (collect_model [] [] evs, w))"

section \<open>Retrying\<close>

definition rescheduled_payload :: "int \<Rightarrow> gerr \<Rightarrow> raw" where
  "rescheduled_payload attempt err = Some (JObj
     [(''attempt'', jint attempt), (''error'', JObj [(''message'', JStr (err_str err))]),
      (''type'', JStr ''session.status_rescheduled'')])"

text \<open>The \<open>select\<close> between \<open>ctx.Done()\<close> and the timer: a wait that a cancellation ends.\<close>

definition backoffE :: "ctx \<Rightarrow> (world, unit) io" where
  "backoffE c w =
     (let w' = w\<lparr>tick := Suc (tick w)\<rparr> in
      case ctx_err c (tick w') of Some err \<Rightarrow> (Inl err, w') | None \<Rightarrow> (Inr (), w'))"

definition reschedule :: "env \<Rightarrow> ctx \<Rightarrow> harness \<Rightarrow> string \<Rightarrow> int \<Rightarrow> gerr \<Rightarrow> (world, unit) io" where
  "reschedule e c h sid attempt err =
     bindE (ignoreE (UpdateSessionStatus e c sid ''rescheduling'')) (\<lambda>_.
     bindE (ignoreE (Publish e c sid ''session.status_rescheduled'' ''primary'' (rescheduled_payload attempt err))) (\<lambda>_.
     bindE (if h_RetryBackoff h > 0 then backoffE c else returnE ()) (\<lambda>_.
     ignoreE (UpdateSessionStatus e c sid ''running''))))"

text \<open>The last error before any attempt is \<open>nil\<close>, which \<open>%w\<close> prints as below.\<close>

definition nil_error :: gerr where
  "nil_error = ErrMsg ''%!w(<nil>)''"

text \<open>\<open>n\<close> is the number of attempts left, \<open>attempt\<close> the number of the next one.\<close>

fun retry_loop ::
  "env \<Rightarrow> ctx \<Rightarrow> harness \<Rightarrow> string \<Rightarrow> chat_request \<Rightarrow> nat \<Rightarrow> int \<Rightarrow> gerr \<Rightarrow> (world, modelResult) io" where
  "retry_loop e c h sid req 0 attempt lastErr =
     throwE (Wrap (''model call failed after '' @ int_str (h_MaxRetries h) @ '' retries'') lastErr)"
| "retry_loop e c h sid req (Suc n) attempt lastErr =
     bindE (if attempt > 0 then reschedule e c h sid attempt lastErr else returnE ()) (\<lambda>_.
       catchE (callModelOnce h req)
         (\<lambda>err. if retryable err then retry_loop e c h sid req n (attempt + 1) err else throwE err))"

definition callModelWithRetry ::
  "env \<Rightarrow> ctx \<Rightarrow> harness \<Rightarrow> string \<Rightarrow> chat_request \<Rightarrow> (world, modelResult) io" where
  "callModelWithRetry e c h sid req = retry_loop e c h sid req (nat (h_MaxRetries h + 1)) 0 nil_error"

section \<open>How the stream determines the result\<close>

text \<open>A tool call as its events: a start, and the parts of its input.\<close>

definition call_events :: "string \<times> string \<times> string list \<Rightarrow> chat_event list" where
  "call_events c = (case c of (i, n, ds) \<Rightarrow> ToolUseStart i n # map (ToolUseDelta i) ds)"

definition call_of :: "string \<times> string \<times> string list \<Rightarrow> pendingToolUse" where
  "call_of c = (case c of (i, n, ds) \<Rightarrow> \<lparr>pt_ID = i, pt_Name = n, pt_InputJSON = concat ds\<rparr>)"

lemma collect_deltas:
  "ts \<noteq> [] \<Longrightarrow> collect_model text ts (map (ToolUseDelta i) ds @ rest)
     = collect_model text (butlast ts @ [(last ts)\<lparr>pt_InputJSON := pt_InputJSON (last ts) @ concat ds\<rparr>]) rest"
proof (induction ds arbitrary: ts)
  case Nil
  then show ?case by simp
next
  case (Cons d ds)
  then show ?case by (simp add: add_delta_def)
qed

lemma collect_calls:
  "collect_model text ts (concat (map call_events cs) @ rest) = collect_model text (ts @ map call_of cs) rest"
proof (induction cs arbitrary: ts)
  case (Cons c cs)
  obtain i n ds where c: "c = (i, n, ds)" by (cases c)
  have "collect_model text ts (concat (map call_events (c # cs)) @ rest)
      = collect_model text (ts @ [\<lparr>pt_ID = i, pt_Name = n, pt_InputJSON = []\<rparr>])
          (map (ToolUseDelta i) ds @ concat (map call_events cs) @ rest)"
    by (simp add: c call_events_def)
  also have "\<dots> = collect_model text ((ts @ [call_of c]) @ map call_of cs) rest"
    by (subst collect_deltas) (simp_all add: c call_of_def [of "(i, n, ds)"] Cons.IH)
  finally show ?case by simp
qed simp

lemma collect_texts:
  "collect_model buf ts (map TextDelta xs @ rest) = collect_model (buf @ concat xs) ts rest"
  by (induction xs arbitrary: buf) simp_all

section \<open>What retrying does\<close>

text \<open>Every step of a turn extends the log of model calls and keeps the log of executed tools.\<close>

definition llm_calls :: "world \<Rightarrow> nat" where
  "llm_calls w = length (llm_log w)"

lemma UpdateSessionStatus_cases:
  obtains (ok) "UpdateSessionStatus e c sid st w = (Inr (), on_session sid
      (\<lambda>r. r\<lparr>ss_Status := st, ss_UpdatedAt := clock e (tick w)\<rparr>) (w\<lparr>tick := Suc (Suc (tick w))\<rparr>))"
    "status_allowed st \<or> session_by sid w = None"
  | (err) x where "UpdateSessionStatus e c sid st w = (Inl x, w\<lparr>tick := Suc (Suc (tick w))\<rparr>)"
proof -
  let ?ok = "\<lambda>w. status_allowed st \<or> session_by sid w = None"
  let ?f = "on_session sid (\<lambda>r. r\<lparr>ss_Status := st, ss_UpdatedAt := clock e (tick w)\<rparr>)"
  have run: "UpdateSessionStatus e c sid st w = insertE e c ?ok ?f (w\<lparr>tick := Suc (tick w)\<rparr>)"
    by (simp add: UpdateSessionStatus_def bindE_def now_def)
  show ?thesis
    by (rule insertE_cases [of ?ok "w\<lparr>tick := Suc (tick w)\<rparr>" e c ?f])
      (use ok err run in \<open>auto simp: session_by_def\<close>)
qed

lemma UpdateSessionStatus_logs:
  "llm_log (snd (UpdateSessionStatus e c sid st w)) = llm_log w"
  "exec_log (snd (UpdateSessionStatus e c sid st w)) = exec_log w"
  by (rule UpdateSessionStatus_cases [of e c sid st w]; simp add: on_session_def)+

lemma Publish_logs:
  "llm_log (snd (Publish e c sid ty thread payload w)) = llm_log w"
  "exec_log (snd (Publish e c sid ty thread payload w)) = exec_log w"
  by (rule Publish_cases [of e c sid "ty" thread payload w]; auto simp: published_def Let_def)+

lemma reschedule_logs:
  "llm_log (snd (reschedule e c h sid attempt err w)) = llm_log w"
  "exec_log (snd (reschedule e c h sid attempt err w)) = exec_log w"
  by (auto simp: reschedule_def bindE_def ignoreE_def returnE_def backoffE_def Let_def UpdateSessionStatus_logs
      Publish_logs split: option.splits)

lemma callModelOnce_logs:
  "llm_log (snd (callModelOnce h req w)) = llm_log w @ [req]"
  "exec_log (snd (callModelOnce h req w)) = exec_log w"
  by (auto simp: callModelOnce_def bindE_def stream_def split: sum.splits)

lemma reschedule_error: "reschedule e c h sid attempt err w = (Inl x, w') \<Longrightarrow> x = Canceled"
  by (auto simp: reschedule_def bindE_def ignoreE_def returnE_def backoffE_def Let_def ctx_err_def
      split: option.splits if_splits sum.splits prod.splits)

text \<open>The outcome of the loop with \<open>n\<close> attempts left: \<open>k\<close> calls, and why it stopped.\<close>

definition retried :: "chat_request \<Rightarrow> nat \<Rightarrow> world \<Rightarrow> gerr + modelResult \<Rightarrow> world \<Rightarrow> bool" where
  "retried req n w r w' \<longleftrightarrow> (\<exists>k\<le>n. llm_log w' = llm_log w @ replicate k req \<and> exec_log w' = exec_log w
     \<and> (case r of Inr res \<Rightarrow> 1 \<le> k | Inl err \<Rightarrow> retryable err \<longrightarrow> k = n))"

lemma retried_Suc:
  assumes "retried req n w1 r w'" "llm_log w1 = llm_log w @ [req]" "exec_log w1 = exec_log w"
  shows "retried req (Suc n) w r w'"
proof -
  obtain k where "k \<le> n" "llm_log w' = llm_log w1 @ replicate k req" "exec_log w' = exec_log w1"
    "case r of Inr res \<Rightarrow> 1 \<le> k | Inl err \<Rightarrow> retryable err \<longrightarrow> k = n"
    using assms(1) by (auto simp: retried_def)
  then show ?thesis
    unfolding retried_def using assms(2,3) by (intro exI [of _ "Suc k"]) (auto split: sum.splits)
qed

lemma retry_loop_retried:
  "retry_loop e c h sid req n attempt lastErr w = (r, w') \<Longrightarrow> retried req n w r w'"
proof (induction n arbitrary: attempt lastErr w)
  case 0
  then show ?case by (auto simp: retried_def throwE_def)
next
  case (Suc n)
  let ?pre = "(if attempt > 0 then reschedule e c h sid attempt lastErr else returnE ()) w"
  obtain p w1 where p: "?pre = (p, w1)" by (cases ?pre)
  have logs: "llm_log w1 = llm_log w" "exec_log w1 = exec_log w"
    using p reschedule_logs [of e c h sid attempt lastErr w] by (auto simp: returnE_def split: if_splits)
  show ?case
  proof (cases p)
    case (Inl x)
    then have "x = Canceled" using p reschedule_error by (auto simp: returnE_def split: if_splits)
    then have "r = Inl Canceled" "w' = w1" using Suc.prems p Inl by (simp_all add: bindE_Inl)
    then show ?thesis using logs by (auto simp: retried_def intro!: exI [of _ 0])
  next
    case (Inr u)
    obtain q w2 where q: "callModelOnce h req w1 = (q, w2)" by (cases "callModelOnce h req w1")
    have logs2: "llm_log w2 = llm_log w @ [req]" "exec_log w2 = exec_log w"
      using callModelOnce_logs [of h req w1] q logs by simp_all
    have run: "(r, w') = catchE (callModelOnce h req)
         (\<lambda>err. if retryable err then retry_loop e c h sid req n (attempt + 1) err else throwE err) w1"
      using Suc.prems p Inr by (simp add: bindE_Inr)
    show ?thesis
    proof (cases q)
      case (Inr res)
      then have "r = Inr res" "w' = w2" using run q by (simp_all add: catchE_def)
      then show ?thesis using logs2 by (auto simp: retried_def intro!: exI [of _ 1])
    next
      case (Inl err)
      show ?thesis
      proof (cases "retryable err")
        case True
        then have "retry_loop e c h sid req n (attempt + 1) err w2 = (r, w')" using run q Inl by (simp add: catchE_def)
        from Suc.IH [OF this] show ?thesis by (rule retried_Suc [OF _ logs2])
      next
        case False
        then have "r = Inl err" "w' = w2" using run q Inl by (simp_all add: catchE_def throwE_def)
        then show ?thesis using logs2 False by (auto simp: retried_def intro!: exI [of _ 1])
      qed
    qed
  qed
qed

section \<open>Properties\<close>

text \<open>C39: Retrying is bounded and stops for a reason: at most one call more than
the configured retries is made, all with the same request, no tool is run, and an error is
given up on only when it is permanent, when the context is cancelled during the wait, or when
all attempts are used up.\<close>

theorem retry_is_bounded:
  assumes "callModelWithRetry e c h sid req w = (r, w')"
  shows "\<exists>k \<le> nat (h_MaxRetries h + 1). llm_log w' = llm_log w @ replicate k req \<and> exec_log w' = exec_log w
    \<and> (case r of Inr res \<Rightarrow> 1 \<le> k | Inl err \<Rightarrow> \<not> retryable err \<or> k = nat (h_MaxRetries h + 1))"
proof -
  have "retried req (nat (h_MaxRetries h + 1)) w r w'"
    by (rule retry_loop_retried) (use assms in \<open>simp add: callModelWithRetry_def\<close>)
  then show ?thesis unfolding retried_def by (auto split: sum.splits)
qed

definition flaky_harness :: harness where
  "flaky_harness = (plain_harness (\<lambda>n req. if n < 5 then Inl (ApiErr 0 ''overloaded_error'' ''busy'')
     else Inr [TextDelta ''hi'', StopReason ''end_turn'' zero_usage]))\<lparr>h_MaxRetries := 1\<rparr>"

definition demo_request :: chat_request where
  "demo_request = \<lparr>cr_Model = ''m'', cr_System = [], cr_Messages = [], cr_Tools = [], cr_MaxTokens = 4096\<rparr>"

lemma retry_is_bounded_witness:
  "\<exists>r w'. callModelWithRetry demo_env Background flaky_harness ''s'' demo_request empty_world = (Inr r, w')
     \<and> length (llm_log w') = 2 \<and> length (llm_log w') \<le> nat (h_MaxRetries flaky_harness + 1)"
proof -
  let ?r = "callModelWithRetry demo_env Background flaky_harness ''s'' demo_request empty_world"
  have v: "case fst ?r of Inl x \<Rightarrow> False | Inr res \<Rightarrow> mr_text res = ''hi''" "length (llm_log (snd ?r)) = 2"
    by code_simp+
  have z: "llm_log empty_world = []" by code_simp
  obtain k where "k \<le> nat (h_MaxRetries flaky_harness + 1)" "llm_log (snd ?r) = llm_log empty_world @ replicate k demo_request"
    using retry_is_bounded [where e = demo_env and c = Background and h = flaky_harness and sid = "''s''" and req = demo_request and w = empty_world, OF prod.collapse [symmetric]] by blast
  then have "length (llm_log (snd ?r)) \<le> nat (h_MaxRetries flaky_harness + 1)" by (simp add: z)
  then show ?thesis using v by (cases ?r; cases "fst ?r") auto
qed

text \<open>A stream that sends its text and then one tool call after the other
yields exactly that text and those calls, each with the concatenation of its own parts.\<close>

theorem stream_accumulates:
  "collect_model [] [] (map TextDelta xs @ concat (map call_events cs) @ [StopReason r u])
     = Inr \<lparr>mr_text = concat xs, mr_tools = map call_of cs, mr_usage = u, mr_stopReason = r\<rparr>"
  using collect_texts [of "[]" "[]" xs] collect_calls [of "concat xs" "[]" cs] by simp

text \<open>The identifier of a delta is ignored: when the parts of two calls arrive
interleaved, the first call loses its second part to the other one, which gets both.\<close>

theorem interleaved_deltas_mix:
  "\<exists>res. collect_model [] [] [ToolUseStart ''a'' ''bash'', ToolUseStart ''b'' ''read'', ToolUseDelta ''a'' x,
       ToolUseDelta ''b'' y, StopReason ''tool_use'' zero_usage] = Inr res
     \<and> map pt_InputJSON (mr_tools res) = [[], x @ y]"
  by (simp add: add_delta_def)

text \<open>A call of the model yields a result only if the stream reported a stop
reason; a stream that ends without one is a transient error.\<close>

theorem result_needs_stop_reason:
  "collect_model buf tools evs = Inr res \<Longrightarrow> \<exists>pre r u post. evs = pre @ StopReason r u # post
     \<and> mr_stopReason res = r \<and> mr_usage res = u \<and> retryable stream_ended"
proof (induction evs arbitrary: buf tools)
  case (Cons ev evs)
  have step: "collect_model b ts evs = Inr res \<Longrightarrow> \<exists>pre r u post. ev # evs = pre @ StopReason r u # post
     \<and> mr_stopReason res = r \<and> mr_usage res = u \<and> retryable stream_ended" for b ts
    using Cons.IH [of b ts] by (metis append_Cons)
  show ?case
  proof (cases ev)
    case (StopReason r u)
    then have "ev # evs = [] @ StopReason r u # evs" by simp
    moreover have "mr_stopReason res = r \<and> mr_usage res = u \<and> retryable stream_ended"
      using StopReason Cons.prems by (auto simp: stream_ended_def api_retryable_def)
    ultimately show ?thesis by blast
  qed (use Cons.prems step in simp_all)
qed simp

lemma result_needs_stop_reason_witness:
  "\<exists>res pre r u post. collect_model [] [] [TextDelta ''x'', StopReason ''end_turn'' zero_usage] = Inr res
     \<and> [TextDelta ''x'', StopReason ''end_turn'' zero_usage] = pre @ StopReason r u # post \<and> mr_stopReason res = r"
proof -
  let ?evs = "[TextDelta ''x'', StopReason ''end_turn'' zero_usage]"
  have run: "collect_model [] [] ?evs = Inr \<lparr>mr_text = ''x'', mr_tools = [], mr_usage = zero_usage, mr_stopReason = ''end_turn''\<rparr>"
    by simp
  show ?thesis using run result_needs_stop_reason [OF run] by blast
qed

end
