(* ===== verification/ProviderProperties.thy ===== *)
theory ProviderProperties
  imports OaiCompat ModelCall
begin

text \<open>
  What the two model clients make of a stream: an answer written by the documented protocol is
  accumulated by the harness to exactly that answer, and every stream, even one that was cut off,
  counts as a complete answer.
\<close>

section \<open>A loop over lines\<close>

definition is_stop :: "chat_event \<Rightarrow> bool" where
  "is_stop ev \<longleftrightarrow> (case ev of StopReason r u \<Rightarrow> True | _ \<Rightarrow> False)"

definition stop_free :: "chat_event list \<Rightarrow> bool" where
  "stop_free evs \<longleftrightarrow> (\<forall>ev \<in> set evs. \<not> is_stop ev)"

lemma stop_free_simps [simp]:
  "stop_free []" "stop_free (ev # evs) \<longleftrightarrow> \<not> is_stop ev \<and> stop_free evs"
  "stop_free (xs @ ys) \<longleftrightarrow> stop_free xs \<and> stop_free ys"
  by (auto simp: stop_free_def)

lemma is_stop_simps [simp]:
  "is_stop (StopReason r u)" "\<not> is_stop (TextDelta t)" "\<not> is_stop (ToolUseStart i n)" "\<not> is_stop (ToolUseDelta i d)"
  "\<not> is_stop (ErrorEvent t m k)"
  by (simp_all add: is_stop_def)

definition one_stop :: "chat_event list \<Rightarrow> bool" where
  "one_stop evs \<longleftrightarrow> (\<exists>pre r u. evs = pre @ [StopReason r u] \<and> stop_free pre)"

lemma one_stopI: "stop_free pre \<Longrightarrow> one_stop (pre @ [StopReason r u])"
  by (auto simp: one_stop_def)

lemma one_stop_append: "stop_free xs \<Longrightarrow> one_stop ys \<Longrightarrow> one_stop (xs @ ys)"
  unfolding one_stop_def by (metis append_assoc stop_free_simps(3))

text \<open>
  Both clients read line by line: a line sends events on and either ends the stream or changes the
  state, and the end of the lines sends the last event.
\<close>

locale line_loop =
  fixes run :: "string list \<Rightarrow> 's \<Rightarrow> chat_event list"
    and act :: "string \<Rightarrow> 's \<Rightarrow> chat_event list \<times> 's option"
    and finish :: "'s \<Rightarrow> chat_event list"
  assumes run_Nil: "run [] st = finish st"
    and run_Cons: "run (l # ls) st = (case act l st of (evs, None) \<Rightarrow> evs | (evs, Some st') \<Rightarrow> evs @ run ls st')"
    and goes_on: "act l st = (evs, Some st') \<Longrightarrow> stop_free evs"
    and ends: "act l st = (evs, None) \<Longrightarrow> one_stop evs"
    and finishes: "one_stop (finish st)"
begin

lemma run_one_stop: "one_stop (run ls st)"
proof (induction ls arbitrary: st)
  case Nil
  then show ?case by (simp add: run_Nil finishes)
next
  case (Cons l ls)
  obtain evs next_st where a: "act l st = (evs, next_st)" by (cases "act l st")
  show ?case
    using Cons goes_on [of l st evs] ends [of l st evs] a by (cases next_st) (simp_all add: run_Cons one_stop_append)
qed

lemma run_skip: "act l st = ([], Some st) \<Longrightarrow> run (l # ls) st = run ls st"
  by (simp add: run_Cons)

lemma run_step: "act l st = (evs, Some st') \<Longrightarrow> run (l # ls) st = evs @ run ls st'"
  by (simp add: run_Cons)

lemma run_end: "act l st = (evs, None) \<Longrightarrow> run (l # ls) st = evs"
  by (simp add: run_Cons)

end

definition ant_act :: "string \<Rightarrow> ant_reader \<Rightarrow> chat_event list \<times> ant_reader option" where
  "ant_act l st = (case ant_line l of None \<Rightarrow> ([], Some st) | Some (data, ev) \<Rightarrow> ant_step data ev st)"

definition ant_run :: "string list \<Rightarrow> ant_reader \<Rightarrow> chat_event list" where
  "ant_run ls st = ant_lines (\<lambda>_. False) 0 ls st"

lemma ant_lines_run: "(\<And>k. \<not> done k) \<Longrightarrow> ant_lines done n ls st = ant_run ls st"
proof -
  assume d: "\<And>k. \<not> done k"
  have "ant_lines done n ls st = ant_lines (\<lambda>_. False) m ls st" for m
    by (induction ls arbitrary: n m st) (simp_all add: d split: option.splits prod.splits)
  then show ?thesis by (simp add: ant_run_def)
qed

lemma one_stop_error: "one_stop [ant_error_event d ev, StopReason r u]"
  using one_stopI [of "[ant_error_event d ev]"] by (simp add: ant_error_event_def split: option.splits prod.splits)

interpretation ant: line_loop ant_run ant_act "\<lambda>st. [StopReason (xr_Stop st) (xr_Usage st)]"
proof
  fix l ls st evs st'
  show "ant_run [] st = [StopReason (xr_Stop st) (xr_Usage st)]" by (simp add: ant_run_def)
  have "ant_lines (\<lambda>_. False) (Suc 0) ls st = ant_run ls st" for st by (rule ant_lines_run) simp
  then show "ant_run (l # ls) st = (case ant_act l st of (evs, None) \<Rightarrow> evs | (evs, Some st') \<Rightarrow> evs @ ant_run ls st')"
    by (simp add: ant_run_def [of "l # ls"] ant_act_def split: option.splits prod.splits)
  show "ant_act l st = (evs, Some st') \<Longrightarrow> stop_free evs"
    by (auto simp: ant_act_def ant_step_def ant_delta_events_def split: option.splits if_splits)
  show "ant_act l st = (evs, None) \<Longrightarrow> one_stop evs"
    using one_stop_error one_stopI [of "[]"] by (auto simp: ant_act_def ant_step_def split: option.splits if_splits)
  show "one_stop [StopReason (xr_Stop st) (xr_Usage st)]" using one_stopI [of "[]"] by simp
qed

definition oai_act :: "string \<Rightarrow> oai_reader \<Rightarrow> chat_event list \<times> oai_reader option" where
  "oai_act l st = (case oai_line l of None \<Rightarrow> ([], Some st)
     | Some r \<Rightarrow> apsnd Some (oai_choices (oe_Choices r) (oai_usage_step (oe_Usage r) st)))"

definition oai_run :: "string list \<Rightarrow> oai_reader \<Rightarrow> chat_event list" where
  "oai_run ls st = oai_lines (\<lambda>_. False) 0 ls st"

lemma oai_lines_run: "(\<And>k. \<not> done k) \<Longrightarrow> oai_lines done n ls st = oai_run ls st"
proof -
  assume d: "\<And>k. \<not> done k"
  have "oai_lines done n ls st = oai_lines (\<lambda>_. False) m ls st" for m
    by (induction ls arbitrary: n m st) (simp_all add: d split: option.splits prod.splits)
  then show ?thesis by (simp add: oai_run_def)
qed

text \<open>The only stop the second client sends is the one at the end, and it sends no errors.\<close>

definition answer_event :: "chat_event \<Rightarrow> bool" where
  "answer_event ev \<longleftrightarrow> (case ev of TextDelta t \<Rightarrow> True | ToolUseStart i n \<Rightarrow> True | ToolUseDelta i d \<Rightarrow> True | _ \<Rightarrow> False)"

lemma oai_calls_events: "list_all answer_event (fst (oai_calls tcs st))"
  by (induction tcs st rule: oai_calls.induct)
    (auto simp: oai_call_step_def Let_def answer_event_def split: prod.splits)

lemma oai_choices_events: "list_all answer_event (fst (oai_choices chs st))"
proof (induction chs st rule: oai_choices.induct)
  case (2 ch chs st)
  have "list_all answer_event (fst (oai_choice_step ch st))"
    using oai_calls_events [of "oc_ToolCalls ch" st] by (auto simp: oai_choice_step_def answer_event_def split: prod.splits)
  then show ?case using 2 by (auto split: prod.splits)
qed simp

lemma answers_stop_free: "list_all answer_event evs \<Longrightarrow> stop_free evs"
  by (induction evs) (auto simp: answer_event_def is_stop_def split: chat_event.splits)

interpretation oai: line_loop oai_run oai_act "\<lambda>st. [oai_end st]"
proof
  fix l ls st evs st'
  show "oai_run [] st = [oai_end st]" by (simp add: oai_run_def)
  have "oai_lines (\<lambda>_. False) (Suc 0) ls st = oai_run ls st" for st by (rule oai_lines_run) simp
  then show "oai_run (l # ls) st = (case oai_act l st of (evs, None) \<Rightarrow> evs | (evs, Some st') \<Rightarrow> evs @ oai_run ls st')"
    by (simp add: oai_run_def [of "l # ls"] oai_act_def Let_def apsnd_def map_prod_def split: option.splits prod.splits)
  show "oai_act l st = (evs, Some st') \<Longrightarrow> stop_free evs"
    using answers_stop_free [OF oai_choices_events, of "oe_Choices (the (oai_line l))" "oai_usage_step (oe_Usage (the (oai_line l))) st"]
    by (auto simp: oai_act_def apsnd_def map_prod_def split: option.splits prod.splits)
  show "oai_act l st = (evs, None) \<Longrightarrow> one_stop evs"
    by (auto simp: oai_act_def apsnd_def map_prod_def split: option.splits prod.splits)
  show "one_stop [oai_end st]" using one_stopI [of "[]"] by (simp add: oai_end_def)
qed

section \<open>Every stream counts as an answer\<close>

lemma collect_one_stop:
  assumes "one_stop evs"
  shows "(\<exists>x. collect_model t ts evs = Inr x) \<or> (\<exists>ty m k. ErrorEvent ty m k \<in> set evs)"
proof -
  obtain pre r u where "evs = pre @ [StopReason r u]" "stop_free pre" using assms by (auto simp: one_stop_def)
  moreover have "(\<exists>x. collect_model t ts (pre @ [StopReason r u]) = Inr x) \<or> (\<exists>ty m k. ErrorEvent ty m k \<in> set pre)"
    using \<open>stop_free pre\<close> by (induction pre arbitrary: t ts) (auto split: chat_event.splits)
  ultimately show ?thesis by auto
qed

lemma oai_run_no_error: "ErrorEvent ty m k \<notin> set (oai_run ls st)"
proof (induction ls arbitrary: st)
  case (Cons l ls)
  have "ErrorEvent ty m k \<notin> set (fst (oai_choices chs st))" for chs st
    using oai_choices_events [of chs st] by (auto simp: list_all_iff answer_event_def)
  from this [of "oe_Choices (the (oai_line l))" "oai_usage_step (oe_Usage (the (oai_line l))) st"]
  show ?case using Cons by (auto simp: oai.run_Cons oai_act_def apsnd_def map_prod_def split: option.splits prod.splits)
qed (simp add: oai.run_Nil oai_end_def)

text \<open>C29: Whatever bytes arrive before a connection ends, the harness takes what arrived as a complete
answer: the reader closes every stream with a reason to stop of its own, so the error for a stream
that ended without one, which would be retried, never occurs unless the model itself sends an error.\<close>

theorem every_stream_is_an_answer:
  assumes "\<And>k. \<not> done k"
  shows "(\<exists>r. collect_model [] [] (parseOAIStream done body) = Inr r)
    \<and> ((\<exists>r. collect_model [] [] (parseAnthropicStream done body) = Inr r)
       \<or> (\<exists>t m k. ErrorEvent t m k \<in> set (parseAnthropicStream done body)))"
  using collect_one_stop [OF oai.run_one_stop] oai_run_no_error collect_one_stop [OF ant.run_one_stop]
  unfolding parseOAIStream_def parseAnthropicStream_def oai_lines_run [OF assms] ant_lines_run [OF assms] by metis

section \<open>Answers of the documented protocols\<close>

text \<open>An answer is text and tool calls; a server sends each of them in parts.\<close>

datatype wire_block = WText "string list" | WTool string string "string list"

definition wire_text :: "wire_block list \<Rightarrow> string" where
  "wire_text bs = concat (map (\<lambda>b. case b of WText ts \<Rightarrow> concat ts | WTool i n ps \<Rightarrow> []) bs)"

definition wire_tools :: "wire_block list \<Rightarrow> pendingToolUse list" where
  "wire_tools bs = concat (map (\<lambda>b. case b of WText ts \<Rightarrow> []
     | WTool i n ps \<Rightarrow> [\<lparr>pt_ID = i, pt_Name = n, pt_InputJSON = concat ps\<rparr>]) bs)"

lemma wire_simps [simp]:
  "wire_text [] = []" "wire_text (WText ts # bs) = concat ts @ wire_text bs" "wire_text (WTool i n ps # bs) = wire_text bs"
  "wire_tools [] = []" "wire_tools (WText ts # bs) = wire_tools bs"
  "wire_tools (WTool i n ps # bs) = \<lparr>pt_ID = i, pt_Name = n, pt_InputJSON = concat ps\<rparr> # wire_tools bs"
  by (simp_all add: wire_text_def wire_tools_def)

text \<open>How the harness accumulates the parts.\<close>

lemma collect_text:
  "collect_model t ts (concat (map (\<lambda>s. if s \<noteq> [] then [TextDelta s] else []) xs) @ rest) = collect_model (t @ concat xs) ts rest"
  by (induction xs arbitrary: t) auto

lemma collect_parts:
  "collect_model t (ts @ [x]) (map (ToolUseDelta i) ps @ rest)
     = collect_model t (ts @ [x\<lparr>pt_InputJSON := pt_InputJSON x @ concat ps\<rparr>]) rest"
  by (induction ps arbitrary: x) (simp_all add: add_delta_def)

lemma collect_tool:
  "collect_model t ts (ToolUseStart i n # map (ToolUseDelta j) ps @ rest)
     = collect_model t (ts @ [\<lparr>pt_ID = i, pt_Name = n, pt_InputJSON = concat ps\<rparr>]) rest"
  by (simp add: collect_parts)

section \<open>The Messages API\<close>

type_synonym doc = "(string \<times> json) list"

definition usage_ok :: "usage \<Rightarrow> bool" where
  "usage_ok u \<longleftrightarrow> int64_range (u_InputTokens u) \<and> int64_range (u_OutputTokens u)
     \<and> int64_range (u_CacheCreation u) \<and> int64_range (u_CacheRead u)"

definition start_doc :: "string \<Rightarrow> usage \<Rightarrow> doc" where
  "start_doc model u = [(''type'', JStr ''message_start''),
     (''message'', JObj [(''id'', JStr ''msg''), (''type'', JStr ''message''), (''role'', JStr ''assistant''), (''model'', JStr model),
        (''content'', JArr []), (''stop_reason'', JNull),
        (''usage'', JObj [(''input_tokens'', jint (u_InputTokens u)), (''cache_creation_input_tokens'', jint (u_CacheCreation u)),
           (''cache_read_input_tokens'', jint (u_CacheRead u)), (''output_tokens'', jint (u_OutputTokens u))])])]"

definition block_start_doc :: "int \<Rightarrow> doc \<Rightarrow> doc" where
  "block_start_doc i b = [(''type'', JStr ''content_block_start''), (''index'', jint i), (''content_block'', JObj b)]"

definition block_delta_doc :: "int \<Rightarrow> doc \<Rightarrow> doc" where
  "block_delta_doc i d = [(''type'', JStr ''content_block_delta''), (''index'', jint i), (''delta'', JObj d)]"

definition block_stop_doc :: "int \<Rightarrow> doc" where
  "block_stop_doc i = [(''type'', JStr ''content_block_stop''), (''index'', jint i)]"

definition text_block :: doc where
  "text_block = [(''type'', JStr ''text''), (''text'', JStr [])]"

definition tool_block :: "string \<Rightarrow> string \<Rightarrow> doc" where
  "tool_block i n = [(''type'', JStr ''tool_use''), (''id'', JStr i), (''name'', JStr n), (''input'', JObj [])]"

definition text_delta :: "string \<Rightarrow> doc" where
  "text_delta t = [(''type'', JStr ''text_delta''), (''text'', JStr t)]"

definition input_delta :: "string \<Rightarrow> doc" where
  "input_delta t = [(''type'', JStr ''input_json_delta''), (''partial_json'', JStr t)]"

definition final_docs :: "string \<Rightarrow> int \<Rightarrow> doc list" where
  "final_docs r n =
     [[(''type'', JStr ''message_delta''), (''delta'', JObj [(''stop_reason'', JStr r), (''stop_sequence'', JNull)]),
       (''usage'', JObj [(''output_tokens'', jint n)])],
      [(''type'', JStr ''message_stop'')]]"

fun block_docs :: "int \<Rightarrow> wire_block \<Rightarrow> doc list" where
  "block_docs i (WText ts) =
     block_start_doc i text_block # map (\<lambda>t. block_delta_doc i (text_delta t)) ts @ [block_stop_doc i]"
| "block_docs i (WTool tid name ps) =
     block_start_doc i (tool_block tid name) # map (\<lambda>p. block_delta_doc i (input_delta p)) ps @ [block_stop_doc i]"

fun blocks_docs :: "int \<Rightarrow> wire_block list \<Rightarrow> doc list" where
  "blocks_docs i [] = []"
| "blocks_docs i (b # bs) = block_docs i b @ blocks_docs (i + 1) bs"

definition message_docs :: "string \<Rightarrow> usage \<Rightarrow> wire_block list \<Rightarrow> string \<Rightarrow> int \<Rightarrow> doc list" where
  "message_docs model u bs r n = start_doc model u # blocks_docs 0 bs @ final_docs r n"

definition doc_name :: "doc \<Rightarrow> string" where
  "doc_name d = (case d of (k, JStr s) # _ \<Rightarrow> s | _ \<Rightarrow> [])"

definition doc_lines :: "doc list \<Rightarrow> string list" where
  "doc_lines ds = concat (map (\<lambda>d. sse_frame (doc_name d) (JObj d)) ds)"


lemma doc_lines_simps [simp]:
  "doc_lines [] = []" "doc_lines (d # ds) = sse_frame (doc_name d) (JObj d) @ doc_lines ds"
  "doc_lines (ds @ es) = doc_lines ds @ doc_lines es"
  by (simp_all add: doc_lines_def)

text \<open>Reading the three lines of one document.\<close>

lemma ant_line_doc:
  assumes "wf_json (JObj d)" "dec_ant_event (JObj d) zero_ant_event = (ev, False)"
  shows "ant_line (''data: '' @ jprint (JObj d)) = Some (jprint (JObj d), ev)"
proof -
  have "jprint (JObj d) \<noteq> []" by simp
  then show ?thesis using sse_data_doc [OF assms(1)] json_roundtrip [OF assms(1)] assms(2)
    by (simp add: ant_line_def unmarshal_def del: jprint.simps)
qed

lemma sse_frame_append: "sse_frame name d @ ls = (''event: '' @ name) # (''data: '' @ jprint d) # [] # ls"
  by (simp add: sse_frame_def)

lemma ant_run_doc:
  assumes "wf_json (JObj d)" "dec_ant_event (JObj d) zero_ant_event = (ev, False)"
    "ant_step (jprint (JObj d)) ev st = (evs, Some st')"
  shows "ant_run (sse_frame name (JObj d) @ ls) st = evs @ ant_run ls st'"
proof -
  have skip: "ant_act (''event: '' @ name) st = ([], Some st)" "ant_act [] st' = ([], Some st')"
    by (simp_all add: ant_act_def ant_line_def sse_data_other [simplified])
  have "ant_act (''data: '' @ jprint (JObj d)) st = (evs, Some st')"
    using ant_line_doc [OF assms(1,2)] assms(3) by (simp add: ant_act_def del: jprint.simps)
  then show ?thesis
    unfolding sse_frame_append ant.run_skip [OF skip(1)] by (simp only: ant.run_step ant.run_skip [OF skip(2)])
qed

lemma ant_run_last:
  assumes "wf_json (JObj d)" "dec_ant_event (JObj d) zero_ant_event = (ev, False)"
    "ant_step (jprint (JObj d)) ev st = (evs, None)"
  shows "ant_run (sse_frame name (JObj d) @ ls) st = evs"
proof -
  have skip: "ant_act (''event: '' @ name) st = ([], Some st)"
    by (simp add: ant_act_def ant_line_def sse_data_other [simplified])
  have "ant_act (''data: '' @ jprint (JObj d)) st = (evs, None)"
    using ant_line_doc [OF assms(1,2)] assms(3) by (simp add: ant_act_def del: jprint.simps)
  then show ?thesis
    unfolding sse_frame_append ant.run_skip [OF skip(1)] by (rule ant.run_end)
qed

lemmas ant_decoding = json_simps dec_ant_event_def ant_event_fields_def dec_ant_message_def dec_ant_usage_def dec_ant_block_def
  dec_ant_delta_def dec_ptr_def zero_ant_event_def zero_ant_block_def zero_ant_delta_def zero_usage_def

lemma ant_run_start:
  assumes "usage_ok u"
  shows "ant_run (sse_frame name (JObj (start_doc m u)) @ ls) st = ant_run ls (st\<lparr>xr_Usage := u\<rparr>)"
proof -
  have "dec_ant_event (JObj (start_doc m u)) zero_ant_event = (zero_ant_event\<lparr>xe_Type := ''message_start'', xe_Message := Some u\<rparr>, False)"
    using assms by (simp add: ant_decoding start_doc_def usage_ok_def)
  moreover have "wf_json (JObj (start_doc m u))" by (auto simp: start_doc_def jint_def)
  ultimately show ?thesis
    using ant_run_doc [of "start_doc m u" _ st "[]"] by (simp add: ant_step_def started_usage_def zero_ant_event_def del: jprint.simps)
qed

lemma ant_run_block_start:
  assumes "int64_range i"
  shows "ant_run (sse_frame name (JObj (block_start_doc i text_block)) @ ls) st = ant_run ls st"
    "ant_run (sse_frame name (JObj (block_start_doc i (tool_block tid n))) @ ls) st
       = ToolUseStart tid n # ant_run ls (st\<lparr>xr_Tools := (xr_Tools st)(i \<mapsto> tid)\<rparr>)"
    "ant_run (sse_frame name (JObj (block_stop_doc i)) @ ls) st = ant_run ls st"
proof -
  have "dec_ant_event (JObj (block_start_doc i text_block)) zero_ant_event
      = (zero_ant_event\<lparr>xe_Type := ''content_block_start'', xe_Index := i, xe_ContentBlock := Some (zero_ant_block\<lparr>ab_Type := ''text''\<rparr>)\<rparr>, False)"
    using assms by (simp add: ant_decoding block_start_doc_def text_block_def)
  moreover have "wf_json (JObj (block_start_doc i text_block))" by (auto simp: block_start_doc_def text_block_def jint_def)
  ultimately show "ant_run (sse_frame name (JObj (block_start_doc i text_block)) @ ls) st = ant_run ls st"
    using ant_run_doc [of "block_start_doc i text_block" _ st "[]"] by (simp add: ant_step_def zero_ant_event_def zero_ant_block_def del: jprint.simps)
  have "dec_ant_event (JObj (block_start_doc i (tool_block tid n))) zero_ant_event
      = (zero_ant_event\<lparr>xe_Type := ''content_block_start'', xe_Index := i,
           xe_ContentBlock := Some \<lparr>ab_Type = ''tool_use'', ab_ID = tid, ab_Name = n\<rparr>\<rparr>, False)"
    using assms by (simp add: ant_decoding block_start_doc_def tool_block_def)
  moreover have "wf_json (JObj (block_start_doc i (tool_block tid n)))" by (auto simp: block_start_doc_def tool_block_def jint_def)
  ultimately show "ant_run (sse_frame name (JObj (block_start_doc i (tool_block tid n))) @ ls) st
       = ToolUseStart tid n # ant_run ls (st\<lparr>xr_Tools := (xr_Tools st)(i \<mapsto> tid)\<rparr>)"
    using ant_run_doc [of "block_start_doc i (tool_block tid n)" _ st "[ToolUseStart tid n]"] by (simp add: ant_step_def zero_ant_event_def del: jprint.simps)
  have "dec_ant_event (JObj (block_stop_doc i)) zero_ant_event
      = (zero_ant_event\<lparr>xe_Type := ''content_block_stop'', xe_Index := i\<rparr>, False)"
    using assms by (simp add: ant_decoding block_stop_doc_def)
  moreover have "wf_json (JObj (block_stop_doc i))" by (auto simp: block_stop_doc_def jint_def)
  ultimately show "ant_run (sse_frame name (JObj (block_stop_doc i)) @ ls) st = ant_run ls st"
    using ant_run_doc [of "block_stop_doc i" _ st "[]"] by (simp add: ant_step_def zero_ant_event_def del: jprint.simps)
qed

lemma ant_run_delta:
  assumes "int64_range i"
  shows "ant_run (sse_frame name (JObj (block_delta_doc i (text_delta t))) @ ls) st = (if t \<noteq> [] then [TextDelta t] else []) @ ant_run ls st"
    "ant_run (sse_frame name (JObj (block_delta_doc i (input_delta t))) @ ls) st
       = ToolUseDelta (case xr_Tools st i of None \<Rightarrow> [] | Some tid \<Rightarrow> tid) t # ant_run ls st"
proof -
  have "dec_ant_event (JObj (block_delta_doc i (text_delta t))) zero_ant_event
      = (zero_ant_event\<lparr>xe_Type := ''content_block_delta'', xe_Index := i,
           xe_Delta := Some (zero_ant_delta\<lparr>ad_Type := ''text_delta'', ad_Text := t\<rparr>)\<rparr>, False)"
    using assms by (simp add: ant_decoding block_delta_doc_def text_delta_def)
  moreover have "wf_json (JObj (block_delta_doc i (text_delta t)))" by (auto simp: block_delta_doc_def text_delta_def jint_def)
  ultimately show "ant_run (sse_frame name (JObj (block_delta_doc i (text_delta t))) @ ls) st
      = (if t \<noteq> [] then [TextDelta t] else []) @ ant_run ls st"
    using ant_run_doc [of "block_delta_doc i (text_delta t)" _ st "if t \<noteq> [] then [TextDelta t] else []"]
    by (simp add: ant_step_def ant_delta_events_def zero_ant_event_def zero_ant_delta_def del: jprint.simps)
  have "dec_ant_event (JObj (block_delta_doc i (input_delta t))) zero_ant_event
      = (zero_ant_event\<lparr>xe_Type := ''content_block_delta'', xe_Index := i,
           xe_Delta := Some (zero_ant_delta\<lparr>ad_Type := ''input_json_delta'', ad_PartialJSON := t\<rparr>)\<rparr>, False)"
    using assms by (simp add: ant_decoding block_delta_doc_def input_delta_def)
  moreover have "wf_json (JObj (block_delta_doc i (input_delta t)))" by (auto simp: block_delta_doc_def input_delta_def jint_def)
  ultimately show "ant_run (sse_frame name (JObj (block_delta_doc i (input_delta t))) @ ls) st
       = ToolUseDelta (case xr_Tools st i of None \<Rightarrow> [] | Some tid \<Rightarrow> tid) t # ant_run ls st"
    using ant_run_doc [of "block_delta_doc i (input_delta t)" _ st "[ToolUseDelta (case xr_Tools st i of None \<Rightarrow> [] | Some tid \<Rightarrow> tid) t]"]
    by (simp add: ant_step_def ant_delta_events_def zero_ant_event_def zero_ant_delta_def del: jprint.simps)
qed

lemma ant_run_texts:
  "int64_range i \<Longrightarrow> ant_run (doc_lines (map (\<lambda>t. block_delta_doc i (text_delta t)) xs) @ ls) st
     = concat (map (\<lambda>t. if t \<noteq> [] then [TextDelta t] else []) xs) @ ant_run ls st"
  by (induction xs) (simp_all add: ant_run_delta)

lemma ant_run_inputs:
  "int64_range i \<Longrightarrow> ant_run (doc_lines (map (\<lambda>p. block_delta_doc i (input_delta p)) ps) @ ls) st
     = map (ToolUseDelta (case xr_Tools st i of None \<Rightarrow> [] | Some tid \<Rightarrow> tid)) ps @ ant_run ls st"
  by (induction ps) (simp_all add: ant_run_delta)

text \<open>A block is read and accumulated; the readers differ only in the calls they know of.\<close>

lemma collect_block:
  assumes "int64_range i"
  shows "\<exists>M. collect_model t ts (ant_run (doc_lines (block_docs i b) @ ls) st)
    = collect_model (t @ wire_text [b]) (ts @ wire_tools [b]) (ant_run ls (st\<lparr>xr_Tools := M\<rparr>))"
proof (cases b)
  case (WText xs)
  have "collect_model t ts (ant_run (doc_lines (block_docs i b) @ ls) st) = collect_model (t @ wire_text [b]) (ts @ wire_tools [b]) (ant_run ls st)"
    by (simp add: WText ant_run_block_start assms ant_run_texts collect_text)
  then show ?thesis by (intro exI [of _ "xr_Tools st"]) simp
next
  case (WTool tid n ps)
  have "collect_model t ts (ant_run (doc_lines (block_docs i b) @ ls) st) = collect_model (t @ wire_text [b]) (ts @ wire_tools [b])
      (ant_run ls (st\<lparr>xr_Tools := (xr_Tools st)(i \<mapsto> tid)\<rparr>))"
    by (simp add: WTool ant_run_block_start assms ant_run_inputs collect_tool del: collect_model.simps)
  then show ?thesis by blast
qed

lemma collect_blocks:
  assumes "0 \<le> i" "i + int (length bs) < 2 ^ 63"
  shows "\<exists>M. collect_model t ts (ant_run (doc_lines (blocks_docs i bs) @ ls) st)
    = collect_model (t @ wire_text bs) (ts @ wire_tools bs) (ant_run ls (st\<lparr>xr_Tools := M\<rparr>))"
  using assms
proof (induction bs arbitrary: i t ts st)
  case Nil
  show ?case by (intro exI [of _ "xr_Tools st"]) simp
next
  case (Cons b bs)
  have "int64_range i" using Cons.prems by (simp add: int64_range_def)
  from collect_block [OF this, of t ts b "doc_lines (blocks_docs (i + 1) bs) @ ls" st] obtain M where
    one: "collect_model t ts (ant_run (doc_lines (blocks_docs i (b # bs)) @ ls) st) = collect_model (t @ wire_text [b]) (ts @ wire_tools [b])
      (ant_run (doc_lines (blocks_docs (i + 1) bs) @ ls) (st\<lparr>xr_Tools := M\<rparr>))" by auto
  obtain M' where "collect_model (t @ wire_text [b]) (ts @ wire_tools [b]) (ant_run (doc_lines (blocks_docs (i + 1) bs) @ ls) (st\<lparr>xr_Tools := M\<rparr>))
    = collect_model ((t @ wire_text [b]) @ wire_text bs) ((ts @ wire_tools [b]) @ wire_tools bs) (ant_run ls (st\<lparr>xr_Tools := M, xr_Tools := M'\<rparr>))"
    using Cons.IH [of "i + 1" "t @ wire_text [b]" "ts @ wire_tools [b]" "st\<lparr>xr_Tools := M\<rparr>"] Cons.prems by auto
  moreover have "wire_text (b # bs) = wire_text [b] @ wire_text bs" "wire_tools (b # bs) = wire_tools [b] @ wire_tools bs" by (cases b; simp)+
  ultimately show ?case using one by (intro exI [of _ M']) simp
qed

lemma ant_run_final:
  assumes "int64_range n" "r \<noteq> []"
  shows "ant_run (doc_lines (final_docs r n)) st = [StopReason (mapAnthropicStop r) ((xr_Usage st)\<lparr>u_OutputTokens := n\<rparr>)]"
proof -
  let ?d = "[(''type'', JStr ''message_delta''), (''delta'', JObj [(''stop_reason'', JStr r), (''stop_sequence'', JNull)]),
       (''usage'', JObj [(''output_tokens'', jint n)])]" and ?e = "[(''type'', JStr ''message_stop'')]"
  let ?st = "st\<lparr>xr_Stop := mapAnthropicStop r, xr_Usage := (xr_Usage st)\<lparr>u_OutputTokens := n\<rparr>\<rparr>"
  have "dec_ant_event (JObj ?d) zero_ant_event = (zero_ant_event\<lparr>xe_Type := ''message_delta'', xe_Delta := Some (zero_ant_delta\<lparr>ad_StopReason := r\<rparr>),
      xe_Usage := Some (zero_usage\<lparr>u_OutputTokens := n\<rparr>)\<rparr>, False)"
    using assms(1) by (simp add: ant_decoding)
  moreover have "wf_json (JObj ?d)" by (auto simp: jint_def)
  ultimately have one: "ant_run (sse_frame nm (JObj ?d) @ ls) st = ant_run ls ?st" for nm ls
    using ant_run_doc [of ?d _ st "[]" ?st nm ls] assms(2)
    by (simp add: ant_step_def ant_message_delta_def zero_ant_event_def zero_ant_delta_def zero_usage_def Let_def del: jprint.simps)
  have "dec_ant_event (JObj ?e) zero_ant_event = (zero_ant_event\<lparr>xe_Type := ''message_stop''\<rparr>, False)" by (simp add: ant_decoding)
  then have "ant_run (sse_frame nm (JObj ?e) @ ls) ?st = [StopReason (mapAnthropicStop r) ((xr_Usage st)\<lparr>u_OutputTokens := n\<rparr>)]" for nm ls
    using ant_run_last [of ?e _ ?st _ nm ls] by (simp add: ant_step_def zero_ant_event_def del: jprint.simps)
  then show ?thesis by (simp only: final_docs_def doc_lines_simps one)
qed

definition doc_ok :: "doc \<Rightarrow> bool" where
  "doc_ok d \<longleftrightarrow> wf_json (JObj d) \<and> printable (doc_name d)"

lemma wf_jint [simp]: "wf_json (jint i)"
  by (auto simp: jint_def)

lemma message_docs_ok: "d \<in> set (message_docs model u bs r n) \<Longrightarrow> doc_ok d"
proof -
  have block: "doc_ok d" if "d \<in> set (block_docs i b)" for i b
    using that by (cases b) (auto simp: doc_ok_def doc_name_def block_start_doc_def block_delta_doc_def block_stop_doc_def
        text_block_def tool_block_def text_delta_def input_delta_def)
  have "doc_ok d" if "d \<in> set (blocks_docs i bs)" for i
    using that by (induction i bs rule: blocks_docs.induct) (auto dest: block)
  then show "d \<in> set (message_docs model u bs r n) \<Longrightarrow> doc_ok d"
    by (auto simp: message_docs_def final_docs_def start_doc_def doc_ok_def doc_name_def)
qed

lemma doc_lines_printable: "(\<And>d. d \<in> set ds \<Longrightarrow> doc_ok d) \<Longrightarrow> l \<in> set (doc_lines ds) \<Longrightarrow> printable l"
  using jprint_printable by (fastforce simp: doc_lines_def sse_frame_def doc_ok_def simp del: jprint.simps wf_json.simps)

text \<open>C21: An answer that the server writes by the documented protocol of the Messages API, its text and
the input of its tool calls cut into any parts, is accumulated by the harness to exactly that text,
those calls with their identifiers, names and whole inputs, the usage and the reason to stop.\<close>

theorem anthropic_answers_arrive:
  assumes "\<forall>l\<in>set (doc_lines (message_docs model u bs r n)). length l < mebibytes 4"
    and "int (length bs) < 2 ^ 63" "usage_ok u" "int64_range n" "r \<noteq> []" "\<And>k. \<not> done k"
  shows "collect_model [] [] (parseAnthropicStream done (lines_text (doc_lines (message_docs model u bs r n))))
    = Inr \<lparr>mr_text = wire_text bs, mr_tools = wire_tools bs, mr_usage = u\<lparr>u_OutputTokens := n\<rparr>, mr_stopReason = mapAnthropicStop r\<rparr>"
proof -
  have "ScanLines (mebibytes 4) (lines_text (doc_lines (message_docs model u bs r n))) = (doc_lines (message_docs model u bs r n), False)"
    by (rule ScanLines_text) (use assms(1) doc_lines_printable message_docs_ok in blast)
  then have p: "parseAnthropicStream done (lines_text (doc_lines (message_docs model u bs r n)))
      = ant_run (doc_lines (blocks_docs 0 bs) @ doc_lines (final_docs r n)) (ant_start\<lparr>xr_Usage := u\<rparr>)"
    unfolding parseAnthropicStream_def ant_lines_run [OF assms(6)] by (simp add: message_docs_def ant_run_start assms(3))
  obtain M where "collect_model [] [] (ant_run (doc_lines (blocks_docs 0 bs) @ doc_lines (final_docs r n)) (ant_start\<lparr>xr_Usage := u\<rparr>))
      = collect_model ([] @ wire_text bs) ([] @ wire_tools bs) (ant_run (doc_lines (final_docs r n)) (ant_start\<lparr>xr_Usage := u, xr_Tools := M\<rparr>))"
    using collect_blocks [of 0 bs "[]" "[]" "doc_lines (final_docs r n)" "ant_start\<lparr>xr_Usage := u\<rparr>"] assms(2) by auto
  then show ?thesis unfolding p by (simp add: ant_run_final assms(4,5))
qed

section \<open>The chat completions API\<close>

definition chunk_doc :: "doc \<Rightarrow> json \<Rightarrow> doc" where
  "chunk_doc delta reason = [(''id'', JStr ''chunk''), (''object'', JStr ''chat.completion.chunk''),
     (''choices'', JArr [JObj [(''index'', jint 0), (''delta'', JObj delta), (''finish_reason'', reason)]])]"

definition call_delta :: "int \<Rightarrow> doc \<Rightarrow> doc" where
  "call_delta i kvs = [(''tool_calls'', JArr [JObj ((''index'', jint i) # kvs)])]"

fun chunk_docs :: "int \<Rightarrow> wire_block \<Rightarrow> doc list" where
  "chunk_docs i (WText ts) = map (\<lambda>t. chunk_doc [(''content'', JStr t)] JNull) ts"
| "chunk_docs i (WTool tid name ps) =
     chunk_doc (call_delta i [(''id'', JStr tid), (''type'', JStr ''function''),
         (''function'', JObj [(''name'', JStr name), (''arguments'', JStr [])])]) JNull
     # map (\<lambda>p. chunk_doc (call_delta i [(''function'', JObj [(''arguments'', JStr p)])]) JNull) ps"

text \<open>Calls are numbered, texts are not.\<close>

fun chunks_docs :: "int \<Rightarrow> wire_block list \<Rightarrow> doc list" where
  "chunks_docs i [] = []"
| "chunks_docs i (b # bs) = chunk_docs i b @ chunks_docs (case b of WText ts \<Rightarrow> i | WTool t n ps \<Rightarrow> i + 1) bs"

definition completion_docs :: "wire_block list \<Rightarrow> string \<Rightarrow> int \<Rightarrow> int \<Rightarrow> doc list" where
  "completion_docs bs r prompt completion =
     chunks_docs 0 bs @ [chunk_doc [] (JStr r),
       [(''choices'', JArr []), (''usage'', JObj [(''prompt_tokens'', jint prompt), (''completion_tokens'', jint completion)])]]"

definition data_lines :: "doc list \<Rightarrow> string list" where
  "data_lines ds = concat (map (\<lambda>d. [''data: '' @ jprint (JObj d), []]) ds)"

lemma data_lines_simps [simp]:
  "data_lines [] = []" "data_lines (ds @ es) = data_lines ds @ data_lines es"
  "data_lines (d # ds) @ ls = (''data: '' @ jprint (JObj d)) # [] # (data_lines ds @ ls)"
  by (simp_all add: data_lines_def)

definition completion_lines :: "wire_block list \<Rightarrow> string \<Rightarrow> int \<Rightarrow> int \<Rightarrow> string list" where
  "completion_lines bs r prompt completion = data_lines (completion_docs bs r prompt completion) @ [''data: [DONE]'', []]"

lemma oai_run_doc:
  assumes "wf_json (JObj d)" "dec_oai_resp (JObj d) zero_resp = (r, False)"
    "oai_choices (oe_Choices r) (oai_usage_step (oe_Usage r) st) = (evs, st')"
  shows "oai_run (data_lines (d # ds) @ ls) st = evs @ oai_run (data_lines ds @ ls) st'"
proof -
  have "jprint (JObj d) \<noteq> []" "jprint (JObj d) \<noteq> ''[DONE]''" by simp_all
  then have "oai_act (''data: '' @ jprint (JObj d)) st = (evs, Some st')"
    using sse_data_doc [OF assms(1)] json_roundtrip [OF assms(1)] assms(2,3)
    by (simp add: oai_act_def oai_line_def unmarshal_def del: jprint.simps)
  moreover have "oai_act [] st' = ([], Some st')" by (simp add: oai_act_def oai_line_def sse_data_other [simplified])
  ultimately show ?thesis unfolding data_lines_simps by (simp only: oai.run_step oai.run_skip append_Nil)
qed

lemmas oai_decoding = json_simps dec_oai_resp_def dec_choice_def dec_delta_def dec_call_delta_def dec_call_function_def
  dec_oai_usage_def dec_ignored_def dec_list_def dec_ptr_def zero_resp_def zero_choice_def zero_call_delta_def

lemma dec_chunks:
  "dec_oai_resp (JObj (chunk_doc [(''content'', JStr t)] JNull)) zero_resp
     = (\<lparr>oe_Choices = [\<lparr>oc_Content = t, oc_ToolCalls = [], oc_FinishReason = []\<rparr>], oe_Usage = None\<rparr>, False)"
  "dec_oai_resp (JObj (chunk_doc [] (JStr r))) zero_resp
     = (\<lparr>oe_Choices = [\<lparr>oc_Content = [], oc_ToolCalls = [], oc_FinishReason = r\<rparr>], oe_Usage = None\<rparr>, False)"
proof -
  have "int64_range 0" by (simp add: int64_range_def)
  then show "dec_oai_resp (JObj (chunk_doc [(''content'', JStr t)] JNull)) zero_resp
     = (\<lparr>oe_Choices = [\<lparr>oc_Content = t, oc_ToolCalls = [], oc_FinishReason = []\<rparr>], oe_Usage = None\<rparr>, False)"
    "dec_oai_resp (JObj (chunk_doc [] (JStr r))) zero_resp
     = (\<lparr>oe_Choices = [\<lparr>oc_Content = [], oc_ToolCalls = [], oc_FinishReason = r\<rparr>], oe_Usage = None\<rparr>, False)"
    by (simp_all add: oai_decoding chunk_doc_def)
qed

lemma dec_call_chunks:
  assumes "int64_range i"
  shows "dec_oai_resp (JObj (chunk_doc (call_delta i [(''id'', JStr tid), (''type'', JStr ''function''),
         (''function'', JObj [(''name'', JStr name), (''arguments'', JStr [])])]) JNull)) zero_resp
     = (\<lparr>oe_Choices = [\<lparr>oc_Content = [], oc_ToolCalls = [\<lparr>od_Index = i, od_ID = tid, od_Name = name, od_Arguments = []\<rparr>],
          oc_FinishReason = []\<rparr>], oe_Usage = None\<rparr>, False)"
    "dec_oai_resp (JObj (chunk_doc (call_delta i [(''function'', JObj [(''arguments'', JStr p)])]) JNull)) zero_resp
     = (\<lparr>oe_Choices = [\<lparr>oc_Content = [], oc_ToolCalls = [\<lparr>od_Index = i, od_ID = [], od_Name = [], od_Arguments = p\<rparr>],
          oc_FinishReason = []\<rparr>], oe_Usage = None\<rparr>, False)"
proof -
  have "int64_range 0" by (simp add: int64_range_def)
  then show "dec_oai_resp (JObj (chunk_doc (call_delta i [(''id'', JStr tid), (''type'', JStr ''function''),
         (''function'', JObj [(''name'', JStr name), (''arguments'', JStr [])])]) JNull)) zero_resp
     = (\<lparr>oe_Choices = [\<lparr>oc_Content = [], oc_ToolCalls = [\<lparr>od_Index = i, od_ID = tid, od_Name = name, od_Arguments = []\<rparr>],
          oc_FinishReason = []\<rparr>], oe_Usage = None\<rparr>, False)"
    "dec_oai_resp (JObj (chunk_doc (call_delta i [(''function'', JObj [(''arguments'', JStr p)])]) JNull)) zero_resp
     = (\<lparr>oe_Choices = [\<lparr>oc_Content = [], oc_ToolCalls = [\<lparr>od_Index = i, od_ID = [], od_Name = [], od_Arguments = p\<rparr>],
          oc_FinishReason = []\<rparr>], oe_Usage = None\<rparr>, False)"
    using assms by (simp_all add: oai_decoding chunk_doc_def call_delta_def)
qed

lemma wf_chunks [simp]:
  "wf_json (JObj (chunk_doc [(''content'', JStr t)] JNull))" "wf_json (JObj (chunk_doc [] (JStr r)))"
  "wf_json (JObj (chunk_doc (call_delta i [(''id'', JStr tid), (''type'', JStr ''function''),
         (''function'', JObj [(''name'', JStr name), (''arguments'', JStr [])])]) JNull))"
  "wf_json (JObj (chunk_doc (call_delta i [(''function'', JObj [(''arguments'', JStr p)])]) JNull))"
  by (auto simp: chunk_doc_def call_delta_def)

lemma oai_run_texts:
  "oai_run (data_lines (map (\<lambda>t. chunk_doc [(''content'', JStr t)] JNull) xs) @ ls) st
     = concat (map (\<lambda>t. if t \<noteq> [] then [TextDelta t] else []) xs) @ oai_run ls st"
proof (induction xs)
  case (Cons t xs)
  have "oai_choices [\<lparr>oc_Content = t, oc_ToolCalls = [], oc_FinishReason = []\<rparr>] (oai_usage_step None st)
      = (if t \<noteq> [] then [TextDelta t] else [], st)"
    by (simp add: oai_choice_step_def oai_finish_def oai_usage_step_def)
  from oai_run_doc [OF wf_chunks(1) dec_chunks(1), unfolded oaiStreamResp.simps, OF this] Cons
  show ?case by (simp del: data_lines_simps(3))
qed simp

text \<open>The identifier of a part comes from the state; the harness does not look at it.\<close>

lemma oai_part_step:
  "\<exists>j M. oai_call_step \<lparr>od_Index = i, od_ID = [], od_Name = [], od_Arguments = p\<rparr> st
     = (if p \<noteq> [] then [ToolUseDelta j p] else [], st\<lparr>ox_Tools := M\<rparr>)"
  by (cases "p = []") (auto simp: oai_call_step_def Let_def intro!: exI)

lemma collect_oai_parts:
  assumes "int64_range i"
  shows "\<exists>M. collect_model t (ts @ [x]) (oai_run (data_lines (map (\<lambda>p. chunk_doc (call_delta i [(''function'', JObj [(''arguments'', JStr p)])]) JNull) ps) @ ls) st)
    = collect_model t (ts @ [x\<lparr>pt_InputJSON := pt_InputJSON x @ concat ps\<rparr>]) (oai_run ls (st\<lparr>ox_Tools := M\<rparr>))"
proof (induction ps arbitrary: x st)
  case Nil
  show ?case by (intro exI [of _ "ox_Tools st"]) simp
next
  case (Cons p ps)
  let ?tc = "\<lparr>od_Index = i, od_ID = [], od_Name = [], od_Arguments = p\<rparr>"
  obtain j M where "oai_call_step ?tc st = (if p \<noteq> [] then [ToolUseDelta j p] else [], st\<lparr>ox_Tools := M\<rparr>)"
    using oai_part_step by blast
  then have "oai_choices [\<lparr>oc_Content = [], oc_ToolCalls = [?tc], oc_FinishReason = []\<rparr>] (oai_usage_step None st)
      = (if p \<noteq> [] then [ToolUseDelta j p] else [], st\<lparr>ox_Tools := M\<rparr>)"
    by (simp add: oai_choice_step_def oai_finish_def oai_usage_step_def)
  from oai_run_doc [OF wf_chunks(4) dec_call_chunks(2) [OF assms], unfolded oaiStreamResp.simps, OF this]
  show ?case using Cons.IH [of "if p \<noteq> [] then x\<lparr>pt_InputJSON := pt_InputJSON x @ p\<rparr> else x" "st\<lparr>ox_Tools := M\<rparr>"]
    by (simp add: add_delta_def del: data_lines_simps(3) split: if_splits)
qed

definition named :: "wire_block \<Rightarrow> bool" where
  "named b = (case b of WText ts \<Rightarrow> True | WTool tid name ps \<Rightarrow> tid \<noteq> [] \<and> name \<noteq> [])"

lemma oai_first_part:
  assumes "tid \<noteq> []" "name \<noteq> []"
  shows "\<exists>M. oai_call_step \<lparr>od_Index = i, od_ID = tid, od_Name = name, od_Arguments = []\<rparr> st
     = ([ToolUseStart tid name], st\<lparr>ox_Tools := M\<rparr>)"
  using assms by (auto simp: oai_call_step_def Let_def intro!: exI)

lemma collect_chunk:
  assumes "int64_range i" "named b"
  shows "\<exists>M. collect_model t ts (oai_run (data_lines (chunk_docs i b) @ ls) st)
    = collect_model (t @ wire_text [b]) (ts @ wire_tools [b]) (oai_run ls (st\<lparr>ox_Tools := M\<rparr>))"
proof (cases b)
  case (WText xs)
  have "collect_model t ts (oai_run (data_lines (chunk_docs i b) @ ls) st) = collect_model (t @ wire_text [b]) (ts @ wire_tools [b]) (oai_run ls st)"
    by (simp add: WText oai_run_texts collect_text)
  then show ?thesis by (intro exI [of _ "ox_Tools st"]) simp
next
  case (WTool tid name ps)
  let ?tc = "\<lparr>od_Index = i, od_ID = tid, od_Name = name, od_Arguments = []\<rparr>"
  obtain M where "oai_call_step ?tc st = ([ToolUseStart tid name], st\<lparr>ox_Tools := M\<rparr>)"
    using oai_first_part [of tid name i st] assms(2) WTool by (auto simp: named_def)
  then have "oai_choices [\<lparr>oc_Content = [], oc_ToolCalls = [?tc], oc_FinishReason = []\<rparr>] (oai_usage_step None st)
      = ([ToolUseStart tid name], st\<lparr>ox_Tools := M\<rparr>)"
    by (simp add: oai_choice_step_def oai_finish_def oai_usage_step_def)
  from oai_run_doc [OF wf_chunks(3) dec_call_chunks(1) [OF assms(1)], unfolded oaiStreamResp.simps, OF this]
  have "collect_model t ts (oai_run (data_lines (chunk_docs i b) @ ls) st) = collect_model t (ts @ [\<lparr>pt_ID = tid, pt_Name = name, pt_InputJSON = []\<rparr>])
      (oai_run (data_lines (map (\<lambda>p. chunk_doc (call_delta i [(''function'', JObj [(''arguments'', JStr p)])]) JNull) ps) @ ls) (st\<lparr>ox_Tools := M\<rparr>))"
    by (simp add: WTool del: data_lines_simps(3))
  then show ?thesis
    using collect_oai_parts [OF assms(1), of t ts "\<lparr>pt_ID = tid, pt_Name = name, pt_InputJSON = []\<rparr>" ps ls "st\<lparr>ox_Tools := M\<rparr>"]
    by (auto simp: WTool)
qed

lemma collect_chunks:
  assumes "0 \<le> i" "i + int (length bs) < 2 ^ 63" "list_all named bs"
  shows "\<exists>M. collect_model t ts (oai_run (data_lines (chunks_docs i bs) @ ls) st)
    = collect_model (t @ wire_text bs) (ts @ wire_tools bs) (oai_run ls (st\<lparr>ox_Tools := M\<rparr>))"
  using assms
proof (induction bs arbitrary: i t ts st)
  case Nil
  show ?case by (intro exI [of _ "ox_Tools st"]) simp
next
  case (Cons b bs)
  let ?i = "case b of WText ts \<Rightarrow> i | WTool t n ps \<Rightarrow> i + 1"
  have "int64_range i" "named b" using Cons.prems by (simp_all add: int64_range_def)
  from collect_chunk [OF this, of t ts "data_lines (chunks_docs ?i bs) @ ls" st] obtain M where
    one: "collect_model t ts (oai_run (data_lines (chunks_docs i (b # bs)) @ ls) st) = collect_model (t @ wire_text [b]) (ts @ wire_tools [b])
      (oai_run (data_lines (chunks_docs ?i bs) @ ls) (st\<lparr>ox_Tools := M\<rparr>))" by auto
  have "0 \<le> ?i" "?i + int (length bs) < 2 ^ 63" "list_all named bs" using Cons.prems by (auto split: wire_block.splits)
  from Cons.IH [OF this, of "t @ wire_text [b]" "ts @ wire_tools [b]" "st\<lparr>ox_Tools := M\<rparr>"] obtain M' where
    "collect_model (t @ wire_text [b]) (ts @ wire_tools [b]) (oai_run (data_lines (chunks_docs ?i bs) @ ls) (st\<lparr>ox_Tools := M\<rparr>))
    = collect_model ((t @ wire_text [b]) @ wire_text bs) ((ts @ wire_tools [b]) @ wire_tools bs) (oai_run ls (st\<lparr>ox_Tools := M, ox_Tools := M'\<rparr>))"
    by auto
  moreover have "wire_text (b # bs) = wire_text [b] @ wire_text bs" "wire_tools (b # bs) = wire_tools [b] @ wire_tools bs" by (cases b; simp)+
  ultimately show ?case using one by (intro exI [of _ M']) simp
qed

lemma oai_run_final:
  assumes "int64_range m" "int64_range n" "r \<noteq> []"
  shows "oai_run (data_lines [chunk_doc [] (JStr r),
       [(''choices'', JArr []), (''usage'', JObj [(''prompt_tokens'', jint m), (''completion_tokens'', jint n)])]] @ [''data: [DONE]'', []]) st
     = [StopReason (mapOAIFinish r) ((ox_Usage st)\<lparr>u_InputTokens := m, u_OutputTokens := n\<rparr>)]"
proof -
  let ?d = "[(''choices'', JArr []), (''usage'', JObj [(''prompt_tokens'', jint m), (''completion_tokens'', jint n)])]"
  let ?st = "st\<lparr>ox_Stop := mapOAIFinish r, ox_StopSet := True\<rparr>"
  let ?u = "?st\<lparr>ox_Usage := (ox_Usage st)\<lparr>u_InputTokens := m, u_OutputTokens := n\<rparr>\<rparr>"
  have "oai_choices [\<lparr>oc_Content = [], oc_ToolCalls = [], oc_FinishReason = r\<rparr>] (oai_usage_step None st) = ([], ?st)"
    using assms(3) by (simp add: oai_choice_step_def oai_finish_def oai_usage_step_def)
  note one = oai_run_doc [OF wf_chunks(2) dec_chunks(2), unfolded oaiStreamResp.simps, OF this]
  have dec: "dec_oai_resp (JObj ?d) zero_resp = (\<lparr>oe_Choices = [], oe_Usage = Some (m, n)\<rparr>, False)"
    using assms(1,2) by (simp add: oai_decoding)
  have wf: "wf_json (JObj ?d)" by auto
  have "oai_choices [] (oai_usage_step (Some (m, n)) ?st) = ([], ?u)" by (simp add: oai_usage_step_def)
  note two = oai_run_doc [OF wf dec, unfolded oaiStreamResp.simps, OF this]
  have "oai_line ''data: [DONE]'' = None" by code_simp
  then have "oai_run [''data: [DONE]'', []] ?u = [oai_end ?u]"
    by (simp add: oai.run_Cons oai.run_Nil oai_act_def oai_line_def sse_data_other [simplified])
  then show ?thesis using one [of "[?d]" "[''data: [DONE]'', []]"] two [of "[]" "[''data: [DONE]'', []]"]
    by (simp add: oai_end_def del: data_lines_simps(3))
qed

lemma chunk_docs_ok: "d \<in> set (chunk_docs i b) \<Longrightarrow> wf_json (JObj d)"
  by (cases b) (auto simp del: wf_json.simps)

lemma completion_docs_ok: "d \<in> set (completion_docs bs r m n) \<Longrightarrow> wf_json (JObj d)"
proof -
  have "wf_json (JObj d)" if "d \<in> set (chunks_docs i bs)" for i
    using that by (induction i bs rule: chunks_docs.induct) (auto dest: chunk_docs_ok simp del: wf_json.simps)
  moreover have "wf_json (JObj [(''choices'', JArr []), (''usage'', JObj [(''prompt_tokens'', jint m), (''completion_tokens'', jint n)])])"
    by auto
  ultimately show "d \<in> set (completion_docs bs r m n) \<Longrightarrow> wf_json (JObj d)"
    by (auto simp: completion_docs_def simp del: wf_json.simps)
qed

lemma completion_lines_printable: "l \<in> set (completion_lines bs r m n) \<Longrightarrow> printable l"
  using jprint_printable [OF completion_docs_ok] by (auto simp: completion_lines_def data_lines_def simp del: jprint.simps)

text \<open>C22: An answer that a gateway writes by the documented protocol of chat completions, its text and
the arguments of its calls cut into any parts, is accumulated by the harness to exactly that text,
those calls with their identifiers, names and whole arguments, the usage and the reason to stop.\<close>

theorem completions_arrive:
  assumes "\<forall>l\<in>set (completion_lines bs r m n). length l < mebibytes 4"
    and "int (length bs) < 2 ^ 63" "list_all named bs" "int64_range m" "int64_range n" "r \<noteq> []" "\<And>k. \<not> done k"
  shows "collect_model [] [] (parseOAIStream done (lines_text (completion_lines bs r m n)))
    = Inr \<lparr>mr_text = wire_text bs, mr_tools = wire_tools bs,
           mr_usage = zero_usage\<lparr>u_InputTokens := m, u_OutputTokens := n\<rparr>, mr_stopReason = mapOAIFinish r\<rparr>"
proof -
  have "ScanLines (mebibytes 4) (lines_text (completion_lines bs r m n)) = (completion_lines bs r m n, False)"
    by (rule ScanLines_text) (use assms(1) completion_lines_printable in blast)
  then have p: "parseOAIStream done (lines_text (completion_lines bs r m n)) = oai_run (completion_lines bs r m n) oai_start"
    unfolding parseOAIStream_def oai_lines_run [OF assms(7)] by simp
  let ?last = "data_lines [chunk_doc [] (JStr r),
       [(''choices'', JArr []), (''usage'', JObj [(''prompt_tokens'', jint m), (''completion_tokens'', jint n)])]] @ [''data: [DONE]'', []]"
  have e: "completion_lines bs r m n = data_lines (chunks_docs 0 bs) @ ?last"
    unfolding completion_lines_def completion_docs_def data_lines_simps(2) append_assoc ..
  have "(0 :: int) \<le> 0" "0 + int (length bs) < 2 ^ 63" using assms(2) by simp_all
  from collect_chunks [OF this assms(3), of "[]" "[]" ?last oai_start] obtain M where
    "collect_model [] [] (oai_run (data_lines (chunks_docs 0 bs) @ ?last) oai_start)
       = collect_model ([] @ wire_text bs) ([] @ wire_tools bs) (oai_run ?last (oai_start\<lparr>ox_Tools := M\<rparr>))" by blast
  moreover have "oai_run (completion_lines bs r m n) oai_start = oai_run (data_lines (chunks_docs 0 bs) @ ?last) oai_start"
    by (rule arg_cong [OF e, of "\<lambda>ls. oai_run ls oai_start"])
  ultimately show ?thesis unfolding p by (simp only: oai_run_final [OF assms(4-6)]) (simp add: oai_start_def)
qed

section \<open>Requests\<close>

text \<open>Caching changes nothing of a request but the marks: the same model, limit and messages, the
same system text, the same tools, of which exactly the last one carries a mark.\<close>

theorem caching_only_marks:
  "let c = buildAnthropicRequest req temp True; p = buildAnthropicRequest req temp False in
     aq_Messages c = aq_Messages p \<and> aq_Model c = aq_Model p \<and> aq_MaxTokens c = aq_MaxTokens p
   \<and> map (xt_CacheControl_update (\<lambda>_. None)) (aq_Tools c) = aq_Tools p
   \<and> map (\<lambda>t. xt_CacheControl t \<noteq> None) (aq_Tools c) = map (\<lambda>k. k = length (cr_Tools req) - 1) [0..<length (cr_Tools req)]
   \<and> aq_System c = map_option (\<lambda>s. JArr [JObj [(''cache_control'', ephemeral), (''text'', s), (''type'', JStr ''text'')]]) (aq_System p)"
proof -
  have plain: "xt_CacheControl (ant_tool t) = None" "ant_tool t\<lparr>xt_CacheControl := None\<rparr> = ant_tool t" for t
    by (simp_all add: ant_tool_def)
  have "map (xt_CacheControl_update (\<lambda>_. None)) (mark_last (map ant_tool ts)) = map ant_tool ts" for ts
    by (cases ts rule: rev_cases) (simp_all add: mark_last_def plain)
  moreover have "map (\<lambda>t. xt_CacheControl t \<noteq> None) (mark_last (map ant_tool ts)) = map (\<lambda>k. k = length ts - 1) [0..<length ts]" for ts
  proof (cases ts rule: rev_cases)
    case (snoc us u)
    have "map (\<lambda>t. xt_CacheControl t \<noteq> None) (map ant_tool us) = map (\<lambda>k. k = length us) [0..<length us]"
      by (rule nth_equalityI) (simp_all add: plain)
    then show ?thesis by (simp add: snoc mark_last_def)
  qed (simp add: mark_last_def)
  ultimately show ?thesis by (simp add: Let_def buildAnthropicRequest_def)
qed

text \<open>The conversion to chat completions, block by block.\<close>

definition texts_of :: "content_block list \<Rightarrow> string" where
  "texts_of bs = concat (map cb_Text (filter (\<lambda>b. cb_Type b = ''text'') bs))"

definition calls_of :: "content_block list \<Rightarrow> oaiToolCall list" where
  "calls_of bs = map (\<lambda>b. \<lparr>oi_ID = cb_ToolUseID b, oi_Name = cb_ToolName b, oi_Arguments = arguments_of b\<rparr>)
     (filter (\<lambda>b. cb_Type b = ''tool_use'') bs)"

definition results_of :: "content_block list \<Rightarrow> oaiMessage list" where
  "results_of bs = map (\<lambda>b. (plain_message ''tool'')\<lparr>om_ToolCallID := cb_ToolUseID b, om_Content := Some (cb_ToolResult b)\<rparr>)
     (filter (\<lambda>b. cb_Type b = ''tool_result'') bs)"

definition said :: "oaiMessage option \<Rightarrow> string" where
  "said a = (case a of None \<Rightarrow> [] | Some m \<Rightarrow> (case om_Content m of None \<Rightarrow> [] | Some t \<Rightarrow> t))"

definition called :: "oaiMessage option \<Rightarrow> oaiToolCall list" where
  "called a = (case a of None \<Rightarrow> [] | Some m \<Rightarrow> om_ToolCalls m)"

lemma convert_fold:
  "let s' = fold (convert_block role) bs s in
     cv_ToolResults s' = cv_ToolResults s @ results_of bs
   \<and> called (cv_Assistant s') = called (cv_Assistant s) @ calls_of bs
   \<and> said (cv_Assistant s') = said (cv_Assistant s) @ (if role = ''assistant'' then texts_of bs else [])
   \<and> cv_UserText s' = cv_UserText s @ (if role = ''assistant'' then [] else texts_of bs)"
proof (induction bs arbitrary: s)
  case (Cons b bs)
  let ?s = "convert_block role b s"
  have "cv_ToolResults ?s = cv_ToolResults s @ results_of [b] \<and> called (cv_Assistant ?s) = called (cv_Assistant s) @ calls_of [b]
      \<and> said (cv_Assistant ?s) = said (cv_Assistant s) @ (if role = ''assistant'' then texts_of [b] else [])
      \<and> cv_UserText ?s = cv_UserText s @ (if role = ''assistant'' then [] else texts_of [b])"
    by (auto simp: convert_block_def the_assistant_def append_text_def plain_message_def results_of_def calls_of_def texts_of_def
        said_def called_def split: option.splits)
  moreover have "results_of (b # bs) = results_of [b] @ results_of bs" "calls_of (b # bs) = calls_of [b] @ calls_of bs"
      "texts_of (b # bs) = texts_of [b] @ texts_of bs" by (simp_all add: results_of_def calls_of_def texts_of_def)
  ultimately show ?case using Cons [of ?s] by (simp add: Let_def)
qed (simp add: results_of_def calls_of_def texts_of_def)

text \<open>Converting a message for chat completions loses nothing and invents nothing: at most two
messages carry all its text and all its tool calls, in order, and each result follows as a message of
its own. (Whether a result is an error is not carried over.)\<close>

theorem conversion_keeps_everything:
  "\<exists>front. convertMessageToOAI m = front @ results_of (m_Content m) \<and> length front \<le> 2
     \<and> concat (map om_ToolCalls front) = calls_of (m_Content m)
     \<and> concat (map (\<lambda>a. said (Some a)) front) = texts_of (m_Content m)"
proof -
  let ?role = "role_str (m_Role m)"
  define s where "s = fold (convert_block ?role) (m_Content m) \<lparr>cv_Assistant = None, cv_ToolResults = [], cv_UserText = []\<rparr>"
  let ?user = "if cv_UserText s \<noteq> [] then [(plain_message ?role)\<lparr>om_Content := Some (cv_UserText s)\<rparr>] else []"
  let ?front = "(case cv_Assistant s of None \<Rightarrow> [] | Some a \<Rightarrow> [a]) @ ?user"
  have f: "cv_ToolResults s = results_of (m_Content m)" "called (cv_Assistant s) = calls_of (m_Content m)"
    "said (cv_Assistant s) @ cv_UserText s = texts_of (m_Content m)"
    using convert_fold [of ?role "m_Content m" "\<lparr>cv_Assistant = None, cv_ToolResults = [], cv_UserText = []\<rparr>"]
    by (auto simp: s_def [symmetric] Let_def called_def said_def)
  have "concat (map om_ToolCalls ?front) = called (cv_Assistant s)"
    by (simp add: called_def plain_message_def split: option.splits)
  moreover have "concat (map (\<lambda>a. said (Some a)) ?front) = said (cv_Assistant s) @ cv_UserText s"
    by (simp add: said_def plain_message_def split: option.splits)
  moreover have "convertMessageToOAI m = ?front @ results_of (m_Content m)"
    by (simp add: convertMessageToOAI_def Let_def s_def [symmetric] f(1))
  moreover have "length ?front \<le> 2" by (simp split: option.splits)
  ultimately show ?thesis using f by metis
qed

text \<open>Text of the user that is in one message with results is moved before them, so the results do
not follow the calls they answer.\<close>

theorem text_moves_before_results:
  assumes "m_Role m = RoleUser" "calls_of (m_Content m) = []" "texts_of (m_Content m) \<noteq> []"
  shows "\<exists>a. om_Role a = ''user'' \<and> convertMessageToOAI m = a # results_of (m_Content m)"
proof -
  define s where "s = fold (convert_block ''user'') (m_Content m) \<lparr>cv_Assistant = None, cv_ToolResults = [], cv_UserText = []\<rparr>"
  have none: "cv_Assistant (fold (convert_block ''user'') bs z) = None" if "cv_Assistant z = None" "calls_of bs = []" for bs z
    using that by (induction bs arbitrary: z) (auto simp: convert_block_def calls_of_def split: if_splits)
  have "cv_Assistant s = None" using none assms(2) by (simp add: s_def)
  moreover have "cv_ToolResults s = results_of (m_Content m)" "cv_UserText s = texts_of (m_Content m)"
    using convert_fold [of "''user''" "m_Content m" "\<lparr>cv_Assistant = None, cv_ToolResults = [], cv_UserText = []\<rparr>"]
    by (auto simp: s_def [symmetric] Let_def)
  ultimately have "convertMessageToOAI m = (plain_message ''user'')\<lparr>om_Content := Some (texts_of (m_Content m))\<rparr> # results_of (m_Content m)"
    using assms(1,3) by (simp add: convertMessageToOAI_def Let_def s_def [symmetric])
  then show ?thesis by (metis (no_types, lifting) oaiMessage.select_convs(1) oaiMessage.update_convs(2) plain_message_def)
qed

section \<open>Examples\<close>

definition demo_answer :: "wire_block list" where
  "demo_answer = [WText [''Look'', ''ing''], WTool ''c1'' ''bash'' [''{\"cmd\":'', '' 1}'']]"

lemma every_stream_is_an_answer_witness:
  "\<exists>r. collect_model [] [] (parseOAIStream (\<lambda>_. False) ''data: {\"choices'') = Inr r"
  using every_stream_is_an_answer [of "\<lambda>_. False"] by blast

lemma short_lines: "list_all (\<lambda>l. length l < 400) ls \<Longrightarrow> \<forall>l\<in>set ls. length l < mebibytes 4"
  by (fastforce simp: list_all_iff mebibytes_def)

lemma anthropic_answers_arrive_witness:
  "collect_model [] [] (parseAnthropicStream (\<lambda>_. False) (lines_text (doc_lines (message_docs ''m'' zero_usage demo_answer ''tool_use'' 7))))
    = Inr \<lparr>mr_text = ''Looking'', mr_tools = [\<lparr>pt_ID = ''c1'', pt_Name = ''bash'', pt_InputJSON = ''{\"cmd\": 1}''\<rparr>],
           mr_usage = zero_usage\<lparr>u_OutputTokens := 7\<rparr>, mr_stopReason = ''tool_use''\<rparr>"
proof -
  have "list_all (\<lambda>l. length l < 400) (doc_lines (message_docs ''m'' zero_usage demo_answer ''tool_use'' 7))" by code_simp
  then have small: "\<forall>l\<in>set (doc_lines (message_docs ''m'' zero_usage demo_answer ''tool_use'' 7)). length l < mebibytes 4"
    by (rule short_lines)
  have "int (length demo_answer) < 2 ^ 63" "usage_ok zero_usage" "int64_range 7" "''tool_use'' \<noteq> []"
    by (simp_all add: demo_answer_def usage_ok_def zero_usage_def int64_range_def)
  from anthropic_answers_arrive [OF small this, of "\<lambda>_. False"]
  show ?thesis by (simp add: demo_answer_def mapAnthropicStop_def del: doc_lines_simps)
qed

lemma completions_arrive_witness:
  "collect_model [] [] (parseOAIStream (\<lambda>_. False) (lines_text (completion_lines demo_answer ''tool_calls'' 3 7)))
    = Inr \<lparr>mr_text = ''Looking'', mr_tools = [\<lparr>pt_ID = ''c1'', pt_Name = ''bash'', pt_InputJSON = ''{\"cmd\": 1}''\<rparr>],
           mr_usage = zero_usage\<lparr>u_InputTokens := 3, u_OutputTokens := 7\<rparr>, mr_stopReason = ''tool_use''\<rparr>"
proof -
  have "list_all (\<lambda>l. length l < 400) (completion_lines demo_answer ''tool_calls'' 3 7)" by code_simp
  then have small: "\<forall>l\<in>set (completion_lines demo_answer ''tool_calls'' 3 7). length l < mebibytes 4" by (rule short_lines)
  have "int (length demo_answer) < 2 ^ 63" "list_all named demo_answer" "int64_range 3" "int64_range 7" "''tool_calls'' \<noteq> []"
    by (simp_all add: demo_answer_def named_def int64_range_def)
  from completions_arrive [OF small this, of "\<lambda>_. False"]
  show ?thesis by (simp add: demo_answer_def mapOAIFinish_def)
qed

end
