(* ===== verification/StoreCatalog.thy ===== *)
theory StoreCatalog
  imports EventLog
begin

text \<open>
  The repositories of \<open>internal/store\<close> that hold configuration: agents with
  their versions, environments, session resources, files and skills.
\<close>

section \<open>Agents\<close>

text \<open>\<open>AgentRow\<close>: an agent joined with one of its versions.\<close>

record AgentRow =
  ar_ID :: string
  ar_TenantID :: string
  ar_Name :: string
  ar_Version :: int
  ar_Model :: raw
  ar_System :: "string option"
  ar_Description :: "string option"
  ar_Tools :: raw
  ar_MCPServers :: raw
  ar_Skills :: raw
  ar_Multiagent :: "json option"
  ar_Metadata :: raw
  ar_CreatedAt :: int
  ar_UpdatedAt :: int
  ar_ArchivedAt :: "int option"
  ar_CurrentVersion :: int

record AgentInput =
  ai_TenantID :: string
  ai_Name :: string
  ai_Model :: raw
  ai_System :: string
  ai_Description :: string
  ai_Tools :: raw
  ai_MCPServers :: raw
  ai_Skills :: raw
  ai_Multiagent :: raw
  ai_Metadata :: raw

text \<open>\<open>nullRaw\<close>: an absent document and \<open>null\<close> are stored as \<open>NULL\<close>.\<close>

definition nullRaw :: "raw \<Rightarrow> json option" where
  "nullRaw r = (if r = Some JNull then None else r)"

definition agent_by :: "string \<Rightarrow> world \<Rightarrow> AgentTableRow option" where
  "agent_by aid w = select_one (\<lambda>r. at_ID r = aid) (agents w)"

definition version_by :: "string \<Rightarrow> int \<Rightarrow> world \<Rightarrow> AgentVersionRow option" where
  "version_by aid v w = select_one (\<lambda>r. av_AgentID r = aid \<and> av_Version r = v) (agent_versions w)"

definition join_agent :: "AgentTableRow \<Rightarrow> AgentVersionRow \<Rightarrow> AgentRow" where
  "join_agent a v = \<lparr>ar_ID = at_ID a, ar_TenantID = at_TenantID a, ar_Name = at_Name a,
     ar_Version = at_CurrentVersion a, ar_Model = av_Model v, ar_System = av_System v,
     ar_Description = av_Description v, ar_Tools = av_Tools v, ar_MCPServers = av_MCPServers v,
     ar_Skills = av_Skills v, ar_Multiagent = av_Multiagent v, ar_Metadata = av_Metadata v,
     ar_CreatedAt = at_CreatedAt a, ar_UpdatedAt = at_UpdatedAt a, ar_ArchivedAt = at_ArchivedAt a,
     ar_CurrentVersion = at_CurrentVersion a\<rparr>"

definition agent_view :: "string \<Rightarrow> world \<Rightarrow> AgentRow option" where
  "agent_view aid w =
     (case agent_by aid w of
        None \<Rightarrow> None
      | Some a \<Rightarrow> map_option (join_agent a) (version_by aid (at_CurrentVersion a) w))"

definition GetAgent :: "env \<Rightarrow> ctx \<Rightarrow> string \<Rightarrow> (world, AgentRow) io" where
  "GetAgent e c aid = bindE (queryE e c (agent_view aid)) (optE ErrNotFound)"

definition version_row :: "string \<Rightarrow> int \<Rightarrow> int \<Rightarrow> AgentInput \<Rightarrow> AgentVersionRow" where
  "version_row aid v t inp = \<lparr>av_AgentID = aid, av_Version = v, av_Name = ai_Name inp, av_Model = ai_Model inp,
     av_System = nullStr (ai_System inp), av_Description = nullStr (ai_Description inp),
     av_Tools = or_raw (ai_Tools inp) (JArr []), av_MCPServers = or_raw (ai_MCPServers inp) (JArr []),
     av_Skills = or_raw (ai_Skills inp) (JArr []), av_Multiagent = nullRaw (ai_Multiagent inp),
     av_Metadata = or_raw (ai_Metadata inp) (JObj []), av_CreatedAt = t\<rparr>"

text \<open>The constraints of \<open>agent_version\<close>: the agent exists, the key is new, the model is a document.\<close>

definition version_insert_ok :: "AgentVersionRow \<Rightarrow> world \<Rightarrow> bool" where
  "version_insert_ok r w \<longleftrightarrow> agent_by (av_AgentID r) w \<noteq> None
     \<and> version_by (av_AgentID r) (av_Version r) w = None \<and> av_Model r \<noteq> None"

definition CreateAgent :: "env \<Rightarrow> ctx \<Rightarrow> AgentInput \<Rightarrow> (world, AgentRow) io" where
  "CreateAgent e c inp =
     bindE (NewID e ''agt'') (\<lambda>aid. bindE (now e) (\<lambda>t.
       let a = \<lparr>at_ID = aid, at_TenantID = or_default_tenant (ai_TenantID inp), at_Name = ai_Name inp,
             at_ArchivedAt = None, at_CreatedAt = t, at_UpdatedAt = t, at_CurrentVersion = 1\<rparr>;
           v = version_row aid 1 t inp
       in bindE (in_tx (bindE (stmt e c) (\<lambda>_.
            bindE (wrapE ''insert agent'' (insertE e c (\<lambda>w. agent_by aid w = None)
                     (\<lambda>w. w\<lparr>agents := agents w @ [a]\<rparr>))) (\<lambda>_.
            bindE (wrapE ''insert agent_version'' (insertE e c (version_insert_ok v)
                     (\<lambda>w. w\<lparr>agent_versions := agent_versions w @ [v]\<rparr>))) (\<lambda>_. stmt e c)))))
          (\<lambda>_. GetAgent e c aid)))"

definition live_agent :: "string \<Rightarrow> AgentTableRow \<Rightarrow> bool" where
  "live_agent aid r \<longleftrightarrow> at_ID r = aid \<and> at_ArchivedAt r = None"

text \<open>The transaction of \<open>UpdateAgent\<close>: the new version is inserted only on top of the current one.\<close>

definition commit_version ::
  "env \<Rightarrow> ctx \<Rightarrow> string \<Rightarrow> AgentInput \<Rightarrow> int \<Rightarrow> int \<Rightarrow> (world, AgentVersionRow) io" where
  "commit_version e c aid inp version t =
     in_tx (bindE (stmt e c) (\<lambda>_.
       bindE (bindE (queryE e c (\<lambda>w. map_option at_CurrentVersion (select_one (live_agent aid) (agents w))))
                (optE ErrNotFound)) (\<lambda>current.
       if version \<noteq> current
       then throwE (ErrMsg (''version conflict: current version is '' @ int_str current))
       else (let v = version_row aid (current + 1) t inp in
         bindE (wrapE ''insert agent_version'' (insertE e c (version_insert_ok v)
                  (\<lambda>w. w\<lparr>agent_versions := agent_versions w @ [v]\<rparr>))) (\<lambda>_.
         bindE (updateE e c (\<lambda>w. affected (\<lambda>r. at_ID r = aid) (agents w))
                  (\<lambda>w. w\<lparr>agents := update_where (\<lambda>r. at_ID r = aid)
                     (\<lambda>r. r\<lparr>at_Name := ai_Name inp, at_CurrentVersion := current + 1, at_UpdatedAt := t\<rparr>)
                     (agents w)\<rparr>)) (\<lambda>_.
         bindE (stmt e c) (\<lambda>_. returnE v)))))))"

definition UpdateAgent :: "env \<Rightarrow> ctx \<Rightarrow> string \<Rightarrow> AgentInput \<Rightarrow> int \<Rightarrow> (world, AgentRow) io" where
  "UpdateAgent e c aid inp version =
     bindE (now e) (\<lambda>t. bindE (commit_version e c aid inp version t) (\<lambda>_. GetAgent e c aid))"

definition ListAgents :: "env \<Rightarrow> ctx \<Rightarrow> string \<Rightarrow> int \<Rightarrow> (world, AgentRow list) io" where
  "ListAgents e c tenant limit =
     bindE (queryE e c (\<lambda>w. map at_ID (take (clamp_limit 50 limit)
        (sort_key (\<lambda>r. - at_CreatedAt r)
          (select (\<lambda>r. at_TenantID r = tenant \<and> at_ArchivedAt r = None) (agents w))))))
       (mapE (GetAgent e c))"

definition version_view :: "AgentTableRow \<Rightarrow> AgentVersionRow \<Rightarrow> AgentRow" where
  "version_view a v = (join_agent a v)\<lparr>ar_Name := av_Name v, ar_Version := av_Version v,
     ar_CurrentVersion := av_Version v, ar_CreatedAt := av_CreatedAt v\<rparr>"

definition ListAgentVersions :: "env \<Rightarrow> ctx \<Rightarrow> string \<Rightarrow> (world, AgentRow list) io" where
  "ListAgentVersions e c aid =
     bindE (bindE (queryE e c (agent_by aid)) (optE ErrNotFound)) (\<lambda>a.
       queryE e c (\<lambda>w. map (version_view a)
         (sort_key (\<lambda>r. - av_Version r) (select (\<lambda>r. av_AgentID r = aid) (agent_versions w)))))"

definition ArchiveAgent :: "env \<Rightarrow> ctx \<Rightarrow> string \<Rightarrow> (world, unit) io" where
  "ArchiveAgent e c aid =
     bindE (now e) (\<lambda>t. bindE (updateE e c (\<lambda>w. affected (live_agent aid) (agents w))
       (\<lambda>w. w\<lparr>agents := update_where (live_agent aid)
          (\<lambda>r. r\<lparr>at_ArchivedAt := Some t, at_UpdatedAt := t\<rparr>) (agents w)\<rparr>))
       (\<lambda>n. if n = 0 then throwE ErrNotFound else returnE ()))"

definition DeleteAgent :: "env \<Rightarrow> ctx \<Rightarrow> string \<Rightarrow> (world, unit) io" where
  "DeleteAgent e c aid =
     bindE (updateE e c (\<lambda>w. affected (\<lambda>r. at_ID r = aid) (agents w))
       (\<lambda>w. w\<lparr>agents := delete_where (\<lambda>r. at_ID r = aid) (agents w),
               agent_versions := delete_where (\<lambda>r. av_AgentID r = aid \<and> agent_by aid w \<noteq> None) (agent_versions w)\<rparr>))
       (\<lambda>n. if n = 0 then throwE ErrNotFound else returnE ())"

section \<open>Environments\<close>

definition environment_by :: "string \<Rightarrow> world \<Rightarrow> EnvironmentRow option" where
  "environment_by eid w = select_one (\<lambda>r. en_ID r = eid) (environments w)"

definition GetEnvironment :: "env \<Rightarrow> ctx \<Rightarrow> string \<Rightarrow> (world, EnvironmentRow) io" where
  "GetEnvironment e c eid = bindE (queryE e c (environment_by eid)) (optE ErrNotFound)"

definition environment_row :: "string \<Rightarrow> string \<Rightarrow> string \<Rightarrow> raw \<Rightarrow> int \<Rightarrow> EnvironmentRow" where
  "environment_row eid tenant name config t = \<lparr>en_ID = eid, en_TenantID = or_default_tenant tenant, en_Name = name,
     en_Config = config, en_ArchivedAt = None, en_CreatedAt = t, en_UpdatedAt = t\<rparr>"

definition CreateEnvironment :: "env \<Rightarrow> ctx \<Rightarrow> string \<Rightarrow> string \<Rightarrow> raw \<Rightarrow> (world, EnvironmentRow) io" where
  "CreateEnvironment e c tenant name config =
     bindE (NewID e ''env'') (\<lambda>eid. bindE (now e) (\<lambda>t.
       let r = environment_row eid tenant name (or_raw config (JObj [])) t
       in bindE (wrapE ''insert environment'' (insertE e c (\<lambda>w. environment_by eid w = None)
            (\<lambda>w. w\<lparr>environments := environments w @ [r]\<rparr>))) (\<lambda>_. GetEnvironment e c eid)))"

definition EnsureDefaultEnvironment :: "env \<Rightarrow> ctx \<Rightarrow> string \<Rightarrow> (world, unit) io" where
  "EnsureDefaultEnvironment e c tenant =
     bindE (now e) (\<lambda>t. insertE e c (\<lambda>w. True)
       (\<lambda>w. if environment_by ''default'' w = None
            then w\<lparr>environments := environments w @ [environment_row ''default'' tenant ''default''
                   (Some (JObj [(''type'', JStr ''cloud'')])) t]\<rparr> else w))"

definition ListEnvironments :: "env \<Rightarrow> ctx \<Rightarrow> string \<Rightarrow> int \<Rightarrow> (world, EnvironmentRow list) io" where
  "ListEnvironments e c tenant limit = queryE e c (\<lambda>w. take (clamp_limit 50 limit)
     (sort_key (\<lambda>r. - en_CreatedAt r)
       (select (\<lambda>r. en_TenantID r = tenant \<and> en_ArchivedAt r = None) (environments w))))"

definition DeleteEnvironment :: "env \<Rightarrow> ctx \<Rightarrow> string \<Rightarrow> (world, unit) io" where
  "DeleteEnvironment e c eid =
     (if eid = ''default'' then throwE (ErrMsg ''cannot delete the default environment'')
      else bindE (updateE e c (\<lambda>w. affected (\<lambda>r. en_ID r = eid) (environments w))
        (\<lambda>w. w\<lparr>environments := delete_where (\<lambda>r. en_ID r = eid) (environments w)\<rparr>))
        (\<lambda>n. if n = 0 then throwE ErrNotFound else returnE ()))"

definition live_environment :: "string \<Rightarrow> EnvironmentRow \<Rightarrow> bool" where
  "live_environment eid r \<longleftrightarrow> en_ID r = eid \<and> en_ArchivedAt r = None"

definition UpdateEnvironment :: "env \<Rightarrow> ctx \<Rightarrow> string \<Rightarrow> string \<Rightarrow> raw \<Rightarrow> (world, EnvironmentRow) io" where
  "UpdateEnvironment e c eid name config =
     bindE (now e) (\<lambda>t. bindE (updateE e c (\<lambda>w. affected (live_environment eid) (environments w))
       (\<lambda>w. w\<lparr>environments := update_where (live_environment eid)
          (\<lambda>r. r\<lparr>en_Name := name, en_Config := or_raw config (JObj []), en_UpdatedAt := t\<rparr>) (environments w)\<rparr>))
       (\<lambda>n. if n = 0 then throwE ErrNotFound else GetEnvironment e c eid))"

definition ArchiveEnvironment :: "env \<Rightarrow> ctx \<Rightarrow> string \<Rightarrow> (world, EnvironmentRow) io" where
  "ArchiveEnvironment e c eid =
     (if eid = ''default'' then throwE (ErrMsg ''cannot archive the default environment'')
      else bindE (now e) (\<lambda>t. bindE (updateE e c (\<lambda>w. affected (live_environment eid) (environments w))
       (\<lambda>w. w\<lparr>environments := update_where (live_environment eid)
          (\<lambda>r. r\<lparr>en_ArchivedAt := Some t, en_UpdatedAt := t\<rparr>) (environments w)\<rparr>))
       (\<lambda>n. if n = 0 then throwE ErrNotFound else GetEnvironment e c eid)))"

section \<open>Session resources\<close>

definition resource_by :: "string \<Rightarrow> world \<Rightarrow> SessionResourceRow option" where
  "resource_by rid w = select_one (\<lambda>r. sr_ID r = rid) (resources w)"

definition resource_type_allowed :: "string \<Rightarrow> bool" where
  "resource_type_allowed ty \<longleftrightarrow> ty \<in> {''memory_store'', ''file'', ''github_repository''}"

definition AddSessionResource ::
  "env \<Rightarrow> ctx \<Rightarrow> string \<Rightarrow> string \<Rightarrow> raw \<Rightarrow> (world, SessionResourceRow) io" where
  "AddSessionResource e c sid ty payload =
     bindE (NewID e ''sres'') (\<lambda>rid. bindE (now e) (\<lambda>t.
       let r = \<lparr>sr_ID = rid, sr_SessionID = sid, sr_Type = ty, sr_Payload = payload, sr_CreatedAt = t\<rparr>
       in bindE (insertE e c (\<lambda>w. resource_by rid w = None \<and> session_by sid w \<noteq> None
                   \<and> resource_type_allowed ty \<and> payload \<noteq> None)
                 (\<lambda>w. w\<lparr>resources := resources w @ [r]\<rparr>)) (\<lambda>_. returnE r)))"

definition ListSessionResources :: "env \<Rightarrow> ctx \<Rightarrow> string \<Rightarrow> (world, SessionResourceRow list) io" where
  "ListSessionResources e c sid =
     queryE e c (\<lambda>w. sort_key sr_CreatedAt (select (\<lambda>r. sr_SessionID r = sid) (resources w)))"

definition DeleteSessionResource :: "env \<Rightarrow> ctx \<Rightarrow> string \<Rightarrow> (world, unit) io" where
  "DeleteSessionResource e c rid =
     bindE (updateE e c (\<lambda>w. affected (\<lambda>r. sr_ID r = rid) (resources w))
       (\<lambda>w. w\<lparr>resources := delete_where (\<lambda>r. sr_ID r = rid) (resources w)\<rparr>)) (\<lambda>_. returnE ())"

definition GetSessionResource :: "env \<Rightarrow> ctx \<Rightarrow> string \<Rightarrow> (world, SessionResourceRow) io" where
  "GetSessionResource e c rid = bindE (queryE e c (resource_by rid)) (optE ErrNotFound)"

definition UpdateSessionResource ::
  "env \<Rightarrow> ctx \<Rightarrow> string \<Rightarrow> string \<Rightarrow> raw \<Rightarrow> (world, SessionResourceRow) io" where
  "UpdateSessionResource e c rid ty payload =
     bindE (insertE e c (\<lambda>w. resource_by rid w = None \<or> (resource_type_allowed ty \<and> payload \<noteq> None))
       (\<lambda>w. w\<lparr>resources := update_where (\<lambda>r. sr_ID r = rid) (\<lambda>r. r\<lparr>sr_Type := ty, sr_Payload := payload\<rparr>)
                (resources w)\<rparr>))
       (\<lambda>_. GetSessionResource e c rid)"

section \<open>Files and skills\<close>

definition file_by :: "string \<Rightarrow> world \<Rightarrow> FileRow option" where
  "file_by fid w = select_one (\<lambda>r. fi_ID r = fid) (files w)"

definition GetFile :: "env \<Rightarrow> ctx \<Rightarrow> string \<Rightarrow> (world, FileRow) io" where
  "GetFile e c fid = bindE (queryE e c (file_by fid)) (optE ErrNotFound)"

definition CreateFile :: "env \<Rightarrow> ctx \<Rightarrow> string \<Rightarrow> string \<Rightarrow> string \<Rightarrow> string \<Rightarrow> (world, FileRow) io" where
  "CreateFile e c tenant filename contentType blob =
     bindE (NewID e ''fil'') (\<lambda>fid. bindE (now e) (\<lambda>t.
       let r = \<lparr>fi_ID = fid, fi_TenantID = or_default_tenant tenant, fi_Filename = filename,
             fi_ContentType = (if contentType = [] then ''application/octet-stream'' else contentType),
             fi_Blob = blob, fi_Size = int (length blob), fi_CreatedAt = t, fi_UpdatedAt = t\<rparr>
       in bindE (insertE e c (\<lambda>w. file_by fid w = None) (\<lambda>w. w\<lparr>files := files w @ [r]\<rparr>))
            (\<lambda>_. GetFile e c fid)))"

definition ListFiles :: "env \<Rightarrow> ctx \<Rightarrow> string \<Rightarrow> (world, FileRow list) io" where
  "ListFiles e c tenant =
     queryE e c (\<lambda>w. sort_key (\<lambda>r. - fi_CreatedAt r) (select (\<lambda>r. fi_TenantID r = tenant) (files w)))"

definition DeleteFile :: "env \<Rightarrow> ctx \<Rightarrow> string \<Rightarrow> (world, unit) io" where
  "DeleteFile e c fid =
     bindE (updateE e c (\<lambda>w. affected (\<lambda>r. fi_ID r = fid) (files w))
       (\<lambda>w. w\<lparr>files := delete_where (\<lambda>r. fi_ID r = fid) (files w)\<rparr>)) (\<lambda>_. returnE ())"

record SkillFileEntry =
  sf_Path :: string
  sf_Content :: string

definition dec_skill_file :: "SkillFileEntry dec" where
  "dec_skill_file = dec_struct
     [fld ''path'' sf_Path sf_Path_update dec_str, fld ''content'' sf_Content sf_Content_update dec_str]"

definition dec_skill_files :: "SkillFileEntry list dec" where
  "dec_skill_files = dec_list \<lparr>sf_Path = [], sf_Content = []\<rparr> dec_skill_file"

definition skill_files_json :: "SkillFileEntry list \<Rightarrow> raw" where
  "skill_files_json fs = Some (JArr (map (\<lambda>f. JObj [(''path'', JStr (sf_Path f)), (''content'', JStr (sf_Content f))]) fs))"

definition skill_by :: "string \<Rightarrow> world \<Rightarrow> SkillRow option" where
  "skill_by kid w = select_one (\<lambda>r. sk_ID r = kid) (skills w)"

definition GetSkill :: "env \<Rightarrow> ctx \<Rightarrow> string \<Rightarrow> (world, SkillRow) io" where
  "GetSkill e c kid = bindE (queryE e c (skill_by kid)) (optE ErrNotFound)"

definition skill_md :: "SkillFileEntry list \<Rightarrow> string" where
  "skill_md fs = (case filter (\<lambda>f. sf_Path f = ''SKILL.md'' \<or> sf_Path f = ''skill.md'') fs of
      [] \<Rightarrow> [] | f # _ \<Rightarrow> sf_Content f)"

definition CreateSkill ::
  "env \<Rightarrow> ctx \<Rightarrow> string \<Rightarrow> string \<Rightarrow> string \<Rightarrow> SkillFileEntry list \<Rightarrow> (world, SkillRow) io" where
  "CreateSkill e c tenant name description fs =
     bindE (NewID e ''skl'') (\<lambda>kid. bindE (now e) (\<lambda>t.
       let r = \<lparr>sk_ID = kid, sk_TenantID = or_default_tenant tenant, sk_Name = name,
             sk_Description = description, sk_FilesJSON = skill_files_json fs, sk_SkillMD = skill_md fs,
             sk_CreatedAt = t, sk_UpdatedAt = t\<rparr>
       in bindE (insertE e c (\<lambda>w. skill_by kid w = None) (\<lambda>w. w\<lparr>skills := skills w @ [r]\<rparr>))
            (\<lambda>_. GetSkill e c kid)))"

definition ListSkills :: "env \<Rightarrow> ctx \<Rightarrow> string \<Rightarrow> (world, SkillRow list) io" where
  "ListSkills e c tenant =
     queryE e c (\<lambda>w. sort_key (\<lambda>r. - sk_CreatedAt r) (select (\<lambda>r. sk_TenantID r = tenant) (skills w)))"

definition DeleteSkill :: "env \<Rightarrow> ctx \<Rightarrow> string \<Rightarrow> (world, unit) io" where
  "DeleteSkill e c kid =
     bindE (updateE e c (\<lambda>w. affected (\<lambda>r. sk_ID r = kid) (skills w))
       (\<lambda>w. w\<lparr>skills := delete_where (\<lambda>r. sk_ID r = kid) (skills w)\<rparr>)) (\<lambda>_. returnE ())"

section \<open>The version history of an agent is a log\<close>

definition versions_of :: "string \<Rightarrow> world \<Rightarrow> AgentVersionRow list" where
  "versions_of aid w = filter (\<lambda>v. av_AgentID v = aid) (agent_versions w)"

definition agents_ok :: "world \<Rightarrow> bool" where
  "agents_ok w \<longleftrightarrow> distinct (map at_ID (agents w))
     \<and> (\<forall>a\<in>set (agents w). map av_Version (versions_of (at_ID a) w) = seqs (length (versions_of (at_ID a) w))
          \<and> at_CurrentVersion a = int (length (versions_of (at_ID a) w)))
     \<and> (\<forall>v\<in>set (agent_versions w). agent_by (av_AgentID v) w \<noteq> None)"

lemma agents_ok_frame [simp]: "agents_ok (w\<lparr>tick := n\<rparr>) = agents_ok w"
  by (simp add: agents_ok_def versions_of_def agent_by_def)

lemma version_row_fields [simp]:
  "av_AgentID (version_row aid v t inp) = aid" "av_Version (version_row aid v t inp) = v"
  by (simp_all add: version_row_def)

lemma commit_version_cases:
  obtains (err) x d where "commit_version e c aid inp version t w = (Inl x, w\<lparr>tick := tick w + d\<rparr>)"
  | (ok) a d where "select_one (live_agent aid) (agents w) = Some a" "at_CurrentVersion a = version"
      "version_insert_ok (version_row aid (version + 1) t inp) w"
      "commit_version e c aid inp version t w = (Inr (version_row aid (version + 1) t inp),
         w\<lparr>tick := tick w + d,
           agents := update_where (\<lambda>r. at_ID r = aid)
             (\<lambda>r. r\<lparr>at_Name := ai_Name inp, at_CurrentVersion := version + 1, at_UpdatedAt := t\<rparr>) (agents w),
           agent_versions := agent_versions w @ [version_row aid (version + 1) t inp]\<rparr>)"
proof (cases "commit_version e c aid inp version t w")
  case (Pair r w')
  note defs = commit_version_def Let_def in_tx_def bindE_def queryE_def updateE_def insertE_def stmt_run
    getsE_def optE_def returnE_def throwE_def wrapE_def catchE_def
  show ?thesis
  proof (cases r)
    case (Inl x)
    have "tick w \<le> tick w' \<and> w' = w\<lparr>tick := tick w'\<rparr>"
      using Pair unfolding defs Inl
      by (auto split: sum.splits option.splits if_splits prod.splits)
    then have "w' = w\<lparr>tick := tick w + (tick w' - tick w)\<rparr>" by simp
    then show ?thesis using err [of x "tick w' - tick w"] Pair Inl by simp
  next
    case (Inr v)
    have "\<exists>a. select_one (live_agent aid) (agents w) = Some a \<and> at_CurrentVersion a = version
      \<and> version_insert_ok (version_row aid (version + 1) t inp) w
      \<and> commit_version e c aid inp version t w = (Inr (version_row aid (version + 1) t inp),
         w\<lparr>tick := tick w + 5,
           agents := update_where (\<lambda>r. at_ID r = aid)
             (\<lambda>r. r\<lparr>at_Name := ai_Name inp, at_CurrentVersion := version + 1, at_UpdatedAt := t\<rparr>) (agents w),
           agent_versions := agent_versions w @ [version_row aid (version + 1) t inp]\<rparr>)"
      using Pair unfolding defs Inr
      by (auto simp: version_insert_ok_def agent_by_def version_by_def numeral_eq_Suc
          split: sum.splits option.splits if_splits prod.splits)
    then show ?thesis using ok by blast
  qed
qed

lemma agent_by_Some: "agent_by aid w = Some a \<Longrightarrow> a \<in> set (agents w) \<and> at_ID a = aid"
  by (auto simp: agent_by_def dest: select_one_Some)

lemma agents_ok_agent:
  assumes "agents_ok w" "agent_by aid w = Some a"
  shows "at_CurrentVersion a = int (length (versions_of aid w))"
    "map av_Version (versions_of aid w) = seqs (length (versions_of aid w))" "at_ID a = aid"
proof -
  have "a \<in> set (agents w)" "at_ID a = aid" using agent_by_Some [OF assms(2)] by auto
  then show "at_CurrentVersion a = int (length (versions_of aid w))"
    "map av_Version (versions_of aid w) = seqs (length (versions_of aid w))" "at_ID a = aid"
    using assms(1) by (auto simp: agents_ok_def)
qed

lemma live_agent_by:
  assumes "agents_ok w" "select_one (live_agent aid) (agents w) = Some a"
  shows "agent_by aid w = Some a"
proof -
  have a: "a \<in> set (agents w)" "at_ID a = aid" using select_one_Some [OF assms(2)] by (auto simp: live_agent_def)
  obtain b where b: "agent_by aid w = Some b"
    using select_one_ex [OF a(1), of "\<lambda>r. at_ID r = aid"] a(2) by (auto simp: agent_by_def)
  have "a = b"
    by (rule distinct_keyD [of at_ID "agents w"]) (use assms(1) a agent_by_Some [OF b] in \<open>auto simp: agents_ok_def\<close>)
  then show ?thesis using b by simp
qed

lemma agents_ok_commit:
  assumes ok: "agents_ok w" and a: "select_one (live_agent aid) (agents w) = Some a"
  shows "agents_ok (w\<lparr>agents := update_where (\<lambda>r. at_ID r = aid)
             (\<lambda>r. r\<lparr>at_Name := ai_Name inp, at_CurrentVersion := at_CurrentVersion a + 1, at_UpdatedAt := t\<rparr>) (agents w),
           agent_versions := agent_versions w @ [version_row aid (at_CurrentVersion a + 1) t inp]\<rparr>)"
    (is "agents_ok ?w")
proof -
  note A = agents_ok_agent [OF ok live_agent_by [OF ok a]]
  define w1 where "w1 = ?w"
  have vs: "versions_of i w1 = versions_of i w @ (if i = aid then [version_row aid (at_CurrentVersion a + 1) t inp] else [])" for i
    by (simp add: w1_def versions_of_def)
  have "map at_ID (agents w1) = map at_ID (agents w)" by (simp add: w1_def table_simps)
  moreover have "map av_Version (versions_of (at_ID b) w1) = seqs (length (versions_of (at_ID b) w1))
          \<and> at_CurrentVersion b = int (length (versions_of (at_ID b) w1))" if b: "b \<in> set (agents w1)" for b
  proof -
    obtain b' where b': "b' \<in> set (agents w)" "at_ID b = at_ID b'"
      "at_CurrentVersion b = (if at_ID b' = aid then at_CurrentVersion a + 1 else at_CurrentVersion b')"
      using b by (auto simp: w1_def table_simps)
    have "map av_Version (versions_of (at_ID b') w) = seqs (length (versions_of (at_ID b') w))
          \<and> at_CurrentVersion b' = int (length (versions_of (at_ID b') w))"
      using ok b'(1) by (auto simp: agents_ok_def)
    then show ?thesis using A(1) b'(2,3) by (cases "at_ID b' = aid") (simp_all add: vs)
  qed
  moreover have "agent_by i w1 = None \<longleftrightarrow> agent_by i w = None" for i
    by (simp add: w1_def agent_by_def select_one_update_None)
  moreover have "agent_by aid w \<noteq> None" using live_agent_by [OF ok a] by simp
  moreover have "agent_versions w1 = agent_versions w @ [version_row aid (at_CurrentVersion a + 1) t inp]"
    by (simp add: w1_def)
  ultimately have "agents_ok w1"
    using ok by (auto simp: agents_ok_def)
  then show ?thesis by (simp add: w1_def)
qed

definition version_op ::
  "env \<Rightarrow> ctx \<Rightarrow> string \<Rightarrow> AgentInput \<times> int \<times> int \<Rightarrow> world \<Rightarrow> AgentVersionRow option \<times> world" where
  "version_op e c aid i w =
     (case commit_version e c aid (fst i) (fst (snd i)) (snd (snd i)) w of
        (Inl x, w') \<Rightarrow> (None, w') | (Inr r, w') \<Rightarrow> (Some r, w'))"

lemma versions_of_tick [simp]: "versions_of aid (w\<lparr>tick := n\<rparr>) = versions_of aid w"
  by (simp add: versions_of_def)

lemma version_op_cases:
  assumes "agents_ok w"
  obtains (None) d where "version_op e c aid i w = (None, w\<lparr>tick := tick w + d\<rparr>)"
  | (Some) a w' d where "agent_by aid w = Some a" "at_CurrentVersion a = fst (snd i)" "agents_ok w'"
      "versions_of aid w' = versions_of aid w @ [version_row aid (at_CurrentVersion a + 1) (snd (snd i)) (fst i)]"
      "\<And>k. k \<noteq> aid \<Longrightarrow> versions_of k w' = versions_of k w"
      "version_op e c aid i w = (Some (version_row aid (at_CurrentVersion a + 1) (snd (snd i)) (fst i)), w'\<lparr>tick := tick w + d\<rparr>)"
proof (cases rule: commit_version_cases [of e c aid "fst i" "fst (snd i)" "snd (snd i)" w])
  case (err x d)
  then show ?thesis using None by (simp add: version_op_def)
next
  case (ok a d)
  let ?w' = "w\<lparr>agents := update_where (\<lambda>r. at_ID r = aid)
             (\<lambda>r. r\<lparr>at_Name := ai_Name (fst i), at_CurrentVersion := at_CurrentVersion a + 1, at_UpdatedAt := snd (snd i)\<rparr>) (agents w),
           agent_versions := agent_versions w @ [version_row aid (at_CurrentVersion a + 1) (snd (snd i)) (fst i)]\<rparr>"
  show ?thesis
    by (rule Some [of a ?w' d])
      (use ok live_agent_by [OF assms ok(1)] agents_ok_commit [OF assms ok(1)] in
        \<open>auto simp: version_op_def versions_of_def\<close>)
qed

interpretation vlog: event_log "version_op e c" versions_of av_Version agents_ok for e c
proof
  fix s k i r s'
  assume "agents_ok s" "version_op e c k i s = (Some r, s')"
  then show "versions_of k s' = versions_of k s @ [r] \<and> av_Version r = int (length (versions_of k s)) + 1"
    by (cases rule: version_op_cases [OF \<open>agents_ok s\<close>, of e c k i])
      (auto dest: agents_ok_agent(1))
next
  fix k i s s'
  assume "version_op e c k i s = (None, s')"
  then show "versions_of k s' = versions_of k s"
    by (cases rule: commit_version_cases [of e c k "fst i" "fst (snd i)" "snd (snd i)" s])
      (auto simp: version_op_def)
next
  fix k' k :: string and i s
  assume "k' \<noteq> k"
  then show "versions_of k' (snd (version_op e c k i s)) = versions_of k' s"
    by (cases rule: commit_version_cases [of e c k "fst i" "fst (snd i)" "snd (snd i)" s])
      (auto simp: version_op_def versions_of_def)
next
  fix s k i
  assume "agents_ok s"
  then show "agents_ok (snd (version_op e c k i s))"
    by (cases rule: version_op_cases [OF \<open>agents_ok s\<close>, of e c k i]) auto
next
  fix s k
  assume ok: "agents_ok s"
  show "map av_Version (versions_of k s) = seqs (length (versions_of k s))"
  proof (cases "agent_by k s")
    case None
    then have "versions_of k s = []"
      using ok by (auto simp: agents_ok_def versions_of_def filter_empty_conv)
    then show ?thesis by simp
  next
    case (Some a)
    then show ?thesis by (rule agents_ok_agent(2) [OF ok])
  qed
qed

section \<open>Properties\<close>

text \<open>C5: the update of an agent commits only on top of the version the caller
names: then the history gains exactly one version, the next number, and every
earlier version stays as it was; in every other case, a stale number, an archived or missing
agent, a failing statement, the history is untouched. So of two updates that
name the same version at most one commits.\<close>

theorem agent_update_is_optimistic:
  assumes "agents_ok w" "commit_version e c aid inp version t w = (r, w')"
  shows "agents_ok w' \<and>
    (case r of
       Inl x \<Rightarrow> versions_of aid w' = versions_of aid w
     | Inr v \<Rightarrow> int (length (versions_of aid w)) = version \<and> versions_of aid w' = versions_of aid w @ [v]
         \<and> av_Version v = version + 1
         \<and> (\<forall>e' c' inp' t'. \<exists>x. fst (commit_version e' c' aid inp' version t' w') = Inl x))"
proof -
  have op: "version_op e c aid (inp, version, t) w = (case r of Inl x \<Rightarrow> (None, w') | Inr v \<Rightarrow> (Some v, w'))"
    using assms(2) by (simp add: version_op_def split: sum.splits)
  have ok': "agents_ok w'"
    using vlog.inv_append [OF assms(1), of e c aid "(inp, version, t)"] op by (simp split: sum.splits)
  show ?thesis
  proof (cases r)
    case (Inl x)
    then show ?thesis using vlog.append_None [of e c aid "(inp, version, t)" w w'] op ok' by simp
  next
    case (Inr v)
    then have some: "version_op e c aid (inp, version, t) w = (Some v, w')" using op by simp
    note L = vlog.append_Some [OF assms(1) some]
    have cur: "int (length (versions_of aid w)) = version"
      using some by (cases rule: version_op_cases [OF assms(1), of e c aid "(inp, version, t)"])
        (auto dest: agents_ok_agent(1) [OF assms(1)])
    have "\<exists>x. fst (commit_version e' c' aid inp' version t' w') = Inl x" for e' c' inp' t'
    proof (cases rule: commit_version_cases [of e' c' aid inp' version t' w'])
      case (ok a d)
      have "at_CurrentVersion a = int (length (versions_of aid w'))"
        by (rule agents_ok_agent(1) [OF ok' live_agent_by [OF ok' ok(1)]])
      then show ?thesis using ok(2) L cur by simp
    qed simp
    then show ?thesis using Inr ok' L cur by simp
  qed
qed

definition demo_input :: AgentInput where
  "demo_input = \<lparr>ai_TenantID = [], ai_Name = ''helper'', ai_Model = Some (JStr ''m''), ai_System = [],
     ai_Description = [], ai_Tools = None, ai_MCPServers = None, ai_Skills = None, ai_Multiagent = None, ai_Metadata = None\<rparr>"

definition agent_world :: "world" where
  "agent_world = empty_world\<lparr>agents := [\<lparr>at_ID = ''a'', at_TenantID = ''tnt-default'', at_Name = ''helper'',
     at_ArchivedAt = None, at_CreatedAt = 0, at_UpdatedAt = 0, at_CurrentVersion = 1\<rparr>],
     agent_versions := [version_row ''a'' 1 0 demo_input]\<rparr>"

lemma agent_update_is_optimistic_witness:
  "\<exists>v w'. commit_version \<lparr>clock = int, ulid = nat_str, fault = (\<lambda>n. None)\<rparr> Background ''a'' demo_input 1 5 agent_world = (Inr v, w')
     \<and> agents_ok w' \<and> av_Version v = 2"
proof -
  have ok: "agents_ok agent_world" by code_simp
  let ?r = "commit_version \<lparr>clock = int, ulid = nat_str, fault = (\<lambda>n. None)\<rparr> Background ''a'' demo_input 1 5 agent_world"
  obtain r w' where r: "?r = (r, w')" by (cases ?r)
  have "case fst ?r of Inl x \<Rightarrow> False | Inr v \<Rightarrow> True" by code_simp
  then show ?thesis using agent_update_is_optimistic [OF ok r] by (cases r) (auto simp: r)
qed

end
