(* ===== verification/Permissions.thy ===== *)
theory Permissions
  imports HarnessMessages
begin

text \<open>
  Which tool calls may run: the permission policies of
  \<open>internal/harness/permissions.go\<close> (a call needs the user's approval or not) and
  the guardrails of \<open>internal/harness/guardrails.go\<close> (a tool is allowed or not).
\<close>

section \<open>Permission policies\<close>

definition permissionAlwaysAllow :: string where
  "permissionAlwaysAllow = ''always_allow''"

definition permissionAlwaysAsk :: string where
  "permissionAlwaysAsk = ''always_ask''"

record permissionDecider =
  pd_agentDefault :: string
  pd_agentTools :: "string \<rightharpoonup> string"
  pd_mcpDefaults :: "string \<rightharpoonup> string"
  pd_mcpTools :: "string \<rightharpoonup> string"

text \<open>The nested policy objects carry one string each.\<close>

definition dec_policy :: "string dec" where
  "dec_policy = dec_struct [fld ''type'' (\<lambda>s. s) (\<lambda>f. f) dec_str]"

definition dec_default_config :: "string dec" where
  "dec_default_config = dec_struct [fld ''permission_policy'' (\<lambda>s. s) (\<lambda>f. f) dec_policy]"

record permissionToolConfig =
  pc_Name :: string
  pc_Policy :: string

definition dec_tool_config :: "permissionToolConfig dec" where
  "dec_tool_config = dec_struct
     [fld ''name'' pc_Name pc_Name_update dec_str,
      fld ''permission_policy'' pc_Policy pc_Policy_update dec_policy]"

record permissionToolsetEntry =
  pe_Type :: string
  pe_MCPServerName :: string
  pe_Default :: string
  pe_Configs :: "permissionToolConfig list"

definition zero_entry :: permissionToolsetEntry where
  "zero_entry = \<lparr>pe_Type = [], pe_MCPServerName = [], pe_Default = [], pe_Configs = []\<rparr>"

definition dec_entry :: "permissionToolsetEntry dec" where
  "dec_entry = dec_struct
     [fld ''type'' pe_Type pe_Type_update dec_str,
      fld ''mcp_server_name'' pe_MCPServerName pe_MCPServerName_update dec_str,
      fld ''default_config'' pe_Default pe_Default_update dec_default_config,
      fld ''configs'' pe_Configs pe_Configs_update (dec_list \<lparr>pc_Name = [], pc_Policy = []\<rparr> dec_tool_config)]"

definition normalizePermission :: "string \<Rightarrow> string" where
  "normalizePermission p = (if p = permissionAlwaysAllow \<or> p = permissionAlwaysAsk then p else [])"

definition mcpPermissionKey :: "string \<Rightarrow> string \<Rightarrow> string" where
  "mcpPermissionKey server tool = server @ [CHR 0x00] @ tool"

definition set_tool_policies ::
  "(string \<Rightarrow> string) \<Rightarrow> permissionToolConfig list \<Rightarrow> (string \<rightharpoonup> string) \<Rightarrow> (string \<rightharpoonup> string)" where
  "set_tool_policies key cs m = fold (\<lambda>c m.
     if pc_Name c = [] then m
     else if normalizePermission (pc_Policy c) \<noteq> [] then m(key (pc_Name c) \<mapsto> normalizePermission (pc_Policy c))
     else m) cs m"

definition decider_step :: "permissionToolsetEntry \<Rightarrow> permissionDecider \<Rightarrow> permissionDecider" where
  "decider_step en d =
     (if pe_Type en = ''agent_toolset_20260401'' then
        (let p = normalizePermission (pe_Default en)
         in d\<lparr>pd_agentDefault := (if p \<noteq> [] then p else pd_agentDefault d),
              pd_agentTools := set_tool_policies (\<lambda>n. n) (pe_Configs en) (pd_agentTools d)\<rparr>)
      else if pe_Type en = ''mcp_toolset'' then
        (let server = pe_MCPServerName en;
             p0 = normalizePermission (pe_Default en);
             p = (if p0 = [] then permissionAlwaysAsk else p0)
         in d\<lparr>pd_mcpDefaults := (if server \<noteq> [] then (pd_mcpDefaults d)(server \<mapsto> p) else pd_mcpDefaults d),
              pd_mcpTools := set_tool_policies (mcpPermissionKey server) (pe_Configs en) (pd_mcpTools d)\<rparr>)
      else d)"

definition decider0 :: permissionDecider where
  "decider0 = \<lparr>pd_agentDefault = permissionAlwaysAllow, pd_agentTools = Map.empty,
     pd_mcpDefaults = Map.empty, pd_mcpTools = Map.empty\<rparr>"

definition newPermissionDecider :: "raw \<Rightarrow> permissionDecider" where
  "newPermissionDecider tools =
     (case unmarshal (dec_list zero_entry dec_entry) [] tools of
        (entries, True) \<Rightarrow> decider0
      | (entries, False) \<Rightarrow> fold decider_step entries decider0)"

section \<open>Names of MCP tools\<close>

definition mcpToolPrefix :: string where
  "mcpToolPrefix = ''mcp__''"

definition mcpToolName :: "string \<Rightarrow> string \<Rightarrow> string" where
  "mcpToolName server tool = mcpToolPrefix @ server @ ''__'' @ tool"

definition splitMCPToolName :: "string \<Rightarrow> string \<times> string" where
  "splitMCPToolName name =
     (if \<not> HasPrefix name mcpToolPrefix then ([], name)
      else (case cut (TrimPrefix name mcpToolPrefix) ''__'' of Some p \<Rightarrow> p | None \<Rightarrow> ([], name)))"

section \<open>The decision\<close>

definition override :: "string \<Rightarrow> string \<Rightarrow> string" where
  "override p policy = (if p \<noteq> [] then p else policy)"

definition requiresApproval :: "permissionDecider \<Rightarrow> string \<Rightarrow> bool \<Rightarrow> bool \<Rightarrow> bool" where
  "requiresApproval d tool isMCP isCustom =
     (if isCustom then False
      else if isMCP then
        (let (server, short) = splitMCPToolName tool;
             policy = override (lookup_str (pd_mcpTools d) (mcpPermissionKey server tool))
                       (override (lookup_str (pd_mcpTools d) (mcpPermissionKey server short))
                         (override (lookup_str (pd_mcpDefaults d) server) permissionAlwaysAsk))
         in policy = permissionAlwaysAsk)
      else override (lookup_str (pd_agentTools d) tool) (pd_agentDefault d) = permissionAlwaysAsk)"

section \<open>Guardrails\<close>

record ToolPermissionPolicy =
  tp_Allowed :: "string list"
  tp_Denied :: "string list"

definition dec_tool_permissions :: "ToolPermissionPolicy dec" where
  "dec_tool_permissions = dec_struct
     [fld ''allowed_tools'' tp_Allowed tp_Allowed_update (dec_list [] dec_str),
      fld ''denied_tools'' tp_Denied tp_Denied_update (dec_list [] dec_str)]"

record AgentGuardrails =
  ag_ToolPermissions :: "ToolPermissionPolicy option"

definition dec_guardrails :: "AgentGuardrails dec" where
  "dec_guardrails = dec_struct
     [fld ''tool_permissions'' ag_ToolPermissions ag_ToolPermissions_update
        (dec_ptr \<lparr>tp_Allowed = [], tp_Denied = []\<rparr> dec_tool_permissions)]"

definition toolAllowedByGuardrails :: "AgentGuardrails option \<Rightarrow> string \<Rightarrow> bool \<times> string" where
  "toolAllowedByGuardrails g tool =
     (case g of None \<Rightarrow> (True, [])
      | Some ag \<Rightarrow>
          (case ag_ToolPermissions ag of None \<Rightarrow> (True, [])
           | Some policy \<Rightarrow>
               (if tool \<in> set (tp_Denied policy)
                then (False, ''tool '' @ goquote tool @ '' denied by agent guardrails'')
                else if tp_Allowed policy = [] then (True, [])
                else if tool \<in> set (tp_Allowed policy) then (True, [])
                else (False, ''tool '' @ goquote tool @ '' is not in agent guardrails allowed_tools''))))"

section \<open>Lemmas\<close>

lemma cut_first:
  assumes "\<not> Contains (a @ butlast sep) sep" "sep \<noteq> []"
  shows "cut (a @ sep @ b) sep = Some (a, b)"
  using assms
proof (induction a)
  case Nil
  then show ?case
    by (cases sep) (auto simp: HasPrefix_iff)
next
  case (Cons c a)
  have "\<not> HasPrefix ((c # a) @ sep @ b) sep"
  proof
    assume "HasPrefix ((c # a) @ sep @ b) sep"
    then obtain r where r: "c # a @ sep @ b = sep @ r" by (auto simp: HasPrefix_iff)
    have "take (length sep) (c # a @ sep @ b) = sep" by (simp add: r)
    then have "take (length sep) ((c # a) @ butlast sep @ [last sep] @ b) = sep"
      using Cons.prems(2) by (metis append.assoc append_Cons append_butlast_last_id)
    moreover have "length sep \<le> length ((c # a) @ butlast sep)" by simp
    ultimately have "take (length sep) ((c # a) @ butlast sep) = sep"
      by (metis append.assoc take_append diff_is_0_eq' take0 append_Nil2)
    then have "HasPrefix ((c # a) @ butlast sep) sep"
      by (metis HasPrefix_append append_take_drop_id)
    then show False using Cons.prems(1) by simp
  qed
  then show ?case using Cons by simp
qed

lemma splitMCPToolName_mcpToolName:
  "\<not> Contains (server @ ''_'') ''__'' \<Longrightarrow> splitMCPToolName (mcpToolName server tool) = (server, tool)"
  using cut_first [of server "''__''" tool]
  by (simp add: splitMCPToolName_def mcpToolName_def TrimPrefix_append)

lemma normalize_cases: "normalizePermission p \<in> {[], permissionAlwaysAllow, permissionAlwaysAsk}"
  by (simp add: normalizePermission_def)

section \<open>Properties\<close>

text \<open>The name given to a tool of an MCP server is split back into the
server and the tool, for every tool name and every server name in which no two underscores
are adjacent and the last character is not an underscore.\<close>

theorem mcp_name_roundtrip:
  assumes "\<not> Contains (server @ ''_'') ''__''"
  shows "splitMCPToolName (mcpToolName server tool) = (server, tool)"
  using assms by (rule splitMCPToolName_mcpToolName)

lemma mcp_name_roundtrip_witness:
  "splitMCPToolName (mcpToolName ''git_hub'' ''create__issue'') = (''git_hub'', ''create__issue'')"
  by (rule mcp_name_roundtrip) code_simp

text \<open>For such servers the decision on an MCP tool depends on that
server alone: two deciders that agree on the server's default and on the tool's
policies under it, decide alike, and without any policy the user is asked.\<close>

theorem mcp_policy_is_the_servers:
  assumes "\<not> Contains (server @ ''_'') ''__''"
    and "lookup_str (pd_mcpDefaults d) server = lookup_str (pd_mcpDefaults d') server"
    and "\<And>t. t \<in> {tool, mcpToolName server tool} \<Longrightarrow>
      lookup_str (pd_mcpTools d) (mcpPermissionKey server t) = lookup_str (pd_mcpTools d') (mcpPermissionKey server t)"
  shows "requiresApproval d (mcpToolName server tool) True False
           = requiresApproval d' (mcpToolName server tool) True False
       \<and> requiresApproval decider0 (mcpToolName server tool) True False"
  using assms by (simp add: requiresApproval_def splitMCPToolName_mcpToolName decider0_def override_def lookup_str_def)

definition ask_decider :: permissionDecider where
  "ask_decider = newPermissionDecider (Some (JArr [JObj [(''type'', JStr ''mcp_toolset''),
      (''mcp_server_name'', JStr ''gh''), (''default_config'', JObj [(''permission_policy'', JObj [(''type'', JStr ''always_ask'')])])],
    JObj [(''type'', JStr ''mcp_toolset''), (''mcp_server_name'', JStr ''fs''),
      (''default_config'', JObj [(''permission_policy'', JObj [(''type'', JStr ''always_allow'')])])]]))"

lemma mcp_policy_is_the_servers_witness:
  "requiresApproval ask_decider (mcpToolName ''gh'' ''push'') True False"
proof -
  have "\<not> Contains (''gh'' @ ''_'') ''__''" by code_simp
  moreover have "lookup_str (pd_mcpDefaults ask_decider) ''gh'' = lookup_str (pd_mcpDefaults (decider0\<lparr>pd_mcpDefaults := [''gh'' \<mapsto> ''always_ask'']\<rparr>)) ''gh''"
    by code_simp
  moreover have "lookup_str (pd_mcpTools ask_decider) (mcpPermissionKey ''gh'' ''push'') = []"
    "lookup_str (pd_mcpTools ask_decider) (mcpPermissionKey ''gh'' (mcpToolName ''gh'' ''push'')) = []"
    by code_simp+
  ultimately have "requiresApproval ask_decider (mcpToolName ''gh'' ''push'') True False =
      requiresApproval (decider0\<lparr>pd_mcpDefaults := [''gh'' \<mapsto> ''always_ask'']\<rparr>) (mcpToolName ''gh'' ''push'') True False"
    using mcp_policy_is_the_servers [of "''gh''" ask_decider "decider0\<lparr>pd_mcpDefaults := [''gh'' \<mapsto> ''always_ask'']\<rparr>" "''push''"]
    by (auto simp: decider0_def lookup_str_def)
  moreover have "requiresApproval (decider0\<lparr>pd_mcpDefaults := [''gh'' \<mapsto> ''always_ask'']\<rparr>) (mcpToolName ''gh'' ''push'') True False"
    by code_simp
  ultimately show ?thesis by simp
qed

definition shadow_tools :: raw where
  "shadow_tools = Some (JArr
     [JObj [(''type'', JStr ''mcp_toolset''), (''mcp_server_name'', JStr ''a''),
            (''default_config'', JObj [(''permission_policy'', JObj [(''type'', JStr ''always_allow'')])])],
      JObj [(''type'', JStr ''mcp_toolset''), (''mcp_server_name'', JStr ''a__b''),
            (''default_config'', JObj [(''permission_policy'', JObj [(''type'', JStr ''always_ask'')])])]])"

text \<open>With two adjacent underscores in a server's name the split is
wrong: the tool of server \<open>a__b\<close>, which is configured to ask, is judged by the policy of
server \<open>a\<close>, and runs without approval when that one allows.\<close>

theorem mcp_policy_confusion:
  "lookup_str (pd_mcpDefaults (newPermissionDecider shadow_tools)) ''a__b'' = permissionAlwaysAsk
     \<and> \<not> requiresApproval (newPermissionDecider shadow_tools) (mcpToolName ''a__b'' ''wipe'') True False"
  by code_simp

text \<open>A tool passes the guardrails exactly when it is not denied and, where
tools are listed as allowed, it is one of them; denial wins over allowance, and without a
policy everything passes. A refusal always gives a reason.\<close>

theorem guardrails_decide:
  "toolAllowedByGuardrails g tool =
     (let policy = (case g of None \<Rightarrow> None | Some ag \<Rightarrow> ag_ToolPermissions ag);
          ok = (case policy of None \<Rightarrow> True
                | Some p \<Rightarrow> tool \<notin> set (tp_Denied p) \<and> (tp_Allowed p = [] \<or> tool \<in> set (tp_Allowed p)))
      in (ok, snd (toolAllowedByGuardrails g tool)))
   \<and> (fst (toolAllowedByGuardrails g tool) = (snd (toolAllowedByGuardrails g tool) = []))"
  by (auto simp: toolAllowedByGuardrails_def Let_def split: option.splits)

end
