(* ===== verification/AgentService.thy ===== *)
theory AgentService
  imports StoreCatalog GoMap JsonCodec Permissions
begin

text \<open>
  \<open>internal/agent/service.go\<close> with the agent types of \<open>pkg/apitypes\<close>: what is stored of a request, and
  how a stored agent is shown. Guardrails travel as JSON text in a reserved key of the metadata.
\<close>

section \<open>Types of the interface\<close>

record AgentModel =
  am_ID :: string
  am_Speed :: string

definition dec_model_fields :: "AgentModel dec" where
  "dec_model_fields = dec_struct [fld ''id'' am_ID am_ID_update dec_str, fld ''speed'' am_Speed am_Speed_update dec_str]"

text \<open>\<open>UnmarshalJSON\<close>: a string or an object; an object that cannot be read leaves the value as it was.\<close>

definition dec_model :: "AgentModel dec" where
  "dec_model v old =
     (case dec_str v [] of
        (s, False) \<Rightarrow> (old\<lparr>am_ID := s\<rparr>, False)
      | (_, True) \<Rightarrow> (case dec_model_fields v \<lparr>am_ID = [], am_Speed = []\<rparr> of (m, False) \<Rightarrow> (m, False) | (_, True) \<Rightarrow> (old, True)))"

text \<open>A member that is left out when it is empty (\<open>omitempty\<close>).\<close>

definition opt_str :: "string \<Rightarrow> string \<Rightarrow> (string \<times> json) list" where
  "opt_str k s = (if s = [] then [] else [(k, JStr s)])"

definition opt_raw :: "string \<Rightarrow> raw \<Rightarrow> (string \<times> json) list" where
  "opt_raw k r = (case r of None \<Rightarrow> [] | Some v \<Rightarrow> [(k, v)])"

definition opt_strs :: "string \<Rightarrow> string list \<Rightarrow> (string \<times> json) list" where
  "opt_strs k xs = (if xs = [] then [] else [(k, JArr (map JStr xs))])"

definition model_json :: "AgentModel \<Rightarrow> json" where
  "model_json m = JObj ((''id'', JStr (am_ID m)) # opt_str ''speed'' (am_Speed m))"

record ToolEntry =
  to_Type :: string
  to_Name :: string
  to_MCPServerName :: string
  to_Description :: string
  to_InputSchema :: raw
  to_Configs :: raw
  to_DefaultConfig :: raw

definition zero_tool :: ToolEntry where
  "zero_tool = \<lparr>to_Type = [], to_Name = [], to_MCPServerName = [], to_Description = [], to_InputSchema = None,
     to_Configs = None, to_DefaultConfig = None\<rparr>"

definition dec_tool_entry :: "ToolEntry dec" where
  "dec_tool_entry = dec_struct
     [fld ''type'' to_Type to_Type_update dec_str, fld ''name'' to_Name to_Name_update dec_str,
      fld ''mcp_server_name'' to_MCPServerName to_MCPServerName_update dec_str,
      fld ''description'' to_Description to_Description_update dec_str,
      fld ''input_schema'' to_InputSchema to_InputSchema_update dec_raw,
      fld ''configs'' to_Configs to_Configs_update dec_raw,
      fld ''default_config'' to_DefaultConfig to_DefaultConfig_update dec_raw]"

definition tool_json :: "ToolEntry \<Rightarrow> json" where
  "tool_json t = JObj ((''type'', JStr (to_Type t)) # opt_str ''name'' (to_Name t)
     @ opt_str ''mcp_server_name'' (to_MCPServerName t) @ opt_str ''description'' (to_Description t)
     @ opt_raw ''input_schema'' (to_InputSchema t) @ opt_raw ''configs'' (to_Configs t)
     @ opt_raw ''default_config'' (to_DefaultConfig t))"

text \<open>Slices that can be nil: \<open>null\<close> makes them nil, and nil is written \<open>null\<close>.\<close>

definition dec_slice :: "'a \<Rightarrow> 'a dec \<Rightarrow> 'a list option dec" where
  "dec_slice zero d v old =
     (case v of
        JArr vs \<Rightarrow> (Some (map (\<lambda>x. fst (d x zero)) vs), list_ex (\<lambda>x. snd (d x zero)) vs)
      | JNull \<Rightarrow> (None, False) | _ \<Rightarrow> (old, True))"

definition slice_json :: "('a \<Rightarrow> json) \<Rightarrow> 'a list option \<Rightarrow> json" where
  "slice_json f xs = (case xs of None \<Rightarrow> JNull | Some ys \<Rightarrow> JArr (map f ys))"

definition dec_value :: "json dec" where
  "dec_value v old = (v, False)"

definition guardrails_json :: "AgentGuardrails \<Rightarrow> json" where
  "guardrails_json g = JObj (case ag_ToolPermissions g of None \<Rightarrow> []
     | Some p \<Rightarrow> [(''tool_permissions'', JObj (opt_strs ''allowed_tools'' (tp_Allowed p) @ opt_strs ''denied_tools'' (tp_Denied p)))])"

record Agent =
  aa_ID :: string
  aa_Name :: string
  aa_Model :: AgentModel
  aa_System :: string
  aa_Description :: string
  aa_Tools :: "ToolEntry list option"
  aa_Skills :: "json list option"
  aa_MCPServers :: "json list option"
  aa_Multiagent :: raw
  aa_Guardrails :: "AgentGuardrails option"
  aa_Metadata :: smap
  aa_Version :: int
  aa_CreatedAt :: int
  aa_UpdatedAt :: int
  aa_ArchivedAt :: "int option"

record CreateAgentRequest =
  ra_Name :: string
  ra_Model :: AgentModel
  ra_System :: string
  ra_Description :: string
  ra_Tools :: "ToolEntry list option"
  ra_MCPServers :: "json list option"
  ra_Skills :: "json list option"
  ra_Multiagent :: raw
  ra_Guardrails :: "AgentGuardrails option"
  ra_Metadata :: smap

text \<open>An update has the same members and the version it is based on.\<close>

record UpdateAgentRequest = CreateAgentRequest +
  ra_Version :: int

definition zero_create_agent :: CreateAgentRequest where
  "zero_create_agent = \<lparr>ra_Name = [], ra_Model = \<lparr>am_ID = [], am_Speed = []\<rparr>, ra_System = [], ra_Description = [],
     ra_Tools = None, ra_MCPServers = None, ra_Skills = None, ra_Multiagent = None, ra_Guardrails = None, ra_Metadata = None\<rparr>"

definition agent_fields :: "'m CreateAgentRequest_scheme field list" where
  "agent_fields =
     [fld ''name'' ra_Name ra_Name_update dec_str, fld ''model'' ra_Model ra_Model_update dec_model,
      fld ''system'' ra_System ra_System_update dec_str, fld ''description'' ra_Description ra_Description_update dec_str,
      fld ''tools'' ra_Tools ra_Tools_update (dec_slice zero_tool dec_tool_entry),
      fld ''mcp_servers'' ra_MCPServers ra_MCPServers_update (dec_slice JNull dec_value),
      fld ''skills'' ra_Skills ra_Skills_update (dec_slice JNull dec_value),
      fld ''multiagent'' ra_Multiagent ra_Multiagent_update dec_raw,
      fld ''guardrails'' ra_Guardrails ra_Guardrails_update (dec_ptr \<lparr>ag_ToolPermissions = None\<rparr> dec_guardrails),
      fld ''metadata'' ra_Metadata ra_Metadata_update dec_smap]"

definition dec_create_agent :: "CreateAgentRequest dec" where
  "dec_create_agent = dec_struct agent_fields"

definition dec_update_agent :: "UpdateAgentRequest dec" where
  "dec_update_agent = dec_struct (agent_fields @ [fld ''version'' ra_Version ra_Version_update dec_int64])"

definition zero_update_agent :: UpdateAgentRequest where
  "zero_update_agent = CreateAgentRequest.extend zero_create_agent \<lparr>ra_Version = 0\<rparr>"

section \<open>Storing\<close>

definition guardrailsMetadataKey :: string where
  "guardrailsMetadataKey = ''_jadeenvoy_guardrails''"

definition encodeAgentMetadata :: "smap \<Rightarrow> AgentGuardrails option \<Rightarrow> raw" where
  "encodeAgentMetadata meta guardrails =
     (let own = filter (\<lambda>kv. fst kv \<noteq> guardrailsMetadataKey) (entries meta);
          all = (case guardrails of None \<Rightarrow> own | Some g \<Rightarrow> AList.update guardrailsMetadataKey (jprint (guardrails_json g)) own)
      in Some (if all = [] then JObj [] else marshal_smap (Some all)))"

text \<open>\<open>null\<close> is stored as the empty list, except for the tools.\<close>

definition or_empty :: "json \<Rightarrow> json" where
  "or_empty v = (if v = JNull then JArr [] else v)"

definition agent_input :: "string \<Rightarrow> 'm CreateAgentRequest_scheme \<Rightarrow> AgentInput" where
  "agent_input tenant r = \<lparr>ai_TenantID = tenant, ai_Name = ra_Name r, ai_Model = Some (model_json (ra_Model r)),
     ai_System = ra_System r, ai_Description = ra_Description r, ai_Tools = Some (slice_json tool_json (ra_Tools r)),
     ai_MCPServers = Some (or_empty (slice_json (\<lambda>v. v) (ra_MCPServers r))),
     ai_Skills = Some (or_empty (slice_json (\<lambda>v. v) (ra_Skills r))), ai_Multiagent = ra_Multiagent r,
     ai_Metadata = encodeAgentMetadata (ra_Metadata r) (ra_Guardrails r)\<rparr>"

section \<open>Showing\<close>

definition delete_key :: "string \<Rightarrow> smap \<Rightarrow> smap" where
  "delete_key k m = map_option (filter (\<lambda>kv. fst kv \<noteq> k)) m"

definition raw_array :: "raw \<Rightarrow> json list option \<Rightarrow> json list option" where
  "raw_array r dflt =
     (if r = None \<or> r = Some JNull then dflt
      else (case unmarshal (dec_slice JNull dec_value) None r of (xs, False) \<Rightarrow> xs | (_, True) \<Rightarrow> dflt))"

definition agent_rowToAPI :: "AgentRow \<Rightarrow> Agent" where
  "agent_rowToAPI r =
     (let zero_model = \<lparr>am_ID = [], am_Speed = []\<rparr>;
          metadata = (case ar_Metadata r of None \<Rightarrow> Some [] | Some v \<Rightarrow> fst (dec_smap v (Some [])));
          guardrails = (case map_of (entries metadata) guardrailsMetadataKey of None \<Rightarrow> None
            | Some text_of_it \<Rightarrow> (case unmarshal dec_guardrails \<lparr>ag_ToolPermissions = None\<rparr> (jparse text_of_it) of
                (g, False) \<Rightarrow> Some g | (_, True) \<Rightarrow> None))
      in \<lparr>aa_ID = ar_ID r, aa_Name = ar_Name r,
          aa_Model = (case ar_Model r of None \<Rightarrow> zero_model | Some v \<Rightarrow> fst (dec_model v zero_model)),
          aa_System = (case ar_System r of None \<Rightarrow> [] | Some s \<Rightarrow> s),
          aa_Description = (case ar_Description r of None \<Rightarrow> [] | Some s \<Rightarrow> s),
          aa_Tools = (case ar_Tools r of None \<Rightarrow> Some [] | Some v \<Rightarrow> fst (dec_slice zero_tool dec_tool_entry v (Some []))),
          aa_Skills = raw_array (ar_Skills r) (Some []), aa_MCPServers = raw_array (ar_MCPServers r) (Some []),
          aa_Multiagent = (if ar_Multiagent r = Some JNull then None else ar_Multiagent r), aa_Guardrails = guardrails,
          aa_Metadata = delete_key guardrailsMetadataKey metadata, aa_Version = ar_Version r,
          aa_CreatedAt = ar_CreatedAt r, aa_UpdatedAt = ar_UpdatedAt r, aa_ArchivedAt = ar_ArchivedAt r\<rparr>)"

section \<open>The service\<close>

definition agent_Create :: "env \<Rightarrow> ctx \<Rightarrow> string \<Rightarrow> CreateAgentRequest \<Rightarrow> (world, Agent) io" where
  "agent_Create e c tenant r = bindE (CreateAgent e c (agent_input tenant r)) (\<lambda>row. returnE (agent_rowToAPI row))"

definition agent_Get :: "env \<Rightarrow> ctx \<Rightarrow> string \<Rightarrow> (world, Agent) io" where
  "agent_Get e c aid = bindE (GetAgent e c aid) (\<lambda>row. returnE (agent_rowToAPI row))"

definition agent_List :: "env \<Rightarrow> ctx \<Rightarrow> string \<Rightarrow> int \<Rightarrow> (world, Agent list) io" where
  "agent_List e c tenant limit = bindE (ListAgents e c tenant limit) (\<lambda>rows. returnE (map agent_rowToAPI rows))"

definition agent_Update :: "env \<Rightarrow> ctx \<Rightarrow> string \<Rightarrow> UpdateAgentRequest \<Rightarrow> (world, Agent) io" where
  "agent_Update e c aid r =
     bindE (UpdateAgent e c aid (agent_input [] r) (ra_Version r)) (\<lambda>row. returnE (agent_rowToAPI row))"

definition agent_Versions :: "env \<Rightarrow> ctx \<Rightarrow> string \<Rightarrow> (world, Agent list) io" where
  "agent_Versions e c aid = bindE (ListAgentVersions e c aid) (\<lambda>rows. returnE (map agent_rowToAPI rows))"

definition agent_Archive :: "env \<Rightarrow> ctx \<Rightarrow> string \<Rightarrow> (world, unit) io" where
  "agent_Archive e c aid = ArchiveAgent e c aid"

definition agent_Delete :: "env \<Rightarrow> ctx \<Rightarrow> string \<Rightarrow> (world, unit) io" where
  "agent_Delete e c aid = DeleteAgent e c aid"

section \<open>Guardrails are read back\<close>

lemma decoded_strs: "dec_list [] dec_str (JArr (map JStr xs)) old = (xs, False)"
  by (simp add: dec_list_def dec_str_def comp_def list_ex_iff)

lemma guardrails_roundtrip: "dec_guardrails (guardrails_json g) \<lparr>ag_ToolPermissions = None\<rparr> = (g, False)"
proof (cases g)
  case (fields p)
  show ?thesis
  proof (cases p)
    case None
    then show ?thesis by (simp add: fields guardrails_json_def dec_guardrails_def json_simps)
  next
    case (Some q)
    obtain a d where q: "q = \<lparr>tp_Allowed = a, tp_Denied = d\<rparr>" by (cases q)
    have "dec_tool_permissions (JObj (opt_strs ''allowed_tools'' a @ opt_strs ''denied_tools'' d)) \<lparr>tp_Allowed = [], tp_Denied = []\<rparr>
        = (\<lparr>tp_Allowed = a, tp_Denied = d\<rparr>, False)"
      by (simp add: dec_tool_permissions_def opt_strs_def dec_struct_def fld_def key_match_def decoded_strs ToLower_def lower_char_def Let_def)
    then show ?thesis
      by (simp add: fields Some q guardrails_json_def dec_guardrails_def dec_struct_def fld_def key_match_def dec_ptr_def Let_def)
  qed
qed

lemma guardrails_wf: "wf_json (guardrails_json g)"
  by (auto simp: guardrails_json_def opt_strs_def split: option.splits)

text \<open>The text in the metadata is decoded to the guardrails.\<close>

lemma guardrails_text: "unmarshal dec_guardrails \<lparr>ag_ToolPermissions = None\<rparr> (jparse (jprint (guardrails_json g))) = (g, False)"
  by (simp add: json_roundtrip guardrails_wf unmarshal_def guardrails_roundtrip)

end
