(* ===== verification/Approvals.thy ===== *)
theory Approvals
  imports Permissions Compaction
begin

text \<open>
  \<open>internal/harness/approvals.go\<close> and the routing of \<open>internal/harness/mcp.go\<close>:
  tool calls that wait for the user's confirmation are found again in the event log, and
  confirmed ones run, once.
\<close>

section \<open>MCP sessions and the execution of tools\<close>

record mcpSession =
  ms_clients :: "string \<rightharpoonup> string \<times> string"
  ms_defs :: "tool_def list"
  ms_route :: "string \<rightharpoonup> string \<times> string"

definition isMCPTool :: "mcpSession option \<Rightarrow> string \<Rightarrow> bool" where
  "isMCPTool m name = (case m of None \<Rightarrow> False | Some ms \<Rightarrow> ms_route ms name \<noteq> None)"

text \<open>A call of a tool takes a tick and is logged with its name and input.\<close>

definition call_tool ::
  "string \<Rightarrow> raw \<Rightarrow> (nat \<Rightarrow> gerr + (string \<times> bool)) \<Rightarrow> (world, gerr + (string \<times> bool)) io" where
  "call_tool name input f w =
     (Inr (f (tick w)), w\<lparr>tick := Suc (tick w), exec_log := exec_log w @ [(name, input)]\<rparr>)"

definition mcp_call :: "harness \<Rightarrow> mcpSession \<Rightarrow> string \<Rightarrow> raw \<Rightarrow> (world, string \<times> bool) io" where
  "mcp_call h ms fqName input =
     (case ms_route ms fqName of
        None \<Rightarrow> returnE (''unknown mcp tool: '' @ fqName, True)
      | Some (server, tool) \<Rightarrow>
          (case ms_clients ms server of
             None \<Rightarrow> returnE (''mcp server not connected: '' @ server, True)
           | Some (url, auth) \<Rightarrow>
               bindE (call_tool fqName input (\<lambda>n. h_McpCall h n url tool input))
                 (\<lambda>r. returnE (case r of Inl err \<Rightarrow> (''mcp call failed: '' @ err_str err, True) | Inr res \<Rightarrow> res))))"

definition run_builtin :: "harness \<Rightarrow> string \<Rightarrow> raw \<Rightarrow> (world, string \<times> bool) io" where
  "run_builtin h name input =
     (case h_Execute h name of
        None \<Rightarrow> returnE (''unknown tool: '' @ name, True)
      | Some t \<Rightarrow> bindE (call_tool name input (\<lambda>n. t n input))
          (\<lambda>r. returnE (case r of Inl err \<Rightarrow> (err_str err, True) | Inr res \<Rightarrow> res)))"

definition executeServerTool ::
  "harness \<Rightarrow> mcpSession option \<Rightarrow> string \<Rightarrow> raw \<Rightarrow> (world, string \<times> bool) io" where
  "executeServerTool h m name input =
     (case (if isMCPTool m name then m else None) of
        Some ms \<Rightarrow> mcp_call h ms name input
      | None \<Rightarrow> run_builtin h name input)"

definition tool_result_payload :: "string \<Rightarrow> string \<Rightarrow> string \<Rightarrow> string \<Rightarrow> bool \<Rightarrow> raw" where
  "tool_result_payload resultType modelID eventID content isErr = Some (JObj
     [(''content'', JStr content), (''is_error'', JBool isErr), (''tool_use_event_id'', JStr eventID),
      (''tool_use_id'', JStr modelID), (''type'', JStr resultType)])"

definition publishToolResult ::
  "env \<Rightarrow> ctx \<Rightarrow> string \<Rightarrow> string \<Rightarrow> string \<Rightarrow> string \<Rightarrow> string \<Rightarrow> string \<Rightarrow> bool \<Rightarrow> (world, unit) io" where
  "publishToolResult e c sid thread resultType modelID eventID content isErr =
     ignoreE (Publish e c sid resultType thread (tool_result_payload resultType modelID eventID content isErr))"

definition toolResultEventType :: "string \<Rightarrow> string" where
  "toolResultEventType ty = (if ty = ''agent.mcp_tool_use'' then ''agent.mcp_tool_result'' else ''agent.tool_result'')"

definition requiresActionIdlePayload :: "string list \<Rightarrow> raw" where
  "requiresActionIdlePayload ids = Some (JObj
     [(''stop_reason'', JObj [(''event_ids'', JArr (map JStr ids)),
        (''requires_action'', JObj [(''event_ids'', JArr (map JStr ids))]),
        (''type'', JStr ''requires_action'')]),
      (''type'', JStr ''session.status_idle'')])"

section \<open>What the log says about confirmations\<close>

record pendingConfirmation =
  pn_EventID :: string
  pn_EventType :: string
  pn_ModelToolUseID :: string
  pn_Name :: string
  pn_Input :: raw

record toolConfirmation =
  tc_Result :: string
  tc_DenyMessage :: string

record pending_payload =
  pp_ID :: string
  pp_Name :: string
  pp_Input :: raw
  pp_Requires :: bool

definition dec_pending :: "pending_payload dec" where
  "dec_pending = dec_struct
     [fld ''id'' pp_ID pp_ID_update dec_str,
      fld ''name'' pp_Name pp_Name_update dec_str,
      fld ''input'' pp_Input pp_Input_update dec_raw,
      fld ''requires_confirmation'' pp_Requires pp_Requires_update dec_bool]"

definition pending_of :: "EventRow \<Rightarrow> pendingConfirmation option" where
  "pending_of ev =
     (if ev_Type ev \<noteq> ''agent.tool_use'' \<and> ev_Type ev \<noteq> ''agent.mcp_tool_use'' then None
      else (case unmarshal dec_pending \<lparr>pp_ID = [], pp_Name = [], pp_Input = None, pp_Requires = False\<rparr> (ev_Payload ev) of
        (p, err) \<Rightarrow>
          if err \<or> \<not> pp_Requires p then None
          else Some \<lparr>pn_EventID = ev_ID ev, pn_EventType = ev_Type ev, pn_ModelToolUseID = pp_ID p,
             pn_Name = pp_Name p, pn_Input = or_raw (pp_Input p) (JObj [])\<rparr>))"

definition collectPendingConfirmations :: "EventRow list \<Rightarrow> pendingConfirmation list" where
  "collectPendingConfirmations evs = List.map_filter pending_of evs"

record confirmation_payload =
  cfp_ToolUseID :: string
  cfp_Result :: string
  cfp_DenyMessage :: string

definition dec_confirmation :: "confirmation_payload dec" where
  "dec_confirmation = dec_struct
     [fld ''tool_use_id'' cfp_ToolUseID cfp_ToolUseID_update dec_str,
      fld ''result'' cfp_Result cfp_Result_update dec_str,
      fld ''deny_message'' cfp_DenyMessage cfp_DenyMessage_update dec_str]"

definition confirmation_step :: "EventRow \<Rightarrow> (string \<rightharpoonup> toolConfirmation) \<Rightarrow> (string \<rightharpoonup> toolConfirmation)" where
  "confirmation_step ev m =
     (if ev_Type ev \<noteq> ''user.tool_confirmation'' then m
      else (case unmarshal dec_confirmation \<lparr>cfp_ToolUseID = [], cfp_Result = [], cfp_DenyMessage = []\<rparr> (ev_Payload ev) of
        (p, err) \<Rightarrow>
          if err \<or> cfp_ToolUseID p = [] then m
          else m(cfp_ToolUseID p \<mapsto> \<lparr>tc_Result = cfp_Result p, tc_DenyMessage = cfp_DenyMessage p\<rparr>)))"

definition collectToolConfirmations :: "EventRow list \<Rightarrow> (string \<rightharpoonup> toolConfirmation)" where
  "collectToolConfirmations evs = fold confirmation_step evs Map.empty"

record resolved_payload =
  rp_ToolUseID :: string
  rp_ToolUseEventID :: string

definition dec_resolved :: "resolved_payload dec" where
  "dec_resolved = dec_struct
     [fld ''tool_use_id'' rp_ToolUseID rp_ToolUseID_update dec_str,
      fld ''tool_use_event_id'' rp_ToolUseEventID rp_ToolUseEventID_update dec_str]"

definition resolved_step :: "EventRow \<Rightarrow> (string \<rightharpoonup> string) \<times> string set \<Rightarrow> (string \<rightharpoonup> string) \<times> string set" where
  "resolved_step ev st =
     (case st of (modelToEvent, resolved) \<Rightarrow>
        if ev_Type ev \<in> {''agent.tool_use'', ''agent.mcp_tool_use''} then
          (case unmarshal dec_id \<lparr>idp_ID = []\<rparr> (ev_Payload ev) of
             (p, err) \<Rightarrow> if \<not> err \<and> idp_ID p \<noteq> [] then (modelToEvent(idp_ID p \<mapsto> ev_ID ev), resolved) else st)
        else if ev_Type ev \<in> {''agent.tool_result'', ''agent.mcp_tool_result''} then
          (case unmarshal dec_resolved \<lparr>rp_ToolUseID = [], rp_ToolUseEventID = []\<rparr> (ev_Payload ev) of
             (p, err) \<Rightarrow>
               if err then st
               else if rp_ToolUseEventID p \<noteq> [] then (modelToEvent, insert (rp_ToolUseEventID p) resolved)
               else (let i = lookup_str modelToEvent (rp_ToolUseID p)
                     in if i \<noteq> [] then (modelToEvent, insert i resolved) else st))
        else st)"

definition collectResolvedToolUseEvents :: "EventRow list \<Rightarrow> string set" where
  "collectResolvedToolUseEvents evs = snd (fold resolved_step evs (Map.empty, {}))"

section \<open>Resolving\<close>

definition resolve_one ::
  "env \<Rightarrow> ctx \<Rightarrow> harness \<Rightarrow> mcpSession option \<Rightarrow> string \<Rightarrow> string \<Rightarrow> (string \<rightharpoonup> toolConfirmation) \<Rightarrow> string set
     \<Rightarrow> pendingConfirmation \<Rightarrow> (world, unit) io" where
  "resolve_one e c h m sid thread confirmations resolved p =
     (if pn_EventID p \<in> resolved then returnE ()
      else (case confirmations (pn_EventID p) of
        None \<Rightarrow> returnE ()
      | Some tc \<Rightarrow>
          (let resultType = toolResultEventType (pn_EventType p) in
           if tc_Result tc = ''deny'' then
             publishToolResult e c sid thread resultType (pn_ModelToolUseID p) (pn_EventID p)
               (if tc_DenyMessage tc = [] then ''tool use denied by user'' else tc_DenyMessage tc) True
           else if tc_Result tc \<noteq> ''allow'' then returnE ()
           else bindE (executeServerTool h m (pn_Name p) (pn_Input p)) (\<lambda>(content, isErr).
             publishToolResult e c sid thread resultType (pn_ModelToolUseID p) (pn_EventID p) content isErr))))"

definition resolvePendingToolConfirmations ::
  "env \<Rightarrow> ctx \<Rightarrow> harness \<Rightarrow> mcpSession option \<Rightarrow> string \<Rightarrow> string \<Rightarrow> (world, unit) io" where
  "resolvePendingToolConfirmations e c h m sid thread =
     bindE (ListEvents e c sid []) (\<lambda>rows.
       let evs = filterThreadEvents rows thread in
       forE (resolve_one e c h m sid thread (collectToolConfirmations evs) (collectResolvedToolUseEvents evs))
         (collectPendingConfirmations evs))"

section \<open>What resolving does\<close>

text \<open>Everything but the record of executed tools is as before.\<close>

definition calm :: "world \<Rightarrow> world \<Rightarrow> bool" where
  "calm w w' \<longleftrightarrow> sessions w' = sessions w \<and> events w' = events w \<and> chans w' = chans w \<and> subs w' = subs w
     \<and> panicked w' = panicked w \<and> hooked w' = hooked w \<and> tick w \<le> tick w'"

lemma calm_ok:
  assumes "calm w w'"
  shows "log_ok w' = log_ok w" "broker_ok w' = broker_ok w" "session_events sid w' = session_events sid w"
    "session_by sid w' = session_by sid w" "healthy e w \<Longrightarrow> healthy e w'"
proof -
  show ok: "log_ok w' = log_ok w" by (rule log_ok_frame) (use assms in \<open>simp_all add: calm_def\<close>)
  show ok': "broker_ok w' = broker_ok w" by (rule broker_ok_frame) (use assms in \<open>simp_all add: calm_def\<close>)
  show "healthy e w \<Longrightarrow> healthy e w'"
    using assms ok ok' by (auto simp: healthy_def fresh_ids_def calm_def)
qed (use assms in \<open>simp_all add: calm_def session_events_def session_by_def\<close>)

text \<open>The calls an execution makes: the tool itself when it is known and reachable.\<close>

definition executed :: "harness \<Rightarrow> mcpSession option \<Rightarrow> string \<Rightarrow> raw \<Rightarrow> (string \<times> raw) list" where
  "executed h m name input =
     (case (if isMCPTool m name then m else None) of
        Some ms \<Rightarrow> (case ms_route ms name of
            Some (server, tool) \<Rightarrow> if ms_clients ms server = None then [] else [(name, input)]
          | None \<Rightarrow> [])
      | None \<Rightarrow> if h_Execute h name = None then [] else [(name, input)])"

lemma executeServerTool_run:
  "\<exists>content isErr w'. executeServerTool h m name input w = (Inr (content, isErr), w')
     \<and> calm w w' \<and> exec_log w' = exec_log w @ executed h m name input"
  by (auto simp: executeServerTool_def executed_def run_builtin_def mcp_call_def call_tool_def bindE_def
      returnE_def calm_def split: option.splits sum.splits)

lemma published_exec: "published e sid ty thread payload w row w' \<Longrightarrow> exec_log w' = exec_log w"
  by (auto simp: published_def Let_def)

lemma Publish_exec: "exec_log (snd (Publish e c sid ty thread payload w)) = exec_log w"
  by (rule Publish_cases [of e c sid "ty" thread payload w]) (auto simp: published_exec)

text \<open>The calls that resolving one pending confirmation makes.\<close>

definition approved :: "EventRow list \<Rightarrow> pendingConfirmation \<Rightarrow> bool" where
  "approved evs p \<longleftrightarrow> pn_EventID p \<notin> collectResolvedToolUseEvents evs
     \<and> (\<exists>tc. collectToolConfirmations evs (pn_EventID p) = Some tc \<and> tc_Result tc = ''allow'')"

lemma resolve_one_exec:
  "fst (resolve_one e c h m sid thread (collectToolConfirmations evs) (collectResolvedToolUseEvents evs) p w) = Inr ()
   \<and> exec_log (snd (resolve_one e c h m sid thread (collectToolConfirmations evs) (collectResolvedToolUseEvents evs) p w))
      = exec_log w @ (if approved evs p then executed h m (pn_Name p) (pn_Input p) else [])"
  using executeServerTool_run [of h m "pn_Name p" "pn_Input p" w]
  by (auto simp: resolve_one_def approved_def publishToolResult_def ignoreE_def returnE_def Let_def bindE_def
      Publish_exec split: option.splits)

lemma forE_exec:
  assumes "\<And>x w. fst (f x w) = Inr () \<and> exec_log (snd (f x w)) = exec_log w @ g x"
  shows "fst (forE f xs w) = Inr () \<and> exec_log (snd (forE f xs w)) = exec_log w @ concat (map g xs)"
proof (induction xs arbitrary: w)
  case (Cons x xs)
  obtain r w' where x: "f x w = (r, w')" by (cases "f x w")
  then show ?case using assms [of x w] Cons.IH [of w'] by (simp add: bindE_def)
qed (simp add: returnE_def)

section \<open>Resolved calls stay resolved\<close>

lemma resolved_mono: "snd st \<subseteq> snd (fold resolved_step evs st)"
proof (induction evs arbitrary: st)
  case (Cons ev evs)
  have "snd st \<subseteq> snd (resolved_step ev st)"
    by (auto simp: resolved_step_def Let_def split: prod.splits)
  then show ?case using Cons.IH [of "resolved_step ev st"] by auto
qed simp

lemma collectResolved_append: "collectResolvedToolUseEvents evs \<subseteq> collectResolvedToolUseEvents (evs @ later)"
  by (simp add: collectResolvedToolUseEvents_def resolved_mono)

lemma tool_result_resolves:
  assumes "ev_Type row \<in> {''agent.tool_result'', ''agent.mcp_tool_result''}"
    and "ev_Payload row = tool_result_payload ty modelID eventID content isErr" "eventID \<noteq> []"
  shows "eventID \<in> collectResolvedToolUseEvents (evs @ [row])"
proof -
  obtain m r where st: "fold resolved_step evs (Map.empty, {}) = (m, r)" by (cases "fold resolved_step evs (Map.empty, {})")
  have "unmarshal dec_resolved \<lparr>rp_ToolUseID = [], rp_ToolUseEventID = []\<rparr> (ev_Payload row)
      = (\<lparr>rp_ToolUseID = modelID, rp_ToolUseEventID = eventID\<rparr>, False)"
    by (simp add: assms(2) tool_result_payload_def dec_resolved_def json_simps)
  then show ?thesis
    using assms(1,3) by (auto simp: collectResolvedToolUseEvents_def st resolved_step_def)
qed

text \<open>The rows that resolving adds.\<close>

definition result_row :: "string \<Rightarrow> EventRow \<Rightarrow> bool" where
  "result_row thread r \<longleftrightarrow> ev_Type r \<in> {''agent.tool_result'', ''agent.mcp_tool_result''}
     \<and> ev_ThreadID r = or_primary thread"

lemma result_rows_silent:
  assumes "\<forall>r\<in>set rs. result_row thread r"
  shows "filterThreadEvents (rows @ rs) thread = filterThreadEvents rows thread @ rs"
    "collectPendingConfirmations (evs @ rs) = collectPendingConfirmations evs"
    "collectToolConfirmations (evs @ rs) = collectToolConfirmations evs"
proof -
  show "filterThreadEvents (rows @ rs) thread = filterThreadEvents rows thread @ rs"
    using assms by (auto simp: filterThreadEvents_def result_row_def filter_id_conv)
  have "pending_of r = None" "confirmation_step r m = m" if "r \<in> set rs" for r m
    using assms that by (force simp: pending_of_def confirmation_step_def result_row_def)+
  then have "List.map_filter pending_of rs = []" "fold confirmation_step rs m = m" for m
    by (induction rs arbitrary: m) (simp_all add: List.map_filter_def)
  then show "collectPendingConfirmations (evs @ rs) = collectPendingConfirmations evs"
    "collectToolConfirmations (evs @ rs) = collectToolConfirmations evs"
    by (simp_all add: collectPendingConfirmations_def collectToolConfirmations_def List.map_filter_def)
qed

text \<open>A publication of a result in good health, as a step of the log.\<close>

definition adds :: "env \<Rightarrow> string \<Rightarrow> string \<Rightarrow> world \<Rightarrow> world \<Rightarrow> EventRow list \<Rightarrow> bool" where
  "adds e sid thread w w' rs \<longleftrightarrow> healthy e w' \<and> session_by sid w' \<noteq> None
     \<and> session_events sid w' = session_events sid w @ rs \<and> (\<forall>r\<in>set rs. result_row thread r)"

lemma adds_trans: "adds e sid thread a b rs \<Longrightarrow> adds e sid thread b d rs' \<Longrightarrow> adds e sid thread a d (rs @ rs')"
  by (auto simp: adds_def)

lemma publish_result_adds:
  assumes "healthy e w" "\<And>n. \<not> cancelled c n" "session_by sid w \<noteq> None" "eventID \<noteq> []"
  obtains w' r where
    "publishToolResult e c sid thread (toolResultEventType ty) modelID eventID content isErr w = (Inr (), w')"
    "adds e sid thread w w' [r]" "\<And>evs. eventID \<in> collectResolvedToolUseEvents (evs @ [r])"
proof (rule Publish_succeeds [OF assms(1-3), of "tool_result_payload (toolResultEventType ty) modelID eventID content isErr"
      "toolResultEventType ty" thread])
  show "tool_result_payload (toolResultEventType ty) modelID eventID content isErr \<noteq> None"
    by (simp add: tool_result_payload_def)
next
  fix row w'
  assume run: "Publish e c sid (toolResultEventType ty) thread (tool_result_payload (toolResultEventType ty) modelID eventID content isErr) w
      = (Inr (event_of_row row), w')"
    and p: "published e sid (toolResultEventType ty) thread (tool_result_payload (toolResultEventType ty) modelID eventID content isErr) w row w'"
    and h: "healthy e w'"
  have "log_ok w" using assms(1) by (simp add: healthy_def)
  note R = published_row [OF p] and L = published_log(2) [OF p this]
  have "adds e sid thread w w' [row]"
    using h L R published_session(1) [OF p, of sid] assms(3) by (auto simp: adds_def result_row_def toolResultEventType_def)
  moreover have "eventID \<in> collectResolvedToolUseEvents (evs @ [row])" for evs
    by (rule tool_result_resolves) (use R assms(4) in \<open>auto simp: toolResultEventType_def\<close>)
  ultimately show ?thesis
    using that run by (simp add: publishToolResult_def ignoreE_def)
qed

lemma resolve_one_adds:
  assumes "healthy e w" "\<And>n. \<not> cancelled c n" "session_by sid w \<noteq> None" "pn_EventID p \<noteq> []"
  obtains w' rs where
    "resolve_one e c h m sid thread (collectToolConfirmations evs) (collectResolvedToolUseEvents evs) p w = (Inr (), w')"
    "adds e sid thread w w' rs" "\<And>evs'. approved evs p \<Longrightarrow> pn_EventID p \<in> collectResolvedToolUseEvents (evs' @ rs)"
proof -
  let ?run = "resolve_one e c h m sid thread (collectToolConfirmations evs) (collectResolvedToolUseEvents evs) p w"
  have id: "adds e sid thread w w []" using assms(1,3) by (simp add: adds_def)
  consider (skip) "?run = (Inr (), w)" "\<not> approved evs p"
    | (deny) msg where "?run = publishToolResult e c sid thread (toolResultEventType (pn_EventType p)) (pn_ModelToolUseID p)
         (pn_EventID p) msg True w" "\<not> approved evs p"
    | (allow) "?run = bindE (executeServerTool h m (pn_Name p) (pn_Input p)) (\<lambda>(content, isErr).
         publishToolResult e c sid thread (toolResultEventType (pn_EventType p)) (pn_ModelToolUseID p) (pn_EventID p) content isErr) w"
  proof (cases "pn_EventID p \<in> collectResolvedToolUseEvents evs")
    case True
    then show ?thesis using that(1) by (simp add: resolve_one_def approved_def returnE_def)
  next
    case new: False
    show ?thesis
    proof (cases "collectToolConfirmations evs (pn_EventID p)")
      case None
      then show ?thesis using that(1) by (simp add: resolve_one_def approved_def returnE_def)
    next
      case (Some tc)
      consider "tc_Result tc = ''deny''" | "tc_Result tc = ''allow''" | "tc_Result tc \<noteq> ''deny''" "tc_Result tc \<noteq> ''allow''"
        by blast
      then show ?thesis
        by cases (use that new Some in \<open>simp_all add: resolve_one_def approved_def returnE_def Let_def\<close>)
    qed
  qed
  then show ?thesis
  proof cases
    case skip
    then show ?thesis using that id by blast
  next
    case deny
    show ?thesis
      by (rule publish_result_adds [OF assms]) (use that deny in auto)
  next
    case allow
    obtain content isErr w1 where ex: "executeServerTool h m (pn_Name p) (pn_Input p) w = (Inr (content, isErr), w1)"
      and calm: "calm w w1"
      using executeServerTool_run by blast
    note C = calm_ok [OF calm]
    have s1: "session_by sid w1 \<noteq> None" using assms(3) C(4) by simp
    show ?thesis
    proof (rule publish_result_adds [OF C(5) [OF assms(1)] assms(2) s1 assms(4), of thread "pn_EventType p"
          "pn_ModelToolUseID p" content isErr])
      fix w' r
      assume "publishToolResult e c sid thread (toolResultEventType (pn_EventType p)) (pn_ModelToolUseID p) (pn_EventID p)
          content isErr w1 = (Inr (), w')"
        and a: "adds e sid thread w1 w' [r]" "\<And>evs. pn_EventID p \<in> collectResolvedToolUseEvents (evs @ [r])"
      then have "?run = (Inr (), w')" using allow ex by (simp add: bindE_def)
      moreover have "adds e sid thread w w' [r]" using a(1) C(3) by (simp add: adds_def)
      ultimately show ?thesis using that a(2) by blast
    qed
  qed
qed

lemma forE_adds:
  assumes "healthy e w" "\<And>n. \<not> cancelled c n" "session_by sid w \<noteq> None" "\<forall>p\<in>set ps. pn_EventID p \<noteq> []"
  shows "\<exists>w' rs. forE (resolve_one e c h m sid thread (collectToolConfirmations evs) (collectResolvedToolUseEvents evs)) ps w = (Inr (), w')
    \<and> adds e sid thread w w' rs
    \<and> (\<forall>p\<in>set ps. approved evs p \<longrightarrow> (\<forall>evs'. pn_EventID p \<in> collectResolvedToolUseEvents (evs' @ rs)))"
  using assms(1,3,4)
proof (induction ps arbitrary: w)
  case Nil
  then show ?case by (auto simp: returnE_def adds_def)
next
  case (Cons p ps)
  have pid: "pn_EventID p \<noteq> []" using Cons.prems(3) by simp
  obtain w1 rs1 where one:
    "resolve_one e c h m sid thread (collectToolConfirmations evs) (collectResolvedToolUseEvents evs) p w = (Inr (), w1)"
    "adds e sid thread w w1 rs1" "\<And>evs'. approved evs p \<Longrightarrow> pn_EventID p \<in> collectResolvedToolUseEvents (evs' @ rs1)"
    by (rule resolve_one_adds [OF Cons.prems(1) assms(2) Cons.prems(2) pid]) blast
  have "healthy e w1" "session_by sid w1 \<noteq> None" using one(2) by (auto simp: adds_def)
  from Cons.IH [OF this] Cons.prems(3) obtain w' rs2 where rest:
    "forE (resolve_one e c h m sid thread (collectToolConfirmations evs) (collectResolvedToolUseEvents evs)) ps w1 = (Inr (), w')"
    "adds e sid thread w1 w' rs2"
    "\<forall>p\<in>set ps. approved evs p \<longrightarrow> (\<forall>evs'. pn_EventID p \<in> collectResolvedToolUseEvents (evs' @ rs2))"
    by auto
  have "pn_EventID p \<in> collectResolvedToolUseEvents (evs' @ rs1 @ rs2)" if "approved evs p" for evs'
    using collectResolved_append [of "evs' @ rs1" rs2] one(3) [OF that, of evs'] by auto
  moreover have "pn_EventID q \<in> collectResolvedToolUseEvents (evs' @ rs1 @ rs2)" if "q \<in> set ps" "approved evs q" for q evs'
    using rest(3) that by (metis append.assoc)
  ultimately show ?case
    using one(1) rest(1) adds_trans [OF one(2) rest(2)] by (auto simp: bindE_def)
qed

section \<open>Properties\<close>

text \<open>C2: resolving confirmations runs exactly the tools that the log says
the user allowed and that have no result yet, in the order of the log, each with the input
recorded when the model asked for it; a denied call, an unanswered one and one with a
result run nothing. This does not depend on whether the results can be written.\<close>

theorem resolve_runs_exactly_the_allowed:
  assumes "log_ok w" "resolvePendingToolConfirmations e c h m sid thread w = (r, w')"
  defines "evs \<equiv> filterThreadEvents (session_events sid w) thread"
  shows "exec_log w' = exec_log w @
    (case r of Inl x \<Rightarrow> [] | Inr u \<Rightarrow> concat (map (\<lambda>p. if approved evs p
        then executed h m (pn_Name p) (pn_Input p) else []) (collectPendingConfirmations evs)))"
proof -
  obtain r1 w1 where l: "ListEvents e c sid [] w = (r1, w1)" by (cases "ListEvents e c sid [] w")
  note L = ListEvents_log [OF assms(1) l]
  show ?thesis
  proof (cases r1)
    case (Inl x)
    then show ?thesis using assms(2) L(1) by (auto simp: resolvePendingToolConfirmations_def bindE_def l)
  next
    case (Inr rows)
    have rows: "rows = session_events sid w" using L(2) [OF Inr] by simp
    have "(r, w') = forE (resolve_one e c h m sid thread (collectToolConfirmations evs) (collectResolvedToolUseEvents evs))
         (collectPendingConfirmations evs) w1"
      using assms(2) Inr by (simp add: resolvePendingToolConfirmations_def bindE_def l rows evs_def Let_def)
    moreover have "fst (forE (resolve_one e c h m sid thread (collectToolConfirmations evs) (collectResolvedToolUseEvents evs))
         (collectPendingConfirmations evs) w1) = Inr ()
      \<and> exec_log (snd (forE (resolve_one e c h m sid thread (collectToolConfirmations evs) (collectResolvedToolUseEvents evs))
         (collectPendingConfirmations evs) w1)) = exec_log w1 @ concat (map (\<lambda>p. if approved evs p
        then executed h m (pn_Name p) (pn_Input p) else []) (collectPendingConfirmations evs))"
      by (rule forE_exec [OF resolve_one_exec])
    ultimately have "r = Inr () \<and> exec_log w' = exec_log w1 @ concat (map (\<lambda>p. if approved evs p
        then executed h m (pn_Name p) (pn_Input p) else []) (collectPendingConfirmations evs))"
      by (metis fst_conv snd_conv)
    then show ?thesis using L(1) by simp
  qed
qed


section \<open>Witnesses\<close>

definition bash_harness :: harness where
  "bash_harness = (plain_harness (\<lambda>n req. Inr [StopReason ''end_turn'' zero_usage]))
     \<lparr>h_Execute := (\<lambda>name. if name = ''bash'' then Some (\<lambda>n i. Inr (''ok'', False)) else None)\<rparr>"

definition confirm_world :: "string \<Rightarrow> world" where
  "confirm_world answer = empty_world\<lparr>tick := 10, sessions := [(demo_session ''s'' ''idle'')\<lparr>ss_NextSeq := 3\<rparr>],
     events := [demo_event 1 ''agent.tool_use'' (JObj [(''id'', JStr ''t1''), (''name'', JStr ''bash''),
                  (''input'', JObj []), (''requires_confirmation'', JBool True)]),
                demo_event 2 ''user.tool_confirmation'' (JObj [(''tool_use_id'', JStr ''evt-1''), (''result'', JStr answer)])]\<rparr>"

lemma confirm_ok: "log_ok (confirm_world ''allow'')" "broker_ok (confirm_world ''allow'')"
  by code_simp+

lemma resolve_runs_exactly_the_allowed_witness:
  "\<exists>w'. resolvePendingToolConfirmations demo_env Background bash_harness None ''s'' [] (confirm_world ''allow'') = (Inr (), w')
     \<and> exec_log w' = [(''bash'', Some (JObj []))]"
proof -
  let ?r = "resolvePendingToolConfirmations demo_env Background bash_harness None ''s'' [] (confirm_world ''allow'')"
  let ?evs = "filterThreadEvents (session_events ''s'' (confirm_world ''allow'')) []"
  obtain r w' where r: "?r = (r, w')" by (cases ?r)
  have "fst ?r = Inr ()" by code_simp
  moreover have "exec_log (confirm_world ''allow'') = []" by code_simp
  moreover have "map (\<lambda>p. if pn_EventID p \<notin> collectResolvedToolUseEvents ?evs
       \<and> map_option tc_Result (collectToolConfirmations ?evs (pn_EventID p)) = Some ''allow''
     then executed bash_harness None (pn_Name p) (pn_Input p) else []) (collectPendingConfirmations ?evs) = [[(''bash'', Some (JObj []))]]"
    by code_simp
  moreover have "approved ?evs p \<longleftrightarrow> pn_EventID p \<notin> collectResolvedToolUseEvents ?evs
       \<and> map_option tc_Result (collectToolConfirmations ?evs (pn_EventID p)) = Some ''allow''" for p
    by (auto simp: approved_def)
  ultimately show ?thesis
    using resolve_runs_exactly_the_allowed [OF confirm_ok(1) r] by (simp add: r)
qed


end
