(* ===== verification/StoreMemory.thy ===== *)
theory StoreMemory
  imports Tables "HOL-Library.List_Lexorder"
begin

text \<open>
  \<open>internal/store/memory.go\<close>: memory stores, the memories in them, and the version
  history that audits every change of a memory. The digest \<open>sha256Hex\<close> is a parameter.
\<close>

section \<open>Memory stores\<close>

definition mstore_by :: "string \<Rightarrow> world \<Rightarrow> MemoryStoreRow option" where
  "mstore_by mid w = select_one (\<lambda>r. ms_ID r = mid) (memory_stores w)"

definition GetMemoryStore :: "env \<Rightarrow> ctx \<Rightarrow> string \<Rightarrow> (world, MemoryStoreRow) io" where
  "GetMemoryStore e c mid = bindE (queryE e c (mstore_by mid)) (optE ErrNotFound)"

text \<open>The key, and the name unique in its tenant.\<close>

definition mstore_insert_ok :: "MemoryStoreRow \<Rightarrow> world \<Rightarrow> bool" where
  "mstore_insert_ok r w \<longleftrightarrow> mstore_by (ms_ID r) w = None
     \<and> list_all (\<lambda>x. \<not> (ms_TenantID x = ms_TenantID r \<and> ms_Name x = ms_Name r)) (memory_stores w)"

definition CreateMemoryStore :: "env \<Rightarrow> ctx \<Rightarrow> string \<Rightarrow> string \<Rightarrow> string \<Rightarrow> (world, MemoryStoreRow) io" where
  "CreateMemoryStore e c tenant name description =
     bindE (NewID e ''mst'') (\<lambda>mid. bindE (now e) (\<lambda>t.
       let r = \<lparr>ms_ID = mid, ms_TenantID = or_default_tenant tenant, ms_Name = name,
             ms_Description = nullStr description, ms_ArchivedAt = None, ms_CreatedAt = t, ms_UpdatedAt = t\<rparr>
       in bindE (insertE e c (mstore_insert_ok r) (\<lambda>w. w\<lparr>memory_stores := memory_stores w @ [r]\<rparr>))
            (\<lambda>_. GetMemoryStore e c mid)))"

definition ListMemoryStores :: "env \<Rightarrow> ctx \<Rightarrow> string \<Rightarrow> int \<Rightarrow> (world, MemoryStoreRow list) io" where
  "ListMemoryStores e c tenant limit =
     bindE (queryE e c (\<lambda>w. map ms_ID (take (clamp_limit 50 limit)
        (sort_key (\<lambda>r. - ms_CreatedAt r)
          (select (\<lambda>r. ms_TenantID r = tenant \<and> ms_ArchivedAt r = None) (memory_stores w))))))
       (mapE (GetMemoryStore e c))"

text \<open>Deleting a store cascades to its memories and their versions.\<close>

definition DeleteMemoryStore :: "env \<Rightarrow> ctx \<Rightarrow> string \<Rightarrow> (world, unit) io" where
  "DeleteMemoryStore e c mid =
     bindE (updateE e c (\<lambda>w. affected (\<lambda>r. ms_ID r = mid) (memory_stores w))
       (\<lambda>w. w\<lparr>memory_stores := delete_where (\<lambda>r. ms_ID r = mid) (memory_stores w),
               memories := delete_where (\<lambda>r. mm_StoreID r = mid \<and> mstore_by mid w \<noteq> None) (memories w),
               memory_versions := delete_where (\<lambda>r. mv_StoreID r = mid \<and> mstore_by mid w \<noteq> None)
                 (memory_versions w)\<rparr>))
       (\<lambda>_. returnE ())"

definition live_mstore :: "string \<Rightarrow> MemoryStoreRow \<Rightarrow> bool" where
  "live_mstore mid r \<longleftrightarrow> ms_ID r = mid \<and> ms_ArchivedAt r = None"

text \<open>A new name must not be taken by another store of the tenant.\<close>

definition mstore_rename_ok :: "string \<Rightarrow> string \<Rightarrow> world \<Rightarrow> bool" where
  "mstore_rename_ok mid name w \<longleftrightarrow>
     (case select_one (live_mstore mid) (memory_stores w) of
        None \<Rightarrow> True
      | Some r \<Rightarrow> list_all (\<lambda>x. ms_ID x = mid \<or> \<not> (ms_TenantID x = ms_TenantID r \<and> ms_Name x = name))
                    (memory_stores w))"

definition UpdateMemoryStore :: "env \<Rightarrow> ctx \<Rightarrow> string \<Rightarrow> string \<Rightarrow> string \<Rightarrow> (world, MemoryStoreRow) io" where
  "UpdateMemoryStore e c mid name description =
     bindE (now e) (\<lambda>t. bindE (checked_updateE e c (mstore_rename_ok mid name)
         (\<lambda>w. affected (live_mstore mid) (memory_stores w))
         (\<lambda>w. w\<lparr>memory_stores := update_where (live_mstore mid)
            (\<lambda>r. r\<lparr>ms_Name := name, ms_Description := nullStr description, ms_UpdatedAt := t\<rparr>) (memory_stores w)\<rparr>))
       (\<lambda>n. if n = 0 then throwE ErrNotFound else GetMemoryStore e c mid))"

definition ArchiveMemoryStore :: "env \<Rightarrow> ctx \<Rightarrow> string \<Rightarrow> (world, MemoryStoreRow) io" where
  "ArchiveMemoryStore e c mid =
     bindE (now e) (\<lambda>t. bindE (updateE e c (\<lambda>w. affected (live_mstore mid) (memory_stores w))
         (\<lambda>w. w\<lparr>memory_stores := update_where (live_mstore mid)
            (\<lambda>r. r\<lparr>ms_ArchivedAt := Some t, ms_UpdatedAt := t\<rparr>) (memory_stores w)\<rparr>))
       (\<lambda>n. if n = 0 then throwE ErrNotFound else GetMemoryStore e c mid))"

section \<open>Versions\<close>

record MemoryVersionInput =
  vi_StoreID :: string
  vi_MemoryID :: string
  vi_TenantID :: string
  vi_Operation :: string
  vi_Path :: string
  vi_Content :: string
  vi_Sha256 :: string
  vi_Size :: int
  vi_CreatedAtMS :: int

definition mversion_by :: "string \<Rightarrow> world \<Rightarrow> MemoryVersionRow option" where
  "mversion_by vid w = select_one (\<lambda>r. mv_ID r = vid) (memory_versions w)"

definition mversion_insert_ok :: "MemoryVersionRow \<Rightarrow> world \<Rightarrow> bool" where
  "mversion_insert_ok r w \<longleftrightarrow> mversion_by (mv_ID r) w = None \<and> mstore_by (mv_StoreID r) w \<noteq> None
     \<and> mv_Operation r \<in> {''created'', ''modified'', ''deleted''}"

definition mversion_row :: "string \<Rightarrow> int \<Rightarrow> MemoryVersionInput \<Rightarrow> MemoryVersionRow" where
  "mversion_row vid t inp = \<lparr>mv_ID = vid, mv_StoreID = vi_StoreID inp, mv_MemoryID = vi_MemoryID inp,
     mv_TenantID = or_default_tenant (vi_TenantID inp), mv_Operation = vi_Operation inp,
     mv_Path = Some (vi_Path inp), mv_Content = Some (vi_Content inp), mv_Sha256 = Some (vi_Sha256 inp),
     mv_Size = Some (vi_Size inp), mv_CreatedAt = t, mv_RedactedAt = None\<rparr>"

definition insertMemoryVersion :: "env \<Rightarrow> ctx \<Rightarrow> MemoryVersionInput \<Rightarrow> (world, unit) io" where
  "insertMemoryVersion e c inp =
     bindE (NewID e ''mver'') (\<lambda>vid.
       bindE (if vi_CreatedAtMS inp = 0 then now e else returnE (vi_CreatedAtMS inp)) (\<lambda>t.
         let r = mversion_row vid t inp
         in insertE e c (mversion_insert_ok r) (\<lambda>w. w\<lparr>memory_versions := memory_versions w @ [r]\<rparr>)))"

definition GetMemoryVersion :: "env \<Rightarrow> ctx \<Rightarrow> string \<Rightarrow> (world, MemoryVersionRow) io" where
  "GetMemoryVersion e c vid = bindE (queryE e c (mversion_by vid)) (optE ErrNotFound)"

definition ListMemoryVersions :: "env \<Rightarrow> ctx \<Rightarrow> string \<Rightarrow> string \<Rightarrow> int \<Rightarrow> (world, MemoryVersionRow list) io" where
  "ListMemoryVersions e c storeID memoryID limit =
     bindE (queryE e c (\<lambda>w. map mv_ID (take (clamp_limit 100 limit)
        (sort_key (\<lambda>r. - mv_CreatedAt r)
          (select (\<lambda>r. mv_StoreID r = storeID \<and> (memoryID = [] \<or> mv_MemoryID r = memoryID)) (memory_versions w))))))
       (mapE (GetMemoryVersion e c))"

definition RedactMemoryVersion :: "env \<Rightarrow> ctx \<Rightarrow> string \<Rightarrow> (world, MemoryVersionRow) io" where
  "RedactMemoryVersion e c vid =
     bindE (now e) (\<lambda>t. bindE (updateE e c (\<lambda>w. affected (\<lambda>r. mv_ID r = vid) (memory_versions w))
         (\<lambda>w. w\<lparr>memory_versions := update_where (\<lambda>r. mv_ID r = vid)
            (\<lambda>r. r\<lparr>mv_Path := None, mv_Content := None, mv_Sha256 := None, mv_Size := None, mv_RedactedAt := Some t\<rparr>)
            (memory_versions w)\<rparr>))
       (\<lambda>_. GetMemoryVersion e c vid))"

section \<open>Memories\<close>

record CreateMemoryInput =
  cm_StoreID :: string
  cm_TenantID :: string
  cm_Path :: string
  cm_Content :: string

definition memory_by :: "string \<Rightarrow> world \<Rightarrow> MemoryRow option" where
  "memory_by mid w = select_one (\<lambda>r. mm_ID r = mid) (memories w)"

definition memory_at :: "string \<Rightarrow> string \<Rightarrow> world \<Rightarrow> MemoryRow option" where
  "memory_at sid path w = select_one (\<lambda>r. mm_StoreID r = sid \<and> mm_Path r = path) (memories w)"

text \<open>The key, the store, and one memory per path of a store.\<close>

definition memory_insert_ok :: "MemoryRow \<Rightarrow> world \<Rightarrow> bool" where
  "memory_insert_ok r w \<longleftrightarrow> memory_by (mm_ID r) w = None \<and> mstore_by (mm_StoreID r) w \<noteq> None
     \<and> memory_at (mm_StoreID r) (mm_Path r) w = None"

definition GetMemory :: "env \<Rightarrow> ctx \<Rightarrow> string \<Rightarrow> (world, MemoryRow) io" where
  "GetMemory e c mid = bindE (queryE e c (memory_by mid)) (optE ErrNotFound)"

definition memory_row :: "(string \<Rightarrow> string) \<Rightarrow> string \<Rightarrow> int \<Rightarrow> CreateMemoryInput \<Rightarrow> MemoryRow" where
  "memory_row sha mid t inp = \<lparr>mm_ID = mid, mm_StoreID = cm_StoreID inp,
     mm_TenantID = or_default_tenant (cm_TenantID inp), mm_Path = cm_Path inp, mm_Content = cm_Content inp,
     mm_Sha256 = sha (cm_Content inp), mm_Size = int (length (cm_Content inp)), mm_CreatedAt = t, mm_UpdatedAt = t\<rparr>"

text \<open>The version that records a memory's state after, or before, an operation.\<close>

definition version_of :: "string \<Rightarrow> int \<Rightarrow> MemoryRow \<Rightarrow> MemoryVersionInput" where
  "version_of op t r = \<lparr>vi_StoreID = mm_StoreID r, vi_MemoryID = mm_ID r, vi_TenantID = mm_TenantID r,
     vi_Operation = op, vi_Path = mm_Path r, vi_Content = mm_Content r, vi_Sha256 = mm_Sha256 r,
     vi_Size = mm_Size r, vi_CreatedAtMS = t\<rparr>"

definition CreateMemory :: "env \<Rightarrow> ctx \<Rightarrow> (string \<Rightarrow> string) \<Rightarrow> CreateMemoryInput \<Rightarrow> (world, MemoryRow) io" where
  "CreateMemory e c sha inp =
     bindE (NewID e ''mem'') (\<lambda>mid. bindE (now e) (\<lambda>t.
       let r = memory_row sha mid t inp
       in bindE (insertE e c (memory_insert_ok r) (\<lambda>w. w\<lparr>memories := memories w @ [r]\<rparr>)) (\<lambda>_.
          bindE (insertMemoryVersion e c (version_of ''created'' t r)) (\<lambda>_. GetMemory e c mid))))"

definition set_content :: "(string \<Rightarrow> string) \<Rightarrow> string \<Rightarrow> string \<Rightarrow> int \<Rightarrow> MemoryRow \<Rightarrow> MemoryRow" where
  "set_content sha path content t r = r\<lparr>mm_Path := path, mm_Content := content, mm_Sha256 := sha content,
     mm_Size := int (length content), mm_UpdatedAt := t\<rparr>"

definition on_memory :: "string \<Rightarrow> (MemoryRow \<Rightarrow> MemoryRow) \<Rightarrow> world \<Rightarrow> world" where
  "on_memory mid f w = w\<lparr>memories := update_where (\<lambda>r. mm_ID r = mid) f (memories w)\<rparr>"

definition UpsertMemory :: "env \<Rightarrow> ctx \<Rightarrow> (string \<Rightarrow> string) \<Rightarrow> CreateMemoryInput \<Rightarrow> (world, MemoryRow) io" where
  "UpsertMemory e c sha inp =
     bindE (now e) (\<lambda>t.
     bindE (queryE e c (\<lambda>w. map_option mm_ID (memory_at (cm_StoreID inp) (cm_Path inp) w))) (\<lambda>existing.
       case existing of
         None \<Rightarrow> CreateMemory e c sha inp
       | Some mid \<Rightarrow>
           bindE (updateE e c (\<lambda>w. affected (\<lambda>r. mm_ID r = mid) (memories w))
             (on_memory mid (\<lambda>r. set_content sha (mm_Path r) (cm_Content inp) t r))) (\<lambda>_.
           bindE (GetMemory e c mid) (\<lambda>before.
           bindE (insertMemoryVersion e c
             \<lparr>vi_StoreID = mm_StoreID before, vi_MemoryID = mm_ID before, vi_TenantID = mm_TenantID before,
              vi_Operation = ''modified'', vi_Path = mm_Path before, vi_Content = cm_Content inp,
              vi_Sha256 = sha (cm_Content inp), vi_Size = int (length (cm_Content inp)), vi_CreatedAtMS = t\<rparr>) (\<lambda>_.
           GetMemory e c mid)))))"

text \<open>A changed path must not be the path of another memory of the store.\<close>

definition move_ok :: "string \<Rightarrow> string \<Rightarrow> world \<Rightarrow> bool" where
  "move_ok mid path w \<longleftrightarrow>
     (case memory_by mid w of
        None \<Rightarrow> True
      | Some r \<Rightarrow> list_all (\<lambda>x. mm_ID x = mid \<or> \<not> (mm_StoreID x = mm_StoreID r \<and> mm_Path x = path)) (memories w))"

definition UpdateMemory ::
  "env \<Rightarrow> ctx \<Rightarrow> (string \<Rightarrow> string) \<Rightarrow> string \<Rightarrow> string \<Rightarrow> string option \<Rightarrow> (world, MemoryRow) io" where
  "UpdateMemory e c sha mid path0 content0 =
     bindE (GetMemory e c mid) (\<lambda>current.
       let path = (if path0 = [] then mm_Path current else path0);
           content = (case content0 of None \<Rightarrow> mm_Content current | Some s \<Rightarrow> s)
       in bindE (now e) (\<lambda>t.
          bindE (checked_updateE e c (move_ok mid path) (\<lambda>w. affected (\<lambda>r. mm_ID r = mid) (memories w))
                   (on_memory mid (set_content sha path content t))) (\<lambda>_.
          bindE (insertMemoryVersion e c
            \<lparr>vi_StoreID = mm_StoreID current, vi_MemoryID = mm_ID current, vi_TenantID = mm_TenantID current,
             vi_Operation = ''modified'', vi_Path = path, vi_Content = content, vi_Sha256 = sha content,
             vi_Size = int (length content), vi_CreatedAtMS = t\<rparr>) (\<lambda>_.
          GetMemory e c mid))))"

definition DeleteMemory :: "env \<Rightarrow> ctx \<Rightarrow> string \<Rightarrow> (world, unit) io" where
  "DeleteMemory e c mid =
     bindE (GetMemory e c mid) (\<lambda>current. bindE (now e) (\<lambda>t.
       bindE (insertMemoryVersion e c (version_of ''deleted'' t current)) (\<lambda>_.
       bindE (updateE e c (\<lambda>w. affected (\<lambda>r. mm_ID r = mid) (memories w))
         (\<lambda>w. w\<lparr>memories := delete_where (\<lambda>r. mm_ID r = mid) (memories w)\<rparr>)) (\<lambda>_. returnE ()))))"

section \<open>Listing by prefix\<close>

text \<open>
  SQLite's \<open>LIKE\<close>: \<open>%\<close> stands for any characters, \<open>_\<close> for one character (not byte) of
  UTF-8, other bytes match up to the case of ASCII letters.
\<close>

definition continuation :: "char \<Rightarrow> bool" where
  "continuation ch = (let n = of_char ch :: nat in 128 \<le> n \<and> n < 192)"

definition drop_rune :: "string \<Rightarrow> string" where
  "drop_rune s = dropWhile continuation (tl s)"

function rune_tails :: "string \<Rightarrow> string list" where
  "rune_tails s = s # (if s = [] then [] else rune_tails (drop_rune s))"
  by pat_completeness auto
termination
proof (relation "measure length")
  fix s :: string
  assume "s \<noteq> []"
  then show "(drop_rune s, s) \<in> measure length"
    using length_dropWhile_le [of continuation "tl s"] by (cases s) (auto simp: drop_rune_def)
qed simp

declare rune_tails.simps [simp del]

primrec like :: "string \<Rightarrow> string \<Rightarrow> bool" where
  "like [] = (\<lambda>s. s = [])"
| "like (p # ps) = (\<lambda>s.
     if p = CHR ''%'' then list_ex (like ps) (rune_tails s)
     else s \<noteq> [] \<and> (if p = CHR ''_'' then like ps (drop_rune s)
                     else lower_char p = lower_char (hd s) \<and> like ps (tl s)))"

definition ListMemories :: "env \<Rightarrow> ctx \<Rightarrow> string \<Rightarrow> string \<Rightarrow> int \<Rightarrow> (world, MemoryRow list) io" where
  "ListMemories e c storeID pathPrefix limit =
     bindE (queryE e c (\<lambda>w. map mm_ID (take (clamp_limit 100 limit)
        (sort_key mm_Path
          (select (\<lambda>r. mm_StoreID r = storeID \<and> (pathPrefix = [] \<or> like (pathPrefix @ ''%'') (mm_Path r)))
             (memories w))))))
       (mapE (GetMemory e c))"

end
