(* ===== verification/MemoryService.thy ===== *)
theory MemoryService
  imports StoreMemory Tools
begin

text \<open>
  \<open>internal/memory/service.go\<close>: the checks in front of the memory store, its answers to
  clients, and the mounting of a store's memories into a session's sandbox.
\<close>

section \<open>Stores\<close>

record Store =
  so_ID :: string
  so_Name :: string
  so_Description :: string
  so_CreatedAt :: int
  so_UpdatedAt :: int
  so_ArchivedAt :: "int option"

definition storeRowToAPI :: "MemoryStoreRow \<Rightarrow> Store" where
  "storeRowToAPI r = \<lparr>so_ID = ms_ID r, so_Name = ms_Name r,
     so_Description = (case ms_Description r of None \<Rightarrow> [] | Some d \<Rightarrow> d), so_CreatedAt = ms_CreatedAt r,
     so_UpdatedAt = ms_UpdatedAt r, so_ArchivedAt = ms_ArchivedAt r\<rparr>"

definition mapR :: "('a \<Rightarrow> 'b) \<Rightarrow> (world, 'a) io \<Rightarrow> (world, 'b) io" where
  "mapR f m = bindE m (\<lambda>x. returnE (f x))"

definition name_required :: gerr where
  "name_required = ErrMsg ''name is required''"

definition CreateStore :: "env \<Rightarrow> ctx \<Rightarrow> string \<Rightarrow> string \<Rightarrow> string \<Rightarrow> (world, Store) io" where
  "CreateStore e c tenant name description =
     (if name = [] then throwE name_required
      else mapR storeRowToAPI (CreateMemoryStore e c tenant name description))"

definition GetStore :: "env \<Rightarrow> ctx \<Rightarrow> string \<Rightarrow> (world, Store) io" where
  "GetStore e c mid = mapR storeRowToAPI (GetMemoryStore e c mid)"

definition ListStores :: "env \<Rightarrow> ctx \<Rightarrow> string \<Rightarrow> int \<Rightarrow> (world, Store list) io" where
  "ListStores e c tenant limit = mapR (map storeRowToAPI) (ListMemoryStores e c tenant limit)"

definition DeleteStore :: "env \<Rightarrow> ctx \<Rightarrow> string \<Rightarrow> (world, unit) io" where
  "DeleteStore e c mid = DeleteMemoryStore e c mid"

definition UpdateStore :: "env \<Rightarrow> ctx \<Rightarrow> string \<Rightarrow> string \<Rightarrow> string \<Rightarrow> (world, Store) io" where
  "UpdateStore e c mid name description =
     (if name = [] then throwE name_required
      else mapR storeRowToAPI (UpdateMemoryStore e c mid name description))"

definition ArchiveStore :: "env \<Rightarrow> ctx \<Rightarrow> string \<Rightarrow> (world, Store) io" where
  "ArchiveStore e c mid = mapR storeRowToAPI (ArchiveMemoryStore e c mid)"

section \<open>Memories\<close>

record Memory =
  mo_ID :: string
  mo_StoreID :: string
  mo_Path :: string
  mo_Content :: string
  mo_Sha256 :: string
  mo_Size :: int
  mo_CreatedAt :: int
  mo_UpdatedAt :: int

definition memRowToAPI :: "bool \<Rightarrow> MemoryRow \<Rightarrow> Memory" where
  "memRowToAPI includeContent r = \<lparr>mo_ID = mm_ID r, mo_StoreID = mm_StoreID r, mo_Path = mm_Path r,
     mo_Content = (if includeContent then mm_Content r else []), mo_Sha256 = mm_Sha256 r, mo_Size = mm_Size r,
     mo_CreatedAt = mm_CreatedAt r, mo_UpdatedAt = mm_UpdatedAt r\<rparr>"

definition MaxMemorySize :: nat where
  "MaxMemorySize = 100 * 1024"

definition too_large :: gerr where
  "too_large = ErrMsg (''content exceeds '' @ int_str (int MaxMemorySize) @ '' bytes limit'')"

definition not_absolute :: gerr where
  "not_absolute = ErrMsg ''path must be absolute (start with /)''"

text \<open>The checks of an upsert and of an update; an update may leave the path and the content alone.\<close>

definition upsert_error :: "string \<Rightarrow> string \<Rightarrow> gerr option" where
  "upsert_error path content =
     (if path = [] then Some (ErrMsg ''path is required'')
      else if \<not> HasPrefix path ''/'' then Some not_absolute
      else if MaxMemorySize < length content then Some too_large else None)"

definition update_error :: "string \<Rightarrow> string option \<Rightarrow> gerr option" where
  "update_error path content =
     (if path \<noteq> [] \<and> \<not> HasPrefix path ''/'' then Some not_absolute
      else (case content of Some s \<Rightarrow> if MaxMemorySize < length s then Some too_large else None | None \<Rightarrow> None))"

definition svc_UpsertMemory ::
  "env \<Rightarrow> ctx \<Rightarrow> (string \<Rightarrow> string) \<Rightarrow> string \<Rightarrow> string \<Rightarrow> string \<Rightarrow> string \<Rightarrow> (world, Memory) io" where
  "svc_UpsertMemory e c sha tenant storeID path content =
     (case upsert_error path content of
        Some err \<Rightarrow> throwE err
      | None \<Rightarrow> mapR (memRowToAPI False) (UpsertMemory e c sha
          \<lparr>cm_StoreID = storeID, cm_TenantID = tenant, cm_Path = path, cm_Content = content\<rparr>))"

definition svc_GetMemory :: "env \<Rightarrow> ctx \<Rightarrow> string \<Rightarrow> (world, Memory) io" where
  "svc_GetMemory e c mid = mapR (memRowToAPI True) (GetMemory e c mid)"

definition svc_ListMemories :: "env \<Rightarrow> ctx \<Rightarrow> string \<Rightarrow> string \<Rightarrow> int \<Rightarrow> (world, Memory list) io" where
  "svc_ListMemories e c storeID pathPrefix limit =
     mapR (map (memRowToAPI False)) (ListMemories e c storeID pathPrefix limit)"

definition svc_UpdateMemory ::
  "env \<Rightarrow> ctx \<Rightarrow> (string \<Rightarrow> string) \<Rightarrow> string \<Rightarrow> string \<Rightarrow> string option \<Rightarrow> (world, Memory) io" where
  "svc_UpdateMemory e c sha mid path content =
     (case update_error path content of
        Some err \<Rightarrow> throwE err
      | None \<Rightarrow> mapR (memRowToAPI True) (UpdateMemory e c sha mid path content))"

definition svc_DeleteMemory :: "env \<Rightarrow> ctx \<Rightarrow> string \<Rightarrow> (world, unit) io" where
  "svc_DeleteMemory e c mid = DeleteMemory e c mid"

section \<open>Versions\<close>

record MemoryVersion =
  vo_ID :: string
  vo_StoreID :: string
  vo_MemoryID :: string
  vo_Operation :: string
  vo_Path :: "string option"
  vo_Content :: "string option"
  vo_Sha256 :: "string option"
  vo_Size :: "int option"
  vo_CreatedAt :: int
  vo_RedactedAt :: "int option"

definition versionRowToAPI :: "bool \<Rightarrow> MemoryVersionRow \<Rightarrow> MemoryVersion" where
  "versionRowToAPI includeContent r = \<lparr>vo_ID = mv_ID r, vo_StoreID = mv_StoreID r, vo_MemoryID = mv_MemoryID r,
     vo_Operation = mv_Operation r, vo_Path = mv_Path r,
     vo_Content = (if includeContent then mv_Content r else None), vo_Sha256 = mv_Sha256 r, vo_Size = mv_Size r,
     vo_CreatedAt = mv_CreatedAt r, vo_RedactedAt = mv_RedactedAt r\<rparr>"

definition svc_ListMemoryVersions :: "env \<Rightarrow> ctx \<Rightarrow> string \<Rightarrow> string \<Rightarrow> int \<Rightarrow> (world, MemoryVersion list) io" where
  "svc_ListMemoryVersions e c storeID memoryID limit =
     mapR (map (versionRowToAPI False)) (ListMemoryVersions e c storeID memoryID limit)"

definition svc_GetMemoryVersion :: "env \<Rightarrow> ctx \<Rightarrow> string \<Rightarrow> (world, MemoryVersion) io" where
  "svc_GetMemoryVersion e c vid = mapR (versionRowToAPI True) (GetMemoryVersion e c vid)"

definition svc_RedactMemoryVersion :: "env \<Rightarrow> ctx \<Rightarrow> string \<Rightarrow> (world, MemoryVersion) io" where
  "svc_RedactMemoryVersion e c vid = mapR (versionRowToAPI True) (RedactMemoryVersion e c vid)"

section \<open>Mounting\<close>

record MountSpec =
  mp_StoreID :: string
  mp_StoreName :: string
  mp_MountPath :: string
  mp_Access :: string
  mp_Instructions :: string

text \<open>The command a memory is written with; \<open>parentDir\<close> is the \<open>dirOf\<close> of the tools.\<close>

definition writeFileScript :: "string \<Rightarrow> string \<Rightarrow> string" where
  "writeFileScript path content = ''mkdir -p '' @ shellQuote (dirOf path) @ '' && echo ''
     @ shellQuote (base64 content) @ '' | base64 -d > '' @ shellQuote path"

definition mount_target :: "MountSpec \<Rightarrow> string \<Rightarrow> string" where
  "mount_target spec path = Join [mp_MountPath spec, TrimPrefix path ''/'']"

definition exec_io :: "exec \<Rightarrow> string list \<Rightarrow> int \<Rightarrow> (world, exec_result) io" where
  "exec_io x args timeout w = (x (tick w) args timeout, w\<lparr>tick := Suc (tick w)\<rparr>)"

definition mount_one :: "exec \<Rightarrow> MountSpec \<Rightarrow> MemoryRow \<Rightarrow> (world, unit) io" where
  "mount_one x spec mem =
     (let full = mount_target spec (mm_Path mem) in
      bindE (wrapE (''write '' @ full)
               (exec_io x [''bash'', ''-c'', writeFileScript full (mm_Content mem)] 0)) (\<lambda>res.
        if er_ExitCode res \<noteq> 0
        then throwE (ErrMsg (''write '' @ full @ '': exit '' @ int_str (er_ExitCode res) @ '', '' @ er_Stderr res))
        else returnE ()))"

definition MountToSandbox :: "env \<Rightarrow> ctx \<Rightarrow> exec \<Rightarrow> MountSpec \<Rightarrow> (world, unit) io" where
  "MountToSandbox e c x spec = bindE (ListMemories e c (mp_StoreID spec) [] 1000) (forE (mount_one x spec))"

definition hint_line :: "MountSpec \<Rightarrow> string" where
  "hint_line sp = ''- **'' @ mp_StoreName sp @ ''** at `'' @ mp_MountPath sp @ ''` ('' @ mp_Access sp @ '')'' @ nl
     @ (if mp_Instructions sp \<noteq> [] then ''  '' @ mp_Instructions sp @ nl else [])"

definition SystemPromptHint :: "MountSpec list \<Rightarrow> string" where
  "SystemPromptHint specs =
     (if specs = [] then []
      else nl @ nl @ ''# Available Memory Stores'' @ nl
        @ ''The following memory stores are mounted as directories in your sandbox. ''
        @ ''Use file tools (read/write/edit) to interact with them.'' @ nl @ nl
        @ concat (map hint_line specs))"

section \<open>Properties\<close>

text \<open>A memory whose path has no empty, dot or dot-dot component is
mounted below the mount point of its store, at exactly its path.\<close>

theorem mount_stays_inside:
  assumes "is_rooted (mp_MountPath spec)" "path = ''/'' @ rest" "\<forall>c\<in>set (split_char CHR ''/'' rest). normal_comp c"
  shows "comps (mount_target spec path) = comps (mp_MountPath spec) @ split_char CHR ''/'' rest"
  using comps_mount [OF assms(1,3)] by (simp add: mount_target_def assms(2) TrimPrefix_def)

definition prefs_spec :: MountSpec where
  "prefs_spec = \<lparr>mp_StoreID = ''st'', mp_StoreName = ''prefs'', mp_MountPath = ''/mnt/memory/prefs/'',
     mp_Access = ''read_write'', mp_Instructions = []\<rparr>"

lemma mount_stays_inside_witness:
  "comps (mount_target prefs_spec ''/style/go.md'') = [''mnt'', ''memory'', ''prefs'', ''style'', ''go.md'']"
proof -
  have h: "is_rooted (mp_MountPath prefs_spec)" "''/style/go.md'' = ''/'' @ ''style/go.md''" by code_simp+
  have "split_char CHR ''/'' ''style/go.md'' = [''style'', ''go.md'']" by code_simp
  then have n: "\<forall>c\<in>set (split_char CHR ''/'' ''style/go.md''). normal_comp c" by (simp add: normal_comp_def)
  have m: "comps (mp_MountPath prefs_spec) = [''mnt'', ''memory'', ''prefs'']" by code_simp
  have s: "split_char CHR ''/'' ''style/go.md'' = [''style'', ''go.md'']" by code_simp
  show ?thesis using mount_stays_inside [OF h n] unfolding m s by simp
qed

text \<open>The check on a memory's path asks for a leading slash only: a path that
climbs is accepted, and mounting it writes outside the store's mount point, even outside the
directories the sandbox maps to the session.\<close>

theorem mount_can_escape:
  "upsert_error ''/../../../etc/cron.d/job'' ''* * * * * root id'' = None
   \<and> mount_target prefs_spec ''/../../../etc/cron.d/job'' = ''/etc/cron.d/job''
   \<and> rewriteVirtualPaths ''/data/s1'' (shellQuote (mount_target prefs_spec ''/../../../etc/cron.d/job''))
       = shellQuote ''/etc/cron.d/job''"
proof (intro conjI)
  show "upsert_error ''/../../../etc/cron.d/job'' ''* * * * * root id'' = None"
    by (simp add: upsert_error_def MaxMemorySize_def)
  show t: "mount_target prefs_spec ''/../../../etc/cron.d/job'' = ''/etc/cron.d/job''" by code_simp
  show "rewriteVirtualPaths ''/data/s1'' (shellQuote (mount_target prefs_spec ''/../../../etc/cron.d/job''))
       = shellQuote ''/etc/cron.d/job''"
    unfolding t by code_simp
qed

text \<open>The services check what they store: an accepted upsert has an absolute
path and at most 102400 bytes of content, a refused one leaves the state as it is.\<close>

theorem upsert_checks:
  "(case upsert_error path content of
      None \<Rightarrow> HasPrefix path ''/'' \<and> length content \<le> 102400
    | Some err \<Rightarrow> svc_UpsertMemory e c sha tenant storeID path content w = (Inl err, w))
   \<and> (upsert_error path content = None \<longleftrightarrow> HasPrefix path ''/'' \<and> length content \<le> 102400)"
  by (auto simp: upsert_error_def svc_UpsertMemory_def throwE_def MaxMemorySize_def split: option.splits)

end
