(* ===== verification/TurnSetup.thy ===== *)
theory TurnSetup
  imports Approvals ModelCall StoreCatalog MemoryService
begin

text \<open>
  What a turn prepares before it talks to the model: the agent's configuration, its custom
  and MCP tools, and the skills and resources mounted into the sandbox
  (\<open>internal/harness/model.go\<close>, \<open>provider_tools.go\<close>, \<open>mcp.go\<close>, \<open>skills.go\<close>, \<open>resources.go\<close>).
\<close>

section \<open>The agent's configuration\<close>

record agentConfig =
  ac_Model :: raw
  ac_System :: string
  ac_Tools :: raw
  ac_Guardrails :: "AgentGuardrails option"

definition zero_config :: agentConfig where
  "zero_config = \<lparr>ac_Model = None, ac_System = [], ac_Tools = None, ac_Guardrails = None\<rparr>"

definition dec_config :: "agentConfig dec" where
  "dec_config = dec_struct
     [fld ''model'' ac_Model ac_Model_update dec_raw,
      fld ''system'' ac_System ac_System_update dec_str,
      fld ''tools'' ac_Tools ac_Tools_update dec_raw,
      fld ''guardrails'' ac_Guardrails ac_Guardrails_update
        (dec_ptr \<lparr>ag_ToolPermissions = None\<rparr> dec_guardrails)]"

definition agent_config :: "raw \<Rightarrow> agentConfig" where
  "agent_config snapshot = fst (unmarshal dec_config zero_config snapshot)"

definition parseModelID :: "raw \<Rightarrow> string" where
  "parseModelID r =
     (case unmarshal dec_str [] r of
        (s, False) \<Rightarrow> s
      | (s, True) \<Rightarrow> idp_ID (fst (unmarshal dec_id \<lparr>idp_ID = []\<rparr> r)))"

section \<open>Tools\<close>

record customEntry =
  ce_Type :: string
  ce_Name :: string
  ce_Description :: string
  ce_InputSchema :: raw

definition zero_custom :: customEntry where
  "zero_custom = \<lparr>ce_Type = [], ce_Name = [], ce_Description = [], ce_InputSchema = None\<rparr>"

definition dec_custom :: "customEntry dec" where
  "dec_custom = dec_struct
     [fld ''type'' ce_Type ce_Type_update dec_str,
      fld ''name'' ce_Name ce_Name_update dec_str,
      fld ''description'' ce_Description ce_Description_update dec_str,
      fld ''input_schema'' ce_InputSchema ce_InputSchema_update dec_raw]"

definition custom_def :: "customEntry \<Rightarrow> tool_def option" where
  "custom_def en =
     (if ce_Type en \<noteq> ''custom'' \<or> ce_Name en = [] then None
      else Some \<lparr>td_Name = ce_Name en, td_Description = ce_Description en, td_InputSchema = ce_InputSchema en\<rparr>)"

definition parseCustomToolDefs :: "raw \<Rightarrow> tool_def list" where
  "parseCustomToolDefs tools = List.map_filter custom_def (fst (unmarshal (dec_list zero_custom dec_custom) [] tools))"

definition toProviderTools :: "tool_def list \<Rightarrow> tool_def list" where
  "toProviderTools defs = map (\<lambda>d. \<lparr>td_Name = td_Name d, td_Description = td_Description d,
     td_InputSchema = td_InputSchema d\<rparr>) defs"

section \<open>MCP servers\<close>

record mcpServerDecl =
  md_Type :: string
  md_Name :: string
  md_URL :: string

definition dec_decl :: "mcpServerDecl dec" where
  "dec_decl = dec_struct
     [fld ''type'' md_Type md_Type_update dec_str,
      fld ''name'' md_Name md_Name_update dec_str,
      fld ''url'' md_URL md_URL_update dec_str]"

record raw_field =
  rf_Value :: raw

definition dec_one_raw :: "string \<Rightarrow> raw_field dec" where
  "dec_one_raw name = dec_struct [fld name rf_Value rf_Value_update dec_raw]"

definition snapshot_field :: "string \<Rightarrow> raw \<Rightarrow> raw" where
  "snapshot_field name snapshot = rf_Value (fst (unmarshal (dec_one_raw name) \<lparr>rf_Value = None\<rparr> snapshot))"

text \<open>\<open>resolveAuth(host)\<close>: the header value for a server, empty without a token.\<close>

definition auth_header :: "harness \<Rightarrow> string \<Rightarrow> string list \<Rightarrow> string \<Rightarrow> (world, string) io" where
  "auth_header h tenant vaultIDs url =
     (case h_ResolveToken h of
        None \<Rightarrow> returnE []
      | Some resolve \<Rightarrow>
          (if h_HostOf h url = [] then returnE []
           else bindE (askE (\<lambda>n. resolve n tenant vaultIDs (h_HostOf h url)))
                  (\<lambda>tok. returnE (if tok \<noteq> [] then ''Bearer '' @ tok else []))))"

definition add_server :: "string \<Rightarrow> string \<Rightarrow> string \<Rightarrow> mcp_tool list \<Rightarrow> mcpSession \<Rightarrow> mcpSession" where
  "add_server name url auth tools ms =
     fold (\<lambda>mt m. let fq = mcpToolPrefix @ name @ ''__'' @ mt_Name mt in
        m\<lparr>ms_defs := ms_defs m @ [\<lparr>td_Name = fq, td_Description = mt_Description mt, td_InputSchema = mt_InputSchema mt\<rparr>],
          ms_route := (ms_route m)(fq \<mapsto> (name, mt_Name mt))\<rparr>)
       tools (ms\<lparr>ms_clients := (ms_clients ms)(name \<mapsto> (url, auth))\<rparr>)"

definition connect_one ::
  "harness \<Rightarrow> string \<Rightarrow> string list \<Rightarrow> mcpServerDecl \<Rightarrow> mcpSession \<Rightarrow> (world, mcpSession) io" where
  "connect_one h tenant vaultIDs d ms =
     (if md_Type d \<noteq> ''url'' \<or> md_Name d = [] \<or> md_URL d = [] then returnE ms
      else bindE (auth_header h tenant vaultIDs (md_URL d)) (\<lambda>auth.
           bindE (askE (\<lambda>n. h_McpConnect h n (md_URL d) auth)) (\<lambda>r.
           returnE (case r of Inl err \<Rightarrow> ms | Inr tools \<Rightarrow> add_server (md_Name d) (md_URL d) auth tools ms))))"

fun connect_all ::
  "harness \<Rightarrow> string \<Rightarrow> string list \<Rightarrow> mcpServerDecl list \<Rightarrow> mcpSession \<Rightarrow> (world, mcpSession) io" where
  "connect_all h tenant vaultIDs [] ms = returnE ms"
| "connect_all h tenant vaultIDs (d # ds) ms =
     bindE (connect_one h tenant vaultIDs d ms) (connect_all h tenant vaultIDs ds)"

definition connectMCP :: "harness \<Rightarrow> string \<Rightarrow> string list \<Rightarrow> raw \<Rightarrow> (world, mcpSession option) io" where
  "connectMCP h tenant vaultIDs snapshot =
     (case snapshot_field ''mcp_servers'' snapshot of
        None \<Rightarrow> returnE None
      | Some v \<Rightarrow>
          (case unmarshal (dec_list \<lparr>md_Type = [], md_Name = [], md_URL = []\<rparr> dec_decl) [] (Some v) of
             (ds, True) \<Rightarrow> returnE None
           | (ds, False) \<Rightarrow>
               bindE (connect_all h tenant vaultIDs ds \<lparr>ms_clients = Map.empty, ms_defs = [], ms_route = Map.empty\<rparr>)
                 (\<lambda>ms. returnE (if ms_defs ms = [] then None else Some ms))))"

definition providerToolDefs :: "mcpSession option \<Rightarrow> tool_def list" where
  "providerToolDefs m =
     (case m of None \<Rightarrow> []
      | Some ms \<Rightarrow> map (\<lambda>d. \<lparr>td_Name = td_Name d, td_Description = td_Description d,
          td_InputSchema = or_raw (td_InputSchema d) (JObj [(''type'', JStr ''object'')])\<rparr>) (ms_defs ms))"

section \<open>Skills\<close>

record skillRef =
  kr_Type :: string
  kr_SkillID :: string

definition dec_skill_ref :: "skillRef dec" where
  "dec_skill_ref = dec_struct
     [fld ''type'' kr_Type kr_Type_update dec_str, fld ''skill_id'' kr_SkillID kr_SkillID_update dec_str]"

text \<open>\<open>sb.WriteFile(ctx, path, content)\<close>.\<close>

definition write_file :: "harness \<Rightarrow> string \<Rightarrow> string \<Rightarrow> (world, unit) io" where
  "write_file h path content =
     bindE (askE (\<lambda>n. h_WriteFile h n path content))
       (\<lambda>r. case r of None \<Rightarrow> returnE () | Some err \<Rightarrow> throwE err)"

definition mount_skill_file :: "harness \<Rightarrow> string \<Rightarrow> SkillFileEntry \<Rightarrow> (world, unit) io" where
  "mount_skill_file h skillDir f =
     (if \<not> safeRelativePath (sf_Path f) then throwE (ErrMsg (''unsafe skill file path: '' @ sf_Path f))
      else wrapE (''write skill file '' @ sf_Path f) (write_file h (skillDir @ sf_Path f) (sf_Content f)))"

definition skill_dir :: "string \<Rightarrow> string" where
  "skill_dir name = ''/home/user/.skills/'' @ sanitizeName name @ ''/''"

definition mount_skill :: "env \<Rightarrow> ctx \<Rightarrow> harness \<Rightarrow> skillRef \<Rightarrow> (world, string list) io" where
  "mount_skill e c h ref =
     (if kr_Type ref \<noteq> ''custom'' \<or> kr_SkillID ref = [] then returnE []
      else bindE (wrapE (''get skill '' @ kr_SkillID ref) (GetSkill e c (kr_SkillID ref))) (\<lambda>skill.
        let files = fst (unmarshal dec_skill_files [] (sk_FilesJSON skill)) in
        bindE (forE (mount_skill_file h (skill_dir (sk_Name skill))) files) (\<lambda>_.
        returnE (if sk_SkillMD skill \<noteq> []
                 then [newline @ newline @ ''[Skill: '' @ sk_Name skill @ '']'' @ newline @ sk_SkillMD skill] else []))))"

definition mountSkills :: "env \<Rightarrow> ctx \<Rightarrow> harness \<Rightarrow> raw \<Rightarrow> (world, string) io" where
  "mountSkills e c h snapshot =
     (let sk = snapshot_field ''skills'' snapshot in
      if sk = None \<or> sk = Some JNull \<or> sk = Some (JArr []) then returnE []
      else (case unmarshal (dec_list \<lparr>kr_Type = [], kr_SkillID = []\<rparr> dec_skill_ref) [] sk of
              (refs, True) \<Rightarrow> throwE (ErrMsg ''invalid skills'')
            | (refs, False) \<Rightarrow>
                bindE (mapE (mount_skill e c h) refs) (\<lambda>parts. returnE (join newline (concat parts)))))"

section \<open>Resources\<close>

record memoryPayload =
  mpl_StoreID :: string
  mpl_Access :: string
  mpl_Instructions :: string

definition dec_memory_payload :: "memoryPayload dec" where
  "dec_memory_payload = dec_struct
     [fld ''memory_store_id'' mpl_StoreID mpl_StoreID_update dec_str,
      fld ''access'' mpl_Access mpl_Access_update dec_str,
      fld ''instructions'' mpl_Instructions mpl_Instructions_update dec_str]"

definition mount_spec :: "memoryPayload \<Rightarrow> Store \<Rightarrow> MountSpec" where
  "mount_spec p st = \<lparr>mp_StoreID = so_ID st, mp_StoreName = so_Name st,
     mp_MountPath = ''/mnt/memory/'' @ sanitizeName (so_Name st) @ ''/'',
     mp_Access = (if mpl_Access p = [] then ''read_write'' else mpl_Access p), mp_Instructions = mpl_Instructions p\<rparr>"

text \<open>\<open>return nil\<close> where the store cannot be read.\<close>

definition parseMemoryResource :: "env \<Rightarrow> ctx \<Rightarrow> harness \<Rightarrow> SessionResourceRow \<Rightarrow> (world, MountSpec list) io" where
  "parseMemoryResource e c h res =
     (if \<not> h_HasMemory h then returnE []
      else let p = fst (unmarshal dec_memory_payload \<lparr>mpl_StoreID = [], mpl_Access = [], mpl_Instructions = []\<rparr>
                          (sr_Payload res)) in
           if mpl_StoreID p = [] then returnE []
           else catchE (mapR (\<lambda>st. [mount_spec p st]) (GetStore e c (mpl_StoreID p))) (\<lambda>err. returnE []))"

record filePayload =
  fpl_FileID :: string
  fpl_MountPath :: string

definition dec_file_payload :: "filePayload dec" where
  "dec_file_payload = dec_struct
     [fld ''file_id'' fpl_FileID fpl_FileID_update dec_str,
      fld ''mount_path'' fpl_MountPath fpl_MountPath_update dec_str]"

definition mountFileResource :: "env \<Rightarrow> ctx \<Rightarrow> harness \<Rightarrow> SessionResourceRow \<Rightarrow> (world, string) io" where
  "mountFileResource e c h res =
     (case unmarshal dec_file_payload \<lparr>fpl_FileID = [], fpl_MountPath = []\<rparr> (sr_Payload res) of
        (p, True) \<Rightarrow> throwE (ErrMsg ''unmarshal file resource payload'')
      | (p, False) \<Rightarrow>
          (if fpl_FileID p = [] \<or> fpl_MountPath p = [] then returnE []
           else bindE (wrapE (''get file '' @ fpl_FileID p) (GetFile e c (fpl_FileID p))) (\<lambda>row.
                bindE (wrapE ''write file to sandbox'' (write_file h (fpl_MountPath p) (fi_Blob row))) (\<lambda>_.
                returnE (''File '' @ fi_Filename row @ '' is mounted at '' @ fpl_MountPath p @ '' (''
                  @ int_str (fi_Size row) @ '' bytes).'')))))"

text \<open>The loop over the resources: memory mounts and texts, in order.\<close>

fun collect_resources ::
  "env \<Rightarrow> ctx \<Rightarrow> harness \<Rightarrow> SessionResourceRow list \<Rightarrow> (world, MountSpec list \<times> string list) io" where
  "collect_resources e c h [] = returnE ([], [])"
| "collect_resources e c h (res # rest) =
     bindE (if sr_Type res = ''memory_store'' then mapR (\<lambda>ms. (ms, [])) (parseMemoryResource e c h res)
            else if sr_Type res = ''file'' then
              mapR (\<lambda>info. ([], if info \<noteq> [] then [info] else [])) (mountFileResource e c h res)
            else returnE ([], [])) (\<lambda>(ms, xs).
     bindE (collect_resources e c h rest) (\<lambda>(ms', xs'). returnE (ms @ ms', xs @ xs')))"

definition mountResources :: "env \<Rightarrow> ctx \<Rightarrow> harness \<Rightarrow> string \<Rightarrow> (world, string) io" where
  "mountResources e c h sid =
     bindE (ListSessionResources e c sid) (\<lambda>rs.
     bindE (collect_resources e c h rs) (\<lambda>(mounts, xs).
       if h_HasMemory h
       then bindE (forE (MountToSandbox e c (h_Exec h)) mounts) (\<lambda>_.
              returnE (join newline (xs @ [SystemPromptHint mounts])))
       else returnE (join newline xs)))"

end
