(* ===== verification/SessionService.thy ===== *)
theory SessionService
  imports AgentService TurnSetup KeptRelations
begin

text \<open>
  \<open>internal/session/service.go\<close> with the session types of \<open>pkg/apitypes\<close>: a session is created with a
  snapshot of its agent, and the harness reads the agent's configuration from that snapshot.
\<close>

section \<open>Types of the interface\<close>

record SessionRef =
  rf_Type :: string
  rf_ID :: string
  rf_Version :: int

definition zero_ref :: SessionRef where
  "zero_ref = \<lparr>rf_Type = [], rf_ID = [], rf_Version = 0\<rparr>"

definition dec_ref :: "SessionRef dec" where
  "dec_ref v old =
     (case dec_str v [] of
        (s, False) \<Rightarrow> (old\<lparr>rf_Type := ''agent'', rf_ID := s\<rparr>, False)
      | (_, True) \<Rightarrow>
          (case dec_struct [fld ''type'' rf_Type rf_Type_update dec_str, fld ''id'' rf_ID rf_ID_update dec_str,
                  fld ''version'' rf_Version rf_Version_update dec_int64] v zero_ref of
             (r, False) \<Rightarrow> (r, False) | (_, True) \<Rightarrow> (old, True)))"

record ResourceEntry =
  re_Type :: string
  re_MemoryStoreID :: string
  re_Access :: string
  re_Instructions :: string
  re_FileID :: string
  re_MountPath :: string

definition zero_resource :: ResourceEntry where
  "zero_resource = \<lparr>re_Type = [], re_MemoryStoreID = [], re_Access = [], re_Instructions = [], re_FileID = [], re_MountPath = []\<rparr>"

definition dec_resource_entry :: "ResourceEntry dec" where
  "dec_resource_entry = dec_struct
     [fld ''type'' re_Type re_Type_update dec_str,
      fld ''memory_store_id'' re_MemoryStoreID re_MemoryStoreID_update dec_str,
      fld ''access'' re_Access re_Access_update dec_str,
      fld ''instructions'' re_Instructions re_Instructions_update dec_str,
      fld ''file_id'' re_FileID re_FileID_update dec_str,
      fld ''mount_path'' re_MountPath re_MountPath_update dec_str]"

definition resource_json :: "ResourceEntry \<Rightarrow> json" where
  "resource_json r = JObj ((''type'', JStr (re_Type r)) # opt_str ''memory_store_id'' (re_MemoryStoreID r)
     @ opt_str ''access'' (re_Access r) @ opt_str ''instructions'' (re_Instructions r)
     @ opt_str ''file_id'' (re_FileID r) @ opt_str ''mount_path'' (re_MountPath r))"

record CreateSessionRequest =
  rs_Agent :: SessionRef
  rs_EnvironmentID :: string
  rs_VaultIDs :: "string list option"
  rs_Resources :: "ResourceEntry list option"
  rs_Title :: string
  rs_Metadata :: smap

definition zero_create_session :: CreateSessionRequest where
  "zero_create_session = \<lparr>rs_Agent = zero_ref, rs_EnvironmentID = [], rs_VaultIDs = None, rs_Resources = None,
     rs_Title = [], rs_Metadata = None\<rparr>"

definition dec_create_session :: "CreateSessionRequest dec" where
  "dec_create_session = dec_struct
     [fld ''agent'' rs_Agent rs_Agent_update dec_ref,
      fld ''environment_id'' rs_EnvironmentID rs_EnvironmentID_update dec_str,
      fld ''vault_ids'' rs_VaultIDs rs_VaultIDs_update (dec_slice [] dec_str),
      fld ''resources'' rs_Resources rs_Resources_update (dec_slice zero_resource dec_resource_entry),
      fld ''title'' rs_Title rs_Title_update dec_str,
      fld ''metadata'' rs_Metadata rs_Metadata_update dec_smap]"

record UpdateSessionRequest =
  rq_Title :: string
  rq_Metadata :: smap
  rq_VaultIDs :: "string list option"

definition zero_update_session :: UpdateSessionRequest where
  "zero_update_session = \<lparr>rq_Title = [], rq_Metadata = None, rq_VaultIDs = None\<rparr>"

definition dec_update_session :: "UpdateSessionRequest dec" where
  "dec_update_session = dec_struct
     [fld ''title'' rq_Title rq_Title_update dec_str,
      fld ''metadata'' rq_Metadata rq_Metadata_update dec_smap,
      fld ''vault_ids'' rq_VaultIDs rq_VaultIDs_update (dec_slice [] dec_str)]"

record Session =
  se_ID :: string
  se_Status :: string
  se_Agent :: raw
  se_EnvironmentID :: string
  se_VaultIDs :: "string list option"
  se_Title :: string
  se_Metadata :: smap
  se_UsageInput :: int
  se_UsageOutput :: int
  se_UsageCacheCreate :: int
  se_UsageCacheRead :: int
  se_CreatedAt :: int
  se_UpdatedAt :: "int option"
  se_ArchivedAt :: "int option"
  se_TerminatedAt :: "int option"

section \<open>The snapshot\<close>

text \<open>
  The members in the order in which \<open>json.Marshal\<close> writes a map; the columns of a stored agent are
  never \<open>NULL\<close>.
\<close>

definition opt_member :: "string \<Rightarrow> raw option \<Rightarrow> (string \<times> raw) list" where
  "opt_member k r = (case r of None \<Rightarrow> [] | Some v \<Rightarrow> [(k, v)])"

definition json_str_opt :: "string option \<Rightarrow> raw option" where
  "json_str_opt s = map_option (\<lambda>t. Some (JStr t)) s"

definition snapshot_members :: "AgentRow \<Rightarrow> raw option \<Rightarrow> raw \<Rightarrow> (string \<times> raw) list" where
  "snapshot_members a guardrails metadata =
     opt_member ''description'' (json_str_opt (ar_Description a))
     @ opt_member ''guardrails'' guardrails
     @ [(''id'', Some (JStr (ar_ID a))), (''mcp_servers'', ar_MCPServers a), (''metadata'', metadata), (''model'', ar_Model a)]
     @ opt_member ''multiagent'' (if ar_Multiagent a = None \<or> ar_Multiagent a = Some JNull then None else Some (ar_Multiagent a))
     @ [(''name'', Some (JStr (ar_Name a))), (''skills'', ar_Skills a)]
     @ opt_member ''system'' (json_str_opt (ar_System a))
     @ [(''tools'', ar_Tools a), (''type'', Some (JStr ''agent'')), (''version'', Some (jint (ar_Version a)))]"

definition stored_guardrails :: "AgentRow \<Rightarrow> (string \<times> smap) option" where
  "stored_guardrails a =
     (case unmarshal dec_smap None (ar_Metadata a) of
        (meta, False) \<Rightarrow> map_option (\<lambda>s. (s, delete_key guardrailsMetadataKey meta)) (map_of (entries meta) guardrailsMetadataKey)
      | (_, True) \<Rightarrow> None)"

definition agentSnapshot :: "AgentRow \<Rightarrow> (string \<times> raw) list" where
  "agentSnapshot a =
     (case stored_guardrails a of
        Some (s, meta) \<Rightarrow> snapshot_members a (Some (jparse s)) (Some (marshal_smap meta))
      | None \<Rightarrow> snapshot_members a None (ar_Metadata a))"

section \<open>The service\<close>

definition session_rowToAPI :: "SessionRow \<Rightarrow> Session" where
  "session_rowToAPI r = \<lparr>se_ID = ss_ID r, se_Status = ss_Status r, se_Agent = ss_AgentSnapshot r,
     se_EnvironmentID = ss_EnvironmentID r,
     se_VaultIDs = (case ss_VaultIDs r of None \<Rightarrow> Some [] | Some v \<Rightarrow> fst (dec_slice [] dec_str v (Some []))),
     se_Title = (case ss_Title r of None \<Rightarrow> [] | Some t \<Rightarrow> t),
     se_Metadata = (case ss_Metadata r of None \<Rightarrow> Some [] | Some v \<Rightarrow> fst (dec_smap v (Some []))),
     se_UsageInput = ss_UsageInput r, se_UsageOutput = ss_UsageOutput r, se_UsageCacheCreate = ss_UsageCacheCreate r,
     se_UsageCacheRead = ss_UsageCacheRead r, se_CreatedAt = ss_CreatedAt r, se_UpdatedAt = Some (ss_UpdatedAt r),
     se_ArchivedAt = ss_ArchivedAt r, se_TerminatedAt = ss_TerminatedAt r\<rparr>"

definition session_metadata :: "smap \<Rightarrow> raw" where
  "session_metadata m = Some (if entries m = [] then JObj [] else marshal_smap m)"

text \<open>A named environment must exist; without a name the default one is made if need be.\<close>

definition pick_environment :: "env \<Rightarrow> ctx \<Rightarrow> string \<Rightarrow> string \<Rightarrow> (world, string) io" where
  "pick_environment e c tenant eid =
     (if eid = [] then bindE (wrapE ''ensure default environment'' (EnsureDefaultEnvironment e c tenant)) (\<lambda>_. returnE ''default'')
      else bindE (catchE (GetEnvironment e c eid)
          (\<lambda>err. throwE (if err = ErrNotFound then ErrMsg (''environment not found: '' @ eid) else err))) (\<lambda>_. returnE eid))"

definition add_resource :: "env \<Rightarrow> ctx \<Rightarrow> string \<Rightarrow> ResourceEntry \<Rightarrow> (world, unit) io" where
  "add_resource e c sid r =
     bindE (wrapE (''add resource '' @ re_Type r) (AddSessionResource e c sid (re_Type r) (Some (resource_json r)))) (\<lambda>_. returnE ())"

definition session_Create :: "env \<Rightarrow> ctx \<Rightarrow> string \<Rightarrow> CreateSessionRequest \<Rightarrow> (world, Session) io" where
  "session_Create e c tenant r =
     (if rf_ID (rs_Agent r) = [] then throwE (ErrMsg ''agent is required'')
      else bindE (GetAgent e c (rf_ID (rs_Agent r))) (\<lambda>a.
        bindE (pick_environment e c tenant (rs_EnvironmentID r)) (\<lambda>eid.
        bindE (CreateSession e c \<lparr>ci_TenantID = tenant, ci_AgentID = ar_ID a, ci_AgentVersion = ar_Version a,
                 ci_AgentSnapshot = marshal_obj (agentSnapshot a), ci_EnvironmentID = eid, ci_Title = rs_Title r,
                 ci_VaultIDs = rs_VaultIDs r, ci_Metadata = session_metadata (rs_Metadata r)\<rparr>) (\<lambda>row.
        bindE (forE (add_resource e c (ss_ID row)) (case rs_Resources r of None \<Rightarrow> [] | Some xs \<Rightarrow> xs)) (\<lambda>_.
          returnE (session_rowToAPI row))))))"

definition session_Get :: "env \<Rightarrow> ctx \<Rightarrow> string \<Rightarrow> (world, Session) io" where
  "session_Get e c sid = bindE (GetSession e c sid) (\<lambda>row. returnE (session_rowToAPI row))"

definition session_List :: "env \<Rightarrow> ctx \<Rightarrow> string \<Rightarrow> int \<Rightarrow> (world, Session list) io" where
  "session_List e c tenant limit = bindE (ListSessions e c tenant limit) (\<lambda>rows. returnE (map session_rowToAPI rows))"

definition session_Delete :: "env \<Rightarrow> ctx \<Rightarrow> string \<Rightarrow> (world, unit) io" where
  "session_Delete e c sid = DeleteSession e c sid"

definition session_Update :: "env \<Rightarrow> ctx \<Rightarrow> string \<Rightarrow> UpdateSessionRequest \<Rightarrow> (world, Session) io" where
  "session_Update e c sid r =
     bindE (UpdateSession e c sid (rq_Title r) (session_metadata (rq_Metadata r)) (rq_VaultIDs r))
       (\<lambda>row. returnE (session_rowToAPI row))"

definition session_Archive :: "env \<Rightarrow> ctx \<Rightarrow> string \<Rightarrow> (world, unit) io" where
  "session_Archive e c sid = ArchiveSession e c sid"

end
