(* ===== verification/ServiceProperties.thy ===== *)
theory ServiceProperties
  imports SessionService
begin

text \<open>
  What the agent and session services promise: a created agent is shown as it was requested, and
  the guardrails of its operator are those a turn of its sessions works under.
\<close>

section \<open>What is stored\<close>

lemma in_tx_value: "in_tx m w = (Inr x, w') \<longleftrightarrow> m w = (Inr x, w')"
  by (auto simp: in_tx_def split: prod.splits sum.splits)

lemma stmt_value: "stmt e c w = (Inr x, w') \<Longrightarrow> w' = w\<lparr>tick := Suc (tick w)\<rparr>" for w :: world
  by (rule stmt_cases [of e c w]) auto

lemma agent_view_tick [simp]: "agent_view aid (w\<lparr>tick := n\<rparr>) = agent_view aid w"
  by (simp add: agent_view_def agent_by_def version_by_def [abs_def] cong: option.case_cong)

lemma GetAgent_value: "GetAgent e c aid w = (Inr row, w') \<Longrightarrow> agent_view aid w = Some row \<and> w' = w\<lparr>tick := Suc (tick w)\<rparr>"
  by (auto simp: GetAgent_def run_values dest!: run_dests)

lemma CreateAgent_value:
  assumes "CreateAgent e c inp w = (Inr row, w')"
  shows "\<exists>a t. row = join_agent a (version_row (at_ID a) 1 t inp) \<and> at_Name a = ai_Name inp
    \<and> at_CurrentVersion a = 1 \<and> agent_view (at_ID a) w' = Some row"
proof -
  define aid where "aid = ''agt-'' @ ToLower (ulid e (tick w))"
  define t where "t = clock e (Suc (tick w))"
  define a where "a = \<lparr>at_ID = aid, at_TenantID = or_default_tenant (ai_TenantID inp), at_Name = ai_Name inp,
     at_ArchivedAt = None, at_CreatedAt = t, at_UpdatedAt = t, at_CurrentVersion = 1\<rparr>"
  define v where "v = version_row aid 1 t inp"
  let ?w = "w\<lparr>tick := Suc (Suc (tick w))\<rparr>"
  let ?tx = "bindE (stmt e c) (\<lambda>_.
      bindE (wrapE ''insert agent'' (insertE e c (\<lambda>w. agent_by aid w = None) (\<lambda>w. w\<lparr>agents := agents w @ [a]\<rparr>))) (\<lambda>_.
      bindE (wrapE ''insert agent_version'' (insertE e c (version_insert_ok v)
          (\<lambda>w. w\<lparr>agent_versions := agent_versions w @ [v]\<rparr>))) (\<lambda>_. stmt e c)))"
  have "bindE (in_tx ?tx) (\<lambda>_. GetAgent e c aid) ?w = (Inr row, w')"
    using assms by (simp add: CreateAgent_def bindE_def NewID_run now_run Let_def aid_def t_def a_def v_def)
  then obtain w5 where tx: "?tx ?w = (Inr (), w5)" and get: "GetAgent e c aid w5 = (Inr row, w')"
    by (auto simp: bindE_Inr_iff [of "in_tx ?tx"] in_tx_value)
  from tx obtain w1 w2 w3 where "stmt e c ?w = (Inr (), w1)"
    and i1: "insertE e c (\<lambda>w. agent_by aid w = None) (\<lambda>w. w\<lparr>agents := agents w @ [a]\<rparr>) w1 = (Inr (), w2)"
    and i2: "insertE e c (version_insert_ok v) (\<lambda>w. w\<lparr>agent_versions := agent_versions w @ [v]\<rparr>) w2 = (Inr (), w3)"
    and "stmt e c w3 = (Inr (), w5)"
    by (auto simp: run_values)
  then have w1: "w1 = ?w\<lparr>tick := Suc (tick ?w)\<rparr>" and w5: "w5 = w3\<lparr>tick := Suc (tick w3)\<rparr>"
    by (auto dest!: stmt_value)
  have agents: "agent_by aid w1 = None" "agents w2 = agents w1 @ [a]" "agent_versions w2 = agent_versions w1"
    using insertE_value [OF i1] by (simp_all add: agent_by_def)
  have versions: "version_insert_ok v (w2\<lparr>tick := Suc (tick w2)\<rparr>)" "agent_versions w3 = agent_versions w2 @ [v]" "agents w3 = agents w2"
    using insertE_value [OF i2] by simp_all
  have "agent_by aid w5 = Some a"
    using agents(1) by (simp add: agent_by_def w5 versions agents select_one_append select_one_single) (simp add: a_def)
  moreover have "version_by aid 1 w5 = Some v"
    using versions(1) agents(3)
    by (simp add: version_by_def version_insert_ok_def w5 versions(2) select_one_append select_one_single v_def version_row_def)
  ultimately have "agent_view aid w5 = Some (join_agent a v)" by (simp add: agent_view_def a_def)
  then show ?thesis using GetAgent_value [OF get] by (intro exI [of _ a] exI [of _ t]) (simp add: a_def v_def)
qed

section \<open>The guardrails of the metadata\<close>

definition own_metadata :: "smap \<Rightarrow> (string \<times> string) list" where
  "own_metadata m = filter (\<lambda>kv. fst kv \<noteq> guardrailsMetadataKey) (entries m)"

definition all_metadata :: "smap \<Rightarrow> AgentGuardrails option \<Rightarrow> (string \<times> string) list" where
  "all_metadata m g = own_metadata m
     @ (case g of None \<Rightarrow> [] | Some x \<Rightarrow> [(guardrailsMetadataKey, jprint (guardrails_json x))])"

lemma update_fresh: "k \<notin> fst ` set m \<Longrightarrow> AList.update k v m = m @ [(k, v)]"
  by (induction m) auto

lemma encoded_metadata: "encodeAgentMetadata m g = Some (marshal_smap (Some (all_metadata m g)))"
proof -
  have "guardrailsMetadataKey \<notin> fst ` set (own_metadata m)" by (auto simp: own_metadata_def)
  then show ?thesis
    by (cases g) (auto simp: encodeAgentMetadata_def Let_def all_metadata_def update_fresh marshal_smap_def simp flip: own_metadata_def)
qed

lemma all_metadata_distinct: "distinct (map fst (entries m)) \<Longrightarrow> distinct (map fst (all_metadata m g))"
  by (auto simp: all_metadata_def own_metadata_def distinct_map_filter split: option.splits)

lemma map_of_sort_key: "distinct (map fst xs) \<Longrightarrow> map_of (sort_key fst xs) = map_of xs" for xs :: "(string \<times> string) list"
  by (rule map_of_inject_set [THEN iffD2]) (simp_all add: distinct_map inj_on_def)

lemma dec_smap_None: "dec_smap (JObj kvs) None = dec_smap (JObj kvs) (Some [])"
  by (simp add: dec_smap_def entries_def)

lemma metadata_read:
  assumes "distinct (map fst (entries m))" "old0 = None \<or> old0 = Some []"
  shows "dec_smap (marshal_smap (Some (all_metadata m g))) old0 = (Some (sort_key fst (all_metadata m g)), False)"
proof -
  have "dec_smap (marshal_smap (Some (all_metadata m g))) old0 = dec_smap (marshal_smap (Some (all_metadata m g))) (Some [])"
    using assms(2) by (auto simp: marshal_smap_def dec_smap_None)
  then show ?thesis using smap_roundtrip [OF all_metadata_distinct [OF assms(1)]] by simp
qed

lemma metadata_guardrails:
  assumes "distinct (map fst (entries m))"
  shows "map_of (sort_key fst (all_metadata m g)) guardrailsMetadataKey = map_option (\<lambda>x. jprint (guardrails_json x)) g"
proof -
  have "map_of (own_metadata m) guardrailsMetadataKey = None" by (auto simp: own_metadata_def map_of_eq_None_iff)
  then have "map_of (all_metadata m g) guardrailsMetadataKey = map_option (\<lambda>x. jprint (guardrails_json x)) g"
    by (cases g) (simp_all add: all_metadata_def map_add_def)
  then show ?thesis by (simp only: map_of_sort_key [OF all_metadata_distinct [OF assms]])
qed

section \<open>What the harness reads of a snapshot\<close>

lemma dec_members_append:
  "dec_members fs (xs @ ys) r = (let (r1, e1) = dec_members fs xs r; (r2, e2) = dec_members fs ys r1 in (r2, e1 \<or> e2))"
  by (induction xs arbitrary: r) (auto simp: Let_def split: prod.splits)

lemma marshal_append: "marshal_obj (xs @ ys) = (case (marshal_obj xs, marshal_obj ys) of
    (Some (JObj a), Some (JObj b)) \<Rightarrow> Some (JObj (a @ b)) | _ \<Rightarrow> None)"
  by (auto simp: marshal_obj_def)

definition config_fields :: "agentConfig field list" where
  "config_fields =
     [fld ''model'' ac_Model ac_Model_update dec_raw, fld ''system'' ac_System ac_System_update dec_str,
      fld ''tools'' ac_Tools ac_Tools_update dec_raw,
      fld ''guardrails'' ac_Guardrails ac_Guardrails_update (dec_ptr \<lparr>ag_ToolPermissions = None\<rparr> dec_guardrails)]"

lemma lower_words:
  "ToLower ''model'' = ''model''"
  "ToLower ''system'' = ''system''"
  "ToLower ''tools'' = ''tools''"
  "ToLower ''guardrails'' = ''guardrails''"
  "ToLower ''description'' = ''description''"
  "ToLower ''id'' = ''id''"
  "ToLower ''mcp_servers'' = ''mcp_servers''"
  "ToLower ''metadata'' = ''metadata''"
  "ToLower ''multiagent'' = ''multiagent''"
  "ToLower ''name'' = ''name''"
  "ToLower ''skills'' = ''skills''"
  "ToLower ''type'' = ''type''"
  "ToLower ''version'' = ''version''"
  by code_simp+

lemma config_member:
  "dec_member config_fields (''model'', v) r = (r\<lparr>ac_Model := Some v\<rparr>, False)"
  "dec_member config_fields (''system'', JStr s) r = (r\<lparr>ac_System := s\<rparr>, False)"
  "dec_member config_fields (''tools'', v) r = (r\<lparr>ac_Tools := Some v\<rparr>, False)"
  by (simp_all add: config_fields_def fld_def key_match_def lower_words dec_raw_def dec_str_def Let_def)

lemma config_guardrails:
  "ac_Guardrails r = None \<Longrightarrow> dec_member config_fields (''guardrails'', guardrails_json g) r = (r\<lparr>ac_Guardrails := Some g\<rparr>, False)"
proof -
  assume r: "ac_Guardrails r = None"
  obtain kvs where "guardrails_json g = JObj kvs" by (simp add: guardrails_json_def)
  then have "dec_ptr \<lparr>ag_ToolPermissions = None\<rparr> dec_guardrails (guardrails_json g) None = (Some g, False)"
    using guardrails_roundtrip [of g] by (simp add: dec_ptr_def)
  then show ?thesis using r by (simp add: config_fields_def fld_def key_match_def lower_words)
qed

lemma config_other:
  "k \<in> {''description'', ''id'', ''mcp_servers'', ''metadata'', ''multiagent'', ''name'', ''skills'', ''type'', ''version''} \<Longrightarrow>
     dec_member config_fields (k, v) r = (r, False)"
  by (elim insertE emptyE) (simp_all add: config_fields_def fld_def key_match_def lower_words)

lemma config_read: "agent_config (Some (JObj kvs)) = fst (dec_members config_fields kvs zero_config)"
  by (simp add: agent_config_def unmarshal_def dec_config_def dec_struct_def config_fields_def)

lemma members_Cons:
  "dec_member fs kv r = (r1, False) \<Longrightarrow> dec_members fs (kv # kvs) r = dec_members fs kvs r1"
  by (simp add: Let_def split: prod.splits)

lemmas config_run = members_Cons [OF config_other] members_Cons [OF config_member(1)] members_Cons [OF config_member(2)]
  members_Cons [OF config_member(3)] members_Cons [OF config_guardrails]

lemma snapshot_config:
  assumes "ar_Model a = Some mo" "ar_Tools a = Some to" "ar_MCPServers a = Some mc" "ar_Skills a = Some sk"
  shows "agent_config (marshal_obj (snapshot_members a (map_option (\<lambda>g. Some (guardrails_json g)) g) (Some md)))
    = \<lparr>ac_Model = Some mo, ac_System = (case ar_System a of None \<Rightarrow> [] | Some s \<Rightarrow> s), ac_Tools = Some to, ac_Guardrails = g\<rparr>"
proof -
  define multi where "multi = (if ar_Multiagent a = Some JNull then None else ar_Multiagent a)"
  have multi: "(if ar_Multiagent a = None \<or> ar_Multiagent a = Some JNull then None else Some (ar_Multiagent a)) = map_option Some multi"
    by (cases "ar_Multiagent a") (auto simp: multi_def)
  show ?thesis
    unfolding snapshot_members_def multi assms json_str_opt_def
    by (cases "ar_Description a"; cases g; cases multi; cases "ar_System a")
      (simp_all add: opt_member_def marshal_obj_def config_read config_run zero_config_def del: dec_members.simps(2))
qed

text \<open>A row that was stored from a request.\<close>

definition stored_from :: "'m CreateAgentRequest_scheme \<Rightarrow> AgentRow \<Rightarrow> bool" where
  "stored_from r row \<longleftrightarrow> ar_Name row = ra_Name r \<and> ar_Model row = Some (model_json (ra_Model r))
     \<and> ar_System row = nullStr (ra_System r) \<and> ar_Description row = nullStr (ra_Description r)
     \<and> ar_Tools row = Some (slice_json tool_json (ra_Tools r))
     \<and> ar_MCPServers row = Some (or_empty (slice_json (\<lambda>v. v) (ra_MCPServers r)))
     \<and> ar_Skills row = Some (or_empty (slice_json (\<lambda>v. v) (ra_Skills r)))
     \<and> ar_Multiagent row = nullRaw (ra_Multiagent r)
     \<and> ar_Metadata row = encodeAgentMetadata (ra_Metadata r) (ra_Guardrails r)"

lemma stored_version: "stored_from r (join_agent a (version_row aid n t (agent_input tenant r))) \<longleftrightarrow> at_Name a = ra_Name r"
  by (simp add: stored_from_def join_agent_def version_row_def agent_input_def or_raw_def encoded_metadata)

lemma stored_snapshot:
  assumes "stored_from r row" "distinct (map fst (entries (ra_Metadata r)))"
  shows "agent_config (marshal_obj (agentSnapshot row))
    = \<lparr>ac_Model = Some (model_json (ra_Model r)), ac_System = ra_System r, ac_Tools = Some (slice_json tool_json (ra_Tools r)),
       ac_Guardrails = ra_Guardrails r\<rparr>"
proof -
  have dec: "unmarshal dec_smap None (ar_Metadata row) = (Some (sort_key fst (all_metadata (ra_Metadata r) (ra_Guardrails r))), False)"
    using assms(1) metadata_read [OF assms(2)] by (simp add: stored_from_def encoded_metadata unmarshal_def)
  have g: "map_of (sort_key fst (all_metadata (ra_Metadata r) (ra_Guardrails r))) guardrailsMetadataKey
      = map_option (\<lambda>x. jprint (guardrails_json x)) (ra_Guardrails r)"
    by (rule metadata_guardrails [OF assms(2)])
  have row: "ar_Model row = Some (model_json (ra_Model r))" "ar_Tools row = Some (slice_json tool_json (ra_Tools r))"
    "ar_MCPServers row = Some (or_empty (slice_json (\<lambda>v. v) (ra_MCPServers r)))"
    "ar_Skills row = Some (or_empty (slice_json (\<lambda>v. v) (ra_Skills r)))" "ar_System row = nullStr (ra_System r)"
    using assms(1) by (simp_all add: stored_from_def)
  have st: "stored_guardrails row = map_option (\<lambda>x. (jprint (guardrails_json x),
      delete_key guardrailsMetadataKey (Some (sort_key fst (all_metadata (ra_Metadata r) (ra_Guardrails r)))))) (ra_Guardrails r)"
    by (simp add: stored_guardrails_def dec entries_def g option.map_comp comp_def)
  have md: "ar_Metadata row = Some (marshal_smap (Some (all_metadata (ra_Metadata r) (ra_Guardrails r))))"
    using assms(1) by (simp add: stored_from_def encoded_metadata)
  have "\<exists>md. agentSnapshot row = snapshot_members row (map_option (\<lambda>g. Some (guardrails_json g)) (ra_Guardrails r)) (Some md)"
    by (cases "ra_Guardrails r") (auto simp: agentSnapshot_def st md json_roundtrip guardrails_wf)
  then obtain md where "agentSnapshot row = snapshot_members row (map_option (\<lambda>g. Some (guardrails_json g)) (ra_Guardrails r)) (Some md)" ..
  then show ?thesis using snapshot_config [OF row(1-4)] by (simp add: row(5) nullStr_def)
qed

section \<open>Sessions carry their agent's guardrails\<close>

lemma CreateSession_value:
  assumes "CreateSession e c i w = (Inr row, w')"
  shows "ss_AgentSnapshot row = ci_AgentSnapshot i"
  using assms
  by (auto simp: CreateSession_def Let_def run_values NewID_run now_run GetSession_def session_by_def session_insert_ok_def
      select_one_append select_one_single dest!: run_dests split: option.splits)

lemma session_Create_value:
  assumes "session_Create e c tenant r w = (Inr s, w')"
  shows "\<exists>a. agent_view (rf_ID (rs_Agent r)) w = Some a \<and> se_Agent s = marshal_obj (agentSnapshot a)"
proof -
  from assms obtain a w1 eid w2 row w3 where a: "GetAgent e c (rf_ID (rs_Agent r)) w = (Inr a, w1)"
    and row: "CreateSession e c \<lparr>ci_TenantID = tenant, ci_AgentID = ar_ID a, ci_AgentVersion = ar_Version a,
                 ci_AgentSnapshot = marshal_obj (agentSnapshot a), ci_EnvironmentID = eid, ci_Title = rs_Title r,
                 ci_VaultIDs = rs_VaultIDs r, ci_Metadata = session_metadata (rs_Metadata r)\<rparr> w2 = (Inr row, w3)"
    and s: "s = session_rowToAPI row"
    by (auto simp: session_Create_def run_values io_run split: if_splits)
  then show ?thesis using GetAgent_value [OF a] CreateSession_value [OF row] by (simp add: session_rowToAPI_def)
qed

text \<open>C8: The guardrails, the system prompt and the tools a turn works under are those the agent of its
session was created with: whatever metadata the request contains, it neither adds guardrails nor
hides them, and the snapshot of the session carries them unchanged.\<close>

theorem guardrails_reach_the_turn:
  assumes agent: "agent_Create e c tenant r w = (Inr a, w1)" "distinct (map fst (entries (ra_Metadata r)))"
    and later: "agent_view (aa_ID a) w2 = agent_view (aa_ID a) w1"
    and session: "session_Create e' c' tenant' q w2 = (Inr s, w3)" "rf_ID (rs_Agent q) = aa_ID a"
  shows "agent_config (se_Agent s) = \<lparr>ac_Model = Some (model_json (ra_Model r)), ac_System = ra_System r,
    ac_Tools = Some (slice_json tool_json (ra_Tools r)), ac_Guardrails = ra_Guardrails r\<rparr>"
proof -
  obtain row where row: "CreateAgent e c (agent_input tenant r) w = (Inr row, w1)" and a: "a = agent_rowToAPI row"
    using agent(1) by (auto simp: agent_Create_def run_values io_run)
  obtain b t where b: "row = join_agent b (version_row (at_ID b) 1 t (agent_input tenant r))" "at_Name b = ra_Name r"
    and view: "agent_view (at_ID b) w1 = Some row"
    using CreateAgent_value [OF row] by (auto simp: agent_input_def)
  have id: "aa_ID a = at_ID b" by (simp add: a b(1) agent_rowToAPI_def Let_def join_agent_def)
  have "se_Agent s = marshal_obj (agentSnapshot row)"
    using session_Create_value [OF session(1)] view later by (simp add: session(2) id)
  moreover have "stored_from r row" by (simp add: b stored_version)
  ultimately show ?thesis using stored_snapshot [OF _ agent(2)] by simp
qed

section \<open>A created agent is shown as it was requested\<close>

lemma model_roundtrip: "dec_model (model_json m) z = (m, False)"
proof -
  have w: "ToLower ''id'' = ''id''" "ToLower ''speed'' = ''speed''" by code_simp+
  show ?thesis
    by (cases m) (simp add: dec_model_def model_json_def dec_str_def dec_model_fields_def opt_str_def dec_struct_def fld_def
        key_match_def w Let_def)
qed

definition tool_fields :: "ToolEntry field list" where
  "tool_fields =
     [fld ''type'' to_Type to_Type_update dec_str, fld ''name'' to_Name to_Name_update dec_str,
      fld ''mcp_server_name'' to_MCPServerName to_MCPServerName_update dec_str,
      fld ''description'' to_Description to_Description_update dec_str,
      fld ''input_schema'' to_InputSchema to_InputSchema_update dec_raw,
      fld ''configs'' to_Configs to_Configs_update dec_raw,
      fld ''default_config'' to_DefaultConfig to_DefaultConfig_update dec_raw]"

lemma tool_words:
  "ToLower ''mcp_server_name'' = ''mcp_server_name''" "ToLower ''input_schema'' = ''input_schema''"
  "ToLower ''configs'' = ''configs''" "ToLower ''default_config'' = ''default_config''"
  by code_simp+

lemmas tool_member_simps = opt_str_def opt_raw_def tool_fields_def fld_def key_match_def lower_words tool_words
  dec_str_def dec_raw_def Let_def

lemma tool_segments:
  "dec_members tool_fields ((''type'', JStr s) # kvs) t = dec_members tool_fields kvs (t\<lparr>to_Type := s\<rparr>)"
  "to_Name t = [] \<Longrightarrow> dec_members tool_fields (opt_str ''name'' s @ kvs) t = dec_members tool_fields kvs (t\<lparr>to_Name := s\<rparr>)"
  "to_MCPServerName t = [] \<Longrightarrow> dec_members tool_fields (opt_str ''mcp_server_name'' s @ kvs) t
     = dec_members tool_fields kvs (t\<lparr>to_MCPServerName := s\<rparr>)"
  "to_Description t = [] \<Longrightarrow> dec_members tool_fields (opt_str ''description'' s @ kvs) t
     = dec_members tool_fields kvs (t\<lparr>to_Description := s\<rparr>)"
  "to_InputSchema t = None \<Longrightarrow> dec_members tool_fields (opt_raw ''input_schema'' v @ kvs) t
     = dec_members tool_fields kvs (t\<lparr>to_InputSchema := v\<rparr>)"
  "to_Configs t = None \<Longrightarrow> dec_members tool_fields (opt_raw ''configs'' v @ kvs) t = dec_members tool_fields kvs (t\<lparr>to_Configs := v\<rparr>)"
  "to_DefaultConfig t = None \<Longrightarrow> dec_members tool_fields (opt_raw ''default_config'' v) t = (t\<lparr>to_DefaultConfig := v\<rparr>, False)"
  by (cases t; cases v; auto simp: tool_member_simps split: prod.splits)+

lemma tool_roundtrip: "dec_tool_entry (tool_json t) zero_tool = (t, False)"
proof -
  have "dec_tool_entry (tool_json t) zero_tool = dec_members tool_fields
      ((''type'', JStr (to_Type t)) # opt_str ''name'' (to_Name t)
     @ opt_str ''mcp_server_name'' (to_MCPServerName t) @ opt_str ''description'' (to_Description t)
     @ opt_raw ''input_schema'' (to_InputSchema t) @ opt_raw ''configs'' (to_Configs t)
     @ opt_raw ''default_config'' (to_DefaultConfig t)) zero_tool"
    by (simp add: dec_tool_entry_def dec_struct_def tool_fields_def tool_json_def)
  then show ?thesis by (simp add: tool_segments zero_tool_def del: dec_members.simps)
qed

lemma slice_roundtrip:
  assumes "\<And>x. d (f x) z = (x, False)"
  shows "dec_slice z d (slice_json f xs) old = (xs, False)"
  by (cases xs) (simp_all add: dec_slice_def slice_json_def assms comp_def list_ex_iff)

lemma tools_roundtrip: "dec_slice zero_tool dec_tool_entry (slice_json tool_json xs) old = (xs, False)"
  by (rule slice_roundtrip) (rule tool_roundtrip)

lemma array_shown: "raw_array (Some (or_empty (slice_json (\<lambda>v. v) xs))) (Some []) = Some (case xs of None \<Rightarrow> [] | Some ys \<Rightarrow> ys)"
  by (cases xs) (simp_all add: raw_array_def or_empty_def slice_json_def unmarshal_def dec_slice_def dec_value_def list_ex_iff)

text \<open>A created agent is shown with the name, the model, the prompt, the description, the tools and the
guardrails of the request, as version 1, and with the request's metadata less the reserved key.\<close>

theorem agent_is_shown_as_requested:
  assumes run: "agent_Create e c tenant r w = (Inr a, w1)" and keys: "distinct (map fst (entries (ra_Metadata r)))"
  shows "aa_Name a = ra_Name r \<and> aa_Model a = ra_Model r \<and> aa_System a = ra_System r \<and> aa_Description a = ra_Description r
    \<and> aa_Tools a = ra_Tools r \<and> aa_Guardrails a = ra_Guardrails r \<and> aa_Version a = 1
    \<and> aa_Skills a = Some (case ra_Skills r of None \<Rightarrow> [] | Some xs \<Rightarrow> xs)
    \<and> aa_MCPServers a = Some (case ra_MCPServers r of None \<Rightarrow> [] | Some xs \<Rightarrow> xs)
    \<and> aa_Metadata a = Some (sort_key fst (own_metadata (ra_Metadata r)))"
proof -
  obtain row where row: "CreateAgent e c (agent_input tenant r) w = (Inr row, w1)" and a: "a = agent_rowToAPI row"
    using run by (auto simp: agent_Create_def run_values io_run)
  obtain b t where b: "row = join_agent b (version_row (at_ID b) 1 t (agent_input tenant r))" "at_Name b = ra_Name r" "at_CurrentVersion b = 1"
    using CreateAgent_value [OF row] by (auto simp: agent_input_def)
  have st: "stored_from r row" by (simp add: b stored_version)
  have meta: "fst (dec_smap (marshal_smap (Some (all_metadata (ra_Metadata r) (ra_Guardrails r)))) (Some []))
      = Some (sort_key fst (all_metadata (ra_Metadata r) (ra_Guardrails r)))"
    using metadata_read [OF keys] by simp
  have own: "filter (\<lambda>kv. fst kv \<noteq> guardrailsMetadataKey) (sort_key fst (all_metadata (ra_Metadata r) (ra_Guardrails r)))
      = sort_key fst (own_metadata (ra_Metadata r))"
    by (cases "ra_Guardrails r") (simp_all add: filter_sort all_metadata_def own_metadata_def)
  have "aa_Guardrails a = (case map_option (\<lambda>x. jprint (guardrails_json x)) (ra_Guardrails r) of None \<Rightarrow> None
      | Some it \<Rightarrow> (case unmarshal dec_guardrails \<lparr>ag_ToolPermissions = None\<rparr> (jparse it) of
          (g, False) \<Rightarrow> Some g | (_, True) \<Rightarrow> None))"
    using st by (simp add: a agent_rowToAPI_def Let_def stored_from_def encoded_metadata meta entries_def metadata_guardrails [OF keys])
  then have "aa_Guardrails a = ra_Guardrails r" by (cases "ra_Guardrails r") (simp_all add: guardrails_text)
  moreover have "aa_Metadata a = Some (sort_key fst (own_metadata (ra_Metadata r)))"
    using st own by (simp add: a agent_rowToAPI_def Let_def stored_from_def encoded_metadata meta delete_key_def)
  moreover have "aa_Version a = 1" by (simp add: a b agent_rowToAPI_def Let_def join_agent_def)
  moreover have "aa_Name a = ra_Name r" "aa_Model a = ra_Model r" "aa_System a = ra_System r" "aa_Description a = ra_Description r"
    "aa_Tools a = ra_Tools r"
    using st by (simp_all add: a agent_rowToAPI_def Let_def stored_from_def model_roundtrip nullStr_def tools_roundtrip)
  moreover have "aa_Skills a = Some (case ra_Skills r of None \<Rightarrow> [] | Some xs \<Rightarrow> xs)"
    "aa_MCPServers a = Some (case ra_MCPServers r of None \<Rightarrow> [] | Some xs \<Rightarrow> xs)"
    using st by (simp_all add: a agent_rowToAPI_def Let_def stored_from_def array_shown)
  ultimately show ?thesis by simp
qed

section \<open>Sessions that failed to be created\<close>

lemma GetAgent_run:
  "no_faults e \<Longrightarrow> \<not> cancelled c (tick w) \<Longrightarrow> agent_view aid w = Some a \<Longrightarrow> GetAgent e c aid w = (Inr a, w\<lparr>tick := Suc (tick w)\<rparr>)"
  by (simp add: GetAgent_def queryE_ok bindE_Inr optE_def returnE_def)

lemma GetEnvironment_run:
  "no_faults e \<Longrightarrow> \<not> cancelled c (tick w) \<Longrightarrow> environment_by eid w = Some x \<Longrightarrow>
     GetEnvironment e c eid w = (Inr x, w\<lparr>tick := Suc (tick w)\<rparr>)"
  by (simp add: GetEnvironment_def queryE_ok bindE_Inr optE_def returnE_def environment_by_def)

lemma CreateSession_run:
  assumes e: "no_faults e" "\<And>n. \<not> cancelled c n"
    and ok: "session_by (''sess-'' @ ToLower (ulid e (tick w))) w = None" "ci_AgentSnapshot i \<noteq> None" "ci_Metadata i \<noteq> None"
  shows "\<exists>row. CreateSession e c i w = (Inr row, w\<lparr>tick := tick w + 4, sessions := sessions w @ [row]\<rparr>)"
proof -
  define sid where "sid = ''sess-'' @ ToLower (ulid e (tick w))"
  have nid: "NewID e ''sess'' w = (Inr sid, w\<lparr>tick := Suc (tick w)\<rparr>)" by (simp add: NewID_run sid_def)
  let ?t = "clock e (Suc (tick w))"
  let ?row = "\<lparr>ss_ID = sid, ss_TenantID = or_default_tenant (ci_TenantID i), ss_AgentID = ci_AgentID i,
     ss_AgentVersion = ci_AgentVersion i, ss_AgentSnapshot = ci_AgentSnapshot i,
     ss_EnvironmentID = (if ci_EnvironmentID i = [] then ''default'' else ci_EnvironmentID i),
     ss_Status = ''idle'', ss_Title = nullStr (ci_Title i), ss_Metadata = or_raw (ci_Metadata i) (JObj []),
     ss_VaultIDs = marshal_strs (ci_VaultIDs i), ss_CreatedAt = ?t, ss_UpdatedAt = ?t, ss_ArchivedAt = None,
     ss_TerminatedAt = None, ss_NextSeq = 1, ss_UsageInput = 0, ss_UsageOutput = 0, ss_UsageCacheCreate = 0, ss_UsageCacheRead = 0\<rparr>"
  have none: "session_by sid w = None" using ok(1) by (simp add: sid_def)
  have ins: "session_insert_ok ?row (w\<lparr>tick := n\<rparr>)" for n
    using none ok(2,3) by (auto simp: session_insert_ok_def session_by_def marshal_strs_def or_raw_def split: option.splits)
  have get: "session_by sid (w\<lparr>sessions := sessions w @ [?row], tick := n\<rparr>) = Some ?row" for n
    using none by (simp add: session_by_def select_one_append select_one_single)
  have "CreateSession e c i w = (Inr ?row, w\<lparr>tick := tick w + 4, sessions := sessions w @ [?row]\<rparr>)"
    by (simp add: CreateSession_def nid bindE_def now_run Let_def wrapE_def catchE_def insertE_ok e ins GetSession_def queryE_ok get
        optE_def returnE_def eval_nat_numeral split del: if_split)
  then show ?thesis ..
qed

lemma refused_resource:
  assumes e: "no_faults e" "\<And>n. \<not> cancelled c n" and "\<not> resource_type_allowed (re_Type x)"
  shows "add_resource e c sid x w = (Inl (Wrap (''add resource '' @ re_Type x) (DBError ''constraint failed'')), w\<lparr>tick := tick w + 3\<rparr>)"
  using assms(3)
  by (simp add: add_resource_def wrapE_def catchE_def bindE_def AddSessionResource_def NewID_run now_run Let_def
      insertE_violation e throwE_def eval_nat_numeral)

text \<open>When a resource of a new session is refused, the request fails, but the session is already in
the table and stays there.\<close>

theorem failed_creation_leaves_a_session:
  assumes e: "no_faults e" "\<And>n. \<not> cancelled c n"
    and agent: "agent_view (rf_ID (rs_Agent r)) w = Some a" "rf_ID (rs_Agent r) \<noteq> []" "marshal_obj (agentSnapshot a) \<noteq> None"
    and env: "environment_by (rs_EnvironmentID r) w \<noteq> None" "rs_EnvironmentID r \<noteq> []"
    and fresh: "\<And>n. n \<ge> tick w \<Longrightarrow> session_by (''sess-'' @ ToLower (ulid e n)) w = None"
    and res: "rs_Resources r = Some [x]" "\<not> resource_type_allowed (re_Type x)"
  shows "\<exists>err w' s. session_Create e c tenant r w = (Inl err, w') \<and> sessions w' = sessions w @ [s] \<and> resources w' = resources w"
proof -
  obtain x0 where x0: "environment_by (rs_EnvironmentID r) w = Some x0" using env(1) by blast
  have env_tick: "environment_by eid (w\<lparr>tick := n\<rparr>) = environment_by eid w" for eid n by (simp add: environment_by_def)
  have pick: "pick_environment e c tenant (rs_EnvironmentID r) (w\<lparr>tick := n\<rparr>) = (Inr (rs_EnvironmentID r), w\<lparr>tick := Suc n\<rparr>)" for n
    using env(2) x0 by (simp add: pick_environment_def bindE_def catchE_def GetEnvironment_run e env_tick returnE_def)
  let ?i = "\<lparr>ci_TenantID = tenant, ci_AgentID = ar_ID a, ci_AgentVersion = ar_Version a,
     ci_AgentSnapshot = marshal_obj (agentSnapshot a), ci_EnvironmentID = rs_EnvironmentID r, ci_Title = rs_Title r,
     ci_VaultIDs = rs_VaultIDs r, ci_Metadata = session_metadata (rs_Metadata r)\<rparr>"
  let ?w2 = "w\<lparr>tick := Suc (Suc (tick w))\<rparr>"
  have "session_by (''sess-'' @ ToLower (ulid e (tick ?w2))) ?w2 = None" using fresh [of "tick ?w2"] by (simp add: session_by_def)
  then obtain row where row: "CreateSession e c ?i ?w2 = (Inr row, ?w2\<lparr>tick := tick ?w2 + 4, sessions := sessions ?w2 @ [row]\<rparr>)"
    using CreateSession_run [OF e, of ?w2 ?i] agent(3) by (auto simp: session_metadata_def)
  show ?thesis
    by (intro exI conjI, simp add: session_Create_def agent GetAgent_run e bindE_def pick row res(1) refused_resource [OF e res(2)])
      simp_all
qed

section \<open>Examples\<close>

lemma CreateAgent_run:
  assumes e: "no_faults e" "\<And>n. \<not> cancelled c n"
    and fresh: "agent_by (''agt-'' @ ToLower (ulid e (tick w))) w = None" "agent_versions w = []"
    and model: "ai_Model inp \<noteq> None"
  shows "\<exists>a t w'. CreateAgent e c inp w = (Inr (join_agent a (version_row (at_ID a) 1 t inp)), w')
    \<and> at_Name a = ai_Name inp \<and> at_ID a = ''agt-'' @ ToLower (ulid e (tick w)) \<and> sessions w' = sessions w
    \<and> agent_view (at_ID a) w' = Some (join_agent a (version_row (at_ID a) 1 t inp))"
proof -
  define aid where "aid = ''agt-'' @ ToLower (ulid e (tick w))"
  have nid: "NewID e ''agt'' w = (Inr aid, w\<lparr>tick := Suc (tick w)\<rparr>)" by (simp add: NewID_run aid_def)
  define t where "t = clock e (Suc (tick w))"
  define a where "a = \<lparr>at_ID = aid, at_TenantID = or_default_tenant (ai_TenantID inp), at_Name = ai_Name inp,
     at_ArchivedAt = None, at_CreatedAt = t, at_UpdatedAt = t, at_CurrentVersion = 1\<rparr>"
  have aid [simp]: "at_ID a = aid" "at_CurrentVersion a = 1" by (simp_all add: a_def)
  have none: "agent_by aid w = None" using fresh(1) by (simp add: aid_def)
  have ok1: "agent_by aid (w\<lparr>tick := n\<rparr>) = None" for n using none by (simp add: agent_by_def)
  have sel: "select_one (\<lambda>r. at_ID r = aid) (agents w @ [a]) = Some a"
    using none by (simp add: agent_by_def select_one_append select_one_single)
  have ok2: "version_insert_ok (version_row aid 1 t inp) (w\<lparr>agents := agents w @ [a], tick := n\<rparr>)" for n
    using model sel by (simp add: version_insert_ok_def agent_by_def version_by_def fresh(2) table_simps) (simp add: version_row_def)
  have view: "agent_view aid (w\<lparr>agents := agents w @ [a], agent_versions := [version_row aid 1 t inp]\<rparr>)
      = Some (join_agent a (version_row aid 1 t inp))"
    using sel by (simp add: agent_view_def agent_by_def version_by_def select_one_single)
  have "CreateAgent e c inp w = (Inr (join_agent a (version_row aid 1 t inp)),
      w\<lparr>tick := tick w + 7, agents := agents w @ [a], agent_versions := [version_row aid 1 t inp]\<rparr>)"
    by (simp add: CreateAgent_def nid bindE_def now_run Let_def in_tx_def wrapE_def catchE_def stmt_ok insertE_ok e ok1 ok2 fresh(2)
        GetAgent_def queryE_ok view optE_def returnE_def eval_nat_numeral flip: t_def a_def)
  moreover have "agent_view aid (w\<lparr>tick := tick w + 7, agents := agents w @ [a], agent_versions := [version_row aid 1 t inp]\<rparr>)
      = Some (join_agent a (version_row aid 1 t inp))"
    using sel by (simp add: agent_view_def agent_by_def version_by_def select_one_single)
  ultimately show ?thesis by (intro exI [of _ a] exI [of _ t] exI conjI) (simp_all add: aid_def a_def)
qed

definition guarded_request :: CreateAgentRequest where
  "guarded_request = zero_create_agent\<lparr>ra_Name := ''reviewer'', ra_Model := \<lparr>am_ID = ''claude-x'', am_Speed = []\<rparr>,
     ra_System := ''be brief'', ra_Tools := Some [zero_tool\<lparr>to_Type := ''agent_toolset_20260401''\<rparr>],
     ra_Guardrails := Some \<lparr>ag_ToolPermissions = Some \<lparr>tp_Allowed = [], tp_Denied = [''bash'']\<rparr>\<rparr>,
     ra_Metadata := Some [(''team'', ''core''), (guardrailsMetadataKey, ''{}'')]\<rparr>"

definition session_for :: "string \<Rightarrow> ResourceEntry list option \<Rightarrow> string \<Rightarrow> CreateSessionRequest" where
  "session_for aid xs eid = zero_create_session\<lparr>rs_Agent := zero_ref\<lparr>rf_ID := aid\<rparr>, rs_Resources := xs, rs_EnvironmentID := eid\<rparr>"

lemma guarded_keys: "distinct (map fst (entries (ra_Metadata guarded_request)))"
  by (simp add: guarded_request_def entries_def guardrailsMetadataKey_def)

lemma demo_env_runs: "no_faults demo_env" by (simp add: no_faults_def demo_env_def)

lemma guarded_agent:
  obtains a row w1 where "agent_Create demo_env Background ''acme'' guarded_request empty_world = (Inr a, w1)"
    "agent_view (aa_ID a) w1 = Some row" "stored_from guarded_request row" "sessions w1 = []" "aa_ID a \<noteq> []"
proof -
  let ?i = "agent_input ''acme'' guarded_request"
  obtain a t w1 where run: "CreateAgent demo_env Background ?i empty_world = (Inr (join_agent a (version_row (at_ID a) 1 t ?i)), w1)"
    and id: "at_Name a = ai_Name ?i" "at_ID a = ''agt-'' @ ToLower (ulid demo_env (tick empty_world))" "sessions w1 = sessions empty_world"
    and view: "agent_view (at_ID a) w1 = Some (join_agent a (version_row (at_ID a) 1 t ?i))"
    using CreateAgent_run [OF demo_env_runs, of Background empty_world ?i]
    by (auto simp: agent_by_def empty_world_def table_simps agent_input_def)
  let ?row = "join_agent a (version_row (at_ID a) 1 t ?i)"
  have aid: "aa_ID (agent_rowToAPI ?row) = at_ID a" by (simp add: agent_rowToAPI_def Let_def join_agent_def)
  show thesis
  proof (rule that [of "agent_rowToAPI ?row" w1 ?row])
    show "agent_Create demo_env Background ''acme'' guarded_request empty_world = (Inr (agent_rowToAPI ?row), w1)"
      using run by (simp add: agent_Create_def bindE_def returnE_def)
    show "agent_view (aa_ID (agent_rowToAPI ?row)) w1 = Some ?row" using view by (simp add: aid)
    show "stored_from guarded_request ?row" using id(1) by (simp add: stored_version) (simp add: agent_input_def)
    show "sessions w1 = []" by (simp add: id(3) empty_world_def)
    show "aa_ID (agent_rowToAPI ?row) \<noteq> []" unfolding aid by (subst id(2)) simp
  qed
qed

lemma session_Create_plain:
  assumes e: "no_faults e" "\<And>n. \<not> cancelled c n"
    and agent: "agent_view aid w = Some a" "aid \<noteq> []" "marshal_obj (agentSnapshot a) \<noteq> None" and "sessions w = []"
  shows "\<exists>s w'. session_Create e c tenant (session_for aid None []) w = (Inr s, w')"
proof -
  let ?i = "\<lparr>ci_TenantID = tenant, ci_AgentID = ar_ID a, ci_AgentVersion = ar_Version a,
     ci_AgentSnapshot = marshal_obj (agentSnapshot a), ci_EnvironmentID = ''default'', ci_Title = [],
     ci_VaultIDs = None, ci_Metadata = session_metadata None\<rparr>"
  let ?w = "w\<lparr>tick := Suc (tick w)\<rparr>"
  obtain w2 where pick: "pick_environment e c tenant [] ?w = (Inr ''default'', w2)" and w2: "sessions w2 = []"
    using assms(6)
    by (simp add: pick_environment_def bindE_def wrapE_def catchE_def EnsureDefaultEnvironment_def now_run insertE_ok e returnE_def
        split: if_splits)
  obtain row w3 where "CreateSession e c ?i w2 = (Inr row, w3)"
    using CreateSession_run [OF e, of w2 ?i] agent(3) w2 by (auto simp: session_metadata_def session_by_def table_simps)
  then show ?thesis
    by (simp add: session_Create_def session_for_def zero_create_session_def zero_ref_def agent(1,2) GetAgent_run e bindE_def pick returnE_def)
qed

lemma guardrails_reach_the_turn_witness:
  "\<exists>s w3. (case agent_Create demo_env Background ''acme'' guarded_request empty_world of
      (Inr a, w1) \<Rightarrow> session_Create demo_env Background ''acme'' (session_for (aa_ID a) None []) w1 = (Inr s, w3)
    | _ \<Rightarrow> False) \<and> ac_Guardrails (agent_config (se_Agent s)) = Some \<lparr>ag_ToolPermissions = Some \<lparr>tp_Allowed = [], tp_Denied = [''bash'']\<rparr>\<rparr>"
proof -
  obtain a row w1 where a: "agent_Create demo_env Background ''acme'' guarded_request empty_world = (Inr a, w1)"
    and row: "agent_view (aa_ID a) w1 = Some row" "stored_from guarded_request row" and w1: "sessions w1 = []" "aa_ID a \<noteq> []"
    by (rule guarded_agent)
  have "ac_Model (agent_config None) = None" by (simp add: agent_config_def unmarshal_def zero_config_def)
  then have "marshal_obj (agentSnapshot row) \<noteq> None" using stored_snapshot [OF row(2) guarded_keys]
    by (metis agentConfig.select_convs(1) option.distinct(1))
  then obtain s w3 where s: "session_Create demo_env Background ''acme'' (session_for (aa_ID a) None []) w1 = (Inr s, w3)"
    using session_Create_plain [OF demo_env_runs _ row(1) w1(2) _ w1(1), of Background "''acme''"] by fastforce
  show ?thesis
    using guardrails_reach_the_turn [OF a guarded_keys refl s] a s
    by (intro exI [of _ s] exI [of _ w3]) (simp add: session_for_def zero_create_session_def zero_ref_def guarded_request_def)
qed

lemma agent_is_shown_as_requested_witness:
  "case agent_Create demo_env Background ''acme'' guarded_request empty_world of
     (Inr a, _) \<Rightarrow> aa_Metadata a = Some [(''team'', ''core'')] \<and> aa_Version a = 1 | _ \<Rightarrow> False"
proof -
  obtain a w1 where a: "agent_Create demo_env Background ''acme'' guarded_request empty_world = (Inr a, w1)" by (rule guarded_agent)
  have "aa_Metadata a = Some (sort_key fst (own_metadata (ra_Metadata guarded_request))) \<and> aa_Version a = 1"
    using agent_is_shown_as_requested [OF a guarded_keys] by blast
  moreover have "sort_key fst (own_metadata (ra_Metadata guarded_request)) = [(''team'', ''core'')]"
    by (simp add: guarded_request_def own_metadata_def entries_def guardrailsMetadataKey_def)
  ultimately show ?thesis by (simp add: a)
qed

lemma failed_creation_leaves_a_session_witness:
  "\<exists>aid w err w' s. session_Create demo_env Background ''acme''
      (session_for aid (Some [zero_resource\<lparr>re_Type := ''disk''\<rparr>]) ''env-1'') w = (Inl err, w') \<and> sessions w = [] \<and> sessions w' = [s]"
proof -
  obtain a row w1 where "agent_Create demo_env Background ''acme'' guarded_request empty_world = (Inr a, w1)"
    and row: "agent_view (aa_ID a) w1 = Some row" "stored_from guarded_request row" and w1: "sessions w1 = []" "aa_ID a \<noteq> []"
    by (rule guarded_agent)
  have "ac_Model (agent_config None) = None" by (simp add: agent_config_def unmarshal_def zero_config_def)
  then have snap: "marshal_obj (agentSnapshot row) \<noteq> None" using stored_snapshot [OF row(2) guarded_keys]
    by (metis agentConfig.select_convs(1) option.distinct(1))
  let ?q = "session_for (aa_ID a) (Some [zero_resource\<lparr>re_Type := ''disk''\<rparr>]) ''env-1''"
  let ?w = "w1\<lparr>environments := [environment_row ''env-1'' ''acme'' ''dev'' None 0]\<rparr>"
  have view: "agent_view aid ?w = agent_view aid w1" for aid
    by (simp add: agent_view_def agent_by_def version_by_def [abs_def] cong: option.case_cong)
  have q: "rf_ID (rs_Agent ?q) = aa_ID a" "rs_EnvironmentID ?q = ''env-1''" "rs_Resources ?q = Some [zero_resource\<lparr>re_Type := ''disk''\<rparr>]"
    by (simp_all add: session_for_def zero_create_session_def zero_ref_def)
  have "\<exists>err w' s. session_Create demo_env Background ''acme'' ?q ?w = (Inl err, w') \<and> sessions w' = sessions ?w @ [s] \<and> resources w' = resources ?w"
  proof (rule failed_creation_leaves_a_session [OF demo_env_runs cancelled_simps(1) _ _ snap _ _ _ q(3)])
    show "agent_view (rf_ID (rs_Agent ?q)) ?w = Some row" by (simp only: q(1) view row(1))
    show "rf_ID (rs_Agent ?q) \<noteq> []" by (simp only: q(1) w1(2) not_False_eq_True)
    show "environment_by (rs_EnvironmentID ?q) ?w \<noteq> None" "rs_EnvironmentID ?q \<noteq> []"
      by (simp_all add: q(2) environment_by_def select_one_single environment_row_def)
    show "session_by (''sess-'' @ ToLower (ulid demo_env n)) ?w = None" for n by (simp add: session_by_def w1(1) table_simps)
    show "\<not> resource_type_allowed (re_Type (zero_resource\<lparr>re_Type := ''disk''\<rparr>))" by (simp add: resource_type_allowed_def)
  qed
  then show ?thesis using w1(1)
    by (intro exI [of _ "aa_ID a"] exI [of _ ?w]) auto
qed

end
