(* ===== verification/GoAny.thy ===== *)
theory GoAny
  imports GoMap
begin

text \<open>
  JSON that goes through a Go \<open>any\<close> and back: numbers become \<open>float64\<close> and are printed again, objects
  become maps, in which the last of several members of a name counts and which are written in the
  order of their names. The parameter prints a number again, or fails when it is out of range.
\<close>

type_synonym renum = "string \<Rightarrow> string option"

definition sorted_members :: "(string \<times> 'a) list \<Rightarrow> (string \<times> 'a) list" where
  "sorted_members kvs = sort_key fst (AList.clearjunk (rev kvs))"

fun any_json :: "renum \<Rightarrow> json \<Rightarrow> json" where
  "any_json f (JNum s) = (case f s of None \<Rightarrow> JNull | Some t \<Rightarrow> JNum t)"
| "any_json f (JArr vs) = JArr (map (any_json f) vs)"
| "any_json f (JObj kvs) = JObj (sorted_members (map (\<lambda>(k, v). (k, any_json f v)) kvs))"
| "any_json f v = v"

text \<open>Decoding fails when one number is out of range.\<close>

fun any_ok :: "renum \<Rightarrow> json \<Rightarrow> bool" where
  "any_ok f (JNum s) = (f s \<noteq> None)"
| "any_ok f (JArr vs) = list_all (any_ok f) vs"
| "any_ok f (JObj kvs) = list_all (\<lambda>(k, v). any_ok f v) kvs"
| "any_ok f v = True"

text \<open>\<open>json.Unmarshal\<close> into a \<open>map[string]any\<close>: the nil map for \<open>null\<close>; and what a lookup then yields.\<close>

definition dec_any_map :: "renum \<Rightarrow> (string \<times> json) list option dec" where
  "dec_any_map f v old =
     (case v of
        JObj kvs \<Rightarrow> (Some (map (\<lambda>(k, v). (k, any_json f v)) kvs), \<not> any_ok f v)
      | JNull \<Rightarrow> (None, False) | _ \<Rightarrow> (old, True))"

definition any_lookup :: "(string \<times> json) list \<Rightarrow> string \<rightharpoonup> json" where
  "any_lookup kvs = map_of (rev kvs)"

text \<open>Writing the members in order changes no lookup.\<close>

lemma map_of_sorted: "map_of (sorted_members kvs) = any_lookup kvs"
proof -
  let ?xs = "AList.clearjunk (rev kvs)"
  have d: "distinct (map fst ?xs)" by (rule distinct_clearjunk)
  have "distinct (map fst (sort_key fst ?xs))" using d by (simp add: distinct_map inj_on_def)
  then have "map_of (sort_key fst ?xs) = map_of ?xs"
    using d by (intro map_of_inject_set [THEN iffD2]) auto
  then show ?thesis by (simp add: sorted_members_def any_lookup_def map_of_clearjunk)
qed

end
