(* ===== verification/Transition.thy ===== *)
theory Transition
  imports Prelude
begin

text \<open>
  Transition systems given by a step function on actions: reachability, the
  invariant rule, and the executions of a list of actions.
\<close>

definition step_rel :: "('a \<Rightarrow> 's \<Rightarrow> 's option) \<Rightarrow> 's \<Rightarrow> 's \<Rightarrow> bool" where
  "step_rel f s t \<longleftrightarrow> (\<exists>a. f a s = Some t)"

inductive reachable :: "('a \<Rightarrow> 's \<Rightarrow> 's option) \<Rightarrow> 's \<Rightarrow> 's \<Rightarrow> bool" for f where
  start: "reachable f s s"
| more: "reachable f s t \<Longrightarrow> f a t = Some u \<Longrightarrow> reachable f s u"

inductive_cases reachableE: "reachable f s t"

fun run_actions :: "('a \<Rightarrow> 's \<Rightarrow> 's option) \<Rightarrow> 'a list \<Rightarrow> 's \<Rightarrow> 's option" where
  "run_actions f [] s = Some s"
| "run_actions f (a # as) s = (case f a s of None \<Rightarrow> None | Some t \<Rightarrow> run_actions f as t)"

lemma reachable_trans: "reachable f t u \<Longrightarrow> reachable f s t \<Longrightarrow> reachable f s u"
  by (induction rule: reachable.induct) (auto intro: reachable.more)

lemma run_actions_reachable: "run_actions f as s = Some t \<Longrightarrow> reachable f s t"
proof (induction as arbitrary: s)
  case (Cons a as)
  then obtain u where "f a s = Some u" "run_actions f as u = Some t"
    by (auto split: option.splits)
  then show ?case
    using Cons.IH reachable_trans reachable.more [OF reachable.start] by metis
qed (simp add: reachable.start)

locale invariant_system =
  fixes step :: "'a \<Rightarrow> 's \<Rightarrow> 's option"
    and init :: "'s \<Rightarrow> bool"
    and inv :: "'s \<Rightarrow> bool"
  assumes init_inv: "init s \<Longrightarrow> inv s"
    and step_inv: "inv s \<Longrightarrow> step a s = Some t \<Longrightarrow> inv t"
begin

lemma reachable_inv: "reachable step s t \<Longrightarrow> init s \<Longrightarrow> inv t"
  by (induction rule: reachable.induct) (auto intro: init_inv step_inv)

lemma run_inv: "run_actions step as s = Some t \<Longrightarrow> init s \<Longrightarrow> inv t"
  by (rule reachable_inv [OF run_actions_reachable])

end

end
