(* ===== verification/EventStream.thy ===== *)
theory EventStream
  imports Broker GoAny Transition "HOL-Library.Sublist"
begin

text \<open>
  The event stream of a session (\<open>internal/api/event.go\<close>): a client gets the events after the
  number it names from the log, then the new ones from a subscription, until the session is idle
  or terminated. Publishers and the handler interleave.
\<close>

section \<open>The handler\<close>

definition isTerminal :: "string \<Rightarrow> bool" where
  "isTerminal ty \<longleftrightarrow> ty = ''session.status_idle'' \<or> ty = ''session.status_terminated''"

text \<open>\<open>parseSinceSeq\<close> on the values of \<open>?since=\<close> and \<open>Last-Event-ID\<close>, empty when absent.\<close>

definition parseSinceSeq :: "string \<Rightarrow> string \<Rightarrow> int" where
  "parseSinceSeq since lastEventID =
     (let v = (if since = [] then lastEventID else since) in
      if v = [] then 0
      else (case ParseInt v of None \<Rightarrow> 0 | Some n \<Rightarrow> if n < 0 then 0 else n))"

text \<open>The row built from an event of the subscription has no times.\<close>

definition live_row :: "Event \<Rightarrow> EventRow" where
  "live_row ev = \<lparr>ev_ID = be_ID ev, ev_SessionID = be_SessionID ev, ev_ThreadID = be_ThreadID ev, ev_Seq = be_Seq ev,
     ev_Type = be_Type ev, ev_Payload = be_Payload ev, ev_ProcessedAt = None, ev_CreatedAt = 0\<rparr>"

text \<open>
  Merging the payload with the columns goes through a \<open>map[string]any\<close>; a payload that is no object,
  or has a number out of range, counts as empty.
\<close>

definition payload_map :: "renum \<Rightarrow> raw \<Rightarrow> string \<rightharpoonup> json" where
  "payload_map f r = (case unmarshal (dec_any_map f) None r of (Some m, False) \<Rightarrow> any_lookup m | _ \<Rightarrow> Map.empty)"

definition mergeEventPayload :: "renum \<Rightarrow> EventRow \<Rightarrow> string \<rightharpoonup> json" where
  "mergeEventPayload f ev =
     (let m = (payload_map f (ev_Payload ev))(''id'' \<mapsto> JStr (ev_ID ev), ''session_id'' \<mapsto> JStr (ev_SessionID ev),
                ''session_thread_id'' \<mapsto> JStr (ev_ThreadID ev), ''seq'' \<mapsto> JNum (int_str (ev_Seq ev)))
      in case ev_ProcessedAt ev of None \<Rightarrow> m | Some t \<Rightarrow> m(''processed_at'' \<mapsto> JNum (int_str t)))"

text \<open>A frame of the stream: its \<open>id:\<close>, \<open>event:\<close> and \<open>data:\<close> lines.\<close>

record frame =
  fr_id :: string
  fr_event :: string
  fr_data :: "string \<rightharpoonup> json"

definition writeEvent :: "renum \<Rightarrow> EventRow \<Rightarrow> frame" where
  "writeEvent f row = \<lparr>fr_id = int_str (ev_Seq row), fr_event = ev_Type row, fr_data = mergeEventPayload f row\<rparr>"

datatype phase = Opening | Streaming | Closed

record stream_state =
  sm_phase :: phase
  sm_chan :: nat
  sm_since :: int
  sm_maxReplayed :: int
  sm_sent :: "EventRow list"

text \<open>The loop over the history: what is written, \<open>maxReplayed\<close>, and whether it returned.\<close>

fun replay :: "int \<Rightarrow> EventRow list \<Rightarrow> int \<Rightarrow> EventRow list \<times> int \<times> bool" where
  "replay since [] mx = ([], mx, False)"
| "replay since (ev # evs) mx =
     (if ev_Seq ev \<le> since then replay since evs mx
      else if isTerminal (ev_Type ev) then ([ev], ev_Seq ev, True)
      else (case replay since evs (ev_Seq ev) of (out_rows, mx', over) \<Rightarrow> (ev # out_rows, mx', over)))"

definition open_stream :: "string \<Rightarrow> int \<Rightarrow> world \<Rightarrow> world \<times> stream_state" where
  "open_stream sid since w =
     (let (k, w') = Subscribe sid w
      in (w', \<lparr>sm_phase = Opening, sm_chan = k, sm_since = since, sm_maxReplayed = since, sm_sent = []\<rparr>))"

text \<open>The deferred \<open>unsub()\<close>.\<close>

definition close_stream :: "string \<Rightarrow> world \<Rightarrow> stream_state \<Rightarrow> world \<times> stream_state" where
  "close_stream sid w st = (unsub sid (sm_chan st) w, st\<lparr>sm_phase := Closed\<rparr>)"

definition read_history :: "env \<Rightarrow> ctx \<Rightarrow> string \<Rightarrow> world \<Rightarrow> stream_state \<Rightarrow> world \<times> stream_state" where
  "read_history e c sid w st =
     (case ListEvents e c sid [] w of
        (Inl err, w') \<Rightarrow> close_stream sid w' st
      | (Inr rows, w') \<Rightarrow>
          (case replay (sm_since st) rows (sm_maxReplayed st) of (out_rows, mx, over) \<Rightarrow>
             let st' = st\<lparr>sm_phase := Streaming, sm_maxReplayed := mx, sm_sent := sm_sent st @ out_rows\<rparr>
             in if over then close_stream sid w' st' else (w', st')))"

definition receive :: "string \<Rightarrow> world \<Rightarrow> stream_state \<Rightarrow> (world \<times> stream_state) option" where
  "receive sid w st =
     (case try_recv (sm_chan st) w of
        (Received ev, w') \<Rightarrow>
          (if be_Seq ev \<le> sm_maxReplayed st then Some (w', st)
           else let st' = st\<lparr>sm_sent := sm_sent st @ [live_row ev]\<rparr>
                in Some (if isTerminal (be_Type ev) then close_stream sid w' st' else (w', st')))
      | (ChanClosed, w') \<Rightarrow> Some (close_stream sid w' st)
      | (Empty, w') \<Rightarrow> None)"

text \<open>
  What can happen next: somebody publishes or subscribes, the handler reads the history, it
  receives from its channel, or the client goes away.
\<close>

datatype stream_action = DoPublish "env" ctx string string string raw | DoSubscribe string
  | DoRead "env" ctx | DoReceive | DoDisconnect

definition stream_step :: "string \<Rightarrow> stream_action \<Rightarrow> world \<times> stream_state \<Rightarrow> (world \<times> stream_state) option" where
  "stream_step sid a s =
     (case s of (w, st) \<Rightarrow>
      (case a of
         DoPublish e c i ty thread payload \<Rightarrow> Some (snd (Publish e c i ty thread payload w), st)
       | DoSubscribe i \<Rightarrow> Some (snd (Subscribe i w), st)
       | DoRead e c \<Rightarrow> if sm_phase st = Opening then Some (read_history e c sid w st) else None
       | DoReceive \<Rightarrow> if sm_phase st = Streaming then receive sid w st else None
       | DoDisconnect \<Rightarrow> if sm_phase st = Streaming then Some (close_stream sid w st) else None))"

section \<open>What a client should see\<close>

text \<open>The specification: the events after the given number, up to the first terminal one.\<close>

fun until_terminal :: "EventRow list \<Rightarrow> EventRow list" where
  "until_terminal [] = []"
| "until_terminal (r # rs) = (if isTerminal (ev_Type r) then [r] else r # until_terminal rs)"

definition visible :: "int \<Rightarrow> EventRow list \<Rightarrow> EventRow list" where
  "visible since rows = until_terminal (filter (\<lambda>r. since < ev_Seq r) rows)"

text \<open>A row without its times.\<close>

definition core :: "EventRow \<Rightarrow> EventRow" where
  "core r = r\<lparr>ev_ProcessedAt := None, ev_CreatedAt := 0\<rparr>"

lemma live_core: "live_row (event_of_row r) = core r"
  by (simp add: live_row_def event_of_row_def core_def)

lemma core_fields [simp]: "ev_Seq (core r) = ev_Seq r" "ev_Type (core r) = ev_Type r" "core (core r) = core r"
  by (simp_all add: core_def)

definition quiet_rows :: "EventRow list \<Rightarrow> bool" where
  "quiet_rows rs \<longleftrightarrow> list_all (\<lambda>r. \<not> isTerminal (ev_Type r)) rs"

lemma until_terminal_quiet: "quiet_rows rs \<Longrightarrow> until_terminal (rs @ later) = rs @ until_terminal later"
  by (induction rs) (auto simp: quiet_rows_def)

lemma until_terminal_self: "quiet_rows rs \<Longrightarrow> until_terminal rs = rs"
  using until_terminal_quiet [of rs "[]"] by simp

lemma until_terminal_prefix: "prefix (until_terminal rs) rs"
  by (induction rs) auto

lemma until_terminal_mono: "prefix (until_terminal rs) (until_terminal (rs @ later))"
  by (induction rs) auto

lemma replay_spec:
  "replay since rows mx = (outs, mx', over) \<Longrightarrow>
     outs = until_terminal (filter (\<lambda>r. since < ev_Seq r) rows)
   \<and> mx' = (if outs = [] then mx else ev_Seq (last outs))
   \<and> (\<not> over \<longrightarrow> quiet_rows outs)"
proof (induction since rows mx arbitrary: outs mx' over rule: replay.induct)
  case (2 since ev evs mx)
  show ?case
  proof (cases "ev_Seq ev \<le> since")
    case True
    then have "replay since evs mx = (outs, mx', over)" using 2(3) by simp
    from 2(1) [OF True this] True show ?thesis by auto
  next
    case False
    show ?thesis
    proof (cases "isTerminal (ev_Type ev)")
      case True
      then show ?thesis using 2 False by auto
    next
      case nt: False
      obtain o1 m1 b1 where r: "replay since evs (ev_Seq ev) = (o1, m1, b1)" by (cases "replay since evs (ev_Seq ev)")
      then show ?thesis using 2(2) [OF False nt r] 2(3) False nt by (auto simp: quiet_rows_def)
    qed
  qed
qed (simp add: quiet_rows_def)

section \<open>The invariant\<close>

text \<open>
  The channel holds the events of the log from number \<open>n + 1\<close> on, all of them while it is
  subscribed, and up to the one it was dropped at otherwise.
\<close>

definition chan_ok :: "string \<Rightarrow> nat \<Rightarrow> nat \<Rightarrow> world \<Rightarrow> bool" where
  "chan_ok sid k n w \<longleftrightarrow> k < length (chans w) \<and> (\<forall>s. s \<noteq> sid \<longrightarrow> (s, k) \<notin> set (subs w))
     \<and> (\<exists>m. n \<le> m \<and> m \<le> length (session_events sid w)
          \<and> ch_buf (chans w ! k) = map event_of_row (take (m - n) (drop n (session_events sid w)))
          \<and> ((sid, k) \<in> set (subs w) \<longrightarrow> m = length (session_events sid w))
          \<and> ((sid, k) \<notin> set (subs w) \<longrightarrow> ch_closed (chans w ! k)))"

definition streaming_ok :: "string \<Rightarrow> world \<Rightarrow> stream_state \<Rightarrow> nat \<Rightarrow> nat \<Rightarrow> bool" where
  "streaming_ok sid w st n p \<longleftrightarrow> p \<le> length (session_events sid w) \<and> sm_maxReplayed st = max (sm_since st) (int p)
     \<and> map core (sm_sent st) = map core (filter (\<lambda>r. sm_since st < ev_Seq r) (take (max p n) (session_events sid w)))
     \<and> quiet_rows (sm_sent st)"

definition stream_inv :: "string \<Rightarrow> world \<times> stream_state \<Rightarrow> bool" where
  "stream_inv sid s \<longleftrightarrow> (case s of (w, st) \<Rightarrow> log_ok w \<and> broker_ok w \<and> 0 \<le> sm_since st \<and>
     (case sm_phase st of
        Opening \<Rightarrow> sm_sent st = [] \<and> sm_maxReplayed st = sm_since st \<and> (\<exists>n. chan_ok sid (sm_chan st) n w)
      | Streaming \<Rightarrow> (\<exists>n p. chan_ok sid (sm_chan st) n w \<and> streaming_ok sid w st n p)
      | Closed \<Rightarrow> prefix (map core (sm_sent st)) (map core (visible (sm_since st) (session_events sid w)))))"

lemma nth_seq: "log_ok w \<Longrightarrow> i < length (session_events sid w) \<Longrightarrow> ev_Seq (session_events sid w ! i) = int i + 1"
  by (rule slog.seq_nth)

lemma dispatch_length: "length (chans (dispatch ev w)) = length (chans w)"
proof -
  have "length (chans (fold (dispatch_one ev) ks w)) = length (chans w)" for ks
    by (induction ks arbitrary: w) (simp_all add: dispatch_one_other(3))
  then show ?thesis by (simp add: dispatch_def)
qed

lemma dispatch_subs: "set (subs (dispatch ev w)) \<subseteq> set (subs w)"
proof -
  have "set (subs (fold (dispatch_one ev) ks w)) \<subseteq> set (subs w)" for ks
  proof (induction ks arbitrary: w)
    case (Cons k ks)
    then show ?case using dispatch_one_subs [of ev k w] by fastforce
  qed simp
  then show ?thesis by (simp add: dispatch_def)
qed

lemma chan_ok_publish:
  assumes p: "published e i ty thread payload w row w'" and ok: "log_ok w" "broker_ok w" and c: "chan_ok sid k n w"
  shows "chan_ok sid k n w'"
proof -
  have len: "length (chans w') = length (chans w)"
    using p by (auto simp: published_def Let_def dispatch_length)
  have ses: "be_SessionID (event_of_row row) = i" using p by (auto simp: published_def event_of_row_def)
  note d = published_broker(2) [OF p ok(2), of k, unfolded delivered_def ses]
  obtain m where m: "n \<le> m" "m \<le> length (session_events sid w)"
    "ch_buf (chans w ! k) = map event_of_row (take (m - n) (drop n (session_events sid w)))"
    "(sid, k) \<in> set (subs w) \<longrightarrow> m = length (session_events sid w)"
    "(sid, k) \<notin> set (subs w) \<longrightarrow> ch_closed (chans w ! k)"
    using c by (auto simp: chan_ok_def)
  have other: "s \<noteq> sid \<Longrightarrow> (s, k) \<notin> set (subs w)" for s using c by (simp add: chan_ok_def)
  show ?thesis
  proof (cases "i = sid")
    case False
    then have "chans w' ! k = chans w ! k" and "\<And>s. (s, k) \<in> set (subs w') \<longleftrightarrow> (s, k) \<in> set (subs w)"
      using d other [of i] by auto
    then show ?thesis
      using c len published_log(5) [OF p ok(1), of sid] False by (simp add: chan_ok_def)
  next
    case True
    have log: "session_events sid w' = session_events sid w @ [row]" using published_log(2) [OF p ok(1)] True by simp
    have sub: "set (subs w') \<subseteq> set (subs w)"
      using p by (auto simp: published_def Let_def dest!: dispatch_subs [THEN subsetD])
    have other': "s \<noteq> sid \<Longrightarrow> (s, k) \<notin> set (subs w')" for s using other sub by blast
    consider (out) "(sid, k) \<notin> set (subs w)" | (room) "(sid, k) \<in> set (subs w)" "length (ch_buf (chans w ! k)) < chan_cap"
      | (full) "(sid, k) \<in> set (subs w)" "\<not> length (ch_buf (chans w ! k)) < chan_cap" by blast
    then show ?thesis
    proof cases
      case out
      then have "chans w' ! k = chans w ! k" "(sid, k) \<notin> set (subs w')" using d True by auto
      then show ?thesis using c len m out other' log by (auto simp: chan_ok_def intro!: exI [of _ m])
    next
      case room
      then have "chans w' ! k = (chans w ! k)\<lparr>ch_buf := ch_buf (chans w ! k) @ [event_of_row row]\<rparr>"
        "(sid, k) \<in> set (subs w')" using d True by auto
      then show ?thesis
        using c len m room other' log by (auto simp: chan_ok_def Suc_diff_le intro!: exI [of _ "Suc m"])
    next
      case full
      then have "chans w' ! k = (chans w ! k)\<lparr>ch_closed := True\<rparr>" "(sid, k) \<notin> set (subs w')" using d True by auto
      then show ?thesis using c len m full other' log by (auto simp: chan_ok_def intro!: exI [of _ m])
    qed
  qed
qed

lemma chan_ok_frame:
  assumes "chan_ok sid k n w" "chans w' = chans w" "subs w' = subs w" "session_events sid w' = session_events sid w"
  shows "chan_ok sid k n w'"
  using assms by (simp add: chan_ok_def)

lemma chan_ok_subscribe: "chan_ok sid k n w \<Longrightarrow> chan_ok sid k n (snd (Subscribe i w))"
  by (auto simp: chan_ok_def Subscribe_def Let_def nth_append session_events_def)

lemma subscribe_ok: "log_ok w \<Longrightarrow> broker_ok w \<Longrightarrow> log_ok (snd (Subscribe i w)) \<and> broker_ok (snd (Subscribe i w))"
proof
  assume ok: "log_ok w" "broker_ok w"
  have "log_ok (snd (Subscribe i w)) = log_ok w" by (rule log_ok_frame) (simp_all add: Subscribe_def Let_def)
  then show "log_ok (snd (Subscribe i w))" using ok by simp
  have "(s, k) \<in> set (subs w) \<Longrightarrow> k < length (chans w)" for s k
    using broker_okD(1) [OF ok(2)] by (auto simp: sub_ok_def)
  then show "broker_ok (snd (Subscribe i w))"
    using ok(2) unfolding broker_ok_def
    by (fastforce simp: Subscribe_def Let_def sub_ok_def nth_append)
qed

lemma unsub_ok: "log_ok w \<Longrightarrow> broker_ok w \<Longrightarrow> log_ok (unsub i k w) \<and> broker_ok (unsub i k w)"
proof
  assume ok: "log_ok w" "broker_ok w"
  have "log_ok (unsub i k w) = log_ok w" by (rule log_ok_frame) (simp_all add: unsub_def)
  then show "log_ok (unsub i k w)" using ok by simp
  have "distinct (map snd (removeAll p xs))" if "distinct (map snd xs)" for p and xs :: "(string \<times> nat) list"
    using that by (induction xs) auto
  then show "broker_ok (unsub i k w)" using ok(2) by (auto simp: broker_ok_def unsub_def)
qed

lemma unsub_events [simp]: "session_events i (unsub j k w) = session_events i w"
  by (simp add: unsub_def session_events_def)

lemma quiet_core: "quiet_rows (map core rs) = quiet_rows rs"
  by (simp add: quiet_rows_def list_all_iff)

text \<open>What has been sent so far is the beginning of what the client should see.\<close>

lemma streaming_visible:
  assumes "streaming_ok sid w st n p"
  shows "prefix (map core (sm_sent st)) (map core (visible (sm_since st) (session_events sid w)))"
    "length (session_events sid w) \<le> n \<Longrightarrow> map core (sm_sent st) = map core (visible (sm_since st) (session_events sid w))"
proof -
  let ?L = "session_events sid w" and ?q = "max p n"
  let ?F = "filter (\<lambda>r. sm_since st < ev_Seq r)"
  have sent: "map core (sm_sent st) = map core (?F (take ?q ?L))" and q: "quiet_rows (sm_sent st)"
    using assms by (simp_all add: streaming_ok_def)
  have qF: "quiet_rows (?F (take ?q ?L))"
    using q sent quiet_core [of "sm_sent st"] quiet_core [of "?F (take ?q ?L)"] by simp
  have L: "?F ?L = ?F (take ?q ?L) @ ?F (drop ?q ?L)"
    by (metis append_take_drop_id filter_append)
  then show "prefix (map core (sm_sent st)) (map core (visible (sm_since st) ?L))"
    by (simp add: sent visible_def until_terminal_quiet [OF qF])
  show "map core (sm_sent st) = map core (visible (sm_since st) ?L)" if "length ?L \<le> n"
    using that qF by (simp add: sent visible_def max_def until_terminal_self)
qed

lemma close_inv:
  assumes "log_ok w" "broker_ok w" "0 \<le> sm_since st" "prefix (map core (sm_sent st)) (map core (visible (sm_since st) (session_events sid w)))"
  shows "stream_inv sid (close_stream sid w st)"
  using assms unsub_ok by (simp add: stream_inv_def close_stream_def)

lemma visible_mono: "prefix L L' \<Longrightarrow> prefix (map core (visible since L)) (map core (visible since L'))"
  by (auto simp: prefix_def visible_def) (metis filter_append map_append prefix_def until_terminal_mono map_mono_prefix)

section \<open>The steps keep the invariant\<close>

lemma replay_quiet_max:
  assumes "log_ok w" "replay since (session_events sid w) since = (outs, mx, False)" "0 \<le> since"
  shows "outs = filter (\<lambda>r. since < ev_Seq r) (session_events sid w)" "quiet_rows outs"
    "mx = max since (int (length (session_events sid w)))"
proof -
  let ?L = "session_events sid w" and ?F = "filter (\<lambda>r. since < ev_Seq r)"
  have o: "outs = until_terminal (?F ?L)" "mx = (if outs = [] then since else ev_Seq (last outs))" "quiet_rows outs"
    using replay_spec [OF assms(2)] by auto
  have "until_terminal rs = rs" if "quiet_rows (until_terminal rs)" for rs
    using that by (induction rs) (auto simp: quiet_rows_def split: if_splits)
  then show outs: "outs = ?F ?L" using o by simp
  show "quiet_rows outs" by (rule o(3))
  show "mx = max since (int (length ?L))"
  proof (cases "?L = []")
    case True
    then show ?thesis using o(2) outs assms(3) by simp
  next
    case False
    then have last: "ev_Seq (last ?L) = int (length ?L)"
      using nth_seq [OF assms(1), of "length ?L - 1" sid] by (cases "length ?L") (simp_all add: last_conv_nth)
    show ?thesis
    proof (cases "int (length ?L) \<le> since")
      case True
      have "r \<in> set ?L \<Longrightarrow> ev_Seq r \<le> int (length ?L)" for r
        using nth_seq [OF assms(1)] by (auto simp: in_set_conv_nth)
      then have "outs = []" using True by (fastforce simp: outs filter_empty_conv)
      then show ?thesis using o(2) True by simp
    next
      case big: False
      have "?L = butlast ?L @ [last ?L]" using False by simp
      then have "outs = ?F (butlast ?L) @ [last ?L]" using last big by (metis (no_types, lifting) filter.simps filter_append not_le outs)
      then show ?thesis using o(2) last big by simp
    qed
  qed
qed

lemma in_set_tl: "x \<in> set (tl xs) \<Longrightarrow> x \<in> set xs"
  by (cases xs) simp_all

lemma receive_frame:
  assumes "try_recv k w = (r, w')" "broker_ok w" "k < length (chans w)"
  shows "log_ok w' = log_ok w" "broker_ok w'" "session_events i w' = session_events i w"
proof -
  have t: "w' = w \<or> w' = w\<lparr>chans := (chans w)[k := (chans w ! k)\<lparr>ch_buf := tl (ch_buf (chans w ! k))\<rparr>]\<rparr>"
    using assms(1) by (auto simp: try_recv_def split: list.splits)
  then have "sessions w' = sessions w \<and> events w' = events w" by auto
  then show "log_ok w' = log_ok w" by (intro log_ok_frame) simp_all
  show "session_events i w' = session_events i w" using t by (auto simp: session_events_def)
  show "broker_ok w'"
  proof (cases "w' = w")
    case False
    let ?c = "(chans w ! k)\<lparr>ch_buf := tl (ch_buf (chans w ! k))\<rparr>"
    have w': "w' = w\<lparr>chans := (chans w)[k := ?c]\<rparr>" using t False by simp
    have le: "length (ch_buf (chans w ! k)) \<le> chan_cap" using broker_okD(2) [OF assms(2)] assms(3) by simp
    have "sub_ok ((chans w)[k := ?c]) s j" if "sub_ok (chans w) s j" for s j
      using that by (cases "j = k") (auto simp: sub_ok_def dest!: in_set_tl)
    moreover have "\<forall>ch\<in>set ((chans w)[k := ?c]). length (ch_buf ch) \<le> chan_cap"
      by (rule set_list_update_le) (use broker_okD(2) [OF assms(2)] le in auto)
    ultimately show ?thesis using assms(2) by (simp add: broker_ok_def w')
  qed (simp add: assms(2))
qed

lemma read_inv:
  assumes inv: "stream_inv sid (w, st)" and o: "sm_phase st = Opening"
  shows "stream_inv sid (read_history e c sid w st)"
proof -
  let ?L = "session_events sid w"
  have ok: "log_ok w" "broker_ok w" "0 \<le> sm_since st" and st: "sm_sent st = []" "sm_maxReplayed st = sm_since st"
    using inv o by (simp_all add: stream_inv_def)
  obtain n where n: "chan_ok sid (sm_chan st) n w" using inv o by (auto simp: stream_inv_def)
  obtain r w' where run: "ListEvents e c sid [] w = (r, w')" by (cases "ListEvents e c sid [] w")
  note L = ListEvents_log [OF ok(1) run]
  have ok': "log_ok w'" "broker_ok w'" by (simp_all add: L(1) ok)
  have evs: "session_events sid w' = ?L" by (simp add: L(1))
  have n': "chan_ok sid (sm_chan st) n w'" by (rule chan_ok_frame [OF n]) (simp_all add: L(1))
  show ?thesis
  proof (cases r)
    case (Inl x)
    then show ?thesis using run st ok ok' by (simp add: read_history_def close_inv)
  next
    case (Inr rows)
    then have rows: "rows = ?L" using L(2) by simp
    obtain outs mx over where rep: "replay (sm_since st) ?L (sm_since st) = (outs, mx, over)" by (cases "replay (sm_since st) ?L (sm_since st)")
    have vis: "outs = visible (sm_since st) ?L" using replay_spec [OF rep] by (simp add: visible_def)
    let ?st = "st\<lparr>sm_phase := Streaming, sm_maxReplayed := mx, sm_sent := outs\<rparr>"
    show ?thesis
    proof (cases over)
      case True
      then show ?thesis
        using run Inr rows rep st close_inv [OF ok', of ?st] vis ok(3) evs by (simp add: read_history_def)
    next
      case False
      have "replay (sm_since st) ?L (sm_since st) = (outs, mx, False)" using rep False by simp
      note R = replay_quiet_max [OF ok(1) this ok(3)]
      have nL: "n \<le> length ?L" using n by (auto simp: chan_ok_def)
      have "streaming_ok sid w' ?st n (length ?L)"
        using R nL evs by (simp add: streaming_ok_def max_def)
      then show ?thesis
        using run Inr rows rep st False ok ok' n' by (auto simp: read_history_def stream_inv_def)
    qed
  qed
qed

text \<open>The head of the channel is the next event of the log.\<close>

lemma chan_ok_head:
  assumes "chan_ok sid k n w" "ch_buf (chans w ! k) = ev # rest"
  shows "n < length (session_events sid w)" "ev = event_of_row (session_events sid w ! n)"
    "chan_ok sid k (Suc n) (w\<lparr>chans := (chans w)[k := (chans w ! k)\<lparr>ch_buf := rest\<rparr>]\<rparr>)"
proof -
  let ?L = "session_events sid w"
  from assms have "\<exists>m. n \<le> m \<and> m \<le> length ?L \<and> ev # rest = map event_of_row (take (m - n) (drop n ?L))
    \<and> ((sid, k) \<in> set (subs w) \<longrightarrow> m = length ?L) \<and> ((sid, k) \<notin> set (subs w) \<longrightarrow> ch_closed (chans w ! k))"
    by (simp add: chan_ok_def)
  then obtain m where m: "n \<le> m" "m \<le> length ?L" "ev # rest = map event_of_row (take (m - n) (drop n ?L))"
    "(sid, k) \<in> set (subs w) \<longrightarrow> m = length ?L" "(sid, k) \<notin> set (subs w) \<longrightarrow> ch_closed (chans w ! k)"
    by (elim exE conjE) (rule that)
  have nm: "n < m" using m(1,3) by (cases "n = m") auto
  then show nL: "n < length ?L" using m(2) by simp
  have "m - n = Suc (m - Suc n)" using nm by simp
  moreover have "drop n ?L = ?L ! n # drop (Suc n) ?L" using nL by (simp add: Cons_nth_drop_Suc)
  ultimately have hd: "ev # rest = map event_of_row (?L ! n # take (m - Suc n) (drop (Suc n) ?L))" using m(3) by simp
  then show "ev = event_of_row (?L ! n)" by simp
  have "rest = map event_of_row (take (m - Suc n) (drop (Suc n) ?L))" using hd by simp
  then show "chan_ok sid k (Suc n) (w\<lparr>chans := (chans w)[k := (chans w ! k)\<lparr>ch_buf := rest\<rparr>]\<rparr>)"
    using m(2,4,5) nm assms(1) by (auto simp: chan_ok_def session_events_def intro!: exI [of _ m])
qed

text \<open>Sending the next event: an old one is skipped, a new one is sent, a terminal one is the last.\<close>

lemma skip_next:
  assumes p: "streaming_ok sid w st n p" and nL: "n < length (session_events sid w)"
    and old: "ev_Seq (session_events sid w ! n) = int n + 1" "int n + 1 \<le> sm_maxReplayed st"
  shows "streaming_ok sid w st (Suc n) p"
proof -
  let ?L = "session_events sid w"
  have "take (max p (Suc n)) ?L = (if n < p then take (max p n) ?L else take (max p n) ?L @ [?L ! n])"
    using nL by (cases "p = Suc n") (auto simp: max_def take_Suc_conv_app_nth)
  moreover have "n < p \<or> ev_Seq (?L ! n) \<le> sm_since st" using old p by (auto simp: streaming_ok_def)
  ultimately have "filter (\<lambda>r. sm_since st < ev_Seq r) (take (max p (Suc n)) ?L)
      = filter (\<lambda>r. sm_since st < ev_Seq r) (take (max p n) ?L)" by auto
  then show ?thesis using p by (simp add: streaming_ok_def)
qed

lemma send_next:
  assumes p: "streaming_ok sid w st n p" and nL: "n < length (session_events sid w)"
    and new: "ev_Seq (session_events sid w ! n) = int n + 1" "sm_maxReplayed st < int n + 1"
  defines "st' \<equiv> st\<lparr>sm_sent := sm_sent st @ [core (session_events sid w ! n)]\<rparr>"
  shows "\<not> isTerminal (ev_Type (session_events sid w ! n)) \<Longrightarrow> streaming_ok sid w st' (Suc n) p"
    "isTerminal (ev_Type (session_events sid w ! n)) \<Longrightarrow>
       prefix (map core (sm_sent st')) (map core (visible (sm_since st) (session_events sid w)))"
proof -
  let ?L = "session_events sid w" and ?F = "filter (\<lambda>r. sm_since st < ev_Seq r)"
  have big: "p \<le> n" "sm_since st < ev_Seq (?L ! n)" using new p by (auto simp: streaming_ok_def)
  have sent: "map core (sm_sent st) = map core (?F (take n ?L))" "quiet_rows (sm_sent st)"
    using p big(1) by (simp_all add: streaming_ok_def max_def)
  have sent': "map core (sm_sent st') = map core (?F (take n ?L) @ [?L ! n])"
    using sent(1) by (simp add: st'_def)
  show "streaming_ok sid w st' (Suc n) p" if "\<not> isTerminal (ev_Type (?L ! n))"
    using p sent' sent(2) that big nL
    by (simp add: streaming_ok_def st'_def max_def take_Suc_conv_app_nth quiet_rows_def)
  show "prefix (map core (sm_sent st')) (map core (visible (sm_since st) ?L))" if t: "isTerminal (ev_Type (?L ! n))"
  proof -
    have q: "quiet_rows (?F (take n ?L))"
      using sent quiet_core [of "sm_sent st"] quiet_core [of "?F (take n ?L)"] by simp
    have "?L = take n ?L @ ?L ! n # drop (Suc n) ?L" using nL by (rule id_take_nth_drop)
    then have "?F ?L = ?F (take n ?L) @ ?F (?L ! n # drop (Suc n) ?L)" by (metis filter_append)
    then have "visible (sm_since st) ?L = ?F (take n ?L) @ [?L ! n]"
      using t big(2) by (simp add: visible_def until_terminal_quiet [OF q])
    then show ?thesis by (simp add: sent')
  qed
qed

lemma receive_inv:
  assumes inv: "stream_inv sid (w, st)" and o: "sm_phase st = Streaming" and r: "receive sid w st = Some s'"
  shows "stream_inv sid s'"
proof -
  let ?L = "session_events sid w" and ?k = "sm_chan st"
  have ok: "log_ok w" "broker_ok w" "0 \<le> sm_since st" using inv o by (simp_all add: stream_inv_def)
  obtain n p where n: "chan_ok sid ?k n w" and p: "streaming_ok sid w st n p"
    using inv o by (auto simp: stream_inv_def)
  have k: "?k < length (chans w)" using n by (simp add: chan_ok_def)
  obtain rr w' where t: "try_recv ?k w = (rr, w')" by (cases "try_recv ?k w")
  note F = receive_frame [OF t ok(2) k]
  have ok': "log_ok w'" "broker_ok w'" using F ok by simp_all
  have same: "streaming_ok sid w' st' i j = streaming_ok sid w st' i j" for st' i j by (simp add: streaming_ok_def F(3))
  show ?thesis
  proof (cases rr)
    case Empty
    then show ?thesis using r t by (simp add: receive_def)
  next
    case ChanClosed
    then have s': "s' = close_stream sid w' st" using r t by (simp add: receive_def)
    show ?thesis unfolding s' by (rule close_inv [OF ok' ok(3)]) (use streaming_visible(1) [OF p] F(3) in simp)
  next
    case (Received ev)
    obtain rest where buf: "ch_buf (chans w ! ?k) = ev # rest"
      and w': "w' = w\<lparr>chans := (chans w)[?k := (chans w ! ?k)\<lparr>ch_buf := rest\<rparr>]\<rparr>"
      using t Received by (auto simp: try_recv_def split: list.splits if_splits)
    note H = chan_ok_head [OF n buf]
    have n': "chan_ok sid ?k (Suc n) w'" using H(3) w' by simp
    have seq: "ev_Seq (?L ! n) = int n + 1" by (rule nth_seq [OF ok(1) H(1)])
    have ev: "be_Seq ev = int n + 1" "be_Type ev = ev_Type (?L ! n)" "live_row ev = core (?L ! n)"
      using seq by (simp_all add: H(2) live_core) (simp_all add: event_of_row_def)
    note N = send_next [OF p H(1) seq]
    consider (old) "int n + 1 \<le> sm_maxReplayed st"
      | (last) "sm_maxReplayed st < int n + 1" "isTerminal (ev_Type (?L ! n))"
      | (more) "sm_maxReplayed st < int n + 1" "\<not> isTerminal (ev_Type (?L ! n))" by linarith
    then show ?thesis
    proof cases
      case old
      then have "s' = (w', st)" using r t Received ev by (simp add: receive_def)
      then show ?thesis using skip_next [OF p H(1) seq old] same ok' ok(3) n' o by (auto simp: stream_inv_def)
    next
      case last
      then have s': "s' = close_stream sid w' (st\<lparr>sm_sent := sm_sent st @ [core (?L ! n)]\<rparr>)"
        using r t Received ev by (simp add: receive_def Let_def)
      show ?thesis unfolding s' by (intro close_inv [OF ok']) (use N(2) [OF last] ok(3) F(3) in simp_all)
    next
      case more
      then have s': "s' = (w', st\<lparr>sm_sent := sm_sent st @ [core (?L ! n)]\<rparr>)"
        using r t Received ev by (simp add: receive_def Let_def)
      then show ?thesis using N(1) [OF more] same ok' ok(3) n' o by (auto simp: stream_inv_def)
    qed
  qed
qed

lemma stream_step_inv:
  assumes inv: "stream_inv sid s" and step: "stream_step sid a s = Some s'"
  shows "stream_inv sid s'"
proof -
  obtain w st where s: "s = (w, st)" by (cases s)
  have ok: "log_ok w" "broker_ok w" "0 \<le> sm_since st" using inv by (simp_all add: s stream_inv_def)
  show ?thesis
  proof (cases a)
    case (DoPublish e c i ty thread payload)
    then have s': "s' = (snd (Publish e c i ty thread payload w), st)" using step by (simp add: s stream_step_def)
    show ?thesis
    proof (cases rule: Publish_cases [of e c i "ty" thread payload w])
      case (err x d)
      then have "s' = (w\<lparr>tick := tick w + d\<rparr>, st)" using s' by simp
      then show ?thesis
        using inv chan_ok_frame [where w = w and w' = "w\<lparr>tick := tick w + d\<rparr>"] unfolding s
        by (auto simp: stream_inv_def streaming_ok_def session_events_def split: phase.splits)
    next
      case (ok row w')
      have "prefix (session_events sid w) (session_events sid w')"
        using published_log(2,5) [OF ok(2) \<open>log_ok w\<close>] by (cases "i = sid") auto
      then obtain zs where zs: "session_events sid w' = session_events sid w @ zs" by (auto simp: prefix_def)
      have ch: "chan_ok sid k n w \<Longrightarrow> chan_ok sid k n w'" for k n
        by (rule chan_ok_publish [OF ok(2) \<open>log_ok w\<close> \<open>broker_ok w\<close>])
      have st: "chan_ok sid k n w \<Longrightarrow> streaming_ok sid w st n p \<Longrightarrow> streaming_ok sid w' st n p" for k n p
        by (auto simp: streaming_ok_def chan_ok_def zs)
      have "prefix (session_events sid w) (session_events sid w')" by (simp add: zs)
      note v = visible_mono [OF this, of "sm_since st"]
      show ?thesis
        using inv s' ok(1) published_log(1) [OF ok(2) \<open>log_ok w\<close>] published_broker(1) [OF ok(2) \<open>broker_ok w\<close>]
        unfolding s by (auto simp: stream_inv_def split: phase.splits intro: ch st prefix_order.trans [OF _ v])
    qed
  next
    case (DoSubscribe i)
    then have s': "s' = (snd (Subscribe i w), st)" using step by (simp add: s stream_step_def)
    have e: "session_events sid (snd (Subscribe i w)) = session_events sid w"
      by (simp add: Subscribe_def Let_def session_events_def)
    show ?thesis
      using inv subscribe_ok [OF ok(1,2), of i] unfolding s s'
      by (auto simp: stream_inv_def streaming_ok_def e split: phase.splits intro: chan_ok_subscribe)
  next
    case (DoRead e c)
    then show ?thesis using step inv read_inv by (auto simp: s stream_step_def split: if_splits)
  next
    case DoReceive
    then show ?thesis using step inv receive_inv by (auto simp: s stream_step_def split: if_splits)
  next
    case DoDisconnect
    then have o: "sm_phase st = Streaming" and s': "s' = close_stream sid w st"
      using step by (auto simp: s stream_step_def split: if_splits)
    have "\<exists>n p. streaming_ok sid w st n p" using inv o by (auto simp: s stream_inv_def)
    then show ?thesis unfolding s' using streaming_visible(1) close_inv [OF ok] by blast
  qed
qed

definition opened :: "string \<Rightarrow> int \<Rightarrow> world \<times> stream_state \<Rightarrow> bool" where
  "opened sid since s \<longleftrightarrow> (\<exists>w. log_ok w \<and> broker_ok w \<and> 0 \<le> since \<and> s = open_stream sid since w)"

lemma open_inv: "opened sid since s \<Longrightarrow> stream_inv sid s"
proof -
  assume "opened sid since s"
  then obtain w where w: "log_ok w" "broker_ok w" "0 \<le> since" "s = open_stream sid since w" by (auto simp: opened_def)
  have sub: "(i, k) \<in> set (subs w) \<Longrightarrow> k < length (chans w)" for i k
    using broker_okD(1) [OF w(2)] by (auto simp: sub_ok_def)
  have "chan_ok sid (length (chans w)) (length (session_events sid w)) (snd (Subscribe sid w))"
    by (auto simp: chan_ok_def Subscribe_def Let_def session_events_def nth_append dest: sub)
  then show ?thesis
    using w subscribe_ok [OF w(1,2), of sid]
    by (auto simp: stream_inv_def open_stream_def Subscribe_def Let_def case_prod_unfold)
qed

interpretation stream_system: invariant_system "stream_step sid" "opened sid since" "stream_inv sid" for sid since
  by unfold_locales (rule open_inv, assumption, rule stream_step_inv)

text \<open>The number the client named, and its channel, stay the same.\<close>

lemma stream_step_since:
  "stream_step sid a s = Some s' \<Longrightarrow> sm_since (snd s') = sm_since (snd s) \<and> sm_chan (snd s') = sm_chan (snd s)"
  by (cases s; cases a)
    (auto simp: stream_step_def read_history_def receive_def close_stream_def Let_def
      split: prod.splits sum.splits if_splits recv_result.splits)

lemma reachable_since: "reachable (stream_step sid) s s' \<Longrightarrow> sm_since (snd s') = sm_since (snd s)"
  by (induction rule: reachable.induct) (auto dest: stream_step_since)

section \<open>Reconnecting\<close>

lemma filter_after_last:
  assumes "sorted_wrt (\<lambda>a b. ev_Seq a < ev_Seq b) rows" "filter (\<lambda>r. since < ev_Seq r) rows = xs @ [x] @ ys"
  shows "filter (\<lambda>r. ev_Seq x < ev_Seq r) rows = ys"
proof -
  have so: "sorted_wrt (\<lambda>a b. ev_Seq a < ev_Seq b) (xs @ [x] @ ys)"
    using sorted_wrt_filter [OF assms(1), of "\<lambda>r. since < ev_Seq r"] assms(2) by simp
  have "x \<in> set (filter (\<lambda>r. since < ev_Seq r) rows)" unfolding assms(2) by simp
  then have x: "since < ev_Seq x" by simp
  have "filter (\<lambda>r. ev_Seq x < ev_Seq r) rows = filter (\<lambda>r. ev_Seq x < ev_Seq r) (filter (\<lambda>r. since < ev_Seq r) rows)"
    using x by (auto intro: filter_cong)
  also have "\<dots> = filter (\<lambda>r. ev_Seq x < ev_Seq r) ys"
    using so by (fastforce simp: assms(2) sorted_wrt_append filter_empty_conv)
  also have "\<dots> = ys" using so by (auto simp: sorted_wrt_append filter_id_conv)
  finally show ?thesis .
qed

lemma prefix_until_quiet:
  assumes "prefix (xs @ [x]) (until_terminal rows)" "\<not> isTerminal (ev_Type x)"
  obtains ys where "rows = xs @ [x] @ ys" "until_terminal rows = xs @ [x] @ until_terminal ys"
  using assms
proof (induction xs arbitrary: rows thesis)
  case Nil
  then show ?case by (cases rows) (auto split: if_splits)
next
  case (Cons a xs)
  obtain rs where rows: "rows = a # rs" using Cons.prems(2) by (cases rows) (auto split: if_splits)
  have nt: "\<not> isTerminal (ev_Type a)" using Cons.prems(2) by (auto simp: rows split: if_splits)
  then have "prefix (xs @ [x]) (until_terminal rs)" using Cons.prems(2) by (simp add: rows)
  then obtain ys where "rs = xs @ [x] @ ys" "until_terminal rs = xs @ [x] @ until_terminal ys"
    using Cons.IH assms(2) by blast
  then show ?case using Cons.prems(1) nt by (simp add: rows)
qed

section \<open>Properties\<close>


text \<open>A client that reconnects with the number of the last event it was sent continues
exactly there: the events before and those of the new stream together are those of one stream.\<close>

theorem reconnect_continues:
  assumes "log_ok w" "prefix (xs @ [x]) (visible since (session_events sid w))" "\<not> isTerminal (ev_Type x)"
  shows "visible since (session_events sid w) = xs @ [x] @ visible (ev_Seq x) (session_events sid w)
    \<and> (int64_range (ev_Seq x) \<longrightarrow> parseSinceSeq [] (fr_id (writeEvent f x)) = ev_Seq x)"
proof -
  let ?L = "session_events sid w"
  have sorted: "sorted_wrt (\<lambda>a b. ev_Seq a < ev_Seq b) ?L" by (rule slog.sorted_log [OF assms(1)])
  obtain ys where ys: "filter (\<lambda>r. since < ev_Seq r) ?L = xs @ [x] @ ys" "visible since ?L = xs @ [x] @ until_terminal ys"
    using prefix_until_quiet [OF assms(2) [unfolded visible_def] assms(3)] unfolding visible_def by blast
  have "x \<in> set (filter (\<lambda>r. since < ev_Seq r) ?L)" unfolding ys(1) by simp
  then obtain i where "i < length ?L" "x = ?L ! i" by (auto simp: in_set_conv_nth)
  then have "1 \<le> ev_Seq x" using nth_seq [OF assms(1)] by auto
  then have "parseSinceSeq [] (fr_id (writeEvent f x)) = ev_Seq x" if "int64_range (ev_Seq x)"
    using that by (simp add: parseSinceSeq_def writeEvent_def ParseInt_int_str Let_def)
      (simp add: int_str_def)
  then show ?thesis
    using ys(2) filter_after_last [OF sorted ys(1)] by (simp add: visible_def)
qed

text \<open>The frame's number, session and thread are those of the log whatever the payload
contains, and other members of the payload are passed on; but an event that arrives through the
subscription has lost the time that the same event has when it is replayed.\<close>

theorem frames_carry_the_row:
  "fr_data (writeEvent f r) ''seq'' = Some (JNum (int_str (ev_Seq r))) \<and> fr_data (writeEvent f r) ''id'' = Some (JStr (ev_ID r))
    \<and> fr_data (writeEvent f r) ''session_id'' = Some (JStr (ev_SessionID r))
    \<and> fr_data (writeEvent f (live_row (event_of_row r))) ''processed_at'' = payload_map f (ev_Payload r) ''processed_at''
    \<and> fr_data (writeEvent f (r\<lparr>ev_ProcessedAt := Some t\<rparr>)) ''processed_at'' = Some (JNum (int_str t))"
  by (auto simp: writeEvent_def mergeEventPayload_def Let_def live_row_def event_of_row_def split: option.splits)

definition demo_row :: "int \<Rightarrow> string \<Rightarrow> EventRow" where
  "demo_row n ty = \<lparr>ev_ID = ''evt-'' @ nat_str (nat n), ev_SessionID = ''s'', ev_ThreadID = ''primary'', ev_Seq = n,
     ev_Type = ty, ev_Payload = Some (JObj []), ev_ProcessedAt = Some n, ev_CreatedAt = n\<rparr>"

definition logged_world :: world where
  "logged_world = empty_world\<lparr>sessions := [(demo_session ''s'' ''running'')\<lparr>ss_NextSeq := 3\<rparr>],
     events := [demo_row 1 ''user.message'', demo_row 2 ''session.status_running'']\<rparr>"

lemma logged_ok: "log_ok logged_world" "broker_ok logged_world" by code_simp+


lemma reconnect_continues_witness:
  "visible 0 (session_events ''s'' logged_world)
     = [] @ [demo_row 1 ''user.message''] @ visible 1 (session_events ''s'' logged_world)"
proof -
  have p: "prefix ([] @ [demo_row 1 ''user.message'']) (visible 0 (session_events ''s'' logged_world))"
    and t: "\<not> isTerminal (ev_Type (demo_row 1 ''user.message''))" and n: "ev_Seq (demo_row 1 ''user.message'') = 1"
    by code_simp+
  show ?thesis using reconnect_continues [OF logged_ok(1) p t] n by simp
qed

end
