(* ===== verification/EventApi.thy ===== *)
theory EventApi
  imports EventStream
begin

text \<open>
  Posting and listing the events of a session (\<open>internal/api/event.go\<close>).
\<close>

section \<open>Listing\<close>

text \<open>The values of the query parameters \<open>types[]\<close>, \<open>types\<close>, \<open>session_thread_id\<close> and \<open>thread_id\<close>.\<close>

definition listEvents ::
  "renum \<Rightarrow> env \<Rightarrow> ctx \<Rightarrow> string \<Rightarrow> string list \<Rightarrow> string list \<Rightarrow> string \<Rightarrow> string
     \<Rightarrow> (world, (string \<rightharpoonup> json) list) io" where
  "listEvents f e c sid typesArr types thread1 thread2 =
     (let typesQ = (if typesArr = [] then types else typesArr); thread = (if thread1 = [] then thread2 else thread1) in
      bindE (ListEvents e c sid typesQ) (\<lambda>rows.
        returnE (map (mergeEventPayload f) (filter (\<lambda>ev. thread = [] \<or> ev_ThreadID ev = thread) rows))))"

section \<open>Posting\<close>

record typed_event =
  te_Type :: string
  te_ThreadID :: string

definition dec_typed :: "typed_event dec" where
  "dec_typed = dec_struct
     [fld ''type'' te_Type te_Type_update dec_str, fld ''session_thread_id'' te_ThreadID te_ThreadID_update dec_str]"

text \<open>The type and the thread of an event, or nothing when it cannot be read.\<close>

definition typed_of :: "json \<Rightarrow> (string \<times> string) option" where
  "typed_of v =
     (case unmarshal dec_typed \<lparr>te_Type = [], te_ThreadID = []\<rparr> (Some v) of
        (t, True) \<Rightarrow> None
      | (t, False) \<Rightarrow> Some (te_Type t, if te_ThreadID t = [] then ''primary'' else te_ThreadID t))"

text \<open>
  The answer: a status and its message, or the threads on which turns are started; and how often the
  running turn was interrupted meanwhile.
\<close>

datatype post_result = Rejected int string nat | Accepted "string list" nat

definition triggers_turn :: "string \<Rightarrow> bool" where
  "triggers_turn ty \<longleftrightarrow> ty \<in> {''user.message'', ''user.custom_tool_result'', ''user.tool_confirmation''}"

definition add_thread :: "string \<Rightarrow> string list \<Rightarrow> string list" where
  "add_thread t ts = (if t \<in> set ts then ts else ts @ [t])"

text \<open>The loop over the events; the threads and interruptions so far are carried along.\<close>

fun post_loop :: "env \<Rightarrow> ctx \<Rightarrow> string \<Rightarrow> json list \<Rightarrow> string list \<Rightarrow> nat \<Rightarrow> world \<Rightarrow> post_result \<times> world" where
  "post_loop e c sid [] threads ints w = (Accepted threads ints, w)"
| "post_loop e c sid (v # vs) threads ints w =
     (case typed_of v of
        None \<Rightarrow> (Rejected 400 ''event missing type'' ints, w)
      | Some (ty, thread) \<Rightarrow>
          (case Publish e c sid ty thread (Some v) w of
             (Inl err, w') \<Rightarrow> (Rejected 500 (err_str err) ints, w')
           | (Inr ev, w') \<Rightarrow>
               post_loop e c sid vs (if triggers_turn ty then add_thread thread threads else threads)
                 (if ty = ''user.interrupt'' then Suc ints else ints) w'))"

text \<open>The body is the list of events, or why it cannot be decoded.\<close>

definition postEvents :: "env \<Rightarrow> ctx \<Rightarrow> string \<Rightarrow> gerr + json list \<Rightarrow> world \<Rightarrow> post_result \<times> world" where
  "postEvents e c sid body w =
     (case body of
        Inl err \<Rightarrow> (Rejected 400 (''invalid json: '' @ err_str err) 0, w)
      | Inr vs \<Rightarrow>
          (case GetSession e c sid w of
             (Inl err, w') \<Rightarrow> (Rejected 404 (err_str err) 0, w')
           | (Inr s, w') \<Rightarrow> post_loop e c sid vs [] 0 w'))"

section \<open>What posting does\<close>

text \<open>The events that were logged for the given documents.\<close>

definition logged_as :: "json list \<Rightarrow> EventRow list \<Rightarrow> bool" where
  "logged_as vs rows \<longleftrightarrow> list_all2 (\<lambda>v r. ev_Payload r = Some v \<and> (\<exists>thread. typed_of v = Some (ev_Type r, thread))) vs rows"

definition posted_threads :: "json list \<Rightarrow> string set" where
  "posted_threads vs = {thread. \<exists>v\<in>set vs. \<exists>ty. typed_of v = Some (ty, thread) \<and> triggers_turn ty}"

lemma post_loop_logs:
  "log_ok w \<Longrightarrow> post_loop e c sid vs threads ints w = (r, w') \<Longrightarrow>
     log_ok w' \<and> (\<exists>k rows. session_events sid w' = session_events sid w @ rows \<and> logged_as (take k vs) rows
       \<and> (\<forall>ts n. r = Accepted ts n \<longrightarrow> k = length vs \<and> set ts = set threads \<union> posted_threads vs))"
proof (induction vs arbitrary: threads ints w)
  case Nil
  then show ?case by (auto simp: logged_as_def posted_threads_def)
next
  case (Cons v vs)
  show ?case
  proof (cases "typed_of v")
    case None
    then show ?thesis using Cons.prems by (auto simp: logged_as_def intro!: exI [of _ 0])
  next
    case (Some tt)
    obtain ty' thread where tt: "typed_of v = Some (ty', thread)" using Some by (cases tt) simp
    show ?thesis
    proof (cases rule: Publish_cases [of e c sid ty' thread "Some v" w])
      case (err x d)
      then show ?thesis
        using Cons.prems tt by (auto simp: logged_as_def session_events_def intro!: exI [of _ 0])
    next
      case (ok row w1)
      have log: "log_ok w1" "session_events sid w1 = session_events sid w @ [row]"
        by (rule published_log(1,2) [OF ok(2) Cons.prems(1)])+
      have row: "ev_Payload row = Some v" "ev_Type row = ty'" using ok(2) by (auto simp: published_def)
      let ?ts = "if triggers_turn ty' then add_thread thread threads else threads"
      have run: "post_loop e c sid vs ?ts (if ty' = ''user.interrupt'' then Suc ints else ints) w1 = (r, w')"
        using Cons.prems(2) tt ok(1) by simp
      obtain k rows where k: "log_ok w'" "session_events sid w' = session_events sid w1 @ rows" "logged_as (take k vs) rows"
        "\<And>ts n. r = Accepted ts n \<Longrightarrow> k = length vs \<and> set ts = set ?ts \<union> posted_threads vs"
        using Cons.IH [OF log(1) run] by blast
      have "logged_as (take (Suc k) (v # vs)) (row # rows)" using k(3) row tt by (simp add: logged_as_def)
      moreover have "posted_threads (v # vs) = (if triggers_turn ty' then {thread} else {}) \<union> posted_threads vs"
        using tt by (auto simp: posted_threads_def)
      ultimately show ?thesis
        using k log(2) by (intro conjI exI [of _ "Suc k"] exI [of _ "row # rows"]) (auto simp: add_thread_def)
    qed
  qed
qed

lemma GetSession_snd: "snd (GetSession e c sid w) = w\<lparr>tick := Suc (tick w)\<rparr>"
  by (auto simp: GetSession_def bindE_def queryE_def stmt_run getsE_def optE_def returnE_def throwE_def
      split: sum.splits option.splits)

lemma post_loop_accepts:
  assumes "\<And>n. \<not> cancelled c n" "\<forall>v\<in>set vs. typed_of v \<noteq> None"
  shows "healthy e w \<Longrightarrow> session_by sid w \<noteq> None \<Longrightarrow> \<exists>ts n w'. post_loop e c sid vs threads ints w = (Accepted ts n, w')"
  using assms(2)
proof (induction vs arbitrary: threads ints w)
  case (Cons v vs)
  obtain ty' thread where tt: "typed_of v = Some (ty', thread)" using Cons.prems(3) by auto
  show ?case
  proof (rule Publish_succeeds [OF Cons.prems(1) assms(1) Cons.prems(2), of "Some v" ty' thread])
    fix row w'
    assume pub: "Publish e c sid ty' thread (Some v) w = (Inr (event_of_row row), w')"
      and p: "published e sid ty' thread (Some v) w row w'" and h: "healthy e w'"
    have "session_by sid w' \<noteq> None" using Cons.prems(2) published_session(1) [OF p] by simp
    then show ?thesis using Cons.IH [OF h] Cons.prems(3) pub tt by simp
  qed simp
qed simp

section \<open>Properties\<close>

text \<open>A request that is accepted has all its events in the log, in order and with their
payloads, and starts turns on exactly the threads of its messages, results and confirmations; one
that is rejected starts none, but a beginning of its events may be in the log.\<close>

theorem posted_events_are_logged:
  assumes "log_ok w" "postEvents e c sid body w = (r, w')"
  shows "case r of
      Accepted ts n \<Rightarrow> (\<exists>vs rows. body = Inr vs \<and> session_events sid w' = session_events sid w @ rows
        \<and> logged_as vs rows \<and> set ts = posted_threads vs)
    | Rejected code msg n \<Rightarrow> (\<exists>k vs rows. (body = Inr vs \<or> isl body) \<and> session_events sid w' = session_events sid w @ rows
        \<and> logged_as (take k vs) rows)"
proof (cases body)
  case (Inl x)
  then show ?thesis using assms(2) by (auto simp: postEvents_def logged_as_def)
next
  case Some: (Inr vs)
  obtain g w1 where g: "GetSession e c sid w = (g, w1)" by (cases "GetSession e c sid w")
  have w1: "w1 = w\<lparr>tick := Suc (tick w)\<rparr>" using GetSession_snd [of e c sid w] g by simp
  show ?thesis
  proof (cases g)
    case (Inl x)
    then show ?thesis
      using assms(2) g Some w1 by (auto simp: postEvents_def logged_as_def intro!: exI [of _ 0])
  next
    case (Inr s)
    then have run: "post_loop e c sid vs [] 0 w1 = (r, w')" using assms(2) g Some by (simp add: postEvents_def)
    have "log_ok w1" using assms(1) w1 by simp
    from post_loop_logs [OF this run] obtain k rows where
      "session_events sid w' = session_events sid w @ rows" "logged_as (take k vs) rows"
      "\<And>ts n. r = Accepted ts n \<Longrightarrow> k = length vs \<and> set ts = posted_threads vs"
      using w1 by auto
    then show ?thesis using Some by (cases r) auto
  qed
qed

definition confirm_doc :: json where
  "confirm_doc = JObj [(''type'', JStr ''user.message'')]"

lemma posted_events_are_logged_witness:
  "\<exists>rows. session_events ''s'' (snd (postEvents demo_env Background ''s'' (Inr [confirm_doc]) demo_world)) = rows \<and> logged_as [confirm_doc] rows"
proof -
  let ?r = "postEvents demo_env Background ''s'' (Inr [confirm_doc]) demo_world"
  have v: "case fst ?r of Accepted ts n \<Rightarrow> True | Rejected code msg n \<Rightarrow> False" "session_events ''s'' demo_world = []" by code_simp+
  show ?thesis using posted_events_are_logged [OF demo_ok(1), of demo_env Background "''s''" "Inr [confirm_doc]" "fst ?r" "snd ?r"] v
    by (auto split: post_result.splits)
qed

text \<open>A client may post events of any type: in good health every list of readable
documents is accepted and logged, the types only the harness writes among them.\<close>

theorem any_type_is_accepted:
  assumes "healthy e w" "session_by sid w \<noteq> None" "\<forall>n. \<not> cancelled c n" "\<forall>v\<in>set vs. typed_of v \<noteq> None"
  shows "\<exists>ts n. fst (postEvents e c sid (Inr vs) w) = Accepted ts n"
proof -
  have c: "\<not> cancelled c n" for n using assms(3) by simp
  have nf: "no_faults e" using assms(1) by (simp add: healthy_def)
  obtain s where s: "session_by sid w = Some s" using assms(2) by blast
  have g: "GetSession e c sid w = (Inr s, w\<lparr>tick := Suc (tick w)\<rparr>)"
    using s by (simp add: GetSession_def bindE_def queryE_ok [OF nf c] optE_def returnE_def session_by_def)
  have "healthy e (w\<lparr>tick := Suc (tick w)\<rparr>)" "session_by sid (w\<lparr>tick := Suc (tick w)\<rparr>) \<noteq> None"
    using assms(1,2) by (auto simp: healthy_def fresh_ids_def session_by_def)
  from post_loop_accepts [OF c assms(4) this, of "[]" 0] g show ?thesis by (auto simp: postEvents_def)
qed

lemma any_type_is_accepted_witness:
  "\<exists>ts n. fst (postEvents demo_env Background ''s'' (Inr [JObj [(''type'', JStr ''session.status_terminated'')]]) demo_world) = Accepted ts n"
proof -
  have h: "healthy demo_env demo_world" by (rule healthy_demo [OF demo_ok, where ks = "[]"]) (code_simp+)
  have s: "session_by ''s'' demo_world \<noteq> None" by code_simp
  have t: "typed_of (JObj [(''type'', JStr ''session.status_terminated'')]) \<noteq> None" by code_simp
  show ?thesis by (rule any_type_is_accepted [OF h s]) (simp_all add: t)
qed

end
