(* ===== verification/ApiReply.thy ===== *)
theory ApiReply
  imports AuthService SessionService MemoryService VaultService Webhook EventApi
begin

text \<open>
  Requests, replies and the steps the handlers of \<open>internal/api\<close> are made of. A reply has a status,
  headers, cookies, a document, and the calls to the harness the handler made; a handler maps the
  state to its reply and the new state. What the router, the JSON decoder, the clock's formatting and
  the zip reader of Go's libraries yield is part of the request or of \<open>api_lib\<close>.
\<close>

section \<open>Requests\<close>

text \<open>
  An uploaded form: its file (name, declared content type, bytes), if there is one, and its values.
  Reading the file can fail.
\<close>

record form =
  fm_File :: "(string \<times> string \<times> (gerr + string)) option"
  fm_Value :: "string \<Rightarrow> string"

text \<open>
  \<open>hq_Segments\<close> is the path as the router splits it, \<open>hq_Body\<close> the first document of the body,
  \<open>hq_Header\<close> the value of a header (empty when there is none).
\<close>

record request =
  hq_Ctx :: ctx
  hq_Method :: string
  hq_Segments :: "string list"
  hq_Query :: "string \<Rightarrow> string list"
  hq_Header :: "string \<Rightarrow> string"
  hq_Cookie :: "string \<Rightarrow> string option"
  hq_Body :: raw
  hq_Form :: "gerr + form"
  hq_Identity :: "(string \<times> string) option"

section \<open>Replies\<close>

text \<open>
  A cookie's name, value and lifetime: it expires at a time, or is deleted. All of them are for the
  path \<open>/\<close>, not readable by scripts, and sent on navigation from other sites only.
\<close>

datatype lifetime = Until int | Deleted

record set_cookie =
  ck_CookieName :: string
  ck_Value :: string
  ck_Lifetime :: lifetime

text \<open>
  A document, which is missing when it cannot be marshalled; rows that were merged from maps; bytes;
  a stream from an event number on; or nothing.
\<close>

datatype body = Doc raw | EventRows "(string \<rightharpoonup> json) list" | Bytes string | Stream int | NoBody

datatype harness_call = CallRun string string | CallInterrupt string | CallDestroy string

record reply =
  rp_Status :: int
  rp_Headers :: "(string \<times> string) list"
  rp_Cookies :: "set_cookie list"
  rp_Body :: body
  rp_Calls :: "harness_call list"

definition plain_reply :: "int \<Rightarrow> (string \<times> string) list \<Rightarrow> body \<Rightarrow> reply" where
  "plain_reply status headers b = \<lparr>rp_Status = status, rp_Headers = headers, rp_Cookies = [], rp_Body = b, rp_Calls = []\<rparr>"

definition writeBody :: "int \<Rightarrow> body \<Rightarrow> reply" where
  "writeBody status b = plain_reply status [(''Content-Type'', ''application/json'')] b"

definition writeJSON :: "int \<Rightarrow> raw \<Rightarrow> reply" where
  "writeJSON status v = writeBody status (Doc v)"

definition writeErr :: "int \<Rightarrow> string \<Rightarrow> string \<Rightarrow> reply" where
  "writeErr status errType msg =
     writeJSON status (Some (JObj [(''error'', JObj [(''type'', JStr errType), (''message'', JStr msg)])]))"

section \<open>The dependencies of the handlers\<close>

text \<open>
  \<open>li_Time\<close> writes milliseconds as a time, \<open>li_DecodeErr\<close> says what is wrong with a body for a type,
  \<open>li_Renum\<close> prints a number that went through a \<open>float64\<close>, and \<open>li_Unzip\<close> lists the entries of an
  archive: name, whether it is a directory, and what is read of it. \<open>li_Metrics\<close> and \<open>li_NotRouted\<close>
  are the replies of the metrics library and of the router to what has no route.
\<close>

record api_lib =
  li_Time :: "int \<Rightarrow> string"
  li_DecodeErr :: "string \<Rightarrow> raw \<Rightarrow> string"
  li_Renum :: renum
  li_Unzip :: "string \<Rightarrow> gerr + (string \<times> bool \<times> string option) list"
  li_Metrics :: reply
  li_NotRouted :: "request \<Rightarrow> reply"

text \<open>
  How the database reads a boolean or a text out of a JSON column; it may not be able to.
\<close>

record json_sql =
  js_BoolTrue :: "raw \<Rightarrow> string \<Rightarrow> bool option"
  js_TextEquals :: "raw \<Rightarrow> string list \<Rightarrow> string \<Rightarrow> bool option"

record deps =
  dp_Env :: env
  dp_Lib :: api_lib
  dp_JsonSql :: json_sql
  dp_Sha :: "string \<Rightarrow> string"
  dp_Memory :: bool
  dp_Webhook :: "webhook_svc option"
  dp_Vault :: "(vault_lib \<times> cipherBox) option"
  dp_AuthLib :: auth_lib
  dp_Auth :: "auth_service option"
  dp_AuthMode :: string
  dp_Harness :: bool
  dp_Driver :: string
  dp_LLMProvider :: string
  dp_DefaultAgentModel :: string

type_synonym handler = "world \<Rightarrow> reply \<times> world"

section \<open>Steps of a handler\<close>

definition respond :: "reply \<Rightarrow> handler" where
  "respond r w = (r, w)"

text \<open>\<open>x, err := m; if err != nil { reply to err; return }\<close>, and \<open>x\<close> for the rest.\<close>

definition orElse :: "(world, 'a) io \<Rightarrow> (gerr \<Rightarrow> reply) \<Rightarrow> ('a \<Rightarrow> handler) \<Rightarrow> handler" where
  "orElse m bad good w = (case m w of (Inl err, w') \<Rightarrow> (bad err, w') | (Inr x, w') \<Rightarrow> good x w')"

text \<open>The replies to an error: \<open>writeErr(w, status, type, err.Error())\<close>.\<close>

definition failing :: "int \<Rightarrow> string \<Rightarrow> gerr \<Rightarrow> reply" where
  "failing status errType err = writeErr status errType (err_str err)"

definition not_found :: "gerr \<Rightarrow> reply" where
  "not_found = failing 404 ''not_found_error''"

definition bad_request :: "gerr \<Rightarrow> reply" where
  "bad_request = failing 400 ''invalid_request_error''"

definition internal :: "gerr \<Rightarrow> reply" where
  "internal = failing 500 ''internal_error''"

definition invalid :: "string \<Rightarrow> reply" where
  "invalid msg = writeErr 400 ''invalid_request_error'' msg"

text \<open>
  \<open>json.NewDecoder(r.Body).Decode(&req)\<close> into a value of the named type: the reply to a body that
  cannot be decoded, or the rest with what was decoded.
\<close>

definition decoding :: "deps \<Rightarrow> request \<Rightarrow> string \<Rightarrow> string \<Rightarrow> 'a dec \<Rightarrow> 'a \<Rightarrow> ('a \<Rightarrow> handler) \<Rightarrow> handler" where
  "decoding d r pre ty dec zero rest =
     (case unmarshal dec zero (hq_Body r) of
        (x, False) \<Rightarrow> rest x
      | (_, True) \<Rightarrow> respond (invalid (pre @ li_DecodeErr (dp_Lib d) ty (hq_Body r))))"

definition invalid_json :: string where
  "invalid_json = ''invalid json: ''"

definition required :: "string \<Rightarrow> string \<Rightarrow> handler \<Rightarrow> handler" where
  "required s msg rest = (if s = [] then respond (invalid msg) else rest)"

text \<open>The tenant and the user a request acts for.\<close>

definition tenant_of :: "request \<Rightarrow> string" where
  "tenant_of r = tenantFromCtx (hq_Identity r)"

section \<open>The query\<close>

text \<open>
  \<open>strconv.Atoi\<close> with its error dropped: 0 for what is no number, the nearest limit of an \<open>int\<close> for
  what is too large. Scanning stops where the value leaves 64 bits.
\<close>

fun scan_uint :: "nat \<Rightarrow> string \<Rightarrow> nat option" where
  "scan_uint acc [] = Some acc"
| "scan_uint acc (ch # s) =
     (if \<not> is_digit ch then None
      else let n = 10 * acc + (of_char ch - 48) in if 2 ^ 64 \<le> n then Some n else scan_uint n s)"

definition Atoi_value :: "string \<Rightarrow> int" where
  "Atoi_value s =
     (let (neg, ds) = (case s of [] \<Rightarrow> (False, []) | ch # t \<Rightarrow>
            if ch = CHR ''-'' then (True, t) else if ch = CHR ''+'' then (False, t) else (False, s))
      in if ds = [] then 0
         else (case scan_uint 0 ds of None \<Rightarrow> 0
           | Some n \<Rightarrow> if neg then max (- (2 ^ 63)) (- int n) else min (2 ^ 63 - 1) (int n)))"

definition query_get :: "request \<Rightarrow> string \<Rightarrow> string" where
  "query_get r k = (case hq_Query r k of [] \<Rightarrow> [] | v # _ \<Rightarrow> v)"

definition limit_of :: "request \<Rightarrow> int" where
  "limit_of r = Atoi_value (query_get r ''limit'')"

section \<open>Documents\<close>

definition time_json :: "deps \<Rightarrow> int \<Rightarrow> json" where
  "time_json d t = JStr (li_Time (dp_Lib d) t)"

definition time_opt_json :: "deps \<Rightarrow> int option \<Rightarrow> json" where
  "time_opt_json d t = (case t of None \<Rightarrow> JNull | Some x \<Rightarrow> time_json d x)"

text \<open>A list of documents, which fails as a whole when one of them does.\<close>

definition raw_arr :: "raw list \<Rightarrow> raw" where
  "raw_arr rs = (if list_all (\<lambda>r. r \<noteq> None) rs then Some (JArr (map the rs)) else None)"

text \<open>\<open>ListResponse\<close> and the maps of the same shape.\<close>

definition list_reply :: "raw list \<Rightarrow> reply" where
  "list_reply rs = writeJSON 200 (marshal_obj [(''data'', raw_arr rs), (''has_more'', Some (JBool False))])"

definition doc_list :: "json list \<Rightarrow> reply" where
  "doc_list vs = list_reply (map Some vs)"

definition gone :: "string \<Rightarrow> string \<Rightarrow> reply" where
  "gone i ty = writeJSON 200 (Some (JObj [(''id'', JStr i), (''type'', JStr ty)]))"

section \<open>Every step keeps what its parts keep\<close>

text \<open>\<open>handled R h\<close>: whatever the reply, the handler relates the states by \<open>R\<close>.\<close>

definition handled :: "(world \<Rightarrow> world \<Rightarrow> bool) \<Rightarrow> handler \<Rightarrow> bool" where
  "handled R h \<longleftrightarrow> (\<forall>w. R w (snd (h w)))"

lemma handledI: "(\<And>w. R w (snd (h w))) \<Longrightarrow> handled R h"
  by (simp add: handled_def)

lemma handledD: "handled R h \<Longrightarrow> R w (snd (h w))"
  by (simp add: handled_def)

context kept begin

lemma handled_respond: "handled R (respond r)"
  by (simp add: handled_def respond_def refl)

lemma handled_orElse:
  assumes "keeps R m" "\<And>x. handled R (good x)"
  shows "handled R (orElse m bad good)"
proof (rule handledI)
  fix w
  obtain r w' where m: "m w = (r, w')" by (cases "m w")
  have w': "R w w'" using keepsD [OF assms(1), of w] m by simp
  show "R w (snd (orElse m bad good w))"
    using m w' trans [OF w' handledD [OF assms(2)]] by (cases r) (auto simp: orElse_def)
qed

lemma handled_decoding: "(\<And>x. handled R (rest x)) \<Longrightarrow> handled R (decoding d r pre ty dec zero rest)"
  by (auto simp: decoding_def handled_respond split: prod.splits bool.splits)

lemma handled_required: "handled R rest \<Longrightarrow> handled R (required s msg rest)"
  by (simp add: required_def handled_respond)

lemma handled_cond: "(b \<Longrightarrow> handled R h) \<Longrightarrow> (\<not> b \<Longrightarrow> handled R h') \<Longrightarrow> handled R (if b then h else h')"
  by simp

lemmas handling = handled_respond handled_orElse handled_decoding handled_required handled_cond

end

text \<open>A handler that runs, step by step.\<close>

lemma orElse_Inr: "m w = (Inr x, w') \<Longrightarrow> orElse m bad good w = good x w'"
  by (simp add: orElse_def)

lemma orElse_Inl: "m w = (Inl x, w') \<Longrightarrow> orElse m bad good w = (bad x, w')"
  by (simp add: orElse_def)

text \<open>What a client asks for as a number of items is always between one and a thousand.\<close>

lemma listed_at_most:
  assumes "0 < dflt" "dflt \<le> 1000"
  shows "1 \<le> clamp_limit dflt (limit_of r) \<and> clamp_limit dflt (limit_of r) \<le> 1000"
  by (rule clamp_limit_bounds [OF assms])

end
