(* ===== verification/AgentApi.thy ===== *)
theory AgentApi
  imports ApiReply
begin

text \<open>
  The handlers of agents, sessions, environments and session resources (\<open>agent.go\<close>, \<open>session.go\<close>,
  \<open>environment.go\<close> and \<open>resource.go\<close> of \<open>internal/api\<close>), one definition each.
\<close>

section \<open>Agents\<close>

definition smap_json :: "smap \<Rightarrow> json" where
  "smap_json = marshal_smap"

definition agent_json :: "deps \<Rightarrow> Agent \<Rightarrow> json" where
  "agent_json d a = JObj ([(''type'', JStr ''agent''), (''id'', JStr (aa_ID a)), (''name'', JStr (aa_Name a)),
       (''model'', model_json (aa_Model a))] @ opt_str ''system'' (aa_System a) @ opt_str ''description'' (aa_Description a)
     @ [(''tools'', slice_json tool_json (aa_Tools a)), (''skills'', slice_json (\<lambda>v. v) (aa_Skills a)),
        (''mcp_servers'', slice_json (\<lambda>v. v) (aa_MCPServers a))]
     @ opt_raw ''multiagent'' (aa_Multiagent a)
     @ (case aa_Guardrails a of None \<Rightarrow> [] | Some g \<Rightarrow> [(''guardrails'', guardrails_json g)])
     @ [(''metadata'', smap_json (aa_Metadata a)), (''version'', jint (aa_Version a)), (''created_at'', time_json d (aa_CreatedAt a)),
        (''updated_at'', time_json d (aa_UpdatedAt a)), (''archived_at'', time_opt_json d (aa_ArchivedAt a))])"

text \<open>The checks in front of creating and updating an agent.\<close>

definition checked_agent :: "'m CreateAgentRequest_scheme \<Rightarrow> handler \<Rightarrow> handler" where
  "checked_agent q rest = required (ra_Name q) ''name is required'' (required (am_ID (ra_Model q)) ''model is required'' rest)"

definition createAgent :: "deps \<Rightarrow> request \<Rightarrow> handler" where
  "createAgent d r =
     decoding d r invalid_json ''CreateAgentRequest'' dec_create_agent zero_create_agent (\<lambda>q.
       checked_agent q (orElse (agent_Create (dp_Env d) (hq_Ctx r) (tenant_of r) q) internal (\<lambda>a.
         respond (writeJSON 201 (Some (agent_json d a))))))"

definition listAgents :: "deps \<Rightarrow> request \<Rightarrow> handler" where
  "listAgents d r = orElse (agent_List (dp_Env d) (hq_Ctx r) (tenant_of r) (limit_of r)) internal (\<lambda>as.
     respond (doc_list (map (agent_json d) as)))"

definition getAgent :: "deps \<Rightarrow> request \<Rightarrow> string \<Rightarrow> handler" where
  "getAgent d r aid = orElse (agent_Get (dp_Env d) (hq_Ctx r) aid) not_found (\<lambda>a.
     respond (writeJSON 200 (Some (agent_json d a))))"

definition conflict_or_missing :: "gerr \<Rightarrow> reply" where
  "conflict_or_missing err =
     (if Contains (err_str err) ''version conflict'' then failing 409 ''conflict_error'' err else not_found err)"

definition updateAgent :: "deps \<Rightarrow> request \<Rightarrow> string \<Rightarrow> handler" where
  "updateAgent d r aid =
     decoding d r invalid_json ''UpdateAgentRequest'' dec_update_agent zero_update_agent (\<lambda>q.
       checked_agent q
         (if ra_Version q \<le> 0 then respond (invalid ''version is required'')
          else orElse (agent_Update (dp_Env d) (hq_Ctx r) aid q) conflict_or_missing (\<lambda>a.
            respond (writeJSON 200 (Some (agent_json d a))))))"

definition deleteAgent :: "deps \<Rightarrow> request \<Rightarrow> string \<Rightarrow> handler" where
  "deleteAgent d r aid = orElse (agent_Delete (dp_Env d) (hq_Ctx r) aid) not_found (\<lambda>_. respond (gone aid ''agent_deleted''))"

definition archiveAgent :: "deps \<Rightarrow> request \<Rightarrow> string \<Rightarrow> handler" where
  "archiveAgent d r aid = orElse (agent_Archive (dp_Env d) (hq_Ctx r) aid) not_found (\<lambda>_. getAgent d r aid)"

definition listAgentVersions :: "deps \<Rightarrow> request \<Rightarrow> string \<Rightarrow> handler" where
  "listAgentVersions d r aid = orElse (agent_Versions (dp_Env d) (hq_Ctx r) aid) not_found (\<lambda>as.
     respond (doc_list (map (agent_json d) as)))"

section \<open>Sessions\<close>

definition strs_json :: "string list option \<Rightarrow> json" where
  "strs_json = slice_json JStr"

definition usage_json :: "Session \<Rightarrow> json" where
  "usage_json s = JObj [(''input_tokens'', jint (se_UsageInput s)), (''output_tokens'', jint (se_UsageOutput s)),
     (''cache_creation_input_tokens'', jint (se_UsageCacheCreate s)), (''cache_read_input_tokens'', jint (se_UsageCacheRead s))]"

definition session_json :: "deps \<Rightarrow> Session \<Rightarrow> raw" where
  "session_json d s = marshal_obj ([(''type'', Some (JStr ''session'')), (''id'', Some (JStr (se_ID s))),
       (''status'', Some (JStr (se_Status s))), (''agent'', se_Agent s), (''environment_id'', Some (JStr (se_EnvironmentID s))),
       (''vault_ids'', Some (strs_json (se_VaultIDs s)))]
     @ map (\<lambda>(k, v). (k, Some v)) (opt_str ''title'' (se_Title s)
     @ [(''metadata'', smap_json (se_Metadata s)), (''usage'', usage_json s), (''created_at'', time_json d (se_CreatedAt s)),
        (''updated_at'', time_opt_json d (se_UpdatedAt s)), (''archived_at'', time_opt_json d (se_ArchivedAt s)),
        (''terminated_at'', time_opt_json d (se_TerminatedAt s))]))"

definition createSession :: "deps \<Rightarrow> request \<Rightarrow> handler" where
  "createSession d r =
     decoding d r invalid_json ''CreateSessionRequest'' dec_create_session zero_create_session (\<lambda>q.
       orElse (session_Create (dp_Env d) (hq_Ctx r) (tenant_of r) q) bad_request (\<lambda>s.
         respond (writeJSON 201 (session_json d s))))"

definition listSessions :: "deps \<Rightarrow> request \<Rightarrow> handler" where
  "listSessions d r = orElse (session_List (dp_Env d) (hq_Ctx r) (tenant_of r) (limit_of r)) internal (\<lambda>ss.
     respond (list_reply (map (session_json d) ss)))"

definition getSession :: "deps \<Rightarrow> request \<Rightarrow> string \<Rightarrow> handler" where
  "getSession d r sid = orElse (session_Get (dp_Env d) (hq_Ctx r) sid) not_found (\<lambda>s.
     respond (writeJSON 200 (session_json d s)))"

text \<open>The sandbox of a deleted session is destroyed; a failure of that is only logged.\<close>

definition deleteSession :: "deps \<Rightarrow> request \<Rightarrow> string \<Rightarrow> handler" where
  "deleteSession d r sid = orElse (session_Delete (dp_Env d) (hq_Ctx r) sid) internal (\<lambda>_.
     respond ((gone sid ''session_deleted'')\<lparr>rp_Calls := (if dp_Harness d then [CallDestroy sid] else [])\<rparr>))"

definition updateSession :: "deps \<Rightarrow> request \<Rightarrow> string \<Rightarrow> handler" where
  "updateSession d r sid =
     decoding d r invalid_json ''UpdateSessionRequest'' dec_update_session zero_update_session (\<lambda>q.
       orElse (session_Update (dp_Env d) (hq_Ctx r) sid q) not_found (\<lambda>s.
         respond (writeJSON 200 (session_json d s))))"

definition archiveSession :: "deps \<Rightarrow> request \<Rightarrow> string \<Rightarrow> handler" where
  "archiveSession d r sid = orElse (session_Archive (dp_Env d) (hq_Ctx r) sid) not_found (\<lambda>_. getSession d r sid)"

section \<open>Environments\<close>

record CreateEnvironmentRequest =
  re_Name :: string
  re_Config :: raw

definition dec_environment :: "CreateEnvironmentRequest dec" where
  "dec_environment = dec_struct [fld ''name'' re_Name re_Name_update dec_str, fld ''config'' re_Config re_Config_update dec_raw]"

definition zero_environment :: CreateEnvironmentRequest where
  "zero_environment = \<lparr>re_Name = [], re_Config = None\<rparr>"

record config_type =
  ct_Type :: string

definition envConfigType :: "raw \<Rightarrow> string" where
  "envConfigType config = (case config of None \<Rightarrow> []
     | Some v \<Rightarrow> ct_Type (fst (dec_struct [fld ''type'' ct_Type ct_Type_update dec_str] v \<lparr>ct_Type = []\<rparr>)))"

definition environmentToAPI :: "deps \<Rightarrow> EnvironmentRow \<Rightarrow> json" where
  "environmentToAPI d r = JObj [(''type'', JStr ''environment''), (''id'', JStr (en_ID r)), (''name'', JStr (en_Name r)),
     (''config'', case en_Config r of None \<Rightarrow> JObj [] | Some v \<Rightarrow> v), (''created_at'', time_json d (en_CreatedAt r)),
     (''updated_at'', time_json d (en_UpdatedAt r)), (''archived_at'', time_opt_json d (en_ArchivedAt r))]"

text \<open>What is said about a configuration, if it is refused.\<close>

definition config_refusal :: "raw \<Rightarrow> reply option" where
  "config_refusal config =
     (let ty = envConfigType config in
      if ty = [] \<or> ty = ''cloud'' then None
      else if ty = ''self_hosted'' then Some (writeErr 501 ''not_implemented_error''
        ''self_hosted environments are not supported; JadeEnvoy runs the full agent loop locally (see ADR-0007)'')
      else Some (invalid (''config.type must be '' @ [CHR 0x27] @ ''cloud'' @ [CHR 0x27] @ '' or '' @ [CHR 0x27] @ ''self_hosted'' @ [CHR 0x27])))"

definition checked_environment :: "CreateEnvironmentRequest \<Rightarrow> handler \<Rightarrow> handler" where
  "checked_environment q rest = required (re_Name q) ''name is required''
     (case config_refusal (re_Config q) of Some refusal \<Rightarrow> respond refusal | None \<Rightarrow> rest)"

definition createEnvironment :: "deps \<Rightarrow> request \<Rightarrow> handler" where
  "createEnvironment d r =
     decoding d r invalid_json ''CreateEnvironmentRequest'' dec_environment zero_environment (\<lambda>q. checked_environment q
       (orElse (CreateEnvironment (dp_Env d) (hq_Ctx r) (tenant_of r) (re_Name q) (re_Config q)) bad_request (\<lambda>row.
         respond (writeJSON 201 (Some (environmentToAPI d row))))))"

definition listEnvironments :: "deps \<Rightarrow> request \<Rightarrow> handler" where
  "listEnvironments d r = orElse (ListEnvironments (dp_Env d) (hq_Ctx r) (tenant_of r) (limit_of r)) internal (\<lambda>rows.
     respond (doc_list (map (environmentToAPI d) rows)))"

definition getEnvironment :: "deps \<Rightarrow> request \<Rightarrow> string \<Rightarrow> handler" where
  "getEnvironment d r eid = orElse (GetEnvironment (dp_Env d) (hq_Ctx r) eid) not_found (\<lambda>row.
     respond (writeJSON 200 (Some (environmentToAPI d row))))"

definition missing_or_bad :: "gerr \<Rightarrow> reply" where
  "missing_or_bad err = (if err = ErrNotFound then not_found err else bad_request err)"

definition updateEnvironment :: "deps \<Rightarrow> request \<Rightarrow> string \<Rightarrow> handler" where
  "updateEnvironment d r eid =
     decoding d r invalid_json ''CreateEnvironmentRequest'' dec_environment zero_environment (\<lambda>q. checked_environment q
       (orElse (UpdateEnvironment (dp_Env d) (hq_Ctx r) eid (re_Name q) (re_Config q)) missing_or_bad (\<lambda>row.
         respond (writeJSON 200 (Some (environmentToAPI d row))))))"

definition archiveEnvironment :: "deps \<Rightarrow> request \<Rightarrow> string \<Rightarrow> handler" where
  "archiveEnvironment d r eid = orElse (ArchiveEnvironment (dp_Env d) (hq_Ctx r) eid) missing_or_bad (\<lambda>row.
     respond (writeJSON 200 (Some (environmentToAPI d row))))"

definition deleteEnvironment :: "deps \<Rightarrow> request \<Rightarrow> string \<Rightarrow> handler" where
  "deleteEnvironment d r eid = orElse (DeleteEnvironment (dp_Env d) (hq_Ctx r) eid) missing_or_bad (\<lambda>_.
     respond (gone eid ''environment_deleted''))"

section \<open>Resources of a session\<close>

definition sessionResourceToAPI :: "deps \<Rightarrow> SessionResourceRow \<Rightarrow> raw" where
  "sessionResourceToAPI d rr = marshal_obj [(''created_at'', Some (time_json d (sr_CreatedAt rr))), (''id'', Some (JStr (sr_ID rr))),
     (''resource'', sr_Payload rr), (''session_id'', Some (JStr (sr_SessionID rr))), (''type'', Some (JStr ''session_resource''))]"

text \<open>The body is any object with a type; it is stored as it was read.\<close>

definition decoding_resource :: "deps \<Rightarrow> request \<Rightarrow> (string \<Rightarrow> raw \<Rightarrow> handler) \<Rightarrow> handler" where
  "decoding_resource d r rest =
     decoding d r [] ''map'' (dec_any_map (li_Renum (dp_Lib d))) None (\<lambda>q.
       let resType = (case q of Some m \<Rightarrow> (case any_lookup m ''type'' of Some (JStr s) \<Rightarrow> s | _ \<Rightarrow> []) | None \<Rightarrow> [])
       in required resType ''type is required''
            (rest resType (Some (case q of Some m \<Rightarrow> JObj (sorted_members m) | None \<Rightarrow> JNull))))"

definition in_session :: "deps \<Rightarrow> request \<Rightarrow> string \<Rightarrow> handler \<Rightarrow> handler" where
  "in_session d r sid rest = orElse (session_Get (dp_Env d) (hq_Ctx r) sid) not_found (\<lambda>_. rest)"

definition resource_missing :: reply where
  "resource_missing = writeErr 404 ''not_found_error'' ''session resource not found''"

text \<open>A resource is only reached through the session it belongs to.\<close>

definition its_resource :: "deps \<Rightarrow> request \<Rightarrow> string \<Rightarrow> string \<Rightarrow> (SessionResourceRow \<Rightarrow> handler) \<Rightarrow> handler" where
  "its_resource d r sid rid rest = in_session d r sid
     (orElse (GetSessionResource (dp_Env d) (hq_Ctx r) rid) not_found (\<lambda>rr.
       if sr_SessionID rr \<noteq> sid then respond resource_missing else rest rr))"

definition addSessionResource :: "deps \<Rightarrow> request \<Rightarrow> string \<Rightarrow> handler" where
  "addSessionResource d r sid = in_session d r sid (decoding_resource d r (\<lambda>ty payload.
     orElse (AddSessionResource (dp_Env d) (hq_Ctx r) sid ty payload) internal (\<lambda>rr.
       respond (writeJSON 201 (sessionResourceToAPI d (rr\<lparr>sr_SessionID := sid\<rparr>))))))"

definition listSessionResources :: "deps \<Rightarrow> request \<Rightarrow> string \<Rightarrow> handler" where
  "listSessionResources d r sid = in_session d r sid
     (orElse (ListSessionResources (dp_Env d) (hq_Ctx r) sid) internal (\<lambda>rows.
       respond (list_reply (map (sessionResourceToAPI d) rows))))"

definition getSessionResource :: "deps \<Rightarrow> request \<Rightarrow> string \<Rightarrow> string \<Rightarrow> handler" where
  "getSessionResource d r sid rid = its_resource d r sid rid (\<lambda>rr. respond (writeJSON 200 (sessionResourceToAPI d rr)))"

definition updateSessionResource :: "deps \<Rightarrow> request \<Rightarrow> string \<Rightarrow> string \<Rightarrow> handler" where
  "updateSessionResource d r sid rid = its_resource d r sid rid (\<lambda>_. decoding_resource d r (\<lambda>ty payload.
     orElse (UpdateSessionResource (dp_Env d) (hq_Ctx r) rid ty payload) internal (\<lambda>rr.
       respond (writeJSON 200 (sessionResourceToAPI d rr)))))"

definition deleteSessionResource :: "deps \<Rightarrow> request \<Rightarrow> string \<Rightarrow> string \<Rightarrow> handler" where
  "deleteSessionResource d r sid rid = its_resource d r sid rid (\<lambda>_.
     orElse (DeleteSessionResource (dp_Env d) (hq_Ctx r) rid) internal (\<lambda>_.
       respond (gone rid ''session_resource_deleted'')))"

end
