(* ===== verification/StorageApi.thy ===== *)
theory StorageApi
  imports ApiReply
begin

text \<open>
  The handlers of files, skills and memory stores (\<open>file.go\<close>, \<open>skill.go\<close>, \<open>memory.go\<close> of
  \<open>internal/api\<close>) and the check of uploaded paths (\<open>middleware.go\<close>).
\<close>

section \<open>Files\<close>

definition file_json :: "deps \<Rightarrow> FileRow \<Rightarrow> json" where
  "file_json d row = JObj [(''type'', JStr ''file''), (''id'', JStr (fi_ID row)), (''filename'', JStr (fi_Filename row)),
     (''content_type'', JStr (fi_ContentType row)), (''size'', jint (fi_Size row)),
     (''created_at'', time_json d (fi_CreatedAt row)), (''updated_at'', time_json d (fi_UpdatedAt row))]"

text \<open>The uploaded file, or what is said when there is none: its name, its declared type and its bytes.\<close>

definition uploaded :: "request \<Rightarrow> string \<Rightarrow> string + string \<times> string \<times> string" where
  "uploaded r what =
     (case hq_Form r of
        Inl err \<Rightarrow> Inl (''multipart parse: '' @ err_str err)
      | Inr f \<Rightarrow> (case fm_File f of
          None \<Rightarrow> Inl ''file field required''
        | Some (_, _, Inl err) \<Rightarrow> Inl (''read '' @ what @ '': '' @ err_str err)
        | Some (name, ct, Inr blob) \<Rightarrow> Inr (name, ct, blob)))"

definition createFile :: "deps \<Rightarrow> request \<Rightarrow> handler" where
  "createFile d r =
     (case uploaded r ''file'' of
        Inl msg \<Rightarrow> respond (invalid msg)
      | Inr (name, ct, blob) \<Rightarrow>
          orElse (CreateFile (dp_Env d) (hq_Ctx r) (tenant_of r) name
                    (if ct = [] then ''application/octet-stream'' else ct) blob) internal (\<lambda>row.
            respond (writeJSON 201 (Some (file_json d row)))))"

definition listFiles :: "deps \<Rightarrow> request \<Rightarrow> handler" where
  "listFiles d r = orElse (ListFiles (dp_Env d) (hq_Ctx r) (tenant_of r)) internal (\<lambda>rows.
     respond (doc_list (map (file_json d) rows)))"

definition getFile :: "deps \<Rightarrow> request \<Rightarrow> string \<Rightarrow> handler" where
  "getFile d r fid = orElse (GetFile (dp_Env d) (hq_Ctx r) fid) not_found (\<lambda>row.
     respond (writeJSON 200 (Some (file_json d row))))"

definition getFileContent :: "deps \<Rightarrow> request \<Rightarrow> string \<Rightarrow> handler" where
  "getFileContent d r fid = orElse (GetFile (dp_Env d) (hq_Ctx r) fid) not_found (\<lambda>row.
     respond (plain_reply 200 [(''Content-Type'', fi_ContentType row),
        (''Content-Disposition'', ''attachment; filename='' @ [CHR 0x22] @ fi_Filename row @ [CHR 0x22])] (Bytes (fi_Blob row))))"

definition deleteFile :: "deps \<Rightarrow> request \<Rightarrow> string \<Rightarrow> handler" where
  "deleteFile d r fid = orElse (DeleteFile (dp_Env d) (hq_Ctx r) fid) internal (\<lambda>_. respond (gone fid ''file_deleted''))"

section \<open>Paths of uploads\<close>

definition bad_part :: "string \<Rightarrow> bool" where
  "bad_part part \<longleftrightarrow> part = [] \<or> part = ''.'' \<or> part = ''..''"

text \<open>The raw string of the source is two backslashes; both are replaced by one slash.\<close>

definition safeUploadPath :: "string \<Rightarrow> bool" where
  "safeUploadPath p =
     (if p = [] \<or> HasPrefix p ''/'' \<or> HasPrefix p two_backslashes then False
      else list_all (\<lambda>part. \<not> bad_part part) (split_char CHR ''/'' (replace_two p)))"

section \<open>Skills\<close>

definition skill_json :: "deps \<Rightarrow> SkillRow \<Rightarrow> json" where
  "skill_json d row =
     (let fs = fst (unmarshal dec_skill_files [] (sk_FilesJSON row)) in
      JObj ([(''type'', JStr ''skill''), (''id'', JStr (sk_ID row)), (''name'', JStr (sk_Name row))]
        @ opt_str ''description'' (sk_Description row)
        @ (if fs = [] then [] else [(''files'', JArr (map (\<lambda>f. JObj ((''path'', JStr (sf_Path f)) # opt_str ''content'' (sf_Content f))) fs))])
        @ [(''created_at'', time_json d (sk_CreatedAt row)), (''updated_at'', time_json d (sk_UpdatedAt row))]))"

text \<open>The entries of an archive: directories and unreadable entries are passed over, an unsafe name ends the loop.\<close>

fun unzip_files :: "(string \<times> bool \<times> string option) list \<Rightarrow> string + SkillFileEntry list" where
  "unzip_files [] = Inr []"
| "unzip_files ((name, isdir, content) # es) =
     (if isdir then unzip_files es
      else if \<not> safeUploadPath name then Inl name
      else (case content of None \<Rightarrow> unzip_files es
        | Some s \<Rightarrow> (case unzip_files es of Inl bad \<Rightarrow> Inl bad | Inr fs \<Rightarrow> Inr (\<lparr>sf_Path = name, sf_Content = s\<rparr> # fs))))"

definition unsafe_path :: "string \<Rightarrow> reply" where
  "unsafe_path p = invalid (''unsafe skill file path: '' @ p)"

definition store_skill :: "deps \<Rightarrow> request \<Rightarrow> string \<Rightarrow> string \<Rightarrow> SkillFileEntry list \<Rightarrow> handler" where
  "store_skill d r name description fs =
     orElse (CreateSkill (dp_Env d) (hq_Ctx r) (tenant_of r) name description fs) internal (\<lambda>row.
       respond (writeJSON 201 (Some (skill_json d row))))"

definition skill_from_zip :: "deps \<Rightarrow> request \<Rightarrow> handler" where
  "skill_from_zip d r =
     (case uploaded r ''zip'' of
        Inl msg \<Rightarrow> respond (invalid msg)
      | Inr (_, _, zipData) \<Rightarrow>
          (case li_Unzip (dp_Lib d) zipData of
             Inl err \<Rightarrow> respond (invalid (''invalid zip: '' @ err_str err))
           | Inr es \<Rightarrow>
               (let form_value = (\<lambda>k. case hq_Form r of Inl _ \<Rightarrow> [] | Inr f \<Rightarrow> fm_Value f k) in
                case unzip_files es of
                  Inl bad \<Rightarrow> respond (unsafe_path bad)
                | Inr fs \<Rightarrow> required (form_value ''name'') ''name is required''
                    (store_skill d r (form_value ''name'') (form_value ''description'') fs))))"

record CreateSkillRequest =
  rk_Name :: string
  rk_Description :: string
  rk_Files :: "SkillFileEntry list"

definition dec_create_skill :: "CreateSkillRequest dec" where
  "dec_create_skill = dec_struct
     [fld ''name'' rk_Name rk_Name_update dec_str, fld ''description'' rk_Description rk_Description_update dec_str,
      fld ''files'' rk_Files rk_Files_update dec_skill_files]"

definition skill_from_json :: "deps \<Rightarrow> request \<Rightarrow> handler" where
  "skill_from_json d r =
     decoding d r invalid_json ''CreateSkillRequest'' dec_create_skill \<lparr>rk_Name = [], rk_Description = [], rk_Files = []\<rparr> (\<lambda>q.
       required (rk_Name q) ''name is required''
         (case filter (\<lambda>f. \<not> safeUploadPath (sf_Path f)) (rk_Files q) of
            f # _ \<Rightarrow> respond (unsafe_path (sf_Path f))
          | [] \<Rightarrow> store_skill d r (rk_Name q) (rk_Description q) (rk_Files q)))"

definition createSkill :: "deps \<Rightarrow> request \<Rightarrow> handler" where
  "createSkill d r =
     (if HasPrefix (hq_Header r ''Content-Type'') ''multipart/form-data'' then skill_from_zip d r else skill_from_json d r)"

definition listSkills :: "deps \<Rightarrow> request \<Rightarrow> handler" where
  "listSkills d r = orElse (ListSkills (dp_Env d) (hq_Ctx r) (tenant_of r)) internal (\<lambda>rows.
     respond (doc_list (map (skill_json d) rows)))"

definition getSkill :: "deps \<Rightarrow> request \<Rightarrow> string \<Rightarrow> handler" where
  "getSkill d r kid = orElse (GetSkill (dp_Env d) (hq_Ctx r) kid) not_found (\<lambda>row.
     respond (writeJSON 200 (Some (skill_json d row))))"

definition deleteSkill :: "deps \<Rightarrow> request \<Rightarrow> string \<Rightarrow> handler" where
  "deleteSkill d r kid = orElse (DeleteSkill (dp_Env d) (hq_Ctx r) kid) internal (\<lambda>_. respond (gone kid ''skill_deleted''))"

section \<open>Memory stores\<close>

record CreateStoreRequest =
  rc_Name :: string
  rc_Description :: string

definition dec_create_store :: "CreateStoreRequest dec" where
  "dec_create_store = dec_struct
     [fld ''name'' rc_Name rc_Name_update dec_str, fld ''description'' rc_Description rc_Description_update dec_str]"

definition zero_create_store :: CreateStoreRequest where
  "zero_create_store = \<lparr>rc_Name = [], rc_Description = []\<rparr>"

definition store_json :: "deps \<Rightarrow> Store \<Rightarrow> json" where
  "store_json d s = JObj ([(''type'', JStr ''memory_store''), (''id'', JStr (so_ID s)), (''name'', JStr (so_Name s))]
     @ opt_str ''description'' (so_Description s)
     @ [(''created_at'', time_json d (so_CreatedAt s)), (''updated_at'', time_json d (so_UpdatedAt s)),
        (''archived_at'', time_opt_json d (so_ArchivedAt s))])"

definition createMemoryStore :: "deps \<Rightarrow> request \<Rightarrow> handler" where
  "createMemoryStore d r =
     decoding d r [] ''CreateStoreRequest'' dec_create_store zero_create_store (\<lambda>q.
       orElse (CreateStore (dp_Env d) (hq_Ctx r) (tenant_of r) (rc_Name q) (rc_Description q)) bad_request (\<lambda>s.
         respond (writeJSON 201 (Some (store_json d s)))))"

definition listMemoryStores :: "deps \<Rightarrow> request \<Rightarrow> handler" where
  "listMemoryStores d r = orElse (ListStores (dp_Env d) (hq_Ctx r) (tenant_of r) (limit_of r)) internal (\<lambda>ss.
     respond (doc_list (map (store_json d) ss)))"

definition getMemoryStore :: "deps \<Rightarrow> request \<Rightarrow> string \<Rightarrow> handler" where
  "getMemoryStore d r mid = orElse (GetStore (dp_Env d) (hq_Ctx r) mid) not_found (\<lambda>s.
     respond (writeJSON 200 (Some (store_json d s))))"

definition deleteMemoryStore :: "deps \<Rightarrow> request \<Rightarrow> string \<Rightarrow> handler" where
  "deleteMemoryStore d r mid = orElse (DeleteStore (dp_Env d) (hq_Ctx r) mid) internal (\<lambda>_.
     respond (gone mid ''memory_store_deleted''))"

definition updateMemoryStore :: "deps \<Rightarrow> request \<Rightarrow> string \<Rightarrow> handler" where
  "updateMemoryStore d r mid =
     decoding d r [] ''CreateStoreRequest'' dec_create_store zero_create_store (\<lambda>q.
       orElse (UpdateStore (dp_Env d) (hq_Ctx r) mid (rc_Name q) (rc_Description q)) bad_request (\<lambda>s.
         respond (writeJSON 200 (Some (store_json d s)))))"

definition archiveMemoryStore :: "deps \<Rightarrow> request \<Rightarrow> string \<Rightarrow> handler" where
  "archiveMemoryStore d r mid = orElse (ArchiveStore (dp_Env d) (hq_Ctx r) mid) not_found (\<lambda>s.
     respond (writeJSON 200 (Some (store_json d s))))"

section \<open>Memories\<close>

record UpsertMemoryRequest =
  um_Path :: string
  um_Content :: string

definition dec_upsert_memory :: "UpsertMemoryRequest dec" where
  "dec_upsert_memory = dec_struct
     [fld ''path'' um_Path um_Path_update dec_str, fld ''content'' um_Content um_Content_update dec_str]"

record UpdateMemoryRequest =
  uq_Path :: string
  uq_Content :: "string option"

definition dec_update_memory :: "UpdateMemoryRequest dec" where
  "dec_update_memory = dec_struct
     [fld ''path'' uq_Path uq_Path_update dec_str, fld ''content'' uq_Content uq_Content_update (dec_ptr [] dec_str)]"

definition memory_json :: "deps \<Rightarrow> Memory \<Rightarrow> json" where
  "memory_json d m = JObj ([(''type'', JStr ''memory''), (''id'', JStr (mo_ID m)), (''memory_store_id'', JStr (mo_StoreID m)),
       (''path'', JStr (mo_Path m))] @ opt_str ''content'' (mo_Content m)
     @ [(''content_sha256'', JStr (mo_Sha256 m)), (''content_size'', jint (mo_Size m)),
        (''created_at'', time_json d (mo_CreatedAt m)), (''updated_at'', time_json d (mo_UpdatedAt m))])"

definition upsertMemory :: "deps \<Rightarrow> request \<Rightarrow> string \<Rightarrow> handler" where
  "upsertMemory d r storeID =
     decoding d r [] ''UpsertMemoryRequest'' dec_upsert_memory \<lparr>um_Path = [], um_Content = []\<rparr> (\<lambda>q.
       orElse (svc_UpsertMemory (dp_Env d) (hq_Ctx r) (dp_Sha d) (tenant_of r) storeID (um_Path q) (um_Content q)) bad_request (\<lambda>m.
         respond (writeJSON 201 (Some (memory_json d m)))))"

definition listMemories :: "deps \<Rightarrow> request \<Rightarrow> string \<Rightarrow> handler" where
  "listMemories d r storeID =
     orElse (svc_ListMemories (dp_Env d) (hq_Ctx r) storeID (query_get r ''path_prefix'') (limit_of r)) internal (\<lambda>ms.
       respond (doc_list (map (memory_json d) ms)))"

text \<open>The store in the path of the next three is not looked at.\<close>

definition getMemory :: "deps \<Rightarrow> request \<Rightarrow> string \<Rightarrow> handler" where
  "getMemory d r mid = orElse (svc_GetMemory (dp_Env d) (hq_Ctx r) mid) not_found (\<lambda>m.
     respond (writeJSON 200 (Some (memory_json d m))))"

definition deleteMemory :: "deps \<Rightarrow> request \<Rightarrow> string \<Rightarrow> handler" where
  "deleteMemory d r mid = orElse (svc_DeleteMemory (dp_Env d) (hq_Ctx r) mid) internal (\<lambda>_. respond (gone mid ''memory_deleted''))"

definition updateMemory :: "deps \<Rightarrow> request \<Rightarrow> string \<Rightarrow> handler" where
  "updateMemory d r mid =
     decoding d r [] ''UpdateMemoryRequest'' dec_update_memory \<lparr>uq_Path = [], uq_Content = None\<rparr> (\<lambda>q.
       orElse (svc_UpdateMemory (dp_Env d) (hq_Ctx r) (dp_Sha d) mid (uq_Path q) (uq_Content q)) bad_request (\<lambda>m.
         respond (writeJSON 200 (Some (memory_json d m)))))"

section \<open>Versions\<close>

definition str_opt_json :: "string option \<Rightarrow> json" where
  "str_opt_json s = (case s of None \<Rightarrow> JNull | Some t \<Rightarrow> JStr t)"

definition version_json :: "deps \<Rightarrow> MemoryVersion \<Rightarrow> json" where
  "version_json d v = JObj ([(''type'', JStr ''memory_version''), (''id'', JStr (vo_ID v)), (''memory_store_id'', JStr (vo_StoreID v)),
       (''memory_id'', JStr (vo_MemoryID v)), (''operation'', JStr (vo_Operation v)), (''path'', str_opt_json (vo_Path v))]
     @ (case vo_Content v of None \<Rightarrow> [] | Some s \<Rightarrow> [(''content'', JStr s)])
     @ [(''content_sha256'', str_opt_json (vo_Sha256 v)),
        (''content_size'', case vo_Size v of None \<Rightarrow> JNull | Some n \<Rightarrow> jint n),
        (''created_at'', time_json d (vo_CreatedAt v)), (''redacted_at'', time_opt_json d (vo_RedactedAt v))])"

definition listMemoryVersions :: "deps \<Rightarrow> request \<Rightarrow> string \<Rightarrow> handler" where
  "listMemoryVersions d r storeID =
     orElse (svc_ListMemoryVersions (dp_Env d) (hq_Ctx r) storeID (query_get r ''memory_id'') (limit_of r)) internal (\<lambda>vs.
       respond (doc_list (map (version_json d) vs)))"

definition version_missing :: reply where
  "version_missing = writeErr 404 ''not_found_error'' ''memory version not found''"

text \<open>Both look at the store of the version; redaction does so when it is already done.\<close>

definition shown_version :: "deps \<Rightarrow> string \<Rightarrow> MemoryVersion \<Rightarrow> handler" where
  "shown_version d storeID v =
     (if vo_StoreID v \<noteq> storeID then respond version_missing else respond (writeJSON 200 (Some (version_json d v))))"

definition getMemoryVersion :: "deps \<Rightarrow> request \<Rightarrow> string \<Rightarrow> string \<Rightarrow> handler" where
  "getMemoryVersion d r storeID vid =
     orElse (svc_GetMemoryVersion (dp_Env d) (hq_Ctx r) vid) not_found (shown_version d storeID)"

definition redactMemoryVersion :: "deps \<Rightarrow> request \<Rightarrow> string \<Rightarrow> string \<Rightarrow> handler" where
  "redactMemoryVersion d r storeID vid =
     orElse (svc_RedactMemoryVersion (dp_Env d) (hq_Ctx r) vid) not_found (shown_version d storeID)"

end
