(* ===== verification/AdminApi.thy ===== *)
theory AdminApi
  imports ApiReply
begin

text \<open>
  The handlers of browser sessions, API keys, webhooks and vaults (\<open>auth.go\<close>, \<open>apikey.go\<close>,
  \<open>webhook.go\<close>, \<open>vault.go\<close>, \<open>health.go\<close> of \<open>internal/api\<close>).
\<close>

section \<open>Browser sessions\<close>

definition bypassSessionID :: string where
  "bypassSessionID = ''sess-auth-bypass''"

definition sessionCookieName :: string where
  "sessionCookieName = ''jadeenvoy_session''"

text \<open>A day, in milliseconds.\<close>

definition bypass_day :: int where
  "bypass_day = 24 * 60 * 60 * 1000"

definition authPayload :: "deps \<Rightarrow> string \<Rightarrow> string \<Rightarrow> string \<Rightarrow> string \<Rightarrow> int \<Rightarrow> int \<Rightarrow> int \<Rightarrow> json" where
  "authPayload d uid name email sid createdAt updatedAt expires = JObj
     [(''session'', JObj [(''createdAt'', time_json d createdAt), (''expiresAt'', time_json d expires), (''id'', JStr sid),
        (''updatedAt'', time_json d updatedAt), (''userId'', JStr uid), (''user_id'', JStr uid)]),
      (''user'', JObj [(''createdAt'', time_json d createdAt), (''email'', JStr email), (''emailVerified'', JBool True),
        (''email_verified'', JBool True), (''id'', JStr uid), (''image'', JNull), (''name'', JStr name),
        (''updatedAt'', time_json d updatedAt)])]"

definition userAuthPayload :: "deps \<Rightarrow> UserRow \<Rightarrow> string \<Rightarrow> int \<Rightarrow> json" where
  "userAuthPayload d u sid expires = authPayload d (us_ID u) (us_Name u) (us_Email u) sid (us_CreatedAt u) (us_UpdatedAt u) expires"

definition bypassAuthPayload :: "deps \<Rightarrow> int \<Rightarrow> json" where
  "bypassAuthPayload d t = authPayload d bypassUserID ''Default User'' ''default@jadeenvoy.local'' bypassSessionID t t (t + bypass_day)"

definition setBypassCookie :: "int \<Rightarrow> set_cookie" where
  "setBypassCookie t = \<lparr>ck_CookieName = sessionCookieName, ck_Value = bypassSessionID, ck_Lifetime = Until (t + bypass_day)\<rparr>"

definition not_authenticated :: reply where
  "not_authenticated = writeErr 401 ''authentication_error'' ''not authenticated''"

text \<open>In bypass mode there is a virtual user; the payload and the cookie read the clock one after the other.\<close>

definition bypassed :: "deps \<Rightarrow> handler" where
  "bypassed d = orElse (now (dp_Env d)) internal (\<lambda>t0. orElse (now (dp_Env d)) internal (\<lambda>t.
     respond ((writeJSON 200 (Some (bypassAuthPayload d t)))\<lparr>rp_Cookies := [setBypassCookie t0]\<rparr>)))"

definition authSession :: "deps \<Rightarrow> request \<Rightarrow> handler" where
  "authSession d r =
     (if dp_AuthMode d = ''bypass'' then orElse (now (dp_Env d)) internal (\<lambda>t. respond (writeJSON 200 (Some (bypassAuthPayload d t))))
      else (case dp_Auth d of None \<Rightarrow> respond not_authenticated
        | Some S \<Rightarrow> (case hq_Cookie r cookieName of None \<Rightarrow> respond not_authenticated
          | Some v \<Rightarrow> orElse (ResolveSession (dp_Env d) (hq_Ctx r) (dp_AuthLib d) S v) (\<lambda>_. not_authenticated) (\<lambda>(sess, u).
              respond (writeJSON 200 (Some (userAuthPayload d u (as_ID sess) (as_ExpiresAt sess))))))))"

definition issueLogin :: "deps \<Rightarrow> auth_service \<Rightarrow> request \<Rightarrow> string \<Rightarrow> string \<Rightarrow> handler" where
  "issueLogin d S r email password =
     orElse (Login (dp_Env d) (hq_Ctx r) (dp_AuthLib d) S email password)
       (\<lambda>err. if errors_is err ErrInvalidCredentials
          then writeErr 401 ''authentication_error'' ''invalid email or password'' else internal err) (\<lambda>(cookie, u).
       orElse (now (dp_Env d)) internal (\<lambda>t.
         respond ((writeJSON 200 (Some (userAuthPayload d u [] (t + sv_MaxAge S))))\<lparr>rp_Cookies :=
           [\<lparr>ck_CookieName = cookieName, ck_Value = cookie, ck_Lifetime = Until (t + sv_MaxAge S)\<rparr>]\<rparr>)))"

record signup_request =
  su_Email :: string
  su_Password :: string
  su_Name :: string

definition dec_signup :: "signup_request dec" where
  "dec_signup = dec_struct [fld ''email'' su_Email su_Email_update dec_str,
     fld ''password'' su_Password su_Password_update dec_str, fld ''name'' su_Name su_Name_update dec_str]"

definition dec_login :: "signup_request dec" where
  "dec_login = dec_struct [fld ''email'' su_Email su_Email_update dec_str, fld ''password'' su_Password su_Password_update dec_str]"

definition zero_signup :: signup_request where
  "zero_signup = \<lparr>su_Email = [], su_Password = [], su_Name = []\<rparr>"

definition not_configured :: reply where
  "not_configured = writeErr 501 ''not_implemented_error'' ''password auth is not configured''"

definition authSignup :: "deps \<Rightarrow> request \<Rightarrow> handler" where
  "authSignup d r =
     (if dp_AuthMode d = ''bypass'' then bypassed d
      else (case dp_Auth d of None \<Rightarrow> respond not_configured
        | Some S \<Rightarrow> decoding d r invalid_json ''struct'' dec_signup zero_signup (\<lambda>q.
            orElse (Signup (dp_Env d) (hq_Ctx r) (dp_AuthLib d) (su_Email q) (su_Password q) (su_Name q))
              (\<lambda>err. if errors_is err ErrConflict then writeErr 409 ''conflict_error'' ''an account with this email already exists''
                else bad_request err)
              (\<lambda>_. issueLogin d S r (su_Email q) (su_Password q)))))"

definition authLogin :: "deps \<Rightarrow> request \<Rightarrow> handler" where
  "authLogin d r =
     (if dp_AuthMode d = ''bypass'' then bypassed d
      else (case dp_Auth d of None \<Rightarrow> respond not_configured
        | Some S \<Rightarrow> decoding d r invalid_json ''struct'' dec_login zero_signup (\<lambda>q.
            issueLogin d S r (su_Email q) (su_Password q))))"

definition authLogout :: "deps \<Rightarrow> request \<Rightarrow> handler" where
  "authLogout d r =
     orElse (case (dp_Auth d, hq_Cookie r cookieName) of
         (Some S, Some v) \<Rightarrow> ignoreE (Logout (dp_Env d) (hq_Ctx r) (dp_AuthLib d) S v) | _ \<Rightarrow> returnE ()) internal (\<lambda>_.
       respond ((writeJSON 200 (Some (JObj [(''success'', JBool True)])))\<lparr>rp_Cookies :=
         [\<lparr>ck_CookieName = sessionCookieName, ck_Value = [], ck_Lifetime = Deleted\<rparr>]\<rparr>))"

section \<open>API keys\<close>

definition apiKeyView :: "deps \<Rightarrow> APIKeyRow \<Rightarrow> string option \<Rightarrow> json" where
  "apiKeyView d r key = JObj ([(''created_at'', time_json d (ak_CreatedAt r)), (''id'', JStr (ak_ID r))]
     @ (case key of None \<Rightarrow> [] | Some k \<Rightarrow> [(''key'', JStr k)])
     @ [(''name'', JStr (ak_Name r)), (''prefix'', JStr (ak_Prefix r)), (''type'', JStr ''api_key'')])"

text \<open>Errors of decoding are ignored: the name is optional.\<close>

record key_request =
  kq_Name :: string

definition dec_key_request :: "key_request dec" where
  "dec_key_request = dec_struct [fld ''name'' kq_Name kq_Name_update dec_str]"

definition createAPIKey :: "deps \<Rightarrow> request \<Rightarrow> handler" where
  "createAPIKey d r =
     (let name = kq_Name (fst (unmarshal dec_key_request \<lparr>kq_Name = []\<rparr> (hq_Body r))) in
      orElse (IssueAPIKey (dp_Env d) (hq_Ctx r) (dp_AuthLib d) (tenant_of r) (userFromCtx (hq_Identity r)) name) internal
        (\<lambda>(row, plaintext). respond (writeJSON 201 (Some (apiKeyView d row (Some plaintext))))))"

definition listAPIKeys :: "deps \<Rightarrow> request \<Rightarrow> handler" where
  "listAPIKeys d r = orElse (ListAPIKeys (dp_Env d) (hq_Ctx r) (tenant_of r)) internal (\<lambda>rows.
     respond (doc_list (map (\<lambda>row. apiKeyView d row None) rows)))"

definition revokeAPIKey :: "deps \<Rightarrow> request \<Rightarrow> string \<Rightarrow> handler" where
  "revokeAPIKey d r kid = orElse (RevokeAPIKey (dp_Env d) (hq_Ctx r) kid) not_found (\<lambda>_. respond (gone kid ''api_key_revoked''))"

section \<open>Webhooks\<close>

definition dec_create_endpoint :: "CreateEndpointRequest dec" where
  "dec_create_endpoint = dec_struct
     [fld ''url'' er_URL er_URL_update dec_str, fld ''event_types'' er_EventTypes er_EventTypes_update (dec_list [] dec_str)]"

definition endpoint_json :: "deps \<Rightarrow> Endpoint \<Rightarrow> json" where
  "endpoint_json d p = JObj ([(''type'', JStr ''webhook_endpoint''), (''id'', JStr (ep_ID p)), (''url'', JStr (ep_URL p)),
       (''event_types'', JArr (map JStr (ep_EventTypes p)))] @ opt_str ''signing_secret'' (ep_SigningSecret p)
     @ [(''created_at'', time_json d (ep_CreatedAt p)), (''updated_at'', time_json d (ep_UpdatedAt p))]
     @ opt_str ''disabled_reason'' (ep_DisabledReason p))"

definition createWebhookEndpoint :: "deps \<Rightarrow> webhook_svc \<Rightarrow> request \<Rightarrow> handler" where
  "createWebhookEndpoint d W r =
     decoding d r [] ''CreateEndpointRequest'' dec_create_endpoint \<lparr>er_URL = [], er_EventTypes = []\<rparr> (\<lambda>q.
       orElse (CreateEndpoint (dp_Env d) (hq_Ctx r) W (tenant_of r) q) bad_request (\<lambda>p.
         respond (writeJSON 201 (Some (endpoint_json d p)))))"

definition listWebhookEndpoints :: "deps \<Rightarrow> webhook_svc \<Rightarrow> request \<Rightarrow> handler" where
  "listWebhookEndpoints d W r = orElse (ListEndpoints (dp_Env d) (hq_Ctx r) (tenant_of r)) internal (\<lambda>ps.
     respond (doc_list (map (endpoint_json d) ps)))"

definition deleteWebhookEndpoint :: "deps \<Rightarrow> webhook_svc \<Rightarrow> request \<Rightarrow> string \<Rightarrow> handler" where
  "deleteWebhookEndpoint d W r pid = orElse (DeleteEndpoint (dp_Env d) (hq_Ctx r) pid) internal (\<lambda>_.
     respond (gone pid ''webhook_endpoint_deleted''))"

section \<open>Vaults\<close>

definition dec_vault_request :: "CreateVaultRequest dec" where
  "dec_vault_request = dec_struct
     [fld ''display_name'' vr_DisplayName vr_DisplayName_update dec_str, fld ''metadata'' vr_Metadata vr_Metadata_update dec_smap]"

definition zero_vault_request :: CreateVaultRequest where
  "zero_vault_request = \<lparr>vr_DisplayName = [], vr_Metadata = None\<rparr>"

definition dec_auth_input :: "CredentialAuthInput dec" where
  "dec_auth_input = dec_struct
     [fld ''type'' ca_Type ca_Type_update dec_str, fld ''mcp_server_url'' ca_MCPServerURL ca_MCPServerURL_update dec_str,
      fld ''token'' ca_Token ca_Token_update dec_str, fld ''access_token'' ca_AccessToken ca_AccessToken_update dec_str,
      fld ''expires_at'' ca_ExpiresAt ca_ExpiresAt_update dec_str,
      fld ''refresh'' ca_Refresh ca_Refresh_update (dec_ptr zero_refresh dec_refresh)]"

definition dec_credential_request :: "CreateCredentialRequest dec" where
  "dec_credential_request = dec_struct
     [fld ''display_name'' cr_DisplayName cr_DisplayName_update dec_str, fld ''auth'' cr_Auth cr_Auth_update dec_auth_input]"

definition zero_credential_request :: CreateCredentialRequest where
  "zero_credential_request = \<lparr>cr_DisplayName = [], cr_Auth = \<lparr>ca_Type = [], ca_MCPServerURL = [], ca_Token = [],
     ca_AccessToken = [], ca_ExpiresAt = [], ca_Refresh = None\<rparr>\<rparr>"

definition vault_json :: "deps \<Rightarrow> Vault \<Rightarrow> json" where
  "vault_json d v = JObj [(''type'', JStr ''vault''), (''id'', JStr (vt_ID v)), (''display_name'', JStr (vt_DisplayName v)),
     (''metadata'', marshal_smap (vt_Metadata v)), (''created_at'', time_json d (vt_CreatedAt v)),
     (''updated_at'', time_json d (vt_UpdatedAt v)), (''archived_at'', time_opt_json d (vt_ArchivedAt v))]"

definition credential_json :: "deps \<Rightarrow> Credential \<Rightarrow> json" where
  "credential_json d v = JObj [(''type'', JStr ''credential''), (''id'', JStr (ct_ID v)), (''vault_id'', JStr (ct_VaultID v)),
     (''display_name'', JStr (ct_DisplayName v)),
     (''auth'', JObj [(''type'', JStr (ct_AuthType v)), (''mcp_server_url'', JStr (ct_MCPServerURL v))]),
     (''created_at'', time_json d (ct_CreatedAt v)), (''updated_at'', time_json d (ct_UpdatedAt v)),
     (''archived_at'', time_opt_json d (ct_ArchivedAt v))]"

definition createVault :: "deps \<Rightarrow> request \<Rightarrow> handler" where
  "createVault d r =
     decoding d r invalid_json ''CreateVaultRequest'' dec_vault_request zero_vault_request (\<lambda>q.
       required (vr_DisplayName q) ''display_name is required''
         (orElse (svc_CreateVault (dp_Env d) (hq_Ctx r) (tenant_of r) q) bad_request (\<lambda>v.
           respond (writeJSON 201 (Some (vault_json d v))))))"

definition listVaults :: "deps \<Rightarrow> request \<Rightarrow> handler" where
  "listVaults d r = orElse (svc_ListVaults (dp_Env d) (hq_Ctx r) (tenant_of r) (limit_of r)) internal (\<lambda>vs.
     respond (doc_list (map (vault_json d) vs)))"

definition getVault :: "deps \<Rightarrow> request \<Rightarrow> string \<Rightarrow> handler" where
  "getVault d r vid = orElse (svc_GetVault (dp_Env d) (hq_Ctx r) (tenant_of r) vid) not_found (\<lambda>v.
     respond (writeJSON 200 (Some (vault_json d v))))"

definition archiveVault :: "deps \<Rightarrow> request \<Rightarrow> string \<Rightarrow> handler" where
  "archiveVault d r vid = orElse (svc_ArchiveVault (dp_Env d) (hq_Ctx r) (tenant_of r) vid) not_found (\<lambda>_. getVault d r vid)"

definition missing_or_invalid :: "gerr \<Rightarrow> reply" where
  "missing_or_invalid err = (if errors_is err ErrNotFound then not_found err else bad_request err)"

definition updateVault :: "deps \<Rightarrow> request \<Rightarrow> string \<Rightarrow> handler" where
  "updateVault d r vid =
     decoding d r invalid_json ''CreateVaultRequest'' dec_vault_request zero_vault_request (\<lambda>q.
       orElse (svc_UpdateVault (dp_Env d) (hq_Ctx r) (tenant_of r) vid q) missing_or_invalid (\<lambda>v.
         respond (writeJSON 200 (Some (vault_json d v)))))"

definition deleteVault :: "deps \<Rightarrow> request \<Rightarrow> string \<Rightarrow> handler" where
  "deleteVault d r vid = orElse (svc_DeleteVault (dp_Env d) (hq_Ctx r) (tenant_of r) vid) not_found (\<lambda>_.
     respond (gone vid ''vault_deleted''))"

section \<open>Credentials\<close>

definition credential_error :: "string \<Rightarrow> gerr \<Rightarrow> reply" where
  "credential_error missing err =
     (if errors_is err ErrUnsupportedAuthType then invalid ''unsupported credential auth type''
      else if errors_is err ErrConflict then writeErr 409 ''conflict_error''
        ''a credential for this host already exists in the vault; archive it first''
      else if errors_is err ErrNotFound then writeErr 404 ''not_found_error'' missing
      else bad_request err)"

definition addCredential :: "deps \<Rightarrow> vault_lib \<times> cipherBox \<Rightarrow> request \<Rightarrow> string \<Rightarrow> handler" where
  "addCredential d B r vid =
     decoding d r invalid_json ''CreateCredentialRequest'' dec_credential_request zero_credential_request (\<lambda>q.
       orElse (AddCredential (dp_Env d) (hq_Ctx r) (fst B) (snd B) vid (tenant_of r) q) (credential_error ''vault not found'') (\<lambda>v.
         respond (writeJSON 201 (Some (credential_json d v)))))"

definition listCredentials :: "deps \<Rightarrow> request \<Rightarrow> string \<Rightarrow> handler" where
  "listCredentials d r vid = orElse (ListCredentials (dp_Env d) (hq_Ctx r) (tenant_of r) vid)
     (\<lambda>err. if errors_is err ErrNotFound then writeErr 404 ''not_found_error'' ''vault not found'' else internal err) (\<lambda>vs.
     respond (doc_list (map (credential_json d) vs)))"

definition getCredential :: "deps \<Rightarrow> request \<Rightarrow> string \<Rightarrow> string \<Rightarrow> handler" where
  "getCredential d r vid cid = orElse (svc_GetCredential (dp_Env d) (hq_Ctx r) (tenant_of r) vid cid) not_found (\<lambda>v.
     respond (writeJSON 200 (Some (credential_json d v))))"

definition updateCredential :: "deps \<Rightarrow> vault_lib \<times> cipherBox \<Rightarrow> request \<Rightarrow> string \<Rightarrow> string \<Rightarrow> handler" where
  "updateCredential d B r vid cid =
     decoding d r invalid_json ''CreateCredentialRequest'' dec_credential_request zero_credential_request (\<lambda>q.
       orElse (svc_UpdateCredential (dp_Env d) (hq_Ctx r) (fst B) (snd B) (tenant_of r) vid cid q)
         (credential_error ''credential not found'') (\<lambda>v.
         respond (writeJSON 200 (Some (credential_json d v)))))"

definition archiveCredential :: "deps \<Rightarrow> request \<Rightarrow> string \<Rightarrow> string \<Rightarrow> handler" where
  "archiveCredential d r vid cid = orElse (svc_ArchiveCredential (dp_Env d) (hq_Ctx r) (tenant_of r) vid cid) not_found (\<lambda>_.
     getCredential d r vid cid)"

definition deleteCredential :: "deps \<Rightarrow> request \<Rightarrow> string \<Rightarrow> string \<Rightarrow> handler" where
  "deleteCredential d r vid cid = orElse (svc_DeleteCredential (dp_Env d) (hq_Ctx r) (tenant_of r) vid cid) not_found (\<lambda>_.
     respond (gone cid ''credential_deleted''))"

definition validateOAuthCredential :: "deps \<Rightarrow> vault_lib \<times> cipherBox \<Rightarrow> request \<Rightarrow> string \<Rightarrow> string \<Rightarrow> handler" where
  "validateOAuthCredential d B r vid cid =
     orElse (ValidateOAuthCredential (dp_Env d) (hq_Ctx r) (fst B) (snd B) (tenant_of r) vid cid)
       (\<lambda>err. if errors_is err ErrNotFound then writeErr 404 ''not_found_error'' ''credential not found'' else bad_request err) (\<lambda>_.
       respond (writeJSON 200 (Some (JObj [(''status'', JStr ''ok'')]))))"

section \<open>Health\<close>

definition health :: "deps \<Rightarrow> request \<Rightarrow> handler" where
  "health d r = respond (writeJSON 200 (Some (JObj [(''auth'', JStr (dp_AuthMode d)),
     (''backends'', JObj [(''db'', JStr (dp_Driver d))]),
     (''llm'', JObj [(''default_model'', JStr (dp_DefaultAgentModel d)), (''provider'', JStr (dp_LLMProvider d))]),
     (''runtime'', JStr ''go''), (''status'', JStr ''ok'')])))"

end
