(* ===== verification/Dashboard.thy ===== *)
theory Dashboard
  imports ApiReply
begin

text \<open>
  The dashboard of a tenant (\<open>internal/api/dashboard.go\<close>): counts, usage, event statistics and the
  latest sessions, each by a statement of its own. How the database look a boolean or a text out of a
  JSON column is a parameter, which may also fail.
\<close>

section \<open>The snapshot\<close>

record dashboardCounts =
  dc_Agents :: int
  dc_ArchivedAgents :: int
  dc_Sessions :: int
  dc_ArchivedSessions :: int
  dc_Environments :: int
  dc_Files :: int
  dc_Skills :: int
  dc_MemoryStores :: int
  dc_Memories :: int
  dc_MemoryVersions :: int
  dc_Vaults :: int
  dc_VaultCredentials :: int
  dc_APIKeys :: int
  dc_WebhookEndpoints :: int
  dc_WebhookDeliveries :: int

record dashboardUsage =
  du_InputTokens :: int
  du_OutputTokens :: int
  du_CacheCreateTokens :: int
  du_CacheReadTokens :: int
  du_TotalTokens :: int

record dashboardToolActivity =
  da_BuiltInToolUses :: int
  da_BuiltInResults :: int
  da_MCPToolUses :: int
  da_MCPResults :: int
  da_CustomToolUses :: int
  da_CustomResults :: int
  da_ErroredResults :: int
  da_RequiresAction :: int

record dashboardSession =
  di_ID :: string
  di_Title :: string
  di_AgentID :: string
  di_AgentVersion :: int
  di_EnvironmentID :: string
  di_Status :: string
  di_EventCount :: int
  di_LastEventType :: string
  di_CreatedAt :: int
  di_UpdatedAt :: int
  di_ArchivedAt :: "int option"

record dashboardSnapshot =
  dn_Counts :: dashboardCounts
  dn_ByStatus :: "(string \<times> int) list"
  dn_Usage :: dashboardUsage
  dn_EventsByType :: "(string \<times> int) list"
  dn_ToolActivity :: dashboardToolActivity
  dn_RecentSessions :: "dashboardSession list"
  dn_GeneratedAt :: int

section \<open>Counting\<close>

text \<open>\<open>SELECT COUNT(1) FROM table WHERE ...\<close>.\<close>

definition scalarCount :: "env \<Rightarrow> ctx \<Rightarrow> (world \<Rightarrow> 'r list) \<Rightarrow> ('r \<Rightarrow> bool) \<Rightarrow> (world, int) io" where
  "scalarCount e c table cond = queryE e c (\<lambda>w. int (length (select cond (table w))))"

text \<open>The joins of events with the sessions of a tenant, and of deliveries with its endpoints.\<close>

definition tenant_events :: "string \<Rightarrow> world \<Rightarrow> EventRow list" where
  "tenant_events t w = concat (map (\<lambda>ev. map (\<lambda>_. ev) (select (\<lambda>s. ss_ID s = ev_SessionID ev \<and> ss_TenantID s = t) (sessions w))) (events w))"

definition tenant_deliveries :: "string \<Rightarrow> world \<Rightarrow> WebhookDeliveryRow list" where
  "tenant_deliveries t w = concat (map (\<lambda>d. map (\<lambda>_. d) (select (\<lambda>p. we_ID p = wd_EndpointID d \<and> we_TenantID p = t) (endpoints w))) (deliveries w))"

definition loadDashboardCounts :: "env \<Rightarrow> ctx \<Rightarrow> string \<Rightarrow> (world, dashboardCounts) io" where
  "loadDashboardCounts e c t =
     bindE (scalarCount e c agents (\<lambda>r. at_TenantID r = t \<and> at_ArchivedAt r = None)) (\<lambda>n1.
     bindE (scalarCount e c agents (\<lambda>r. at_TenantID r = t \<and> at_ArchivedAt r \<noteq> None)) (\<lambda>n2.
     bindE (scalarCount e c sessions (\<lambda>r. ss_TenantID r = t \<and> ss_ArchivedAt r = None)) (\<lambda>n3.
     bindE (scalarCount e c sessions (\<lambda>r. ss_TenantID r = t \<and> ss_ArchivedAt r \<noteq> None)) (\<lambda>n4.
     bindE (scalarCount e c environments (\<lambda>r. en_TenantID r = t \<and> en_ArchivedAt r = None)) (\<lambda>n5.
     bindE (scalarCount e c files (\<lambda>r. fi_TenantID r = t)) (\<lambda>n6.
     bindE (scalarCount e c skills (\<lambda>r. sk_TenantID r = t)) (\<lambda>n7.
     bindE (scalarCount e c memory_stores (\<lambda>r. ms_TenantID r = t \<and> ms_ArchivedAt r = None)) (\<lambda>n8.
     bindE (scalarCount e c memories (\<lambda>r. mm_TenantID r = t)) (\<lambda>n9.
     bindE (scalarCount e c memory_versions (\<lambda>r. mv_TenantID r = t)) (\<lambda>n10.
     bindE (scalarCount e c vaults (\<lambda>r. va_TenantID r = t \<and> va_ArchivedAt r = None)) (\<lambda>n11.
     bindE (scalarCount e c credentials (\<lambda>r. cd_TenantID r = t \<and> cd_ArchivedAt r = None)) (\<lambda>n12.
     bindE (scalarCount e c api_keys (\<lambda>r. ak_TenantID r = t \<and> ak_RevokedAt r = None)) (\<lambda>n13.
     bindE (scalarCount e c endpoints (\<lambda>r. we_TenantID r = t)) (\<lambda>n14.
     bindE (scalarCount e c (tenant_deliveries t) (\<lambda>_. True)) (\<lambda>n15.
       returnE \<lparr>dc_Agents = n1, dc_ArchivedAgents = n2, dc_Sessions = n3, dc_ArchivedSessions = n4, dc_Environments = n5,
         dc_Files = n6, dc_Skills = n7, dc_MemoryStores = n8, dc_Memories = n9, dc_MemoryVersions = n10, dc_Vaults = n11,
         dc_VaultCredentials = n12, dc_APIKeys = n13, dc_WebhookEndpoints = n14, dc_WebhookDeliveries = n15\<rparr>)))))))))))))))"

section \<open>Usage\<close>

text \<open>Sums of a column; the database refuses a sum that is no 64-bit integer, the program's own addition wraps.\<close>

definition loadDashboardUsage :: "env \<Rightarrow> ctx \<Rightarrow> string \<Rightarrow> (world, dashboardUsage) io" where
  "loadDashboardUsage e c t =
     bindE (queryE e c (\<lambda>w. let rs = select (\<lambda>r. ss_TenantID r = t) (sessions w) in
         (sum_list (map ss_UsageInput rs), sum_list (map ss_UsageOutput rs),
          sum_list (map ss_UsageCacheCreate rs), sum_list (map ss_UsageCacheRead rs)))) (\<lambda>(i, out_sum, cc, cr).
       if \<not> (int64_range i \<and> int64_range out_sum \<and> int64_range cc \<and> int64_range cr) then throwE (DBError ''integer overflow'')
       else returnE \<lparr>du_InputTokens = i, du_OutputTokens = out_sum, du_CacheCreateTokens = cc, du_CacheReadTokens = cr,
              du_TotalTokens = wrap64 (i + out_sum + cc + cr)\<rparr>)"

section \<open>Counts by name\<close>

text \<open>\<open>GROUP BY\<close> with counts, ordered by the name.\<close>

definition group_counts :: "string list \<Rightarrow> (string \<times> int) list" where
  "group_counts xs = map (\<lambda>n. (n, int (count_list xs n))) (sort (remdups xs))"

definition sessions_by_status :: "string \<Rightarrow> world \<Rightarrow> (string \<times> int) list" where
  "sessions_by_status t w = group_counts (map ss_Status (select (\<lambda>r. ss_TenantID r = t \<and> ss_ArchivedAt r = None) (sessions w)))"

definition events_by_type :: "string \<Rightarrow> world \<Rightarrow> (string \<times> int) list" where
  "events_by_type t w = take 25 (sort_key (\<lambda>(_, n). - n) (group_counts (map ev_Type (tenant_events t w))))"

definition countByName :: "env \<Rightarrow> ctx \<Rightarrow> (world \<Rightarrow> (string \<times> int) list) \<Rightarrow> (world, (string \<times> int) list) io" where
  "countByName e c f = queryE e c f"

section \<open>Tools\<close>

definition countEvents :: "env \<Rightarrow> ctx \<Rightarrow> string \<Rightarrow> string \<Rightarrow> (world, int) io" where
  "countEvents e c t ty = scalarCount e c (tenant_events t) (\<lambda>ev. ev_Type ev = ty)"

text \<open>A count whose condition looks into the payload: it fails when the database cannot read one of them.\<close>

definition jsonCount :: "env \<Rightarrow> ctx \<Rightarrow> (world \<Rightarrow> EventRow list) \<Rightarrow> (EventRow \<Rightarrow> bool) \<Rightarrow> (raw \<Rightarrow> bool option) \<Rightarrow> (world, int) io" where
  "jsonCount e c table cond look =
     bindE (queryE e c (\<lambda>w. map (\<lambda>ev. look (ev_Payload ev)) (select cond (table w)))) (\<lambda>rs.
       if None \<in> set rs then throwE (DBError ''invalid input syntax'') else returnE (int (length (filter (\<lambda>b. b = Some True) rs))))"

definition result_types :: "string list" where
  "result_types = [''agent.tool_result'', ''agent.mcp_tool_result'', ''user.custom_tool_result'']"

definition loadDashboardToolActivity :: "env \<Rightarrow> ctx \<Rightarrow> json_sql \<Rightarrow> string \<Rightarrow> (world, dashboardToolActivity) io" where
  "loadDashboardToolActivity e c J t =
     bindE (countEvents e c t ''agent.tool_use'') (\<lambda>n1.
     bindE (countEvents e c t ''agent.tool_result'') (\<lambda>n2.
     bindE (countEvents e c t ''agent.mcp_tool_use'') (\<lambda>n3.
     bindE (countEvents e c t ''agent.mcp_tool_result'') (\<lambda>n4.
     bindE (countEvents e c t ''agent.custom_tool_use'') (\<lambda>n5.
     bindE (countEvents e c t ''user.custom_tool_result'') (\<lambda>n6.
     bindE (countEvents e c t ''session.status_requires_action'') (\<lambda>legacy.
     bindE (jsonCount e c (tenant_events t) (\<lambda>ev. ev_Type ev = ''session.status_idle'')
              (\<lambda>p. js_TextEquals J p [''stop_reason'', ''type''] ''requires_action'')) (\<lambda>idle.
     bindE (jsonCount e c (tenant_events t) (\<lambda>ev. ev_Type ev \<in> set result_types) (\<lambda>p. js_BoolTrue J p ''is_error'')) (\<lambda>n7.
       returnE \<lparr>da_BuiltInToolUses = n1, da_BuiltInResults = n2, da_MCPToolUses = n3, da_MCPResults = n4,
         da_CustomToolUses = n5, da_CustomResults = n6, da_ErroredResults = n7, da_RequiresAction = legacy + idle\<rparr>)))))))))"

section \<open>The latest sessions\<close>

definition last_event_type :: "EventRow list \<Rightarrow> string" where
  "last_event_type evs = (case sort_key (\<lambda>ev. - ev_Seq ev) evs of [] \<Rightarrow> [] | ev # _ \<Rightarrow> ev_Type ev)"

definition dashboard_session :: "world \<Rightarrow> SessionRow \<Rightarrow> dashboardSession" where
  "dashboard_session w s =
     (let evs = select (\<lambda>ev. ev_SessionID ev = ss_ID s) (events w) in
      \<lparr>di_ID = ss_ID s, di_Title = (case ss_Title s of None \<Rightarrow> [] | Some t \<Rightarrow> t), di_AgentID = ss_AgentID s,
       di_AgentVersion = ss_AgentVersion s, di_EnvironmentID = ss_EnvironmentID s, di_Status = ss_Status s,
       di_EventCount = int (length evs), di_LastEventType = last_event_type evs, di_CreatedAt = ss_CreatedAt s,
       di_UpdatedAt = ss_UpdatedAt s, di_ArchivedAt = ss_ArchivedAt s\<rparr>)"

definition loadRecentDashboardSessions :: "env \<Rightarrow> ctx \<Rightarrow> string \<Rightarrow> (world, dashboardSession list) io" where
  "loadRecentDashboardSessions e c t = queryE e c (\<lambda>w. map (dashboard_session w)
     (take 10 (sort_key (\<lambda>s. - ss_CreatedAt s) (select (\<lambda>s. ss_TenantID s = t) (sessions w)))))"

section \<open>All of it\<close>

definition buildDashboardSnapshot :: "env \<Rightarrow> ctx \<Rightarrow> json_sql \<Rightarrow> string \<Rightarrow> (world, dashboardSnapshot) io" where
  "buildDashboardSnapshot e c J t =
     bindE (loadDashboardCounts e c t) (\<lambda>counts.
     bindE (loadDashboardUsage e c t) (\<lambda>usage.
     bindE (countByName e c (sessions_by_status t)) (\<lambda>by_status.
     bindE (countByName e c (events_by_type t)) (\<lambda>by_type.
     bindE (loadDashboardToolActivity e c J t) (\<lambda>activity.
     bindE (loadRecentDashboardSessions e c t) (\<lambda>recent.
     bindE (now e) (\<lambda>generated.
       returnE \<lparr>dn_Counts = counts, dn_ByStatus = by_status, dn_Usage = usage, dn_EventsByType = by_type,
         dn_ToolActivity = activity, dn_RecentSessions = recent, dn_GeneratedAt = generated\<rparr>)))))))"

definition counts_json :: "dashboardCounts \<Rightarrow> json" where
  "counts_json n = JObj (map (\<lambda>(k, v). (k, jint v))
     [(''agents'', dc_Agents n), (''archived_agents'', dc_ArchivedAgents n), (''sessions'', dc_Sessions n),
      (''archived_sessions'', dc_ArchivedSessions n), (''environments'', dc_Environments n), (''files'', dc_Files n),
      (''skills'', dc_Skills n), (''memory_stores'', dc_MemoryStores n), (''memories'', dc_Memories n),
      (''memory_versions'', dc_MemoryVersions n), (''vaults'', dc_Vaults n), (''vault_credentials'', dc_VaultCredentials n),
      (''api_keys'', dc_APIKeys n), (''webhook_endpoints'', dc_WebhookEndpoints n), (''webhook_deliveries'', dc_WebhookDeliveries n)])"

definition names_json :: "(string \<times> int) list \<Rightarrow> json" where
  "names_json ns = JArr (map (\<lambda>(k, n). JObj [(''name'', JStr k), (''count'', jint n)]) ns)"

definition usage_total_json :: "dashboardUsage \<Rightarrow> json" where
  "usage_total_json u = JObj (map (\<lambda>(k, v). (k, jint v))
     [(''input_tokens'', du_InputTokens u), (''output_tokens'', du_OutputTokens u),
      (''cache_create_tokens'', du_CacheCreateTokens u), (''cache_read_tokens'', du_CacheReadTokens u),
      (''total_tokens'', du_TotalTokens u)])"

definition activity_json :: "dashboardToolActivity \<Rightarrow> json" where
  "activity_json a = JObj (map (\<lambda>(k, v). (k, jint v))
     [(''built_in_tool_uses'', da_BuiltInToolUses a), (''built_in_results'', da_BuiltInResults a),
      (''mcp_tool_uses'', da_MCPToolUses a), (''mcp_results'', da_MCPResults a), (''custom_tool_uses'', da_CustomToolUses a),
      (''custom_results'', da_CustomResults a), (''errored_results'', da_ErroredResults a), (''requires_action'', da_RequiresAction a)])"

definition recent_json :: "deps \<Rightarrow> dashboardSession \<Rightarrow> json" where
  "recent_json d s = JObj ([(''id'', JStr (di_ID s))] @ opt_str ''title'' (di_Title s)
     @ [(''agent_id'', JStr (di_AgentID s)), (''agent_version'', jint (di_AgentVersion s)),
        (''environment_id'', JStr (di_EnvironmentID s)), (''status'', JStr (di_Status s)), (''event_count'', jint (di_EventCount s))]
     @ opt_str ''last_event_type'' (di_LastEventType s)
     @ [(''created_at'', time_json d (di_CreatedAt s)), (''updated_at'', time_json d (di_UpdatedAt s))]
     @ (case di_ArchivedAt s of None \<Rightarrow> [] | Some t \<Rightarrow> [(''archived_at'', time_json d t)]))"

definition dashboard_json :: "deps \<Rightarrow> dashboardSnapshot \<Rightarrow> json" where
  "dashboard_json d n = JObj [(''type'', JStr ''dashboard_snapshot''),
     (''runtime'', JObj [(''status'', JStr ''ok''), (''database'', JStr (dp_Driver d)), (''auth_mode'', JStr (dp_AuthMode d)),
        (''llm_provider'', JStr (dp_LLMProvider d)), (''default_agent_model'', JStr (dp_DefaultAgentModel d))]),
     (''counts'', counts_json (dn_Counts n)),
     (''sessions'', JObj [(''active'', jint (dc_Sessions (dn_Counts n))), (''by_status'', names_json (dn_ByStatus n))]),
     (''usage'', usage_total_json (dn_Usage n)), (''events_by_type'', names_json (dn_EventsByType n)),
     (''tool_activity'', activity_json (dn_ToolActivity n)), (''recent_sessions'', JArr (map (recent_json d) (dn_RecentSessions n))),
     (''generated_at'', time_json d (dn_GeneratedAt n))]"

definition getDashboard :: "deps \<Rightarrow> request \<Rightarrow> handler" where
  "getDashboard d r = orElse (buildDashboardSnapshot (dp_Env d) (hq_Ctx r) (dp_JsonSql d) (tenant_of r)) internal (\<lambda>n.
     respond (writeJSON 200 (Some (dashboard_json d n))))"

end
