(* ===== verification/Router.thy ===== *)
theory Router
  imports AgentApi StorageApi AdminApi Dashboard
begin

text \<open>
  \<open>NewRouter\<close> of \<open>internal/api/api.go\<close>: the middlewares and the routes, with the handlers of events.
\<close>

section \<open>Events\<close>

definition dec_send_events :: "json list option dec" where
  "dec_send_events = dec_struct [(''events'', dec_slice JNull dec_value)]"

definition error_type :: "int \<Rightarrow> string" where
  "error_type code = (if code = 400 then ''invalid_request_error'' else if code = 404 then ''not_found_error'' else ''internal_error'')"

definition interrupts :: "deps \<Rightarrow> string \<Rightarrow> nat \<Rightarrow> harness_call list" where
  "interrupts d sid n = (if dp_Harness d then replicate n (CallInterrupt sid) else [])"

text \<open>The turns are started in goroutines of their own, in the order in which a map is traversed.\<close>

definition postEvents_handler :: "deps \<Rightarrow> request \<Rightarrow> string \<Rightarrow> handler" where
  "postEvents_handler d r sid =
     decoding d r invalid_json ''SendEventsRequest'' dec_send_events None (\<lambda>q w.
       case postEvents (dp_Env d) (hq_Ctx r) sid (Inr (case q of None \<Rightarrow> [] | Some vs \<Rightarrow> vs)) w of
         (Rejected code msg n, w') \<Rightarrow> ((writeErr code (error_type code) msg)\<lparr>rp_Calls := interrupts d sid n\<rparr>, w')
       | (Accepted threads n, w') \<Rightarrow>
           ((writeJSON 202 (Some (JObj [(''status'', JStr ''accepted'')])))
              \<lparr>rp_Calls := interrupts d sid n @ map (CallRun sid) threads\<rparr>, w'))"

definition listEvents_handler :: "deps \<Rightarrow> request \<Rightarrow> string \<Rightarrow> handler" where
  "listEvents_handler d r sid =
     orElse (listEvents (li_Renum (dp_Lib d)) (dp_Env d) (hq_Ctx r) sid (hq_Query r ''types[]'') (hq_Query r ''types'')
         (query_get r ''session_thread_id'') (query_get r ''thread_id'')) internal (\<lambda>rows.
       respond (writeBody 200 (EventRows rows)))"

text \<open>The handler subscribes, and goes on as the stream does.\<close>

definition streamEvents :: "deps \<Rightarrow> request \<Rightarrow> string \<Rightarrow> handler" where
  "streamEvents d r sid w =
     (let since = parseSinceSeq (query_get r ''since'') (hq_Header r ''Last-Event-ID'')
      in (plain_reply 200 [(''Content-Type'', ''text/event-stream''), (''Cache-Control'', ''no-cache''),
            (''Connection'', ''keep-alive'')] (Stream since), fst (open_stream sid since w)))"

section \<open>Middlewares\<close>

definition add_headers :: "(string \<times> string) list \<Rightarrow> reply \<Rightarrow> reply" where
  "add_headers hs rp = rp\<lparr>rp_Headers := hs @ rp_Headers rp\<rparr>"

text \<open>Any origin is echoed, with credentials allowed.\<close>

definition cors_headers :: "request \<Rightarrow> (string \<times> string) list" where
  "cors_headers r =
     (if hq_Header r ''Origin'' = [] then []
      else [(''Access-Control-Allow-Origin'', hq_Header r ''Origin''), (''Vary'', ''Origin''),
            (''Access-Control-Allow-Credentials'', ''true'')])
     @ [(''Access-Control-Allow-Methods'', ''GET, POST, PATCH, DELETE, OPTIONS''),
        (''Access-Control-Allow-Headers'', ''Content-Type, Authorization, x-api-key, anthropic-version, anthropic-beta, last-event-id''),
        (''Access-Control-Expose-Headers'', ''Content-Type'')]"

definition corsMW :: "request \<Rightarrow> handler \<Rightarrow> handler" where
  "corsMW r h w =
     (if hq_Method r = ''OPTIONS'' then (plain_reply 204 (cors_headers r) NoBody, w)
      else (case h w of (rp, w') \<Rightarrow> (add_headers (cors_headers r) rp, w')))"

definition no_credentials :: reply where
  "no_credentials = writeErr 401 ''authentication_error'' ''missing or invalid credentials''"

definition authenticated :: "deps \<Rightarrow> request \<Rightarrow> (request \<Rightarrow> handler) \<Rightarrow> handler" where
  "authenticated d r h =
     orElse (RequireAuth (dp_Env d) (hq_Ctx r) (dp_AuthLib d) (dp_Auth d) (dp_AuthMode d)
         (hq_Header r ''x-api-key'') (hq_Cookie r cookieName)) internal (\<lambda>i.
       case i of None \<Rightarrow> respond no_credentials | Some ident \<Rightarrow> h (r\<lparr>hq_Identity := Some ident\<rparr>))"

section \<open>Routes\<close>

text \<open>A pattern is a list of fixed segments and parameters; a handler gets the parameters.\<close>

datatype seg = Lit string | Param

type_synonym route = "string \<times> seg list \<times> (string list \<Rightarrow> request \<Rightarrow> handler)"

fun match_segs :: "seg list \<Rightarrow> string list \<Rightarrow> string list option" where
  "match_segs [] [] = Some []"
| "match_segs (Lit l # ps) (s # ss) = (if l = s then match_segs ps ss else None)"
| "match_segs (Param # ps) (s # ss) = map_option (Cons s) (match_segs ps ss)"
| "match_segs _ _ = None"

fun find_route :: "route list \<Rightarrow> string \<Rightarrow> string list \<Rightarrow> (request \<Rightarrow> handler) option" where
  "find_route [] m ss = None"
| "find_route ((m', ps, h) # rts) m ss =
     (case (if m' = m then match_segs ps ss else None) of Some args \<Rightarrow> Some (h args) | None \<Rightarrow> find_route rts m ss)"

definition no_arg :: "(request \<Rightarrow> handler) \<Rightarrow> string list \<Rightarrow> request \<Rightarrow> handler" where
  "no_arg h args r = h r"

definition one_arg :: "(request \<Rightarrow> string \<Rightarrow> handler) \<Rightarrow> string list \<Rightarrow> request \<Rightarrow> handler" where
  "one_arg h args r = (case args of a # _ \<Rightarrow> h r a | [] \<Rightarrow> h r [])"

definition two_args :: "(request \<Rightarrow> string \<Rightarrow> string \<Rightarrow> handler) \<Rightarrow> string list \<Rightarrow> request \<Rightarrow> handler" where
  "two_args h args r = (case args of a # b # _ \<Rightarrow> h r a b | _ \<Rightarrow> h r [] [])"

text \<open>The root of a mounted router answers with and without its final slash.\<close>

definition at_root :: "string \<Rightarrow> seg list \<Rightarrow> (request \<Rightarrow> handler) \<Rightarrow> route list" where
  "at_root m ps h = [(m, ps, no_arg h), (m, ps @ [Lit []], no_arg h)]"

definition at_root1 :: "string \<Rightarrow> seg list \<Rightarrow> (request \<Rightarrow> string \<Rightarrow> handler) \<Rightarrow> route list" where
  "at_root1 m ps h = [(m, ps, one_arg h), (m, ps @ [Lit []], one_arg h)]"

definition item :: "string \<Rightarrow> seg list" where
  "item kind = [Lit kind, Param]"

definition agent_routes :: "deps \<Rightarrow> route list" where
  "agent_routes d = at_root ''POST'' [Lit ''agents''] (createAgent d) @ at_root ''GET'' [Lit ''agents''] (listAgents d)
     @ [(''GET'', item ''agents'', one_arg (getAgent d)), (''POST'', item ''agents'', one_arg (updateAgent d)),
        (''DELETE'', item ''agents'', one_arg (deleteAgent d)),
        (''POST'', item ''agents'' @ [Lit ''archive''], one_arg (archiveAgent d)),
        (''GET'', item ''agents'' @ [Lit ''versions''], one_arg (listAgentVersions d))]"

definition environment_routes :: "deps \<Rightarrow> route list" where
  "environment_routes d = at_root ''POST'' [Lit ''environments''] (createEnvironment d)
     @ at_root ''GET'' [Lit ''environments''] (listEnvironments d)
     @ [(''GET'', item ''environments'', one_arg (getEnvironment d)), (''POST'', item ''environments'', one_arg (updateEnvironment d)),
        (''DELETE'', item ''environments'', one_arg (deleteEnvironment d)),
        (''POST'', item ''environments'' @ [Lit ''archive''], one_arg (archiveEnvironment d))]"

definition session_routes :: "deps \<Rightarrow> route list" where
  "session_routes d = at_root ''POST'' [Lit ''sessions''] (createSession d) @ at_root ''GET'' [Lit ''sessions''] (listSessions d)
     @ [(''GET'', item ''sessions'', one_arg (getSession d)), (''POST'', item ''sessions'', one_arg (updateSession d)),
        (''DELETE'', item ''sessions'', one_arg (deleteSession d)),
        (''POST'', item ''sessions'' @ [Lit ''archive''], one_arg (archiveSession d)),
        (''POST'', item ''sessions'' @ [Lit ''events''], one_arg (postEvents_handler d)),
        (''GET'', item ''sessions'' @ [Lit ''events''], one_arg (listEvents_handler d)),
        (''GET'', item ''sessions'' @ [Lit ''events'', Lit ''stream''], one_arg (streamEvents d))]"

definition resource_routes :: "deps \<Rightarrow> route list" where
  "resource_routes d =
     (let at = item ''sessions'' @ [Lit ''resources''] in
      at_root1 ''GET'' at (listSessionResources d) @ at_root1 ''POST'' at (addSessionResource d)
      @ [(''GET'', at @ [Param], two_args (getSessionResource d)), (''POST'', at @ [Param], two_args (updateSessionResource d)),
         (''DELETE'', at @ [Param], two_args (deleteSessionResource d))])"

definition memory_routes :: "deps \<Rightarrow> route list" where
  "memory_routes d =
     (let at = item ''memory_stores''; mems = at @ [Lit ''memories'']; vers = at @ [Lit ''memory_versions''];
          second = (\<lambda>h. two_args (\<lambda>r storeID mid. h r mid)) in
      at_root ''POST'' [Lit ''memory_stores''] (createMemoryStore d) @ at_root ''GET'' [Lit ''memory_stores''] (listMemoryStores d)
      @ [(''GET'', at, one_arg (getMemoryStore d)), (''POST'', at, one_arg (updateMemoryStore d)),
         (''DELETE'', at, one_arg (deleteMemoryStore d)), (''POST'', at @ [Lit ''archive''], one_arg (archiveMemoryStore d)),
         (''POST'', mems, one_arg (upsertMemory d)), (''GET'', mems, one_arg (listMemories d)),
         (''GET'', mems @ [Param], second (getMemory d)), (''PATCH'', mems @ [Param], second (updateMemory d)),
         (''DELETE'', mems @ [Param], second (deleteMemory d)),
         (''GET'', vers, one_arg (listMemoryVersions d)), (''GET'', vers @ [Param], two_args (getMemoryVersion d)),
         (''POST'', vers @ [Param, Lit ''redact''], two_args (redactMemoryVersion d))])"

definition file_routes :: "deps \<Rightarrow> route list" where
  "file_routes d = at_root ''POST'' [Lit ''files''] (createFile d) @ at_root ''GET'' [Lit ''files''] (listFiles d)
     @ [(''GET'', item ''files'', one_arg (getFile d)), (''GET'', item ''files'' @ [Lit ''content''], one_arg (getFileContent d)),
        (''DELETE'', item ''files'', one_arg (deleteFile d))]"

definition skill_routes :: "deps \<Rightarrow> route list" where
  "skill_routes d = at_root ''POST'' [Lit ''skills''] (createSkill d) @ at_root ''GET'' [Lit ''skills''] (listSkills d)
     @ [(''GET'', item ''skills'', one_arg (getSkill d)), (''DELETE'', item ''skills'', one_arg (deleteSkill d))]"

definition vault_routes :: "deps \<Rightarrow> vault_lib \<times> cipherBox \<Rightarrow> route list" where
  "vault_routes d B =
     (let at = item ''vaults''; creds = at @ [Lit ''credentials'']; cred = creds @ [Param] in
      at_root ''POST'' [Lit ''vaults''] (createVault d) @ at_root ''GET'' [Lit ''vaults''] (listVaults d)
      @ [(''GET'', at, one_arg (getVault d)), (''POST'', at, one_arg (updateVault d)), (''DELETE'', at, one_arg (deleteVault d)),
         (''POST'', at @ [Lit ''archive''], one_arg (archiveVault d)),
         (''POST'', creds, one_arg (addCredential d B)), (''GET'', creds, one_arg (listCredentials d)),
         (''GET'', cred, two_args (getCredential d)), (''POST'', cred, two_args (updateCredential d B)),
         (''DELETE'', cred, two_args (deleteCredential d)), (''POST'', cred @ [Lit ''archive''], two_args (archiveCredential d)),
         (''POST'', cred @ [Lit ''mcp_oauth_validate''], two_args (validateOAuthCredential d B))])"

definition webhook_routes :: "deps \<Rightarrow> webhook_svc \<Rightarrow> route list" where
  "webhook_routes d W = at_root ''POST'' [Lit ''webhooks''] (createWebhookEndpoint d W)
     @ at_root ''GET'' [Lit ''webhooks''] (listWebhookEndpoints d W)
     @ [(''DELETE'', item ''webhooks'', one_arg (deleteWebhookEndpoint d W))]"

definition key_routes :: "deps \<Rightarrow> route list" where
  "key_routes d = at_root ''POST'' [Lit ''api_keys''] (createAPIKey d) @ at_root ''GET'' [Lit ''api_keys''] (listAPIKeys d)
     @ [(''DELETE'', item ''api_keys'', one_arg (revokeAPIKey d))]"

definition v1_routes :: "deps \<Rightarrow> route list" where
  "v1_routes d = agent_routes d @ environment_routes d @ session_routes d @ (if dp_Memory d then memory_routes d else [])
     @ file_routes d @ skill_routes d @ resource_routes d @ (case dp_Vault d of None \<Rightarrow> [] | Some B \<Rightarrow> vault_routes d B)"

definition admin_routes :: "deps \<Rightarrow> route list" where
  "admin_routes d = [(''GET'', [Lit ''dashboard''], no_arg (getDashboard d))]
     @ (case dp_Webhook d of None \<Rightarrow> [] | Some W \<Rightarrow> webhook_routes d W)
     @ (if dp_Auth d = None then [] else key_routes d)"

definition public_routes :: "deps \<Rightarrow> route list" where
  "public_routes d =
     [(''GET'', [Lit ''health''], no_arg (health d)),
      (''GET'', [Lit ''api'', Lit ''auth'', Lit ''session''], no_arg (authSession d)),
      (''POST'', [Lit ''api'', Lit ''auth'', Lit ''signup''], no_arg (authSignup d)),
      (''POST'', [Lit ''api'', Lit ''auth'', Lit ''login''], no_arg (authLogin d)),
      (''POST'', [Lit ''api'', Lit ''auth'', Lit ''logout''], no_arg (authLogout d))]"

definition routed :: "deps \<Rightarrow> route list \<Rightarrow> string list \<Rightarrow> request \<Rightarrow> handler" where
  "routed d rts ss r = (case find_route rts (hq_Method r) ss of Some h \<Rightarrow> h r | None \<Rightarrow> respond (li_NotRouted (dp_Lib d) r))"

definition guarded_prefix :: "string list \<Rightarrow> bool" where
  "guarded_prefix ss \<longleftrightarrow> ss \<noteq> [] \<and> (hd ss = ''v1'' \<or> hd ss = ''admin'')"

definition serve :: "deps \<Rightarrow> request \<Rightarrow> handler" where
  "serve d r = corsMW r
     (case hq_Segments r of
        s # ss \<Rightarrow>
          (if s = ''v1'' then authenticated d r (routed d (v1_routes d) ss)
           else if s = ''admin'' then authenticated d r (routed d (admin_routes d) ss)
           else if s = ''metrics'' \<and> ss = [] then respond (li_Metrics (dp_Lib d))
           else routed d (public_routes d) (s # ss) r)
      | [] \<Rightarrow> routed d (public_routes d) [] r)"

end
