(* ===== verification/ApiProperties.thy ===== *)
theory ApiProperties
  imports Router AuthProperties VaultProperties
begin

text \<open>
  What the HTTP interface promises: nothing happens to a request without credentials, requests for
  vaults stay with the tenant of their credentials, and where it does not keep such a promise.
\<close>

section \<open>Requests without credentials\<close>

text \<open>The only change authentication itself makes: expired browser sessions go.\<close>

definition only_expired :: "world \<Rightarrow> world \<Rightarrow> bool" where
  "only_expired w w' \<longleftrightarrow> (\<exists>P. w' = w\<lparr>tick := tick w', auth_sessions := filter P (auth_sessions w)\<rparr>) \<and> tick w \<le> tick w'"

interpretation ex: kept only_expired
proof unfold_locales
  show "only_expired w w" for w :: world
    by (auto simp: only_expired_def intro!: exI [of _ "\<lambda>_. True"])
next
  fix a b d :: world
  assume "only_expired a b" "only_expired b d"
  then obtain P Q where P: "b = a\<lparr>tick := tick b, auth_sessions := filter P (auth_sessions a)\<rparr>" "tick a \<le> tick b"
    and Q: "d = b\<lparr>tick := tick d, auth_sessions := filter Q (auth_sessions b)\<rparr>" "tick b \<le> tick d"
    by (auto simp: only_expired_def)
  have "auth_sessions b = filter P (auth_sessions a)" by (subst P(1)) simp
  then have "d = a\<lparr>tick := tick d, auth_sessions := filter (\<lambda>x. P x \<and> Q x) (auth_sessions a)\<rparr>"
    by (subst Q(1), subst P(1)) (simp add: conj_commute)
  then show "only_expired a d" using P(2) Q(2) by (auto simp: only_expired_def)
next
  show "only_expired w (w\<lparr>tick := n\<rparr>)" if "tick w \<le> n" for w :: world and n
    using that by (auto simp: only_expired_def intro!: exI [of _ "\<lambda>_. True"])
qed

lemma expired_tables:
  assumes "only_expired w w'"
  shows "vaults w' = vaults w" "credentials w' = credentials w" "sessions w' = sessions w" "agents w' = agents w"
    "memory_versions w' = memory_versions w" "api_keys w' = api_keys w" "skills w' = skills w"
proof -
  obtain P where e: "w' = w\<lparr>tick := tick w', auth_sessions := filter P (auth_sessions w)\<rparr>"
    using assms by (auto simp: only_expired_def)
  show "vaults w' = vaults w" "credentials w' = credentials w" "sessions w' = sessions w" "agents w' = agents w"
    "memory_versions w' = memory_versions w" "api_keys w' = api_keys w" "skills w' = skills w"
    by (subst e, simp)+
qed

lemma expired_delete: "keeps only_expired (DeleteAuthSession e c sid)"
  unfolding DeleteAuthSession_def
  by (intro ex.bind ex.plain ex.update) (auto simp: only_expired_def delete_where_def)

lemma expired_attempt: "keeps only_expired m \<Longrightarrow> keeps only_expired (attempt m)"
  by (simp add: keeps_def attempt_def)

lemma expired_RequireAuth: "keeps only_expired (RequireAuth e c A svc mode k cookie)"
proof -
  have session: "keeps only_expired (ResolveSession e c A S v)" for S v
    unfolding ResolveSession_def GetAuthSession_def GetUser_def
    by (auto intro!: ex.bind ex.plain ex.ignore expired_delete split: option.splits)
  have key: "keeps only_expired (ResolveAPIKey e c A k)"
    unfolding ResolveAPIKey_def GetAPIKeyByHash_def by (intro ex.bind ex.plain)
  show ?thesis
    unfolding RequireAuth_def by_key_def by_cookie_def
    by (auto intro!: ex.bind ex.plain expired_attempt session key split: option.splits)
qed

lemma RequireAuth_answers: "\<exists>i. fst (RequireAuth e c A svc mode k cookie w) = Inr i"
  by (auto simp: RequireAuth_def by_key_def by_cookie_def bindE_def returnE_def attempt_def split: prod.splits option.splits sum.splits)

definition credentials_of :: "deps \<Rightarrow> request \<Rightarrow> (world, (string \<times> string) option) io" where
  "credentials_of d r = RequireAuth (dp_Env d) (hq_Ctx r) (dp_AuthLib d) (dp_Auth d) (dp_AuthMode d)
     (hq_Header r ''x-api-key'') (hq_Cookie r cookieName)"

definition guarded_routes :: "deps \<Rightarrow> string list \<Rightarrow> route list" where
  "guarded_routes d ss = (if hd ss = ''v1'' then v1_routes d else admin_routes d)"

lemma serve_guarded:
  assumes "guarded_prefix (hq_Segments r)" "hq_Method r \<noteq> ''OPTIONS''"
  shows "serve d r w = (case credentials_of d r w of
       (Inr (Some i), w1) \<Rightarrow> (case routed d (guarded_routes d (hq_Segments r)) (tl (hq_Segments r)) (r\<lparr>hq_Identity := Some i\<rparr>) w1
          of (rp, w2) \<Rightarrow> (add_headers (cors_headers r) rp, w2))
     | (_, w1) \<Rightarrow> (add_headers (cors_headers r) no_credentials, w1))"
proof -
  obtain s ss where seg: "hq_Segments r = s # ss" "s = ''v1'' \<or> s = ''admin''"
    using assms(1) by (cases "hq_Segments r") (auto simp: guarded_prefix_def)
  obtain i w1 where run: "credentials_of d r w = (Inr i, w1)"
    using RequireAuth_answers [of "dp_Env d" "hq_Ctx r" "dp_AuthLib d" "dp_Auth d" "dp_AuthMode d" "hq_Header r ''x-api-key''"
        "hq_Cookie r cookieName" w] by (metis credentials_of_def prod.collapse)
  have "serve d r w = (case authenticated d r (routed d (guarded_routes d (s # ss)) ss) w of (rp, w') \<Rightarrow> (add_headers (cors_headers r) rp, w'))"
    using seg assms(2) by (auto simp: serve_def corsMW_def guarded_routes_def)
  then show ?thesis using run seg
    by (cases i) (simp_all add: authenticated_def orElse_def credentials_of_def [symmetric] respond_def)
qed


section \<open>Requests for vaults\<close>

lemma tenant_named: "tenant_of r \<noteq> []"
  by (auto simp: tenant_of_def tenantFromCtx_def split: option.splits)

lemma within_services:
  assumes "t \<noteq> []"
  shows "keeps (within t None) (svc_CreateVault e c t q)" "keeps (within t None) (svc_UpdateVault e c t vid q)"
    "keeps (within t None) (svc_ArchiveVault e c t vid)" "keeps (within t None) (svc_DeleteVault e c t vid)"
    "keeps (within t None) (svc_GetVault e c t vid)" "keeps (within t None) (svc_ListVaults e c t limit)"
    "keeps (within t None) (ListCredentials e c t vid)" "keeps (within t None) (svc_GetCredential e c t vid cid)"
    "keeps (within t None) (svc_ArchiveCredential e c t vid cid)" "keeps (within t None) (svc_DeleteCredential e c t vid cid)"
    "keeps (within t None) (ValidateOAuthCredential e c L box t vid cid)"
proof -
  have create: "keeps (within t None) (CreateVault e c t name m)" for name m
    using within_CreateVault [of t e c name m] assms by (simp add: or_default_nonempty)
  show "keeps (within t None) (svc_CreateVault e c t q)" "keeps (within t None) (svc_UpdateVault e c t vid q)"
    "keeps (within t None) (svc_ArchiveVault e c t vid)" "keeps (within t None) (svc_DeleteVault e c t vid)"
    "keeps (within t None) (svc_GetVault e c t vid)" "keeps (within t None) (svc_ListVaults e c t limit)"
    "keeps (within t None) (ListCredentials e c t vid)" "keeps (within t None) (svc_GetCredential e c t vid cid)"
    "keeps (within t None) (svc_ArchiveCredential e c t vid cid)" "keeps (within t None) (svc_DeleteCredential e c t vid cid)"
    "keeps (within t None) (ValidateOAuthCredential e c L box t vid cid)"
    unfolding svc_CreateVault_def svc_UpdateVault_def svc_ArchiveVault_def svc_DeleteVault_def svc_GetVault_def
      svc_ListVaults_def ListCredentials_def svc_GetCredential_def svc_ArchiveCredential_def svc_DeleteCredential_def
      ValidateOAuthCredential_def
    by (auto intro!: tn.bind tn.plain within_result create within_vaults within_archive_delete within_reads within_lift)
qed

lemma vault_handlers:
  "handled (within (tenant_of r) None) (createVault d r)" "handled (within (tenant_of r) None) (listVaults d r)"
  "handled (within (tenant_of r) None) (getVault d r vid)" "handled (within (tenant_of r) None) (updateVault d r vid)"
  "handled (within (tenant_of r) None) (deleteVault d r vid)" "handled (within (tenant_of r) None) (archiveVault d r vid)"
  "handled (within (tenant_of r) None) (addCredential d B r vid)" "handled (within (tenant_of r) None) (listCredentials d r vid)"
  "handled (within (tenant_of r) None) (getCredential d r vid cid)"
  "handled (within (tenant_of r) None) (updateCredential d B r vid cid)"
  "handled (within (tenant_of r) None) (deleteCredential d r vid cid)"
  "handled (within (tenant_of r) None) (archiveCredential d r vid cid)"
  "handled (within (tenant_of r) None) (validateOAuthCredential d B r vid cid)"
  unfolding createVault_def listVaults_def getVault_def updateVault_def deleteVault_def archiveVault_def addCredential_def
    listCredentials_def getCredential_def updateCredential_def deleteCredential_def archiveCredential_def validateOAuthCredential_def
  by (intro tn.handling within_services within_AddCredential within_svc_Update tenant_named)+

text \<open>What all handlers of a table of routes keep, the one that is chosen keeps.\<close>

definition all_handlers :: "(request \<Rightarrow> handler \<Rightarrow> bool) \<Rightarrow> route list \<Rightarrow> bool" where
  "all_handlers P rts \<longleftrightarrow> (\<forall>m ps h. (m, ps, h) \<in> set rts \<longrightarrow> (\<forall>args r. P r (h args r)))"

lemma all_handlers_simps [simp]:
  "all_handlers P []" "all_handlers P ((m, ps, h) # rts) \<longleftrightarrow> (\<forall>args r. P r (h args r)) \<and> all_handlers P rts"
  "all_handlers P (rts @ rts') \<longleftrightarrow> all_handlers P rts \<and> all_handlers P rts'"
  by (auto simp: all_handlers_def)

lemma found_handler: "all_handlers P rts \<Longrightarrow> find_route rts m ss = Some h \<Longrightarrow> P r (h r)"
  by (induction rts m ss rule: find_route.induct) (auto split: option.splits if_splits)

lemma arg_handlers:
  "(\<And>r. P r (f r)) \<Longrightarrow> P r (no_arg f args r)"
  "(\<And>r a. P r (g r a)) \<Longrightarrow> P r (one_arg g args r)"
  "(\<And>r a b. P r (k r a b)) \<Longrightarrow> P r (two_args k args r)"
  by (auto simp: no_arg_def one_arg_def two_args_def split: list.splits)

lemma vault_routes_within: "all_handlers (\<lambda>r h. handled (within (tenant_of r) None) h) (vault_routes d B)"
  by (simp add: vault_routes_def at_root_def Let_def)
    (intro conjI allI arg_handlers [where P = "\<lambda>r h. handled (within (tenant_of r) None) h"] vault_handlers)

text \<open>A first segment picks its group of routes.\<close>

definition others_first :: "string \<Rightarrow> route list \<Rightarrow> bool" where
  "others_first s rts \<longleftrightarrow> list_all (\<lambda>(m, ps, h). case ps of Lit l # _ \<Rightarrow> l \<noteq> s | _ \<Rightarrow> False) rts"

lemma skip_route: "others_first s rts \<Longrightarrow> find_route (rts @ rts') m (s # ss) = find_route rts' m (s # ss)"
proof (induction rts)
  case (Cons rt rts)
  obtain m' ps h where rt: "rt = (m', ps, h)" by (cases rt)
  obtain l ps' where "ps = Lit l # ps'" "l \<noteq> s"
    using Cons.prems by (auto simp: others_first_def rt split: list.splits seg.splits)
  then show ?case using Cons by (simp add: rt others_first_def)
qed simp

lemma vault_group: "find_route (v1_routes d) m (''vaults'' # ss)
    = (case dp_Vault d of None \<Rightarrow> None | Some B \<Rightarrow> find_route (vault_routes d B) m (''vaults'' # ss))"
proof -
  have "others_first ''vaults'' (agent_routes d)" "others_first ''vaults'' (environment_routes d)"
    "others_first ''vaults'' (session_routes d)" "others_first ''vaults'' (if dp_Memory d then memory_routes d else [])"
    "others_first ''vaults'' (file_routes d)" "others_first ''vaults'' (skill_routes d)" "others_first ''vaults'' (resource_routes d)"
    by (simp_all add: others_first_def agent_routes_def environment_routes_def session_routes_def memory_routes_def
        file_routes_def skill_routes_def resource_routes_def at_root_def at_root1_def item_def Let_def)
  then show ?thesis by (simp add: v1_routes_def skip_route split: option.splits)
qed

text \<open>C11: A request for vaults, whatever its method, path and body and whatever fails while it is handled,
leaves the vaults well-formed and the vaults and credentials of every tenant but that of its own
credentials alone; in particular identifiers of other tenants' vaults in the path have no effect.\<close>

theorem vault_requests_stay_with_their_tenant:
  assumes "hq_Segments r = ''v1'' # ''vaults'' # ss" "hq_Method r \<noteq> ''OPTIONS''" "vault_ok w"
    and "credentials_of d r w = (Inr (Some i), w1)"
  shows "vault_ok (snd (serve d r w)) \<and> others (tenantFromCtx (Some i)) (snd (serve d r w)) = others (tenantFromCtx (Some i)) w"
proof -
  let ?r = "r\<lparr>hq_Identity := Some i\<rparr>"
  have g: "guarded_prefix (hq_Segments r)" using assms(1) by (simp add: guarded_prefix_def)
  have "only_expired w w1" using keepsD [OF expired_RequireAuth, of w] assms(4) by (metis credentials_of_def snd_conv)
  note same = expired_tables [OF this]
  have w1: "vault_ok w1" "others t w1 = others t w" for t using assms(3) same by (simp_all add: vault_ok_def others_def)
  have h: "handled (within (tenant_of ?r) None) (routed d (v1_routes d) (''vaults'' # ss) ?r)"
    unfolding routed_def vault_group
    using found_handler [OF vault_routes_within] by (auto simp: tn.handled_respond split: option.splits)
  have "tenant_of ?r = tenantFromCtx (Some i)" by (simp add: tenant_of_def)
  then have "vault_ok (snd (routed d (v1_routes d) (''vaults'' # ss) ?r w1)) \<and>
      others (tenantFromCtx (Some i)) (snd (routed d (v1_routes d) (''vaults'' # ss) ?r w1)) = others (tenantFromCtx (Some i)) w"
    using handledD [OF h, of w1] w1 by (simp add: within_def has_vault_def)
  then show ?thesis
    using assms(1,4) serve_guarded [OF g assms(2), of d w] by (simp add: guarded_routes_def split_beta)
qed

section \<open>Secrets are not shown\<close>

text \<open>The same rows with other secrets.\<close>

definition other_secret :: "(CredentialRow \<Rightarrow> string \<times> string \<times> string) \<Rightarrow> CredentialRow \<Rightarrow> CredentialRow" where
  "other_secret f r = r\<lparr>cd_Cipher := fst (f r), cd_CipherNonce := fst (snd (f r)), cd_CipherLabel := snd (snd (f r))\<rparr>"

definition other_hash :: "(APIKeyRow \<Rightarrow> string) \<Rightarrow> APIKeyRow \<Rightarrow> APIKeyRow" where
  "other_hash g r = r\<lparr>ak_Hash := g r\<rparr>"

definition other_secrets :: "(CredentialRow \<Rightarrow> string \<times> string \<times> string) \<Rightarrow> (APIKeyRow \<Rightarrow> string) \<Rightarrow> world \<Rightarrow> world" where
  "other_secrets f g w = w\<lparr>credentials := map (other_secret f) (credentials w), api_keys := map (other_hash g) (api_keys w)\<rparr>"

lemma sort_key_map: "sort_key k (map f xs) = map f (sort_key (\<lambda>x. k (f x)) xs)"
proof (induction xs)
  case (Cons x xs)
  have "insort_key k (f x) (map f ys) = map f (insort_key (\<lambda>x. k (f x)) x ys)" for ys
    by (induction ys) auto
  then show ?case using Cons by simp
qed simp

lemma select_map: "(\<And>x. P (f x) = P x) \<Longrightarrow> select P (map f xs) = map f (select P xs)"
  by (simp add: select_def filter_map comp_def)

lemma select_one_map: "(\<And>x. P (f x) = P x) \<Longrightarrow> select_one P (map f xs) = map_option f (select_one P xs)"
  by (simp add: select_one_def filter_map comp_def split: list.splits)

lemma secret_fields [simp]:
  "cd_ID (other_secret f r) = cd_ID r" "cd_VaultID (other_secret f r) = cd_VaultID r"
  "cd_TenantID (other_secret f r) = cd_TenantID r" "cd_ArchivedAt (other_secret f r) = cd_ArchivedAt r"
  "cd_CreatedAt (other_secret f r) = cd_CreatedAt r" "credentialToAPI (other_secret f r) = credentialToAPI r"
  by (simp_all add: other_secret_def credentialToAPI_def)

lemma hash_fields [simp]:
  "ak_TenantID (other_hash g r) = ak_TenantID r" "ak_RevokedAt (other_hash g r) = ak_RevokedAt r"
  "ak_CreatedAt (other_hash g r) = ak_CreatedAt r" "apiKeyView d (other_hash g r) key = apiKeyView d r key"
  by (simp_all add: other_hash_def apiKeyView_def)

lemma hidden_tables [simp]:
  "vaults (other_secrets f g w) = vaults w" "tick (other_secrets f g w) = tick w"
  "credentials (other_secrets f g w) = map (other_secret f) (credentials w)"
  "api_keys (other_secrets f g w) = map (other_hash g) (api_keys w)"
  "(other_secrets f g w)\<lparr>tick := n\<rparr> = other_secrets f g (w\<lparr>tick := n\<rparr>)"
  by (simp_all add: other_secrets_def)

text \<open>Operations whose results differ by \<open>k\<close> when the secrets do, and which change nothing but the ticks.\<close>

definition blinded :: "('a \<Rightarrow> 'a) \<Rightarrow> (world, 'a) io \<Rightarrow> (CredentialRow \<Rightarrow> string \<times> string \<times> string) \<Rightarrow> (APIKeyRow \<Rightarrow> string) \<Rightarrow> bool" where
  "blinded k m f g \<longleftrightarrow> (\<forall>w. m (other_secrets f g w) = map_prod (map_sum id k) (other_secrets f g) (m w))"

lemma blinded_query: "(\<And>w. q (other_secrets f g w) = k (q w)) \<Longrightarrow> blinded k (queryE e c q) f g"
  by (auto simp: blinded_def queryE_def bindE_def stmt_run getsE_def split: sum.splits)

lemma blinded_bind:
  assumes "blinded k m f g" "\<And>x w. h (k x) (other_secrets f g w) = map_prod (map_sum id k') (other_secrets f g) (h x w)"
  shows "blinded k' (bindE m h) f g"
  using assms by (auto simp: blinded_def bindE_def split: prod.splits sum.splits)

lemma blinded_vault: "blinded id (GetVault e c t vid) f g"
  unfolding GetVault_def
  by (rule blinded_bind [where k = id], rule blinded_query) (auto simp: vault_by_def optE_def returnE_def throwE_def split: option.splits)

lemma blinded_shown:
  assumes "blinded k m f g" "\<And>x. h (k x) = h x"
  shows "blinded id (mapE_result h m) f g"
  unfolding mapE_result_def by (rule blinded_bind [OF assms(1)]) (simp add: returnE_def assms(2))

lemma blinded_after_vault: "blinded id m f g \<Longrightarrow> blinded id (bindE (GetVault e c t vid) (\<lambda>_. m)) f g"
  by (rule blinded_bind [OF blinded_vault]) (simp add: blinded_def)

lemma blinded_reply:
  assumes "blinded k m f g" "\<And>x. good (k x) = good x" "\<And>x. \<exists>rp. good x = respond rp"
  shows "fst (orElse m bad good (other_secrets f g w)) = fst (orElse m bad good w)"
proof -
  obtain r w' where m: "m w = (r, w')" by (cases "m w")
  then have m': "m (other_secrets f g w) = (map_sum id k r, other_secrets f g w')"
    using assms(1) by (simp add: blinded_def)
  show ?thesis
  proof (cases r)
    case (Inr x)
    obtain rp where "good x = respond rp" using assms(3) by blast
    then show ?thesis using m m' Inr assms(2) by (simp add: orElse_def respond_def)
  qed (use m m' in \<open>simp add: orElse_def\<close>)
qed

text \<open>What is encrypted of a credential and the hash of a key do not influence any reply that
shows credentials or keys: with other secrets in the database the replies are the same.\<close>

theorem secrets_are_not_shown:
  "fst (listCredentials d r vid (other_secrets f g w)) = fst (listCredentials d r vid w)
   \<and> fst (getCredential d r vid cid (other_secrets f g w)) = fst (getCredential d r vid cid w)
   \<and> fst (listAPIKeys d r (other_secrets f g w)) = fst (listAPIKeys d r w)"
proof -
  have list: "blinded (map (other_secret f)) (ListCredentialsByVault e c t vid) f g" for e c t
    unfolding ListCredentialsByVault_def by (rule blinded_query) (simp add: select_map sort_key_map)
  have "blinded (map_option (other_secret f)) (queryE e c (\<lambda>w. select_one (scoped t vid cid) (credentials w))) f g" for e c t
    by (rule blinded_query) (simp add: select_one_map scoped_def)
  then have one: "blinded (other_secret f) (GetCredentialScoped e c t vid cid) f g" for e c t
    unfolding GetCredentialScoped_def
    by (rule blinded_bind) (auto simp: optE_def returnE_def throwE_def split: option.splits)
  have keys: "blinded (map (other_hash g)) (ListAPIKeys e c t) f g" for e c t
    unfolding ListAPIKeys_def store_ListAPIKeys_def by (rule blinded_query) (simp add: select_map sort_key_map)
  have "fst (listCredentials d r vid (other_secrets f g w)) = fst (listCredentials d r vid w)"
    unfolding listCredentials_def ListCredentials_def
    by (rule blinded_reply [OF blinded_after_vault [OF blinded_shown [OF list]]]) (auto simp: comp_def)
  moreover have "fst (getCredential d r vid cid (other_secrets f g w)) = fst (getCredential d r vid cid w)"
    unfolding getCredential_def svc_GetCredential_def
    by (rule blinded_reply [OF blinded_after_vault [OF blinded_shown [OF one]]]) auto
  moreover have "fst (listAPIKeys d r (other_secrets f g w)) = fst (listAPIKeys d r w)"
    unfolding listAPIKeys_def by (rule blinded_reply [OF keys]) (auto simp: comp_def)
  ultimately show ?thesis by blast
qed

section \<open>Where the path is not looked at in time\<close>

definition redacted :: "int \<Rightarrow> MemoryVersionRow \<Rightarrow> MemoryVersionRow" where
  "redacted t r = r\<lparr>mv_Path := None, mv_Content := None, mv_Sha256 := None, mv_Size := None, mv_RedactedAt := Some t\<rparr>"

lemma select_one_updated:
  "select_one P t = Some r \<Longrightarrow> (\<And>x. P (f x) = P x) \<Longrightarrow> select_one P (update_where P f t) = Some (f r)"
  by (induction t) (auto simp: select_one_def update_where_def split: if_splits)

text \<open>A request to redact a version under another store than its own is answered 404, but the
version is redacted: the store in the path is compared only with what is shown afterwards, and the
tenant not at all.\<close>

theorem redaction_ignores_the_store:
  assumes "no_faults (dp_Env d)" "\<And>n. \<not> cancelled (hq_Ctx r) n" "mversion_by vid w = Some v" "mv_StoreID v \<noteq> storeID"
  shows "\<exists>t. redactMemoryVersion d r storeID vid w = (version_missing, w\<lparr>tick := tick w + 3,
           memory_versions := update_where (\<lambda>x. mv_ID x = vid) (redacted t) (memory_versions w)\<rparr>)"
proof -
  let ?t = "clock (dp_Env d) (tick w)"
  have sel: "select_one (\<lambda>x. mv_ID x = vid) (update_where (\<lambda>x. mv_ID x = vid) (redacted ?t) (memory_versions w)) = Some (redacted ?t v)"
    using assms(3) unfolding mversion_by_def by (rule select_one_updated) (simp add: redacted_def)
  have fields: "vo_StoreID (versionRowToAPI True (redacted ?t v)) = mv_StoreID v" by (simp add: versionRowToAPI_def redacted_def)
  have "redactMemoryVersion d r storeID vid w = (version_missing, w\<lparr>tick := tick w + 3,
      memory_versions := update_where (\<lambda>x. mv_ID x = vid) (redacted ?t) (memory_versions w)\<rparr>)"
    using sel fields assms(4)
    by (simp add: redactMemoryVersion_def orElse_def svc_RedactMemoryVersion_def mapR_def RedactMemoryVersion_def bindE_def now_run
        updateE_ok queryE_ok assms(1,2) redacted_def [symmetric] GetMemoryVersion_def mversion_by_def optE_def returnE_def shown_version_def respond_def
        eval_nat_numeral)
  then show ?thesis by blast
qed

text \<open>A session is shown to, and deleted by, a request of any tenant that names it: only listing
sessions looks at the tenant.\<close>

theorem any_tenant_reaches_a_session:
  assumes "no_faults (dp_Env d)" "\<And>n. \<not> cancelled (hq_Ctx r) n" "session_by sid w = Some s"
  shows "getSession d r sid w = (writeJSON 200 (session_json d (session_rowToAPI s)), w\<lparr>tick := tick w + 1\<rparr>)
    \<and> rp_Status (fst (deleteSession d r sid w)) = 200 \<and> session_by sid (snd (deleteSession d r sid w)) = None"
proof -
  have "getSession d r sid w = (writeJSON 200 (session_json d (session_rowToAPI s)), w\<lparr>tick := tick w + 1\<rparr>)"
    using assms(3) by (simp add: getSession_def orElse_def session_Get_def GetSession_def bindE_def queryE_ok assms(1,2) session_by_def
        optE_def returnE_def respond_def)
  moreover have "session_count sid w \<noteq> 0"
    using assms(3) by (auto simp: session_count_def affected_def session_by_def select_one_def split: list.splits)
  then have "rp_Status (fst (deleteSession d r sid w)) = 200 \<and> session_by sid (snd (deleteSession d r sid w)) = None"
    by (simp add: deleteSession_def orElse_def session_Delete_def DeleteSession_def bindE_def updateE_ok assms(1,2) session_count_def
        returnE_def respond_def gone_def writeJSON_def writeBody_def plain_reply_def session_by_def select_one_def delete_where_def)
  ultimately show ?thesis by blast
qed

section \<open>Examples\<close>

definition demo_api_lib :: api_lib where
  "demo_api_lib = \<lparr>li_Time = int_str, li_DecodeErr = (\<lambda>ty b. ''cannot decode '' @ ty), li_Renum = Some, li_Unzip = (\<lambda>s. Inr []),
     li_Metrics = plain_reply 200 [] NoBody, li_NotRouted = (\<lambda>r. plain_reply 404 [] NoBody)\<rparr>"

definition demo_deps :: deps where
  "demo_deps = \<lparr>dp_Env = auth_env, dp_Lib = demo_api_lib,
     dp_JsonSql = \<lparr>js_BoolTrue = (\<lambda>p k. Some False), js_TextEquals = (\<lambda>p ks v. Some False)\<rparr>, dp_Sha = (\<lambda>s. s),
     dp_Memory = True, dp_Webhook = None, dp_Vault = Some (demo_lib, NewVaultService demo_lib ''root''), dp_AuthLib = plain_auth,
     dp_Auth = Some day_service, dp_AuthMode = ''required'', dp_Harness = True, dp_Driver = ''sqlite'',
     dp_LLMProvider = ''anthropic'', dp_DefaultAgentModel = ''m''\<rparr>"

definition demo_request :: "string \<Rightarrow> string list \<Rightarrow> string \<Rightarrow> request" where
  "demo_request m ss key = \<lparr>hq_Ctx = Background, hq_Method = m, hq_Segments = ss, hq_Query = (\<lambda>k. []),
     hq_Header = (\<lambda>k. if k = ''x-api-key'' then key else []), hq_Cookie = (\<lambda>n. None), hq_Body = None,
     hq_Form = Inl (ErrMsg ''no form''), hq_Identity = None\<rparr>"

lemma demo_fields [simp]:
  "dp_Env demo_deps = auth_env" "dp_AuthLib demo_deps = plain_auth" "dp_Auth demo_deps = Some day_service" "dp_AuthMode demo_deps = ''required''"
  "hq_Ctx (demo_request m ss key) = Background" "hq_Method (demo_request m ss key) = m" "hq_Segments (demo_request m ss key) = ss"
  "hq_Header (demo_request m ss key) ''x-api-key'' = key" "hq_Cookie (demo_request m ss key) n = None" "hq_Body (demo_request m ss key) = None"
  by (simp_all add: demo_deps_def demo_request_def)

lemma no_key: "credentials_of demo_deps (demo_request m ss []) w = (Inr None, w)"
  by (simp add: credentials_of_def RequireAuth_def by_key_def by_cookie_def bindE_def returnE_def)


definition other_vault :: VaultRow where
  "other_vault = \<lparr>va_ID = ''vlt-1'', va_TenantID = ''other'', va_DisplayName = ''V'', va_Metadata = Some (JObj []), va_ArchivedAt = None,
     va_CreatedAt = 0, va_UpdatedAt = 0\<rparr>"

definition api_world :: world where
  "api_world = auth_world\<lparr>vaults := [other_vault]\<rparr>"

lemma key_request: "credentials_of demo_deps (demo_request m ss ''je_a_b'') api_world = (Inr (Some (''acme'', ''usr-1'')), api_world\<lparr>tick := 1\<rparr>)"
  by (simp add: credentials_of_def RequireAuth_def by_key_def ResolveAPIKey_def GetAPIKeyByHash_def bindE_def attempt_def queryE_ok auth_env_ok
      select_one_def live_hash_def optE_def returnE_def eval_nat_numeral api_world_def)

lemma vault_requests_stay_with_their_tenant_witness:
  "others ''acme'' (snd (serve demo_deps (demo_request ''DELETE'' [''v1'', ''vaults'', ''vlt-1''] ''je_a_b'') api_world)) = ([other_vault], [])"
proof -
  have "vault_ok api_world" by (simp add: vault_ok_def api_world_def other_vault_def auth_world_def empty_world_def)
  from vault_requests_stay_with_their_tenant [OF _ _ this key_request, of "''DELETE''" "[''v1'', ''vaults'', ''vlt-1'']" "[''vlt-1'']"]
  show ?thesis by (simp add: tenantFromCtx_def others_def api_world_def other_vault_def auth_world_def empty_world_def)
qed

definition old_version :: MemoryVersionRow where
  "old_version = \<lparr>mv_ID = ''mver-1'', mv_StoreID = ''st-1'', mv_MemoryID = ''mem-1'', mv_TenantID = ''other'', mv_Operation = ''created'',
     mv_Path = Some ''/a'', mv_Content = Some ''secret'', mv_Sha256 = Some [], mv_Size = Some 6, mv_CreatedAt = 0, mv_RedactedAt = None\<rparr>"

lemma redaction_ignores_the_store_witness:
  "map mv_Content (memory_versions (snd (redactMemoryVersion demo_deps (demo_request ''POST'' [] []) ''st-2'' ''mver-1''
     (empty_world\<lparr>memory_versions := [old_version]\<rparr>)))) = [None]"
proof -
  let ?w = "empty_world\<lparr>memory_versions := [old_version]\<rparr>"
  have "mversion_by ''mver-1'' ?w = Some old_version" by (simp add: mversion_by_def select_one_def old_version_def)
  moreover have "mv_StoreID old_version \<noteq> ''st-2''" by (simp add: old_version_def)
  ultimately obtain t where "redactMemoryVersion demo_deps (demo_request ''POST'' [] []) ''st-2'' ''mver-1'' ?w = (version_missing,
      ?w\<lparr>tick := tick ?w + 3, memory_versions := update_where (\<lambda>x. mv_ID x = ''mver-1'') (redacted t) (memory_versions ?w)\<rparr>)"
    using redaction_ignores_the_store [of demo_deps "demo_request ''POST'' [] []" "''mver-1''" ?w old_version "''st-2''"] by (auto simp: auth_env_ok)
  then show ?thesis by (simp add: update_where_def redacted_def old_version_def)
qed

lemma any_tenant_reaches_a_session_witness:
  "rp_Status (fst (deleteSession demo_deps ((demo_request ''DELETE'' [] [])\<lparr>hq_Identity := Some (''other'', ''u'')\<rparr>) ''s''
     (empty_world\<lparr>sessions := [demo_session ''s'' ''idle'']\<rparr>))) = 200"
proof -
  have "session_by ''s'' (empty_world\<lparr>sessions := [demo_session ''s'' ''idle'']\<rparr>) = Some (demo_session ''s'' ''idle'')" by code_simp
  from any_tenant_reaches_a_session [OF _ _ this, of demo_deps "(demo_request ''DELETE'' [] [])\<lparr>hq_Identity := Some (''other'', ''u'')\<rparr>"]
  show ?thesis by (simp add: auth_env_ok)
qed

end
