(* ===== verification/UploadProperties.thy ===== *)
theory UploadProperties
  imports ApiProperties
begin

text \<open>
  What is uploaded as a skill is what the harness can mount: the check of the API and that of the
  harness agree, and no file of a stored skill leaves the directory of the skill.
\<close>

section \<open>Safe paths\<close>

definition plain_part :: "string \<Rightarrow> bool" where
  "plain_part x \<longleftrightarrow> CHR 0x5C \<notin> set x"

text \<open>Replacing pairs of backslashes keeps every component that has none.\<close>

definition parts_kept :: "string list \<Rightarrow> string list \<Rightarrow> bool" where
  "parts_kept xs ys \<longleftrightarrow> ys \<noteq> [] \<and> (\<forall>x\<in>set (tl xs). plain_part x \<longrightarrow> x \<in> set (tl ys)) \<and> (plain_part (hd xs) \<longrightarrow> hd ys = hd xs)"

lemma split_uncons:
  obtains p ps where "split_char c s = p # ps"
  using split_char_not_Nil [of c s] by (cases "split_char c s") auto

lemma replaced_parts: "parts_kept (split_char CHR ''/'' p) (split_char CHR ''/'' (replace_two p))"
proof (induction p rule: replace_two.induct)
  case (1 a b s)
  obtain p0 ps where p: "split_char CHR ''/'' s = p0 # ps" by (rule split_uncons)
  obtain r0 rs where r: "split_char CHR ''/'' (b # s) = r0 # rs" by (rule split_uncons)
  obtain q0 qs where q: "split_char CHR ''/'' (replace_two (b # s)) = q0 # qs" by (rule split_uncons)
  obtain t0 ts where t: "split_char CHR ''/'' (replace_two s) = t0 # ts" by (rule split_uncons)
  show ?case
  proof (cases "[a, b] = two_backslashes")
    case True
    then have ab: "a = CHR 0x5C" "b = CHR 0x5C" by (simp_all add: two_backslashes_def)
    have "parts_kept (p0 # ps) (t0 # ts)" using "1.IH"(1) [OF True] p t by simp
    then show ?thesis using True p t by (auto simp: ab parts_kept_def plain_part_def)
  next
    case False
    have IH: "parts_kept (r0 # rs) (q0 # qs)" using "1.IH"(2) [OF False] r q by simp
    have rep: "replace_two (a # b # s) = a # replace_two (b # s)" using False by simp
    show ?thesis
    proof (cases "a = CHR ''/''")
      case True
      have "split_char CHR ''/'' (a # b # s) = [] # r0 # rs" "split_char CHR ''/'' (a # replace_two (b # s)) = [] # q0 # qs"
        using True r q by simp_all
      then show ?thesis unfolding rep using IH by (auto simp: parts_kept_def)
    next
      case False
      have "split_char CHR ''/'' (a # b # s) = (a # r0) # rs" "split_char CHR ''/'' (a # replace_two (b # s)) = (a # q0) # qs"
        using False r q by (simp_all split del: if_split)
      then show ?thesis unfolding rep using IH by (auto simp: parts_kept_def plain_part_def)
    qed
  qed
qed (simp_all add: parts_kept_def)

lemma bad_plain: "bad_part x \<Longrightarrow> plain_part x"
  by (auto simp: bad_part_def plain_part_def)

lemma safe_parts:
  assumes "safeUploadPath p" "x \<in> set (split_char CHR ''/'' p)"
  shows "normal_comp x"
proof -
  obtain p0 ps where p: "split_char CHR ''/'' p = p0 # ps" by (rule split_uncons)
  obtain q0 qs where q: "split_char CHR ''/'' (replace_two p) = q0 # qs" by (rule split_uncons)
  have k: "parts_kept (p0 # ps) (q0 # qs)" using replaced_parts [of p] p q by simp
  have s: "\<forall>y\<in>set (q0 # qs). \<not> bad_part y" using assms(1) q by (auto simp: safeUploadPath_def list_all_iff split: if_splits)
  have "\<not> bad_part x"
  proof
    assume b: "bad_part x"
    then have "x \<in> set (q0 # qs)" using k bad_plain [OF b] assms(2) p by (auto simp: parts_kept_def)
    then show False using s b by blast
  qed
  then show ?thesis using split_char_no_sep [OF assms(2)] by (simp add: bad_part_def normal_comp_def)
qed

lemma upload_check_is_the_harness_check: "safeUploadPath p = safeRelativePath p"
  by (simp add: safeUploadPath_def safeRelativePath_def bad_part_def)

lemma comps_skill_file:
  assumes "safeUploadPath p" "is_rooted dir"
  shows "comps (dir @ ''/'' @ p) = comps dir @ split_char CHR ''/'' p"
proof -
  obtain d' where d: "dir = CHR ''/'' # d'" using assms(2) by (auto simp: is_rooted_def HasPrefix_iff)
  have r: "is_rooted (dir @ ''/'' @ p)" by (simp add: is_rooted_def d)
  have n: "\<forall>c\<in>set (split_char CHR ''/'' p). normal_comp c" using safe_parts [OF assms(1)] by blast
  have "comps (dir @ ''/'' @ p) = clean_comps True (split_char CHR ''/'' dir @ split_char CHR ''/'' p)"
    using r by (simp add: comps_def split_char_app)
  also have "\<dots> = comps dir @ split_char CHR ''/'' p"
    using assms(2) fold_clean_normal [OF n] by (simp add: comps_def clean_comps_def)
  finally show ?thesis .
qed

section \<open>Stored skills\<close>

definition files_of_skill :: "SkillRow \<Rightarrow> SkillFileEntry list" where
  "files_of_skill row = fst (unmarshal dec_skill_files [] (sk_FilesJSON row))"

definition skills_safe :: "world \<Rightarrow> bool" where
  "skills_safe w \<longleftrightarrow> (\<forall>row\<in>set (skills w). \<forall>f\<in>set (files_of_skill row). safeUploadPath (sf_Path f))"

interpretation sk: table_invariant skills_safe
  by unfold_locales (simp add: skills_safe_def)

lemma skill_file_read:
  "dec_skill_file (JObj [(''path'', JStr p), (''content'', JStr s)]) \<lparr>sf_Path = [], sf_Content = []\<rparr> = (\<lparr>sf_Path = p, sf_Content = s\<rparr>, False)"
  by (simp add: dec_skill_file_def dec_struct_def fld_def key_match_def dec_str_def ToLower_def lower_char_def Let_def)

lemma skill_files_read: "unmarshal dec_skill_files [] (skill_files_json fs) = (fs, False)"
proof -
  have same: "(\<lambda>f. \<lparr>sf_Path = sf_Path f, sf_Content = sf_Content f\<rparr>) = (\<lambda>f. f)" by (rule ext) simp
  show ?thesis
    by (simp add: same unmarshal_def skill_files_json_def dec_skill_files_def dec_list_def comp_def skill_file_read list_ex_iff)
qed

lemma keeps_CreateSkill:
  assumes "\<forall>f\<in>set fs. safeUploadPath (sf_Path f)"
  shows "keeps (kept_inv skills_safe) (CreateSkill e c t name description fs)"
  unfolding CreateSkill_def Let_def GetSkill_def
  by (intro sk.bind sk.plain sk.insert_inv) (use assms in \<open>auto simp: skills_safe_def files_of_skill_def skill_files_read\<close>)

lemma store_skill_safe:
  "\<forall>f\<in>set fs. safeUploadPath (sf_Path f) \<Longrightarrow> handled (kept_inv skills_safe) (store_skill d r name description fs)"
  unfolding store_skill_def by (intro sk.handling keeps_CreateSkill)

lemma unzipped_safe: "unzip_files es = Inr fs \<Longrightarrow> \<forall>f\<in>set fs. safeUploadPath (sf_Path f)"
  by (induction es arbitrary: fs rule: unzip_files.induct) (auto split: if_splits option.splits sum.splits)

lemma createSkill_safe: "handled (kept_inv skills_safe) (createSkill d r)"
proof -
  have zip: "handled (kept_inv skills_safe) (skill_from_zip d r)"
    unfolding skill_from_zip_def Let_def
    by (auto intro!: sk.handling store_skill_safe dest: unzipped_safe split: sum.splits)
  have "\<forall>f\<in>set fs. safeUploadPath (sf_Path f)" if "filter (\<lambda>f. \<not> safeUploadPath (sf_Path f)) fs = []" for fs
    using that by (simp add: filter_empty_conv)
  then have json: "handled (kept_inv skills_safe) (skill_from_json d r)"
    unfolding skill_from_json_def
    by (intro sk.handled_decoding sk.handled_required) (auto intro: sk.handled_respond store_skill_safe split: list.splits)
  show ?thesis unfolding createSkill_def by (rule sk.handled_cond [OF zip json])
qed

text \<open>C25: Whatever is uploaded as a skill, as JSON or as an archive, and whatever fails: every file of
every stored skill has a path that the harness does not refuse, and below whatever directory the
harness mounts the skill, that path names a file there, component by component.\<close>

theorem uploaded_skills_stay_inside:
  assumes "skills_safe w" "row \<in> set (skills (snd (createSkill d r w)))" "f \<in> set (files_of_skill row)" "is_rooted dir"
  shows "safeRelativePath (sf_Path f) \<and> comps (dir @ ''/'' @ sf_Path f) = comps dir @ split_char CHR ''/'' (sf_Path f)"
proof -
  have "skills_safe (snd (createSkill d r w))"
    using handledD [OF createSkill_safe, of w d r] assms(1) by (simp add: kept_inv_def)
  then have "safeUploadPath (sf_Path f)" using assms(2,3) by (auto simp: skills_safe_def)
  then show ?thesis using comps_skill_file [OF _ assms(4)] upload_check_is_the_harness_check by simp
qed

definition skill_upload :: request where
  "skill_upload = (demo_request ''POST'' [''v1'', ''skills''] [])\<lparr>hq_Body := Some (JObj [(''name'', JStr ''pdf''),
     (''files'', JArr [JObj [(''path'', JStr ''bin/run.sh''), (''content'', JStr ''true'')]])])\<rparr>"

lemma uploaded_skills_stay_inside_witness:
  "\<exists>row\<in>set (skills (snd (createSkill demo_deps skill_upload empty_world))). \<exists>f\<in>set (files_of_skill row).
     comps (''/skills/pdf'' @ ''/'' @ sf_Path f) = [''skills'', ''pdf'', ''bin'', ''run.sh'']"
proof -
  let ?f = "\<lparr>sf_Path = ''bin/run.sh'', sf_Content = ''true''\<rparr>"
  have safe: "skills_safe empty_world" by (simp add: skills_safe_def empty_world_def)
  have "map files_of_skill (skills (snd (createSkill demo_deps skill_upload empty_world))) = [[?f]]" by code_simp
  then obtain row where row: "row \<in> set (skills (snd (createSkill demo_deps skill_upload empty_world)))" "files_of_skill row = [?f]"
    by (auto simp: map_eq_Cons_conv)
  have "is_rooted ''/skills/pdf''" by code_simp
  from uploaded_skills_stay_inside [OF safe row(1) _ this, of ?f] row(2)
  have "comps (''/skills/pdf'' @ ''/'' @ sf_Path ?f) = comps ''/skills/pdf'' @ split_char CHR ''/'' (sf_Path ?f)" by simp
  moreover have "comps ''/skills/pdf'' @ split_char CHR ''/'' (sf_Path ?f) = [''skills'', ''pdf'', ''bin'', ''run.sh'']" by code_simp
  ultimately have "comps (''/skills/pdf'' @ ''/'' @ sf_Path ?f) = [''skills'', ''pdf'', ''bin'', ''run.sh'']" by (rule trans)
  moreover have "?f \<in> set (files_of_skill row)" using row(2) by simp
  ultimately show ?thesis by (intro bexI [OF _ row(1)] bexI [of _ ?f])
qed

end
