(* ===== verification/DashboardProperties.thy ===== *)
theory DashboardProperties
  imports ApiProperties
begin

text \<open>
  What the dashboard shows: the statistics agree with each other, and they are those of one tenant,
  whatever the other tenants do.
\<close>

section \<open>Counts by name\<close>

lemma sum_group_counts: "sum_list (map snd (group_counts xs)) = int (length xs)"
proof -
  have "sum_list (map snd (group_counts xs)) = (\<Sum>n\<leftarrow>sort (remdups xs). int (count_list xs n))"
    by (simp add: group_counts_def comp_def)
  also have "\<dots> = (\<Sum>n\<in>set xs. int (count_list xs n))"
    by (subst sum_list_distinct_conv_sum_set) auto
  also have "\<dots> = int (\<Sum>n\<in>set xs. count_list xs n)" by simp
  also have "(\<Sum>n\<in>set xs. count_list xs n) = length xs" by (rule sum_count_set) auto
  finally show ?thesis .
qed

lemma group_counts_names: "distinct (map fst (group_counts xs)) \<and> sorted (map fst (group_counts xs)) \<and> set (map fst (group_counts xs)) = set xs"
  by (simp add: group_counts_def comp_def)

section \<open>What a snapshot says of the sessions\<close>

definition tenant_sessions :: "string \<Rightarrow> world \<Rightarrow> SessionRow list" where
  "tenant_sessions t w = filter (\<lambda>s. ss_TenantID s = t) (sessions w)"

text \<open>A query in a sequence of queries: the ticks move on, the tables stay.\<close>

lemma wp_query:
  assumes "\<And>k. wp (f (q (w\<lparr>tick := k\<rparr>))) Q (w\<lparr>tick := k\<rparr>)" "\<And>x k. Q (Inl x) (w\<lparr>tick := k\<rparr>)"
  shows "wp (bindE (queryE e c q) f) Q w"
  by (rule queryE_cases [of e c q w]) (use assms in \<open>simp_all add: wp_def bindE_def\<close>)

lemma wp_count:
  assumes "\<And>k. wp (f (int (length (filter P (tb (w\<lparr>tick := k\<rparr>)))))) Q (w\<lparr>tick := k\<rparr>)" "\<And>x k. Q (Inl x) (w\<lparr>tick := k\<rparr>)"
  shows "wp (bindE (scalarCount e c tb P) f) Q w"
  unfolding scalarCount_def by (rule wp_query) (use assms in \<open>auto simp: select_def\<close>)

definition only_ticks :: "('a \<Rightarrow> bool) \<Rightarrow> world \<Rightarrow> gerr + 'a \<Rightarrow> world \<Rightarrow> bool" where
  "only_ticks P w r w' \<longleftrightarrow> (\<exists>k. w' = w\<lparr>tick := k\<rparr>) \<and> (\<forall>x. r = Inr x \<longrightarrow> P x)"

lemma only_ticks_simps [simp]:
  "only_ticks P w (Inl x) (w\<lparr>tick := k\<rparr>)" "only_ticks P w (Inr y) (w\<lparr>tick := k\<rparr>) = P y" "only_ticks P (w\<lparr>tick := k\<rparr>) r w' = only_ticks P w r w'"
  by (auto simp: only_ticks_def)

lemma wp_part:
  assumes "wp m (only_ticks P w) w" "\<And>x k. P x \<Longrightarrow> wp (f x) Q (w\<lparr>tick := k\<rparr>)" "\<And>x k. Q (Inl x) (w\<lparr>tick := k\<rparr>)"
  shows "wp (bindE m f) Q w"
  by (rule wp_bind [OF assms(1)]) (use assms(2,3) in \<open>auto simp: only_ticks_def\<close>)

lemma counts_value:
  "wp (loadDashboardCounts e c t) (only_ticks (\<lambda>n.
      dc_Sessions n = int (length (filter (\<lambda>r. ss_TenantID r = t \<and> ss_ArchivedAt r = None) (sessions w)))
    \<and> dc_ArchivedSessions n = int (length (filter (\<lambda>r. ss_TenantID r = t \<and> ss_ArchivedAt r \<noteq> None) (sessions w)))) w) w"
  unfolding loadDashboardCounts_def by (intro wp_count) (simp_all add: wp_returnE)

lemma usage_value: "wp (loadDashboardUsage e c t) (only_ticks (\<lambda>_. True) w) w"
  unfolding loadDashboardUsage_def by (rule wp_query) (auto simp: Let_def wp_returnE wp_throwE)

lemma clock_value: "wp (now e) (only_ticks (\<lambda>_. True) w) w"
  by (auto simp: wp_def now_run only_ticks_def)

lemma json_count: "wp (jsonCount e c tb P look) (only_ticks (\<lambda>_. True) w) w"
  unfolding jsonCount_def by (rule wp_query) (simp_all add: wp_returnE wp_throwE)

lemma activity_value: "wp (loadDashboardToolActivity e c J t) (only_ticks (\<lambda>_. True) w) w"
  unfolding loadDashboardToolActivity_def countEvents_def
  by (intro wp_count wp_part [OF json_count]) (simp_all add: wp_returnE)

definition newest_first :: "dashboardSession list \<Rightarrow> bool" where
  "newest_first ss \<longleftrightarrow> sorted_wrt (\<lambda>a b. di_CreatedAt a \<ge> di_CreatedAt b) ss"

definition snapshot_of :: "string \<Rightarrow> world \<Rightarrow> dashboardSnapshot \<Rightarrow> bool" where
  "snapshot_of t w n \<longleftrightarrow>
     sum_list (map snd (dn_ByStatus n)) = dc_Sessions (dn_Counts n)
   \<and> dc_Sessions (dn_Counts n) + dc_ArchivedSessions (dn_Counts n) = int (length (filter (\<lambda>s. ss_TenantID s = t) (sessions w)))
   \<and> distinct (map fst (dn_ByStatus n)) \<and> sorted (map fst (dn_ByStatus n))
   \<and> (\<forall>(ty, k)\<in>set (dn_EventsByType n). 0 < k \<and> k = int (length (filter (\<lambda>ev. ev_Type ev = ty) (tenant_events t w))))
   \<and> length (dn_RecentSessions n) \<le> 10 \<and> newest_first (dn_RecentSessions n)
   \<and> (\<forall>x\<in>set (dn_RecentSessions n). \<exists>s\<in>set (sessions w). ss_TenantID s = t \<and> x = dashboard_session w s)"

lemma events_by_type_value:
  assumes "(ty, k) \<in> set (events_by_type t w)"
  shows "0 < k \<and> k = int (length (filter (\<lambda>ev. ev_Type ev = ty) (tenant_events t w)))"
proof -
  have "(ty, k) \<in> set (group_counts (map ev_Type (tenant_events t w)))"
    using assms in_set_takeD by (fastforce simp: events_by_type_def)
  then have "ty \<in> ev_Type ` set (tenant_events t w)" "k = int (count_list (map ev_Type (tenant_events t w)) ty)"
    by (auto simp: group_counts_def)
  moreover have "count_list (map ev_Type es) ty = length (filter (\<lambda>ev. ev_Type ev = ty) es)" for es
    by (induction es) auto
  ultimately show ?thesis by (auto simp: filter_empty_conv)
qed

lemma recent_value: "newest_first (map (dashboard_session w) (take n (sort_key (\<lambda>s. - ss_CreatedAt s) ss)))"
proof -
  have "sorted (map (\<lambda>s. - ss_CreatedAt s) (sort_key (\<lambda>s. - ss_CreatedAt s) ss))" by simp
  then have "sorted_wrt (\<lambda>a b. ss_CreatedAt a \<ge> ss_CreatedAt b) (take n (sort_key (\<lambda>s. - ss_CreatedAt s) ss))"
    by (intro sorted_wrt_take) (simp add: sorted_map)
  moreover have "di_CreatedAt (dashboard_session w s) = ss_CreatedAt s" for s by (simp add: dashboard_session_def Let_def)
  ultimately show ?thesis by (simp add: newest_first_def sorted_wrt_map)
qed

lemma blind_statistics [simp]:
  "sessions_by_status t (w\<lparr>tick := k\<rparr>) = sessions_by_status t w" "events_by_type t (w\<lparr>tick := k\<rparr>) = events_by_type t w"
  "dashboard_session (w\<lparr>tick := k\<rparr>) = dashboard_session w" "tenant_events t (w\<lparr>tick := k\<rparr>) = tenant_events t w"
  by (simp_all add: sessions_by_status_def events_by_type_def tenant_events_def dashboard_session_def fun_eq_iff)

lemma active_and_archived: "length (filter (\<lambda>r. P r \<and> q r = None) xs) + length (filter (\<lambda>r. P r \<and> q r \<noteq> None) xs) = length (filter P xs)"
  by (induction xs) auto

lemma built_snapshot:
  assumes "dc_Sessions counts = int (length (filter (\<lambda>r. ss_TenantID r = t \<and> ss_ArchivedAt r = None) (sessions w)))"
    and "dc_ArchivedSessions counts = int (length (filter (\<lambda>r. ss_TenantID r = t \<and> ss_ArchivedAt r \<noteq> None) (sessions w)))"
  shows "snapshot_of t w \<lparr>dn_Counts = counts, dn_ByStatus = sessions_by_status t w, dn_Usage = u, dn_EventsByType = events_by_type t w,
     dn_ToolActivity = a, dn_RecentSessions = map (dashboard_session w)
       (take 10 (sort_key (\<lambda>s. - ss_CreatedAt s) (select (\<lambda>s. ss_TenantID s = t) (sessions w)))), dn_GeneratedAt = g\<rparr>"
proof -
  let ?rows = "sort_key (\<lambda>s. - ss_CreatedAt s) (select (\<lambda>s. ss_TenantID s = t) (sessions w))"
  have "sum_list (map snd (sessions_by_status t w)) = dc_Sessions counts"
    "distinct (map fst (sessions_by_status t w))" "sorted (map fst (sessions_by_status t w))"
    by (simp_all add: sessions_by_status_def sum_group_counts group_counts_names assms(1) select_def)
  moreover have "dc_Sessions counts + dc_ArchivedSessions counts = int (length (filter (\<lambda>s. ss_TenantID s = t) (sessions w)))"
    unfolding assms using active_and_archived [of "\<lambda>r. ss_TenantID r = t" ss_ArchivedAt "sessions w"] by linarith
  moreover have "\<forall>x\<in>set (map (dashboard_session w) (take 10 ?rows)). \<exists>s\<in>set (sessions w). ss_TenantID s = t \<and> x = dashboard_session w s"
    by (auto dest!: in_set_takeD simp: select_def)
  moreover have "\<forall>(ty, k)\<in>set (events_by_type t w). 0 < k \<and> k = int (length (filter (\<lambda>ev. ev_Type ev = ty) (tenant_events t w)))"
    using events_by_type_value by blast
  ultimately show ?thesis
    unfolding snapshot_of_def using recent_value [of w 10] by simp
qed

text \<open>The statistics of a dashboard agree with the tables and with each other: the sessions by
status, each status once and in order, add up to the active sessions, active and archived ones to
all sessions of the tenant, an event type is shown with the number of the tenant's events of it, and
the at most ten latest sessions are the tenant's own, newest first.\<close>

theorem dashboard_adds_up:
  assumes "buildDashboardSnapshot e c J t w = (Inr n, w')"
  shows "snapshot_of t w n"
proof -
  have "wp (buildDashboardSnapshot e c J t) (only_ticks (snapshot_of t w) w) w"
    unfolding buildDashboardSnapshot_def countByName_def loadRecentDashboardSessions_def
    by (rule wp_part [OF counts_value], rule wp_part [OF usage_value], rule wp_query, rule wp_query,
        rule wp_part [OF activity_value], rule wp_query, rule wp_part [OF clock_value])
      (auto simp: wp_returnE intro!: built_snapshot)
  then show ?thesis using assms by (auto simp: wp_def only_ticks_def)
qed

section \<open>Whose rows it looks at\<close>

text \<open>
  Two states that a client cannot tell apart: operations answer the same in both and lead to two
  such states again.
\<close>

definition alike :: "(world \<Rightarrow> world \<Rightarrow> bool) \<Rightarrow> (world, 'a) io \<Rightarrow> bool" where
  "alike A m \<longleftrightarrow> (\<forall>u v. A u v \<longrightarrow> fst (m u) = fst (m v) \<and> A (snd (m u)) (snd (m v)))"

lemma alikeD: "alike A m \<Longrightarrow> A u v \<Longrightarrow> m u = (r, u') \<Longrightarrow> \<exists>v'. m v = (r, v') \<and> A u' v'"
  unfolding alike_def by (metis fst_conv snd_conv prod.collapse)

lemma alikeI: "(\<And>u v r u'. A u v \<Longrightarrow> m u = (r, u') \<Longrightarrow> \<exists>v'. m v = (r, v') \<and> A u' v') \<Longrightarrow> alike A m"
  unfolding alike_def by (metis fst_conv snd_conv prod.collapse)

locale indistinguishable =
  fixes A :: "world \<Rightarrow> world \<Rightarrow> bool"
  assumes same_tick: "A u v \<Longrightarrow> tick u = tick v"
    and later: "A u v \<Longrightarrow> A (u\<lparr>tick := n\<rparr>) (v\<lparr>tick := n\<rparr>)"
begin

lemma alike_query:
  assumes "\<And>u v. A u v \<Longrightarrow> f u = f v"
  shows "alike A (queryE e c f)"
  unfolding alike_def
proof (intro allI impI)
  fix u v assume a: "A u v"
  have s: "A (u\<lparr>tick := Suc (tick v)\<rparr>) (v\<lparr>tick := Suc (tick v)\<rparr>)" by (rule later [OF a])
  show "fst (queryE e c f u) = fst (queryE e c f v) \<and> A (snd (queryE e c f u)) (snd (queryE e c f v))"
    using s assms [OF s] same_tick [OF a]
    by (auto simp: queryE_def bindE_def stmt_run getsE_def split: sum.splits)
qed

lemma alike_bind:
  assumes "alike A m" "\<And>x. alike A (f x)"
  shows "alike A (bindE m f)"
proof (rule alikeI)
  fix u v r u'
  assume uv: "A u v" and run: "bindE m f u = (r, u')"
  obtain x u1 where m: "m u = (x, u1)" by (cases "m u")
  obtain v1 where v1: "m v = (x, v1)" "A u1 v1" using alikeD [OF assms(1) uv m] by blast
  show "\<exists>v'. bindE m f v = (r, v') \<and> A u' v'"
  proof (cases x)
    case (Inl y)
    then show ?thesis using run m v1 by (simp add: bindE_def)
  next
    case (Inr y)
    then have "f y u1 = (r, u')" using run m by (simp add: bindE_def)
    then show ?thesis using alikeD [OF assms(2) v1(2)] Inr v1(1) by (simp add: bindE_def)
  qed
qed

lemma alike_plain: "alike A (returnE x)" "alike A (throwE y)" "alike A (now e)"
  by (auto simp: alike_def returnE_def throwE_def now_run same_tick later)

lemma alike_count:
  assumes "\<And>u v. A u v \<Longrightarrow> filter P (tb u) = filter P (tb v)"
  shows "alike A (scalarCount e c tb P)"
  unfolding scalarCount_def by (rule alike_query) (simp add: select_def assms)

end

definition own_events :: "string \<Rightarrow> world \<Rightarrow> EventRow list" where
  "own_events t w = filter (\<lambda>ev. \<exists>s\<in>set (tenant_sessions t w). ss_ID s = ev_SessionID ev) (events w)"

definition own_deliveries :: "string \<Rightarrow> world \<Rightarrow> WebhookDeliveryRow list" where
  "own_deliveries t w = filter (\<lambda>d. \<exists>p\<in>set (endpoints w). we_TenantID p = t \<and> we_ID p = wd_EndpointID d) (deliveries w)"

text \<open>Everything that is a tenant's.\<close>

definition same_rows :: "string \<Rightarrow> world \<Rightarrow> world \<Rightarrow> bool" where
  "same_rows t u v \<longleftrightarrow> tick u = tick v \<and> tenant_sessions t u = tenant_sessions t v
     \<and> filter (\<lambda>r. at_TenantID r = t) (agents u) = filter (\<lambda>r. at_TenantID r = t) (agents v)
     \<and> filter (\<lambda>r. en_TenantID r = t) (environments u) = filter (\<lambda>r. en_TenantID r = t) (environments v)
     \<and> filter (\<lambda>r. fi_TenantID r = t) (files u) = filter (\<lambda>r. fi_TenantID r = t) (files v)
     \<and> filter (\<lambda>r. sk_TenantID r = t) (skills u) = filter (\<lambda>r. sk_TenantID r = t) (skills v)
     \<and> filter (\<lambda>r. ms_TenantID r = t) (memory_stores u) = filter (\<lambda>r. ms_TenantID r = t) (memory_stores v)
     \<and> filter (\<lambda>r. mm_TenantID r = t) (memories u) = filter (\<lambda>r. mm_TenantID r = t) (memories v)
     \<and> filter (\<lambda>r. mv_TenantID r = t) (memory_versions u) = filter (\<lambda>r. mv_TenantID r = t) (memory_versions v)
     \<and> filter (\<lambda>r. va_TenantID r = t) (vaults u) = filter (\<lambda>r. va_TenantID r = t) (vaults v)
     \<and> filter (\<lambda>r. cd_TenantID r = t) (credentials u) = filter (\<lambda>r. cd_TenantID r = t) (credentials v)
     \<and> filter (\<lambda>r. ak_TenantID r = t) (api_keys u) = filter (\<lambda>r. ak_TenantID r = t) (api_keys v)
     \<and> filter (\<lambda>r. we_TenantID r = t) (endpoints u) = filter (\<lambda>r. we_TenantID r = t) (endpoints v)
     \<and> own_events t u = own_events t v \<and> own_deliveries t u = own_deliveries t v"

lemma own_tick [simp]:
  "own_events t (w\<lparr>tick := n\<rparr>) = own_events t w" "own_deliveries t (w\<lparr>tick := n\<rparr>) = own_deliveries t w"
  "tenant_sessions t (w\<lparr>tick := n\<rparr>) = tenant_sessions t w"
  by (simp_all add: own_events_def own_deliveries_def tenant_sessions_def)

interpretation ind: indistinguishable "same_rows t" for t
  by unfold_locales (simp_all add: same_rows_def)

text \<open>A filter that asks for the tenant first.\<close>

lemma filter_conj: "filter (\<lambda>r. P r \<and> Q r) xs = filter Q (filter P xs)"
  by (simp add: conj_commute)

lemma concat_skip: "(\<And>x. x \<in> set xs \<Longrightarrow> \<not> P x \<Longrightarrow> f x = []) \<Longrightarrow> concat (map f xs) = concat (map f (filter P xs))"
  by (induction xs) auto

lemma tenant_events_own:
  "tenant_events t w = concat (map (\<lambda>ev. map (\<lambda>_. ev) (filter (\<lambda>s. ss_ID s = ev_SessionID ev) (tenant_sessions t w))) (own_events t w))"
proof -
  have row: "filter (\<lambda>s. ss_ID s = ev_SessionID ev \<and> ss_TenantID s = t) (sessions w) = filter (\<lambda>s. ss_ID s = ev_SessionID ev) (tenant_sessions t w)" for ev
    unfolding tenant_sessions_def filter_filter by (rule filter_cong) auto
  show ?thesis
    unfolding tenant_events_def select_def row own_events_def
    by (rule concat_skip) (auto simp: filter_empty_conv)
qed

lemma tenant_deliveries_own:
  "tenant_deliveries t w = concat (map (\<lambda>d. map (\<lambda>_. d) (filter (\<lambda>p. we_ID p = wd_EndpointID d)
     (filter (\<lambda>p. we_TenantID p = t) (endpoints w)))) (own_deliveries t w))"
proof -
  have row: "filter (\<lambda>p. we_ID p = wd_EndpointID d \<and> we_TenantID p = t) (endpoints w)
      = filter (\<lambda>p. we_ID p = wd_EndpointID d) (filter (\<lambda>p. we_TenantID p = t) (endpoints w))" for d
    unfolding filter_filter by (rule filter_cong) auto
  show ?thesis
    unfolding tenant_deliveries_def select_def row own_deliveries_def
    by (rule concat_skip) (auto simp: filter_empty_conv)
qed

lemma dashboard_session_own:
  "s \<in> set (tenant_sessions t w) \<Longrightarrow> filter (\<lambda>ev. ev_SessionID ev = ss_ID s) (events w) = filter (\<lambda>ev. ev_SessionID ev = ss_ID s) (own_events t w)"
  unfolding own_events_def filter_filter by (rule filter_cong) auto

lemma same_tenant_filter:
  assumes "filter (\<lambda>r. f r = t) xs = filter (\<lambda>r. f r = t) ys"
  shows "filter (\<lambda>r. f r = t \<and> Q r) xs = filter (\<lambda>r. f r = t \<and> Q r) ys"
  unfolding filter_conj by (simp add: assms)

lemma same_derived:
  assumes "same_rows t u v"
  shows "tenant_events t u = tenant_events t v" "tenant_deliveries t u = tenant_deliveries t v"
    "s \<in> set (tenant_sessions t u) \<Longrightarrow> dashboard_session u s = dashboard_session v s"
proof -
  show "tenant_events t u = tenant_events t v" "tenant_deliveries t u = tenant_deliveries t v"
    unfolding tenant_events_own tenant_deliveries_own using assms by (simp_all add: same_rows_def)
  show "dashboard_session u s = dashboard_session v s" if s: "s \<in> set (tenant_sessions t u)"
  proof -
    have "s \<in> set (tenant_sessions t v)" "own_events t u = own_events t v" using s assms by (simp_all add: same_rows_def)
    then show ?thesis using dashboard_session_own [OF s] dashboard_session_own [of s t v]
      by (simp add: dashboard_session_def select_def)
  qed
qed

lemma same_filters:
  assumes "same_rows t u v"
  shows "filter (\<lambda>r. at_TenantID r = t \<and> qa r) (agents u) = filter (\<lambda>r. at_TenantID r = t \<and> qa r) (agents v)"
    "filter (\<lambda>r. ss_TenantID r = t \<and> qs r) (sessions u) = filter (\<lambda>r. ss_TenantID r = t \<and> qs r) (sessions v)"
    "filter (\<lambda>r. en_TenantID r = t \<and> qe r) (environments u) = filter (\<lambda>r. en_TenantID r = t \<and> qe r) (environments v)"
    "filter (\<lambda>r. ms_TenantID r = t \<and> qm r) (memory_stores u) = filter (\<lambda>r. ms_TenantID r = t \<and> qm r) (memory_stores v)"
    "filter (\<lambda>r. va_TenantID r = t \<and> qv r) (vaults u) = filter (\<lambda>r. va_TenantID r = t \<and> qv r) (vaults v)"
    "filter (\<lambda>r. cd_TenantID r = t \<and> qc r) (credentials u) = filter (\<lambda>r. cd_TenantID r = t \<and> qc r) (credentials v)"
    "filter (\<lambda>r. ak_TenantID r = t \<and> qk r) (api_keys u) = filter (\<lambda>r. ak_TenantID r = t \<and> qk r) (api_keys v)"
  by (rule same_tenant_filter, use assms in \<open>simp add: same_rows_def tenant_sessions_def\<close>)+

lemma same_plain_filters:
  assumes "same_rows t u v"
  shows "filter (\<lambda>r. fi_TenantID r = t) (files u) = filter (\<lambda>r. fi_TenantID r = t) (files v)"
    "filter (\<lambda>r. sk_TenantID r = t) (skills u) = filter (\<lambda>r. sk_TenantID r = t) (skills v)"
    "filter (\<lambda>r. mm_TenantID r = t) (memories u) = filter (\<lambda>r. mm_TenantID r = t) (memories v)"
    "filter (\<lambda>r. mv_TenantID r = t) (memory_versions u) = filter (\<lambda>r. mv_TenantID r = t) (memory_versions v)"
    "filter (\<lambda>r. we_TenantID r = t) (endpoints u) = filter (\<lambda>r. we_TenantID r = t) (endpoints v)"
    "filter (\<lambda>r. ss_TenantID r = t) (sessions u) = filter (\<lambda>r. ss_TenantID r = t) (sessions v)"
    "filter P (tenant_deliveries t u) = filter P (tenant_deliveries t v)" "filter Q (tenant_events t u) = filter Q (tenant_events t v)"
  using assms same_derived(1,2) [OF assms] by (simp_all add: same_rows_def tenant_sessions_def)

lemma alike_counts: "alike (same_rows t) (loadDashboardCounts e c t)"
  unfolding loadDashboardCounts_def
  by (intro ind.alike_bind ind.alike_count ind.alike_plain) (erule same_filters same_plain_filters)+

lemma alike_usage: "alike (same_rows t) (loadDashboardUsage e c t)"
proof -
  have "alike (same_rows t) (if b then throwE x else returnE y :: (world, dashboardUsage) io)" for b x y
    by (simp add: ind.alike_plain)
  then show ?thesis
    unfolding loadDashboardUsage_def split_beta
    by (intro ind.alike_bind ind.alike_query) (simp_all add: select_def Let_def same_plain_filters(6))
qed

lemma alike_activity: "alike (same_rows t) (loadDashboardToolActivity e c J t)"
proof -
  have json: "alike (same_rows t) (jsonCount e c (tenant_events t) P look)" for P look
    unfolding jsonCount_def
    by (intro ind.alike_bind ind.alike_query) (simp_all add: select_def same_plain_filters(8) ind.alike_plain)
  show ?thesis
    unfolding loadDashboardToolActivity_def countEvents_def
    by (intro ind.alike_bind ind.alike_count ind.alike_plain json) (erule same_plain_filters)+
qed

lemma alike_rest:
  "alike (same_rows t) (countByName e c (sessions_by_status t))" "alike (same_rows t) (countByName e c (events_by_type t))"
  "alike (same_rows t) (loadRecentDashboardSessions e c t)"
proof -
  show "alike (same_rows t) (countByName e c (sessions_by_status t))" "alike (same_rows t) (countByName e c (events_by_type t))"
    unfolding countByName_def sessions_by_status_def events_by_type_def select_def
    by (rule ind.alike_query, simp add: same_filters(2) [of t] same_derived(1))+
  show "alike (same_rows t) (loadRecentDashboardSessions e c t)"
    unfolding loadRecentDashboardSessions_def
  proof (rule ind.alike_query)
    fix u v assume a: "same_rows t u v"
    have "select (\<lambda>s. ss_TenantID s = t) (sessions u) = select (\<lambda>s. ss_TenantID s = t) (sessions v)"
      using same_plain_filters(6) [OF a] by (simp add: select_def)
    moreover have "s \<in> set (tenant_sessions t u)" if "s \<in> set (take 10 (sort_key k (select (\<lambda>s. ss_TenantID s = t) (sessions u))))"
      for s and k :: "SessionRow \<Rightarrow> int"
      using in_set_takeD [OF that] by (simp add: select_def tenant_sessions_def)
    ultimately show "map (dashboard_session u) (take 10 (sort_key (\<lambda>s. - ss_CreatedAt s) (select (\<lambda>s. ss_TenantID s = t) (sessions u))))
        = map (dashboard_session v) (take 10 (sort_key (\<lambda>s. - ss_CreatedAt s) (select (\<lambda>s. ss_TenantID s = t) (sessions v))))"
      using same_derived(3) [OF a] by (metis (no_types, lifting) map_cong)
  qed
qed


section \<open>Examples\<close>

definition two_sessions :: "string \<Rightarrow> world" where
  "two_sessions t = empty_world\<lparr>sessions := [(demo_session ''s'' ''idle'')\<lparr>ss_TenantID := ''acme''\<rparr>,
     (demo_session ''r'' ''running'')\<lparr>ss_TenantID := t\<rparr>]\<rparr>"

definition plain_json_sql :: json_sql where
  "plain_json_sql = \<lparr>js_BoolTrue = (\<lambda>p k. Some False), js_TextEquals = (\<lambda>p ks v. Some False)\<rparr>"

definition ticked :: "world \<Rightarrow> world \<Rightarrow> bool" where
  "ticked u w \<longleftrightarrow> (\<exists>n. w = u\<lparr>tick := n\<rparr>)"

definition answers :: "world \<Rightarrow> (world, 'a) io \<Rightarrow> bool" where
  "answers u m \<longleftrightarrow> (\<forall>w. ticked u w \<longrightarrow> (\<exists>x w'. m w = (Inr x, w') \<and> ticked u w'))"

lemma answers_bind: "answers u m \<Longrightarrow> (\<And>x. answers u (f x)) \<Longrightarrow> answers u (bindE m f)"
  by (fastforce simp: answers_def bindE_def)

lemma answers_plain: "answers u (returnE x)" "answers u (now e)"
  by (auto simp: answers_def returnE_def now_def ticked_def)

lemma answers_query: "answers u (queryE auth_env Background f)"
  by (auto simp: answers_def ticked_def queryE_ok auth_env_ok)

lemma answers_count: "answers u (scalarCount auth_env Background table P)"
  unfolding scalarCount_def by (rule answers_query)

lemma answers_json:
  assumes "\<And>p. look p \<noteq> None"
  shows "answers u (jsonCount auth_env Background table P look)"
proof -
  have n: "None \<notin> set (map (\<lambda>ev. look (ev_Payload ev)) xs)" for xs
    using assms by (metis (no_types, lifting) ex_map_conv)
  show ?thesis
    unfolding jsonCount_def bindE_def answers_def ticked_def
    by (auto simp: queryE_ok auth_env_ok n returnE_def simp del: set_map)
qed

lemma dashboard_adds_up_witness:
  "\<exists>n. snapshot_of ''acme'' (two_sessions ''acme'') n"
proof -
  let ?u = "two_sessions ''acme''"
  have "answers ?u (loadDashboardUsage auth_env Background ''acme'')"
    by (auto simp: answers_def ticked_def loadDashboardUsage_def bindE_def queryE_ok auth_env_ok returnE_def two_sessions_def
        demo_session_def Let_def select_def int64_range_def)
  then have "answers ?u (buildDashboardSnapshot auth_env Background plain_json_sql ''acme'')"
    unfolding buildDashboardSnapshot_def loadDashboardCounts_def loadDashboardToolActivity_def countByName_def countEvents_def
      loadRecentDashboardSessions_def
    by (intro answers_bind answers_plain answers_count answers_query answers_json) (simp_all add: plain_json_sql_def)
  moreover have "ticked ?u ?u" unfolding ticked_def by (rule exI [of _ "tick ?u"]) simp
  ultimately obtain n w' where "buildDashboardSnapshot auth_env Background plain_json_sql ''acme'' ?u = (Inr n, w')"
    unfolding answers_def by blast
  from dashboard_adds_up [OF this] show ?thesis by blast
qed


end
