(* ===== verification/MemoryAudit.thy ===== *)
theory MemoryAudit
  imports StoreMemory
begin

text \<open>
  What the memory store promises: its table stays well-formed under every failure, and
  without failures the versions are an audit trail from which the memories can be replayed.
\<close>

section \<open>Well-formedness\<close>

definition memory_ok :: "(string \<Rightarrow> string) \<Rightarrow> world \<Rightarrow> bool" where
  "memory_ok sha w \<longleftrightarrow> distinct (map mm_ID (memories w))
     \<and> distinct (map (\<lambda>r. (mm_StoreID r, mm_Path r)) (memories w))
     \<and> (\<forall>r\<in>set (memories w). mstore_by (mm_StoreID r) w \<noteq> None \<and> mm_Sha256 r = sha (mm_Content r)
          \<and> mm_Size r = int (length (mm_Content r)))"

definition ok_kept :: "(string \<Rightarrow> string) \<Rightarrow> world \<Rightarrow> world \<Rightarrow> bool" where
  "ok_kept sha w w' \<longleftrightarrow> (memory_ok sha w \<longrightarrow> memory_ok sha w')"

lemma ok_kept_trans: "ok_kept sha a b \<Longrightarrow> ok_kept sha b d \<Longrightarrow> ok_kept sha a d"
  by (simp add: ok_kept_def)

lemma memory_ok_frame:
  "memories w' = memories w \<Longrightarrow> memory_stores w' = memory_stores w \<Longrightarrow> memory_ok sha w' = memory_ok sha w"
  by (simp add: memory_ok_def mstore_by_def)

lemmas keeps_ok_bind = keeps_bindE [where R = "ok_kept sha" for sha, OF _ _ ok_kept_trans]

lemma keeps_frame:
  assumes "\<And>w. memories (snd (m w)) = memories w \<and> memory_stores (snd (m w)) = memory_stores w"
  shows "keeps (ok_kept sha) m"
proof (rule keepsI)
  fix w
  show "ok_kept sha w (snd (m w))"
    using assms [of w] memory_ok_frame [of "snd (m w)" w sha] by (simp add: ok_kept_def)
qed

lemma keeps_plain:
  "keeps (ok_kept sha) (NewID e p)" "keeps (ok_kept sha) (now e)" "keeps (ok_kept sha) (returnE x)"
  "keeps (ok_kept sha) (queryE e c f)" "keeps (ok_kept sha) (throwE err)" "keeps (ok_kept sha) (optE err r)"
  by (rule keeps_frame; simp add: NewID_def now_def returnE_def throwE_def optE_def split: option.splits)+

lemma keeps_insertE:
  assumes "\<And>w. memory_ok sha w \<Longrightarrow> ok w \<Longrightarrow> memory_ok sha (f w)"
  shows "keeps (ok_kept sha) (insertE e c ok f)"
proof (rule keepsI)
  fix w
  have t: "memory_ok sha (w\<lparr>tick := n\<rparr>) = memory_ok sha w" for n by (rule memory_ok_frame) simp_all
  show "ok_kept sha w (snd (insertE e c ok f w))"
    by (rule insertE_cases [of ok w e c f]) (use assms [of "w\<lparr>tick := Suc (tick w)\<rparr>"] in \<open>auto simp: ok_kept_def t\<close>)
qed

lemma keeps_checked:
  assumes "\<And>w. memory_ok sha w \<Longrightarrow> ok w \<Longrightarrow> memory_ok sha (f w)"
  shows "keeps (ok_kept sha) (checked_updateE e c ok n f)"
proof (rule keepsI)
  fix w
  have t: "memory_ok sha (w\<lparr>tick := n\<rparr>) = memory_ok sha w" for n by (rule memory_ok_frame) simp_all
  show "ok_kept sha w (snd (checked_updateE e c ok n f w))"
    by (rule stmt_cases [of e c w])
      (use assms [of "w\<lparr>tick := Suc (tick w)\<rparr>"] in \<open>auto simp: ok_kept_def t checked_updateE_def bindE_def\<close>)
qed

lemma keeps_updateE:
  assumes "\<And>w. memory_ok sha w \<Longrightarrow> memory_ok sha (f w)"
  shows "keeps (ok_kept sha) (updateE e c n f)"
proof (rule keepsI)
  fix w
  have t: "memory_ok sha (w\<lparr>tick := n\<rparr>) = memory_ok sha w" for n by (rule memory_ok_frame) simp_all
  show "ok_kept sha w (snd (updateE e c n f w))"
    by (rule updateE_cases [of e c n f w]) (use assms [of "w\<lparr>tick := Suc (tick w)\<rparr>"] in \<open>auto simp: ok_kept_def t\<close>)
qed

text \<open>The changes of the table that the operations make.\<close>

lemma memory_by_None: "memory_by mid w = None \<longleftrightarrow> (\<forall>r\<in>set (memories w). mm_ID r \<noteq> mid)"
  by (simp add: memory_by_def table_simps)

lemma memory_at_None: "memory_at sid path w = None \<longleftrightarrow> (\<forall>r\<in>set (memories w). \<not> (mm_StoreID r = sid \<and> mm_Path r = path))"
  by (simp add: memory_at_def table_simps)

lemma memory_ok_insert:
  assumes "memory_ok sha w" "memory_insert_ok (memory_row sha mid t inp) w"
  shows "memory_ok sha (w\<lparr>memories := memories w @ [memory_row sha mid t inp]\<rparr>)"
  using assms by (auto simp: memory_ok_def memory_insert_ok_def memory_by_None memory_at_None memory_row_def mstore_by_def)

lemma memory_ok_set:
  assumes ok: "memory_ok sha w" and mv: "\<And>r x. r \<in> set (memories w) \<Longrightarrow> mm_ID r = mid \<Longrightarrow> x \<in> set (memories w) \<Longrightarrow>
      mm_ID x \<noteq> mid \<Longrightarrow> (mm_StoreID x, mm_Path x) \<noteq> (mm_StoreID r, path r)"
  shows "memory_ok sha (on_memory mid (\<lambda>r. set_content sha (path r) content t r) w)"
proof -
  let ?f = "\<lambda>r. set_content sha (path r) content t r"
  let ?t = "update_where (\<lambda>r. mm_ID r = mid) ?f (memories w)"
  have "map mm_ID ?t = map mm_ID (memories w)" by (rule map_update_where) (simp add: set_content_def)
  moreover have "distinct (map (\<lambda>r. (mm_StoreID r, mm_Path r)) ?t)"
    by (rule distinct_update_key) (use ok mv in \<open>auto simp: memory_ok_def set_content_def\<close>)
  ultimately show ?thesis
    using ok by (auto simp: memory_ok_def on_memory_def set_update_where mstore_by_def set_content_def)
qed

lemma memory_ok_set_here:
  "memory_ok sha w \<Longrightarrow> memory_ok sha (on_memory mid (\<lambda>r. set_content sha (mm_Path r) content t r) w)"
  by (rule memory_ok_set) (auto simp: memory_ok_def distinct_map dest: inj_onD)

lemma memory_ok_move:
  assumes ok: "memory_ok sha w" and mv: "move_ok mid path w"
  shows "memory_ok sha (on_memory mid (set_content sha path content t) w)"
proof (rule memory_ok_set [OF ok, where path = "\<lambda>r. path"])
  fix r x assume r: "r \<in> set (memories w)" "mm_ID r = mid" and x: "x \<in> set (memories w)" "mm_ID x \<noteq> mid"
  then obtain r' where r': "memory_by mid w = Some r'" using memory_by_None [of mid w] by blast
  have "r' \<in> set (memories w)" "mm_ID r' = mid" using select_one_Some [OF r' [unfolded memory_by_def]] by auto
  then have "r' = r" using ok r distinct_keyD [of mm_ID "memories w"] by (simp add: memory_ok_def)
  then show "(mm_StoreID x, mm_Path x) \<noteq> (mm_StoreID r, path)"
    using mv x by (auto simp: move_ok_def r' list_all_iff)
qed

lemma memory_ok_delete: "memory_ok sha w \<Longrightarrow> memory_ok sha (w\<lparr>memories := delete_where P (memories w)\<rparr>)"
  by (auto simp: memory_ok_def delete_where_def mstore_by_def distinct_map_filter)

lemma keeps_insertMemoryVersion: "keeps (ok_kept sha) (insertMemoryVersion e c inp)"
  unfolding insertMemoryVersion_def Let_def
  by (intro keeps_ok_bind keeps_plain keeps_insertE)
    (auto intro: keeps_plain simp: memory_ok_frame [where w' = "w\<lparr>memory_versions := x\<rparr>" for w x])

lemma keeps_GetMemory: "keeps (ok_kept sha) (GetMemory e c mid)"
  unfolding GetMemory_def by (intro keeps_ok_bind keeps_plain)

section \<open>Operations on memories\<close>

datatype mem_op = OpCreate CreateMemoryInput | OpUpsert CreateMemoryInput
  | OpUpdate string string "string option" | OpDelete string

definition run_mem_op :: "env \<Rightarrow> ctx \<Rightarrow> (string \<Rightarrow> string) \<Rightarrow> mem_op \<Rightarrow> (world, unit) io" where
  "run_mem_op e c sha op =
     (case op of
        OpCreate inp \<Rightarrow> ignoreE (CreateMemory e c sha inp)
      | OpUpsert inp \<Rightarrow> ignoreE (UpsertMemory e c sha inp)
      | OpUpdate mid path content \<Rightarrow> ignoreE (UpdateMemory e c sha mid path content)
      | OpDelete mid \<Rightarrow> ignoreE (DeleteMemory e c mid))"

lemma keeps_CreateMemory: "keeps (ok_kept sha) (CreateMemory e c sha inp)"
  unfolding CreateMemory_def Let_def
  by (intro keeps_ok_bind keeps_plain keeps_insertE keeps_insertMemoryVersion keeps_GetMemory memory_ok_insert)

lemma keeps_run: "keeps (ok_kept sha) (run_mem_op e c sha op)"
proof -
  have ig: "keeps (ok_kept sha) m \<Longrightarrow> keeps (ok_kept sha) (ignoreE m)" for m :: "(world, 'a) io"
    by (auto simp: keeps_def ignoreE_def)
  have ups: "keeps (ok_kept sha) (UpsertMemory e c sha inp)" for inp
    unfolding UpsertMemory_def
  proof (intro keeps_ok_bind keeps_plain)
    fix t and existing :: "string option"
    show "keeps (ok_kept sha) (case existing of
         None \<Rightarrow> CreateMemory e c sha inp
       | Some mid \<Rightarrow>
           bindE (updateE e c (\<lambda>w. affected (\<lambda>r. mm_ID r = mid) (memories w))
             (on_memory mid (\<lambda>r. set_content sha (mm_Path r) (cm_Content inp) t r))) (\<lambda>_.
           bindE (GetMemory e c mid) (\<lambda>before.
           bindE (insertMemoryVersion e c
             \<lparr>vi_StoreID = mm_StoreID before, vi_MemoryID = mm_ID before, vi_TenantID = mm_TenantID before,
              vi_Operation = ''modified'', vi_Path = mm_Path before, vi_Content = cm_Content inp,
              vi_Sha256 = sha (cm_Content inp), vi_Size = int (length (cm_Content inp)), vi_CreatedAtMS = t\<rparr>) (\<lambda>_.
           GetMemory e c mid))))"
      by (cases existing) (auto intro!: keeps_ok_bind keeps_updateE keeps_insertMemoryVersion keeps_GetMemory
          keeps_CreateMemory memory_ok_set_here)
  qed
  have upd: "keeps (ok_kept sha) (UpdateMemory e c sha mid path content)" for mid path content
    unfolding UpdateMemory_def Let_def
    by (intro keeps_ok_bind keeps_plain keeps_checked keeps_insertMemoryVersion keeps_GetMemory memory_ok_move)
  have del: "keeps (ok_kept sha) (DeleteMemory e c mid)" for mid
    unfolding DeleteMemory_def
    by (intro keeps_ok_bind keeps_plain keeps_updateE keeps_insertMemoryVersion keeps_GetMemory memory_ok_delete)
  show ?thesis
    by (cases op) (simp_all add: run_mem_op_def ig keeps_CreateMemory ups upd del)
qed

definition run_mem_ops :: "env \<Rightarrow> ctx \<Rightarrow> (string \<Rightarrow> string) \<Rightarrow> mem_op list \<Rightarrow> world \<Rightarrow> world" where
  "run_mem_ops e c sha ops w = fold (\<lambda>op w. snd (run_mem_op e c sha op w)) ops w"

lemma run_mem_ops_ok: "memory_ok sha w \<Longrightarrow> memory_ok sha (run_mem_ops e c sha ops w)"
  unfolding run_mem_ops_def
proof (induction ops arbitrary: w)
  case (Cons op ops)
  have "memory_ok sha (snd (run_mem_op e c sha op w))"
    using keepsD [OF keeps_run, of sha w e c op] Cons.prems by (simp add: ok_kept_def)
  then show ?case using Cons.IH by simp
qed simp

section \<open>The audit trail\<close>

text \<open>
  A memory seen from outside is its store, its path and its content. Replaying the
  versions yields a map from identifiers to memories; the trail is complete when that
  is the map of the memories there are.
\<close>

type_synonym view = "string \<rightharpoonup> string \<times> string \<times> string"

definition replay_step :: "MemoryVersionRow \<Rightarrow> view \<Rightarrow> view" where
  "replay_step v m =
     (if mv_Operation v = ''deleted'' then m(mv_MemoryID v := None)
      else (case (mv_Path v, mv_Content v) of
              (Some p, Some s) \<Rightarrow> m(mv_MemoryID v \<mapsto> (mv_StoreID v, p, s))
            | _ \<Rightarrow> m))"

definition replay :: "MemoryVersionRow list \<Rightarrow> view" where
  "replay vs = fold replay_step vs Map.empty"

definition view_of :: "MemoryRow \<Rightarrow> string \<times> string \<times> string" where
  "view_of r = (mm_StoreID r, mm_Path r, mm_Content r)"

definition current_of :: "MemoryRow list \<Rightarrow> view" where
  "current_of ms mid = map_option view_of (select_one (\<lambda>r. mm_ID r = mid) ms)"

definition audited :: "world \<Rightarrow> bool" where
  "audited w \<longleftrightarrow> replay (memory_versions w) = current_of (memories w)"

definition mem_fresh :: "env \<Rightarrow> world \<Rightarrow> bool" where
  "mem_fresh e w \<longleftrightarrow> (\<forall>n\<ge>tick w. (\<forall>r\<in>set (memories w). mm_ID r \<noteq> ''mem-'' @ ToLower (ulid e n))
     \<and> (\<forall>v\<in>set (memory_versions w). mv_ID v \<noteq> ''mver-'' @ ToLower (ulid e n)))"

text \<open>One operation: nothing happens to the tables, or one version records the change.\<close>

definition recorded :: "env \<Rightarrow> world \<Rightarrow> world \<Rightarrow> bool" where
  "recorded e w w' \<longleftrightarrow> tick w \<le> tick w' \<and> memory_stores w' = memory_stores w \<and>
     ((memories w' = memories w \<and> memory_versions w' = memory_versions w) \<or>
      (\<exists>v n. memory_versions w' = memory_versions w @ [v] \<and> tick w \<le> n \<and> n < tick w'
         \<and> mv_ID v = ''mver-'' @ ToLower (ulid e n)
         \<and> replay_step v (current_of (memories w)) = current_of (memories w')
         \<and> (\<forall>r\<in>set (memories w'). mm_ID r \<in> mm_ID ` set (memories w)
              \<or> (\<exists>k. tick w \<le> k \<and> k < tick w' \<and> mm_ID r = ''mem-'' @ ToLower (ulid e k)))))"

lemma recorded_idle:
  "tick w \<le> tick w' \<Longrightarrow> memory_stores w' = memory_stores w \<Longrightarrow> memories w' = memories w \<Longrightarrow>
     memory_versions w' = memory_versions w \<Longrightarrow> recorded e w w'"
  by (simp add: recorded_def)

lemma recorded_audited:
  assumes "recorded e w w'" "audited w"
  shows "audited w'"
  using assms by (auto simp: recorded_def audited_def replay_def)

lemma distinct_ids_eq: "distinct_ids e \<Longrightarrow> ToLower (ulid e k) = ToLower (ulid e n) \<longleftrightarrow> k = n"
  by (auto simp: distinct_ids_def dest: injD)

lemma recorded_fresh:
  assumes "recorded e w w'" "mem_fresh e w" "distinct_ids e"
  shows "mem_fresh e w'"
  unfolding mem_fresh_def
proof (intro allI impI conjI ballI)
  fix n assume n: "tick w' \<le> n"
  have le: "tick w \<le> n" using assms(1) n by (simp add: recorded_def)
  note F = assms(2) [unfolded mem_fresh_def, rule_format, OF le]
  show "mm_ID r \<noteq> ''mem-'' @ ToLower (ulid e n)" if "r \<in> set (memories w')" for r
    using assms(1) that F n by (auto simp: recorded_def distinct_ids_eq [OF assms(3)])
  show "mv_ID v \<noteq> ''mver-'' @ ToLower (ulid e n)" if "v \<in> set (memory_versions w')" for v
    using assms(1) that F n by (auto simp: recorded_def distinct_ids_eq [OF assms(3)])
qed

section \<open>Every operation is recorded\<close>

lemma insertMemoryVersion_ok:
  assumes nf: "no_faults e" and nc: "\<And>n. \<not> cancelled c n" and fr: "mem_fresh e w"
    and st: "mstore_by (vi_StoreID inp) w \<noteq> None" and op: "vi_Operation inp \<in> {''created'', ''modified'', ''deleted''}"
  obtains d t where "insertMemoryVersion e c inp w = (Inr (), w\<lparr>tick := tick w + Suc d,
      memory_versions := memory_versions w @ [mversion_row (''mver-'' @ ToLower (ulid e (tick w))) t inp]\<rparr>)"
proof -
  have ok: "mversion_insert_ok (mversion_row (''mver-'' @ ToLower (ulid e (tick w))) t inp) (w\<lparr>tick := n\<rparr>)" for n t
    using fr st op by (auto simp: mversion_insert_ok_def mversion_row_def mversion_by_def mstore_by_def mem_fresh_def table_simps)
  show ?thesis
  proof (cases "vi_CreatedAtMS inp = 0")
    case True
    then show ?thesis using ok nc
      by (intro that [where d = 2 and t = "clock e (Suc (tick w))"]) (simp add: insertMemoryVersion_def bindE_def NewID_def now_def insertE_ok [OF nf] Let_def numeral_eq_Suc)
  next
    case False
    then show ?thesis using ok nc
      by (intro that [where d = 1 and t = "vi_CreatedAtMS inp"]) (simp add: insertMemoryVersion_def bindE_def NewID_def returnE_def insertE_ok [OF nf] Let_def numeral_eq_Suc)
  qed
qed

lemma GetMemory_run: "snd (GetMemory e c mid w) = w\<lparr>tick := Suc (tick w)\<rparr>"
  by (rule queryE_cases [of e c "memory_by mid" w])
    (auto simp: GetMemory_def bindE_def optE_def returnE_def throwE_def split: option.splits)

lemma current_of_append:
  "current_of (ms @ [r]) = (if select_one (\<lambda>x. mm_ID x = mm_ID r) ms = None
      then (current_of ms)(mm_ID r \<mapsto> view_of r) else current_of ms)"
  by (rule ext) (auto simp: current_of_def table_simps dest: select_one_Some split: option.splits)

lemma current_of_delete: "current_of (delete_where (\<lambda>r. mm_ID r = mid) ms) = (current_of ms)(mid := None)"
proof
  fix i
  have "select_one (\<lambda>r. mm_ID r = i) (delete_where (\<lambda>r. mm_ID r = mid) ms)
      = (if i = mid then None else select_one (\<lambda>r. mm_ID r = i) ms)"
    by (induction ms) (auto simp: select_one_def delete_where_def)
  then show "current_of (delete_where (\<lambda>r. mm_ID r = mid) ms) i = ((current_of ms)(mid := None)) i"
    by (simp add: current_of_def)
qed

lemma current_of_update:
  assumes "select_one (\<lambda>r. mm_ID r = mid) ms = Some r" "\<And>r. mm_ID (f r) = mm_ID r"
  shows "current_of (update_where (\<lambda>r. mm_ID r = mid) f ms) = (current_of ms)(mid \<mapsto> view_of (f r))"
proof
  fix i
  have "select_one (\<lambda>r. mm_ID r = i) (update_where (\<lambda>r. mm_ID r = mid) f ms)
      = (if i = mid then Some (f r) else select_one (\<lambda>r. mm_ID r = i) ms)"
    using assms select_one_update [of "\<lambda>r. mm_ID r = mid" f ms]
      select_one_update_other [of ms "\<lambda>r. mm_ID r = mid" "\<lambda>r. mm_ID r = i" f] by auto
  then show "current_of (update_where (\<lambda>r. mm_ID r = mid) f ms) i = ((current_of ms)(mid \<mapsto> view_of (f r))) i"
    by (simp add: current_of_def)
qed

text \<open>Creation.\<close>

lemma Create_recorded:
  assumes nf: "no_faults e" and nc: "\<And>n. \<not> cancelled c n" and fr: "mem_fresh e w" and di: "distinct_ids e"
  shows "recorded e w (snd (CreateMemory e c sha inp w))"
proof -
  define r where "r = memory_row sha (''mem-'' @ ToLower (ulid e (tick w))) (clock e (Suc (tick w))) inp"
  define w0 where "w0 = w\<lparr>tick := Suc (Suc (Suc (tick w)))\<rparr>"
  have run: "CreateMemory e c sha inp w = bindE (insertE e c (memory_insert_ok r) (\<lambda>w. w\<lparr>memories := memories w @ [r]\<rparr>))
      (\<lambda>_. bindE (insertMemoryVersion e c (version_of ''created'' (clock e (Suc (tick w))) r))
        (\<lambda>_. GetMemory e c (''mem-'' @ ToLower (ulid e (tick w))))) (w\<lparr>tick := Suc (Suc (tick w))\<rparr>)"
    by (simp add: CreateMemory_def bindE_Inr [OF NewID_run] bindE_Inr [OF now_run] Let_def r_def)
  show ?thesis
  proof (cases "memory_insert_ok r w0")
    case False
    then have "snd (CreateMemory e c sha inp w) = w0"
      using nf nc by (simp add: run bindE_Inl insertE_violation w0_def)
    then show ?thesis by (simp add: recorded_idle w0_def)
  next
    case True
    define w1 where "w1 = w0\<lparr>memories := memories w @ [r]\<rparr>"
    have i1: "insertE e c (memory_insert_ok r) (\<lambda>w. w\<lparr>memories := memories w @ [r]\<rparr>) (w\<lparr>tick := Suc (Suc (tick w))\<rparr>)
        = (Inr (), w1)"
      using True nf nc by (simp add: insertE_ok w0_def w1_def)
    have st: "mstore_by (mm_StoreID r) w \<noteq> None" "memory_by (mm_ID r) w = None"
      using True by (auto simp: memory_insert_ok_def mstore_by_def w0_def memory_by_def)
    have fr1: "mem_fresh e w1"
      using fr by (auto simp: mem_fresh_def w1_def w0_def r_def memory_row_def distinct_ids_eq [OF di])
    have st1: "mstore_by (vi_StoreID (version_of ''created'' t r)) w1 \<noteq> None" for t
      using st by (simp add: version_of_def mstore_by_def w1_def w0_def)
    obtain d t where v: "insertMemoryVersion e c (version_of ''created'' (clock e (Suc (tick w))) r) w1 =
        (Inr (), w1\<lparr>tick := tick w1 + Suc d, memory_versions := memory_versions w1
           @ [mversion_row (''mver-'' @ ToLower (ulid e (tick w1))) t (version_of ''created'' (clock e (Suc (tick w))) r)]\<rparr>)"
      by (rule insertMemoryVersion_ok [OF nf nc fr1 st1]) (simp add: version_of_def, blast)
    let ?v = "mversion_row (''mver-'' @ ToLower (ulid e (tick w1))) t (version_of ''created'' (clock e (Suc (tick w))) r)"
    have "snd (CreateMemory e c sha inp w) = w1\<lparr>tick := Suc (tick w1 + Suc d), memory_versions := memory_versions w1 @ [?v]\<rparr>"
      by (simp add: run bindE_def i1 v GetMemory_run)
    moreover have "replay_step ?v (current_of (memories w)) = current_of (memories w @ [r])"
      using st(2) by (simp add: replay_step_def mversion_row_def version_of_def current_of_append memory_by_def view_of_def)
    ultimately show ?thesis
      unfolding recorded_def
      by (intro conjI disjI2 exI [of _ ?v] exI [of _ "tick w1"])
        (auto simp: w1_def w0_def mversion_row_def r_def memory_row_def intro!: exI [of _ "tick w"])
  qed
qed

text \<open>Modification: the row of one memory changes and one version says so.\<close>

lemma recorded_modified:
  assumes r: "memory_by mid w = Some r" and f: "\<And>x. mm_ID (f x) = mm_ID x" "view_of (f r) = (mm_StoreID r, vi_Path inp, vi_Content inp)"
    and inp: "vi_Operation inp = ''modified''" "vi_MemoryID inp = mid" "vi_StoreID inp = mm_StoreID r"
    and w': "memories w' = update_where (\<lambda>x. mm_ID x = mid) f (memories w)" "memory_stores w' = memory_stores w"
      "memory_versions w' = memory_versions w @ [mversion_row (''mver-'' @ ToLower (ulid e n)) t inp]"
    and n: "tick w \<le> n" "n < tick w'"
  shows "recorded e w w'"
proof -
  have "current_of (memories w') = (current_of (memories w))(mid \<mapsto> view_of (f r))"
    unfolding w'(1) by (rule current_of_update) (use r f in \<open>simp_all add: memory_by_def\<close>)
  moreover have "mm_ID ` set (memories w') = mm_ID ` set (memories w)"
    unfolding w'(1) by (rule key_update_where) (rule f(1))
  ultimately show ?thesis
    unfolding recorded_def
    by (intro conjI disjI2 exI [of _ "mversion_row (''mver-'' @ ToLower (ulid e n)) t inp"] exI [of _ n])
      (use n w' inp f in \<open>auto simp: replay_step_def mversion_row_def\<close>)
qed

lemma recorded_later:
  assumes "recorded e w1 w'" "same_tables w w1"
  shows "recorded e w w'"
proof -
  note F = same_tables_fields [OF assms(2)]
  consider "memories w' = memories w1" "memory_versions w' = memory_versions w1"
    | v n where "memory_versions w' = memory_versions w1 @ [v]" "tick w1 \<le> n" "n < tick w'"
      "mv_ID v = ''mver-'' @ ToLower (ulid e n)" "replay_step v (current_of (memories w1)) = current_of (memories w')"
      "\<forall>r\<in>set (memories w'). mm_ID r \<in> mm_ID ` set (memories w1)
          \<or> (\<exists>k. tick w1 \<le> k \<and> k < tick w' \<and> mm_ID r = ''mem-'' @ ToLower (ulid e k))"
    using assms(1) by (auto simp: recorded_def)
  then show ?thesis
  proof cases
    case 1
    then show ?thesis using assms(1) F by (auto simp: recorded_def)
  next
    case 2
    have mem: "memories w1 = memories w" "tick w \<le> tick w1" using F by simp_all
    have "\<forall>r\<in>set (memories w'). mm_ID r \<in> mm_ID ` set (memories w)
        \<or> (\<exists>k. tick w \<le> k \<and> k < tick w' \<and> mm_ID r = ''mem-'' @ ToLower (ulid e k))"
      using 2(6) mem by (auto dest: le_trans)
    moreover have "tick w \<le> tick w'" "memory_stores w' = memory_stores w" using assms(1) F by (simp_all add: recorded_def)
    moreover have "memory_versions w' = memory_versions w @ [v]" "tick w \<le> n" using 2(1,2) F by simp_all
    ultimately show ?thesis
      unfolding recorded_def using 2(3-5) mem(1) by (metis (no_types, lifting))
  qed
qed

text \<open>Every row the operations touch is in the table of its store.\<close>

lemma memory_by_store:
  assumes "memory_ok sha w" "memory_by mid w = Some r"
  shows "mstore_by (mm_StoreID r) w \<noteq> None" "mm_ID r = mid" "r \<in> set (memories w)"
  using select_one_Some [OF assms(2) [unfolded memory_by_def]] assms(1) by (auto simp: memory_ok_def)

lemma modify_run:
  assumes nf: "no_faults e" and nc: "\<And>n. \<not> cancelled c n" and fr: "mem_fresh e w" and ok: "memory_ok sha w"
    and r: "memory_by mid w = Some r" and f: "\<And>x. mm_ID (f x) = mm_ID x" "view_of (f r) = (mm_StoreID r, vi_Path inp, vi_Content inp)"
    and inp: "vi_Operation inp = ''modified''" "vi_MemoryID inp = mid" "vi_StoreID inp = mm_StoreID r"
    and w1: "w1 = on_memory mid f (w\<lparr>tick := tick w + d\<rparr>)"
  shows "recorded e w (snd (bindE (insertMemoryVersion e c inp) (\<lambda>_. GetMemory e c mid) w1))"
proof -
  have ids: "mm_ID ` set (memories w1) = mm_ID ` set (memories w)"
    unfolding w1 on_memory_def using f(1) by (simp add: key_update_where)
  have t1: "tick w \<le> tick w1" "memory_versions w1 = memory_versions w" "memory_stores w1 = memory_stores w"
    by (simp_all add: w1 on_memory_def)
  have fr1: "mem_fresh e w1"
    unfolding mem_fresh_def
  proof (intro allI impI conjI ballI)
    fix n assume "tick w1 \<le> n"
    then have "tick w \<le> n" using t1 by simp
    note F = fr [unfolded mem_fresh_def, rule_format, OF this]
    show "mm_ID x \<noteq> ''mem-'' @ ToLower (ulid e n)" if "x \<in> set (memories w1)" for x
      using F that ids by (metis imageE image_eqI)
    show "mv_ID v \<noteq> ''mver-'' @ ToLower (ulid e n)" if "v \<in> set (memory_versions w1)" for v
      using F that t1 by simp
  qed
  have st: "mstore_by (vi_StoreID inp) w1 \<noteq> None"
    using memory_by_store(1) [OF ok r] inp(3) t1(3) by (simp add: mstore_by_def)
  obtain k t where v: "insertMemoryVersion e c inp w1 = (Inr (), w1\<lparr>tick := tick w1 + Suc k,
      memory_versions := memory_versions w1 @ [mversion_row (''mver-'' @ ToLower (ulid e (tick w1))) t inp]\<rparr>)"
    by (rule insertMemoryVersion_ok [OF nf nc fr1 st]) (simp add: inp, blast)
  have fin: "snd (bindE (insertMemoryVersion e c inp) (\<lambda>_. GetMemory e c mid) w1) = w1\<lparr>tick := Suc (tick w1 + Suc k),
      memory_versions := memory_versions w1 @ [mversion_row (''mver-'' @ ToLower (ulid e (tick w1))) t inp]\<rparr>"
    by (simp add: bindE_def v GetMemory_run)
  show ?thesis
    unfolding fin by (rule recorded_modified [OF r f inp, of _ e "tick w1" t]) (simp_all add: w1 on_memory_def)
qed

lemma GetMemory_ok:
  assumes "no_faults e" "\<And>n. \<not> cancelled c n"
  shows "GetMemory e c mid w = (case memory_by mid w of None \<Rightarrow> (Inl ErrNotFound, w\<lparr>tick := Suc (tick w)\<rparr>)
     | Some r \<Rightarrow> (Inr r, w\<lparr>tick := Suc (tick w)\<rparr>))"
  using assms by (simp add: GetMemory_def bindE_Inr [OF queryE_ok] memory_by_def optE_def returnE_def throwE_def
      split: option.splits)

lemma set_content_id [simp]: "mm_ID (set_content sha p s t r) = mm_ID r"
  by (simp add: set_content_def)

lemma Upsert_recorded:
  assumes nf: "no_faults e" and nc: "\<And>n. \<not> cancelled c n" and fr: "mem_fresh e w" and di: "distinct_ids e"
    and ok: "memory_ok sha w"
  shows "recorded e w (snd (UpsertMemory e c sha inp w))"
proof -
  let ?w2 = "w\<lparr>tick := Suc (Suc (tick w))\<rparr>"
  let ?t = "clock e (tick w)"
  note q = bindE_Inr [OF now_run] bindE_Inr [OF queryE_ok [OF nf nc]]
  show ?thesis
  proof (cases "memory_at (cm_StoreID inp) (cm_Path inp) w")
    case None
    then have run: "UpsertMemory e c sha inp w = CreateMemory e c sha inp ?w2"
      by (simp add: UpsertMemory_def q memory_at_def)
    have "mem_fresh e ?w2" using fr by (simp add: mem_fresh_def)
    from Create_recorded [OF nf nc this di] show ?thesis
      unfolding run by (rule recorded_later) (rule same_tablesI [where d = 2], simp)
  next
    case (Some r)
    have at: "mm_StoreID r = cm_StoreID inp" "mm_Path r = cm_Path inp" "r \<in> set (memories w)"
      using select_one_Some [OF Some [unfolded memory_at_def]] by auto
    obtain r' where r': "memory_by (mm_ID r) w = Some r'"
      using at(3) memory_by_None [of "mm_ID r" w] by blast
    have "r' = r"
      using memory_by_store(2,3) [OF ok r'] at(3) ok distinct_keyD [of mm_ID "memories w"] by (simp add: memory_ok_def)
    note r = r' [unfolded this]
    let ?f = "\<lambda>x. set_content sha (mm_Path x) (cm_Content inp) ?t x"
    let ?w3 = "on_memory (mm_ID r) ?f (w\<lparr>tick := tick w + 3\<rparr>)"
    let ?w4 = "on_memory (mm_ID r) ?f (w\<lparr>tick := tick w + 4\<rparr>)"
    let ?v = "\<lparr>vi_StoreID = mm_StoreID r, vi_MemoryID = mm_ID r, vi_TenantID = mm_TenantID r,
              vi_Operation = ''modified'', vi_Path = mm_Path r, vi_Content = cm_Content inp,
              vi_Sha256 = sha (cm_Content inp), vi_Size = int (length (cm_Content inp)), vi_CreatedAtMS = ?t\<rparr>"
    have up: "updateE e c (\<lambda>w. affected (\<lambda>x. mm_ID x = mm_ID r) (memories w)) (on_memory (mm_ID r) ?f) ?w2
        = (Inr (affected (\<lambda>x. mm_ID x = mm_ID r) (memories w)), ?w3)"
      using updateE_ok [OF nf nc] by (simp add: on_memory_def numeral_eq_Suc)
    have by3: "memory_by (mm_ID r) ?w3 = Some (?f r)"
      using r select_one_update [of "\<lambda>x. mm_ID x = mm_ID r" ?f "memories w"] by (simp add: memory_by_def on_memory_def)
    have g3: "GetMemory e c (mm_ID r) ?w3 = (Inr (?f r), ?w4)"
      by (simp add: GetMemory_ok [OF nf nc] by3) (simp add: on_memory_def numeral_eq_Suc)
    have g4: "mm_StoreID (?f r) = mm_StoreID r" "mm_TenantID (?f r) = mm_TenantID r" "mm_Path (?f r) = mm_Path r"
      by (simp_all add: set_content_def)
    have "snd (UpsertMemory e c sha inp w) = snd (bindE (insertMemoryVersion e c ?v) (\<lambda>_. GetMemory e c (mm_ID r)) ?w4)"
      using Some by (simp add: UpsertMemory_def q memory_at_def bindE_Inr up g3 g4)
    moreover have "recorded e w (snd (bindE (insertMemoryVersion e c ?v) (\<lambda>_. GetMemory e c (mm_ID r)) ?w4))"
      by (rule modify_run [OF nf nc fr ok r, where f = ?f and d = 4]) (simp_all add: view_of_def set_content_def)
    ultimately show ?thesis by simp
  qed
qed

lemma Update_recorded:
  assumes nf: "no_faults e" and nc: "\<And>n. \<not> cancelled c n" and fr: "mem_fresh e w" and ok: "memory_ok sha w"
  shows "recorded e w (snd (UpdateMemory e c sha mid path0 content0 w))"
proof (cases "memory_by mid w")
  case None
  then have "snd (UpdateMemory e c sha mid path0 content0 w) = w\<lparr>tick := Suc (tick w)\<rparr>"
    by (simp add: UpdateMemory_def bindE_def GetMemory_ok [OF nf nc])
  then show ?thesis by (simp add: recorded_idle)
next
  case (Some r)
  let ?path = "if path0 = [] then mm_Path r else path0"
  let ?content = "case content0 of None \<Rightarrow> mm_Content r | Some s \<Rightarrow> s"
  let ?t = "clock e (Suc (tick w))"
  let ?w2 = "w\<lparr>tick := Suc (Suc (tick w))\<rparr>"
  let ?w3 = "on_memory mid (set_content sha ?path ?content ?t) (w\<lparr>tick := tick w + 3\<rparr>)"
  let ?v = "\<lparr>vi_StoreID = mm_StoreID r, vi_MemoryID = mm_ID r, vi_TenantID = mm_TenantID r,
             vi_Operation = ''modified'', vi_Path = ?path, vi_Content = ?content, vi_Sha256 = sha ?content,
             vi_Size = int (length ?content), vi_CreatedAtMS = ?t\<rparr>"
  let ?rest = "\<lambda>_. bindE (insertMemoryVersion e c ?v) (\<lambda>_. GetMemory e c mid)"
  let ?up = "checked_updateE e c (move_ok mid ?path) (\<lambda>w. affected (\<lambda>r. mm_ID r = mid) (memories w))
                   (on_memory mid (set_content sha ?path ?content ?t))"
  have g: "GetMemory e c mid w = (Inr r, w\<lparr>tick := Suc (tick w)\<rparr>)" by (simp add: GetMemory_ok [OF nf nc] Some)
  have run: "UpdateMemory e c sha mid path0 content0 w = bindE ?up ?rest ?w2"
    by (simp add: UpdateMemory_def bindE_Inr g bindE_Inr [OF now_run] Let_def)
  show ?thesis
  proof (cases "move_ok mid ?path (w\<lparr>tick := tick w + 3\<rparr>)")
    case False
    then have "snd (bindE ?up ?rest ?w2) = w\<lparr>tick := tick w + 3\<rparr>"
      using checked_updateE_violation [OF nf nc] by (simp add: bindE_Inl numeral_eq_Suc)
    then show ?thesis by (simp add: run recorded_idle)
  next
    case True
    have "?up ?w2 = (Inr (affected (\<lambda>r. mm_ID r = mid) (memories w)), ?w3)"
      using True checked_updateE_ok [OF nf nc] by (simp add: on_memory_def numeral_eq_Suc)
    then have "snd (UpdateMemory e c sha mid path0 content0 w) = snd (?rest () ?w3)"
      by (simp add: run bindE_Inr)
    moreover have "recorded e w (snd (?rest () ?w3))"
      by (rule modify_run [OF nf nc fr ok Some, where f = "set_content sha ?path ?content ?t" and d = 3])
        (simp_all add: view_of_def set_content_def memory_by_store(2) [OF ok Some])
    ultimately show ?thesis by simp
  qed
qed

lemma Delete_recorded:
  assumes nf: "no_faults e" and nc: "\<And>n. \<not> cancelled c n" and fr: "mem_fresh e w" and ok: "memory_ok sha w"
  shows "recorded e w (snd (DeleteMemory e c mid w))"
proof (cases "memory_by mid w")
  case None
  then have "snd (DeleteMemory e c mid w) = w\<lparr>tick := Suc (tick w)\<rparr>"
    by (simp add: DeleteMemory_def bindE_def GetMemory_ok [OF nf nc])
  then show ?thesis by (simp add: recorded_idle)
next
  case (Some r)
  let ?w2 = "w\<lparr>tick := Suc (Suc (tick w))\<rparr>"
  let ?inp = "version_of ''deleted'' (clock e (Suc (tick w))) r"
  have g: "GetMemory e c mid w = (Inr r, w\<lparr>tick := Suc (tick w)\<rparr>)" by (simp add: GetMemory_ok [OF nf nc] Some)
  have "mem_fresh e ?w2" "mstore_by (vi_StoreID ?inp) ?w2 \<noteq> None"
    using fr memory_by_store(1) [OF ok Some] by (simp_all add: mem_fresh_def version_of_def mstore_by_def)
  then obtain k t where v: "insertMemoryVersion e c ?inp ?w2 = (Inr (), ?w2\<lparr>tick := tick ?w2 + Suc k,
      memory_versions := memory_versions ?w2 @ [mversion_row (''mver-'' @ ToLower (ulid e (tick ?w2))) t ?inp]\<rparr>)"
    by (rule insertMemoryVersion_ok [OF nf nc]) (simp add: version_of_def, blast)
  let ?v = "mversion_row (''mver-'' @ ToLower (ulid e (tick w + 2))) t ?inp"
  let ?w' = "snd (DeleteMemory e c mid w)"
  have w': "?w' = w\<lparr>tick := tick w + k + 4, memory_versions := memory_versions w @ [?v],
      memories := delete_where (\<lambda>r. mm_ID r = mid) (memories w)\<rparr>"
    by (simp add: DeleteMemory_def bindE_Inr g bindE_Inr [OF now_run] v bindE_Inr [OF updateE_ok [OF nf nc]]
        returnE_def numeral_eq_Suc)
  show ?thesis
    unfolding w' recorded_def
    by (intro conjI disjI2 exI [of _ ?v] exI [of _ "tick w + 2"])
      (auto simp: mversion_row_def version_of_def replay_step_def current_of_delete memory_by_store(2) [OF ok Some] table_simps)
qed

lemma run_recorded:
  assumes "no_faults e" "\<And>n. \<not> cancelled c n" "mem_fresh e w" "distinct_ids e" "memory_ok sha w"
  shows "recorded e w (snd (run_mem_op e c sha op w))"
  using Create_recorded [OF assms(1-4)] Upsert_recorded [OF assms(1-5)] Update_recorded [OF assms(1-3,5)]
    Delete_recorded [OF assms(1-3,5)]
  by (cases op) (simp_all add: run_mem_op_def ignoreE_def)

lemma runs_audited:
  assumes "no_faults e" "\<And>n. \<not> cancelled c n" "distinct_ids e" "mem_fresh e w" "memory_ok sha w" "audited w"
  shows "audited (run_mem_ops e c sha ops w)
    \<and> (\<exists>vs. memory_versions (run_mem_ops e c sha ops w) = memory_versions w @ vs)"
  unfolding run_mem_ops_def using assms(4-6)
proof (induction ops arbitrary: w)
  case (Cons op ops)
  let ?w = "snd (run_mem_op e c sha op w)"
  have r: "recorded e w ?w" by (rule run_recorded [OF assms(1,2) Cons.prems(1) assms(3) Cons.prems(2)])
  have "memory_ok sha ?w"
    using keepsD [OF keeps_run, of sha w e c op] Cons.prems(2) by (simp add: ok_kept_def)
  from Cons.IH [OF recorded_fresh [OF r Cons.prems(1) assms(3)] this recorded_audited [OF r Cons.prems(3)]]
  have IH: "audited (fold (\<lambda>op w. snd (run_mem_op e c sha op w)) ops ?w)"
    "\<exists>vs. memory_versions (fold (\<lambda>op w. snd (run_mem_op e c sha op w)) ops ?w) = memory_versions ?w @ vs"
    by auto
  moreover have "\<exists>vs. memory_versions ?w = memory_versions w @ vs"
    using r by (auto simp: recorded_def)
  ultimately show ?case by (auto simp del: fold_simps simp: fold_Cons)
qed simp

lemma unrecorded_not_audited:
  assumes "current_of (memories w) i \<noteq> None" "memory_versions w = []"
  shows "\<not> audited w"
proof
  assume "audited w"
  then have "current_of (memories w) = Map.empty" using assms(2) by (simp add: audited_def replay_def)
  then show False using assms(1) by simp
qed

section \<open>Properties\<close>

text \<open>Creating, upserting, updating and deleting memories, in any order and
whatever statements fail, keeps the table well-formed: one memory per identifier and per path
of a store, each in an existing store, with the digest and the size of its content.\<close>

theorem memory_table_invariant:
  assumes "memory_ok sha w"
  shows "memory_ok sha (run_mem_ops e c sha ops w)"
  using assms by (rule run_mem_ops_ok)

definition mem_env :: "(nat \<Rightarrow> string option) \<Rightarrow> env" where
  "mem_env f = \<lparr>clock = \<lambda>n. int n + 1, ulid = nat_str, fault = f\<rparr>"

definition mem_world :: world where
  "mem_world = empty_world\<lparr>memory_stores := [\<lparr>ms_ID = ''st'', ms_TenantID = ''t'', ms_Name = ''prefs'',
     ms_Description = None, ms_ArchivedAt = None, ms_CreatedAt = 0, ms_UpdatedAt = 0\<rparr>]\<rparr>"

definition memo :: "string \<Rightarrow> string \<Rightarrow> CreateMemoryInput" where
  "memo path content = \<lparr>cm_StoreID = ''st'', cm_TenantID = [], cm_Path = path, cm_Content = content\<rparr>"

lemma mem_world_ok [simp]: "memory_ok sha mem_world" "audited mem_world" "mem_fresh e mem_world"
  by (simp_all add: memory_ok_def audited_def mem_fresh_def mem_world_def empty_world_def replay_def current_of_def
      select_one_def fun_eq_iff)

definition demo_ops :: "mem_op list" where
  "demo_ops = [OpCreate (memo ''/a'' ''one''), OpUpsert (memo ''/a'' ''two''), OpCreate (memo ''/b'' ''x''),
     OpUpdate ''mem-0'' ''/b'' None, OpUpdate ''mem-0'' ''/c'' None, OpDelete ''mem-0'']"

lemma memory_table_invariant_witness:
  "memory_ok (\<lambda>s. s) (run_mem_ops (mem_env (\<lambda>n. None)) Background (\<lambda>s. s) (take 4 demo_ops) mem_world)
     \<and> map mm_Path (memories (run_mem_ops (mem_env (\<lambda>n. None)) Background (\<lambda>s. s) (take 4 demo_ops) mem_world)) = [''/a'', ''/b'']"
proof
  show "memory_ok (\<lambda>s. s) (run_mem_ops (mem_env (\<lambda>n. None)) Background (\<lambda>s. s) (take 4 demo_ops) mem_world)"
    by (rule memory_table_invariant) simp
  show "map mm_Path (memories (run_mem_ops (mem_env (\<lambda>n. None)) Background (\<lambda>s. s) (take 4 demo_ops) mem_world)) = [''/a'', ''/b'']"
    by code_simp
qed

text \<open>C6: when statements do not fail, the versions are an audit trail: no
sequence of operations on memories changes or drops a version already written, and replaying
all versions yields exactly the memories there are, with their stores, paths and contents.\<close>

theorem memory_audit_replays:
  assumes "no_faults e" "\<And>n. \<not> cancelled c n" "distinct_ids e" "mem_fresh e w" "memory_ok sha w" "audited w"
  shows "audited (run_mem_ops e c sha ops w)
    \<and> (\<exists>vs. memory_versions (run_mem_ops e c sha ops w) = memory_versions w @ vs)"
  using assms by (rule runs_audited)

lemma memory_audit_replays_witness:
  "audited (run_mem_ops (mem_env (\<lambda>n. None)) Background (\<lambda>s. s) demo_ops mem_world)
     \<and> map mv_Operation (memory_versions (run_mem_ops (mem_env (\<lambda>n. None)) Background (\<lambda>s. s) demo_ops mem_world))
       = [''created'', ''modified'', ''created'', ''modified'', ''deleted'']"
proof
  have "no_faults (mem_env (\<lambda>n. None))" "distinct_ids (mem_env (\<lambda>n. None))"
    by (simp_all add: no_faults_def mem_env_def distinct_ids_def inj_def)
  then show "audited (run_mem_ops (mem_env (\<lambda>n. None)) Background (\<lambda>s. s) demo_ops mem_world)"
    using memory_audit_replays [of "mem_env (\<lambda>n. None)" Background mem_world "\<lambda>s. s" demo_ops] by simp
  show "map mv_Operation (memory_versions (run_mem_ops (mem_env (\<lambda>n. None)) Background (\<lambda>s. s) demo_ops mem_world))
       = [''created'', ''modified'', ''created'', ''modified'', ''deleted'']"
    by code_simp
qed

text \<open>The change and its version are two statements without a transaction:
when only the second one fails, the memory is there, the caller is told that the operation
failed, and no version records it.\<close>

theorem memory_audit_needs_transaction:
  "\<exists>x w'. CreateMemory (mem_env (\<lambda>n. if n = 4 then Some ''disk full'' else None)) Background (\<lambda>s. s) (memo ''/a'' ''one'') mem_world
      = (Inl x, w') \<and> length (memories w') = 1 \<and> memory_versions w' = [] \<and> \<not> audited w'"
proof -
  let ?r = "CreateMemory (mem_env (\<lambda>n. if n = 4 then Some ''disk full'' else None)) Background (\<lambda>s. s) (memo ''/a'' ''one'') mem_world"
  have f: "fst ?r = Inl (DBError ''disk full'')" by code_simp
  have s: "map mm_ID (memories (snd ?r)) = [''mem-0'']" "memory_versions (snd ?r) = []" by code_simp+
  have "current_of (memories (snd ?r)) ''mem-0'' \<noteq> None"
    using s(1) by (auto simp: current_of_def table_simps)
  then have "\<not> audited (snd ?r)" using s(2) by (rule unrecorded_not_audited)
  moreover have "length (memories (snd ?r)) = 1" using s(1) by (metis length_map length_Cons list.size(3) One_nat_def)
  ultimately show ?thesis using f s(2) by (metis prod.collapse)
qed

text \<open>Listing by prefix passes the prefix to \<open>LIKE\<close> as it is: a prefix
with an underscore also lists memories whose path does not start with it, and letters match
in either case.\<close>

theorem prefix_listing_wildcards:
  "like (''/a_b/'' @ ''%'') ''/axb/secret'' \<and> \<not> HasPrefix ''/axb/secret'' ''/a_b/''
     \<and> like (''/team/'' @ ''%'') ''/TEAM/x'' \<and> \<not> HasPrefix ''/TEAM/x'' ''/team/''"
  by code_simp

end
