(* ===== verification/BrokerRace.thy ===== *)
theory BrokerRace
  imports Broker Transition
begin

text \<open>
  \<open>dispatch\<close> as the goroutines of the program interleave it: the snapshot of the
  subscribers is taken under the read lock, the sends happen after it is
  released, and a full channel is closed under the write lock. One session is
  considered; channels are named by their position, publishers by a number.
\<close>

text \<open>A publisher outside dispatch, between two sends, or waiting for the lock to close a full channel.\<close>

datatype pub_state =
    PubIdle
  | PubSending Event "nat list"
  | PubClosing Event nat "nat list"

record race =
  r_subs :: "nat list"
  r_chans :: "chan list"
  r_pubs :: "pub_state list"
  r_panic :: bool

datatype race_action =
    ASnapshot nat Event
  | ASend nat
  | AClose nat
  | ASubscribe
  | AUnsubscribe nat
  | AReceive nat

definition set_pub :: "nat \<Rightarrow> pub_state \<Rightarrow> race \<Rightarrow> race" where
  "set_pub p ps r = r\<lparr>r_pubs := (r_pubs r)[p := ps]\<rparr>"

definition next_send :: "Event \<Rightarrow> nat list \<Rightarrow> pub_state" where
  "next_send ev ks = (if ks = [] then PubIdle else PubSending ev ks)"

definition race_send :: "nat \<Rightarrow> Event \<Rightarrow> nat \<Rightarrow> nat list \<Rightarrow> race \<Rightarrow> race" where
  "race_send p ev k ks r =
     (case try_send ev (r_chans r ! k) of
        Sent ch \<Rightarrow> set_pub p (next_send ev ks) (r\<lparr>r_chans := (r_chans r)[k := ch]\<rparr>)
      | WouldBlock \<Rightarrow> set_pub p (PubClosing ev k ks) r
      | SendPanic \<Rightarrow> r\<lparr>r_panic := True\<rparr>)"

definition race_close :: "nat \<Rightarrow> Event \<Rightarrow> nat \<Rightarrow> nat list \<Rightarrow> race \<Rightarrow> race" where
  "race_close p ev k ks r = set_pub p (next_send ev ks)
     (if k \<in> set (r_subs r)
      then r\<lparr>r_subs := removeAll k (r_subs r), r_chans := (r_chans r)[k := (r_chans r ! k)\<lparr>ch_closed := True\<rparr>]\<rparr>
      else r)"

definition race_receive :: "nat \<Rightarrow> race \<Rightarrow> race option" where
  "race_receive k r =
     (if k < length (r_chans r) then
        (case ch_buf (r_chans r ! k) of [] \<Rightarrow> None
         | ev # rest \<Rightarrow> Some (r\<lparr>r_chans := (r_chans r)[k := (r_chans r ! k)\<lparr>ch_buf := rest\<rparr>]\<rparr>))
      else None)"

definition race_step :: "race_action \<Rightarrow> race \<Rightarrow> race option" where
  "race_step a r =
     (if r_panic r then None else
      case a of
        ASnapshot p ev \<Rightarrow>
          (if p < length (r_pubs r) \<and> r_pubs r ! p = PubIdle
           then Some (set_pub p (next_send ev (r_subs r)) r) else None)
      | ASend p \<Rightarrow>
          (if p < length (r_pubs r) then
             (case r_pubs r ! p of PubSending ev (k # ks) \<Rightarrow> Some (race_send p ev k ks r) | _ \<Rightarrow> None)
           else None)
      | AClose p \<Rightarrow>
          (if p < length (r_pubs r) then
             (case r_pubs r ! p of PubClosing ev k ks \<Rightarrow> Some (race_close p ev k ks r) | _ \<Rightarrow> None)
           else None)
      | ASubscribe \<Rightarrow>
          Some (r\<lparr>r_chans := r_chans r @ [\<lparr>ch_buf = [], ch_closed = False\<rparr>],
                  r_subs := length (r_chans r) # r_subs r\<rparr>)
      | AUnsubscribe k \<Rightarrow> Some (r\<lparr>r_subs := removeAll k (r_subs r)\<rparr>)
      | AReceive k \<Rightarrow> race_receive k r)"

definition race_init :: "nat \<Rightarrow> race" where
  "race_init n = \<lparr>r_subs = [], r_chans = [], r_pubs = replicate n PubIdle, r_panic = False\<rparr>"

section \<open>One publisher at a time\<close>

fun targets :: "pub_state \<Rightarrow> nat list" where
  "targets PubIdle = []"
| "targets (PubSending ev ks) = ks"
| "targets (PubClosing ev k ks) = k # ks"

text \<open>
  With one publisher, the channels it is still to visit are open: only that
  publisher closes channels, and its snapshot has no channel twice.
\<close>

definition solo_ok :: "race \<Rightarrow> bool" where
  "solo_ok r \<longleftrightarrow> \<not> r_panic r \<and> length (r_pubs r) = 1 \<and> distinct (r_subs r)
     \<and> distinct (targets (r_pubs r ! 0))
     \<and> (\<forall>k\<in>set (r_subs r) \<union> set (targets (r_pubs r ! 0)). k < length (r_chans r) \<and> \<not> ch_closed (r_chans r ! k))"

lemma targets_next_send [simp]: "targets (next_send ev ks) = ks"
  by (simp add: next_send_def)

lemma solo_step: "solo_ok r \<Longrightarrow> race_step a r = Some r' \<Longrightarrow> solo_ok r'"
proof (cases a)
  case (ASend p)
  assume r: "solo_ok r" "race_step a r = Some r'"
  then have p: "p = 0" using ASend by (auto simp: race_step_def solo_ok_def split: if_splits)
  then obtain ev k ks where s: "r_pubs r ! 0 = PubSending ev (k # ks)" "r' = race_send 0 ev k ks r"
    using r ASend by (auto simp: race_step_def split: if_splits pub_state.splits list.splits)
  then have k: "k < length (r_chans r)" "\<not> ch_closed (r_chans r ! k)"
    using r(1) by (auto simp: solo_ok_def)
  obtain q where q: "r_pubs r = [q]" using r(1) by (auto simp: solo_ok_def length_Suc_conv)
  show ?thesis
    using r(1) s k q by (auto simp: solo_ok_def race_send_def try_send_def set_pub_def nth_list_update)
next
  case (AClose p)
  assume r: "solo_ok r" "race_step a r = Some r'"
  then have p: "p = 0" using AClose by (auto simp: race_step_def solo_ok_def split: if_splits)
  then obtain ev k ks where s: "r_pubs r ! 0 = PubClosing ev k ks" "r' = race_close 0 ev k ks r"
    using r AClose by (auto simp: race_step_def split: if_splits pub_state.splits list.splits)
  obtain q where q: "r_pubs r = [q]" using r(1) by (auto simp: solo_ok_def length_Suc_conv)
  show ?thesis
    using r(1) s q by (auto simp: solo_ok_def race_close_def set_pub_def nth_list_update
      removeAll_filter_not_eq split: if_splits)
next
  case (ASnapshot p ev)
  assume r: "solo_ok r" "race_step a r = Some r'"
  obtain q where q: "r_pubs r = [q]" using r(1) by (auto simp: solo_ok_def length_Suc_conv)
  show ?thesis
    using r ASnapshot q by (auto simp: solo_ok_def race_step_def set_pub_def split: if_splits)
next
  case ASubscribe
  assume "solo_ok r" "race_step a r = Some r'"
  then show ?thesis using ASubscribe
    by (auto simp: solo_ok_def race_step_def nth_append less_Suc_eq split: if_splits)
next
  case (AUnsubscribe k)
  assume "solo_ok r" "race_step a r = Some r'"
  then show ?thesis using AUnsubscribe
    by (auto simp: solo_ok_def race_step_def removeAll_filter_not_eq split: if_splits)
next
  case (AReceive k)
  assume "solo_ok r" "race_step a r = Some r'"
  then show ?thesis using AReceive
    by (auto simp: solo_ok_def race_step_def race_receive_def nth_list_update split: if_splits list.splits)
qed

interpretation solo: invariant_system race_step "\<lambda>r. r = race_init 1" solo_ok
proof
  fix s assume "s = race_init 1"
  then show "solo_ok s" by (simp add: race_init_def solo_ok_def)
qed (rule solo_step)

section \<open>Properties\<close>

text \<open>As long as one goroutine at a time publishes to a session, no
interleaving of its sends and closes with subscriptions, unsubscriptions and
receives makes a send panic.\<close>

theorem solo_publisher_never_panics:
  "reachable race_step (race_init 1) r \<Longrightarrow> \<not> r_panic r"
  using solo.reachable_inv [of "race_init 1" r] by (simp add: solo_ok_def)

definition race_event :: Event where
  "race_event = \<lparr>be_ID = ''evt-1'', be_SessionID = ''s'', be_ThreadID = ''primary'',
     be_Type = ''user.message'', be_Seq = 1, be_Payload = Some (JObj []), be_ProcessedAt = 0\<rparr>"

lemma solo_publisher_never_panics_witness:
  "\<exists>r. run_actions race_step [ASubscribe, ASnapshot 0 race_event, ASend 0] (race_init 1) = Some r \<and> \<not> r_panic r"
proof -
  have "run_actions race_step [ASubscribe, ASnapshot 0 race_event, ASend 0] (race_init 1) \<noteq> None"
    by code_simp
  then show ?thesis
    using solo_publisher_never_panics [OF run_actions_reachable] by blast
qed

text \<open>The state after \<open>n\<close> publications to one subscriber that reads nothing.\<close>

definition backlog :: "nat \<Rightarrow> race" where
  "backlog n = \<lparr>r_subs = [0], r_chans = [\<lparr>ch_buf = replicate n race_event, ch_closed = False\<rparr>],
     r_pubs = [PubIdle, PubIdle], r_panic = False\<rparr>"

lemma run_actions_append:
  "run_actions f (as @ bs) s = (case run_actions f as s of None \<Rightarrow> None | Some t \<Rightarrow> run_actions f bs t)"
  by (induction as arbitrary: s) (auto split: option.splits)

lemma backlog_step:
  "n < chan_cap \<Longrightarrow> run_actions race_step [ASnapshot 0 race_event, ASend 0] (backlog n) = Some (backlog (Suc n))"
  by (simp add: race_step_def backlog_def set_pub_def next_send_def race_send_def try_send_def
      replicate_append_same)

definition fill :: "nat \<Rightarrow> race_action list" where
  "fill n = concat (replicate n [ASnapshot 0 race_event, ASend 0])"

lemma backlog_fill: "m + n \<le> chan_cap \<Longrightarrow> run_actions race_step (fill n) (backlog m) = Some (backlog (m + n))"
proof (induction n arbitrary: m)
  case 0
  then show ?case by (simp add: fill_def)
next
  case (Suc n)
  have "fill (Suc n) = [ASnapshot 0 race_event, ASend 0] @ fill n" by (simp add: fill_def)
  then show ?case
    using Suc.IH [of "Suc m"] Suc.prems backlog_step [of m]
    by (simp only: run_actions_append) simp
qed

text \<open>With two goroutines publishing to one session, a send on a
closed channel is reachable: both take their snapshot while a slow subscriber's
buffer is full, one finds it full and closes it, the other then sends on it. The
schedule is explicit: one subscriber, 64 events nobody reads, two more publications.\<close>

theorem concurrent_publishers_can_panic:
  "\<exists>r. run_actions race_step (ASubscribe # fill 64 @
      [ASnapshot 0 race_event, ASnapshot 1 race_event, ASend 0, AClose 0, ASend 1]) (race_init 2) = Some r
     \<and> reachable race_step (race_init 2) r \<and> r_panic r"
proof -
  let ?as = "ASubscribe # fill 64 @ [ASnapshot 0 race_event, ASnapshot 1 race_event, ASend 0, AClose 0, ASend 1]"
  have "race_step ASubscribe (race_init 2) = Some (backlog 0)"
    by (simp add: race_step_def race_init_def backlog_def numeral_2_eq_2)
  moreover have "run_actions race_step (fill 64) (backlog 0) = Some (backlog 64)"
    using backlog_fill [of 0 64] by (simp add: chan_cap_def)
  moreover have "map_option r_panic (run_actions race_step
      [ASnapshot 0 race_event, ASnapshot 1 race_event, ASend 0, AClose 0, ASend 1] (backlog 64)) = Some True"
    by (simp add: race_step_def backlog_def set_pub_def next_send_def race_send_def race_close_def
        try_send_def chan_cap_def)
  ultimately have "map_option r_panic (run_actions race_step ?as (race_init 2)) = Some True"
    by (simp only: run_actions.simps run_actions_append option.case)
  then obtain r where r: "run_actions race_step ?as (race_init 2) = Some r" "r_panic r"
    unfolding map_option_eq_Some by blast
  show ?thesis by (intro exI [of _ r] conjI r run_actions_reachable [OF r(1)])
qed

end
