(* ===== verification/HarnessTurn.thy ===== *)
theory HarnessTurn
  imports TurnSetup
begin

text \<open>
  One turn of an agent (\<open>RunThread\<close> of \<open>internal/harness/harness.go\<close>): set up, compact, resolve
  confirmations, then alternate model calls and tool calls until the model stops, the user must
  act, or the bound on model calls is reached; whatever fails is turned into a final status.
\<close>

section \<open>Payloads\<close>

definition status_running_payload :: raw where
  "status_running_payload = Some (JObj [(''type'', JStr ''session.status_running'')])"

definition idle_payload :: "string \<Rightarrow> raw" where
  "idle_payload reason = Some (JObj [(''stop_reason'', JObj [(''type'', JStr reason)]),
     (''type'', JStr ''session.status_idle'')])"

definition terminated_payload :: "gerr \<Rightarrow> raw" where
  "terminated_payload err = Some (JObj
     [(''error'', JObj [(''message'', JStr (err_str err)), (''type'', JStr ''agent_error'')]),
      (''type'', JStr ''session.status_terminated'')])"

definition request_start_payload :: "string \<Rightarrow> int \<Rightarrow> raw" where
  "request_start_payload model step = Some (JObj [(''model'', JStr model), (''step'', jint step),
     (''type'', JStr ''span.model_request_start'')])"

definition request_end_payload :: "string \<Rightarrow> int \<Rightarrow> string \<Rightarrow> usage \<Rightarrow> raw" where
  "request_end_payload model step reason u = Some (JObj
     [(''finish_reason'', JStr reason), (''model'', JStr model),
      (''model_usage'', JObj
        [(''cache_creation_input_tokens'', jint (u_CacheCreation u)), (''cache_read_input_tokens'', jint (u_CacheRead u)),
         (''input_tokens'', jint (u_InputTokens u)), (''output_tokens'', jint (u_OutputTokens u))]),
      (''step'', jint step), (''type'', JStr ''span.model_request_end'')])"

definition agent_message_payload :: "string \<Rightarrow> raw" where
  "agent_message_payload s = Some (JObj
     [(''content'', JArr [JObj [(''text'', JStr s), (''type'', JStr ''text'')]]), (''type'', JStr ''agent.message'')])"

definition tool_use_payload_of :: "string \<Rightarrow> pendingToolUse \<Rightarrow> raw \<Rightarrow> bool \<Rightarrow> raw" where
  "tool_use_payload_of ty pt input confirm = marshal_obj
     ([(''id'', Some (JStr (pt_ID pt))), (''input'', input), (''name'', Some (JStr (pt_Name pt)))]
      @ (if confirm then [(''requires_confirmation'', Some (JBool True))] else [])
      @ [(''type'', Some (JStr ty))])"

definition violation_payload :: "pendingToolUse \<Rightarrow> string \<Rightarrow> raw" where
  "violation_payload pt reason = Some (JObj [(''name'', JStr (pt_Name pt)), (''reason'', JStr reason),
     (''tool_use_id'', JStr (pt_ID pt)), (''type'', JStr ''agent.guardrail_violation'')])"

text \<open>Here the input is embedded as it came: an empty one is no document, and marshalling fails.\<close>

definition requires_action_payload :: "string \<Rightarrow> pendingToolUse \<Rightarrow> raw" where
  "requires_action_payload sid pt =
     (case jparse (pt_InputJSON pt) of
        None \<Rightarrow> None
      | Some v \<Rightarrow> Some (JObj
          [(''agent_session_id'', JStr sid),
           (''required_actions'', JArr [JObj
             [(''custom_tool_use'', JObj [(''id'', JStr (pt_ID pt)), (''input'', v), (''name'', JStr (pt_Name pt))]),
              (''type'', JStr ''custom_tool_use'')]]),
           (''type'', JStr ''session.status_requires_action'')]))"

section \<open>The turn\<close>

text \<open>What is fixed during the loop of a turn.\<close>

record turn =
  tn_Session :: string
  tn_Thread :: string
  tn_Model :: string
  tn_System :: string
  tn_Guardrails :: "AgentGuardrails option"
  tn_Custom :: "tool_def list"
  tn_Permissions :: permissionDecider
  tn_MCP :: "mcpSession option"

definition isCustomTool :: "turn \<Rightarrow> string \<Rightarrow> bool" where
  "isCustomTool t name \<longleftrightarrow> name \<in> td_Name ` set (tn_Custom t)"

definition needs_approval :: "turn \<Rightarrow> string \<Rightarrow> bool" where
  "needs_approval t name =
     requiresApproval (tn_Permissions t) name (isMCPTool (tn_MCP t) name) (isCustomTool t name)"

definition toolUseEvType :: "turn \<Rightarrow> string \<Rightarrow> string" where
  "toolUseEvType t name =
     (if isMCPTool (tn_MCP t) name then ''agent.mcp_tool_use''
      else if isCustomTool t name then ''agent.custom_tool_use'' else ''agent.tool_use'')"

definition tool_input :: "pendingToolUse \<Rightarrow> raw" where
  "tool_input pt = (if pt_InputJSON pt = [] then Some (JObj []) else jparse (pt_InputJSON pt))"

text \<open>\<open>_, _ = h.Broker.Publish(...)\<close>.\<close>

definition emit :: "env \<Rightarrow> ctx \<Rightarrow> turn \<Rightarrow> string \<Rightarrow> raw \<Rightarrow> (world, unit) io" where
  "emit e c t ty payload = ignoreE (Publish e c (tn_Session t) ty (tn_Thread t) payload)"

text \<open>One pending tool call; the result says whether the turn is over.\<close>

definition run_tool :: "env \<Rightarrow> ctx \<Rightarrow> harness \<Rightarrow> turn \<Rightarrow> pendingToolUse \<Rightarrow> (world, bool) io" where
  "run_tool e c h t pt =
     (let name = pt_Name pt; ty = toolUseEvType t name; input = tool_input pt; confirm = needs_approval t name in
      bindE (Publish e c (tn_Session t) ty (tn_Thread t) (tool_use_payload_of ty pt input confirm)) (\<lambda>useEv.
        let (allowed, reason) = toolAllowedByGuardrails (tn_Guardrails t) name in
        if \<not> allowed then
          bindE (emit e c t ''agent.guardrail_violation'' (violation_payload pt reason)) (\<lambda>_.
          bindE (publishToolResult e c (tn_Session t) (tn_Thread t)
                   (if isMCPTool (tn_MCP t) name then ''agent.mcp_tool_result'' else ''agent.tool_result'')
                   (pt_ID pt) (be_ID useEv) reason True) (\<lambda>_. returnE False))
        else if isCustomTool t name then
          bindE (ignoreE (UpdateSessionStatus e c (tn_Session t) ''requires_action'')) (\<lambda>_.
          bindE (ignoreE (GetSession e c (tn_Session t))) (\<lambda>_.
          bindE (emit e c t ''session.status_requires_action'' (requires_action_payload (tn_Session t) pt))
            (\<lambda>_. returnE True)))
        else if confirm then
          bindE (ignoreE (UpdateSessionStatus e c (tn_Session t) ''idle'')) (\<lambda>_.
          bindE (emit e c t ''session.status_idle'' (requiresActionIdlePayload [be_ID useEv])) (\<lambda>_. returnE True))
        else
          bindE (executeServerTool h (tn_MCP t) name input) (\<lambda>(content, isErr).
          bindE (publishToolResult e c (tn_Session t) (tn_Thread t) (toolResultEventType ty)
                   (pt_ID pt) (be_ID useEv) content isErr) (\<lambda>_. returnE False))))"

fun run_tools :: "env \<Rightarrow> ctx \<Rightarrow> harness \<Rightarrow> turn \<Rightarrow> pendingToolUse list \<Rightarrow> (world, bool) io" where
  "run_tools e c h t [] = returnE False"
| "run_tools e c h t (pt # pts) =
     bindE (run_tool e c h t pt) (\<lambda>over. if over then returnE True else run_tools e c h t pts)"

text \<open>How a step of the loop ends: go on, the turn is over, or the model stopped for a reason.\<close>

datatype outcome = Continue | Paused | Ended string

definition model_request :: "harness \<Rightarrow> turn \<Rightarrow> message list \<Rightarrow> chat_request" where
  "model_request h t msgs = \<lparr>cr_Model = tn_Model t, cr_System = tn_System t, cr_Messages = msgs,
     cr_Tools = toProviderTools (h_Builtins h @ tn_Custom t) @ providerToolDefs (tn_MCP t), cr_MaxTokens = 4096\<rparr>"

definition ctx_checkE :: "ctx \<Rightarrow> (world, unit) io" where
  "ctx_checkE c w = (case ctx_err c (tick w) of Some err \<Rightarrow> (Inl err, w) | None \<Rightarrow> (Inr (), w))"

definition record_result :: "env \<Rightarrow> ctx \<Rightarrow> turn \<Rightarrow> int \<Rightarrow> modelResult \<Rightarrow> (world, unit) io" where
  "record_result e c t step res =
     (let u = mr_usage res in
      bindE (emit e c t ''span.model_request_end'' (request_end_payload (tn_Model t) step (mr_stopReason res) u)) (\<lambda>_.
      bindE (ignoreE (UpdateSessionUsage e c (tn_Session t) (u_InputTokens u) (u_OutputTokens u)
                        (u_CacheCreation u) (u_CacheRead u))) (\<lambda>_.
      if mr_text res \<noteq> [] then emit e c t ''agent.message'' (agent_message_payload (mr_text res)) else returnE ())))"

definition turn_step :: "env \<Rightarrow> ctx \<Rightarrow> harness \<Rightarrow> turn \<Rightarrow> int \<Rightarrow> (world, outcome) io" where
  "turn_step e c h t step =
     bindE (ctx_checkE c) (\<lambda>_.
     bindE (wrapE ''build messages'' (buildMessages e c (tn_Session t) (tn_Thread t))) (\<lambda>msgs.
     bindE (emit e c t ''span.model_request_start'' (request_start_payload (tn_Model t) step)) (\<lambda>_.
     bindE (callModelWithRetry e c h (tn_Session t) (model_request h t msgs)) (\<lambda>res.
     bindE (record_result e c t step res) (\<lambda>_.
     if mr_tools res \<noteq> [] then
       bindE (run_tools e c h t (mr_tools res)) (\<lambda>over. returnE (if over then Paused else Continue))
     else returnE (Ended (if mr_stopReason res = [] then ''end_turn'' else mr_stopReason res)))))))"

text \<open>\<open>for step := 0; step < h.MaxSteps; step++\<close>, with the number of steps left.\<close>

fun turn_loop :: "env \<Rightarrow> ctx \<Rightarrow> harness \<Rightarrow> turn \<Rightarrow> nat \<Rightarrow> int \<Rightarrow> (world, outcome) io" where
  "turn_loop e c h t 0 step = returnE (Ended ''max_turns'')"
| "turn_loop e c h t (Suc n) step =
     bindE (turn_step e c h t step) (\<lambda>out.
       case out of Continue \<Rightarrow> turn_loop e c h t n (step + 1) | _ \<Rightarrow> returnE out)"

definition provisionE :: "harness \<Rightarrow> (world, unit) io" where
  "provisionE h = bindE (askE (h_Provision h)) (\<lambda>r. case r of None \<Rightarrow> returnE () | Some err \<Rightarrow> throwE err)"

text \<open>A failing mount is logged, and its text is empty.\<close>

definition extrasE :: "(world, string) io \<Rightarrow> (world, string) io" where
  "extrasE m = catchE m (\<lambda>err. returnE [])"

definition turn_of :: "string \<Rightarrow> string \<Rightarrow> agentConfig \<Rightarrow> string \<Rightarrow> mcpSession option \<Rightarrow> turn" where
  "turn_of sid thread cfg extras mcp = \<lparr>tn_Session = sid, tn_Thread = thread, tn_Model = parseModelID (ac_Model cfg),
     tn_System = ac_System cfg @ extras, tn_Guardrails = ac_Guardrails cfg,
     tn_Custom = parseCustomToolDefs (ac_Tools cfg), tn_Permissions = newPermissionDecider (ac_Tools cfg), tn_MCP = mcp\<rparr>"

definition vault_ids :: "SessionRow \<Rightarrow> string list" where
  "vault_ids sess = fst (unmarshal (dec_list [] dec_str) [] (ss_VaultIDs sess))"

definition set_up :: "env \<Rightarrow> ctx \<Rightarrow> harness \<Rightarrow> string \<Rightarrow> string \<Rightarrow> (world, turn) io" where
  "set_up e c h sid thread =
     bindE (wrapE ''get session'' (GetSession e c sid)) (\<lambda>sess.
     bindE (wrapE ''provision sandbox'' (provisionE h)) (\<lambda>_.
     bindE (connectMCP h (ss_TenantID sess) (vault_ids sess) (ss_AgentSnapshot sess)) (\<lambda>mcp.
     bindE (extrasE (mountSkills e c h (ss_AgentSnapshot sess))) (\<lambda>skillExtras.
     bindE (extrasE (mountResources e c h sid)) (\<lambda>resExtras.
     returnE (turn_of sid thread (agent_config (ss_AgentSnapshot sess)) (skillExtras @ resExtras) mcp))))))"

definition end_turn :: "env \<Rightarrow> ctx \<Rightarrow> turn \<Rightarrow> outcome \<Rightarrow> (world, unit) io" where
  "end_turn e c t out =
     (case out of
        Ended reason \<Rightarrow>
          bindE (ignoreE (UpdateSessionStatus e c (tn_Session t) ''idle'')) (\<lambda>_.
          emit e c t ''session.status_idle'' (idle_payload reason))
      | _ \<Rightarrow> returnE ())"

definition turn_body :: "env \<Rightarrow> ctx \<Rightarrow> harness \<Rightarrow> string \<Rightarrow> string \<Rightarrow> (world, unit) io" where
  "turn_body e c h sid thread =
     bindE (set_up e c h sid thread) (\<lambda>t.
     bindE (ignoreE (UpdateSessionStatus e c sid ''running'')) (\<lambda>_.
     bindE (emit e c t ''session.status_running'' status_running_payload) (\<lambda>_.
     bindE (ignoreE (maybeCompact e c h sid thread (tn_Model t))) (\<lambda>_.
     bindE (wrapE ''resolve tool confirmations'' (resolvePendingToolConfirmations e c h (tn_MCP t) sid thread)) (\<lambda>_.
     bindE (turn_loop e c h t (nat (h_MaxSteps h)) 0) (end_turn e c t))))))"

text \<open>The deferred function: an interruption ends idle, any other error ends the session.\<close>

definition settle_error :: "env \<Rightarrow> string \<Rightarrow> string \<Rightarrow> gerr \<Rightarrow> (world, unit) io" where
  "settle_error e sid thread err =
     (if errors_is err Canceled then
        bindE (ignoreE (UpdateSessionStatus e Background sid ''idle'')) (\<lambda>_.
        ignoreE (Publish e Background sid ''session.status_idle'' thread (idle_payload ''interrupt'')))
      else
        bindE (ignoreE (MarkSessionTerminated e Background sid)) (\<lambda>_.
        bindE (ignoreE (Publish e Background sid ''session.status_terminated'' thread (terminated_payload err))) (\<lambda>_.
        throwE err)))"

definition RunThread :: "env \<Rightarrow> ctx \<Rightarrow> harness \<Rightarrow> string \<Rightarrow> string \<Rightarrow> (world, unit) io" where
  "RunThread e c h sid thread0 =
     (let thread = or_primary thread0
      in catchE (turn_body e c h sid thread) (settle_error e sid thread))"

definition RunTurn :: "env \<Rightarrow> ctx \<Rightarrow> harness \<Rightarrow> string \<Rightarrow> (world, unit) io" where
  "RunTurn e c h sid = RunThread e c h sid ''primary''"

end
