(* ===== verification/TurnFrame.thy ===== *)
theory TurnFrame
  imports HarnessTurn KeptRelations "HOL-Library.Sublist"
begin

text \<open>
  What a turn can change: the log of its own session grows at the end, other sessions are not
  touched, the well-formedness of the log and the broker is kept, and the logs of model and tool
  calls grow. Proved once for every operation a turn is made of, with a calculus of relations
  that the combinators keep.
\<close>

section \<open>Kept relations on the operations of a turn\<close>

lemma set_up_session: "set_up e c h sid thread w = (Inr t, w') \<Longrightarrow> tn_Session t = sid"
  by (auto simp: set_up_def turn_of_def bindE_Inr_iff returnE_def)

context kept begin

lemma mapping: "keeps R m \<Longrightarrow> keeps R (mapR f m)"
  unfolding mapR_def by (auto intro!: bind return)

lemma check: "keeps R (ctx_checkE c)"
  by (simp add: keeps_def ctx_checkE_def refl split: option.splits)

lemma backoff: "keeps R (backoffE c)"
  by (simp add: keeps_def backoffE_def Let_def tick_step split: option.splits)

end

section \<open>The operations of a turn\<close>

text \<open>The loop calls the tools that it lets through.\<close>

definition admitted :: "turn \<Rightarrow> string \<Rightarrow> bool" where
  "admitted t name \<longleftrightarrow> fst (toolAllowedByGuardrails (tn_Guardrails t) name) \<and> \<not> isCustomTool t name
     \<and> \<not> needs_approval t name"

text \<open>
  The operations a turn touches the outside with: a relation they keep, for the calls of tools
  that \<open>A\<close> admits, is kept by everything built from them.
\<close>

locale turn_relation = kept R for R +
  fixes e :: env and h :: harness and sid :: string and A :: "string \<Rightarrow> bool"
  assumes publish: "keeps R (Publish e c' sid ty thread payload)"
    and status: "keeps R (UpdateSessionStatus e c' sid st)"
    and usage: "keeps R (UpdateSessionUsage e c' sid a b u v)"
    and terminate: "keeps R (MarkSessionTerminated e c' sid)"
    and tool: "A name \<Longrightarrow> keeps R (call_tool name input f)"
begin

lemma emitting: "tn_Session t = sid \<Longrightarrow> keeps R (emit e c' t ty payload)"
  unfolding emit_def by (simp add: ignore publish)

lemma result: "keeps R (publishToolResult e c' sid thread ty i j content isErr)"
  unfolding publishToolResult_def by (intro ignore publish)

lemma reads:
  "keeps R (GetSession e c' i)" "keeps R (ListEvents e c' i types)" "keeps R (GetSkill e c' i)"
  "keeps R (GetFile e c' i)" "keeps R (GetStore e c' i)" "keeps R (ListSessionResources e c' i)"
  "keeps R (ListMemories e c' i pre limit)" "keeps R (buildMessages e c' i thread)"
  by (auto simp: GetSession_def ListEvents_def GetSkill_def GetFile_def GetStore_def GetMemoryStore_def
      ListSessionResources_def ListMemories_def GetMemory_def buildMessages_def
      intro!: bind query opt mapping maploop return)

lemma execution: "A name \<Longrightarrow> keeps R (executeServerTool h m name input)"
  unfolding executeServerTool_def mcp_call_def run_builtin_def
  by (auto intro!: bind return tool split: option.splits)

lemma resolving: "(\<And>n. A n) \<Longrightarrow> keeps R (resolvePendingToolConfirmations e c' h m sid thread)"
  unfolding resolvePendingToolConfirmations_def resolve_one_def Let_def
  by (auto intro!: bind reads forloop return result execution split: option.splits)

lemma connecting: "keeps R (connectMCP h tenant vaultIDs snapshot)"
proof -
  have one: "keeps R (connect_one h tenant vaultIDs d ms)" for d ms
    unfolding connect_one_def auth_header_def by (auto intro!: bind return ask split: option.splits)
  have "keeps R (connect_all h tenant vaultIDs ds ms)" for ds ms
    by (induction ds arbitrary: ms) (auto intro!: bind return one)
  then show ?thesis
    unfolding connectMCP_def by (auto intro!: bind return split: option.splits prod.splits bool.splits)
qed

lemma writing: "keeps R (write_file h path content)" "keeps R (exec_io x args n)"
  unfolding write_file_def by (auto intro!: bind ask return throw split: option.splits)
    (simp add: keeps_def exec_io_def tick_step)

lemma mounting:
  "keeps R (mountSkills e c' h snapshot)" "keeps R (mountResources e c' h i)"
proof -
  show "keeps R (mountSkills e c' h snapshot)"
    unfolding mountSkills_def mount_skill_def mount_skill_file_def Let_def
    by (auto intro!: bind maploop forloop wrapping reads writing return throw split: prod.splits bool.splits)
  have mem: "keeps R (parseMemoryResource e c' h res)" for res
    unfolding parseMemoryResource_def Let_def by (auto intro!: catch mapping reads return)
  have files: "keeps R (mountFileResource e c' h res)" for res
    unfolding mountFileResource_def
    by (auto intro!: bind wrapping reads writing return throw split: prod.splits bool.splits)
  have all: "keeps R (collect_resources e c' h rs)" for rs
    by (induction rs) (auto intro!: bind mapping mem files return)
  have mount: "keeps R (MountToSandbox e c' x spec)" for x spec
    unfolding MountToSandbox_def mount_one_def Let_def
    by (auto intro!: bind reads forloop wrapping writing return throw)
  show "keeps R (mountResources e c' h i)"
    unfolding mountResources_def by (auto intro!: bind reads all forloop mount return)
qed

lemma setting_up: "keeps R (set_up e c' h sid thread)"
  unfolding set_up_def provisionE_def extrasE_def
  by (auto intro!: bind wrapping reads ask connecting catch mounting return throw split: option.splits)

lemma running_tool:
  assumes t: "tn_Session t = sid" and A: "\<And>n. admitted t n \<Longrightarrow> A n"
  shows "keeps R (run_tool e c' h t pt)"
  unfolding run_tool_def Let_def t
  by (auto intro!: bind emitting [OF t] ignore status reads publish result return execution A
      simp: admitted_def split: prod.splits)

lemma running_tools:
  assumes t: "tn_Session t = sid" and A: "\<And>n. admitted t n \<Longrightarrow> A n"
  shows "keeps R (run_tools e c' h t pts)"
  by (induction pts) (auto intro!: bind running_tool [OF t A] return)

lemma recording: "tn_Session t = sid \<Longrightarrow> keeps R (record_result e c' t step res)"
  unfolding record_result_def Let_def by (simp add: bind emitting ignore usage return)

lemma ending: "tn_Session t = sid \<Longrightarrow> keeps R (end_turn e c' t ov)"
  unfolding end_turn_def by (simp add: bind ignore status emitting return split: outcome.splits)

lemma settling: "keeps R (settle_error e sid thread err)"
  unfolding settle_error_def by (auto intro!: bind ignore status publish terminate throw)

end

text \<open>A relation that calls of the model keep as well.\<close>

locale model_relation = turn_relation +
  assumes model: "keeps R (stream h req)"
begin

lemma compute: "keeps R m \<Longrightarrow> keeps R (bindE m (\<lambda>x w. (g x, w)))"
  by (rule bind) (auto simp: keeps_def refl)

lemma compaction: "keeps R (maybeCompact e c' h sid thread model)"
  unfolding maybeCompact_def write_checkpoint_def summarize_def
  by (auto intro!: bind reads return publish compute model split: option.splits)

lemma calling: "keeps R (callModelWithRetry e c' h sid req)"
proof -
  have again: "keeps R (reschedule e c' h sid attempt err)" for attempt err
    unfolding reschedule_def by (auto intro!: bind ignore status publish backoff return)
  have once: "keeps R (callModelOnce h req)"
    unfolding callModelOnce_def by (intro compute model)
  have "keeps R (retry_loop e c' h sid req n attempt err)" for n attempt err
    by (induction n arbitrary: attempt err) (auto intro!: bind catch again once return throw)
  then show ?thesis by (simp add: callModelWithRetry_def)
qed

lemma stepping:
  assumes t: "tn_Session t = sid" and A: "\<And>n. admitted t n \<Longrightarrow> A n"
  shows "keeps R (turn_step e c' h t step)"
  unfolding turn_step_def t
  by (auto intro!: bind check wrapping reads emitting [OF t] calling recording [OF t] running_tools [OF t A] return)

lemma looping:
  assumes t: "tn_Session t = sid" and A: "\<And>n. admitted t n \<Longrightarrow> A n"
  shows "keeps R (turn_loop e c' h t n step)"
  by (induction n arbitrary: step) (auto intro!: bind stepping [OF t A] return split: outcome.splits)

lemma whole_body:
  assumes A: "\<And>n. A n"
  shows "keeps R (turn_body e c' h sid thread)"
  unfolding turn_body_def
proof (rule bind_post [OF setting_up])
  fix t w w' assume "set_up e c' h sid thread w = (Inr t, w')"
  then have t: "tn_Session t = sid" by (rule set_up_session)
  show "keeps R (bindE (ignoreE (UpdateSessionStatus e c' sid ''running'')) (\<lambda>_.
      bindE (emit e c' t ''session.status_running'' status_running_payload) (\<lambda>_.
      bindE (ignoreE (maybeCompact e c' h sid thread (tn_Model t))) (\<lambda>_.
      bindE (wrapE ''resolve tool confirmations'' (resolvePendingToolConfirmations e c' h (tn_MCP t) sid thread)) (\<lambda>_.
      bindE (turn_loop e c' h t (nat (h_MaxSteps h)) 0) (end_turn e c' t))))))"
    by (intro bind ignore status emitting [OF t] compaction wrapping resolving looping [OF t] ending [OF t] A)
qed

lemma whole_turn: "(\<And>n. A n) \<Longrightarrow> keeps R (RunThread e c' h sid thread)"
  unfolding RunThread_def Let_def by (intro catch whole_body settling)

end

section \<open>The turn's own session\<close>

text \<open>
  The relation of a turn: the log of the session grows at its end, the tables of the other
  sessions are as they were, well-formedness and good health are kept, and the logs of model
  and tool calls grow.
\<close>

definition grows :: "env \<Rightarrow> string \<Rightarrow> world \<Rightarrow> world \<Rightarrow> bool" where
  "grows e sid w w' \<longleftrightarrow> tick w \<le> tick w' \<and> (broker_ok w \<longrightarrow> broker_ok w') \<and> (healthy e w \<longrightarrow> healthy e w')
     \<and> (\<forall>i. (session_by i w' = None) = (session_by i w = None)) \<and> (\<forall>i. i \<noteq> sid \<longrightarrow> session_by i w' = session_by i w)
     \<and> (log_ok w \<longrightarrow> log_ok w' \<and> prefix (session_events sid w) (session_events sid w')
          \<and> (\<forall>i. i \<noteq> sid \<longrightarrow> session_events i w' = session_events i w))
     \<and> prefix (llm_log w) (llm_log w') \<and> prefix (exec_log w) (exec_log w')"

lemma grows_refl: "grows e sid w w"
  by (simp add: grows_def)

lemma grows_trans: "grows e sid a b \<Longrightarrow> grows e sid b d \<Longrightarrow> grows e sid a d"
  unfolding grows_def by (auto intro: prefix_order.trans)


lemma grows_frame:
  assumes "sessions w' = sessions w" "events w' = events w" "chans w' = chans w" "subs w' = subs w" "panicked w' = panicked w"
    "tick w \<le> tick w'" "prefix (llm_log w) (llm_log w')" "prefix (exec_log w) (exec_log w')"
  shows "grows e sid w w'"
proof -
  have "log_ok w' = log_ok w" by (rule log_ok_frame) (use assms in simp_all)
  moreover have "broker_ok w' = broker_ok w" by (rule broker_ok_frame) (use assms in simp_all)
  ultimately show ?thesis
    using assms by (auto simp: grows_def healthy_def fresh_ids_def session_by_def session_events_def)
qed

text \<open>An update of the row of the session that keeps its key and its sequence counter.\<close>

lemma grows_update:
  assumes "\<And>r. ss_ID (f r) = ss_ID r" "\<And>r. ss_NextSeq (f r) = ss_NextSeq r" "tick w \<le> n"
  shows "grows e sid w (on_session sid f (w\<lparr>tick := n\<rparr>))"
proof -
  let ?w = "on_session sid f (w\<lparr>tick := n\<rparr>)"
  have log: "log_ok ?w = log_ok w"
    by (rule log_ok_frame) (simp_all add: on_session_def update_where_def comp_def assms if_distrib cong: if_cong)
  have bro: "broker_ok ?w = broker_ok w"
    by (rule broker_ok_frame) (simp_all add: on_session_def)
  have other: "session_by i ?w = session_by i w" if "i \<noteq> sid" for i
    using that assms(1) by (auto simp: on_session_def session_by_def intro: select_one_update_other)
  have none: "(session_by i ?w = None) = (session_by i w = None)" for i
    using assms(1) by (simp add: on_session_def session_by_def select_one_update_None)
  have evs: "session_events i ?w = session_events i w" for i
    by (simp add: on_session_def session_events_def)
  show ?thesis
    using assms(3) log bro other none evs
    by (auto simp: grows_def healthy_def fresh_ids_def on_session_def)
qed

lemma published_row_of:
  assumes "published e sid ty thread payload w row w'"
  shows "i \<noteq> sid \<Longrightarrow> session_by i w' = session_by i w" "llm_log w' = llm_log w" "exec_log w' = exec_log w"
    "map_option ss_Status (session_by i w') = map_option ss_Status (session_by i w)"
proof -
  have ss: "sessions w' = update_where (\<lambda>r. ss_ID r = sid) (\<lambda>r. r\<lparr>ss_NextSeq := ss_NextSeq r + 1\<rparr>) (sessions w)"
    using assms by (auto simp: published_def Let_def)
  show other: "session_by i w' = session_by i w" if "i \<noteq> sid"
    using that by (auto simp: session_by_def ss intro: select_one_update_other)
  show "map_option ss_Status (session_by i w') = map_option ss_Status (session_by i w)"
  proof (cases "i = sid")
    case True
    have "session_by sid w' = map_option (\<lambda>r. r\<lparr>ss_NextSeq := ss_NextSeq r + 1\<rparr>) (session_by sid w)"
      unfolding session_by_def ss by (rule select_one_update) simp
    then show ?thesis by (simp add: True option.map_comp comp_def)
  qed (simp add: other)
  show "llm_log w' = llm_log w" "exec_log w' = exec_log w"
    using assms by (auto simp: published_def Let_def)
qed

lemma grows_publish: "grows e sid w (snd (Publish e c sid ty thread payload w))"
proof (cases rule: Publish_cases [of e c sid "ty" thread payload w])
  case (err x d)
  then show ?thesis by (auto intro: grows_frame)
next
  case (ok row w')
  note p = ok(2)
  have fresh: "healthy e w \<Longrightarrow> healthy e w'"
    using dispatch_fresh [OF p] published_log(1) [OF p] published_broker(1) [OF p] by (simp add: healthy_def)
  have "grows e sid w w'"
    unfolding grows_def
    using fresh published_log [OF p] published_broker(1) [OF p] published_session [OF p] published_row_of [OF p]
    by auto
  then show ?thesis using ok(1) by simp
qed

lemma grows_session_update:
  "grows e sid w (snd (UpdateSessionStatus e c sid st w))"
  "grows e sid w (snd (UpdateSessionUsage e c sid a b u v w))"
  "grows e sid w (snd (MarkSessionTerminated e c sid w))"
proof -
  have t: "grows e sid w (w\<lparr>tick := n\<rparr>)" if "tick w \<le> n" for n
    using that by (intro grows_frame) simp_all
  show "grows e sid w (snd (UpdateSessionStatus e c sid st w))"
    by (rule UpdateSessionStatus_cases [of e c sid st w]) (auto intro!: t grows_update)
  show "grows e sid w (snd (UpdateSessionUsage e c sid a b u v w))"
    by (auto simp: UpdateSessionUsage_def bindE_def updateE_def stmt_run returnE_def intro!: t grows_update
        split: sum.splits)
  show "grows e sid w (snd (MarkSessionTerminated e c sid w))"
    by (auto simp: MarkSessionTerminated_def bindE_def updateE_def stmt_run now_def returnE_def intro!: t grows_update
        split: sum.splits)
qed

interpretation growing: model_relation "grows e sid" e h sid "\<lambda>_. True" for e h sid
proof
  show "keeps (grows e sid) (stream h req)" for req
    by (auto simp: keeps_def stream_def intro!: grows_frame)
  show "keeps (grows e sid) (call_tool name input f)" for name input f
    by (auto simp: keeps_def call_tool_def intro!: grows_frame)
qed (auto simp: keeps_def grows_refl grows_publish grows_session_update intro: grows_trans grows_frame)

end
