(* ===== verification/TurnProperties.thy ===== *)
theory TurnProperties
  imports TurnFrame
begin

text \<open>
  What a turn guarantees: what it may touch, how many calls of the model it makes, which tools
  it runs on its own, and that it never leaves the session running.
\<close>

section \<open>Calls of the model\<close>

definition silent :: "world \<Rightarrow> world \<Rightarrow> bool" where
  "silent w w' \<longleftrightarrow> llm_log w' = llm_log w"

lemma silent_session_update:
  "silent w (snd (UpdateSessionStatus e c sid st w))"
  "silent w (snd (UpdateSessionUsage e c sid a b u v w))"
  "silent w (snd (MarkSessionTerminated e c sid w))"
  by (simp_all add: silent_def UpdateSessionStatus_logs UpdateSessionUsage_def MarkSessionTerminated_def bindE_def
      updateE_def stmt_run now_def returnE_def on_session_def split: sum.splits)

interpretation silence: turn_relation silent e h sid "\<lambda>_. True" for e h sid
proof
  show "keeps silent (Publish e c' sid ty thread payload)" for c' ty thread payload
    by (simp add: keeps_def silent_def Publish_logs)
  show "keeps silent (call_tool name input f)" for name input f
    by (simp add: keeps_def silent_def call_tool_def)
qed (simp_all add: keeps_def silent_session_update, simp_all add: silent_def)

text \<open>\<open>k\<close> is a bound on the calls of the model an operation makes.\<close>

definition calls_at_most :: "nat \<Rightarrow> (world, 'a) io \<Rightarrow> bool" where
  "calls_at_most k m \<longleftrightarrow> keeps (\<lambda>w w'. length (llm_log w') \<le> length (llm_log w) + k) m"

lemma calls_none: "keeps silent m \<Longrightarrow> calls_at_most 0 m"
  by (simp add: calls_at_most_def keeps_def silent_def)

lemma calls_mono: "calls_at_most k m \<Longrightarrow> k \<le> n \<Longrightarrow> calls_at_most n m"
  unfolding calls_at_most_def keeps_def by (meson add_left_mono le_trans)

lemma calls_bind:
  assumes "calls_at_most k m" "\<And>x w w'. m w = (Inr x, w') \<Longrightarrow> calls_at_most n (f x)"
  shows "calls_at_most (k + n) (bindE m f)"
  unfolding calls_at_most_def
proof (rule keepsI)
  fix w
  obtain r w' where m: "m w = (r, w')" by (cases "m w")
  have k: "length (llm_log w') \<le> length (llm_log w) + k"
    using keepsD [OF assms(1) [unfolded calls_at_most_def], of w] m by simp
  show "length (llm_log (snd (bindE m f w))) \<le> length (llm_log w) + (k + n)"
  proof (cases r)
    case (Inl x)
    then show ?thesis using m k by (simp add: bindE_Inl)
  next
    case (Inr x)
    then have "length (llm_log (snd (f x w'))) \<le> length (llm_log w') + n"
      using keepsD [OF assms(2) [unfolded calls_at_most_def]] m by blast
    then show ?thesis using m k Inr by (simp add: bindE_Inr)
  qed
qed

lemma calls_bind0:
  assumes "keeps silent m" "\<And>x w w'. m w = (Inr x, w') \<Longrightarrow> calls_at_most n (f x)"
  shows "calls_at_most n (bindE m f)"
  using calls_bind [OF calls_none [OF assms(1)] assms(2)] by simp

lemma calls_then0:
  assumes "calls_at_most n m" "\<And>x. keeps silent (f x)"
  shows "calls_at_most n (bindE m f)"
  using calls_bind [OF assms(1) calls_none [OF assms(2)]] by simp

lemma calls_return: "calls_at_most n (returnE x)"
  by (rule calls_mono [OF calls_none [OF silence.return]]) simp

lemma calls_ignore: "calls_at_most k m \<Longrightarrow> calls_at_most k (ignoreE m)"
  by (simp add: calls_at_most_def keeps_def ignoreE_def)

lemma calls_compact: "calls_at_most 1 (maybeCompact e c h sid thread model)"
proof -
  have "calls_at_most 1 (stream h req)" for req
    by (simp add: calls_at_most_def keeps_def stream_def)
  then have sum: "calls_at_most 1 (summarize h model m)" for m
    unfolding summarize_def by (rule calls_then0) (simp add: keeps_def silent_def)
  have wr: "calls_at_most 1 (write_checkpoint e c h sid thread model plan)" for plan
    unfolding write_checkpoint_def
    by (rule calls_then0 [OF sum]) (auto intro!: silence.bind silence.publish silence.return)
  show ?thesis
    unfolding maybeCompact_def
    by (auto intro!: calls_return calls_bind0 [OF silence.reads(8)] calls_bind0 [OF silence.reads(2)] wr
        simp del: One_nat_def split: option.splits)
qed

lemma calls_retry: "calls_at_most (nat (h_MaxRetries h + 1)) (callModelWithRetry e c h sid req)"
  unfolding calls_at_most_def
proof (rule keepsI)
  fix w
  have "retried req (nat (h_MaxRetries h + 1)) w (fst (callModelWithRetry e c h sid req w)) (snd (callModelWithRetry e c h sid req w))"
    by (rule retry_loop_retried) (simp add: callModelWithRetry_def)
  then show "length (llm_log (snd (callModelWithRetry e c h sid req w))) \<le> length (llm_log w) + nat (h_MaxRetries h + 1)"
    by (auto simp: retried_def)
qed

lemma calls_loop:
  assumes t: "tn_Session t = sid"
  shows "calls_at_most (n * nat (h_MaxRetries h + 1)) (turn_loop e c h t n step)"
proof (induction n arbitrary: step)
  case 0
  then show ?case by (simp add: calls_none silence.return)
next
  case (Suc n)
  have one: "calls_at_most (nat (h_MaxRetries h + 1)) (turn_step e c h t step)"
    unfolding turn_step_def
    by (intro calls_bind0 [OF silence.check] calls_bind0 [OF silence.wrapping [OF silence.reads(8)]]
        calls_bind0 [OF silence.emitting [OF t]] calls_then0 [OF calls_retry])
      (auto simp: t intro!: silence.bind silence.recording [OF t] silence.running_tools [OF t] silence.return calls_retry)
  have rest: "calls_at_most (n * nat (h_MaxRetries h + 1))
      (case ov of Continue \<Rightarrow> turn_loop e c h t n (step + 1) | _ \<Rightarrow> returnE ov)" for ov
    by (cases ov) (simp_all add: Suc.IH calls_return)
  have "calls_at_most (nat (h_MaxRetries h + 1) + n * nat (h_MaxRetries h + 1)) (turn_loop e c h t (Suc n) step)"
    using calls_bind [OF one rest] by simp
  then show ?case by (simp only: mult_Suc)
qed

lemma calls_catch: "calls_at_most n m \<Longrightarrow> (\<And>x. keeps silent (g x)) \<Longrightarrow> calls_at_most n (catchE m g)"
  unfolding calls_at_most_def keeps_def silent_def catchE_def by (auto split: prod.splits sum.splits) (metis snd_conv)+

lemma calls_turn: "calls_at_most (1 + nat (h_MaxSteps h) * nat (h_MaxRetries h + 1)) (RunThread e c h sid thread)"
proof -
  have "calls_at_most (1 + nat (h_MaxSteps h) * nat (h_MaxRetries h + 1)) (turn_body e c h sid thread)" for thread
    unfolding turn_body_def
  proof (rule calls_bind0 [OF silence.setting_up])
    fix t w w' assume "set_up e c h sid thread w = (Inr t, w')"
    then have t: "tn_Session t = sid" by (rule set_up_session)
    have loop: "calls_at_most (nat (h_MaxSteps h) * nat (h_MaxRetries h + 1))
        (bindE (wrapE ''resolve tool confirmations'' (resolvePendingToolConfirmations e c h (tn_MCP t) sid thread)) (\<lambda>_.
         bindE (turn_loop e c h t (nat (h_MaxSteps h)) 0) (end_turn e c t)))"
      by (rule calls_bind0 [OF silence.wrapping [OF silence.resolving]], simp)
        (rule calls_then0 [OF calls_loop [OF t] silence.ending [OF t]])
    show "calls_at_most (1 + nat (h_MaxSteps h) * nat (h_MaxRetries h + 1))
        (bindE (ignoreE (UpdateSessionStatus e c sid ''running'')) (\<lambda>_.
         bindE (emit e c t ''session.status_running'' status_running_payload) (\<lambda>_.
         bindE (ignoreE (maybeCompact e c h sid thread (tn_Model t))) (\<lambda>_.
         bindE (wrapE ''resolve tool confirmations'' (resolvePendingToolConfirmations e c h (tn_MCP t) sid thread)) (\<lambda>_.
         bindE (turn_loop e c h t (nat (h_MaxSteps h)) 0) (end_turn e c t))))))"
      by (rule calls_bind0 [OF silence.ignore [OF silence.status]], rule calls_bind0 [OF silence.emitting [OF t]])
        (rule calls_bind [OF calls_ignore [OF calls_compact] loop])
  qed
  then show ?thesis
    unfolding RunThread_def Let_def by (rule calls_catch) (rule silence.settling)
qed

section \<open>Tools the loop runs\<close>

definition ran :: "(string \<Rightarrow> bool) \<Rightarrow> world \<Rightarrow> world \<Rightarrow> bool" where
  "ran A w w' \<longleftrightarrow> (\<exists>xs. exec_log w' = exec_log w @ xs \<and> (\<forall>x\<in>set xs. A (fst x)))"

lemma ran_same: "exec_log w' = exec_log w \<Longrightarrow> ran A w w'"
  by (simp add: ran_def)

lemma ran_trans: "ran A a b \<Longrightarrow> ran A b d \<Longrightarrow> ran A a d"
  unfolding ran_def by (metis Un_iff append.assoc set_append)

interpretation running: model_relation "ran A" e h sid A for A e h sid
proof
  show "keeps (ran A) (UpdateSessionStatus e c sid st)" for c st
    by (simp add: keeps_def ran_same UpdateSessionStatus_logs)
  show "keeps (ran A) (UpdateSessionUsage e c sid a b u v)" for c a b u v
    by (auto simp: keeps_def UpdateSessionUsage_def bindE_def updateE_def stmt_run returnE_def on_session_def
        intro!: ran_same split: sum.splits)
  show "keeps (ran A) (MarkSessionTerminated e c sid)" for c
    by (auto simp: keeps_def MarkSessionTerminated_def bindE_def updateE_def stmt_run now_def returnE_def on_session_def
        intro!: ran_same split: sum.splits)
  show "keeps (ran A) (call_tool name input f)" if "A name" for name input f
    using that by (simp add: keeps_def ran_def call_tool_def)
qed (auto simp: keeps_def Publish_logs stream_def ran_same intro: ran_trans)

section \<open>How a turn leaves its session\<close>

definition status_of :: "string \<Rightarrow> world \<Rightarrow> string option" where
  "status_of sid w = map_option ss_Status (session_by sid w)"

definition settled :: "string \<Rightarrow> string \<Rightarrow> string \<Rightarrow> world \<Rightarrow> bool" where
  "settled sid st ty w \<longleftrightarrow> status_of sid w = Some st
     \<and> (\<exists>rs row. session_events sid w = rs @ [row] \<and> ev_Type row = ty)"

definition alive :: "env \<Rightarrow> string \<Rightarrow> world \<Rightarrow> bool" where
  "alive e sid w \<longleftrightarrow> healthy e w \<and> session_by sid w \<noteq> None"

lemma alive_grows: "alive e sid w \<Longrightarrow> grows e sid w w' \<Longrightarrow> alive e sid w'"
  by (simp add: alive_def grows_def)

lemma alive_keeps: "keeps (grows e sid) m \<Longrightarrow> alive e sid w \<Longrightarrow> wp m (\<lambda>r w'. alive e sid w') w"
proof (rule wpI)
  fix r w' assume k: "keeps (grows e sid) m" and a: "alive e sid w" and run: "m w = (r, w')"
  have "grows e sid w w'" using keepsD [OF k, of w] run by simp
  then show "alive e sid w'" by (rule alive_grows [OF a])
qed

lemma status_update:
  assumes "alive e sid w" "\<And>n. \<not> cancelled c n" "status_allowed st"
  shows "wp (UpdateSessionStatus e c sid st) (\<lambda>r w'. alive e sid w' \<and> status_of sid w' = Some st) w"
proof -
  let ?f = "\<lambda>r. r\<lparr>ss_Status := st, ss_UpdatedAt := clock e (tick w)\<rparr>"
  have nf: "no_faults e" using assms(1) by (simp add: alive_def healthy_def)
  obtain s where s: "session_by sid w = Some s" using assms(1) by (auto simp: alive_def)
  have run: "UpdateSessionStatus e c sid st w = (Inr (), on_session sid ?f (w\<lparr>tick := Suc (Suc (tick w))\<rparr>))"
    using assms(3) by (simp add: UpdateSessionStatus_def bindE_def now_def insertE_def stmt_run
        stmt_res_ok [OF nf assms(2)])
  have "session_by sid (on_session sid ?f (w\<lparr>tick := Suc (Suc (tick w))\<rparr>)) = Some (?f s)"
    using s by (simp add: on_session_def session_by_def select_one_update)
  moreover have "alive e sid (on_session sid ?f (w\<lparr>tick := Suc (Suc (tick w))\<rparr>))"
    by (rule alive_grows [OF assms(1) grows_update]) simp_all
  ultimately show ?thesis by (auto simp: wp_def run status_of_def)
qed

lemma mark_terminated:
  assumes "alive e sid w" "\<And>n. \<not> cancelled c n"
  shows "wp (MarkSessionTerminated e c sid) (\<lambda>r w'. r = Inr () \<and> alive e sid w' \<and> status_of sid w' = Some ''terminated'') w"
proof -
  let ?f = "\<lambda>r. r\<lparr>ss_Status := ''terminated'', ss_TerminatedAt := Some (clock e (tick w)), ss_UpdatedAt := clock e (tick w)\<rparr>"
  have nf: "no_faults e" using assms(1) by (simp add: alive_def healthy_def)
  obtain s where s: "session_by sid w = Some s" using assms(1) by (auto simp: alive_def)
  have run: "MarkSessionTerminated e c sid w = (Inr (), on_session sid ?f (w\<lparr>tick := Suc (Suc (tick w))\<rparr>))"
    by (simp add: MarkSessionTerminated_def bindE_def now_def updateE_def stmt_run returnE_def stmt_res_ok [OF nf assms(2)])
  have "session_by sid (on_session sid ?f (w\<lparr>tick := Suc (Suc (tick w))\<rparr>)) = Some (?f s)"
    using s by (simp add: on_session_def session_by_def select_one_update)
  moreover have "alive e sid (on_session sid ?f (w\<lparr>tick := Suc (Suc (tick w))\<rparr>))"
    by (rule alive_grows [OF assms(1) grows_update]) simp_all
  ultimately show ?thesis by (auto simp: wp_def run status_of_def)
qed

lemma announcing:
  assumes "alive e sid w" "\<And>n. \<not> cancelled c n" "payload \<noteq> None" "status_of sid w = Some st"
  shows "wp (ignoreE (Publish e c sid ty thread payload)) (\<lambda>r w'. r = Inr () \<and> alive e sid w' \<and> settled sid st ty w') w"
proof (rule Publish_succeeds [of e w c sid payload "ty" thread])
  show "healthy e w" "session_by sid w \<noteq> None" using assms(1) by (simp_all add: alive_def)
next
  fix row w'
  assume run: "Publish e c sid ty thread payload w = (Inr (event_of_row row), w')"
    and p: "published e sid ty thread payload w row w'" and h: "healthy e w'"
  have "log_ok w" using assms(1) by (simp add: alive_def healthy_def)
  note L = published_log(2) [OF p this]
  have "session_by sid w' \<noteq> None" using assms(1) published_session(1) [OF p] by (simp add: alive_def)
  moreover have "status_of sid w' = Some st" using assms(4) published_row_of(4) [OF p] by (simp add: status_of_def)
  moreover have "ev_Type row = ty" using p by (auto simp: published_def)
  ultimately show ?thesis using run h L by (auto simp: wp_def ignoreE_def alive_def settled_def)
qed (use assms in simp_all)

lemma wp_ignoring:
  assumes "wp m R w" "\<And>r w'. R r w' \<Longrightarrow> wp (f ()) Q w'"
  shows "wp (bindE (ignoreE m) f) Q w"
proof (rule wp_bind [where R = "\<lambda>r w'. r = Inr () \<and> (\<exists>r'. R r' w')"])
  show "wp (ignoreE m) (\<lambda>r w'. r = Inr () \<and> (\<exists>r'. R r' w')) w"
    by (rule wp_ignore [OF assms(1)]) auto
qed (use assms(2) in auto)

text \<open>The ways a turn says that it is over.\<close>

lemma settle_idle:
  assumes "alive e sid w" "\<And>n. \<not> cancelled c n" "payload \<noteq> None"
  shows "wp (bindE (ignoreE (UpdateSessionStatus e c sid ''idle'')) (\<lambda>_. ignoreE (Publish e c sid ty thread payload)))
    (\<lambda>r w'. r = Inr () \<and> alive e sid w' \<and> settled sid ''idle'' ty w') w"
proof (rule wp_ignoring [OF status_update [OF assms(1,2)]])
  fix r w1 assume "alive e sid w1 \<and> status_of sid w1 = Some ''idle''"
  then have "alive e sid w1" "status_of sid w1 = Some ''idle''" by simp_all
  then show "wp (ignoreE (Publish e c sid ty thread payload)) (\<lambda>r w'. r = Inr () \<and> alive e sid w' \<and> settled sid ''idle'' ty w') w1"
    by (rule announcing [OF _ assms(2,3)])
qed (simp add: status_allowed_def)

lemma settle_error_post:
  assumes "alive e sid w"
  shows "wp (settle_error e sid thread err)
    (\<lambda>r w'. case r of Inl x \<Rightarrow> x = err \<and> \<not> errors_is err Canceled \<and> settled sid ''terminated'' ''session.status_terminated'' w'
       | Inr u \<Rightarrow> settled sid ''idle'' ''session.status_idle'' w') w"
proof (cases "errors_is err Canceled")
  case True
  have "wp (bindE (ignoreE (UpdateSessionStatus e Background sid ''idle'')) (\<lambda>_. ignoreE (Publish e Background sid
      ''session.status_idle'' thread (idle_payload ''interrupt''))))
    (\<lambda>r w'. r = Inr () \<and> alive e sid w' \<and> settled sid ''idle'' ''session.status_idle'' w') w"
    by (rule settle_idle [OF assms]) (simp_all add: idle_payload_def)
  then show ?thesis
    unfolding settle_error_def using True by simp (erule wp_mono, simp)
next
  case False
  have bg: "\<not> cancelled Background n" for n by simp
  have "wp (bindE (ignoreE (MarkSessionTerminated e Background sid)) (\<lambda>_.
      bindE (ignoreE (Publish e Background sid ''session.status_terminated'' thread (terminated_payload err))) (\<lambda>_. throwE err)))
    (\<lambda>r w'. r = Inl err \<and> settled sid ''terminated'' ''session.status_terminated'' w') w"
  proof (rule wp_ignoring [OF mark_terminated [OF assms bg]])
    fix r w1 assume "r = Inr () \<and> alive e sid w1 \<and> status_of sid w1 = Some ''terminated''"
    then have a: "alive e sid w1" "status_of sid w1 = Some ''terminated''" by simp_all
    have p: "terminated_payload err \<noteq> None" by (simp add: terminated_payload_def)
    show "wp (bindE (ignoreE (Publish e Background sid ''session.status_terminated'' thread (terminated_payload err)))
        (\<lambda>_. throwE err)) (\<lambda>r w'. r = Inl err \<and> settled sid ''terminated'' ''session.status_terminated'' w') w1"
      by (rule wp_bind [OF announcing [OF a(1) bg p a(2)]]) (auto simp: wp_simps)
  qed
  then show ?thesis
    unfolding settle_error_def if_not_P [OF False] by (rule wp_mono) (use False in simp)
qed

lemma status_emit: "status_of i (snd (emit e c t ty payload w)) = status_of i w"
  by (rule Publish_cases [of e c "tn_Session t" "ty" "tn_Thread t" payload w])
    (auto simp: emit_def ignoreE_def status_of_def session_by_def dest: published_row_of(4) [where i = i])

text \<open>A turn that pauses leaves the session idle, or waiting for the client.\<close>

definition paused :: "string \<Rightarrow> world \<Rightarrow> bool" where
  "paused sid w \<longleftrightarrow> settled sid ''idle'' ''session.status_idle'' w \<or> status_of sid w = Some ''requires_action''"

lemma alive_emit: "tn_Session t = sid \<Longrightarrow> alive e sid w \<Longrightarrow> wp (emit e c t ty payload) (\<lambda>r w'. alive e sid w') w"
  by (rule alive_keeps [OF growing.emitting])

lemma run_tool_pauses:
  assumes t: "tn_Session t = sid" and c: "\<And>n. \<not> cancelled c n" and a: "alive e sid w"
  shows "wp (run_tool e c h t pt) (\<lambda>r w'. r = Inr True \<longrightarrow> paused sid w') w"
  unfolding run_tool_def Let_def t
proof (rule wp_bind [OF alive_keeps [OF growing.publish a]], simp)
  fix useEv w1 assume a1: "alive e sid w1"
  have stays: "wp (bindE m (\<lambda>x. bindE (f x) (\<lambda>_. returnE False))) (\<lambda>r w'. r = Inr True \<longrightarrow> paused sid w') w1"
    for m :: "(world, 'a) io" and f :: "'a \<Rightarrow> (world, 'b) io"
    by (rule wpI) (auto simp: bindE_def returnE_def split: prod.splits sum.splits)
  have waits: "wp (bindE (ignoreE (UpdateSessionStatus e c sid ''requires_action'')) (\<lambda>_.
      bindE (ignoreE (GetSession e c sid)) (\<lambda>_.
      bindE (emit e c t ''session.status_requires_action'' (requires_action_payload sid pt)) (\<lambda>_. returnE True))))
     (\<lambda>r w'. r = Inr True \<longrightarrow> paused sid w') w1"
  proof (rule wp_ignoring [OF status_update [OF a1 c]])
    fix r w2 assume "alive e sid w2 \<and> status_of sid w2 = Some ''requires_action''"
    then have "status_of sid (snd (GetSession e c sid w2)) = Some ''requires_action''"
      by (auto simp: GetSession_def bindE_def queryE_def stmt_run getsE_def optE_def throwE_def returnE_def status_of_def
          session_by_def split: sum.splits option.splits)
    then show "wp (bindE (ignoreE (GetSession e c sid)) (\<lambda>_.
      bindE (emit e c t ''session.status_requires_action'' (requires_action_payload sid pt)) (\<lambda>_. returnE True)))
     (\<lambda>r w'. r = Inr True \<longrightarrow> paused sid w') w2"
      using status_emit [of sid e c t "''session.status_requires_action''" "requires_action_payload sid pt"]
      by (auto simp: wp_def bindE_def ignoreE_def returnE_def paused_def split: prod.splits sum.splits)
        (metis snd_conv)+
  qed (simp add: status_allowed_def)
  have asks: "wp (bindE (ignoreE (UpdateSessionStatus e c sid ''idle'')) (\<lambda>_.
      bindE (emit e c t ''session.status_idle'' (requiresActionIdlePayload [be_ID useEv])) (\<lambda>_. returnE True)))
     (\<lambda>r w'. r = Inr True \<longrightarrow> paused sid w') w1"
  proof (rule wp_ignoring [OF status_update [OF a1 c]])
    fix r w2 assume "alive e sid w2 \<and> status_of sid w2 = Some ''idle''"
    then have a2: "alive e sid w2" "status_of sid w2 = Some ''idle''" by simp_all
    show "wp (bindE (emit e c t ''session.status_idle'' (requiresActionIdlePayload [be_ID useEv])) (\<lambda>_. returnE True))
     (\<lambda>r w'. r = Inr True \<longrightarrow> paused sid w') w2"
      unfolding emit_def t
      by (rule wp_bind [OF announcing [OF a2(1) c _ a2(2)]]) (auto simp: wp_simps paused_def requiresActionIdlePayload_def)
  qed (simp add: status_allowed_def)
  show "wp (case toolAllowedByGuardrails (tn_Guardrails t) (pt_Name pt) of (allowed, reason) \<Rightarrow> 
        if \<not> allowed then
          bindE (emit e c t ''agent.guardrail_violation'' (violation_payload pt reason)) (\<lambda>_.
          bindE (publishToolResult e c sid (tn_Thread t)
                   (if isMCPTool (tn_MCP t) (pt_Name pt) then ''agent.mcp_tool_result'' else ''agent.tool_result'')
                   (pt_ID pt) (be_ID useEv) reason True) (\<lambda>_. returnE False))
        else if isCustomTool t (pt_Name pt) then
          bindE (ignoreE (UpdateSessionStatus e c sid ''requires_action'')) (\<lambda>_.
          bindE (ignoreE (GetSession e c sid)) (\<lambda>_.
          bindE (emit e c t ''session.status_requires_action'' (requires_action_payload sid pt))
            (\<lambda>_. returnE True)))
        else if needs_approval t (pt_Name pt) then
          bindE (ignoreE (UpdateSessionStatus e c sid ''idle'')) (\<lambda>_.
          bindE (emit e c t ''session.status_idle'' (requiresActionIdlePayload [be_ID useEv])) (\<lambda>_. returnE True))
        else
          bindE (executeServerTool h (tn_MCP t) (pt_Name pt) (tool_input pt)) (\<lambda>(content, isErr).
          bindE (publishToolResult e c sid (tn_Thread t) (toolResultEventType (toolUseEvType t (pt_Name pt)))
                   (pt_ID pt) (be_ID useEv) content isErr) (\<lambda>_. returnE False)))
     (\<lambda>r w'. r = Inr True \<longrightarrow> paused sid w') w1"
    by (rule wp_prod_I) (auto intro!: wp_if_I stays waits asks simp: case_prod_unfold)
qed

lemma run_tools_pauses:
  assumes t: "tn_Session t = sid" and c: "\<And>n. \<not> cancelled c n"
  shows "alive e sid w \<Longrightarrow> wp (run_tools e c h t pts) (\<lambda>r w'. r = Inr True \<longrightarrow> paused sid w') w"
proof (induction pts arbitrary: w)
  case Nil
  then show ?case by (simp add: wp_simps)
next
  case (Cons pt pts)
  have "wp (run_tool e c h t pt) (\<lambda>r w'. alive e sid w' \<and> (r = Inr True \<longrightarrow> paused sid w')) w"
    using run_tool_pauses [OF t c Cons.prems, of h pt] alive_keeps [OF growing.running_tool [OF t] Cons.prems, of c h pt]
    by (simp add: wp_def case_prod_unfold)
  then show ?case
    unfolding run_tools.simps by (rule wp_bind) (auto simp: wp_simps Cons.IH)
qed

lemma turn_step_pauses:
  assumes t: "tn_Session t = sid" and c: "\<And>n. \<not> cancelled c n" and a: "alive e sid w"
  shows "wp (turn_step e c h t step) (\<lambda>r w'. r = Inr Paused \<longrightarrow> paused sid w') w"
  unfolding turn_step_def
proof ((rule wp_bind [OF alive_keeps [OF growing.check a]], simp), goal_cases)
  case (1 u1 w1)
  show ?case
  proof ((rule wp_bind [OF alive_keeps [OF growing.wrapping [OF growing.reads(8)] 1]], simp), goal_cases)
    case (1 msgs w2)
    show ?case
    proof ((rule wp_bind [OF alive_emit [OF t 1]], simp), goal_cases)
      case (1 u3 w3)
      show ?case
        unfolding t
      proof ((rule wp_bind [OF alive_keeps [OF growing.calling 1]], simp), goal_cases)
        case (1 res w4)
        show ?case
        proof ((rule wp_bind [OF alive_keeps [OF growing.recording [OF t] 1]], simp), goal_cases)
          case (1 u5 w5)
          show ?case
            by (rule wp_if_I, rule wp_bind [OF run_tools_pauses [OF t c 1]]) (auto simp: wp_simps)
        qed
      qed
    qed
  qed
qed

lemma turn_loop_pauses:
  assumes t: "tn_Session t = sid" and c: "\<And>n. \<not> cancelled c n"
  shows "alive e sid w \<Longrightarrow> wp (turn_loop e c h t n step) (\<lambda>r w'. r = Inr Paused \<longrightarrow> paused sid w') w"
proof (induction n arbitrary: w step)
  case 0
  then show ?case by (simp add: wp_simps)
next
  case (Suc n)
  have "keeps (grows e sid) (turn_step e c h t step)" by (rule growing.stepping [OF t]) simp
  then have "wp (turn_step e c h t step) (\<lambda>r w'. alive e sid w' \<and> (r = Inr Paused \<longrightarrow> paused sid w')) w"
    using turn_step_pauses [OF t c Suc.prems, of h step] alive_keeps [OF _ Suc.prems, of "turn_step e c h t step"]
    by (simp add: wp_def case_prod_unfold)
  then show ?case
    unfolding turn_loop.simps by (rule wp_bind) (auto simp: wp_simps Suc.IH split: outcome.splits)
qed

lemma turn_loop_ends: "fst (turn_loop e c h t n step w) \<noteq> Inr Continue"
  by (induction n arbitrary: w step) (auto simp: returnE_def bindE_def split: prod.splits sum.splits outcome.splits)

lemma turn_end_pauses:
  assumes t: "tn_Session t = sid" and c: "\<And>n. \<not> cancelled c n" and a: "alive e sid w"
  shows "wp (bindE (turn_loop e c h t n step) (end_turn e c t)) (\<lambda>r w'. r = Inr () \<longrightarrow> paused sid w') w"
proof -
  have "keeps (grows e sid) (turn_loop e c h t n step)" by (rule growing.looping [OF t]) simp
  then have "wp (turn_loop e c h t n step)
      (\<lambda>r w'. alive e sid w' \<and> (r = Inr Paused \<longrightarrow> paused sid w') \<and> r \<noteq> Inr Continue) w"
    using turn_loop_pauses [OF t c a, of h n step] alive_keeps [OF _ a, of "turn_loop e c h t n step"]
      turn_loop_ends [of e c h t n step w]
    by (simp add: wp_def case_prod_unfold)
  then show ?thesis
  proof (rule wp_bind)
    fix ov w6 assume o: "alive e sid w6 \<and> (Inr ov = Inr Paused \<longrightarrow> paused sid w6) \<and> Inr ov \<noteq> Inr Continue"
    show "wp (end_turn e c t ov) (\<lambda>r w'. r = Inr () \<longrightarrow> paused sid w') w6"
    proof (cases ov)
      case (Ended reason)
      show ?thesis
        unfolding end_turn_def Ended outcome.case t emit_def
        by (rule wp_mono [OF settle_idle [where e = e and c = c]]) (use o c in \<open>simp_all add: idle_payload_def paused_def\<close>)
    qed (use o in \<open>simp_all add: end_turn_def wp_simps\<close>)
  qed simp
qed

lemma turn_body_settles:
  assumes c: "\<And>n. \<not> cancelled c n" and a: "alive e sid w"
  shows "wp (turn_body e c h sid thread) (\<lambda>r w'. r = Inr () \<longrightarrow> paused sid w') w"
  unfolding turn_body_def
proof (rule wp_bind [where R = "\<lambda>r w'. alive e sid w' \<and> (\<forall>t. r = Inr t \<longrightarrow> tn_Session t = sid)"], goal_cases)
  case 1
  show ?case
    using alive_keeps [OF growing.setting_up a, of c h thread] by (auto simp: wp_def dest: set_up_session split: prod.splits)
next
  case (3 t w1)
  then have a1: "alive e sid w1" and t: "tn_Session t = sid" by simp_all
  show ?case
  proof ((rule wp_bind [OF alive_keeps [OF growing.ignore [OF growing.status] a1]], simp), goal_cases)
    case (1 u w2)
    show ?case
    proof ((rule wp_bind [OF alive_emit [OF t 1]], simp), goal_cases)
      case (1 u w3)
      show ?case
      proof ((rule wp_bind [OF alive_keeps [OF growing.ignore [OF growing.compaction] 1]], simp), goal_cases)
        case (1 u w4)
        have "keeps (grows e sid) (resolvePendingToolConfirmations e c h (tn_MCP t) sid thread)"
          by (rule growing.resolving) simp
        then show ?case
          by (rule wp_bind [OF alive_keeps [OF growing.wrapping 1]]) (simp_all add: turn_end_pauses [OF t c])
      qed
    qed
  qed
qed simp

section \<open>Properties\<close>

text \<open>C16: a turn touches its own session only: it keeps the log and the broker
well-formed, extends the session's log at its end, and leaves the rows and the logs of all other
sessions as they were, whatever fails and whenever it is cancelled.\<close>

theorem turn_touches_only_its_session:
  assumes "log_ok w" "broker_ok w" "RunThread e c h sid thread w = (r, w')"
  shows "log_ok w' \<and> broker_ok w' \<and> prefix (session_events sid w) (session_events sid w')
    \<and> (\<forall>i. i = sid \<or> session_events i w' = session_events i w \<and> session_by i w' = session_by i w)"
proof -
  have "keeps (grows e sid) (RunThread e c h sid thread)" by (rule growing.whole_turn) simp
  from keepsD [OF this, of w] show ?thesis using assms by (auto simp: grows_def)
qed

text \<open>A turn calls the model at most once for compaction and then once per
step and retry.\<close>

theorem model_calls_are_bounded:
  "length (llm_log (snd (RunThread e c h sid thread w)))
     \<le> length (llm_log w) + 1 + nat (h_MaxSteps h) * nat (h_MaxRetries h + 1)"
  using keepsD [OF calls_turn [unfolded calls_at_most_def], where w = w] by simp

text \<open>C35: on its own the loop runs only tools that the guardrails let through, that
are not the client's, and that need no approval.\<close>

theorem loop_runs_only_admitted_tools:
  assumes "turn_loop e c h t n step w = (r, w')"
  shows "\<exists>xs. exec_log w' = exec_log w @ xs \<and> (\<forall>x\<in>set xs. fst (toolAllowedByGuardrails (tn_Guardrails t) (fst x))
     \<and> \<not> isCustomTool t (fst x) \<and> \<not> needs_approval t (fst x))"
proof -
  have "keeps (ran (admitted t)) (turn_loop e c h t n step)" by (rule running.looping [OF refl])
  from keepsD [OF this, of w] show ?thesis using assms by (simp add: ran_def admitted_def)
qed


section \<open>Demonstrations\<close>

definition short_harness :: harness where
  "short_harness = (plain_harness (\<lambda>n req. Inr [StopReason ''end_turn'' zero_usage]))
     \<lparr>h_MaxSteps := 1, h_MaxRetries := 0\<rparr>"

lemma turn_touches_only_its_session_witness:
  "log_ok (snd (RunThread demo_env Background short_harness ''s'' [] demo_world))
     \<and> prefix (session_events ''s'' demo_world) (session_events ''s'' (snd (RunThread demo_env Background short_harness ''s'' [] demo_world)))"
  using turn_touches_only_its_session [OF demo_ok prod.collapse [symmetric], of demo_env Background short_harness "''s''" "[]"]
  by blast

definition plain_turn :: turn where
  "plain_turn = turn_of ''s'' ''primary'' zero_config [] None"

lemma loop_runs_only_admitted_tools_witness:
  "\<exists>xs. exec_log (snd (turn_loop demo_env Background bash_harness plain_turn 5 0 demo_world)) = xs
     \<and> (\<forall>x\<in>set xs. \<not> needs_approval plain_turn (fst x))"
proof -
  have v: "exec_log demo_world = []" by code_simp
  show ?thesis
    using loop_runs_only_admitted_tools [OF prod.collapse [symmetric], of demo_env Background bash_harness plain_turn 5 0 demo_world] v
    by auto
qed

lemma alive_demo: "alive demo_env ''s'' demo_world"
proof -
  have "healthy demo_env demo_world"
    by (rule healthy_demo [OF demo_ok, where ks = "[]"]) (code_simp+)
  moreover have "session_by ''s'' demo_world \<noteq> None" by code_simp
  ultimately show ?thesis by (simp add: alive_def)
qed


lemma Publish_cancelled:
  assumes "cancelled c (tick w)"
  obtains d where "Publish e c sid ty thread payload w = (Inl Canceled, w\<lparr>tick := d\<rparr>)"
  using assms
  by (auto simp: Publish_def AppendEvent_def in_tx_def bindE_def Let_def cancelled_stmts stmt_cancelled now_def NewID_def)

text \<open>A cancellation that arrives once the loop has ended leaves the session as it was,
running: the final update and event use the cancelled context, their errors are dropped, and the
turn returns without an error, so that nothing settles it.\<close>

theorem late_interrupt_leaves_running:
  assumes "turn_loop e c h t n step w = (Inr (Ended reason), w1)" "cancelled c (tick w1)"
  shows "\<exists>w'. bindE (turn_loop e c h t n step) (end_turn e c t) w = (Inr (), w')
    \<and> status_of sid w' = status_of sid w1 \<and> events w' = events w1"
proof -
  have c: "cancelled c (Suc m)" if "tick w1 \<le> m" for m using assms(2) that cancelled_mono by fastforce
  have "UpdateSessionStatus e c (tn_Session t) ''idle'' w1 = (Inl Canceled, w1\<lparr>tick := Suc (Suc (tick w1))\<rparr>)"
    using c by (simp add: UpdateSessionStatus_def bindE_def now_def insertE_def stmt_cancelled)
  moreover obtain d where "Publish e c (tn_Session t) ''session.status_idle'' (tn_Thread t) (idle_payload reason)
      (w1\<lparr>tick := Suc (Suc (tick w1))\<rparr>) = (Inl Canceled, w1\<lparr>tick := d\<rparr>)"
    by (rule Publish_cancelled [of c "w1\<lparr>tick := Suc (Suc (tick w1))\<rparr>"]) (simp_all add: c)
  ultimately show ?thesis
    using assms(1) by (simp add: bindE_Inr end_turn_def emit_def bindE_def ignoreE_def status_of_def session_by_def)
qed

lemma late_interrupt_leaves_running_witness:
  "\<exists>w'. bindE (turn_loop demo_env (WithCancel (Some 0)) short_harness plain_turn 0 0) (end_turn demo_env (WithCancel (Some 0)) plain_turn)
      demo_world = (Inr (), w') \<and> status_of ''s'' w' = Some ''idle''"
proof -
  have run: "turn_loop demo_env (WithCancel (Some 0)) short_harness plain_turn 0 0 demo_world = (Inr (Ended ''max_turns''), demo_world)"
    by (simp add: returnE_def)
  have "status_of ''s'' demo_world = Some ''idle''" by code_simp
  then show ?thesis using late_interrupt_leaves_running [OF run, where sid = "''s''"] by auto
qed

text \<open>The event that asks the client to act embeds the input of the call as it came:
a call without input is no JSON document, marshalling fails, and the event is lost although the
session waits for the client; only the call itself is in the log.\<close>

theorem requires_action_event_is_lost:
  assumes "healthy e w" "session_by (tn_Session t) w \<noteq> None" "\<forall>n. \<not> cancelled c n"
    and "isCustomTool t (pt_Name pt)" "fst (toolAllowedByGuardrails (tn_Guardrails t) (pt_Name pt))" "pt_InputJSON pt = []"
  shows "\<exists>w' row. run_tool e c h t pt w = (Inr True, w') \<and> status_of (tn_Session t) w' = Some ''requires_action''
    \<and> session_events (tn_Session t) w' = session_events (tn_Session t) w @ [row] \<and> ev_Type row = toolUseEvType t (pt_Name pt)"
proof -
  let ?sid = "tn_Session t" and ?ty = "toolUseEvType t (pt_Name pt)"
  let ?pay = "tool_use_payload_of ?ty pt (tool_input pt) (needs_approval t (pt_Name pt))"
  have c: "\<not> cancelled c n" for n using assms(3) by simp
  obtain reason where g: "toolAllowedByGuardrails (tn_Guardrails t) (pt_Name pt) = (True, reason)"
    using assms(5) by (cases "toolAllowedByGuardrails (tn_Guardrails t) (pt_Name pt)") simp
  have pay: "?pay \<noteq> None" using assms(6) by (simp add: tool_use_payload_of_def tool_input_def marshal_obj_def)
  show ?thesis
  proof (rule Publish_succeeds [OF assms(1) c assms(2) pay, of ?ty "tn_Thread t"])
    fix row w1
    assume pub: "Publish e c ?sid ?ty (tn_Thread t) ?pay w = (Inr (event_of_row row), w1)"
      and p: "published e ?sid ?ty (tn_Thread t) ?pay w row w1" and h: "healthy e w1"
    have a1: "alive e ?sid w1" using h assms(2) published_session(1) [OF p] by (simp add: alive_def)
    have lost: "requires_action_payload ?sid pt = None"
      using assms(6) by (simp add: requires_action_payload_def)
    obtain u w2 where st: "UpdateSessionStatus e c ?sid ''requires_action'' w1 = (u, w2)" by (cases "UpdateSessionStatus e c ?sid ''requires_action'' w1")
    have w2: "alive e ?sid w2" "status_of ?sid w2 = Some ''requires_action''"
      using wpD [OF status_update [OF a1 c] st] by (simp_all add: status_allowed_def)
    obtain g w3 where gs: "GetSession e c ?sid w2 = (g, w3)" by (cases "GetSession e c ?sid w2")
    have w3: "w3 = w2\<lparr>tick := Suc (tick w2)\<rparr>"
      using gs by (auto simp: GetSession_def bindE_def queryE_def stmt_run getsE_def optE_def returnE_def throwE_def
          split: sum.splits option.splits)
    obtain x w4 where em: "Publish e c ?sid ''session.status_requires_action'' (tn_Thread t) None w3 = (x, w4)"
      by (cases "Publish e c ?sid ''session.status_requires_action'' (tn_Thread t) None w3")
    have w4: "\<exists>d. w4 = w3\<lparr>tick := tick w3 + d\<rparr>"
      using em by (cases rule: Publish_cases [of e c ?sid "''session.status_requires_action''" "tn_Thread t" None w3])
        (auto simp: published_def event_insert_ok_def)
    have run: "run_tool e c h t pt w = (Inr True, w4)"
      using pub st gs em assms(4) lost by (simp add: run_tool_def Let_def bindE_def g ignoreE_def emit_def returnE_def)
    have evs: "session_events ?sid w4 = session_events ?sid w2" "status_of ?sid w4 = status_of ?sid w2"
      using w3 w4 by (auto simp: session_events_def status_of_def session_by_def)
    have "events w2 = events w1"
      using st by (cases rule: UpdateSessionStatus_cases [of e c ?sid "''requires_action''" w1]) (auto simp: on_session_def)
    then have "session_events ?sid w2 = session_events ?sid w @ [row]"
      using published_log(2) [OF p] assms(1) by (simp add: session_events_def healthy_def)
    moreover have "ev_Type row = ?ty" using p by (auto simp: published_def)
    ultimately show ?thesis using run evs w2 by auto
  qed
qed

definition client_turn :: turn where
  "client_turn = plain_turn\<lparr>tn_Custom := [\<lparr>td_Name = ''t'', td_Description = [], td_InputSchema = None\<rparr>]\<rparr>"

lemma requires_action_event_is_lost_witness:
  "\<exists>w' row. run_tool demo_env Background short_harness client_turn \<lparr>pt_ID = ''i'', pt_Name = ''t'', pt_InputJSON = []\<rparr> demo_world
      = (Inr True, w') \<and> status_of ''s'' w' = Some ''requires_action''
    \<and> session_events ''s'' w' = [row] \<and> ev_Type row = ''agent.custom_tool_use''"
proof -
  let ?pt = "\<lparr>pt_ID = ''i'', pt_Name = ''t'', pt_InputJSON = []\<rparr>"
  have sid: "tn_Session client_turn = ''s''" by code_simp
  have h: "healthy demo_env demo_world" and s: "session_by (tn_Session client_turn) demo_world \<noteq> None"
    using alive_demo by (simp_all add: alive_def sid)
  have v: "isCustomTool client_turn (pt_Name ?pt)"
    "fst (toolAllowedByGuardrails (tn_Guardrails client_turn) (pt_Name ?pt))"
    "toolUseEvType client_turn (pt_Name ?pt) = ''agent.custom_tool_use''" "session_events ''s'' demo_world = []" by code_simp+
  show ?thesis
    using requires_action_event_is_lost [OF h s _ v(1,2), of Background short_harness] v(3,4) by (simp add: sid)
qed

end
