(* ===== verification/Recovery.thy ===== *)
theory Recovery
  imports TurnProperties
begin

text \<open>
  What the daemon does when it starts (\<open>recoverInterruptedSessions\<close> of \<open>cmd/jed/main.go\<close>):
  sessions whose turn was interrupted by a crash are terminated and told so.
\<close>

definition interrupted_payload :: raw where
  "interrupted_payload = Some (JObj
     [(''error'', JObj [(''message'', JStr ''session was interrupted by a daemon restart''), (''type'', JStr ''interrupted'')]),
      (''type'', JStr ''session.status_terminated'')])"

definition recover_one :: "env \<Rightarrow> ctx \<Rightarrow> string \<Rightarrow> (world, unit) io" where
  "recover_one e c i =
     catchE (bindE (MarkSessionTerminated e c i) (\<lambda>_.
       ignoreE (Publish e c i ''session.status_terminated'' ''primary'' interrupted_payload)))
     (\<lambda>err. returnE ())"

text \<open>A list that cannot be read is logged, and nothing is done.\<close>

definition recoverInterruptedSessions :: "env \<Rightarrow> ctx \<Rightarrow> (world, unit) io" where
  "recoverInterruptedSessions e c =
     catchE (bindE (ListSessionsByStatus e c [''running'', ''rescheduling'']) (forE (recover_one e c))) (\<lambda>err. returnE ())"

section \<open>What recovery does\<close>

lemma recover_one_grows: "keeps (grows e i) (recover_one e c i)"
  unfolding recover_one_def
  by (rule growing.catch) (auto intro!: growing.bind growing.ignore growing.publish growing.terminate growing.return)

lemma recover_one_settles:
  assumes "alive e i w" "\<And>n. \<not> cancelled c n"
  shows "wp (recover_one e c i) (\<lambda>r w'. r = Inr () \<and> settled i ''terminated'' ''session.status_terminated'' w') w"
proof -
  have p: "interrupted_payload \<noteq> None" by (simp add: interrupted_payload_def)
  have "wp (bindE (MarkSessionTerminated e c i) (\<lambda>_.
      ignoreE (Publish e c i ''session.status_terminated'' ''primary'' interrupted_payload)))
    (\<lambda>r w'. r = Inr () \<and> settled i ''terminated'' ''session.status_terminated'' w') w"
  proof (rule wp_bind [OF mark_terminated [OF assms]])
    fix u w1 assume "Inr u = Inr () \<and> alive e i w1 \<and> status_of i w1 = Some ''terminated''"
    then have a: "alive e i w1" "status_of i w1 = Some ''terminated''" by simp_all
    show "wp (ignoreE (Publish e c i ''session.status_terminated'' ''primary'' interrupted_payload))
      (\<lambda>r w'. r = Inr () \<and> settled i ''terminated'' ''session.status_terminated'' w') w1"
      by (rule wp_mono [OF announcing [OF a(1) assms(2) p a(2)]]) simp
  qed simp
  then show ?thesis unfolding recover_one_def wp_catchE by (rule wp_mono) simp
qed

lemma settled_frame:
  "session_by i w' = session_by i w \<Longrightarrow> session_events i w' = session_events i w \<Longrightarrow> settled i st ty w' = settled i st ty w"
  by (simp add: settled_def status_of_def)

lemma recover_loop:
  assumes c: "\<And>n. \<not> cancelled c n"
  shows "healthy e w \<Longrightarrow> \<forall>i\<in>set is. session_by i w \<noteq> None \<Longrightarrow>
    \<exists>w'. forE (recover_one e c) is w = (Inr (), w') \<and> healthy e w'
      \<and> (\<forall>i\<in>set is. settled i ''terminated'' ''session.status_terminated'' w')
      \<and> (\<forall>i. i \<notin> set is \<longrightarrow> session_by i w' = session_by i w \<and> session_events i w' = session_events i w)"
proof (induction "is" arbitrary: w)
  case Nil
  then show ?case by (simp add: returnE_def)
next
  case (Cons i js)
  have a: "alive e i w" using Cons.prems by (simp add: alive_def)
  obtain r w1 where run: "recover_one e c i w = (r, w1)" by (cases "recover_one e c i w")
  have r: "r = Inr ()" and s: "settled i ''terminated'' ''session.status_terminated'' w1"
    using wpD [OF recover_one_settles [OF a c] run] by simp_all
  have g: "grows e i w w1" using keepsD [OF recover_one_grows, of e i w c] run by simp
  have l: "log_ok w" using Cons.prems(1) by (simp add: healthy_def)
  have h1: "healthy e w1" and ex: "\<forall>j\<in>set js. session_by j w1 \<noteq> None" using g Cons.prems by (auto simp: grows_def)
  have other: "j \<noteq> i \<Longrightarrow> session_by j w1 = session_by j w \<and> session_events j w1 = session_events j w" for j
    using g l by (simp add: grows_def)
  obtain w' where w': "forE (recover_one e c) js w1 = (Inr (), w')" "healthy e w'"
    "\<forall>i\<in>set js. settled i ''terminated'' ''session.status_terminated'' w'"
    "\<forall>i. i \<notin> set js \<longrightarrow> session_by i w' = session_by i w1 \<and> session_events i w' = session_events i w1"
    using Cons.IH [OF h1 ex] by blast
  have "settled i ''terminated'' ''session.status_terminated'' w'"
    using s w'(3,4) settled_frame [of i w' w1] by (cases "i \<in> set js") simp_all
  then show ?case
    using run r w' other by (intro exI [of _ w']) (simp add: bindE_def)
qed

section \<open>Properties\<close>

text \<open>A session is found by its identifier, and is among selected identifiers exactly if it is selected.\<close>

lemma session_key:
  assumes "s \<in> set (sessions v)" "log_ok v"
  shows "session_by (ss_ID s) v = Some s"
proof -
  obtain t where t: "session_by (ss_ID s) v = Some t" using assms(1) session_by_None [of "ss_ID s" v] by fastforce
  then have "t = s" using session_by_Some [OF t] assms distinct_keyD [of ss_ID "sessions v" t s] by (simp add: log_ok_def)
  then show ?thesis using t by simp
qed

lemma selected_ids:
  assumes "s \<in> set (sessions w)" "log_ok w"
  shows "ss_ID s \<in> set (map ss_ID (select P (sessions w))) \<longleftrightarrow> P s"
proof
  assume "ss_ID s \<in> set (map ss_ID (select P (sessions w)))"
  then obtain x where x: "ss_ID s = ss_ID x" "x \<in> set (select P (sessions w))" unfolding set_map by (rule imageE)
  then have xs: "x \<in> set (sessions w)" and px: "P x" by (simp_all add: table_simps)
  have "Some s = Some x" using session_key [OF assms] session_key [OF xs assms(2)] x(1) by argo
  then show "P s" using px by simp
next
  assume "P s"
  then have "s \<in> set (select P (sessions w))" using assms(1) by (simp add: table_simps)
  then show "ss_ID s \<in> set (map ss_ID (select P (sessions w)))" by simp
qed

text \<open>C40: A restart of the daemon leaves no session running: without failing statements,
every session found running or rescheduling is terminated and its log ends with the event that says
so, and every other session is as it was.\<close>

theorem recovery_settles_every_session:
  assumes "healthy e w" "\<forall>n. \<not> cancelled c n" "recoverInterruptedSessions e c w = (r, w')"
  shows "r = Inr () \<and> (\<forall>s\<in>set (sessions w'). ss_Status s \<noteq> ''running'' \<and> ss_Status s \<noteq> ''rescheduling'')
    \<and> (\<forall>s\<in>set (sessions w). if ss_Status s \<in> {''running'', ''rescheduling''}
         then settled (ss_ID s) ''terminated'' ''session.status_terminated'' w'
         else session_by (ss_ID s) w' = Some s \<and> session_events (ss_ID s) w' = session_events (ss_ID s) w)"
proof -
  have c: "\<not> cancelled c n" for n using assms(2) by simp
  have nf: "no_faults e" and log: "log_ok w" using assms(1) by (simp_all add: healthy_def)
  let ?bad = "\<lambda>s. ss_Status s \<in> {''running'', ''rescheduling''}"
  let ?is = "map ss_ID (select ?bad (sessions w))" and ?w = "w\<lparr>tick := Suc (tick w)\<rparr>"
  have list: "ListSessionsByStatus e c [''running'', ''rescheduling''] w = (Inr ?is, ?w)"
    by (simp add: ListSessionsByStatus_def queryE_ok [OF nf c])
  have h: "healthy e ?w" using assms(1) by (auto simp: healthy_def fresh_ids_def)
  have ex: "\<forall>i\<in>set ?is. session_by i ?w \<noteq> None"
    using session_key [OF _ log] by (auto simp: table_simps session_by_def)
  obtain w1 where w1: "forE (recover_one e c) ?is ?w = (Inr (), w1)" "healthy e w1"
    "\<forall>i\<in>set ?is. settled i ''terminated'' ''session.status_terminated'' w1"
    "\<forall>i. i \<notin> set ?is \<longrightarrow> session_by i w1 = session_by i ?w \<and> session_events i w1 = session_events i ?w"
    using recover_loop [OF c h ex] by blast
  have run: "r = Inr ()" "w' = w1"
    using assms(3) list w1(1) by (simp_all add: recoverInterruptedSessions_def catchE_def bindE_def)
  have bad: "ss_ID s \<in> set ?is \<longleftrightarrow> ?bad s" if "s \<in> set (sessions w)" for s
    using selected_ids [OF that log, of ?bad] .
  have none: "ss_Status s \<noteq> ''running'' \<and> ss_Status s \<noteq> ''rescheduling''" if s: "s \<in> set (sessions w')" for s
  proof -
    have k: "session_by (ss_ID s) w1 = Some s" using session_key [of s w1] s run w1(2) by (simp add: healthy_def)
    show ?thesis
    proof (cases "ss_ID s \<in> set ?is")
      case True
      then show ?thesis using w1(3) k by (auto simp: settled_def status_of_def)
    next
      case False
      then have "session_by (ss_ID s) w = Some s" using w1(4) k by (simp add: session_by_def)
      then have "s \<in> set (sessions w)" by (simp add: session_by_Some)
      then show ?thesis using bad False by blast
    qed
  qed
  have each: "if ?bad s then settled (ss_ID s) ''terminated'' ''session.status_terminated'' w'
         else session_by (ss_ID s) w' = Some s \<and> session_events (ss_ID s) w' = session_events (ss_ID s) w"
    if s: "s \<in> set (sessions w)" for s
  proof (cases "?bad s")
    case True
    then have "ss_ID s \<in> set ?is" using bad [OF s] by simp
    then have "settled (ss_ID s) ''terminated'' ''session.status_terminated'' w1" using w1(3) by blast
    then show ?thesis using True run by simp
  next
    case False
    then have "ss_ID s \<notin> set ?is" using bad [OF s] by simp
    then have "session_by (ss_ID s) w1 = session_by (ss_ID s) ?w" "session_events (ss_ID s) w1 = session_events (ss_ID s) ?w"
      using w1(4) by blast+
    then show ?thesis using False run session_key [OF s log] by (simp add: session_by_def session_events_def)
  qed
  show ?thesis using run none each by blast
qed

definition crashed_world :: world where
  "crashed_world = empty_world\<lparr>sessions := [demo_session ''a'' ''running'', demo_session ''b'' ''idle'']\<rparr>"

lemma recovery_settles_every_session_witness:
  "settled ''a'' ''terminated'' ''session.status_terminated'' (snd (recoverInterruptedSessions demo_env Background crashed_world))
   \<and> session_by ''b'' (snd (recoverInterruptedSessions demo_env Background crashed_world)) = Some (demo_session ''b'' ''idle'')"
proof -
  have ok: "log_ok crashed_world" "broker_ok crashed_world" by code_simp+
  have h: "healthy demo_env crashed_world" by (rule healthy_demo [OF ok, where ks = "[]"]) (code_simp+)
  have n: "\<forall>n. \<not> cancelled Background n" by simp
  have s: "sessions crashed_world = [demo_session ''a'' ''running'', demo_session ''b'' ''idle'']"
    "ss_ID (demo_session i st) = i" "ss_Status (demo_session i st) = st" for i st
    by (simp_all add: crashed_world_def demo_session_def)
  show ?thesis
    using recovery_settles_every_session [OF h n prod.collapse [symmetric]] by (simp add: s)
qed

end
