(* ===== verification/Config.thy ===== *)
theory Config
  imports Paths GoJson
begin

text \<open>
  The configuration of the daemons (\<open>internal/config/config.go\<close>): environment variables with their
  defaults, and the validation. The variables and the current directory are parameters.
\<close>

section \<open>Configurations\<close>

record config =
  cf_HTTPAddr :: string
  cf_DataDir :: string
  cf_DatabaseURL :: string
  cf_AuthMode :: string
  cf_LLMProvider :: string
  cf_LLMBaseURL :: string
  cf_LLMAPIKey :: string
  cf_DefaultAgentModel :: string
  cf_SandboxKind :: string
  cf_SandboxKeepWorkdir :: bool
  cf_CompactThresholdTokens :: int
  cf_KeepRecentTurns :: int
  cf_LLMMaxRetries :: int
  cf_LLMRetryBackoffMS :: int
  cf_WebhookAllowPrivate :: bool
  cf_VaultProxyAddr :: string
  cf_VaultProxyURL :: string
  cf_VaultCACert :: string
  cf_PlatformRootSecret :: string

type_synonym getenv = "string \<Rightarrow> string"

definition envOr :: "getenv \<Rightarrow> string \<Rightarrow> string \<Rightarrow> string" where
  "envOr g k def = (if g k \<noteq> [] then g k else def)"

text \<open>A number that cannot be read, or does not fit, is the default.\<close>

definition envInt :: "getenv \<Rightarrow> string \<Rightarrow> int \<Rightarrow> int" where
  "envInt g k def = (if g k \<noteq> [] then (case ParseInt (g k) of Some i \<Rightarrow> i | None \<Rightarrow> def) else def)"

definition Validate :: "config \<Rightarrow> gerr option" where
  "Validate c =
     (if cf_AuthMode c \<notin> {''required'', ''optional'', ''bypass''}
      then Some (ErrMsg ''JE_AUTH_MODE must be one of: required, optional, bypass'')
      else if cf_LLMProvider c \<notin> {''anthropic'', ''anthropic_compat'', ''openai_compat'', ''mock''}
      then Some (ErrMsg ''JE_LLM_PROVIDER must be one of: anthropic, anthropic_compat, openai_compat, mock'')
      else if cf_SandboxKind c \<notin> {''subprocess'', ''docker''}
      then Some (ErrMsg ''JE_SANDBOX_KIND must be one of: subprocess, docker'')
      else None)"

definition from_env :: "getenv \<Rightarrow> config" where
  "from_env g =
     \<lparr>cf_HTTPAddr = envOr g ''JE_HTTP_ADDR'' '':8787'',
      cf_DataDir = envOr g ''JE_DATA_DIR'' ''./data'',
      cf_DatabaseURL = g ''JE_DATABASE_URL'',
      cf_AuthMode = envOr g ''JE_AUTH_MODE'' ''bypass'',
      cf_LLMProvider = envOr g ''JE_LLM_PROVIDER'' ''mock'',
      cf_LLMBaseURL = g ''JE_LLM_BASE_URL'',
      cf_LLMAPIKey = g ''JE_LLM_API_KEY'',
      cf_DefaultAgentModel = envOr g ''JE_DEFAULT_AGENT_MODEL'' ''tw-agent-max'',
      cf_SandboxKind = envOr g ''JE_SANDBOX_KIND'' ''subprocess'',
      cf_SandboxKeepWorkdir = (envOr g ''JE_SANDBOX_KEEP_WORKDIR'' [] = ''1''),
      cf_CompactThresholdTokens = envInt g ''JE_COMPACT_THRESHOLD_TOKENS'' 150000,
      cf_KeepRecentTurns = envInt g ''JE_KEEP_RECENT_TURNS'' 3,
      cf_LLMMaxRetries = envInt g ''JE_LLM_MAX_RETRIES'' 2,
      cf_LLMRetryBackoffMS = envInt g ''JE_LLM_RETRY_BACKOFF_MS'' 500,
      cf_WebhookAllowPrivate = (envOr g ''JE_WEBHOOK_ALLOW_PRIVATE'' [] = ''1''),
      cf_VaultProxyAddr = envOr g ''JE_VAULT_PROXY_ADDR'' '':14322'',
      cf_VaultProxyURL = g ''JE_VAULT_PROXY_URL'',
      cf_VaultCACert = g ''JE_VAULT_CA_CERT'',
      cf_PlatformRootSecret = g ''PLATFORM_ROOT_SECRET''\<rparr>"

definition Load :: "getenv \<Rightarrow> (string \<Rightarrow> gerr + string) \<Rightarrow> gerr + config" where
  "Load g resolve =
     (case resolve (cf_DataDir (from_env g)) of
        Inl err \<Rightarrow> Inl (Wrap ''resolve data dir'' err)
      | Inr dir \<Rightarrow>
          (let c = (from_env g)\<lparr>cf_DataDir := dir\<rparr>;
               d = (if cf_DatabaseURL c = [] then c\<lparr>cf_DatabaseURL := ''sqlite://'' @ Join [dir, ''jadeenvoy.db'']\<rparr> else c)
           in case Validate d of Some err \<Rightarrow> Inl err | None \<Rightarrow> Inr d))"

lemma from_env_fields [simp]:
  "cf_DataDir (from_env g) = envOr g ''JE_DATA_DIR'' ''./data''" "cf_DatabaseURL (from_env g) = g ''JE_DATABASE_URL''"
  "cf_AuthMode (from_env g) = envOr g ''JE_AUTH_MODE'' ''bypass''" "cf_LLMProvider (from_env g) = envOr g ''JE_LLM_PROVIDER'' ''mock''"
  "cf_LLMBaseURL (from_env g) = g ''JE_LLM_BASE_URL''" "cf_SandboxKind (from_env g) = envOr g ''JE_SANDBOX_KIND'' ''subprocess''"
  "cf_LLMMaxRetries (from_env g) = envInt g ''JE_LLM_MAX_RETRIES'' 2" "cf_PlatformRootSecret (from_env g) = g ''PLATFORM_ROOT_SECRET''"
  unfolding from_env_def config.select_convs by (rule refl)+

section \<open>What loading promises\<close>

text \<open>Loading does not change what is validated.\<close>

lemma Validate_frame: "Validate (c\<lparr>cf_DataDir := d\<rparr>) = Validate c" "Validate (c\<lparr>cf_DatabaseURL := u\<rparr>) = Validate c"
  by (simp_all add: Validate_def)

lemma Load_Inr:
  "Load g resolve = Inr c \<longleftrightarrow> (\<exists>dir. resolve (cf_DataDir (from_env g)) = Inr dir \<and> Validate (from_env g) = None
     \<and> c = (from_env g)\<lparr>cf_DataDir := dir,
         cf_DatabaseURL := (if g ''JE_DATABASE_URL'' = [] then ''sqlite://'' @ Join [dir, ''jadeenvoy.db''] else g ''JE_DATABASE_URL'')\<rparr>)"
proof -
  have db: "cf_DatabaseURL (from_env g) = g ''JE_DATABASE_URL''" by (simp add: from_env_def)
  then have same: "(from_env g)\<lparr>cf_DatabaseURL := g ''JE_DATABASE_URL''\<rparr> = from_env g" by (metis (no_types) config.surjective config.update_convs(3))
  have "(from_env g)\<lparr>cf_DataDir := dir, cf_DatabaseURL := g ''JE_DATABASE_URL''\<rparr> = (from_env g)\<lparr>cf_DataDir := dir\<rparr>" for dir
    by (subst same [symmetric]) simp
  then show ?thesis by (auto simp: Load_def Let_def Validate_frame db split: sum.splits option.splits)
qed

lemma Validate_None: "Validate c = None \<longleftrightarrow> cf_AuthMode c \<in> {''required'', ''optional'', ''bypass''}
    \<and> cf_LLMProvider c \<in> {''anthropic'', ''anthropic_compat'', ''openai_compat'', ''mock''}
    \<and> cf_SandboxKind c \<in> {''subprocess'', ''docker''}"
  unfolding Validate_def by (simp only: split: if_splits) simp

end
