(* ===== verification/Schema.thy ===== *)
theory Schema
  imports Dialect "HOL-Library.Sublist"
begin

text \<open>
  The tables of the database: the schema of \<open>internal/store/store.go\<close>, written for SQLite, and its translation
  for PostgreSQL (\<open>postgresSchema\<close> of \<open>dialect.go\<close>), a replacement of texts. The lemmas say which texts
  a replacement cannot leave behind; the schema is checked line by line.
\<close>

section \<open>The schema\<close>

definition agent_table :: "string list" where
  "agent_table =
    [''CREATE TABLE IF NOT EXISTS agent ('',
     ''    id              TEXT PRIMARY KEY,'',
     ''    tenant_id       TEXT NOT NULL DEFAULT 'tnt-default','',
     ''    name            TEXT NOT NULL,'',
     ''    archived_at     INTEGER,'',
     ''    created_at      INTEGER NOT NULL,'',
     ''    updated_at      INTEGER NOT NULL,'',
     ''    current_version INTEGER NOT NULL DEFAULT 1'',
     '');'',
     ''CREATE INDEX IF NOT EXISTS agent_tenant ON agent(tenant_id);'',
     []]"

definition agent_version_table :: "string list" where
  "agent_version_table =
    [''CREATE TABLE IF NOT EXISTS agent_version ('',
     ''    agent_id        TEXT NOT NULL REFERENCES agent(id) ON DELETE CASCADE,'',
     ''    version         INTEGER NOT NULL,'',
     ''    name            TEXT NOT NULL,'',
     ''    model           TEXT NOT NULL CHECK (json_valid(model)),'',
     ''    system          TEXT,'',
     ''    description     TEXT,'',
     ''    tools           TEXT NOT NULL DEFAULT '[]' CHECK (json_valid(tools)),'',
     ''    mcp_servers     TEXT NOT NULL DEFAULT '[]' CHECK (json_valid(mcp_servers)),'',
     ''    skills          TEXT NOT NULL DEFAULT '[]' CHECK (json_valid(skills)),'',
     ''    multiagent      TEXT,'',
     ''    metadata        TEXT NOT NULL DEFAULT '{}' CHECK (json_valid(metadata)),'',
     ''    created_at      INTEGER NOT NULL,'',
     ''    PRIMARY KEY (agent_id, version)'',
     '');'',
     []]"

definition environment_table :: "string list" where
  "environment_table =
    [''CREATE TABLE IF NOT EXISTS environment ('',
     ''    id              TEXT PRIMARY KEY,'',
     ''    tenant_id       TEXT NOT NULL DEFAULT 'tnt-default','',
     ''    name            TEXT NOT NULL,'',
     ''    config          TEXT NOT NULL DEFAULT '{}' CHECK (json_valid(config)),'',
     ''    archived_at     INTEGER,'',
     ''    created_at      INTEGER NOT NULL,'',
     ''    updated_at      INTEGER NOT NULL'',
     '');'',
     ''CREATE INDEX IF NOT EXISTS environment_tenant ON environment(tenant_id);'',
     []]"

definition session_table :: "string list" where
  "session_table =
    [''CREATE TABLE IF NOT EXISTS session ('',
     ''    id                  TEXT PRIMARY KEY,'',
     ''    tenant_id           TEXT NOT NULL DEFAULT 'tnt-default','',
     ''    agent_id            TEXT NOT NULL,'',
     ''    agent_version       INTEGER NOT NULL,'',
     ''    agent_snapshot      TEXT NOT NULL CHECK (json_valid(agent_snapshot)),'',
     ''    environment_id      TEXT NOT NULL DEFAULT 'default','',
     ''    status              TEXT NOT NULL CHECK (status IN ('idle','running','rescheduling','terminated','requires_action')),'',
     ''    title               TEXT,'',
     ''    metadata            TEXT NOT NULL DEFAULT '{}' CHECK (json_valid(metadata)),'',
     ''    vault_ids           TEXT NOT NULL DEFAULT '[]' CHECK (json_valid(vault_ids)),'',
     ''    archived_at         INTEGER,'',
     ''    terminated_at       INTEGER,'',
     ''    created_at          INTEGER NOT NULL,'',
     ''    updated_at          INTEGER NOT NULL,'',
     ''    usage_input_tokens          INTEGER NOT NULL DEFAULT 0,'',
     ''    usage_output_tokens         INTEGER NOT NULL DEFAULT 0,'',
     ''    usage_cache_create_tokens   INTEGER NOT NULL DEFAULT 0,'',
     ''    usage_cache_read_tokens     INTEGER NOT NULL DEFAULT 0,'',
     ''    next_seq                    INTEGER NOT NULL DEFAULT 1'',
     '');'',
     ''CREATE INDEX IF NOT EXISTS session_tenant ON session(tenant_id, created_at DESC);'',
     ''CREATE INDEX IF NOT EXISTS session_agent ON session(agent_id);'',
     []]"

definition session_event_table :: "string list" where
  "session_event_table =
    [''CREATE TABLE IF NOT EXISTS session_event ('',
     ''    id              TEXT PRIMARY KEY,'',
     ''    session_id      TEXT NOT NULL REFERENCES session(id) ON DELETE CASCADE,'',
     ''    thread_id       TEXT NOT NULL DEFAULT 'primary','',
     ''    seq             INTEGER NOT NULL,'',
     ''    type            TEXT NOT NULL,'',
     ''    payload         TEXT NOT NULL CHECK (json_valid(payload)),'',
     ''    processed_at    INTEGER,'',
     ''    created_at      INTEGER NOT NULL,'',
     ''    UNIQUE (session_id, seq)'',
     '');'',
     ''CREATE INDEX IF NOT EXISTS session_event_session_seq ON session_event(session_id, seq);'',
     ''CREATE INDEX IF NOT EXISTS session_event_session_type ON session_event(session_id, type);'',
     []]"

definition vault_table :: "string list" where
  "vault_table =
    [''CREATE TABLE IF NOT EXISTS vault ('',
     ''    id              TEXT PRIMARY KEY,'',
     ''    tenant_id       TEXT NOT NULL DEFAULT 'tnt-default','',
     ''    display_name    TEXT NOT NULL,'',
     ''    metadata        TEXT NOT NULL DEFAULT '{}' CHECK (json_valid(metadata)),'',
     ''    archived_at     INTEGER,'',
     ''    created_at      INTEGER NOT NULL,'',
     ''    updated_at      INTEGER NOT NULL'',
     '');'',
     []]"

definition credential_table :: "string list" where
  "credential_table =
    [''CREATE TABLE IF NOT EXISTS vault_credential ('',
     ''    id                  TEXT PRIMARY KEY,'',
     ''    vault_id            TEXT NOT NULL REFERENCES vault(id) ON DELETE CASCADE,'',
     ''    tenant_id           TEXT NOT NULL DEFAULT 'tnt-default','',
     ''    display_name        TEXT NOT NULL,'',
     ''    auth_type           TEXT NOT NULL CHECK (auth_type IN ('static_bearer','mcp_oauth')),'',
     ''    mcp_server_url      TEXT NOT NULL,'',
     ''    mcp_server_host     TEXT NOT NULL,'',
     ''    cipher              BLOB NOT NULL,'',
     ''    cipher_nonce        BLOB NOT NULL,'',
     ''    cipher_label        TEXT NOT NULL,'',
     ''    archived_at         INTEGER,'',
     ''    created_at          INTEGER NOT NULL,'',
     ''    updated_at          INTEGER NOT NULL'',
     '');'',
     ''CREATE INDEX IF NOT EXISTS vault_credential_vault ON vault_credential(vault_id);'',
     ''CREATE INDEX IF NOT EXISTS vault_credential_host ON vault_credential(tenant_id, mcp_server_host);'',
     ''-- '' @ [CHR 0xE5, CHR 0x90, CHR 0x8C] @ '' vault '' @ [CHR 0xE5, CHR 0x90, CHR 0x8C] @ '' host '' @ [CHR 0xE5, CHR 0x8F, CHR 0xAA, CHR 0xE5, CHR 0x85, CHR 0x81, CHR 0xE8, CHR 0xAE, CHR 0xB8, CHR 0xE4, CHR 0xB8, CHR 0x80, CHR 0xE6, CHR 0x9D, CHR 0xA1, CHR 0xE6, CHR 0xB4, CHR 0xBB, CHR 0xE8, CHR 0xB7, CHR 0x83, CHR 0xE5, CHR 0x87, CHR 0xAD, CHR 0xE6, CHR 0x8D, CHR 0xAE, CHR 0xEF, CHR 0xBC, CHR 0x88] @ ''ADR-0015 / oma-gaps '' @ [CHR 0xE7, CHR 0xAC, CHR 0xAC] @ '' 9 '' @ [CHR 0xE6, CHR 0x9D, CHR 0xA1, CHR 0xEF, CHR 0xBC, CHR 0x89],
     ''CREATE UNIQUE INDEX IF NOT EXISTS vault_credential_unique_host'',
     ''    ON vault_credential(vault_id, mcp_server_host) WHERE archived_at IS NULL;'',
     []]"

definition memory_store_table :: "string list" where
  "memory_store_table =
    [''-- M2: Memory Stores ----------------------------------------------------------'',
     [],
     ''CREATE TABLE IF NOT EXISTS memory_store ('',
     ''    id              TEXT PRIMARY KEY,'',
     ''    tenant_id       TEXT NOT NULL DEFAULT 'tnt-default','',
     ''    name            TEXT NOT NULL,'',
     ''    description     TEXT,'',
     ''    archived_at     INTEGER,'',
     ''    created_at      INTEGER NOT NULL,'',
     ''    updated_at      INTEGER NOT NULL,'',
     ''    UNIQUE (tenant_id, name)'',
     '');'',
     []]"

definition memory_table :: "string list" where
  "memory_table =
    [''CREATE TABLE IF NOT EXISTS memory ('',
     ''    id              TEXT PRIMARY KEY,'',
     ''    memory_store_id TEXT NOT NULL REFERENCES memory_store(id) ON DELETE CASCADE,'',
     ''    tenant_id       TEXT NOT NULL DEFAULT 'tnt-default','',
     ''    path            TEXT NOT NULL,'',
     ''    content         TEXT NOT NULL DEFAULT '' @ [apos, apos] @ '','',
     ''    content_sha256  TEXT NOT NULL,'',
     ''    content_size    INTEGER NOT NULL DEFAULT 0,'',
     ''    created_at      INTEGER NOT NULL,'',
     ''    updated_at      INTEGER NOT NULL,'',
     ''    UNIQUE (memory_store_id, path)'',
     '');'',
     [],
     ''CREATE INDEX IF NOT EXISTS memory_store_id_path ON memory(memory_store_id, path);'',
     []]"

definition memory_version_table :: "string list" where
  "memory_version_table =
    [''CREATE TABLE IF NOT EXISTS memory_version ('',
     ''    id              TEXT PRIMARY KEY,'',
     ''    memory_store_id TEXT NOT NULL REFERENCES memory_store(id) ON DELETE CASCADE,'',
     ''    memory_id       TEXT NOT NULL,'',
     ''    tenant_id       TEXT NOT NULL DEFAULT 'tnt-default','',
     ''    operation       TEXT NOT NULL CHECK (operation IN ('created','modified','deleted')),'',
     ''    path            TEXT,'',
     ''    content         TEXT,'',
     ''    content_sha256  TEXT,'',
     ''    content_size    INTEGER,'',
     ''    created_at      INTEGER NOT NULL,'',
     ''    redacted_at     INTEGER'',
     '');'',
     ''CREATE INDEX IF NOT EXISTS memory_version_store_created ON memory_version(memory_store_id, created_at DESC);'',
     ''CREATE INDEX IF NOT EXISTS memory_version_memory_created ON memory_version(memory_id, created_at DESC);'',
     []]"

definition session_resource_table :: "string list" where
  "session_resource_table =
    [''-- M2: Session resources'' @ [CHR 0xEF, CHR 0xBC, CHR 0x88, CHR 0xE6, CHR 0x8C, CHR 0x82, CHR 0xE8, CHR 0xBD, CHR 0xBD, CHR 0xE5, CHR 0x88, CHR 0xB0] @ '' sandbox '' @ [CHR 0xE7, CHR 0x9A, CHR 0x84, CHR 0xE8, CHR 0xB5, CHR 0x84, CHR 0xE6, CHR 0xBA, CHR 0x90, CHR 0xEF, CHR 0xBC, CHR 0x8C, CHR 0xE5, CHR 0x90, CHR 0xAB] @ '' memory_store '' @ [CHR 0xE5, CHR 0xBC, CHR 0x95, CHR 0xE7, CHR 0x94, CHR 0xA8, CHR 0xEF, CHR 0xBC, CHR 0x89] @ '' -----'',
     [],
     ''CREATE TABLE IF NOT EXISTS session_resource ('',
     ''    id              TEXT PRIMARY KEY,'',
     ''    session_id      TEXT NOT NULL REFERENCES session(id) ON DELETE CASCADE,'',
     ''    type            TEXT NOT NULL CHECK (type IN ('memory_store','file','github_repository')),'',
     ''    payload         TEXT NOT NULL CHECK (json_valid(payload)),'',
     ''    created_at      INTEGER NOT NULL'',
     '');'',
     ''CREATE INDEX IF NOT EXISTS session_resource_session ON session_resource(session_id);'',
     []]"

definition endpoint_table :: "string list" where
  "endpoint_table =
    [''-- M2: Webhook endpoints + delivery queue ------------------------------------'',
     [],
     ''CREATE TABLE IF NOT EXISTS webhook_endpoint ('',
     ''    id              TEXT PRIMARY KEY,'',
     ''    tenant_id       TEXT NOT NULL DEFAULT 'tnt-default','',
     ''    url             TEXT NOT NULL,'',
     ''    event_types     TEXT NOT NULL DEFAULT '[]' CHECK (json_valid(event_types)),'',
     ''    signing_secret  TEXT NOT NULL,'',
     ''    disabled_at     INTEGER,'',
     ''    disabled_reason TEXT,'',
     ''    consecutive_failures INTEGER NOT NULL DEFAULT 0,'',
     ''    created_at      INTEGER NOT NULL,'',
     ''    updated_at      INTEGER NOT NULL'',
     '');'',
     []]"

definition delivery_table :: "string list" where
  "delivery_table =
    [''CREATE TABLE IF NOT EXISTS webhook_delivery ('',
     ''    id              TEXT PRIMARY KEY,'',
     ''    endpoint_id     TEXT NOT NULL REFERENCES webhook_endpoint(id) ON DELETE CASCADE,'',
     ''    event_id        TEXT NOT NULL,'',
     ''    event_type      TEXT NOT NULL,'',
     ''    payload         TEXT NOT NULL CHECK (json_valid(payload)),'',
     ''    attempt         INTEGER NOT NULL DEFAULT 0,'',
     ''    next_attempt_at INTEGER,'',
     ''    delivered_at    INTEGER,'',
     ''    last_status     INTEGER,'',
     ''    last_error      TEXT,'',
     ''    created_at      INTEGER NOT NULL'',
     '');'',
     ''CREATE INDEX IF NOT EXISTS webhook_delivery_pending ON webhook_delivery(next_attempt_at) WHERE delivered_at IS NULL;'',
     []]"

definition file_table :: "string list" where
  "file_table =
    [''-- M2: Files ------------------------------------------------------------------'',
     [],
     ''CREATE TABLE IF NOT EXISTS file ('',
     ''    id              TEXT PRIMARY KEY,'',
     ''    tenant_id       TEXT NOT NULL DEFAULT 'tnt-default','',
     ''    filename        TEXT NOT NULL,'',
     ''    content_type    TEXT NOT NULL DEFAULT 'application/octet-stream','',
     ''    blob            BLOB NOT NULL,'',
     ''    size            INTEGER NOT NULL DEFAULT 0,'',
     ''    created_at      INTEGER NOT NULL,'',
     ''    updated_at      INTEGER NOT NULL'',
     '');'',
     []]"

definition skill_table :: "string list" where
  "skill_table =
    [''-- M2: Skills ----------------------------------------------------------------'',
     [],
     ''CREATE TABLE IF NOT EXISTS skill ('',
     ''    id                  TEXT PRIMARY KEY,'',
     ''    tenant_id           TEXT NOT NULL DEFAULT 'tnt-default','',
     ''    name                TEXT NOT NULL,'',
     ''    description         TEXT,'',
     ''    files_json          TEXT NOT NULL DEFAULT '[]' CHECK (json_valid(files_json)),'',
     ''    skill_md_content    TEXT NOT NULL DEFAULT '' @ [apos, apos] @ '','',
     ''    created_at          INTEGER NOT NULL,'',
     ''    updated_at          INTEGER NOT NULL'',
     '');'',
     []]"

definition user_table :: "string list" where
  "user_table =
    [''-- M1: Auth '' @ [CHR 0xE2, CHR 0x80, CHR 0x94] @ '' users / sessions / API keys'' @ [CHR 0xEF, CHR 0xBC, CHR 0x88] @ ''ADR-0013'' @ [CHR 0xEF, CHR 0xBC, CHR 0x89] @ '' --------------------------'',
     [],
     ''CREATE TABLE IF NOT EXISTS app_user ('',
     ''    id              TEXT PRIMARY KEY,'',
     ''    tenant_id       TEXT NOT NULL DEFAULT 'tnt-default','',
     ''    email           TEXT NOT NULL,'',
     ''    name            TEXT NOT NULL DEFAULT '' @ [apos, apos] @ '','',
     ''    password_hash   TEXT NOT NULL,'',
     ''    created_at      INTEGER NOT NULL,'',
     ''    updated_at      INTEGER NOT NULL,'',
     ''    UNIQUE (email)'',
     '');'',
     []]"

definition auth_session_table :: "string list" where
  "auth_session_table =
    [''CREATE TABLE IF NOT EXISTS auth_session ('',
     ''    id              TEXT PRIMARY KEY,'',
     ''    user_id         TEXT NOT NULL REFERENCES app_user(id) ON DELETE CASCADE,'',
     ''    tenant_id       TEXT NOT NULL DEFAULT 'tnt-default','',
     ''    expires_at      INTEGER NOT NULL,'',
     ''    created_at      INTEGER NOT NULL'',
     '');'',
     ''CREATE INDEX IF NOT EXISTS auth_session_user ON auth_session(user_id);'',
     []]"

definition api_key_table :: "string list" where
  "api_key_table =
    [''CREATE TABLE IF NOT EXISTS api_key ('',
     ''    id              TEXT PRIMARY KEY,'',
     ''    tenant_id       TEXT NOT NULL DEFAULT 'tnt-default','',
     ''    user_id         TEXT,'',
     ''    name            TEXT NOT NULL DEFAULT '' @ [apos, apos] @ '','',
     ''    prefix          TEXT NOT NULL,'',
     ''    hash            TEXT NOT NULL,'',
     ''    created_at      INTEGER NOT NULL,'',
     ''    revoked_at      INTEGER,'',
     ''    UNIQUE (hash)'',
     '');'',
     ''CREATE INDEX IF NOT EXISTS api_key_tenant ON api_key(tenant_id);'']"

definition schema_lines :: "string list" where
  "schema_lines = agent_table @ agent_version_table @ environment_table @ session_table @ session_event_table @ vault_table
     @ credential_table @ memory_store_table @ memory_table @ memory_version_table @ session_resource_table @ endpoint_table
     @ delivery_table @ file_table @ skill_table @ user_table @ auth_session_table @ api_key_table"

definition newline :: char where
  "newline = CHR 0x0A"

definition sqliteSchema :: string where
  "sqliteSchema = newline # concat (map (\<lambda>l. l @ [newline]) schema_lines)"


text \<open>\<open>strings.Replacer\<close>: at each position the first pair whose old text is there.\<close>

fun first_match :: "(string \<times> string) list \<Rightarrow> string \<Rightarrow> (nat \<times> string) option" where
  "first_match [] s = None"
| "first_match ((old, new) # ps) s = (if prefix old s then Some (length old, new) else first_match ps s)"

fun replacer_from :: "(string \<times> string) list \<Rightarrow> nat \<Rightarrow> string \<Rightarrow> string" where
  "replacer_from ps k [] = []"
| "replacer_from ps (Suc k) (c # s) = replacer_from ps k s"
| "replacer_from ps 0 (c # s) =
     (case first_match ps (c # s) of
        Some (k, new) \<Rightarrow> new @ replacer_from ps (k - 1) s
      | None \<Rightarrow> c # replacer_from ps 0 s)"

definition postgres_types :: "(string \<times> string) list" where
  "postgres_types =
     [(''TEXT NOT NULL CHECK (json_valid(model))'', ''JSONB NOT NULL''),
      (''TEXT NOT NULL CHECK (json_valid(agent_snapshot))'', ''JSONB NOT NULL''),
      (''TEXT NOT NULL CHECK (json_valid(payload))'', ''JSONB NOT NULL''),
      (''TEXT NOT NULL DEFAULT '[]' CHECK (json_valid(tools))'', ''JSONB NOT NULL DEFAULT '[]'::jsonb''),
      (''TEXT NOT NULL DEFAULT '[]' CHECK (json_valid(mcp_servers))'', ''JSONB NOT NULL DEFAULT '[]'::jsonb''),
      (''TEXT NOT NULL DEFAULT '[]' CHECK (json_valid(skills))'', ''JSONB NOT NULL DEFAULT '[]'::jsonb''),
      (''TEXT NOT NULL DEFAULT '[]' CHECK (json_valid(vault_ids))'', ''JSONB NOT NULL DEFAULT '[]'::jsonb''),
      (''TEXT NOT NULL DEFAULT '[]' CHECK (json_valid(event_types))'', ''JSONB NOT NULL DEFAULT '[]'::jsonb''),
      (''TEXT NOT NULL DEFAULT '[]' CHECK (json_valid(files_json))'', ''JSONB NOT NULL DEFAULT '[]'::jsonb''),
      (''TEXT NOT NULL DEFAULT '{}' CHECK (json_valid(metadata))'', ''JSONB NOT NULL DEFAULT '{}'::jsonb''),
      (''TEXT NOT NULL DEFAULT '{}' CHECK (json_valid(config))'', ''JSONB NOT NULL DEFAULT '{}'::jsonb''),
      (''BLOB'', ''BYTEA''),
      ('' INTEGER'', '' BIGINT'')]"

definition postgresSchema :: "string \<Rightarrow> string" where
  "postgresSchema s = replacer_from postgres_types 0 s"


section \<open>What the replacer leaves\<close>

lemma replacer_from_skip: "k \<le> length s \<Longrightarrow> replacer_from ps k s = replacer_from ps 0 (drop k s)"
proof (induction k arbitrary: s)
  case (Suc k)
  then show ?case by (cases s) auto
qed simp

lemma first_match_None: "first_match ps s = None \<longleftrightarrow> (\<forall>(old, new)\<in>set ps. \<not> prefix old s)"
  by (induction ps s rule: first_match.induct) auto

lemma first_match_Some: "first_match ps s = Some (k, new) \<Longrightarrow> \<exists>old. (old, new) \<in> set ps \<and> prefix old s \<and> k = length old"
  by (induction ps s rule: first_match.induct) (auto split: if_splits)

text \<open>\<open>p\<close> cannot arise at the edge of a new text: what it shares with its start it shares with the old one.\<close>

definition cannot_arise :: "string \<Rightarrow> string \<times> string \<Rightarrow> bool" where
  "cannot_arise p on \<longleftrightarrow> fst on \<noteq> [] \<and> (\<forall>q\<in>set (suffixes p). q \<noteq> [] \<longrightarrow> \<not> strict_prefix (snd on) q \<and> (prefix q (snd on) \<longrightarrow> prefix q (fst on)))
     \<and> (\<forall>q\<in>set (suffixes (snd on)). q \<noteq> [] \<longrightarrow> \<not> prefix q p \<and> \<not> prefix p q)"

text \<open>\<open>p\<close> starts at no position at which nothing is replaced.\<close>

fun unreplaced :: "(string \<times> string) list \<Rightarrow> string \<Rightarrow> nat \<Rightarrow> string \<Rightarrow> bool" where
  "unreplaced ps p k [] = True"
| "unreplaced ps p (Suc k) (c # s) = unreplaced ps p k s"
| "unreplaced ps p 0 (c # s) =
     (case first_match ps (c # s) of
        Some (k, new) \<Rightarrow> unreplaced ps p (k - 1) s
      | None \<Rightarrow> \<not> prefix p (c # s) \<and> unreplaced ps p 0 s)"

lemma prefix_replaced:
  assumes "\<forall>on\<in>set ps. cannot_arise p on"
  shows "suffix q p \<Longrightarrow> prefix q (replacer_from ps k s) \<Longrightarrow> prefix q (drop k s)"
  using assms
proof (induction ps k s arbitrary: q rule: replacer_from.induct)
  case (3 ps c s)
  show ?case
  proof (cases "first_match ps (c # s)")
    case None
    then show ?thesis using 3 by (cases q) (auto dest: suffix_ConsD)
  next
    case (Some m)
    obtain k new where m: "m = (k, new)" by (cases m)
    obtain old where old: "(old, new) \<in> set ps" "prefix old (c # s)" using first_match_Some Some m by blast
    show ?thesis
    proof (cases "q = []")
      case False
      have no: "\<not> strict_prefix new q" "prefix q new \<Longrightarrow> prefix q old"
        using 3(3,5) old(1) False by (auto simp: cannot_arise_def)
      have "prefix q (new @ replacer_from ps (k - 1) s)" using 3 Some m by simp
      then have "prefix q new" using no(1) prefix_same_cases [of q "new @ replacer_from ps (k - 1) s" new] by (auto simp: strict_prefix_def)
      then show ?thesis using no(2) old(2) prefix_order.trans by (metis drop0)
    qed simp
  qed
qed auto

lemma sublist_Cons_iff: "p \<noteq> [] \<Longrightarrow> sublist p (c # s) \<longleftrightarrow> prefix p (c # s) \<or> sublist p s"
  by (simp add: sublist_Cons_right)

lemma sublist_new:
  assumes "p \<noteq> []" "\<forall>q\<in>set (suffixes new). q \<noteq> [] \<longrightarrow> \<not> prefix q p \<and> \<not> prefix p q" "\<not> sublist p r"
  shows "\<not> sublist p (new @ r)"
  using assms(2)
proof (induction new)
  case (Cons c new)
  have "\<not> prefix p (c # new @ r)"
  proof
    assume "prefix p (c # new @ r)"
    then have "prefix p (c # new) \<or> prefix (c # new) p" using prefix_same_cases [of p "(c # new) @ r" "c # new"] by auto
    then show False using Cons.prems by auto
  qed
  moreover have "\<not> sublist p (new @ r)" using Cons by auto
  ultimately show ?case using assms(1) by (simp add: sublist_Cons_right)
qed (simp add: assms(3))

lemma replaced_text_is_free:
  assumes "p \<noteq> []" "\<forall>on\<in>set ps. cannot_arise p on"
  shows "unreplaced ps p k s \<Longrightarrow> \<not> sublist p (replacer_from ps k s)"
  using assms
proof (induction ps p k s rule: unreplaced.induct)
  case (3 ps p c s)
  show ?case
  proof (cases "first_match ps (c # s)")
    case None
    have free: "\<not> sublist p (replacer_from ps 0 s)" "\<not> prefix p (c # s)" using 3 None by auto
    have "\<not> prefix p (c # replacer_from ps 0 s)"
    proof
      assume pre: "prefix p (c # replacer_from ps 0 s)"
      then obtain p' where p': "p = c # p'" "prefix p' (replacer_from ps 0 s)" using 3(4) by (cases p) auto
      then have "prefix p' s" using prefix_replaced [OF 3(5), of p' 0 s] by (simp add: suffix_Cons)
      then show False using free(2) p'(1) by simp
    qed
    then show ?thesis using None free(1) by (simp add: sublist_Cons_right)
  next
    case (Some m)
    obtain k new where m: "m = (k, new)" by (cases m)
    obtain old where "(old, new) \<in> set ps" using first_match_Some Some m by blast
    then have "\<forall>q\<in>set (suffixes new). q \<noteq> [] \<longrightarrow> \<not> prefix q p \<and> \<not> prefix p q" using 3(5) by (auto simp: cannot_arise_def)
    then show ?thesis using 3 Some m by (simp add: sublist_new)
  qed
qed simp_all


text \<open>Line by line: no old text spans lines.\<close>

lemma prefix_line: "x \<notin> set old \<Longrightarrow> prefix old (l @ x # r) \<longleftrightarrow> prefix old l"
proof (induction old arbitrary: l)
  case (Cons a old)
  then show ?case by (cases l) auto
qed simp

lemma first_match_line:
  "\<forall>on\<in>set ps. x \<notin> set (fst on) \<Longrightarrow> first_match ps (l @ x # r) = first_match ps l"
  by (induction ps l rule: first_match.induct) (auto simp: prefix_line)

lemma first_match_length: "first_match ps s = Some (k, new) \<Longrightarrow> k \<le> length s"
  by (auto dest!: first_match_Some simp: prefix_length_le)

lemma unreplaced_line:
  assumes "\<forall>on\<in>set ps. x \<notin> set (fst on) \<and> fst on \<noteq> []" "x \<notin> set p" "p \<noteq> []"
  shows "k \<le> length l \<Longrightarrow> unreplaced ps p k (l @ x # r) \<longleftrightarrow> unreplaced ps p k l \<and> unreplaced ps p 0 r"
  using assms
proof (induction ps p k l rule: unreplaced.induct)
  case (1 ps p k)
  have "first_match ps (x # r) = None" using 1 by (auto simp: first_match_None) (metis fst_conv list.set_intros(1) prefix_Cons)
  moreover have "\<not> prefix p (x # r)" using 1 by (cases p) auto
  ultimately show ?case using 1 by simp
next
  case (3 ps p c s)
  have m: "first_match ps (c # s @ x # r) = first_match ps (c # s)" using first_match_line [of ps x "c # s" r] 3(4) by simp
  have p: "prefix p (c # s @ x # r) = prefix p (c # s)" using prefix_line [of x p "c # s" r] 3(5) by simp
  show ?case
  proof (cases "first_match ps (c # s)")
    case None
    then show ?thesis using 3 m p by simp
  next
    case (Some q)
    obtain k new where q: "q = (k, new)" by (cases q)
    have "k - 1 \<le> length s" using first_match_length Some q by fastforce
    then show ?thesis using 3 m Some q by simp
  qed
qed simp

fun quick :: "nat \<Rightarrow> string \<Rightarrow> bool" where
  "quick k [] = True"
| "quick (Suc k) (c # s) = quick k s"
| "quick 0 (c # s) =
     (if c = CHR '' '' then (if prefix ''INTEGER'' s then quick 7 s else quick 0 s)
      else if c = CHR ''T'' then
        (if prefix ''EXT NOT NULL'' s
         then (case first_match postgres_types (c # s) of Some (k, _) \<Rightarrow> quick (k - 1) s | None \<Rightarrow> quick 0 s) else quick 0 s)
      else if c = CHR ''B'' then (if prefix ''LOB'' s then quick 3 s else quick 0 s)
      else if c = CHR ''j'' then \<not> prefix ''son_valid'' s \<and> quick 0 s
      else c \<noteq> CHR ''?'' \<and> quick 0 s)"

lemma types_line: "\<forall>on\<in>set postgres_types. newline \<notin> set (fst on) \<and> fst on \<noteq> []"
  by (simp add: postgres_types_def newline_def)

lemma postgres_cannot_arise: "p \<in> {''json_valid'', '' INTEGER'', ''BLOB'', ''?''} \<Longrightarrow> \<forall>on\<in>set postgres_types. cannot_arise p on"
  unfolding postgres_types_def cannot_arise_def by (elim insertE emptyE) (simp_all add: strict_prefix_def)

lemma olds: "on \<in> set postgres_types \<Longrightarrow> prefix ''TEXT NOT NULL'' (fst on) \<or> fst on = ''BLOB'' \<or> fst on = '' INTEGER''"
proof -
  have "list_all (\<lambda>on. prefix ''TEXT NOT NULL'' (fst on) \<or> fst on = ''BLOB'' \<or> fst on = '' INTEGER'') postgres_types"
    by (simp add: postgres_types_def)
  then show "on \<in> set postgres_types \<Longrightarrow> ?thesis" by (simp add: list_all_iff)
qed

lemma none_elsewhere:
  assumes "c = CHR ''T'' \<Longrightarrow> \<not> prefix ''EXT NOT NULL'' s" "c = CHR ''B'' \<Longrightarrow> \<not> prefix ''LOB'' s" "c = CHR '' '' \<Longrightarrow> \<not> prefix ''INTEGER'' s"
  shows "first_match postgres_types (c # s) = None"
proof -
  have "\<not> prefix old (c # s)" if "(old, new) \<in> set postgres_types" for old new
  proof
    assume p: "prefix old (c # s)"
    then have "prefix ''TEXT NOT NULL'' (c # s) \<or> prefix ''BLOB'' (c # s) \<or> prefix '' INTEGER'' (c # s)"
      using olds [OF that] prefix_order.trans by fastforce
    then show False using assms by auto
  qed
  then show ?thesis by (auto simp: first_match_None)
qed

lemma found:
  "prefix ''INTEGER'' s \<Longrightarrow> first_match postgres_types (CHR '' '' # s) = Some (8, '' BIGINT'')"
  "prefix ''LOB'' s \<Longrightarrow> first_match postgres_types (CHR ''B'' # s) = Some (4, ''BYTEA'')"
  by (simp_all add: postgres_types_def)

lemma quick_unreplaced: "quick k s \<Longrightarrow> unreplaced postgres_types ''json_valid'' k s \<and> unreplaced postgres_types ''?'' k s"
proof (induction k s rule: quick.induct)
  case (3 c s)
  show ?case
  proof (cases "first_match postgres_types (c # s)")
    case None
    then show ?thesis using 3 found by (auto split: if_splits)
  next
    case (Some m)
    then show ?thesis using 3 none_elsewhere [of c s] found [of s] by (auto split: if_splits)
  qed
qed simp_all

lemma quick_agent: "list_all (quick 0) agent_table"
  by code_simp

lemma quick_agent_version: "list_all (quick 0) agent_version_table"
  by code_simp

lemma quick_environment: "list_all (quick 0) environment_table"
  by code_simp

lemma quick_session: "list_all (quick 0) session_table"
  by code_simp

lemma quick_session_event: "list_all (quick 0) session_event_table"
  by code_simp

lemma quick_vault: "list_all (quick 0) vault_table"
  by code_simp

lemma quick_credential: "list_all (quick 0) credential_table"
  by code_simp

lemma quick_memory_store: "list_all (quick 0) memory_store_table"
  by code_simp

lemma quick_memory: "list_all (quick 0) memory_table"
  by code_simp

lemma quick_memory_version: "list_all (quick 0) memory_version_table"
  by code_simp

lemma quick_session_resource: "list_all (quick 0) session_resource_table"
  by code_simp

lemma quick_endpoint: "list_all (quick 0) endpoint_table"
  by code_simp

lemma quick_delivery: "list_all (quick 0) delivery_table"
  by code_simp

lemma quick_file: "list_all (quick 0) file_table"
  by code_simp

lemma quick_skill: "list_all (quick 0) skill_table"
  by code_simp

lemma quick_user: "list_all (quick 0) user_table"
  by code_simp

lemma quick_auth_session: "list_all (quick 0) auth_session_table"
  by code_simp

lemma quick_api_key: "list_all (quick 0) api_key_table"
  by code_simp

lemmas quick_tables =
  quick_agent quick_agent_version quick_environment quick_session quick_session_event quick_vault
  quick_credential quick_memory_store quick_memory quick_memory_version quick_session_resource quick_endpoint
  quick_delivery quick_file quick_skill quick_user quick_auth_session quick_api_key

lemma schema_quick: "list_all (quick 0) schema_lines"
  by (simp add: schema_lines_def quick_tables)

lemma lines_unreplaced:
  "list_all (quick 0) ls \<Longrightarrow> p \<in> {''json_valid'', ''?''} \<Longrightarrow> unreplaced postgres_types p 0 (concat (map (\<lambda>l. l @ [newline]) ls))"
proof (induction ls)
  case (Cons l ls)
  have p: "newline \<notin> set p" "p \<noteq> []" using Cons.prems(2) by (auto simp: newline_def)
  show ?case using Cons unreplaced_line [OF types_line p, of 0 l] quick_unreplaced [of 0 l] by auto
qed simp

lemma unreplaced_listed:
  assumes "\<exists>new. (p, new) \<in> set ps"
  shows "unreplaced ps p k s"
  using assms
proof (induction ps p k s rule: unreplaced.induct)
  case (3 ps p c s)
  then show ?case by (auto simp: first_match_None split: option.split)
qed simp_all

lemma schema_unreplaced: "p \<in> {''json_valid'', ''?'', ''BLOB'', '' INTEGER''} \<Longrightarrow> unreplaced postgres_types p 0 sqliteSchema"
proof -
  have first: "first_match postgres_types (newline # s) = None" for s by (rule none_elsewhere) (simp_all add: newline_def)
  assume "p \<in> {''json_valid'', ''?'', ''BLOB'', '' INTEGER''}"
  then consider "p \<in> {''json_valid'', ''?''}" | "p \<in> {''BLOB'', '' INTEGER''}" by blast
  then show ?thesis
  proof cases
    case 1
    then have "\<not> prefix p (newline # s)" for s by (auto simp: newline_def)
    then show ?thesis using lines_unreplaced [OF schema_quick 1] by (simp add: sqliteSchema_def first)
  next
    case 2
    moreover have "(''BLOB'', ''BYTEA'') \<in> set postgres_types" "('' INTEGER'', '' BIGINT'') \<in> set postgres_types"
      by (simp_all add: postgres_types_def)
    ultimately show ?thesis by (intro unreplaced_listed) blast
  qed
qed

lemma postgres_schema_free: "p \<in> {''json_valid'', ''?'', ''BLOB'', '' INTEGER''} \<Longrightarrow> \<not> sublist p (postgresSchema sqliteSchema)"
proof -
  assume p: "p \<in> {''json_valid'', ''?'', ''BLOB'', '' INTEGER''}"
  have "\<forall>on\<in>set postgres_types. cannot_arise p on" by (rule postgres_cannot_arise) (use p in blast)
  moreover have "p \<noteq> []" using p by auto
  ultimately show ?thesis unfolding postgresSchema_def using schema_unreplaced [OF p] replaced_text_is_free by blast
qed

section \<open>Statements are pieces of the schema\<close>

lemma sublist_TrimSpace: "sublist (TrimSpace s) s"
proof -
  obtain a where a: "s = a @ dropWhile is_space s" by (metis takeWhile_dropWhile_id)
  obtain b where b: "rev (dropWhile is_space s) = b @ dropWhile is_space (rev (dropWhile is_space s))" by (metis takeWhile_dropWhile_id)
  then have "dropWhile is_space s = TrimSpace s @ rev b" unfolding TrimSpace_def by (metis rev_append rev_rev_ident)
  then have "s = a @ TrimSpace s @ rev b" using a by simp
  then show ?thesis unfolding sublist_def by blast
qed

lemma keep_stmt_sublist: "x \<in> set (keep_stmt s) \<Longrightarrow> sublist x s"
  using sublist_TrimSpace by (auto simp: keep_stmt_def split: if_splits)

lemma split_stmts_sublist: "x \<in> set (split_stmts q acc s) \<Longrightarrow> sublist x (acc @ s)"
proof (induction q acc s rule: split_stmts.induct)
  case (1 q acc)
  then show ?case by (simp add: keep_stmt_sublist)
next
  case (2 q acc ch s)
  show ?case
  proof (cases "ch = apos")
    case True
    then show ?thesis using 2 keep_stmt_sublist by (cases s) (auto split: if_splits)
  next
    case False
    show ?thesis
    proof (cases "ch = CHR '';'' \<and> \<not> q")
      case True
      then have "x \<in> set (keep_stmt acc) \<or> x \<in> set (split_stmts q [] s)" using 2(5) False by simp
      then have "sublist x acc \<or> sublist x s" using keep_stmt_sublist 2(3) [OF False True] by auto
      then show ?thesis by (auto simp: sublist_def) (metis append.assoc append_Cons)+
    next
      case False
      then show ?thesis using 2(4) [OF \<open>ch \<noteq> apos\<close> False] 2(5) \<open>ch \<noteq> apos\<close> by auto
    qed
  qed
qed

lemma schemaStatements_sublist: "x \<in> set (schemaStatements s) \<Longrightarrow> sublist x s"
  using split_stmts_sublist [of x False "[]"] by (simp add: schemaStatements_def)

lemma bind_from_free: "CHR ''?'' \<notin> set s \<Longrightarrow> bind_from n q s = s"
proof (induction n q s rule: bind_from.induct)
  case (2 n q ch s)
  have ne: "ch \<noteq> CHR ''?''" using 2(5) by auto
  show ?case
  proof (cases "ch = apos")
    case True
    then show ?thesis using 2 by (cases s) simp_all
  next
    case False
    then show ?thesis using 2(4,5) ne by simp
  qed
qed simp

end
