(* ===== verification/StoreOpen.thy ===== *)
theory StoreOpen
  imports Schema Paths
begin

text \<open>
  Opening the database (\<open>Open\<close> and \<open>Migrate\<close> of \<open>internal/store/store.go\<close>, the \<open>Store\<close> methods of
  \<open>dialect.go\<close>): the driver is chosen by the URL, the connection is tried, and the schema is applied
  statement by statement in the dialect of the driver. The drivers are parameters.
\<close>

text \<open>\<open>ql_Exec\<close> answers a statement, given those the database has executed since it was opened.\<close>

record sql_lib =
  ql_MkdirAll :: "string \<Rightarrow> gerr option"
  ql_Open :: "string \<Rightarrow> string \<Rightarrow> gerr option"
  ql_Ping :: "string \<Rightarrow> gerr option"
  ql_Exec :: "string list \<Rightarrow> string \<Rightarrow> gerr option"

record Store =
  st_Driver :: string
  st_dialect :: "dialect option"

section \<open>The dialect of a store\<close>

definition ensureDialect :: "Store \<Rightarrow> (gerr + dialect) \<times> Store" where
  "ensureDialect s =
     (case st_dialect s of
        Some d \<Rightarrow> (Inr d, s)
      | None \<Rightarrow> (case dialectForDriver (st_Driver s) of
          Inl err \<Rightarrow> (Inl err, s)
        | Inr d \<Rightarrow> (Inr d, s\<lparr>st_dialect := Some d\<rparr>)))"

definition schema_of :: "dialect \<Rightarrow> string \<Rightarrow> string" where
  "schema_of d base = (case d of Sqlite \<Rightarrow> base | Postgres \<Rightarrow> postgresSchema base)"

definition Store_bind :: "Store \<Rightarrow> string \<Rightarrow> string" where
  "Store_bind s query = (case fst (ensureDialect s) of Inl _ \<Rightarrow> query | Inr d \<Rightarrow> bind d query)"

definition Store_JSONBoolTrue :: "Store \<Rightarrow> string \<Rightarrow> string \<Rightarrow> string" where
  "Store_JSONBoolTrue s column f = (case fst (ensureDialect s) of Inl _ \<Rightarrow> ''1 = 0'' | Inr d \<Rightarrow> JSONBoolTrue d column f)"

definition Store_JSONTextEquals :: "Store \<Rightarrow> string \<Rightarrow> string list \<Rightarrow> string \<Rightarrow> string" where
  "Store_JSONTextEquals s column path value =
     (case fst (ensureDialect s) of Inl _ \<Rightarrow> ''1 = 0'' | Inr d \<Rightarrow> JSONTextEquals d column path value)"

text \<open>\<open>s.exec\<close>: the statement as it is sent.\<close>

definition Store_exec :: "sql_lib \<Rightarrow> Store \<Rightarrow> string list \<Rightarrow> string \<Rightarrow> gerr option \<times> string list" where
  "Store_exec L s done query = (ql_Exec L done (Store_bind s query), done @ [Store_bind s query])"

section \<open>Migration\<close>

text \<open>The statements sent, in order, up to the first that fails.\<close>

fun apply_statements :: "sql_lib \<Rightarrow> Store \<Rightarrow> string list \<Rightarrow> string list \<Rightarrow> gerr option \<times> string list" where
  "apply_statements L s done [] = (None, done)"
| "apply_statements L s done (q # qs) =
     (case Store_exec L s done q of
        (Some err, done') \<Rightarrow> (Some (Wrap ''apply schema statement'' err), done')
      | (None, done') \<Rightarrow> apply_statements L s done' qs)"

definition Migrate :: "sql_lib \<Rightarrow> Store \<Rightarrow> gerr option \<times> string list" where
  "Migrate L s =
     (case ensureDialect s of
        (Inl err, _) \<Rightarrow> (Some err, [])
      | (Inr d, s') \<Rightarrow> apply_statements L s' [] (schemaStatements (schema_of d sqliteSchema)))"

section \<open>Opening\<close>

text \<open>\<open>filepath.Dir\<close>: the cleaned text up to the last separator.\<close>

definition Dir :: "string \<Rightarrow> string" where
  "Dir path = Clean (rev (dropWhile (\<lambda>ch. ch \<noteq> CHR ''/'') (rev path)))"

definition sqlite_dsn :: "string \<Rightarrow> string" where
  "sqlite_dsn path = path @ ''?_pragma=foreign_keys(1)&_pragma=journal_mode(WAL)&_pragma=busy_timeout(5000)''"

text \<open>What both drivers do after the database is open: ping, dialect, migration.\<close>

definition opened :: "sql_lib \<Rightarrow> string \<Rightarrow> string \<Rightarrow> string \<Rightarrow> (gerr + Store) \<times> string list" where
  "opened L kind driver dsn =
     (case ql_Open L driver dsn of
        Some err \<Rightarrow> (Inl (Wrap (''open '' @ kind) err), [])
      | None \<Rightarrow>
          (case ql_Ping L dsn of
             Some err \<Rightarrow> (Inl (Wrap (''ping '' @ kind) err), [])
           | None \<Rightarrow>
               (case dialectForDriver kind of
                  Inl err \<Rightarrow> (Inl err, [])
                | Inr d \<Rightarrow>
                    (let s = \<lparr>st_Driver = kind, st_dialect = Some d\<rparr> in
                     case Migrate L s of
                       (Some err, sent) \<Rightarrow> (Inl err, sent)
                     | (None, sent) \<Rightarrow> (Inr s, sent)))))"

definition Open :: "sql_lib \<Rightarrow> string \<Rightarrow> (gerr + Store) \<times> string list" where
  "Open L url =
     (if HasPrefix url ''sqlite://'' then
        (let path = TrimPrefix url ''sqlite://''; dir = Dir path in
         case (if dir \<noteq> [] \<and> dir \<noteq> ''.'' then ql_MkdirAll L dir else None) of
           Some err \<Rightarrow> (Inl (Wrap (''mkdir '' @ dir) err), [])
         | None \<Rightarrow> opened L ''sqlite'' ''sqlite'' (sqlite_dsn path))
      else if HasPrefix url ''postgres://'' \<or> HasPrefix url ''postgresql://'' then opened L ''postgres'' ''pgx'' url
      else (Inl (ErrMsg (''unsupported database URL scheme: '' @ url)), []))"

definition open_error :: "sql_lib \<Rightarrow> string \<Rightarrow> gerr option" where
  "open_error L url = (case fst (Open L url) of Inl err \<Rightarrow> Some err | Inr _ \<Rightarrow> None)"

section \<open>What is sent\<close>

lemma apply_statements_sent:
  assumes "\<And>q. q \<in> set qs \<Longrightarrow> Store_bind s q = q"
  shows "apply_statements L s done qs = (None, sent) \<Longrightarrow> sent = done @ qs"
  using assms
proof (induction qs arbitrary: "done")
  case (Cons q qs)
  have "apply_statements L s (done @ [q]) qs = (None, sent)"
    using Cons.prems by (auto simp: Store_exec_def split: option.splits)
  from Cons.IH [OF this] Cons.prems(2) show ?case by simp
qed simp

lemma apply_statements_ok:
  "(\<And>d q. ql_Exec L d q = None) \<Longrightarrow> \<exists>sent. apply_statements L s done qs = (None, sent)"
  by (induction qs arbitrary: "done") (simp_all add: Store_exec_def)

lemma sqlite_opens:
  assumes "\<And>p. ql_MkdirAll L p = None" "\<And>d n. ql_Open L d n = None" "\<And>n. ql_Ping L n = None" "\<And>d q. ql_Exec L d q = None"
  shows "open_error L (''sqlite://'' @ path) = None"
proof -
  obtain sent where "apply_statements L \<lparr>st_Driver = ''sqlite'', st_dialect = Some Sqlite\<rparr> [] (schemaStatements sqliteSchema) = (None, sent)"
    using apply_statements_ok [OF assms(4)] by blast
  then show ?thesis
    by (simp add: open_error_def Open_def HasPrefix_iff Let_def assms opened_def dialectForDriver_def Migrate_def ensureDialect_def schema_of_def)
qed

lemma apply_statements_sublist:
  assumes "\<And>q. q \<in> set qs \<Longrightarrow> Store_bind s q = q"
  shows "apply_statements L s done qs = (r, sent) \<Longrightarrow> \<exists>k. sent = done @ take k qs"
  using assms
proof (induction qs arbitrary: "done")
  case (Cons q qs)
  show ?case
  proof (cases "ql_Exec L done q")
    case None
    then obtain k where "sent = (done @ [q]) @ take k qs" using Cons by (fastforce simp: Store_exec_def)
    then show ?thesis by (intro exI [of _ "Suc k"]) simp
  next
    case (Some err)
    then show ?thesis using Cons.prems by (intro exI [of _ 1]) (simp add: Store_exec_def)
  qed
qed simp

lemma native_bind:
  assumes "q \<in> set (schemaStatements (postgresSchema sqliteSchema))"
  shows "postgresBind q = q" "\<not> sublist ''json_valid'' q" "\<not> sublist ''BLOB'' q" "\<not> sublist '' INTEGER'' q"
proof -
  have free: "p \<in> {''json_valid'', ''?'', ''BLOB'', '' INTEGER''} \<Longrightarrow> \<not> sublist p q" for p
    using postgres_schema_free schemaStatements_sublist [OF assms] sublist_order.order_trans by blast
  then show "\<not> sublist ''json_valid'' q" "\<not> sublist ''BLOB'' q" "\<not> sublist '' INTEGER'' q" by simp_all
  have "CHR ''?'' \<notin> set q"
  proof
    assume "CHR ''?'' \<in> set q"
    then obtain a b where "q = a @ ''?'' @ b" by (auto dest: split_list)
    then show False using free [of "''?''"] by (auto simp: sublist_def)
  qed
  then show "postgresBind q = q" by (simp add: postgresBind_def bind_from_free)
qed

text \<open>A PostgreSQL database is sent the translated schema and nothing of SQLite's: none of the statements, of
which all are sent if it could be opened, has a check for JSON text, a BLOB or an INTEGER column, and none a
place holder.\<close>

theorem postgres_gets_its_own_types:
  assumes "HasPrefix url ''postgres://''" "Open L url = (r, sent)"
  shows "list_all (\<lambda>q. \<not> sublist ''json_valid'' q \<and> \<not> sublist ''BLOB'' q \<and> \<not> sublist '' INTEGER'' q) sent
    \<and> (\<exists>k. sent = take k (schemaStatements (postgresSchema sqliteSchema)))
    \<and> (isl r \<or> sent = schemaStatements (postgresSchema sqliteSchema))"
proof -
  let ?qs = "schemaStatements (postgresSchema sqliteSchema)" and ?s = "\<lparr>st_Driver = ''postgres'', st_dialect = Some Postgres\<rparr>"
  have bound: "q \<in> set ?qs \<Longrightarrow> Store_bind ?s q = q" for q
    by (simp add: Store_bind_def ensureDialect_def bind_def native_bind)
  have op: "Open L url = opened L ''postgres'' ''pgx'' url" using assms(1) by (auto simp: Open_def HasPrefix_iff)
  have m: "Migrate L ?s = apply_statements L ?s [] ?qs" by (simp add: Migrate_def ensureDialect_def schema_of_def)
  have "(sent = [] \<and> isl r) \<or> (\<exists>res. apply_statements L ?s [] ?qs = (res, sent) \<and> (isl r \<or> res = None))"
    using assms(2) unfolding op opened_def dialectForDriver_def
    by (auto simp: m Let_def split: option.splits prod.splits)
  moreover have "apply_statements L ?s [] ?qs = (res, sent) \<Longrightarrow> \<exists>k. sent = take k ?qs" for res
    using apply_statements_sublist [of ?qs ?s L "[]"] bound by simp
  moreover have "apply_statements L ?s [] ?qs = (None, sent) \<Longrightarrow> sent = ?qs"
    using apply_statements_sent [of ?qs ?s L "[]"] bound by simp
  ultimately have k: "\<exists>k. sent = take k ?qs" "isl r \<or> sent = ?qs" by (metis take0)+
  then have "set sent \<subseteq> set ?qs" using set_take_subset by fastforce
  then have "list_all (\<lambda>q. \<not> sublist ''json_valid'' q \<and> \<not> sublist ''BLOB'' q \<and> \<not> sublist '' INTEGER'' q) sent"
    using native_bind by (auto simp: list_all_iff)
  then show ?thesis using k by blast
qed

lemma postgres_gets_its_own_types_witness:
  "\<exists>sent. snd (Open \<lparr>ql_MkdirAll = \<lambda>_. None, ql_Open = \<lambda>_ _. None, ql_Ping = \<lambda>_. None, ql_Exec = \<lambda>_ _. None\<rparr> ''postgres://db'') = sent
     \<and> list_all (\<lambda>q. \<not> sublist ''json_valid'' q) sent \<and> sent = schemaStatements (postgresSchema sqliteSchema)"
proof -
  let ?L = "\<lparr>ql_MkdirAll = \<lambda>_. None, ql_Open = \<lambda>_ _. None, ql_Ping = \<lambda>_. None, ql_Exec = \<lambda>_ _. None\<rparr>"
  obtain sent where "apply_statements ?L \<lparr>st_Driver = ''postgres'', st_dialect = Some Postgres\<rparr> [] (schemaStatements (postgresSchema sqliteSchema)) = (None, sent)"
    using apply_statements_ok [of ?L] by fastforce
  then have "Open ?L ''postgres://db'' = (Inr \<lparr>st_Driver = ''postgres'', st_dialect = Some Postgres\<rparr>, sent)"
    by (simp add: Open_def HasPrefix_iff opened_def dialectForDriver_def Let_def Migrate_def ensureDialect_def schema_of_def)
  from postgres_gets_its_own_types [OF _ this] this show ?thesis by (auto simp: HasPrefix_iff list_all_iff)
qed

end
