(* ===== verification/VaultCA.thy ===== *)
theory VaultCA
  imports VaultProxy Config StoreOpen
begin

text \<open>
  The certificate authority of the vault proxy and its connections (\<open>internal/vault/proxy.go\<close>,
  \<open>cmd/je-vault/main.go\<close>): how the authority is loaded from its two files or made, the
  certificates signed for the hosts a sandbox talks to, what becomes of a connection, and the start of the
  program. Keys, signatures and encodings are parameters (\<open>crypto\<close>); the files are a map of their
  contents, and every system call may fail, a write also half way.
\<close>

section \<open>Certificates and the cryptographic library\<close>

text \<open>\<open>x509.Certificate\<close>, used both for templates and for parsed certificates.\<close>

record x509 =
  x5_Raw :: string
  x5_Serial :: "nat option"
  x5_CommonName :: string
  x5_Organization :: "string list"
  x5_NotBefore :: int
  x5_NotAfter :: int
  x5_KeyUsage :: nat
  x5_ExtKeyUsage :: "nat list"
  x5_BasicConstraintsValid :: bool
  x5_IsCA :: bool
  x5_MaxPathLenZero :: bool
  x5_DNSNames :: "string list"
  x5_IPAddresses :: "string list"
  x5_PublicKey :: string

definition KeyUsageDigitalSignature :: nat where
  "KeyUsageDigitalSignature = 1"

definition KeyUsageCertSign :: nat where
  "KeyUsageCertSign = 32"

definition ExtKeyUsageServerAuth :: nat where
  "ExtKeyUsageServerAuth = 1"

record crypto =
  pk_Fault :: "nat \<Rightarrow> gerr option"
  pk_Torn :: "nat \<Rightarrow> nat option"
  pk_GenerateKey :: "nat \<Rightarrow> gerr + string"
  pk_Public :: "string \<Rightarrow> string"
  pk_RandInt :: "nat \<Rightarrow> nat \<Rightarrow> nat option"
  pk_AddYears :: "int \<Rightarrow> int \<Rightarrow> int"
  pk_ParseIP :: "string \<Rightarrow> string option"
  pk_CreateCertificate :: "nat \<Rightarrow> x509 \<Rightarrow> x509 \<Rightarrow> string \<Rightarrow> string \<Rightarrow> gerr + string"
  pk_ParseCertificate :: "string \<Rightarrow> gerr + x509"
  pk_SignedBy :: "x509 \<Rightarrow> string \<Rightarrow> bool"
  pk_MarshalKey :: "string \<Rightarrow> gerr + string"
  pk_ParseKey :: "string \<Rightarrow> gerr + string"
  pk_PemEncode :: "string \<Rightarrow> string \<Rightarrow> string"
  pk_PemDecode :: "string \<Rightarrow> string option"

text \<open>
  What the program relies on: what was encoded is decoded, and a certificate that was created parses, names
  what its template names, holds the key it was made for and is signed with the signer's key.
\<close>

definition crypto_ok :: "crypto \<Rightarrow> bool" where
  "crypto_ok P \<longleftrightarrow>
     (\<forall>ty x. pk_PemDecode P (pk_PemEncode P ty x) = Some x)
   \<and> (\<forall>k d. pk_MarshalKey P k = Inr d \<longrightarrow> pk_ParseKey P d = Inr k)
   \<and> (\<forall>n t parent pub priv der. pk_CreateCertificate P n t parent pub priv = Inr der \<longrightarrow>
        (\<exists>c. pk_ParseCertificate P der = Inr c \<and> x5_DNSNames c = x5_DNSNames t \<and> x5_IPAddresses c = x5_IPAddresses t
           \<and> x5_IsCA c = x5_IsCA t \<and> x5_ExtKeyUsage c = x5_ExtKeyUsage t \<and> x5_PublicKey c = pub
           \<and> pk_SignedBy P c (pk_Public P priv)))"

section \<open>Files\<close>

record ca_files = base +
  fs_Content :: "string \<Rightarrow> string option"

definition tick_up :: "ca_files \<Rightarrow> ca_files" where
  "tick_up w = w\<lparr>tick := Suc (tick w)\<rparr>"

definition draw :: "(nat \<Rightarrow> gerr + 'a) \<Rightarrow> (ca_files, 'a) io" where
  "draw f w = (f (tick w), tick_up w)"

definition sys :: "crypto \<Rightarrow> (ca_files, unit) io" where
  "sys P = draw (\<lambda>n. case pk_Fault P n of Some err \<Rightarrow> Inl err | None \<Rightarrow> Inr ())"

definition os_MkdirAll :: "crypto \<Rightarrow> string \<Rightarrow> (ca_files, unit) io" where
  "os_MkdirAll P dir = sys P"

definition os_ReadFile :: "crypto \<Rightarrow> string \<Rightarrow> (ca_files, string) io" where
  "os_ReadFile P path =
     bindE (sys P) (\<lambda>_. bindE (getsE fs_Content) (\<lambda>m. case m path of
       None \<Rightarrow> throwE (ErrMsg (''open '' @ path @ '': no such file or directory'')) | Some s \<Rightarrow> returnE s))"

text \<open>A failing write leaves the file as it was, or the first bytes of what was to be written.\<close>

definition os_WriteFile :: "crypto \<Rightarrow> string \<Rightarrow> string \<Rightarrow> (ca_files, unit) io" where
  "os_WriteFile P path s w =
     (case pk_Fault P (tick w) of
        None \<Rightarrow> (Inr (), (tick_up w)\<lparr>fs_Content := (fs_Content w)(path \<mapsto> s)\<rparr>)
      | Some err \<Rightarrow> (Inl err, (case pk_Torn P (tick w) of None \<Rightarrow> tick_up w
          | Some k \<Rightarrow> (tick_up w)\<lparr>fs_Content := (fs_Content w)(path \<mapsto> take k s)\<rparr>)))"

section \<open>The authority\<close>

record CA =
  va_Cert :: x509
  va_Key :: string
  va_CertPath :: string

definition newSerial :: "crypto \<Rightarrow> nat \<Rightarrow> nat option" where
  "newSerial P n = pk_RandInt P n (2 ^ 128)"

definition ca_template :: "crypto \<Rightarrow> nat option \<Rightarrow> int \<Rightarrow> int \<Rightarrow> x509" where
  "ca_template P serial t1 t2 =
     \<lparr>x5_Raw = [], x5_Serial = serial, x5_CommonName = ''JadeEnvoy Vault CA'', x5_Organization = [''JadeEnvoy''],
      x5_NotBefore = t1 - 3600000, x5_NotAfter = pk_AddYears P 10 t2,
      x5_KeyUsage = or KeyUsageCertSign KeyUsageDigitalSignature, x5_ExtKeyUsage = [], x5_BasicConstraintsValid = True,
      x5_IsCA = True, x5_MaxPathLenZero = True, x5_DNSNames = [], x5_IPAddresses = [], x5_PublicKey = []\<rparr>"

definition load_ca :: "crypto \<Rightarrow> string \<Rightarrow> string \<Rightarrow> string \<Rightarrow> string \<Rightarrow> (ca_files, CA) io" where
  "load_ca P dir certPath keyPath certPEM =
     bindE (catchE (os_ReadFile P keyPath) (\<lambda>err. throwE (Wrap ''read ca key'' err))) (\<lambda>keyPEM.
       case (pk_PemDecode P certPEM, pk_PemDecode P keyPEM) of
         (Some cb, Some kb) \<Rightarrow>
           (case pk_ParseCertificate P cb of Inl err \<Rightarrow> throwE err
            | Inr cert \<Rightarrow> (case pk_ParseKey P kb of Inl err \<Rightarrow> throwE err
                | Inr key \<Rightarrow> returnE \<lparr>va_Cert = cert, va_Key = key, va_CertPath = certPath\<rparr>))
       | _ \<Rightarrow> throwE (ErrMsg (''malformed CA pem in '' @ dir)))"

definition create_ca :: "crypto \<Rightarrow> env \<Rightarrow> string \<Rightarrow> string \<Rightarrow> (ca_files, CA) io" where
  "create_ca P e certPath keyPath =
     bindE (draw (pk_GenerateKey P)) (\<lambda>key.
     bindE (draw (\<lambda>n. Inr (newSerial P n))) (\<lambda>serial.
     bindE (now e) (\<lambda>t1.
     bindE (now e) (\<lambda>t2.
     bindE (draw (\<lambda>n. pk_CreateCertificate P n (ca_template P serial t1 t2) (ca_template P serial t1 t2)
              (pk_Public P key) key)) (\<lambda>der.
     bindE (draw (\<lambda>_. pk_ParseCertificate P der)) (\<lambda>cert.
     bindE (os_WriteFile P certPath (pk_PemEncode P ''CERTIFICATE'' der)) (\<lambda>_.
     bindE (draw (\<lambda>_. pk_MarshalKey P key)) (\<lambda>keyDER.
     bindE (os_WriteFile P keyPath (pk_PemEncode P ''EC PRIVATE KEY'' keyDER)) (\<lambda>_.
     returnE \<lparr>va_Cert = cert, va_Key = key, va_CertPath = certPath\<rparr>)))))))))"

definition LoadOrCreateCA :: "crypto \<Rightarrow> env \<Rightarrow> string \<Rightarrow> (ca_files, CA) io" where
  "LoadOrCreateCA P e dir =
     bindE (os_MkdirAll P dir) (\<lambda>_.
     bindE (attempt (os_ReadFile P (Join [dir, ''ca.crt'']))) (\<lambda>r. case r of
       Inr certPEM \<Rightarrow> load_ca P dir (Join [dir, ''ca.crt'']) (Join [dir, ''ca.key'']) certPEM
     | Inl _ \<Rightarrow> create_ca P e (Join [dir, ''ca.crt'']) (Join [dir, ''ca.key''])))"

section \<open>Certificates for hosts\<close>

text \<open>\<open>tls.Certificate\<close>: the chain and the private key.\<close>

record tls_cert =
  lf_Certificate :: "string list"
  lf_PrivateKey :: string

type_synonym leaves = "string \<Rightarrow> tls_cert option"

definition leaf_template :: "crypto \<Rightarrow> env \<Rightarrow> nat \<Rightarrow> string \<Rightarrow> x509" where
  "leaf_template P e n host =
     \<lparr>x5_Raw = [], x5_Serial = newSerial P n, x5_CommonName = host, x5_Organization = [],
      x5_NotBefore = clock e n - 3600000, x5_NotAfter = pk_AddYears P 2 (clock e n),
      x5_KeyUsage = KeyUsageDigitalSignature, x5_ExtKeyUsage = [ExtKeyUsageServerAuth], x5_BasicConstraintsValid = False,
      x5_IsCA = False, x5_MaxPathLenZero = False,
      x5_DNSNames = (case pk_ParseIP P host of Some _ \<Rightarrow> [] | None \<Rightarrow> [host]),
      x5_IPAddresses = (case pk_ParseIP P host of Some ip \<Rightarrow> [ip] | None \<Rightarrow> []), x5_PublicKey = []\<rparr>"

definition leafFor :: "crypto \<Rightarrow> env \<Rightarrow> CA \<Rightarrow> string \<Rightarrow> nat \<Rightarrow> leaves \<Rightarrow> (gerr + tls_cert) \<times> leaves" where
  "leafFor P e ca host n leaves =
     (case leaves host of
        Some c \<Rightarrow> (Inr c, leaves)
      | None \<Rightarrow>
          (case pk_GenerateKey P n of
             Inl err \<Rightarrow> (Inl err, leaves)
           | Inr key \<Rightarrow>
               (case pk_CreateCertificate P n (leaf_template P e n host) (va_Cert ca) (pk_Public P key) (va_Key ca) of
                  Inl err \<Rightarrow> (Inl err, leaves)
                | Inr der \<Rightarrow>
                    (let c = \<lparr>lf_Certificate = [der, x5_Raw (va_Cert ca)], lf_PrivateKey = key\<rparr>
                     in (Inr c, leaves(host \<mapsto> c))))))"

section \<open>Connections\<close>

text \<open>
  What the client of a connection does: whether it can be taken over and accepts the answer, the server
  name of its hello (if it sends one), whether it goes on with the certificate, and its requests.
\<close>

record client_conn =
  cx_Hijacker :: bool
  cx_Established :: bool
  cx_Hello :: "string option"
  cx_Accepts :: "tls_cert \<Rightarrow> bool"
  cx_Requests :: "http_req list"

record vault_proxy =
  vx_CA :: CA
  vx_Inject :: "string \<Rightarrow> string \<Rightarrow> (world, string option) io"
  vx_Upstream :: upstream
  vx_Leaves :: leaves

definition NewProxy :: "CA \<Rightarrow> (string \<Rightarrow> string \<Rightarrow> (world, string option) io) \<Rightarrow> upstream \<Rightarrow> vault_proxy" where
  "NewProxy ca ij up = \<lparr>vx_CA = ca, vx_Inject = ij, vx_Upstream = up, vx_Leaves = Map.empty\<rparr>"

definition handleConnect ::
  "crypto \<Rightarrow> env \<Rightarrow> (nat \<Rightarrow> bool) \<Rightarrow> http_req \<Rightarrow> client_conn \<Rightarrow> vault_proxy \<Rightarrow> (world, http_resp list \<times> vault_proxy) io" where
  "handleConnect P e writes r cx p =
     (if \<not> cx_Hijacker cx then returnE ([http_error 500 ''hijack unsupported''], p)
      else if \<not> cx_Established cx then returnE ([], p)
      else (case cx_Hello cx of
          None \<Rightarrow> returnE ([], p)
        | Some name \<Rightarrow>
            bindE (askE (\<lambda>n. leafFor P e (vx_CA p) (if name = [] then hostnameOnly (hq_Host r) else name) n (vx_Leaves p)))
              (\<lambda>(leaf, leaves).
               let p' = p\<lparr>vx_Leaves := leaves\<rparr> in
               case leaf of
                 Inl _ \<Rightarrow> returnE ([], p')
               | Inr c \<Rightarrow>
                   if \<not> cx_Accepts cx c then returnE ([], p')
                   else bindE (tunnel (vx_Inject p) (vx_Upstream p) writes (hq_Host r)
                           (sessionFromProxyAuth (header_get (hq_Header r) ''Proxy-Authorization'')) (cx_Requests cx))
                          (\<lambda>answers. returnE (answers, p')))))"

definition ServeHTTP ::
  "crypto \<Rightarrow> env \<Rightarrow> (nat \<Rightarrow> bool) \<Rightarrow> string \<Rightarrow> http_req \<Rightarrow> client_conn \<Rightarrow> vault_proxy \<Rightarrow> (world, http_resp list \<times> vault_proxy) io" where
  "ServeHTTP P e writes method r cx p =
     (if method = ''CONNECT'' then handleConnect P e writes r cx p
      else bindE (handlePlain (vx_Inject p) (vx_Upstream p) r) (\<lambda>a. returnE ([a], p)))"

section \<open>The program\<close>

text \<open>\<open>run\<close> of \<open>je-vault\<close>, up to serving: the address and the proxy it serves, or the error it ends with.\<close>

definition je_vault_start ::
  "crypto \<Rightarrow> env \<Rightarrow> ctx \<Rightarrow> vault_lib \<Rightarrow> getenv \<Rightarrow> (string \<Rightarrow> gerr + string) \<Rightarrow> sql_lib \<Rightarrow> upstream
     \<Rightarrow> (ca_files, string \<times> vault_proxy) io" where
  "je_vault_start P e c L g resolve S up =
     (case Load g resolve of
        Inl err \<Rightarrow> throwE (Wrap ''config'' err)
      | Inr cfg \<Rightarrow>
          (case open_error S (cf_DatabaseURL cfg) of
             Some err \<Rightarrow> throwE (Wrap ''open store'' err)
           | None \<Rightarrow>
               bindE (catchE (LoadOrCreateCA P e (Join [cf_DataDir cfg, ''je-vault-ca''])) (\<lambda>err. throwE (Wrap ''vault CA'' err)))
                 (\<lambda>ca. returnE (cf_VaultProxyAddr cfg, NewProxy ca (inject e c L (NewVaultService L (cf_PlatformRootSecret cfg))) up))))"


section \<open>The authority is kept\<close>

lemma draw_run: "draw f w = (f (tick w), tick_up w)"
  by (rule draw_def)

lemma sys_run: "sys P w = (case pk_Fault P (tick w) of Some err \<Rightarrow> Inl err | None \<Rightarrow> Inr (), tick_up w)"
  by (simp add: sys_def draw_def)

lemma tick_up_fields [simp]: "fs_Content (tick_up w) = fs_Content w" "tick (tick_up w) = Suc (tick w)"
  by (simp_all add: tick_up_def)

lemma os_ReadFile_run:
  "os_ReadFile P path w = (case pk_Fault P (tick w) of Some err \<Rightarrow> Inl err
     | None \<Rightarrow> (case fs_Content w path of None \<Rightarrow> Inl (ErrMsg (''open '' @ path @ '': no such file or directory'')) | Some s \<Rightarrow> Inr s),
     tick_up w)"
  by (simp add: os_ReadFile_def sys_run bindE_def getsE_def throwE_def returnE_def split: option.split)

definition ca_stored :: "crypto \<Rightarrow> string \<Rightarrow> (string \<Rightarrow> string option) \<Rightarrow> CA \<Rightarrow> bool" where
  "ca_stored P dir m ca \<longleftrightarrow> va_CertPath ca = Join [dir, ''ca.crt''] \<and>
     (\<exists>cp kp cb kb. m (Join [dir, ''ca.crt'']) = Some cp \<and> m (Join [dir, ''ca.key'']) = Some kp
        \<and> pk_PemDecode P cp = Some cb \<and> pk_PemDecode P kp = Some kb
        \<and> pk_ParseCertificate P cb = Inr (va_Cert ca) \<and> pk_ParseKey P kb = Inr (va_Key ca))"

lemma load_ca_Inr:
  "load_ca P dir (Join [dir, ''ca.crt'']) (Join [dir, ''ca.key'']) cp w = (Inr ca, w') \<longleftrightarrow>
     w' = tick_up w \<and> pk_Fault P (tick w) = None \<and> va_CertPath ca = Join [dir, ''ca.crt''] \<and>
     (\<exists>kp cb kb. fs_Content w (Join [dir, ''ca.key'']) = Some kp \<and> pk_PemDecode P cp = Some cb \<and> pk_PemDecode P kp = Some kb
        \<and> pk_ParseCertificate P cb = Inr (va_Cert ca) \<and> pk_ParseKey P kb = Inr (va_Key ca))"
  by (cases ca)
    (auto simp: load_ca_def os_ReadFile_run catchE_def bindE_def throwE_def returnE_def split: option.splits sum.splits)

lemma stored_ca_loads:
  assumes "ca_stored P dir (fs_Content w) ca" "\<forall>n\<ge>tick w. pk_Fault P n = None"
  shows "LoadOrCreateCA P e dir w = (Inr ca, tick_up (tick_up (tick_up w)))"
proof -
  obtain cp where cp: "fs_Content w (Join [dir, ''ca.crt'']) = Some cp"
    "load_ca P dir (Join [dir, ''ca.crt'']) (Join [dir, ''ca.key'']) cp (tick_up (tick_up w)) = (Inr ca, tick_up (tick_up (tick_up w)))"
    using assms unfolding ca_stored_def load_ca_Inr by auto
  have "pk_Fault P (tick w) = None" "pk_Fault P (Suc (tick w)) = None" using assms(2) by simp_all
  then show ?thesis using cp by (simp add: LoadOrCreateCA_def os_MkdirAll_def sys_run bindE_def attempt_def os_ReadFile_run)
qed

lemma ca_files_differ: "is_rooted dir \<Longrightarrow> Join [dir, ''ca.crt''] \<noteq> Join [dir, ''ca.key'']"
  using comps_mount [of dir "''ca.crt''"] comps_mount [of dir "''ca.key''"] by (auto simp: normal_comp_def)

lemma create_ca_Inr:
  assumes "create_ca P e cp kp w = (Inr ca, w')"
  shows "va_CertPath ca = cp \<and> (\<exists>n n' t der kd. pk_GenerateKey P (tick w) = Inr (va_Key ca)
    \<and> pk_CreateCertificate P n t t (pk_Public P (va_Key ca)) (va_Key ca) = Inr der
    \<and> pk_ParseCertificate P der = Inr (va_Cert ca) \<and> pk_MarshalKey P (va_Key ca) = Inr kd
    \<and> fs_Content w' = (fs_Content w)(cp \<mapsto> pk_PemEncode P ''CERTIFICATE'' der, kp \<mapsto> pk_PemEncode P ''EC PRIVATE KEY'' kd))"
proof -
  have files: "os_WriteFile P p s v = (Inr u, v') \<Longrightarrow> fs_Content v' = (fs_Content v)(p \<mapsto> s)" for p s v u v'
    by (auto simp: os_WriteFile_def split: option.splits)
  show ?thesis
    using assms unfolding create_ca_def bindE_Inr_iff draw_run now_run returnE_def
    by (clarsimp dest!: files) blast
qed

lemma create_ca_Inl:
  assumes "create_ca P e cp kp w = (Inl err, w')"
    and "\<And>p s u. snd (os_WriteFile P p s u)
      = (if pk_Fault P (tick u) = None then (tick_up u)\<lparr>fs_Content := (fs_Content u)(p \<mapsto> s)\<rparr> else tick_up u)"
    and "fs_Content w = Map.empty" "fs_Content w' \<noteq> Map.empty"
  shows "\<exists>c. fs_Content w' = [cp \<mapsto> c]"
proof -
  have ok: "os_WriteFile P p s v = (Inr u, v') \<Longrightarrow> fs_Content v' = (fs_Content v)(p \<mapsto> s)" for p s v u v'
    by (auto simp: os_WriteFile_def split: option.splits)
  have no: "os_WriteFile P p s v = (Inl x, v') \<Longrightarrow> fs_Content v' = fs_Content v" for p s v x v'
    using assms(2) [of p s v] by (auto simp: os_WriteFile_def split: option.splits)
  show ?thesis
    using assms(1,3,4) unfolding create_ca_def bindE_Inl_iff draw_run now_run returnE_def
    by (auto dest!: ok no)
qed

lemma started_ca_stored:
  assumes "crypto_ok P" "is_rooted dir" "LoadOrCreateCA P e dir w = (Inr ca, w')"
  shows "ca_stored P dir (fs_Content w') ca"
proof -
  let ?cp = "Join [dir, ''ca.crt'']" and ?kp = "Join [dir, ''ca.key'']"
  obtain r where r: "fst (os_ReadFile P ?cp (tick_up w)) = r"
    "(case r of Inr pem \<Rightarrow> load_ca P dir ?cp ?kp pem | Inl _ \<Rightarrow> create_ca P e ?cp ?kp) (tick_up (tick_up w)) = (Inr ca, w')"
    using assms(3) by (auto simp: LoadOrCreateCA_def os_MkdirAll_def sys_run bindE_def attempt_def os_ReadFile_run
        split: option.splits sum.splits prod.splits)
  show ?thesis
  proof (cases r)
    case (Inl err)
    then have "create_ca P e ?cp ?kp (tick_up (tick_up w)) = (Inr ca, w')" using r(2) by simp
    from create_ca_Inr [OF this] obtain n t der kd where c: "va_CertPath ca = ?cp"
      "pk_CreateCertificate P n t t (pk_Public P (va_Key ca)) (va_Key ca) = Inr der"
      "pk_ParseCertificate P der = Inr (va_Cert ca)" "pk_MarshalKey P (va_Key ca) = Inr kd"
      "fs_Content w' = (fs_Content w)(?cp \<mapsto> pk_PemEncode P ''CERTIFICATE'' der, ?kp \<mapsto> pk_PemEncode P ''EC PRIVATE KEY'' kd)"
      by auto
    have "pk_ParseKey P kd = Inr (va_Key ca)" "\<And>ty x. pk_PemDecode P (pk_PemEncode P ty x) = Some x"
      using assms(1) c(4) by (auto simp: crypto_ok_def)
    then show ?thesis using c ca_files_differ [OF assms(2)] by (simp add: ca_stored_def)
  next
    case (Inr pem)
    then have "fs_Content w ?cp = Some pem" using r(1) by (auto simp: os_ReadFile_run split: option.splits)
    then show ?thesis using r(2) unfolding Inr sum.case load_ca_Inr ca_stored_def by auto
  qed
qed

text \<open>C38: The authority survives a restart: what a start came up with, loaded or made, is what every later start
that can read the two files comes up with, and it leaves them as they are.\<close>

theorem ca_survives_restart:
  assumes "crypto_ok P" "is_rooted dir" "LoadOrCreateCA P e dir w = (Inr ca, w')"
    and "fs_Content v = fs_Content w'" "\<forall>n\<ge>tick v. pk_Fault P n = None"
  shows "\<exists>v'. LoadOrCreateCA P e' dir v = (Inr ca, v') \<and> fs_Content v' = fs_Content v"
proof -
  have "ca_stored P dir (fs_Content v) ca" using started_ca_stored [OF assms(1-3)] assms(4) by simp
  from stored_ca_loads [OF this assms(5)] show ?thesis by simp
qed

text \<open>The certificate is written before its key. A first start that fails after it wrote something has
written the certificate alone, and from then on every start that can read it fails.\<close>

theorem failed_first_start_is_final:
  assumes "is_rooted dir" "fs_Content w = Map.empty" "LoadOrCreateCA P e dir w = (Inl err, w')" "fs_Content w' \<noteq> Map.empty"
    and "\<forall>n. pk_Torn P n = None" "fs_Content v = fs_Content w'" "\<forall>n\<ge>tick v. pk_Fault P n = None"
  shows "\<exists>cause. fst (LoadOrCreateCA P e' dir v) = Inl (Wrap ''read ca key'' cause)"
proof -
  let ?cp = "Join [dir, ''ca.crt'']" and ?kp = "Join [dir, ''ca.key'']"
  have torn: "snd (os_WriteFile P p s u) = (if pk_Fault P (tick u) = None then (tick_up u)\<lparr>fs_Content := (fs_Content u)(p \<mapsto> s)\<rparr> else tick_up u)"
    for p s u using assms(5) by (simp add: os_WriteFile_def split: option.split)
  have made: "create_ca P e ?cp ?kp (tick_up (tick_up w)) = (Inl err, w')"
    using assms(2,3,4) by (auto simp: LoadOrCreateCA_def os_MkdirAll_def sys_run bindE_def attempt_def os_ReadFile_run
        split: option.splits sum.splits prod.splits)
  have "\<exists>c. fs_Content w' = [?cp \<mapsto> c]"
    by (rule create_ca_Inl [OF made torn]) (simp_all add: assms(2,4))
  then obtain c where "fs_Content v ?cp = Some c" "fs_Content v ?kp = None"
    using assms(6) ca_files_differ [OF assms(1)] by (metis fun_upd_apply)
  moreover have "pk_Fault P (tick v) = None" "pk_Fault P (Suc (tick v)) = None" "pk_Fault P (Suc (Suc (tick v))) = None"
    using assms(7) by simp_all
  ultimately show ?thesis
    by (simp add: LoadOrCreateCA_def os_MkdirAll_def sys_run bindE_def attempt_def os_ReadFile_run load_ca_def catchE_def throwE_def)
qed

text \<open>A certificate that cannot be read, for whatever reason, counts as missing: the authority the sandboxes
trust is replaced by a new one.\<close>

theorem unreadable_ca_is_replaced:
  assumes "pk_Fault P (Suc (tick w)) = Some err" "LoadOrCreateCA P e dir w = (Inr ca, w')"
  shows "pk_GenerateKey P (2 + tick w) = Inr (va_Key ca)
    \<and> (\<exists>d. fs_Content w' (Join [dir, ''ca.key'']) = Some (pk_PemEncode P ''EC PRIVATE KEY'' d) \<and> pk_MarshalKey P (va_Key ca) = Inr d)"
proof -
  have "create_ca P e (Join [dir, ''ca.crt'']) (Join [dir, ''ca.key'']) (tick_up (tick_up w)) = (Inr ca, w')"
    using assms by (auto simp: LoadOrCreateCA_def os_MkdirAll_def sys_run bindE_def attempt_def os_ReadFile_run split: option.splits)
  from create_ca_Inr [OF this] show ?thesis by auto
qed

section \<open>Certificates are for their hosts\<close>

definition leaf_ok :: "crypto \<Rightarrow> CA \<Rightarrow> string \<Rightarrow> tls_cert \<Rightarrow> bool" where
  "leaf_ok P ca host c \<longleftrightarrow> (\<exists>der x. lf_Certificate c = [der, x5_Raw (va_Cert ca)] \<and> pk_ParseCertificate P der = Inr x
     \<and> \<not> x5_IsCA x \<and> x5_ExtKeyUsage x = [ExtKeyUsageServerAuth]
     \<and> (case pk_ParseIP P host of None \<Rightarrow> x5_DNSNames x = [host] \<and> x5_IPAddresses x = []
          | Some ip \<Rightarrow> x5_DNSNames x = [] \<and> x5_IPAddresses x = [ip])
     \<and> x5_PublicKey x = pk_Public P (lf_PrivateKey c) \<and> pk_SignedBy P x (pk_Public P (va_Key ca)))"

definition leaves_ok :: "crypto \<Rightarrow> CA \<Rightarrow> leaves \<Rightarrow> bool" where
  "leaves_ok P ca m \<longleftrightarrow> (\<forall>h c. m h = Some c \<longrightarrow> leaf_ok P ca h c)"

lemma created_certificate:
  "crypto_ok P \<Longrightarrow> pk_CreateCertificate P n t parent pub priv = Inr der \<Longrightarrow>
     \<exists>c. pk_ParseCertificate P der = Inr c \<and> x5_DNSNames c = x5_DNSNames t \<and> x5_IPAddresses c = x5_IPAddresses t
       \<and> x5_IsCA c = x5_IsCA t \<and> x5_ExtKeyUsage c = x5_ExtKeyUsage t \<and> x5_PublicKey c = pub \<and> pk_SignedBy P c (pk_Public P priv)"
  unfolding crypto_ok_def by blast

lemma leaf_template_fields [simp]:
  "x5_DNSNames (leaf_template P e n host) = (case pk_ParseIP P host of Some _ \<Rightarrow> [] | None \<Rightarrow> [host])"
  "x5_IPAddresses (leaf_template P e n host) = (case pk_ParseIP P host of Some ip \<Rightarrow> [ip] | None \<Rightarrow> [])"
  "x5_IsCA (leaf_template P e n host) = False" "x5_ExtKeyUsage (leaf_template P e n host) = [ExtKeyUsageServerAuth]"
  unfolding leaf_template_def x509.select_convs by (rule refl)+

lemma leafFor_ok:
  assumes "crypto_ok P" "leaves_ok P ca m"
  shows "leaves_ok P ca (snd (leafFor P e ca host n m)) \<and> m \<subseteq>\<^sub>m snd (leafFor P e ca host n m)
    \<and> (\<forall>c. fst (leafFor P e ca host n m) = Inr c \<longrightarrow> snd (leafFor P e ca host n m) host = Some c)"
proof (cases "m host")
  case None
  show ?thesis
  proof (cases "\<exists>key der. pk_GenerateKey P n = Inr key
      \<and> pk_CreateCertificate P n (leaf_template P e n host) (va_Cert ca) (pk_Public P key) (va_Key ca) = Inr der")
    case True
    then obtain key der where new: "pk_GenerateKey P n = Inr key"
      "pk_CreateCertificate P n (leaf_template P e n host) (va_Cert ca) (pk_Public P key) (va_Key ca) = Inr der" by blast
    obtain x where "pk_ParseCertificate P der = Inr x" "x5_DNSNames x = x5_DNSNames (leaf_template P e n host)"
      "x5_IPAddresses x = x5_IPAddresses (leaf_template P e n host)" "x5_IsCA x = x5_IsCA (leaf_template P e n host)"
      "x5_ExtKeyUsage x = x5_ExtKeyUsage (leaf_template P e n host)" "x5_PublicKey x = pk_Public P key"
      "pk_SignedBy P x (pk_Public P (va_Key ca))"
      using created_certificate [OF assms(1) new(2)] by (elim exE conjE) (rule that)
    then have "leaf_ok P ca host \<lparr>lf_Certificate = [der, x5_Raw (va_Cert ca)], lf_PrivateKey = key\<rparr>"
      by (simp add: leaf_ok_def split: option.split)
    then show ?thesis using assms(2) new None by (auto simp: leafFor_def leaves_ok_def map_le_def Let_def split: if_splits)
  next
    case False
    then have "\<exists>err. leafFor P e ca host n m = (Inl err, m)" using None by (auto simp: leafFor_def Let_def split: sum.splits)
    then show ?thesis using assms(2) by auto
  qed
qed (use assms(2) in \<open>simp add: leafFor_def\<close>)

lemma handleConnect_state:
  assumes "handleConnect P e writes r cx p w = (Inr (answers, p'), w')"
  shows "p' = p \<or> (\<exists>host n. p' = p\<lparr>vx_Leaves := snd (leafFor P e (vx_CA p) host n (vx_Leaves p))\<rparr>)"
proof (cases "cx_Hijacker cx \<and> cx_Established cx \<and> cx_Hello cx \<noteq> None")
  case True
  then obtain name where name: "cx_Hello cx = Some name" by blast
  let ?host = "if name = [] then hostnameOnly (hq_Host r) else name"
  let ?p = "p\<lparr>vx_Leaves := snd (leafFor P e (vx_CA p) ?host (tick w) (vx_Leaves p))\<rparr>"
  obtain leaf leaves where l: "leafFor P e (vx_CA p) ?host (tick w) (vx_Leaves p) = (leaf, leaves)" by fastforce
  have "p' = ?p"
  proof (cases leaf)
    case (Inl err)
    then show ?thesis using assms True by (simp add: handleConnect_def name bindE_def askE_def l returnE_def)
  next
    case (Inr c)
    then show ?thesis using assms True
      by (cases "cx_Accepts cx c") (auto simp: handleConnect_def name bindE_def askE_def l returnE_def split: prod.splits sum.splits)
  qed
  then show ?thesis by blast
next
  case False
  then show ?thesis using assms by (auto simp: handleConnect_def returnE_def split: if_splits)
qed

lemma ServeHTTP_state:
  assumes "ServeHTTP P e writes method r cx p w = (Inr (answers, p'), w')"
  shows "p' = p \<or> (\<exists>host n. p' = p\<lparr>vx_Leaves := snd (leafFor P e (vx_CA p) host n (vx_Leaves p))\<rparr>)"
proof (cases "method = ''CONNECT''")
  case True
  then show ?thesis using assms handleConnect_state by (simp add: ServeHTTP_def)
next
  case False
  then show ?thesis using assms by (auto simp: ServeHTTP_def bindE_def returnE_def split: prod.splits sum.splits)
qed


text \<open>The connections a proxy serves one after another.\<close>

fun serves :: "crypto \<Rightarrow> env \<Rightarrow> (nat \<Rightarrow> bool) \<Rightarrow> (string \<times> http_req \<times> client_conn) list \<Rightarrow> vault_proxy \<Rightarrow> (world, vault_proxy) io" where
  "serves P e writes [] p = returnE p"
| "serves P e writes ((method, r, cx) # cs) p = bindE (ServeHTTP P e writes method r cx p) (\<lambda>(_, p'). serves P e writes cs p')"

lemma serves_leaves:
  assumes "crypto_ok P"
  shows "serves P e writes cs p w = (Inr p', w') \<Longrightarrow> leaves_ok P (vx_CA p) (vx_Leaves p) \<Longrightarrow>
    vx_CA p' = vx_CA p \<and> leaves_ok P (vx_CA p) (vx_Leaves p') \<and> vx_Leaves p \<subseteq>\<^sub>m vx_Leaves p'"
proof (induction cs arbitrary: p w)
  case Nil
  then show ?case by (simp add: returnE_def)
next
  case (Cons x cs)
  obtain how r cx where x: "x = (how, r, cx)" by (cases x)
  obtain a q v where s: "ServeHTTP P e writes how r cx p w = (Inr (a, q), v)" "serves P e writes cs q v = (Inr p', w')"
    using Cons.prems(1) by (auto simp: x bindE_Inr_iff)
  have q: "vx_CA q = vx_CA p" "leaves_ok P (vx_CA p) (vx_Leaves q)" "vx_Leaves p \<subseteq>\<^sub>m vx_Leaves q"
    using ServeHTTP_state [OF s(1)] leafFor_ok [OF assms Cons.prems(2)] Cons.prems(2) by auto
  then show ?case using Cons.IH [OF s(2)] map_le_trans by auto
qed

text \<open>Whatever a proxy has served, the certificate it presents for a host names that host alone, is no
authority and signed by the proxy's, and the host keeps it for as long as the proxy runs.\<close>

theorem certificates_are_for_their_hosts:
  assumes "crypto_ok P" "serves P e writes cs (NewProxy ca ij up) w = (Inr p, w')"
    and "leafFor P e (vx_CA p) host n (vx_Leaves p) = (Inr c, leaves)"
    and "serves P e writes cs' (p\<lparr>vx_Leaves := leaves\<rparr>) v = (Inr p', v')"
  shows "leaf_ok P ca host c \<and> leafFor P e (vx_CA p') host n' (vx_Leaves p') = (Inr c, vx_Leaves p')"
proof -
  have "vx_CA p = ca \<and> leaves_ok P ca (vx_Leaves p)"
    using serves_leaves [OF assms(1,2)] by (simp add: NewProxy_def leaves_ok_def)
  then have p: "vx_CA p = ca" "leaves_ok P ca (vx_Leaves p)" by blast+
  have l: "leaves_ok P ca leaves" "leaves host = Some c" using leafFor_ok [OF assms(1) p(2), of e host n] assms(3) p(1) by auto
  moreover have "leaves \<subseteq>\<^sub>m vx_Leaves p'" using serves_leaves [OF assms(1,4)] p(1) l(1) by simp
  ultimately have "vx_Leaves p' host = Some c" by (metis domI map_le_def)
  then show ?thesis using l by (simp add: leaves_ok_def leafFor_def)
qed

section \<open>What leaves the proxy\<close>

lemma injected_header: "hq_Header (sent :: http_req) sessionHeader = None"
  if "applyInjection ij req host sid w = (Inr sent, w')"
proof -
  have "\<exists>r. hq_Header sent = (case r of None \<Rightarrow> (hq_Header req)(sessionHeader := None)
      | Some token \<Rightarrow> set_token token ((hq_Header req)(sessionHeader := None)))"
    using that by (auto simp: applyInjection_def Let_def bindE_Inr_iff returnE_def)
  then show ?thesis by (auto simp: set_token_def strippedHeaders_def sessionHeader_def split: option.splits)
qed

lemma bindE_cong:
  "(\<And>x w'. m w = (Inr x, w') \<Longrightarrow> f x w' = g x w') \<Longrightarrow> bindE m f w = bindE m g w"
  by (auto simp: bindE_def split: prod.split sum.split)

lemma upstream_cong:
  assumes "\<And>n q. hq_Header q ''X-Je-Session'' = None \<Longrightarrow> up n q = up' n q"
  shows "handlePlain ij up r w = handlePlain ij up' r w" "proxyOne ij up writes req host sid w = proxyOne ij up' writes req host sid w"
    "tunnel ij up writes target sid reqs w = tunnel ij up' writes target sid reqs w"
proof -
  have eq: "applyInjection ij q h s v = (Inr sent, v') \<Longrightarrow> askE (\<lambda>n. up n sent) = askE (\<lambda>n. up' n sent)" for q h s v sent v'
    using assms injected_header by (auto simp: sessionHeader_def)
  show "handlePlain ij up r w = handlePlain ij up' r w"
    unfolding handlePlain_def by (auto intro!: bindE_cong simp: eq)
  show one: "proxyOne ij up writes req host sid w = proxyOne ij up' writes req host sid w" for req host sid w
    unfolding proxyOne_def by (rule bindE_cong) (simp add: eq)
  show "tunnel ij up writes target sid reqs w = tunnel ij up' writes target sid reqs w"
  proof (induction reqs arbitrary: w)
    case (Cons req reqs)
    have a: "bindE (proxyOne ij up writes q h sid) f w = bindE (proxyOne ij up' writes q h sid) f w" for q h f and w :: world
      by (simp add: bindE_def one)
    have b: "bindE (tunnel ij up writes target sid reqs) f v = bindE (tunnel ij up' writes target sid reqs) f v" for f v
      using Cons.IH by (simp add: bindE_def)
    show ?case unfolding tunnel.simps a by (rule bindE_cong) (simp add: b split: prod.split)
  qed simp
qed

lemma handleConnect_upstream:
  assumes "\<And>n q. hq_Header q ''X-Je-Session'' = None \<Longrightarrow> vx_Upstream p n q = up n q"
    and "handleConnect P e writes r cx p w = (Inr (answers, p'), w')"
  shows "handleConnect P e writes r cx (p\<lparr>vx_Upstream := up\<rparr>) w = (Inr (answers, p'\<lparr>vx_Upstream := up\<rparr>), w')"
proof (cases "cx_Hijacker cx \<and> cx_Established cx \<and> cx_Hello cx \<noteq> None")
  case True
  note same = upstream_cong(3) [OF assms(1)]
  obtain name where name: "cx_Hello cx = Some name" using True by blast
  let ?host = "if name = [] then hostnameOnly (hq_Host r) else name"
  obtain leaf leaves where l: "leafFor P e (vx_CA p) ?host (tick w) (vx_Leaves p) = (leaf, leaves)" by fastforce
  show ?thesis
  proof (cases leaf)
    case (Inl err)
    then show ?thesis using assms True by (auto simp: handleConnect_def name bindE_def askE_def l returnE_def)
  next
    case (Inr c)
    then show ?thesis using assms True
      by (cases "cx_Accepts cx c")
        (auto simp: handleConnect_def name bindE_def askE_def l returnE_def same split: prod.splits sum.splits)
  qed
next
  case False
  then show ?thesis using assms(2) by (auto simp: handleConnect_def returnE_def split: if_splits)
qed

text \<open>No server is told the session: the answers of the proxy and all it does depend on the servers only
in what they answer to requests without the header that names the session.\<close>

theorem servers_never_see_sessions:
  assumes "\<And>n q. hq_Header q ''X-Je-Session'' = None \<Longrightarrow> vx_Upstream p n q = up n q"
    and "ServeHTTP P e writes method r cx p w = (Inr (answers, p'), w')"
  shows "ServeHTTP P e writes method r cx (p\<lparr>vx_Upstream := up\<rparr>) w = (Inr (answers, p'\<lparr>vx_Upstream := up\<rparr>), w')"
proof (cases "method = ''CONNECT''")
  case True
  then show ?thesis using handleConnect_upstream [OF assms(1)] assms(2) by (simp add: ServeHTTP_def)
next
  case False
  then show ?thesis using assms(2) upstream_cong(1) [OF assms(1)]
    by (auto simp: ServeHTTP_def bindE_def returnE_def split: prod.splits sum.splits)
qed

section \<open>Examples\<close>

text \<open>A library whose keys are numbers and whose encodings are JSON.\<close>

definition toy_der :: "x509 \<Rightarrow> string \<Rightarrow> string \<Rightarrow> json" where
  "toy_der t pub priv = JArr [JArr (map JStr (x5_DNSNames t)), JArr (map JStr (x5_IPAddresses t)), JBool (x5_IsCA t),
     JBool (x5_ExtKeyUsage t = []), JStr pub, JStr priv]"

definition toy_str :: "json \<Rightarrow> string" where
  "toy_str v = (case v of JStr s \<Rightarrow> s | _ \<Rightarrow> [])"

definition toy_cert :: "json option \<Rightarrow> gerr + x509" where
  "toy_cert v = (case v of
     Some (JArr [JArr ds, JArr ips, JBool isCA, JBool bare, JStr pub, JStr priv]) \<Rightarrow>
       Inr \<lparr>x5_Raw = [], x5_Serial = None, x5_CommonName = [], x5_Organization = [priv], x5_NotBefore = 0, x5_NotAfter = 0,
         x5_KeyUsage = 0, x5_ExtKeyUsage = (if bare then [] else [ExtKeyUsageServerAuth]), x5_BasicConstraintsValid = True,
         x5_IsCA = isCA, x5_MaxPathLenZero = False, x5_DNSNames = map toy_str ds, x5_IPAddresses = map toy_str ips,
         x5_PublicKey = pub\<rparr>
   | _ \<Rightarrow> Inl (ErrMsg ''malformed certificate''))"

definition toy_crypto :: "(nat \<Rightarrow> gerr option) \<Rightarrow> crypto" where
  "toy_crypto faults = \<lparr>pk_Fault = faults, pk_Torn = (\<lambda>_. None), pk_GenerateKey = (\<lambda>n. Inr (nat_str n)), pk_Public = id,
     pk_RandInt = (\<lambda>n _. Some n), pk_AddYears = (\<lambda>n t. t + n * 31536000000), pk_ParseIP = (\<lambda>_. None),
     pk_CreateCertificate = (\<lambda>n t _ pub priv. if x5_ExtKeyUsage t \<in> {[], [ExtKeyUsageServerAuth]} then Inr (jprint (toy_der t pub priv))
        else Inl (ErrMsg ''unsupported usage'')),
     pk_ParseCertificate = (\<lambda>s. toy_cert (jparse s)), pk_SignedBy = (\<lambda>c pub. x5_Organization c = [pub]),
     pk_MarshalKey = Inr, pk_ParseKey = Inr, pk_PemEncode = (\<lambda>ty x. x), pk_PemDecode = Some\<rparr>"

lemma toy_crypto_fields [simp]:
  "pk_Fault (toy_crypto f) = f" "pk_Torn (toy_crypto f) = (\<lambda>_. None)" "pk_GenerateKey (toy_crypto f) = (\<lambda>n. Inr (nat_str n))"
  "pk_Public (toy_crypto f) = id" "pk_ParseIP (toy_crypto f) = (\<lambda>_. None)"
  "pk_CreateCertificate (toy_crypto f) = (\<lambda>n t _ pub priv. if x5_ExtKeyUsage t \<in> {[], [ExtKeyUsageServerAuth]}
     then Inr (jprint (toy_der t pub priv)) else Inl (ErrMsg ''unsupported usage''))"
  "pk_ParseCertificate (toy_crypto f) = (\<lambda>s. toy_cert (jparse s))" "pk_SignedBy (toy_crypto f) = (\<lambda>c pub. x5_Organization c = [pub])"
  "pk_MarshalKey (toy_crypto f) = Inr" "pk_ParseKey (toy_crypto f) = Inr" "pk_PemEncode (toy_crypto f) = (\<lambda>ty x. x)"
  "pk_PemDecode (toy_crypto f) = Some"
  unfolding toy_crypto_def crypto.select_convs by (rule refl)+

lemma toy_parse: "toy_cert (jparse (jprint (toy_der t pub priv))) = toy_cert (Some (toy_der t pub priv))"
proof -
  have "jparse (jprint (toy_der t pub priv)) = Some (toy_der t pub priv)"
    by (rule json_roundtrip) (auto simp: toy_der_def)
  then show ?thesis by simp
qed

lemma toy_crypto_ok: "crypto_ok (toy_crypto faults)"
  unfolding crypto_ok_def by (auto simp: toy_parse) (auto simp: toy_cert_def toy_der_def toy_str_def comp_def)

definition first_files :: ca_files where
  "first_files = \<lparr>tick = 0, fs_Content = Map.empty\<rparr>"

lemma ca_template_usage: "x5_ExtKeyUsage (ca_template P serial t1 t2) = []"
  unfolding ca_template_def x509.select_convs by (rule refl)

lemma toy_create:
  assumes "f (6 + tick w) = None"
  shows "\<exists>ca w'. create_ca (toy_crypto f) e cp kp w = (case f (8 + tick w) of None \<Rightarrow> Inr ca | Some err \<Rightarrow> Inl err, w')
    \<and> tick w' = 9 + tick w \<and> fs_Content w' cp \<noteq> None"
proof -
  have parse: "\<exists>x. toy_cert (jparse (jprint (toy_der t pub priv))) = Inr x" for t pub priv
    by (simp add: toy_parse) (simp add: toy_cert_def toy_der_def)
  have n: "f (Suc (Suc (Suc (Suc (Suc (Suc (tick w))))))) = None" using assms by (simp add: numeral_eq_Suc)
  obtain x where x: "toy_cert (jparse (jprint (toy_der (ca_template (toy_crypto f) (newSerial (toy_crypto f) (Suc (tick w)))
      (clock e (Suc (Suc (tick w)))) (clock e (Suc (Suc (Suc (tick w)))))) (nat_str (tick w)) (nat_str (tick w))))) = Inr x"
    using parse by blast
  show ?thesis
    by (auto simp: create_ca_def bindE_def draw_run now_run ca_template_usage os_WriteFile_def n x returnE_def tick_up_def numeral_eq_Suc
        split: option.split)
qed

lemma first_create:
  assumes "f 0 = None" "f 8 = None"
  shows "\<exists>ca w'. LoadOrCreateCA (toy_crypto f) vault_env ''/d'' first_files
    = (case f 10 of None \<Rightarrow> Inr ca | Some err \<Rightarrow> Inl err, w') \<and> tick w' = 11 \<and> fs_Content w' \<noteq> Map.empty"
proof -
  have t: "tick (tick_up (tick_up first_files)) = 2" "fs_Content first_files = Map.empty" "tick first_files = 0" by (simp_all add: first_files_def)
  have run: "LoadOrCreateCA (toy_crypto f) vault_env ''/d'' first_files
      = create_ca (toy_crypto f) vault_env (Join [''/d'', ''ca.crt'']) (Join [''/d'', ''ca.key'']) (tick_up (tick_up first_files))"
    by (simp add: LoadOrCreateCA_def os_MkdirAll_def sys_run bindE_def attempt_def os_ReadFile_run t assms(1) split: option.split)
  show ?thesis
    using toy_create [of f "tick_up (tick_up first_files)" vault_env "Join [''/d'', ''ca.crt'']" "Join [''/d'', ''ca.key'']"] assms(2)
    unfolding run t by (auto simp: numeral_eq_Suc)
qed

lemma ca_survives_restart_witness:
  "\<exists>ca w' v'. LoadOrCreateCA (toy_crypto (\<lambda>_. None)) vault_env ''/d'' first_files = (Inr ca, w')
     \<and> LoadOrCreateCA (toy_crypto (\<lambda>_. None)) vault_env ''/d'' w' = (Inr ca, v')"
proof -
  obtain ca w' where s: "LoadOrCreateCA (toy_crypto (\<lambda>_. None)) vault_env ''/d'' first_files = (Inr ca, w')" using first_create [of "\<lambda>_. None"] by auto
  have "is_rooted ''/d''" by (simp add: is_rooted_def HasPrefix_iff)
  from ca_survives_restart [OF toy_crypto_ok this s refl, of vault_env] s show ?thesis by (auto simp: toy_crypto_def)
qed

definition full_disk :: "nat \<Rightarrow> gerr option" where
  "full_disk n = (if n = 10 then Some (ErrMsg ''no space left on device'') else None)"

lemma failed_first_start_is_final_witness:
  "\<exists>cause w'. snd (LoadOrCreateCA (toy_crypto full_disk) vault_env ''/d'' first_files) = w'
     \<and> fst (LoadOrCreateCA (toy_crypto full_disk) vault_env ''/d'' w') = Inl (Wrap ''read ca key'' cause)"
proof -
  obtain w' where r: "LoadOrCreateCA (toy_crypto full_disk) vault_env ''/d'' first_files = (Inl (ErrMsg ''no space left on device''), w')"
    "tick w' = 11" "fs_Content w' \<noteq> Map.empty"
    using first_create [of full_disk] by (auto simp: full_disk_def)
  have "is_rooted ''/d''" by (simp add: is_rooted_def HasPrefix_iff)
  from failed_first_start_is_final [OF this _ r(1,3) _ refl, of vault_env] show ?thesis
    unfolding r(1) by (auto simp: first_files_def full_disk_def r(2))
qed

definition toy_ca :: CA where
  "toy_ca = \<lparr>va_Cert = ca_template (toy_crypto (\<lambda>_. None)) None 0 0, va_Key = ''root'', va_CertPath = ''/d/ca.crt''\<rparr>"

definition quiet_conn :: client_conn where
  "quiet_conn = \<lparr>cx_Hijacker = True, cx_Established = True, cx_Hello = Some ''mcp.io'', cx_Accepts = (\<lambda>_. True), cx_Requests = []\<rparr>"

lemma certificates_are_for_their_hosts_witness:
  "\<exists>c. leaf_ok (toy_crypto (\<lambda>_. None)) toy_ca ''mcp.io'' c"
proof -
  let ?P = "toy_crypto (\<lambda>_. None)" and ?up = "\<lambda>n q. Inl Canceled :: gerr + http_resp"
  let ?cs = "[(''CONNECT'', client_req, quiet_conn)]"
  have "\<exists>c leaves. leafFor ?P vault_env toy_ca ''mcp.io'' 0 Map.empty = (Inr c, leaves) \<and> leaves ''mcp.io'' = Some c"
    by (simp add: leafFor_def Let_def toy_crypto_def)
  then obtain c leaves where l: "leafFor ?P vault_env toy_ca ''mcp.io'' 0 Map.empty = (Inr c, leaves)" "leaves ''mcp.io'' = Some c" by blast
  let ?q = "(NewProxy toy_ca own_token ?up)\<lparr>vx_Leaves := leaves\<rparr>"
  have "serves ?P vault_env (\<lambda>_. True) ?cs (NewProxy toy_ca own_token ?up) empty_world = (Inr ?q, empty_world\<lparr>tick := 1\<rparr>)"
    using l(1) by (simp add: ServeHTTP_def handleConnect_def quiet_conn_def NewProxy_def bindE_def askE_def returnE_def empty_world_def)
  moreover have "serves ?P vault_env (\<lambda>_. True) [] (?q\<lparr>vx_Leaves := leaves\<rparr>) empty_world = (Inr ?q, empty_world)"
    by (simp add: returnE_def)
  moreover have "leafFor ?P vault_env (vx_CA ?q) ''mcp.io'' 5 (vx_Leaves ?q) = (Inr c, leaves)"
    using l by (simp add: leafFor_def NewProxy_def)
  ultimately show ?thesis using certificates_are_for_their_hosts [OF toy_crypto_ok] by blast
qed

definition echo :: "nat \<Rightarrow> http_req \<Rightarrow> gerr + http_resp" where
  "echo n q = (if hq_Header q ''X-Je-Session'' = None then Inr (http_error 200 (header_get (hq_Header q) ''Authorization'')) else Inl Canceled)"

lemma servers_never_see_sessions_witness:
  "\<exists>answers p' w'. ServeHTTP (toy_crypto (\<lambda>_. None)) vault_env (\<lambda>_. True) ''GET'' client_req quiet_conn (NewProxy toy_ca own_token echo) empty_world
       = (Inr (answers, p'), w')
     \<and> ServeHTTP (toy_crypto (\<lambda>_. None)) vault_env (\<lambda>_. True) ''GET'' client_req quiet_conn
         ((NewProxy toy_ca own_token echo)\<lparr>vx_Upstream := \<lambda>n q. Inr (http_error 200 (header_get (hq_Header q) ''Authorization''))\<rparr>) empty_world
       = (Inr (answers, p'\<lparr>vx_Upstream := \<lambda>n q. Inr (http_error 200 (header_get (hq_Header q) ''Authorization''))\<rparr>), w')"
proof -
  have "(case fst (ServeHTTP (toy_crypto (\<lambda>_. None)) vault_env (\<lambda>_. True) ''GET'' client_req quiet_conn (NewProxy toy_ca own_token echo) empty_world)
      of Inr _ \<Rightarrow> True | Inl _ \<Rightarrow> False)" by code_simp
  then obtain answers p' w' where "ServeHTTP (toy_crypto (\<lambda>_. None)) vault_env (\<lambda>_. True) ''GET'' client_req quiet_conn (NewProxy toy_ca own_token echo) empty_world
      = (Inr (answers, p'), w')" by (cases "ServeHTTP (toy_crypto (\<lambda>_. None)) vault_env (\<lambda>_. True) ''GET'' client_req quiet_conn (NewProxy toy_ca own_token echo) empty_world")
        (auto split: sum.splits)
  from servers_never_see_sessions [OF _ this, of "\<lambda>n q. Inr (http_error 200 (header_get (hq_Header q) ''Authorization''))"] this
  show ?thesis by (auto simp: NewProxy_def echo_def)
qed

end
