(* ===== verification/McpClient.thy ===== *)
theory McpClient
  imports Anthropic Compaction
begin

text \<open>
  The client of the Model Context Protocol (\<open>internal/mcp/client.go\<close>): JSON-RPC requests over HTTP,
  answered by a document or by a stream of events. The HTTP exchange is a parameter; a run keeps the
  requests that were sent.
\<close>

section \<open>The client and its surroundings\<close>

definition protocolVersion :: string where
  "protocolVersion = ''2025-06-18''"

record mcp_client =
  mc_Endpoint :: string
  mc_SessionID :: string
  mc_NextID :: int
  mc_Authz :: string

definition NewClient :: "string \<Rightarrow> mcp_client" where
  "NewClient endpoint = \<lparr>mc_Endpoint = endpoint, mc_SessionID = [], mc_NextID = 0, mc_Authz = []\<rparr>"

definition SetAuthorization :: "string \<Rightarrow> mcp_client \<Rightarrow> mcp_client" where
  "SetAuthorization v c = c\<lparr>mc_Authz := v\<rparr>"

text \<open>An answer: its status, its session and content type headers, what was received of the body, and
  the error that ended the reading, if one did.\<close>

record mcp_reply =
  mp_Status :: int
  mp_SessionID :: string
  mp_ContentType :: string
  mp_Body :: string
  mp_ReadErr :: "string option"

record mcp_lib =
  ml_BadURL :: "string \<Rightarrow> gerr option"
  ml_Do :: "nat \<Rightarrow> http_call \<Rightarrow> gerr + mcp_reply"
  ml_DecodeErr :: "string \<Rightarrow> string \<Rightarrow> string"

record mcp_state =
  mx_Client :: mcp_client
  mx_Tick :: nat
  mx_Sent :: "http_call list"

section \<open>Documents\<close>

definition rpc_request :: "int option \<Rightarrow> string \<Rightarrow> raw option \<Rightarrow> raw" where
  "rpc_request i method params =
     marshal_obj ([(''jsonrpc'', Some (JStr ''2.0''))] @ (case i of None \<Rightarrow> [] | Some n \<Rightarrow> [(''id'', Some (jint n))])
       @ [(''method'', Some (JStr method))] @ (case params of None \<Rightarrow> [] | Some p \<Rightarrow> [(''params'', p)]))"

record rpcResponse =
  rr_JSONRPC :: string
  rr_ID :: "int option"
  rr_Result :: raw
  rr_Error :: "(int \<times> string) option"

definition zero_response :: rpcResponse where
  "zero_response = \<lparr>rr_JSONRPC = [], rr_ID = None, rr_Result = None, rr_Error = None\<rparr>"

definition dec_rpc_error :: "(int \<times> string) dec" where
  "dec_rpc_error = dec_struct
     [fld ''code'' fst (\<lambda>f (c, m). (f c, m)) dec_int64, fld ''message'' snd (\<lambda>f (c, m). (c, f m)) dec_str]"

definition dec_rpc_response :: "rpcResponse dec" where
  "dec_rpc_response = dec_struct
     [fld ''jsonrpc'' rr_JSONRPC rr_JSONRPC_update dec_str, fld ''id'' rr_ID rr_ID_update (dec_ptr 0 dec_int64),
      fld ''result'' rr_Result rr_Result_update dec_raw, fld ''error'' rr_Error rr_Error_update (dec_ptr (0, []) dec_rpc_error)]"

definition rpc_error :: "int \<times> string \<Rightarrow> gerr" where
  "rpc_error e = ErrMsg (''mcp rpc error '' @ int_str (fst e) @ '': '' @ snd e)"

text \<open>What a decoded response says.\<close>

definition outcome :: "rpcResponse \<Rightarrow> gerr + raw" where
  "outcome rr = (case rr_Error rr of Some e \<Rightarrow> Inl (rpc_error e) | None \<Rightarrow> Inr (rr_Result rr))"

section \<open>Requests\<close>

definition mcp_headers :: "mcp_client \<Rightarrow> (string \<times> string) list" where
  "mcp_headers c =
     [(''Content-Type'', ''application/json''), (''Accept'', ''application/json, text/event-stream''),
      (''MCP-Protocol-Version'', protocolVersion)]
     @ (if mc_Authz c \<noteq> [] then [(''Authorization'', mc_Authz c)] else [])
     @ (if mc_SessionID c \<noteq> [] then [(''Mcp-Session-Id'', mc_SessionID c)] else [])"

definition mcp_do :: "mcp_lib \<Rightarrow> raw \<Rightarrow> (mcp_state, mcp_reply) io" where
  "mcp_do L body s =
     (case ml_BadURL L (mc_Endpoint (mx_Client s)) of
        Some err \<Rightarrow> (Inl err, s)
      | None \<Rightarrow>
          (let q = \<lparr>hc_URL = mc_Endpoint (mx_Client s), hc_Header = mcp_headers (mx_Client s), hc_Body = raw_text body\<rparr>
           in (ml_Do L (mx_Tick s) q, s\<lparr>mx_Tick := Suc (mx_Tick s), mx_Sent := mx_Sent s @ [q]\<rparr>)))"

text \<open>The first document of the stream that carries the wanted identifier; what else arrives is skipped.\<close>

definition sse_response :: "int \<Rightarrow> string \<Rightarrow> rpcResponse option" where
  "sse_response want l =
     (case sse_data l of
        None \<Rightarrow> None
      | Some data \<Rightarrow>
          (if data = [] then None
           else (case unmarshal dec_rpc_response zero_response (jparse data) of
                   (rr, err) \<Rightarrow> (if err \<or> rr_ID rr \<noteq> Some want then None else Some rr))))"

fun first_response :: "int \<Rightarrow> string list \<Rightarrow> rpcResponse option" where
  "first_response want [] = None"
| "first_response want (l # ls) = (case sse_response want l of None \<Rightarrow> first_response want ls | Some rr \<Rightarrow> Some rr)"

definition readRPCFromSSE :: "mcp_reply \<Rightarrow> int \<Rightarrow> gerr + raw" where
  "readRPCFromSSE r want =
     (case ScanLines (mebibytes 8) (mp_Body r) of
        (ls, too_long) \<Rightarrow>
          (case first_response want ls of
             Some rr \<Rightarrow> outcome rr
           | None \<Rightarrow>
               (if too_long then Inl (Wrap ''sse read'' (ErrMsg ''bufio.Scanner: token too long''))
                else (case mp_ReadErr r of
                        Some m \<Rightarrow> Inl (Wrap ''sse read'' (ErrMsg m))
                      | None \<Rightarrow> Inl (ErrMsg (''sse stream ended without response for id '' @ int_str want))))))"

text \<open>\<open>json.NewDecoder(body).Decode\<close> reads the first value and leaves the rest.\<close>

definition first_value :: "string \<Rightarrow> raw" where
  "first_value s = map_option fst (parse_value (2 * length s + 2) s)"

definition read_response :: "mcp_lib \<Rightarrow> mcp_reply \<Rightarrow> int \<Rightarrow> gerr + raw" where
  "read_response L r i =
     (if mp_Status r \<ge> 400 then Inl (ErrMsg (''mcp http '' @ int_str (mp_Status r) @ '': '' @ mp_Body r))
      else if Contains (mp_ContentType r) ''text/event-stream'' then readRPCFromSSE r i
      else (case unmarshal dec_rpc_response zero_response (first_value (mp_Body r)) of
              (rr, err) \<Rightarrow>
                (if err then Inl (Wrap ''decode json response'' (ErrMsg (ml_DecodeErr L ''rpcResponse'' (mp_Body r))))
                 else outcome rr)))"

definition next_id :: "mcp_state \<Rightarrow> mcp_state" where
  "next_id s = s\<lparr>mx_Client := (mx_Client s)\<lparr>mc_NextID := mc_NextID (mx_Client s) + 1\<rparr>\<rparr>"

definition keep_session :: "mcp_reply \<Rightarrow> mcp_state \<Rightarrow> mcp_state" where
  "keep_session r s =
     (if mp_SessionID r \<noteq> [] then s\<lparr>mx_Client := (mx_Client s)\<lparr>mc_SessionID := mp_SessionID r\<rparr>\<rparr> else s)"

definition rpc_call :: "mcp_lib \<Rightarrow> string \<Rightarrow> raw \<Rightarrow> (mcp_state, raw) io" where
  "rpc_call L method params s =
     (let s1 = next_id s; i = mc_NextID (mx_Client s1) in
      case mcp_do L (rpc_request (Some i) method (Some params)) s1 of
        (Inl err, s2) \<Rightarrow> (Inl err, s2)
      | (Inr r, s2) \<Rightarrow> (read_response L r i, keep_session r s2))"

definition notify :: "mcp_lib \<Rightarrow> string \<Rightarrow> (mcp_state, unit) io" where
  "notify L method =
     bindE (mcp_do L (rpc_request None method None)) (\<lambda>r.
       if mp_Status r \<ge> 400 then throwE (ErrMsg (''mcp notify http '' @ int_str (mp_Status r))) else returnE ())"

section \<open>Operations\<close>

definition labelled :: "string \<Rightarrow> (mcp_state, 'a) io \<Rightarrow> (mcp_state, 'a) io" where
  "labelled m f = catchE f (\<lambda>err. throwE (Wrap m err))"

definition initialize_params :: raw where
  "initialize_params = Some (JObj [(''capabilities'', JObj []),
     (''clientInfo'', JObj [(''name'', JStr ''jadeenvoy''), (''version'', JStr ''0.1'')]),
     (''protocolVersion'', JStr protocolVersion)])"

definition Initialize :: "mcp_lib \<Rightarrow> (mcp_state, unit) io" where
  "Initialize L =
     bindE (labelled ''initialize'' (rpc_call L ''initialize'' initialize_params)) (\<lambda>_.
       labelled ''initialized notify'' (notify L ''notifications/initialized''))"

definition zero_tool :: mcp_tool where
  "zero_tool = \<lparr>mt_Name = [], mt_Description = [], mt_InputSchema = None\<rparr>"

definition dec_mcp_tool :: "mcp_tool dec" where
  "dec_mcp_tool = dec_struct
     [fld ''name'' mt_Name mt_Name_update dec_str, fld ''description'' mt_Description mt_Description_update dec_str,
      fld ''inputSchema'' mt_InputSchema mt_InputSchema_update dec_raw]"

definition dec_tool_list :: "mcp_tool list dec" where
  "dec_tool_list = dec_struct [fld ''tools'' (\<lambda>ts. ts) (\<lambda>f ts. f ts) (dec_list zero_tool dec_mcp_tool)]"

definition ListTools :: "mcp_lib \<Rightarrow> (mcp_state, mcp_tool list) io" where
  "ListTools L =
     bindE (rpc_call L ''tools/list'' (Some (JObj []))) (\<lambda>result.
       case unmarshal dec_tool_list [] result of
         (ts, err) \<Rightarrow> (if err then throwE (Wrap ''decode tools/list'' (ErrMsg (ml_DecodeErr L ''tools'' (raw_text result))))
                      else returnE ts))"

record CallToolResult =
  cr_Content :: "(string \<times> string) list"
  cr_IsError :: bool

definition dec_mcp_block :: "(string \<times> string) dec" where
  "dec_mcp_block = dec_struct
     [fld ''type'' fst (\<lambda>f (t, x). (f t, x)) dec_str, fld ''text'' snd (\<lambda>f (t, x). (t, f x)) dec_str]"

definition dec_call_result :: "CallToolResult dec" where
  "dec_call_result = dec_struct
     [fld ''content'' cr_Content cr_Content_update (dec_list ([], []) dec_mcp_block),
      fld ''isError'' cr_IsError cr_IsError_update dec_bool]"

definition result_text :: "CallToolResult \<Rightarrow> string" where
  "result_text r = concat (map snd (cr_Content r))"

text \<open>The arguments are the text the model wrote; one that is no document leaves the request without a body.\<close>

definition call_params :: "string \<Rightarrow> string \<Rightarrow> raw" where
  "call_params name args = marshal_obj [(''arguments'', if args = [] then Some (JObj []) else jparse args), (''name'', Some (JStr name))]"

definition CallTool :: "mcp_lib \<Rightarrow> string \<Rightarrow> string \<Rightarrow> (mcp_state, CallToolResult) io" where
  "CallTool L name args =
     bindE (rpc_call L ''tools/call'' (call_params name args)) (\<lambda>result.
       case unmarshal dec_call_result \<lparr>cr_Content = [], cr_IsError = False\<rparr> result of
         (r, err) \<Rightarrow> (if err then throwE (Wrap ''decode tools/call'' (ErrMsg (ml_DecodeErr L ''CallToolResult'' (raw_text result))))
                     else returnE r))"

section \<open>Connecting\<close>

text \<open>What \<open>connectMCP\<close> of the harness does with one server.\<close>

definition fresh_client :: "string \<Rightarrow> string \<Rightarrow> nat \<Rightarrow> mcp_state" where
  "fresh_client url auth n =
     \<lparr>mx_Client = (if auth = [] then NewClient url else SetAuthorization auth (NewClient url)), mx_Tick = n, mx_Sent = []\<rparr>"

definition connect_client :: "mcp_lib \<Rightarrow> (mcp_state, mcp_tool list) io" where
  "connect_client L = bindE (Initialize L) (\<lambda>_. ListTools L)"

end
