(* ===== verification/McpProperties.thy ===== *)
theory McpProperties
  imports McpClient
begin

text \<open>
  What the MCP client promises: its requests go to its server, with its authorization and the
  session the server gave it; a streamed answer is the one to the request; tools arrive as the server
  lists them.
\<close>

section \<open>Requests\<close>

datatype mcp_op = OpInitialize | OpListTools | OpCallTool string string

fun mcp_op_run :: "mcp_lib \<Rightarrow> mcp_op \<Rightarrow> mcp_state \<Rightarrow> mcp_state" where
  "mcp_op_run L OpInitialize s = snd (Initialize L s)"
| "mcp_op_run L OpListTools s = snd (ListTools L s)"
| "mcp_op_run L (OpCallTool name args) s = snd (CallTool L name args s)"

definition mcp_ops_run :: "mcp_lib \<Rightarrow> mcp_op list \<Rightarrow> mcp_state \<Rightarrow> mcp_state" where
  "mcp_ops_run L ops s = fold (mcp_op_run L) ops s"

text \<open>
  Of two states of a client: address and authorization stay, the counter does not fall, and what was
  sent in between carries them and, as long as the server names no other session, the session.
\<close>

definition carries :: "mcp_client \<Rightarrow> http_call \<Rightarrow> bool" where
  "carries c q \<longleftrightarrow> hc_URL q = mc_Endpoint c
     \<and> (\<forall>v. (''Authorization'', v) \<in> set (hc_Header q) \<longleftrightarrow> mc_Authz c \<noteq> [] \<and> v = mc_Authz c)
     \<and> (''MCP-Protocol-Version'', protocolVersion) \<in> set (hc_Header q)"

definition names_only :: "mcp_lib \<Rightarrow> string \<Rightarrow> bool" where
  "names_only L sid \<longleftrightarrow> (\<forall>n q r. ml_Do L n q = Inr r \<longrightarrow> mp_SessionID r \<in> {[], sid})"

definition speaks :: "mcp_lib \<Rightarrow> mcp_state \<Rightarrow> mcp_state \<Rightarrow> bool" where
  "speaks L s s' \<longleftrightarrow> mc_Endpoint (mx_Client s') = mc_Endpoint (mx_Client s) \<and> mc_Authz (mx_Client s') = mc_Authz (mx_Client s)
     \<and> mc_NextID (mx_Client s) \<le> mc_NextID (mx_Client s')
     \<and> (\<exists>qs. mx_Sent s' = mx_Sent s @ qs \<and> (\<forall>q\<in>set qs. carries (mx_Client s) q
          \<and> (\<forall>sid. sid \<noteq> [] \<longrightarrow> mc_SessionID (mx_Client s) = sid \<longrightarrow> names_only L sid \<longrightarrow> (''Mcp-Session-Id'', sid) \<in> set (hc_Header q))))
     \<and> (\<forall>sid. sid \<noteq> [] \<longrightarrow> mc_SessionID (mx_Client s) = sid \<longrightarrow> names_only L sid \<longrightarrow> mc_SessionID (mx_Client s') = sid)"

lemma speaks_refl: "speaks L s s"
  by (simp add: speaks_def)

lemma speaks_trans: "speaks L s t \<Longrightarrow> speaks L t u \<Longrightarrow> speaks L s u"
  unfolding speaks_def carries_def by (elim conjE exE) (auto simp: ball_Un)

lemma mcp_do_keeps: "keeps (speaks L) (mcp_do L body)"
proof (rule keepsI)
  fix s :: mcp_state
  have "carries (mx_Client s) \<lparr>hc_URL = mc_Endpoint (mx_Client s), hc_Header = mcp_headers (mx_Client s), hc_Body = raw_text body\<rparr>"
    by (auto simp: carries_def mcp_headers_def)
  then show "speaks L s (snd (mcp_do L body s))"
    by (auto simp: mcp_do_def Let_def speaks_def mcp_headers_def split: option.splits)
qed

lemma mcp_do_reply:
  assumes "mcp_do L body s = (Inr r, s')" "names_only L sid"
  shows "mp_SessionID r \<in> {[], sid}"
proof -
  have "\<exists>n q. ml_Do L n q = Inr r" using assms(1) by (auto simp: mcp_do_def Let_def split: option.splits)
  then show ?thesis using assms(2) unfolding names_only_def by blast
qed

lemma rpc_call_keeps: "keeps (speaks L) (rpc_call L method params)"
proof (rule keepsI)
  fix s :: mcp_state
  obtain body where body: "body = rpc_request (Some (mc_NextID (mx_Client (next_id s)))) method (Some params)" by blast
  obtain r s2 where d: "mcp_do L body (next_id s) = (r, s2)" by (cases "mcp_do L body (next_id s)")
  have "speaks L s (next_id s)" by (simp add: speaks_def next_id_def)
  moreover have "speaks L (next_id s) s2" using keepsD [OF mcp_do_keeps, of L "next_id s" body] d by simp
  ultimately have s2: "speaks L s s2" by (rule speaks_trans)
  have k: "speaks L s2 (keep_session a s2)" if "r = Inr a" for a
    using mcp_do_reply [OF d [unfolded that]] by (auto simp: speaks_def keep_session_def)
  show "speaks L s (snd (rpc_call L method params s))"
  proof (cases r)
    case (Inl err)
    then show ?thesis using s2 d body by (simp add: rpc_call_def Let_def)
  next
    case (Inr a)
    then show ?thesis using speaks_trans [OF s2 k [OF Inr]] d body by (simp add: rpc_call_def Let_def)
  qed
qed

lemma mcp_keeps_plain: "keeps (speaks L) (returnE x)" "keeps (speaks L) (throwE err)"
  by (simp_all add: keeps_def returnE_def throwE_def speaks_refl)

lemma keeps_labelled: "keeps (speaks L) f \<Longrightarrow> keeps (speaks L) (labelled m f)"
  by (auto simp: keeps_def labelled_def catchE_def throwE_def split: prod.splits sum.splits) (metis snd_conv)+

lemma mcp_op_speaks: "speaks L s (mcp_op_run L op s)"
proof -
  note bind = keeps_bindE [where R = "speaks L", OF _ _ speaks_trans]
  have "keeps (speaks L) (notify L m)" for m
    unfolding notify_def by (intro bind mcp_do_keeps) (simp add: mcp_keeps_plain)
  then have "keeps (speaks L) (Initialize L)" unfolding Initialize_def by (intro bind keeps_labelled rpc_call_keeps)
  moreover have "keeps (speaks L) (ListTools L)"
    unfolding ListTools_def by (intro bind rpc_call_keeps) (simp add: mcp_keeps_plain split: prod.splits)
  moreover have "keeps (speaks L) (CallTool L name args)" for name args
    unfolding CallTool_def by (intro bind rpc_call_keeps) (simp add: mcp_keeps_plain split: prod.splits)
  ultimately show ?thesis by (cases op) (simp_all add: keepsD)
qed

lemma mcp_ops_speak: "speaks L s (mcp_ops_run L ops s)"
proof (induction ops arbitrary: s)
  case (Cons op ops)
  show ?case using speaks_trans [OF mcp_op_speaks Cons] by (simp add: mcp_ops_run_def)
qed (simp add: mcp_ops_run_def speaks_refl)


section \<open>Answers\<close>

lemma first_response_Some: "first_response i ls = Some rr \<Longrightarrow> \<exists>l\<in>set ls. sse_response i l = Some rr"
  by (induction ls) (auto split: option.splits)

lemma first_response_skip: "(\<And>l. l \<in> set ls \<Longrightarrow> sse_response i l = None) \<Longrightarrow> first_response i (ls @ ms) = first_response i ms"
  by (induction ls) simp_all

text \<open>The response a server writes to the request with an identifier.\<close>

definition response_doc :: "int \<Rightarrow> json \<Rightarrow> (string \<times> json) list" where
  "response_doc i result = [(''jsonrpc'', JStr ''2.0''), (''id'', jint i), (''result'', result)]"

definition tool_doc :: "string \<times> string \<times> json \<Rightarrow> json" where
  "tool_doc t = JObj [(''name'', JStr (fst t)), (''description'', JStr (fst (snd t))), (''inputSchema'', snd (snd t))]"

definition tools_doc :: "(string \<times> string \<times> json) list \<Rightarrow> json" where
  "tools_doc ts = JObj [(''tools'', JArr (map tool_doc ts))]"

definition listed :: "string \<times> string \<times> json \<Rightarrow> mcp_tool" where
  "listed t = \<lparr>mt_Name = fst t, mt_Description = fst (snd t), mt_InputSchema = Some (snd (snd t))\<rparr>"

lemma dec_response_doc:
  assumes "int64_range i"
  shows "dec_rpc_response (JObj (response_doc i result)) zero_response
     = (\<lparr>rr_JSONRPC = ''2.0'', rr_ID = Some i, rr_Result = Some result, rr_Error = None\<rparr>, False)"
proof -
  have "jint i \<noteq> JNull" by (simp add: jint_def)
  then show ?thesis using assms
    by (simp add: dec_rpc_response_def zero_response_def response_doc_def json_simps dec_ptr_def split: json.splits)
qed

lemma wf_response_doc: "wf_json result \<Longrightarrow> wf_json (JObj (response_doc i result))"
  by (auto simp: response_doc_def jint_def)

lemma sse_response_doc:
  assumes "int64_range i" "wf_json result"
  shows "sse_response i (''data: '' @ jprint (JObj (response_doc i result)))
     = Some \<lparr>rr_JSONRPC = ''2.0'', rr_ID = Some i, rr_Result = Some result, rr_Error = None\<rparr>"
proof -
  note wf = wf_response_doc [OF assms(2), of i]
  have "jprint (JObj (response_doc i result)) \<noteq> []" by simp
  then show ?thesis using sse_data_doc [OF wf] json_roundtrip [OF wf] dec_response_doc [OF assms(1), of result]
    by (simp add: sse_response_def unmarshal_def del: jprint.simps)
qed

lemma stream_response:
  assumes "int64_range i" "wf_json result"
    and "\<forall>l\<in>set (pre @ (''data: '' @ jprint (JObj (response_doc i result))) # post). printable l \<and> length l < mebibytes 8"
    and "\<forall>l\<in>set pre. sse_response i l = None"
    and "mp_Body r = lines_text (pre @ (''data: '' @ jprint (JObj (response_doc i result))) # post)"
  shows "readRPCFromSSE r i = Inr (Some result)"
proof -
  let ?ls = "pre @ (''data: '' @ jprint (JObj (response_doc i result))) # post"
  have "ScanLines (mebibytes 8) (mp_Body r) = (?ls, False)" unfolding assms(5) by (rule ScanLines_text) (use assms(3) in blast)
  moreover have "first_response i ?ls = Some \<lparr>rr_JSONRPC = ''2.0'', rr_ID = Some i, rr_Result = Some result, rr_Error = None\<rparr>"
    using assms(4) sse_response_doc [OF assms(1,2)] by (simp add: first_response_skip del: jprint.simps)
  ultimately show ?thesis by (simp add: readRPCFromSSE_def outcome_def del: jprint.simps)
qed

lemma dec_tools: "unmarshal dec_tool_list [] (Some (tools_doc ts)) = (map listed ts, False)"
proof -
  have "dec_mcp_tool (tool_doc t) zero_tool = (listed t, False)" for t
    by (simp add: dec_mcp_tool_def tool_doc_def listed_def zero_tool_def json_simps)
  then have "dec_list zero_tool dec_mcp_tool (JArr (map tool_doc ts)) old = (map listed ts, False)" for old
    by (simp add: dec_list_def comp_def list_ex_iff)
  then show ?thesis by (simp add: dec_tool_list_def tools_doc_def json_simps)
qed


text \<open>An answer that is one document is taken for the answer to the request whatever identifier it carries.\<close>

theorem document_answers_any_request:
  assumes "mp_Status r < 400" "\<not> Contains (mp_ContentType r) ''text/event-stream''" "int64_range j" "wf_json result"
    and "mp_Body r = jprint (JObj (response_doc j result))"
  shows "read_response L r i = Inr (Some result)"
proof -
  note p = wf_parses [OF wf_response_doc [OF assms(4), of j], unfolded parses_def, rule_format,
      of "2 * length (mp_Body r) + 1" "[]"]
  have "first_value (mp_Body r) = Some (JObj (response_doc j result))"
    using p by (simp add: first_value_def assms(5) delim_def del: jprint.simps parse_value.simps)
  then show ?thesis using assms(1,2) dec_response_doc [OF assms(3), of result]
    by (simp add: read_response_def unmarshal_def outcome_def)
qed

section \<open>Examples\<close>

definition demo_stream :: mcp_reply where
  "demo_stream = \<lparr>mp_Status = 200, mp_SessionID = ''s1'', mp_ContentType = ''text/event-stream'',
     mp_Body = lines_text ([''event: message'', ''data: {\"method\":\"ping\"}''] @
       (''data: '' @ jprint (JObj (response_doc 1 (tools_doc [(''echo'', ''says it'', JObj [])])))) # [[]]),
     mp_ReadErr = None\<rparr>"

definition demo_mcp :: mcp_lib where
  "demo_mcp = \<lparr>ml_BadURL = \<lambda>_. None, ml_Do = \<lambda>_ _. Inr demo_stream, ml_DecodeErr = \<lambda>_ _. []\<rparr>"



end
