(* ===== verification/WebhookProperties.thy ===== *)
theory WebhookProperties
  imports Webhook
begin

text \<open>
  What the webhook queue promises: an event is queued once for each endpoint that wants it, a
  delivery is attempted at most six times, and requests only go to checked addresses.
\<close>

section \<open>Runs without failing statements\<close>

lemma mark_delivered_run:
  "no_faults e \<Longrightarrow> MarkDeliveryDelivered e Background did s w
     = (Inr (), on_delivery did (delivered (clock e (tick w)) s) (w\<lparr>tick := tick w + 2\<rparr>))"
  by (simp add: MarkDeliveryDelivered_def bindE_def now_run updateE_ok returnE_def)

lemma mark_failed_run:
  "no_faults e \<Longrightarrow> MarkDeliveryFailed e Background did s m t w
     = (Inr (), on_delivery did (failed_attempt s m t) (w\<lparr>tick := tick w + 1\<rparr>))"
  by (simp add: MarkDeliveryFailed_def bindE_def updateE_ok returnE_def)

lemma failures_run:
  "no_faults e \<Longrightarrow> deliveries (snd (IncrementWebhookFailures e Background eid m w)) = deliveries w"
  "no_faults e \<Longrightarrow> deliveries (snd (ResetWebhookFailures e Background eid w)) = deliveries w"
  by (simp_all add: IncrementWebhookFailures_def ResetWebhookFailures_def bindE_def updateE_ok returnE_def on_endpoint_def)

section \<open>One delivery\<close>

text \<open>What an attempt does to its row: nothing, an end, or one more failed attempt while retries are left.\<close>

datatype step = Untouched | Ended int int | Retried int string int

primrec step_row :: "step \<Rightarrow> WebhookDeliveryRow \<Rightarrow> WebhookDeliveryRow" where
  "step_row Untouched = id"
| "step_row (Ended t s) = delivered t s"
| "step_row (Retried s m t) = failed_attempt s m t"

definition step_ok :: "WebhookDeliveryRow \<Rightarrow> bool \<Rightarrow> step \<Rightarrow> bool" where
  "step_ok d posted st \<longleftrightarrow> (case st of Untouched \<Rightarrow> \<not> posted | Ended t s \<Rightarrow> True | Retried s m t \<Rightarrow> wd_Attempt d < 5)"

lemma record_attempt_step:
  assumes "no_faults e"
  shows "\<exists>st w'. record_attempt e Background ep d resp w = (Inr (), w') \<and> step_ok d True st
    \<and> deliveries w' = update_where (\<lambda>x. wd_ID x = wd_ID d) (step_row st) (deliveries w)"
proof (cases "accepted resp")
  case True
  then show ?thesis
    using failures_run(2) [OF assms]
    by (intro exI [of _ "Ended (clock e (tick w)) (resp_status resp)"])
      (simp add: record_attempt_def bindE_def ignoreE_def mark_delivered_run [OF assms] on_delivery_def step_ok_def fun_eq_iff)
next
  case False
  let ?t = "clock e (tick w)"
  show ?thesis
  proof (cases "nextAttemptAfter (wd_Attempt d) ?t")
    case None
    then show ?thesis
      using False failures_run(1) [OF assms]
      by (intro exI [of _ "Ended (clock e (Suc (tick w))) (resp_status resp)"])
        (simp add: record_attempt_def bindE_def now_run ignoreE_def mark_delivered_run [OF assms] on_delivery_def step_ok_def)
  next
    case (Some nextAt)
    then have "wd_Attempt d < 5" by (auto simp: nextAttemptAfter_def delays_def split: if_splits)
    then show ?thesis
      using False Some
      by (intro exI [of _ "Retried (resp_status resp) (delivery_error resp) nextAt"])
        (simp add: record_attempt_def bindE_def now_run ignoreE_def mark_failed_run [OF assms] on_delivery_def step_ok_def)
  qed
qed

lemma deliverOne_step:
  assumes "no_faults e"
  shows "\<exists>st p w'. deliverOne e Background W d w = (Inr p, w') \<and> step_ok d (p \<noteq> None) st
    \<and> deliveries w' = update_where (\<lambda>x. wd_ID x = wd_ID d) (step_row st) (deliveries w)"
proof -
  obtain q w1 where q: "GetWebhookEndpoint e Background (wd_EndpointID d) w = (q, w1)"
    by (cases "GetWebhookEndpoint e Background (wd_EndpointID d) w")
  have w1: "deliveries w1 = deliveries w"
    using arg_cong [OF q, of snd] by (auto simp: GetWebhookEndpoint_def bindE_def queryE_ok [OF assms] optE_def throwE_def returnE_def
        split: option.splits)
  have none: "update_where P (step_row Untouched) t = t" for P t by (simp add: update_where_def map_idI)
  show ?thesis
  proof (cases q)
    case (Inl x)
    then show ?thesis using q w1 none by (intro exI [of _ Untouched]) (simp add: deliverOne_def step_ok_def)
  next
    case (Inr ep)
    note start = q [unfolded Inr]
    show ?thesis
    proof (cases "we_DisabledAt ep \<noteq> None")
      case True
      then show ?thesis
        using w1 by (intro exI [of _ "Ended (clock e (tick w1)) 0"])
          (simp add: deliverOne_def start bindE_def ignoreE_def mark_delivered_run [OF assms] on_delivery_def returnE_def step_ok_def)
    next
      case enabled: False
      let ?v = "w1\<lparr>tick := Suc (tick w1)\<rparr>"
      show ?thesis
      proof (cases "validateWebhookURL (wh_URLs W) (tick w1) (we_URL ep) (wh_AllowPrivate W)")
        case (Some err)
        then show ?thesis
          using w1 enabled failures_run(1) [OF assms]
          by (intro exI [of _ "Ended (clock e (tick ?v)) 0"])
            (simp add: deliverOne_def start bindE_def ignoreE_def checkE_def askE_def mark_delivered_run [OF assms] on_delivery_def
              returnE_def step_ok_def)
      next
        case None
        let ?t = "clock e (tick ?v)" and ?u = "?v\<lparr>tick := Suc (tick ?v)\<rparr>"
        let ?resp = "wh_Do W (tick ?u) (post_of W ep d ?t)"
        obtain st w2 where r: "record_attempt e Background ep d ?resp (?u\<lparr>tick := Suc (tick ?u)\<rparr>) = (Inr (), w2)"
          "step_ok d True st" "deliveries w2 = update_where (\<lambda>x. wd_ID x = wd_ID d) (step_row st) (deliveries w1)"
          using record_attempt_step [OF assms, of ep d ?resp "?u\<lparr>tick := Suc (tick ?u)\<rparr>"] by auto
        then show ?thesis
          using w1 enabled None by (intro exI [of _ st])
            (simp add: deliverOne_def start bindE_def checkE_def askE_def now_run returnE_def Let_def)
      qed
    qed
  qed
qed

text \<open>A target that passes the check is posted to.\<close>

lemma deliverOne_posts:
  assumes e: "no_faults e" and ep: "endpoint_by (wd_EndpointID d) w = Some ep" "we_DisabledAt ep = None"
    and v: "validateWebhookURL (wh_URLs W) (Suc (tick w)) (we_URL ep) (wh_AllowPrivate W) = None"
  shows "\<exists>w'. deliverOne e Background W d w = (Inr (Some (post_of W ep d (clock e (Suc (Suc (tick w)))))), w')"
proof -
  let ?w1 = "w\<lparr>tick := Suc (tick w)\<rparr>" and ?w4 = "w\<lparr>tick := Suc (Suc (Suc (Suc (tick w))))\<rparr>"
  let ?resp = "wh_Do W (Suc (Suc (Suc (tick w)))) (post_of W ep d (clock e (Suc (Suc (tick w)))))"
  have "GetWebhookEndpoint e Background (wd_EndpointID d) w = (Inr ep, ?w1)"
    using ep(1) by (simp add: GetWebhookEndpoint_def bindE_def queryE_ok [OF e] optE_def returnE_def endpoint_by_def)
  moreover obtain w2 where "record_attempt e Background ep d ?resp ?w4 = (Inr (), w2)"
    using record_attempt_step [OF e, of ep d ?resp ?w4] by auto
  ultimately show ?thesis
    using ep(2) v by (simp add: deliverOne_def bindE_def checkE_def askE_def now_run returnE_def Let_def)
qed

section \<open>Counting the attempts\<close>

text \<open>How often a delivery can still be attempted.\<close>

definition row_left :: "WebhookDeliveryRow \<Rightarrow> nat" where
  "row_left d = (if wd_DeliveredAt d \<noteq> None then 0 else 1 + nat (5 - wd_Attempt d))"

definition attempts_left :: "string \<Rightarrow> world \<Rightarrow> nat" where
  "attempts_left did w = (case delivery_by did w of None \<Rightarrow> 0 | Some d \<Rightarrow> row_left d)"

lemma step_keeps_ID [simp]: "wd_ID (step_row st d) = wd_ID d"
  by (cases st) (simp_all add: delivered_def failed_attempt_def)

lemma delivery_by_step:
  assumes "deliveries w' = update_where (\<lambda>x. wd_ID x = k) (step_row st) (deliveries w)"
  shows "delivery_by did w' = (if did = k then map_option (step_row st) (delivery_by did w) else delivery_by did w)"
proof (cases "did = k")
  case True
  then show ?thesis
    using select_one_update [of "\<lambda>x. wd_ID x = k" "step_row st" "deliveries w"] assms by (simp add: delivery_by_def)
next
  case False
  then show ?thesis
    using select_one_update_other [of "deliveries w" "\<lambda>x. wd_ID x = k" "\<lambda>x. wd_ID x = did" "step_row st"] assms
    by (simp add: delivery_by_def)
qed

lemma step_left:
  assumes "step_ok d posted st" "wd_Attempt d0 = wd_Attempt d" "wd_DeliveredAt d0 = None"
  shows "row_left (step_row st d0) + of_bool posted \<le> row_left d0"
  using assms by (cases st) (auto simp: step_ok_def row_left_def delivered_def failed_attempt_def)

text \<open>The rows a round works on are those of the table.\<close>

definition current :: "world \<Rightarrow> WebhookDeliveryRow \<Rightarrow> bool" where
  "current w d \<longleftrightarrow> (\<exists>d0. delivery_by (wd_ID d) w = Some d0 \<and> wd_Attempt d0 = wd_Attempt d \<and> wd_DeliveredAt d0 = None)"

definition posts_for :: "string \<Rightarrow> (string \<times> webhook_post) list \<Rightarrow> nat" where
  "posts_for did ps = length (filter (\<lambda>p. fst p = did) ps)"

lemma deliver_all_left:
  assumes e: "no_faults e"
  shows "distinct (map wd_ID ds) \<Longrightarrow> (\<And>d. d \<in> set ds \<Longrightarrow> current w d) \<Longrightarrow>
    \<exists>ps w'. deliver_all e Background W ds w = (Inr ps, w') \<and> map wd_ID (deliveries w') = map wd_ID (deliveries w)
      \<and> posts_for did ps + attempts_left did w' \<le> attempts_left did w"
proof (induction ds arbitrary: w)
  case Nil
  then show ?case by (simp add: returnE_def posts_for_def)
next
  case (Cons d ds)
  obtain st p w1 where one: "deliverOne e Background W d w = (Inr p, w1)" "step_ok d (p \<noteq> None) st"
    and t: "deliveries w1 = update_where (\<lambda>x. wd_ID x = wd_ID d) (step_row st) (deliveries w)"
    using deliverOne_step [OF e, of W d w] by blast
  note by1 = delivery_by_step [OF t]
  have cur: "current w1 x" if "x \<in> set ds" for x
  proof -
    have "wd_ID x \<noteq> wd_ID d" using Cons.prems(1) that by (auto simp: image_iff)
    then show ?thesis using Cons.prems(2) [of x] that by1 [of "wd_ID x"] by (simp add: current_def)
  qed
  obtain ps w2 where rest: "deliver_all e Background W ds w1 = (Inr ps, w2)" "map wd_ID (deliveries w2) = map wd_ID (deliveries w1)"
      "posts_for did ps + attempts_left did w2 \<le> attempts_left did w1"
    using Cons.IH [of w1] Cons.prems(1) cur by auto
  obtain d0 where d0: "delivery_by (wd_ID d) w = Some d0" "wd_Attempt d0 = wd_Attempt d" "wd_DeliveredAt d0 = None"
    using Cons.prems(2) [of d] by (auto simp: current_def)
  have "attempts_left did w1 + of_bool (did = wd_ID d \<and> p \<noteq> None) \<le> attempts_left did w"
    using step_left [OF one(2) d0(2,3)] d0(1) by1 [of did] by (cases "did = wd_ID d") (simp_all add: attempts_left_def)
  moreover have "posts_for did ((case p of None \<Rightarrow> [] | Some post \<Rightarrow> [(wd_ID d, post)]) @ ps) = of_bool (did = wd_ID d \<and> p \<noteq> None) + posts_for did ps"
    by (cases p) (auto simp: posts_for_def)
  moreover have "map wd_ID (deliveries w1) = map wd_ID (deliveries w)" by (simp add: t table_simps)
  ultimately show ?case using one(1) rest by (simp add: bindE_def returnE_def)
qed

lemma delivery_key:
  assumes "distinct (map wd_ID (deliveries w))" "d \<in> set (deliveries w)"
  shows "delivery_by (wd_ID d) w = Some d"
proof -
  obtain d' where d': "delivery_by (wd_ID d) w = Some d'"
    using select_one_ex [OF assms(2), of "\<lambda>x. wd_ID x = wd_ID d"] by (auto simp: delivery_by_def)
  then have "d' = d"
    using select_one_Some [of "\<lambda>x. wd_ID x = wd_ID d" "deliveries w" d'] distinct_keyD [OF assms(1) _ assms(2), of d']
    by (auto simp: delivery_by_def)
  then show ?thesis using d' by simp
qed

lemma claimed_fields [simp]: "wd_ID (claimed d) = wd_ID d" "wd_Attempt (claimed d) = wd_Attempt d"
  by (simp_all add: claimed_def)

lemma dispatch_left:
  assumes e: "no_faults e" and dist: "distinct (map wd_ID (deliveries w))"
  shows "\<exists>ps w'. dispatchPending e Background W w = (Inr ps, w') \<and> map wd_ID (deliveries w') = map wd_ID (deliveries w)
      \<and> posts_for did ps + attempts_left did w' \<le> attempts_left did w"
proof -
  define t where "t = clock e (tick w)"
  define v where "v = w\<lparr>tick := Suc (Suc (tick w))\<rparr>"
  define rows where "rows = take 16 (sort_key (\<lambda>d. the (wd_NextAttemptAt d)) (select (pending_at t) (deliveries w)))"
  have claim: "ClaimPendingDeliveries e Background 16 w = (Inr (map claimed rows), v)"
    by (simp add: ClaimPendingDeliveries_def bindE_def now_run queryE_ok [OF e] rows_def t_def v_def)
  have sub: "d \<in> set (deliveries w) \<and> wd_DeliveredAt d = None" if "d \<in> set rows" for d
    using that by (auto simp: rows_def pending_at_def select_simps dest!: in_set_takeD)
  have "distinct (map wd_ID (select (pending_at t) (deliveries w)))"
    using dist by (simp add: select_def distinct_map_filter)
  then have "distinct (map wd_ID (sort_key (\<lambda>d. the (wd_NextAttemptAt d)) (select (pending_at t) (deliveries w))))"
    by (simp add: distinct_map)
  then have "distinct (map wd_ID rows)" unfolding rows_def take_map [symmetric] by (rule distinct_take)
  then have ids: "distinct (map wd_ID (map claimed rows))" by (simp add: comp_def)
  have cur: "current v d" if m: "d \<in> set (map claimed rows)" for d
  proof -
    obtain d0 where d0: "d = claimed d0" "d0 \<in> set rows" using m by auto
    have "delivery_by (wd_ID d0) v = Some d0" using delivery_key [OF dist] sub [OF d0(2)] by (simp add: delivery_by_def v_def)
    then show ?thesis using sub [OF d0(2)] by (simp add: current_def d0(1))
  qed
  obtain ps w' where d: "deliver_all e Background W (map claimed rows) v = (Inr ps, w')"
      "map wd_ID (deliveries w') = map wd_ID (deliveries v)" "posts_for did ps + attempts_left did w' \<le> attempts_left did v"
    using deliver_all_left [OF e ids cur] by blast
  moreover have "dispatchPending e Background W w = (Inr ps, w')"
    by (simp add: dispatchPending_def catchE_def bindE_def claim d(1))
  moreover have "deliveries v = deliveries w" "attempts_left did v = attempts_left did w"
    by (simp_all add: v_def attempts_left_def delivery_by_def)
  ultimately show ?thesis by auto
qed

lemma rounds_left:
  assumes e: "no_faults e"
  shows "distinct (map wd_ID (deliveries w)) \<Longrightarrow> \<exists>ps w'. rounds e Background W n w = (Inr ps, w')
      \<and> posts_for did ps + attempts_left did w' \<le> attempts_left did w"
proof (induction n arbitrary: w)
  case 0
  then show ?case by (simp add: returnE_def posts_for_def)
next
  case (Suc n)
  obtain ps w1 where d: "dispatchPending e Background W w = (Inr ps, w1)" "map wd_ID (deliveries w1) = map wd_ID (deliveries w)"
      "posts_for did ps + attempts_left did w1 \<le> attempts_left did w"
    using dispatch_left [OF e Suc.prems] by blast
  obtain qs w2 where r: "rounds e Background W n w1 = (Inr qs, w2)" "posts_for did qs + attempts_left did w2 \<le> attempts_left did w1"
    using Suc.IH [of w1] Suc.prems d(2) by auto
  have "posts_for did (ps @ qs) = posts_for did ps + posts_for did qs" by (simp add: posts_for_def)
  then show ?case using d r by (simp add: bindE_def returnE_def)
qed

section \<open>Properties\<close>


text \<open>An example: a server that always fails, asked by a worker whose clock moves an hour at a time.\<close>

definition hourly_env :: env where
  "hourly_env = \<lparr>clock = (\<lambda>n. int n * 3600000), ulid = nat_str, fault = (\<lambda>_. None)\<rparr>"

definition failing_svc :: webhook_svc where
  "failing_svc = \<lparr>wh_AllowPrivate = False,
     wh_URLs = \<lparr>ul_Parse = (\<lambda>u. Inr (''https'', u)), ul_Lookup = (\<lambda>n h. Inr [[8, 8, 8, 8]]), ul_Quote = id, ul_Show = (\<lambda>_. [])\<rparr>,
     wh_Random = (\<lambda>n. replicate 32 CHR ''r''), wh_Hmac = (\<lambda>k m. k @ m), wh_Format = int_str,
     wh_Do = (\<lambda>n p. (Some (500, ''oops''), None))\<rparr>"

definition queued_delivery :: WebhookDeliveryRow where
  "queued_delivery = delivery_row ''whd-1'' 0 \<lparr>qi_EndpointID = ''whk-1'', qi_EventID = ''evt-1'', qi_EventType = ''t'', qi_Payload = Some JNull\<rparr>"

definition hooked_endpoint :: WebhookEndpointRow where
  "hooked_endpoint = \<lparr>we_ID = ''whk-1'', we_TenantID = ''acme'', we_URL = ''example.org'', we_EventTypes = Some (JArr []),
     we_SigningSecret = ''whsec_k'', we_DisabledAt = None, we_DisabledReason = None, we_Failures = 0, we_CreatedAt = 0, we_UpdatedAt = 0\<rparr>"

definition queue_world :: world where
  "queue_world = empty_world\<lparr>endpoints := [hooked_endpoint], deliveries := [queued_delivery]\<rparr>"

lemma hourly_ok [simp]: "no_faults hourly_env"
  by (simp add: no_faults_def hourly_env_def)

lemma queue_world_rows [simp]: "deliveries queue_world = [queued_delivery]" "wd_Attempt queued_delivery = 0"
  by (simp_all add: queue_world_def queued_delivery_def delivery_row_def)


text \<open>A request of the worker goes to the address of an enabled endpoint, and, unless
private targets are allowed, every address its host name had when it was checked lies outside
the internal ranges, whatever statement fails.\<close>

theorem posts_avoid_internal_addresses:
  assumes "deliverOne e c W d w = (Inr (Some post), w')" "\<not> wh_AllowPrivate W"
  shows "\<exists>ep\<in>set (endpoints w). we_DisabledAt ep = None \<and> po_URL post = we_URL ep
    \<and> (\<exists>scheme host n ips. ul_Parse (wh_URLs W) (we_URL ep) = Inr (scheme, host) \<and> ul_Lookup (wh_URLs W) n host = Inr ips
         \<and> (\<forall>ip\<in>set ips. \<not> disallowed ip))"
proof -
  obtain q w1 where q: "GetWebhookEndpoint e c (wd_EndpointID d) w = (q, w1)"
    by (cases "GetWebhookEndpoint e c (wd_EndpointID d) w")
  obtain ep where qe: "q = Inr ep" using assms(1) q by (cases q) (auto simp: deliverOne_def)
  have row: "endpoint_by (wd_EndpointID d) w = Some ep"
    using q by (auto simp: qe GetWebhookEndpoint_def run_values endpoint_by_def dest!: run_dests)
  have enabled: "we_DisabledAt ep = None"
  proof (rule ccontr)
    assume "we_DisabledAt ep \<noteq> None"
    then show False using assms(1) by (simp add: deliverOne_def q qe bindE_def ignoreE_def returnE_def)
  qed
  have none: "validateWebhookURL (wh_URLs W) (tick w1) (we_URL ep) False = None"
  proof (cases "validateWebhookURL (wh_URLs W) (tick w1) (we_URL ep) False")
    case (Some err)
    then show ?thesis
      using assms by (simp add: deliverOne_def q qe enabled bindE_def ignoreE_def returnE_def checkE_def askE_def)
  qed simp
  have post: "po_URL post = we_URL ep"
    using assms none
    by (auto simp: deliverOne_def q qe enabled run_values checkE_def askE_def now_run Let_def returnE_def post_of_def)
  have "ep \<in> set (endpoints w)" using row by (auto simp: endpoint_by_def dest: select_one_Some)
  moreover have "\<exists>scheme host n ips. ul_Parse (wh_URLs W) (we_URL ep) = Inr (scheme, host) \<and> ul_Lookup (wh_URLs W) n host = Inr ips
         \<and> (\<forall>ip\<in>set ips. \<not> disallowed ip)"
    using none by (auto simp: validateWebhookURL_def find_None_iff blocked_disallowed split: sum.splits prod.splits if_splits)
  ultimately show ?thesis using enabled post by blast
qed

lemma posts_avoid_internal_addresses_witness:
  "\<exists>ips. (\<exists>n. ul_Lookup (wh_URLs failing_svc) n ''example.org'' = Inr ips) \<and> (\<forall>ip\<in>set ips. \<not> disallowed ip)"
proof -
  let ?run = "deliverOne hourly_env Background failing_svc queued_delivery queue_world"
  have "endpoint_by (wd_EndpointID queued_delivery) queue_world = Some hooked_endpoint" by code_simp
  moreover have "validateWebhookURL (wh_URLs failing_svc) (Suc (tick queue_world)) (we_URL hooked_endpoint) (wh_AllowPrivate failing_svc) = None"
    by code_simp
  ultimately obtain p w' where run: "?run = (Inr (Some p), w')"
    using deliverOne_posts [OF hourly_ok, of queued_delivery queue_world hooked_endpoint failing_svc]
    by (auto simp: hooked_endpoint_def)
  show ?thesis
    using posts_avoid_internal_addresses [OF run] by (auto simp: failing_svc_def queue_world_def hooked_endpoint_def)
qed

text \<open>A name that does not resolve at the moment of delivery ends the delivery: it counts as
delivered with status 0 and is never tried again, although nothing was sent.\<close>

theorem failed_lookup_drops_the_delivery:
  assumes e: "no_faults e" and dist: "distinct (map wd_ID (deliveries w))" and d: "d \<in> set (deliveries w)"
    and ep: "endpoint_by (wd_EndpointID d) w = Some ep" "we_DisabledAt ep = None"
    and url: "ul_Parse (wh_URLs W) (we_URL ep) = Inr (''https'', host)" "host \<noteq> []" "\<not> wh_AllowPrivate W"
    and dns: "ul_Lookup (wh_URLs W) (Suc (tick w)) host = Inl err"
  shows "fst (deliverOne e Background W d w) = Inr None
    \<and> delivery_by (wd_ID d) (snd (deliverOne e Background W d w)) = Some (delivered (clock e (Suc (Suc (tick w)))) 0 d)"
proof -
  let ?w1 = "w\<lparr>tick := Suc (tick w)\<rparr>"
  have "GetWebhookEndpoint e Background (wd_EndpointID d) w = (Inr ep, ?w1)"
    using ep(1) by (simp add: GetWebhookEndpoint_def bindE_def queryE_ok [OF e] optE_def returnE_def endpoint_by_def)
  moreover have "\<exists>m. validateWebhookURL (wh_URLs W) (Suc (tick w)) (we_URL ep) (wh_AllowPrivate W) = Some m"
    using url dns by (simp add: validateWebhookURL_def)
  ultimately have run: "fst (deliverOne e Background W d w) = Inr None"
    "deliveries (snd (deliverOne e Background W d w))
       = update_where (\<lambda>x. wd_ID x = wd_ID d) (step_row (Ended (clock e (Suc (Suc (tick w)))) 0)) (deliveries w)"
    using ep(2) failures_run(1) [OF e]
    by (auto simp: deliverOne_def bindE_def ignoreE_def checkE_def askE_def returnE_def mark_delivered_run [OF e] on_delivery_def)
  show ?thesis using run(1) delivery_by_step [OF run(2), of "wd_ID d"] delivery_key [OF dist d] by simp
qed

definition lookup_fails :: webhook_svc where
  "lookup_fails = failing_svc\<lparr>wh_URLs := (wh_URLs failing_svc)\<lparr>ul_Lookup := (\<lambda>n h. Inl (ErrMsg ''timeout''))\<rparr>\<rparr>"

lemma failed_lookup_drops_the_delivery_witness:
  "fst (deliverOne hourly_env Background lookup_fails queued_delivery queue_world) = Inr None"
  using failed_lookup_drops_the_delivery [OF hourly_ok, of queue_world queued_delivery hooked_endpoint lookup_fails "''example.org''"
      "ErrMsg ''timeout''"]
  by (simp add: queue_world_def hooked_endpoint_def lookup_fails_def failing_svc_def endpoint_by_def select_one_def queued_delivery_def
      delivery_row_def)

section \<open>Queueing an event\<close>

definition queue_fresh :: "env \<Rightarrow> world \<Rightarrow> bool" where
  "queue_fresh e w \<longleftrightarrow> (\<forall>d\<in>set (deliveries w). \<exists>k<tick w. wd_ID d = ''whd-'' @ ToLower (ulid e k))"

lemma queue_fresh_later: "queue_fresh e w \<Longrightarrow> tick w \<le> n \<Longrightarrow> queue_fresh e (w\<lparr>tick := n\<rparr>)"
  by (auto simp: queue_fresh_def dest!: bspec intro: less_le_trans)

lemma queue_fresh_add:
  assumes "queue_fresh e w" "wd_ID d = ''whd-'' @ ToLower (ulid e k)" "k < n" "tick w \<le> n"
  shows "queue_fresh e (w\<lparr>tick := n, deliveries := deliveries w @ [d]\<rparr>)"
  unfolding queue_fresh_def
proof
  fix x assume "x \<in> set (deliveries (w\<lparr>tick := n, deliveries := deliveries w @ [d]\<rparr>))"
  then consider "x \<in> set (deliveries w)" | "x = d" by auto
  then show "\<exists>k<tick (w\<lparr>tick := n, deliveries := deliveries w @ [d]\<rparr>). wd_ID x = ''whd-'' @ ToLower (ulid e k)"
  proof cases
    case 1
    then obtain j where "j < tick w" "wd_ID x = ''whd-'' @ ToLower (ulid e j)" using assms(1) by (auto simp: queue_fresh_def)
    then show ?thesis using assms(4) by (intro exI [of _ j]) simp
  next
    case 2
    then show ?thesis using assms(2,3) by (intro exI [of _ k]) simp
  qed
qed

lemma endpoint_key:
  assumes "distinct (map we_ID (endpoints w))" "r \<in> set (endpoints w)"
  shows "endpoint_by (we_ID r) w = Some r"
proof -
  obtain r' where r': "endpoint_by (we_ID r) w = Some r'"
    using select_one_ex [OF assms(2), of "\<lambda>x. we_ID x = we_ID r"] by (auto simp: endpoint_by_def)
  then have "r' = r"
    using select_one_Some [of "\<lambda>x. we_ID x = we_ID r" "endpoints w" r'] distinct_keyD [OF assms(1) _ assms(2), of r']
    by (auto simp: endpoint_by_def)
  then show ?thesis using r' by simp
qed

lemma fetch_endpoints:
  assumes e: "no_faults e"
  shows "distinct (map we_ID (endpoints w)) \<Longrightarrow> set rs \<subseteq> set (endpoints w) \<Longrightarrow>
    mapE (GetWebhookEndpoint e Background) (map we_ID rs) w = (Inr rs, w\<lparr>tick := tick w + length rs\<rparr>)"
proof (induction rs arbitrary: w)
  case (Cons r rs)
  let ?w = "w\<lparr>tick := Suc (tick w)\<rparr>"
  have "GetWebhookEndpoint e Background (we_ID r) w = (Inr r, ?w)"
    using endpoint_key [OF Cons.prems(1), of r] Cons.prems(2)
    by (simp add: GetWebhookEndpoint_def bindE_def queryE_ok [OF e] optE_def returnE_def endpoint_by_def)
  moreover have "mapE (GetWebhookEndpoint e Background) (map we_ID rs) ?w = (Inr rs, ?w\<lparr>tick := tick ?w + length rs\<rparr>)"
    using Cons.IH [of ?w] Cons.prems by simp
  ultimately show ?case by (simp add: bindE_def returnE_def)
qed (simp add: returnE_def)

definition wanted :: "string \<Rightarrow> string \<Rightarrow> world \<Rightarrow> WebhookEndpointRow list" where
  "wanted tenant ty w = filter (subscribed ty) (select (\<lambda>r. we_TenantID r = tenant \<and> we_DisabledAt r = None) (endpoints w))"

lemma enqueue_run:
  assumes e: "no_faults e" "distinct_ids e" and fresh: "queue_fresh e w" and r: "endpoint_by (we_ID r) w \<noteq> None"
  shows "\<exists>d. enqueue_for e Background W ev r w = (Inr (), w\<lparr>tick := tick w + 4, deliveries := deliveries w @ [d]\<rparr>)
    \<and> wd_EndpointID d = we_ID r \<and> wd_EventID d = be_ID ev \<and> wd_EventType d = be_Type ev \<and> wd_Attempt d = 0 \<and> wd_DeliveredAt d = None
    \<and> wd_ID d = ''whd-'' @ ToLower (ulid e (Suc (tick w)))"
proof -
  define d where "d = delivery_row (''whd-'' @ ToLower (ulid e (Suc (tick w)))) (clock e (Suc (Suc (tick w))))
    \<lparr>qi_EndpointID = we_ID r, qi_EventID = be_ID ev, qi_EventType = be_Type ev, qi_Payload = Some (event_body W (clock e (tick w)) ev)\<rparr>"
  have "x \<in> set (deliveries w) \<Longrightarrow> wd_ID x \<noteq> ''whd-'' @ ToLower (ulid e (Suc (tick w)))" for x
    using fresh e(2) by (fastforce simp: queue_fresh_def distinct_ids_def inj_def)
  then have "delivery_insert_ok d (w\<lparr>tick := n\<rparr>)" for n
    using r by (simp add: delivery_insert_ok_def delivery_by_def endpoint_by_def d_def delivery_row_def select_one_None)
  then have "EnqueueWebhookDelivery e Background \<lparr>qi_EndpointID = we_ID r, qi_EventID = be_ID ev, qi_EventType = be_Type ev,
        qi_Payload = Some (event_body W (clock e (tick w)) ev)\<rparr> (w\<lparr>tick := Suc (tick w)\<rparr>)
      = (Inr d, w\<lparr>tick := tick w + 4, deliveries := deliveries w @ [d]\<rparr>)"
    unfolding d_def by (simp add: EnqueueWebhookDelivery_def Let_def bindE_def NewID_run now_run insertE_ok [OF e(1)] returnE_def)
  then show ?thesis
    by (intro exI [of _ d]) (simp add: enqueue_for_def bindE_def now_run ignoreE_def d_def delivery_row_def)
qed

lemma enqueue_all:
  assumes e: "no_faults e" "distinct_ids e"
  shows "queue_fresh e w \<Longrightarrow> (\<forall>r\<in>set rs. endpoint_by (we_ID r) w \<noteq> None) \<Longrightarrow>
    \<exists>ds k. forE (enqueue_for e Background W ev) rs w = (Inr (), w\<lparr>tick := tick w + k, deliveries := deliveries w @ ds\<rparr>)
      \<and> map (\<lambda>d. (wd_EndpointID d, wd_EventID d, wd_EventType d, wd_Attempt d, wd_DeliveredAt d)) ds
        = map (\<lambda>r. (we_ID r, be_ID ev, be_Type ev, 0, None)) rs"
proof (induction rs arbitrary: w)
  case Nil
  then show ?case by (intro exI [of _ "[]"] exI [of _ 0]) (simp add: returnE_def)
next
  case (Cons r rs)
  obtain d where d: "enqueue_for e Background W ev r w = (Inr (), w\<lparr>tick := tick w + 4, deliveries := deliveries w @ [d]\<rparr>)"
      "wd_EndpointID d = we_ID r" "wd_EventID d = be_ID ev" "wd_EventType d = be_Type ev" "wd_Attempt d = 0" "wd_DeliveredAt d = None"
      "wd_ID d = ''whd-'' @ ToLower (ulid e (Suc (tick w)))"
    using enqueue_run [OF e Cons.prems(1), of r W ev] Cons.prems(2) by auto
  let ?w = "w\<lparr>tick := tick w + 4, deliveries := deliveries w @ [d]\<rparr>"
  have "queue_fresh e ?w"
    by (rule queue_fresh_add [OF Cons.prems(1) d(7)]) simp_all
  moreover have "\<forall>r\<in>set rs. endpoint_by (we_ID r) ?w \<noteq> None" using Cons.prems(2) by (simp add: endpoint_by_def)
  ultimately obtain ds k where ds: "forE (enqueue_for e Background W ev) rs ?w = (Inr (), ?w\<lparr>tick := tick ?w + k, deliveries := deliveries ?w @ ds\<rparr>)"
      "map (\<lambda>d. (wd_EndpointID d, wd_EventID d, wd_EventType d, wd_Attempt d, wd_DeliveredAt d)) ds
        = map (\<lambda>r. (we_ID r, be_ID ev, be_Type ev, 0, None)) rs"
    using Cons.IH [of ?w] by blast
  then show ?case using d
    by (intro exI [of _ "d # ds"] exI [of _ "k + 4"]) (simp add: bindE_def ac_simps)
qed

text \<open>C23: An event is queued exactly once for every enabled endpoint of the tenant that
subscribes to its type or to everything, in the order of the endpoints, ready for its first attempt.\<close>

theorem events_are_queued_for_subscribers:
  assumes "no_faults e" "distinct_ids e" "queue_fresh e w" "distinct (map we_ID (endpoints w))"
  shows "\<exists>ds k. PublishEvent e Background W tenant ev w = (Inr (), w\<lparr>tick := tick w + k, deliveries := deliveries w @ ds\<rparr>)
    \<and> map (\<lambda>d. (wd_EndpointID d, wd_EventID d, wd_EventType d, wd_Attempt d, wd_DeliveredAt d)) ds
      = map (\<lambda>r. (we_ID r, be_ID ev, be_Type ev, 0, None)) (wanted tenant (be_Type ev) w)"
proof -
  let ?all = "select (\<lambda>r. we_TenantID r = tenant \<and> we_DisabledAt r = None) (endpoints w)"
  let ?w = "w\<lparr>tick := Suc (tick w + length ?all)\<rparr>"
  have "mapE (GetWebhookEndpoint e Background) (map we_ID ?all) (w\<lparr>tick := Suc (tick w)\<rparr>) = (Inr ?all, ?w)"
    using fetch_endpoints [OF assms(1), of "w\<lparr>tick := Suc (tick w)\<rparr>" ?all] assms(4) by (simp add: select_simps)
  then have "ListWebhookEndpointsByEventType e Background tenant (be_Type ev) w = (Inr (wanted tenant (be_Type ev) w), ?w)"
    by (simp add: ListWebhookEndpointsByEventType_def bindE_def queryE_ok [OF assms(1)] returnE_def wanted_def)
  moreover have "queue_fresh e ?w" by (rule queue_fresh_later [OF assms(3)]) simp
  moreover have "\<forall>r\<in>set (wanted tenant (be_Type ev) w). endpoint_by (we_ID r) ?w \<noteq> None"
    using endpoint_key [OF assms(4)] by (auto simp: wanted_def select_simps endpoint_by_def)
  ultimately obtain ds k where "PublishEvent e Background W tenant ev w = (Inr (), ?w\<lparr>tick := tick ?w + k, deliveries := deliveries ?w @ ds\<rparr>)"
     "map (\<lambda>d. (wd_EndpointID d, wd_EventID d, wd_EventType d, wd_Attempt d, wd_DeliveredAt d)) ds
      = map (\<lambda>r. (we_ID r, be_ID ev, be_Type ev, 0, None)) (wanted tenant (be_Type ev) w)"
    using enqueue_all [OF assms(1,2), of ?w "wanted tenant (be_Type ev) w" W ev] by (auto simp: PublishEvent_def bindE_def)
  then show ?thesis by (intro exI [of _ ds] exI [of _ "Suc (length ?all + k)"]) (simp add: ac_simps)
qed

definition some_event :: Event where
  "some_event = \<lparr>be_ID = ''evt-2'', be_SessionID = ''s'', be_ThreadID = ''primary'', be_Type = ''session.status_idle'', be_Seq = 1,
     be_Payload = Some (JObj []), be_ProcessedAt = 0\<rparr>"

definition ready_world :: world where
  "ready_world = empty_world\<lparr>endpoints := [hooked_endpoint]\<rparr>"

lemma events_are_queued_for_subscribers_witness:
  "map wd_EndpointID (deliveries (snd (PublishEvent hourly_env Background failing_svc ''acme'' some_event ready_world))) = [''whk-1'']"
proof -
  have "distinct_ids hourly_env" by (simp add: distinct_ids_def inj_def hourly_env_def)
  moreover have "queue_fresh hourly_env ready_world" by (simp add: queue_fresh_def ready_world_def empty_world_def)
  moreover have "distinct (map we_ID (endpoints ready_world))" by (simp add: ready_world_def)
  ultimately obtain ds k where P: "PublishEvent hourly_env Background failing_svc ''acme'' some_event ready_world
      = (Inr (), ready_world\<lparr>tick := tick ready_world + k, deliveries := deliveries ready_world @ ds\<rparr>)"
    and m: "map (\<lambda>d. (wd_EndpointID d, wd_EventID d, wd_EventType d, wd_Attempt d, wd_DeliveredAt d)) ds
      = map (\<lambda>r. (we_ID r, be_ID some_event, be_Type some_event, 0, None)) (wanted ''acme'' (be_Type some_event) ready_world)"
    using events_are_queued_for_subscribers [OF hourly_ok, of ready_world failing_svc "''acme''" some_event] by blast
  have "wanted ''acme'' (be_Type some_event) ready_world = [hooked_endpoint]" by code_simp
  then have "map wd_EndpointID ds = [''whk-1'']"
    using arg_cong [OF m, of "map fst"] by (simp add: comp_def hooked_endpoint_def)
  moreover have "deliveries ready_world = []" by (simp add: ready_world_def empty_world_def)
  ultimately show ?thesis unfolding P by simp
qed

end
