(* ===== verification/MockProvider.thy ===== *)
theory MockProvider
  imports ModelCall
begin

text \<open>
  The scripted provider (\<open>internal/provider/mock.go\<close>), which is the default of the daemon. Its state
  is explicit: the scripts with their use, and the number of calls.
\<close>

section \<open>Scripts\<close>

record MockScript =
  mk_Match :: "chat_request \<Rightarrow> bool"
  mk_Events :: "chat_event list"
  mk_Err :: "gerr option"
  mk_Once :: bool
  mk_Used :: bool

record MockProvider =
  mk_Scripts :: "MockScript list"
  mk_Called :: nat

definition NewMockProvider :: MockProvider where
  "NewMockProvider = \<lparr>mk_Scripts = [], mk_Called = 0\<rparr>"

definition Append :: "MockProvider \<Rightarrow> MockScript \<Rightarrow> MockProvider" where
  "Append m s = m\<lparr>mk_Scripts := mk_Scripts m @ [s]\<rparr>"

definition script :: "(chat_request \<Rightarrow> bool) \<Rightarrow> chat_event list \<Rightarrow> MockScript" where
  "script match evs = \<lparr>mk_Match = match, mk_Events = evs, mk_Err = None, mk_Once = False, mk_Used = False\<rparr>"

definition tokens :: "int \<Rightarrow> int \<Rightarrow> usage" where
  "tokens i n = zero_usage\<lparr>u_InputTokens := i, u_OutputTokens := n\<rparr>"

definition say :: "int \<Rightarrow> string \<Rightarrow> chat_event list" where
  "say i text = [TextDelta text, StopReason ''end_turn'' (tokens i (int (length text)))]"

definition use_tool :: "string \<Rightarrow> string \<Rightarrow> raw \<Rightarrow> chat_event list" where
  "use_tool call tool_name input =
     [ToolUseStart call tool_name, ToolUseDelta call (raw_text input), StopReason ''tool_use'' (tokens 20 5)]"

definition has_tool_result :: "chat_request \<Rightarrow> bool" where
  "has_tool_result req \<longleftrightarrow> list_ex (\<lambda>m. list_ex (\<lambda>b. cb_Type b = ''tool_result'') (m_Content m)) (cr_Messages req)"

definition compactionMarker :: string where
  "compactionMarker = ''compaction assistant''"

definition AppendText :: "MockProvider \<Rightarrow> string \<Rightarrow> MockProvider" where
  "AppendText m text = Append m (script (\<lambda>req. True) (say 10 text))"

definition AppendToolUse :: "MockProvider \<Rightarrow> string \<Rightarrow> raw \<Rightarrow> MockProvider" where
  "AppendToolUse m tool_name input = Append m (script (\<lambda>req. \<not> has_tool_result req) (use_tool ''call_mock_001'' tool_name input))"

definition AppendFinalAfterTool :: "MockProvider \<Rightarrow> string \<Rightarrow> MockProvider" where
  "AppendFinalAfterTool m text = Append m (script has_tool_result (say 30 text))"

definition AppendSummary :: "MockProvider \<Rightarrow> string \<Rightarrow> MockProvider" where
  "AppendSummary m text = Append m (script (\<lambda>req. Contains (cr_System req) compactionMarker) (say 50 text))"

definition AppendError :: "MockProvider \<Rightarrow> gerr \<Rightarrow> MockProvider" where
  "AppendError m err = Append m ((script (\<lambda>req. True) [])\<lparr>mk_Err := Some err\<rparr>)"

definition AppendErrorOnce :: "MockProvider \<Rightarrow> gerr \<Rightarrow> MockProvider" where
  "AppendErrorOnce m err = Append m ((script (\<lambda>req. True) [])\<lparr>mk_Err := Some err, mk_Once := True\<rparr>)"

definition AppendAlwaysToolUse :: "MockProvider \<Rightarrow> string \<Rightarrow> raw \<Rightarrow> MockProvider" where
  "AppendAlwaysToolUse m tool_name input =
     Append m (script (\<lambda>req. \<not> Contains (cr_System req) compactionMarker) (use_tool ''call_loop'' tool_name input))"

definition mock_Name :: string where
  "mock_Name = ''mock''"

section \<open>Answering\<close>

text \<open>The first script that is not used up and matches; one for a single use is used up.\<close>

definition usable :: "chat_request \<Rightarrow> MockScript \<Rightarrow> bool" where
  "usable req s \<longleftrightarrow> \<not> mk_Used s \<and> mk_Match s req"

fun pick :: "chat_request \<Rightarrow> MockScript list \<Rightarrow> MockScript option \<times> MockScript list" where
  "pick req [] = (None, [])"
| "pick req (s # ss) =
     (if usable req s then (Some s, (if mk_Once s then s\<lparr>mk_Used := True\<rparr> else s) # ss)
      else (let (r, ss') = pick req ss in (r, s # ss')))"

definition no_script :: "chat_event list" where
  "no_script = say 0 ''[mock] no matching script for request''"

text \<open>The sender stops at the first event for which its \<open>select\<close> takes the cancellation.\<close>

fun sent_until :: "(nat \<Rightarrow> bool) \<Rightarrow> nat \<Rightarrow> chat_event list \<Rightarrow> chat_event list" where
  "sent_until done n [] = []"
| "sent_until done n (ev # evs) = (if done n then [] else ev # sent_until done (Suc n) evs)"

definition mock_Stream :: "(nat \<Rightarrow> bool) \<Rightarrow> chat_request \<Rightarrow> MockProvider \<Rightarrow> (gerr + chat_event list) \<times> MockProvider" where
  "mock_Stream done req m =
     (case pick req (mk_Scripts m) of
        (chosen, ss) \<Rightarrow>
          ((case chosen of
              None \<Rightarrow> Inr no_script
            | Some s \<Rightarrow> (case mk_Err s of Some err \<Rightarrow> Inl err | None \<Rightarrow> Inr (sent_until done 0 (mk_Events s)))),
           m\<lparr>mk_Scripts := ss, mk_Called := Suc (mk_Called m)\<rparr>))"

definition CalledCount :: "MockProvider \<Rightarrow> nat" where
  "CalledCount = mk_Called"

section \<open>Properties\<close>

lemma pick_find: "fst (pick req ss) = find (usable req) ss"
  by (induction ss) (simp_all add: Let_def split_beta)

lemma pick_length: "length (snd (pick req ss)) = length ss"
  by (induction ss) (simp_all add: Let_def split_beta)

text \<open>The marker is in the system text of a compaction.\<close>

lemma compaction_is_marked: "Contains compactionSystemPrompt compactionMarker"
  by code_simp

text \<open>A run over requests: the answers.\<close>

fun mock_run :: "chat_request list \<Rightarrow> MockProvider \<Rightarrow> (gerr + chat_event list) list \<times> MockProvider" where
  "mock_run [] m = ([], m)"
| "mock_run (req # reqs) m =
     (let (a, m1) = mock_Stream (\<lambda>_. False) req m; (bs, m2) = mock_run reqs m1 in (a # bs, m2))"

lemma sent_all: "sent_until (\<lambda>_. False) n evs = evs"
  by (induction evs arbitrary: n) simp_all

text \<open>The scripts of one use that are left.\<close>

definition once_left :: "MockProvider \<Rightarrow> gerr \<Rightarrow> nat" where
  "once_left m err = length (filter (\<lambda>s. mk_Err s = Some err \<and> \<not> mk_Used s) (mk_Scripts m))"

lemma pick_left:
  assumes "\<forall>s\<in>set ss. mk_Err s = Some err \<longrightarrow> mk_Once s"
  shows "length (filter (\<lambda>s. mk_Err s = Some err \<and> \<not> mk_Used s) (snd (pick req ss)))
      + (case fst (pick req ss) of Some s \<Rightarrow> if mk_Err s = Some err then 1 else 0 | None \<Rightarrow> 0)
    = length (filter (\<lambda>s. mk_Err s = Some err \<and> \<not> mk_Used s) ss)
    \<and> (\<forall>s\<in>set (snd (pick req ss)). mk_Err s = Some err \<longrightarrow> mk_Once s)"
  using assms
proof (induction ss)
  case (Cons s ss)
  then show ?case by (auto simp: Let_def split_beta usable_def split: option.splits)
qed simp

text \<open>An error that is scripted to happen once, however many times it is scripted so, is answered at
most as often as it is scripted, over any requests.\<close>

theorem scripted_once_happens_once:
  assumes "\<forall>s\<in>set (mk_Scripts m). mk_Err s = Some err \<longrightarrow> mk_Once s"
  shows "length (filter (\<lambda>a. a = Inl err) (fst (mock_run reqs m))) + once_left (snd (mock_run reqs m)) err = once_left m err
    \<and> CalledCount (snd (mock_run reqs m)) = CalledCount m + length reqs"
  using assms
proof (induction reqs arbitrary: m)
  case (Cons req reqs)
  let ?a = "fst (mock_Stream (\<lambda>_. False) req m)" and ?m = "snd (mock_Stream (\<lambda>_. False) req m)"
  have m: "mk_Scripts ?m = snd (pick req (mk_Scripts m))" "mk_Called ?m = Suc (mk_Called m)"
    by (simp_all add: mock_Stream_def split_beta)
  have a: "?a = Inl err \<longleftrightarrow> (\<exists>s. fst (pick req (mk_Scripts m)) = Some s \<and> mk_Err s = Some err)"
    by (auto simp: mock_Stream_def split_beta split: option.splits)
  note c = pick_left [OF Cons.prems, of req]
  have "(if ?a = Inl err then 1 else 0) + once_left ?m err = once_left m err"
    using c a unfolding once_left_def m by (cases "fst (pick req (mk_Scripts m))") auto
  moreover have "\<forall>s\<in>set (mk_Scripts ?m). mk_Err s = Some err \<longrightarrow> mk_Once s" using c unfolding m by blast
  ultimately show ?case using Cons.IH [of ?m] m(2) by (auto simp: Let_def split_beta CalledCount_def)
qed simp

text \<open>Without scripts every call is the same answer, which ends the turn.\<close>

lemma default_mock: "mk_Scripts m = [] \<Longrightarrow> fst (mock_Stream done req m) = Inr no_script \<and> mk_Scripts (snd (mock_Stream done req m)) = []"
  by (simp add: mock_Stream_def)

lemma default_mock_ends:
  "collect_model [] [] no_script = Inr \<lparr>mr_text = ''[mock] no matching script for request'', mr_tools = [],
     mr_usage = tokens 0 37, mr_stopReason = ''end_turn''\<rparr>"
  by (simp add: no_script_def say_def)

end
