(* ===== verification/Sandbox.thy ===== *)
theory Sandbox
  imports Tools
begin

text \<open>
  The sandbox of \<open>internal/sandbox/subprocess.go\<close>: a working directory per session, in which
  commands run as processes of the host, and files are written. What the host answers is a parameter; what is
  asked of it is logged. \<open>injectVaultProxy\<close> of \<open>internal/harness/harness.go\<close> sets its environment.
\<close>

section \<open>Commands, processes and the host\<close>

type_synonym environ = "string \<rightharpoonup> string"

record command =
  cm_Args :: "string list"
  cm_Stdin :: "string option"
  cm_Env :: environ
  cm_Workdir :: string
  cm_Timeout :: int

record process =
  pc_Args :: "string list"
  pc_Stdin :: "string option"
  pc_Env :: environ
  pc_Dir :: string
  pc_Timeout :: int

text \<open>A process exits with a code, or fails to run or to be waited for; the output is what was received.\<close>

datatype run_outcome = Exited int string string | RunFailed string string string

record sandbox_host =
  sh_Environ :: "string list"
  sh_MkdirAll :: "nat \<Rightarrow> string \<Rightarrow> gerr option"
  sh_WriteFile :: "nat \<Rightarrow> string \<Rightarrow> string \<Rightarrow> gerr option"
  sh_RemoveAll :: "nat \<Rightarrow> string \<Rightarrow> gerr option"
  sh_Run :: "nat \<Rightarrow> process \<Rightarrow> run_outcome"
  sh_WithUser :: "string \<Rightarrow> string \<Rightarrow> string option"

datatype host_action = MadeDir string | Wrote string string | Removed string | Ran process

type_synonym host_log = "host_action list"

text \<open>Doing something takes a place in the log, which also numbers the answers of the host.\<close>

definition ask_host :: "(nat \<Rightarrow> gerr option) \<Rightarrow> host_action \<Rightarrow> (host_log, unit) io" where
  "ask_host f a l = ((case f (length l) of Some err \<Rightarrow> Inl err | None \<Rightarrow> Inr ()), l @ [a])"

definition wrap_host :: "string \<Rightarrow> (host_log, 'a) io \<Rightarrow> (host_log, 'a) io" where
  "wrap_host m f = catchE f (\<lambda>err. throwE (Wrap m err))"

section \<open>The provider\<close>

record local_provider =
  lp_RootDir :: string
  lp_KeepWorkdir :: bool

definition NewLocalSubprocessProvider :: "string \<Rightarrow> local_provider" where
  "NewLocalSubprocessProvider root = \<lparr>lp_RootDir = root, lp_KeepWorkdir = False\<rparr>"

record subprocess_sandbox =
  sx_SessionID :: string
  sx_Workdir :: string
  sx_Env :: environ
  sx_Closed :: bool

definition Provision :: "sandbox_host \<Rightarrow> local_provider \<Rightarrow> string \<Rightarrow> (host_log, subprocess_sandbox) io" where
  "Provision H p sid =
     (let workdir = Join [lp_RootDir p, sid] in
      bindE (wrap_host ''mkdir workdir'' (ask_host (\<lambda>n. sh_MkdirAll H n workdir) (MadeDir workdir))) (\<lambda>_.
        returnE \<lparr>sx_SessionID = sid, sx_Workdir = workdir, sx_Env = [''JE_SESSION_ID'' \<mapsto> sid], sx_Closed = False\<rparr>))"

definition contains_any :: "string \<Rightarrow> string \<Rightarrow> bool" where
  "contains_any s cs = list_ex (\<lambda>ch. ch \<in> set cs) s"

definition Destroy :: "sandbox_host \<Rightarrow> local_provider \<Rightarrow> string \<Rightarrow> (host_log, unit) io" where
  "Destroy H p sid =
     (if sid = [] \<or> contains_any sid (''/'' @ [CHR 0x5C]) \<or> sid = ''.'' \<or> sid = ''..''
      then throwE (ErrMsg (''invalid session id for destroy: '' @ goquote sid))
      else if lp_KeepWorkdir p then returnE ()
      else ask_host (\<lambda>n. sh_RemoveAll H n (Join [lp_RootDir p, sid])) (Removed (Join [lp_RootDir p, sid])))"

section \<open>The sandbox\<close>

definition Close :: "subprocess_sandbox \<Rightarrow> subprocess_sandbox" where
  "Close s = s\<lparr>sx_Closed := True\<rparr>"

definition SetEnv :: "string \<Rightarrow> string \<Rightarrow> subprocess_sandbox \<Rightarrow> subprocess_sandbox" where
  "SetEnv k v s = s\<lparr>sx_Env := (sx_Env s)(k \<mapsto> v)\<rparr>"

text \<open>The environment of the host, entry by entry; what has no equals sign is left out.\<close>

definition environ_entry :: "string \<Rightarrow> environ \<Rightarrow> environ" where
  "environ_entry kv m = (if CHR ''='' \<in> set kv
     then m(takeWhile (\<lambda>ch. ch \<noteq> CHR ''='') kv \<mapsto> tl (dropWhile (\<lambda>ch. ch \<noteq> CHR ''='') kv)) else m)"

definition host_environ :: "sandbox_host \<Rightarrow> environ" where
  "host_environ H = fold environ_entry (sh_Environ H) Map.empty"

definition command_env :: "sandbox_host \<Rightarrow> subprocess_sandbox \<Rightarrow> command \<Rightarrow> environ" where
  "command_env H s cmd = host_environ H ++ sx_Env s ++ cm_Env cmd"

definition command_process :: "sandbox_host \<Rightarrow> subprocess_sandbox \<Rightarrow> command \<Rightarrow> process" where
  "command_process H s cmd =
     \<lparr>pc_Args = map (rewriteVirtualPaths (sx_Workdir s)) (cm_Args cmd), pc_Stdin = cm_Stdin cmd, pc_Env = command_env H s cmd,
      pc_Dir = (if cm_Workdir cmd \<noteq> [] then Join [sx_Workdir s, cm_Workdir cmd] else sx_Workdir s),
      pc_Timeout = (if cm_Timeout cmd = 0 then 60 * 1000000000 else cm_Timeout cmd)\<rparr>"

definition Exec :: "sandbox_host \<Rightarrow> subprocess_sandbox \<Rightarrow> command \<Rightarrow> (host_log, exec_result) io" where
  "Exec H s cmd l =
     (if sx_Closed s then (Inl (ErrMsg ''sandbox closed''), l)
      else if cm_Args cmd = [] then (Inl (ErrMsg ''empty command args''), l)
      else (let p = command_process H s cmd in
        (Inr (case sh_Run H (length l) p of
           Exited code out_text err_text \<Rightarrow> \<lparr>er_ExitCode = code, er_Stdout = out_text, er_Stderr = err_text\<rparr>
         | RunFailed out_text err_text m \<Rightarrow> \<lparr>er_ExitCode = -1, er_Stdout = out_text, er_Stderr = err_text @ nl @ m\<rparr>),
         l @ [Ran p])))"

text \<open>\<open>filepath.Dir\<close>: what stands before the last slash, cleaned.\<close>

definition filepath_Dir :: "string \<Rightarrow> string" where
  "filepath_Dir p = (let tail = takeWhile (\<lambda>ch. ch \<noteq> CHR ''/'') (rev p) in Clean (take (length p - length tail) p))"

definition WriteFile :: "sandbox_host \<Rightarrow> subprocess_sandbox \<Rightarrow> string \<Rightarrow> string \<Rightarrow> (host_log, unit) io" where
  "WriteFile H s path content =
     (if sx_Closed s then throwE (ErrMsg ''sandbox closed'')
      else (case WriteFile_target (sx_Workdir s) path of
              Inl err \<Rightarrow> throwE err
            | Inr resolved \<Rightarrow>
                bindE (wrap_host ''mkdir'' (ask_host (\<lambda>n. sh_MkdirAll H n (filepath_Dir resolved)) (MadeDir (filepath_Dir resolved)))) (\<lambda>_.
                  ask_host (\<lambda>n. sh_WriteFile H n resolved content) (Wrote resolved content))))"

section \<open>The vault proxy\<close>

text \<open>\<open>sh_WithUser\<close> is the URL with a user and the password x; a URL that cannot be parsed is used as it is.\<close>

definition proxy_vars :: "string list" where
  "proxy_vars = [''HTTPS_PROXY'', ''https_proxy'', ''HTTP_PROXY'', ''http_proxy'']"

definition ca_vars :: "string list" where
  "ca_vars = [''SSL_CERT_FILE'', ''CURL_CA_BUNDLE'', ''NODE_EXTRA_CA_CERTS'']"

definition injectVaultProxy :: "sandbox_host \<Rightarrow> string \<Rightarrow> string \<Rightarrow> string \<Rightarrow> subprocess_sandbox \<Rightarrow> subprocess_sandbox" where
  "injectVaultProxy H url ca sid s =
     (if url = [] then s
      else (let proxy = (case sh_WithUser H url sid of Some u \<Rightarrow> u | None \<Rightarrow> url);
                s1 = fold (\<lambda>k. SetEnv k proxy) proxy_vars s
            in if ca \<noteq> [] then fold (\<lambda>k. SetEnv k ca) ca_vars s1 else s1))"

section \<open>Files stay in the working directory\<close>

datatype sandbox_op = OpExec command | OpWrite string string | OpSetEnv string string | OpClose

fun sandbox_step :: "sandbox_host \<Rightarrow> sandbox_op \<Rightarrow> subprocess_sandbox \<times> host_log \<Rightarrow> subprocess_sandbox \<times> host_log" where
  "sandbox_step H (OpExec cmd) (s, l) = (s, snd (Exec H s cmd l))"
| "sandbox_step H (OpWrite path content) (s, l) = (s, snd (WriteFile H s path content l))"
| "sandbox_step H (OpSetEnv k v) (s, l) = (SetEnv k v s, l)"
| "sandbox_step H OpClose (s, l) = (Close s, l)"

definition sandbox_run :: "sandbox_host \<Rightarrow> sandbox_op list \<Rightarrow> subprocess_sandbox \<times> host_log \<Rightarrow> subprocess_sandbox \<times> host_log" where
  "sandbox_run H ops = fold (sandbox_step H) ops"

text \<open>The components of a path start with those of a directory; what an action touches lies there, a written
file strictly below, and what is removed is the directory itself.\<close>

definition within_dir :: "string list \<Rightarrow> string \<Rightarrow> bool" where
  "within_dir ds p \<longleftrightarrow> (\<exists>rest. comps p = ds @ rest \<and> (\<forall>c\<in>set rest. normal_comp c))"

fun action_inside :: "string list \<Rightarrow> host_action \<Rightarrow> bool" where
  "action_inside ds (MadeDir p) = within_dir ds p"
| "action_inside ds (Wrote p content) = (within_dir ds p \<and> comps p \<noteq> ds)"
| "action_inside ds (Removed p) = (comps p = ds)"
| "action_inside ds (Ran p) = True"

lemma clean_step_last:
  assumes "\<forall>x\<in>set st. normal_comp x" "rev (clean_step True c st) = ds @ rest" "rest \<noteq> []"
  shows "\<exists>rest'. rev st = ds @ rest'"
proof -
  consider "c = [] \<or> c = ''.''" | "c = ''..''" | "c \<noteq> []" "c \<noteq> ''.''" "c \<noteq> ''..''" by blast
  then show ?thesis
  proof cases
    case 1
    then show ?thesis using assms(2) by (auto simp: clean_step_def)
  next
    case 2
    then show ?thesis using assms by (cases st) (auto simp: clean_step_def normal_comp_def)
  next
    case 3
    then have "rev st @ [c] = ds @ rest" using assms(2) by (simp add: clean_step_def)
    then show ?thesis using assms(3) by (cases rest rule: rev_cases) auto
  qed
qed

lemma Dir_within:
  assumes "is_rooted p" "comps p = ds @ rest" "rest \<noteq> []"
  shows "within_dir ds (filepath_Dir p)"
proof -
  let ?tail = "takeWhile (\<lambda>ch. ch \<noteq> CHR ''/'') (rev p)"
  define q where "q = take (length p - length ?tail) p"
  have p: "p = q @ rev ?tail"
  proof -
    have "rev p = ?tail @ dropWhile (\<lambda>ch. ch \<noteq> CHR ''/'') (rev p)" by simp
    then have r: "p = rev (dropWhile (\<lambda>ch. ch \<noteq> CHR ''/'') (rev p)) @ rev ?tail" by (metis rev_append rev_rev_ident)
    then have "q = rev (dropWhile (\<lambda>ch. ch \<noteq> CHR ''/'') (rev p))"
      unfolding q_def by (metis add_diff_cancel_right' append_eq_conv_conj length_append length_rev)
    then show ?thesis using r by simp
  qed
  have no: "CHR ''/'' \<notin> set (rev ?tail)" by (auto dest: set_takeWhileD)
  have "CHR ''/'' \<in> set p" using assms(1) by (auto simp: is_rooted_def HasPrefix_iff)
  then have "dropWhile (\<lambda>ch. ch \<noteq> CHR ''/'') (rev p) \<noteq> []" by (auto simp: dropWhile_eq_Nil_conv)
  then obtain q' where q: "q = q' @ ''/''"
  proof -
    assume a: "\<And>q'. q = q' @ ''/'' \<Longrightarrow> thesis" and ne: "dropWhile (\<lambda>ch. ch \<noteq> CHR ''/'') (rev p) \<noteq> []"
    have "q = rev (dropWhile (\<lambda>ch. ch \<noteq> CHR ''/'') (rev p))"
      using p by (metis (no_types, lifting) append_same_eq rev_append rev_rev_ident takeWhile_dropWhile_id)
    moreover have "hd (dropWhile (\<lambda>ch. ch \<noteq> CHR ''/'') (rev p)) = CHR ''/''" using hd_dropWhile [OF ne] by simp
    ultimately show thesis using a ne by (cases "dropWhile (\<lambda>ch. ch \<noteq> CHR ''/'') (rev p)") auto
  qed
  have rq: "is_rooted q" using assms(1) p q by (cases q') (auto simp: is_rooted_def HasPrefix_iff)
  have sp: "split_char CHR ''/'' p = split_char CHR ''/'' q' @ [rev ?tail]"
    using split_char_app [of "CHR ''/''" q' "rev ?tail"] split_char_single [OF no] p q by simp
  have sq: "split_char CHR ''/'' q = split_char CHR ''/'' q' @ [[]]" using split_char_app [of "CHR ''/''" q' "[]"] q by simp
  let ?st = "fold (clean_step True) (split_char CHR ''/'' q') []"
  have "comps q = rev ?st" using rq sq by (simp add: comps_def clean_comps_def clean_step_def)
  moreover have "comps p = rev (clean_step True (rev ?tail) ?st)" using assms(1) sp by (simp add: comps_def clean_comps_def)
  moreover have "\<forall>x\<in>set ?st. normal_comp x" using comps_normal [OF rq] \<open>comps q = rev ?st\<close> by simp
  ultimately obtain rest' where "comps q = ds @ rest'" using clean_step_last [of ?st "rev ?tail" ds rest] assms(2,3) by auto
  moreover have "filepath_Dir p = Clean q" by (simp add: filepath_Dir_def q_def Let_def)
  ultimately show ?thesis using comps_Clean [OF rq] comps_normal [OF rq] by (auto simp: within_dir_def)
qed

lemma comps_session_dir:
  assumes "is_rooted root" "normal_comp sid"
  shows "comps (Join [root, sid]) = comps root @ [sid]" "is_rooted (Join [root, sid])"
proof -
  have sid: "split_char CHR ''/'' sid = [sid]" using assms(2) split_char_single by (auto simp: normal_comp_def)
  show "comps (Join [root, sid]) = comps root @ [sid]" using comps_mount [OF assms(1), of sid] assms(2) by (simp add: sid)
  obtain r where "root = CHR ''/'' # r" using assms(1) by (auto simp: is_rooted_def HasPrefix_iff)
  moreover have "sid \<noteq> []" using assms(2) by (simp add: normal_comp_def)
  ultimately show "is_rooted (Join [root, sid])" by (simp add: Join_def Let_def Clean_def is_rooted_def)
qed

lemma ask_host_log: "snd (ask_host f a l) = l @ [a]"
  by (simp add: ask_host_def)

lemma wrap_host_log: "snd (wrap_host m f l) = snd (f l)"
  by (auto simp: wrap_host_def catchE_def throwE_def split: prod.splits sum.splits)

lemma bind_log:
  assumes "snd (f l) = l @ xs" "\<And>a l'. \<exists>ys. snd (k a l') = l' @ ys \<and> (\<forall>y\<in>set ys. P y)" "\<forall>x\<in>set xs. P x"
  shows "\<exists>zs. snd (bindE f k l) = l @ zs \<and> (\<forall>z\<in>set zs. P z)"
proof (cases "f l")
  case (Pair r l')
  then have l': "l' = l @ xs" using assms(1) by simp
  show ?thesis
  proof (cases r)
    case (Inl err)
    then show ?thesis using Pair l' assms(3) by (simp add: bindE_def)
  next
    case (Inr a)
    then show ?thesis using Pair l' assms(2) [of a l'] assms(3) by (auto simp: bindE_def)
  qed
qed

lemma WriteFile_inside:
  assumes "is_rooted (sx_Workdir s)" "comps (sx_Workdir s) \<noteq> []"
  shows "\<exists>acts. snd (WriteFile H s path content l) = l @ acts \<and> (\<forall>a\<in>set acts. action_inside (comps (sx_Workdir s)) a)"
proof (cases "\<not> sx_Closed s \<and> (\<exists>r. WriteFile_target (sx_Workdir s) path = Inr r)")
  case True
  then obtain r where r: "WriteFile_target (sx_Workdir s) path = Inr r" "\<not> sx_Closed s" by blast
  from sandbox_write_stays_inside [OF r(1) assms] obtain rest where
    rest: "rest \<noteq> []" "comps r = comps (sx_Workdir s) @ rest" "\<forall>c\<in>set rest. normal_comp c" by blast
  have "HasPrefix (Clean r) (Clean (sx_Workdir s) @ ''/'')"
    using r(1) by (auto simp: WriteFile_target_def Let_def split: if_splits)
  then have "is_rooted r" using assms(1) by (rule inside_rooted)
  then have dir: "within_dir (comps (sx_Workdir s)) (filepath_Dir r)" using rest by (intro Dir_within)
  have w: "action_inside (comps (sx_Workdir s)) (Wrote r content)" using rest by (auto simp: within_dir_def)
  show ?thesis unfolding WriteFile_def using r
    by (simp, intro bind_log [where xs = "[MadeDir (filepath_Dir r)]"]) (use dir w in \<open>auto simp: wrap_host_log ask_host_log\<close>)
next
  case False
  then have "snd (WriteFile H s path content l) = l" by (auto simp: WriteFile_def throwE_def split: sum.splits)
  then show ?thesis by simp
qed

lemma sandbox_step_inside:
  assumes "is_rooted (sx_Workdir s)" "comps (sx_Workdir s) \<noteq> []" "sandbox_step H op (s, l) = (s', l')"
  shows "sx_Workdir s' = sx_Workdir s \<and> (\<exists>acts. l' = l @ acts \<and> (\<forall>a\<in>set acts. action_inside (comps (sx_Workdir s)) a))"
proof (cases op)
  case (OpExec cmd)
  then show ?thesis using assms(3) by (auto simp: Exec_def Let_def split: if_splits)
next
  case (OpWrite path content)
  then show ?thesis using assms(3) WriteFile_inside [OF assms(1,2), of H path content l] by auto
qed (use assms(3) in \<open>auto simp: SetEnv_def Close_def\<close>)

lemma sandbox_run_inside:
  assumes "is_rooted (sx_Workdir s)" "comps (sx_Workdir s) \<noteq> []" "sandbox_run H ops (s, l) = (s', l')"
  shows "\<exists>acts. l' = l @ acts \<and> (\<forall>a\<in>set acts. action_inside (comps (sx_Workdir s)) a)"
  using assms
proof (induction ops arbitrary: s l)
  case (Cons op ops)
  obtain s1 l1 where st: "sandbox_step H op (s, l) = (s1, l1)" by (cases "sandbox_step H op (s, l)")
  note one = sandbox_step_inside [OF Cons.prems(1,2) st]
  have "sandbox_run H ops (s1, l1) = (s', l')" using Cons.prems(3) st by (simp add: sandbox_run_def)
  then show ?case using Cons.IH [of s1 l1] one Cons.prems(1,2) by (auto simp: ball_Un)
qed (simp add: sandbox_run_def)


section \<open>The environment of commands\<close>

lemma injected_env:
  assumes "url \<noteq> []" "sh_WithUser H url sid = Some u" "k \<in> set proxy_vars"
  shows "sx_Env (injectVaultProxy H url ca sid s) k = Some u"
  using assms by (auto simp: injectVaultProxy_def Let_def SetEnv_def proxy_vars_def ca_vars_def)

text \<open>Operations that leave some variables alone, as the tools and the harness do.\<close>

fun spares :: "string set \<Rightarrow> sandbox_op \<Rightarrow> bool" where
  "spares ks (OpExec cmd) \<longleftrightarrow> dom (cm_Env cmd) \<inter> ks = {}"
| "spares ks (OpSetEnv k v) \<longleftrightarrow> k \<notin> ks"
| "spares ks _ \<longleftrightarrow> True"

fun runs_with :: "string \<Rightarrow> string \<Rightarrow> host_action \<Rightarrow> bool" where
  "runs_with k v (Ran p) \<longleftrightarrow> pc_Env p k = Some v"
| "runs_with k v _ \<longleftrightarrow> True"

lemma WriteFile_runs: "\<exists>acts. snd (WriteFile H s path content l) = l @ acts \<and> (\<forall>a\<in>set acts. runs_with k v a)"
proof (cases "WriteFile_target (sx_Workdir s) path")
  case (Inr r)
  show ?thesis
  proof (cases "sx_Closed s")
    case False
    then show ?thesis unfolding WriteFile_def using Inr
      by (simp, intro bind_log [where xs = "[MadeDir (filepath_Dir r)]"]) (auto simp: wrap_host_log ask_host_log)
  qed (simp add: WriteFile_def throwE_def)
qed (simp add: WriteFile_def throwE_def)

lemma sandbox_run_env:
  assumes "list_all (spares {k}) ops" "sx_Env s k = Some v" "sandbox_run H ops (s, l) = (s', l')"
  shows "\<exists>acts. l' = l @ acts \<and> (\<forall>a\<in>set acts. runs_with k v a)"
  using assms
proof (induction ops arbitrary: s l)
  case (Cons op ops)
  obtain s1 l1 where st: "sandbox_step H op (s, l) = (s1, l1)" by (cases "sandbox_step H op (s, l)")
  have "sx_Env s1 k = Some v \<and> (\<exists>acts. l1 = l @ acts \<and> (\<forall>a\<in>set acts. runs_with k v a))"
  proof (cases op)
    case (OpExec cmd)
    then have "cm_Env cmd k = None" using Cons.prems(1) by (auto simp: dom_def)
    then show ?thesis using OpExec st Cons.prems(2)
      by (auto simp: Exec_def Let_def command_process_def command_env_def map_add_def split: if_splits)
  next
    case (OpWrite path content)
    then show ?thesis using st Cons.prems(2) WriteFile_runs [of H s path content l k v] by auto
  qed (use st Cons.prems in \<open>auto simp: SetEnv_def Close_def\<close>)
  moreover have "sandbox_run H ops (s1, l1) = (s', l')" using Cons.prems(3) st by (simp add: sandbox_run_def)
  ultimately show ?case using Cons.IH [of s1 l1] Cons.prems(1) by auto
qed (simp add: sandbox_run_def)

text \<open>With a vault proxy configured, every command of the sandbox runs with the proxy as its HTTP and HTTPS
proxy, under the user name of its session, unless the command sets the variable itself.\<close>

theorem commands_use_the_vault_proxy:
  assumes "Provision H p sid l = (Inr s, l1)" "url \<noteq> []" "sh_WithUser H url sid = Some u" "k \<in> set proxy_vars"
    and "list_all (spares {k}) ops" "sandbox_run H ops (injectVaultProxy H url ca sid s, l1) = (s2, l2)"
  shows "\<exists>acts. l2 = l1 @ acts \<and> (\<forall>a\<in>set acts. runs_with k u a)"
  using sandbox_run_env [OF assms(5) injected_env [OF assms(2-4)] assms(6)] .

text \<open>A command sees every variable of the daemon's own environment that is not set for the sandbox or the
command, among them the root secret of the vault and the key of the model provider.\<close>

theorem commands_see_the_daemons_secrets:
  assumes "host_environ H k = Some v" "k \<notin> dom (sx_Env s)" "k \<notin> dom (cm_Env cmd)" "\<not> sx_Closed s" "cm_Args cmd \<noteq> []"
  shows "\<exists>r q. Exec H s cmd l = (Inr r, l @ [Ran q]) \<and> pc_Env q k = Some v"
proof -
  have "sx_Env s k = None" "cm_Env cmd k = None" using assms(2,3) by (auto simp: dom_def)
  then have "pc_Env (command_process H s cmd) k = Some v"
    using assms(1) by (simp add: command_process_def command_env_def map_add_def)
  then show ?thesis using assms(4,5) by (auto simp: Exec_def Let_def)
qed

section \<open>Examples\<close>

definition demo_host :: sandbox_host where
  "demo_host = \<lparr>sh_Environ = [''HOME=/root'', ''PLATFORM_ROOT_SECRET=s3''], sh_MkdirAll = (\<lambda>_ _. None), sh_WriteFile = (\<lambda>_ _ _. None),
     sh_RemoveAll = (\<lambda>_ _. None), sh_Run = (\<lambda>_ _. Exited 0 [] []), sh_WithUser = (\<lambda>u sid. Some (''http://'' @ sid @ '':x@proxy''))\<rparr>"

definition env_command :: command where
  "env_command = \<lparr>cm_Args = [''bash'', ''-c'', ''env''], cm_Stdin = None, cm_Env = Map.empty, cm_Workdir = [], cm_Timeout = 0\<rparr>"

definition demo_sandbox :: subprocess_sandbox where
  "demo_sandbox = \<lparr>sx_SessionID = ''s1'', sx_Workdir = ''/d/s1'', sx_Env = [''JE_SESSION_ID'' \<mapsto> ''s1''], sx_Closed = False\<rparr>"

lemma demo_provisioned:
  "Provision demo_host (NewLocalSubprocessProvider ''/d'') ''s1'' [] = (Inr demo_sandbox, [MadeDir ''/d/s1''])"
proof -
  have "Join [''/d'', ''s1''] = ''/d/s1''" by code_simp
  then show ?thesis
    by (simp add: Provision_def NewLocalSubprocessProvider_def demo_sandbox_def bindE_def wrap_host_def catchE_def
        ask_host_def demo_host_def returnE_def Let_def)
qed


lemma commands_use_the_vault_proxy_witness:
  "list_all (runs_with ''HTTPS_PROXY'' ''http://s1:x@proxy'')
     (snd (sandbox_run demo_host [OpExec env_command] (injectVaultProxy demo_host ''http://proxy'' [] ''s1'' demo_sandbox, [MadeDir ''/d/s1''])))"
proof -
  have u: "sh_WithUser demo_host ''http://proxy'' ''s1'' = Some ''http://s1:x@proxy''" by (simp add: demo_host_def)
  have "list_all (spares {''HTTPS_PROXY''}) [OpExec env_command]" by (simp add: env_command_def)
  from commands_use_the_vault_proxy [where ca = "[]", OF demo_provisioned _ u _ this prod.collapse [symmetric]]
  obtain acts where "snd (sandbox_run demo_host [OpExec env_command] (injectVaultProxy demo_host ''http://proxy'' [] ''s1'' demo_sandbox, [MadeDir ''/d/s1'']))
      = [MadeDir ''/d/s1''] @ acts" "\<forall>a\<in>set acts. runs_with ''HTTPS_PROXY'' ''http://s1:x@proxy'' a" by (auto simp: proxy_vars_def)
  then show ?thesis by (simp add: list_all_iff)
qed

lemma commands_see_the_daemons_secrets_witness:
  "\<exists>r q. Exec demo_host demo_sandbox env_command [] = (Inr r, [Ran q]) \<and> pc_Env q ''PLATFORM_ROOT_SECRET'' = Some ''s3''"
proof -
  have "host_environ demo_host ''PLATFORM_ROOT_SECRET'' = Some ''s3''" by (simp add: host_environ_def demo_host_def environ_entry_def)
  then show ?thesis
    using commands_see_the_daemons_secrets [of demo_host "''PLATFORM_ROOT_SECRET''" "''s3''" demo_sandbox env_command "[]"]
    by (simp add: demo_sandbox_def env_command_def)
qed

end
