(* ===== verification/ToolDefs.thy ===== *)
theory ToolDefs
  imports Tools
begin

text \<open>
  The registry of the built-in tools and what each tool announces to the model: its name, its
  description and the schema of its input (\<open>internal/tool/tool.go\<close>, \<open>bash.go\<close>, \<open>file_tools.go\<close>).
  An input that conforms to the announced schema is one the tool runs a command for.
\<close>

section \<open>Schemas\<close>

definition described :: "string \<Rightarrow> string \<Rightarrow> json" where
  "described ty d = JObj [(''type'', JStr ty), (''description'', JStr d)]"

definition undescribed :: "string \<Rightarrow> json" where
  "undescribed ty = JObj [(''type'', JStr ty)]"

definition object_schema :: "(string \<times> json) list \<Rightarrow> string list \<Rightarrow> raw" where
  "object_schema props required =
     Some (JObj [(''type'', JStr ''object''), (''properties'', JObj props), (''required'', JArr (map JStr required))])"

section \<open>What the tools announce\<close>

definition bash_def :: tool_def where
  "bash_def = \<lparr>td_Name = ''bash'',
     td_Description = ''Execute a shell command in the sandbox. Returns stdout, stderr, and exit code.'',
     td_InputSchema = object_schema
       [(''command'', described ''string'' ''The shell command to execute''),
        (''timeout'', described ''integer'' ''Timeout in milliseconds (default 60000)'')] [''command'']\<rparr>"

definition read_def :: tool_def where
  "read_def = \<lparr>td_Name = ''read'',
     td_Description = ''Read a file from the sandbox filesystem. Returns the file content. '' @
       ''Optional offset and limit for partial reads of large files.'',
     td_InputSchema = object_schema
       [(''path'', described ''string'' ''Absolute path or relative to workdir''),
        (''offset'', described ''integer'' ''Line offset (1-based)''),
        (''limit'', described ''integer'' ''Max lines to read'')] [''path'']\<rparr>"

definition write_def :: tool_def where
  "write_def = \<lparr>td_Name = ''write'',
     td_Description = ''Write (or overwrite) a file in the sandbox. Creates parent dirs.'',
     td_InputSchema = object_schema
       [(''path'', undescribed ''string''), (''content'', undescribed ''string'')] [''path'', ''content'']\<rparr>"

definition edit_def :: tool_def where
  "edit_def = \<lparr>td_Name = ''edit'',
     td_Description = ''Perform an exact string replacement in a file. old_string must be unique in the file.'',
     td_InputSchema = object_schema
       [(''path'', undescribed ''string''), (''old_string'', undescribed ''string''), (''new_string'', undescribed ''string'')]
       [''path'', ''old_string'', ''new_string'']\<rparr>"

definition glob_def :: tool_def where
  "glob_def = \<lparr>td_Name = ''glob'',
     td_Description = ''Find files matching a glob pattern. Supports ** for recursive matching.'',
     td_InputSchema = object_schema [(''pattern'', described ''string'' ''Glob pattern, e.g. **/*.go'')] [''pattern'']\<rparr>"

definition grep_def :: tool_def where
  "grep_def = \<lparr>td_Name = ''grep'',
     td_Description = ''Search file contents using a regex pattern. Returns matching lines with file:line prefix.'',
     td_InputSchema = object_schema
       [(''pattern'', undescribed ''string''), (''path'', described ''string'' ''Directory or file to search; default .''),
        (''glob'', described ''string'' ''Filename pattern filter, e.g. *.go'')] [''pattern'']\<rparr>"

section \<open>The registry\<close>

record tool =
  to_Def :: tool_def
  to_Execute :: "nat \<Rightarrow> raw \<Rightarrow> gerr + result"

type_synonym registry_map = "string \<rightharpoonup> tool"

definition NewRegistry :: registry_map where
  "NewRegistry = Map.empty"

definition Register :: "tool \<Rightarrow> registry_map \<Rightarrow> registry_map" where
  "Register t r = r(td_Name (to_Def t) \<mapsto> t)"

definition Get :: "registry_map \<Rightarrow> string \<Rightarrow> tool option" where
  "Get r name = r name"

text \<open>A loop over the registry visits its tools in an order that is not specified: it is a parameter.\<close>

definition BuiltinDefs :: "registry_map \<Rightarrow> string list \<Rightarrow> tool_def list" where
  "BuiltinDefs r order = List.map_filter (\<lambda>name. map_option to_Def (r name)) order"

definition visits :: "registry_map \<Rightarrow> string list \<Rightarrow> bool" where
  "visits r order \<longleftrightarrow> distinct order \<and> set order = dom r"

text \<open>The registry \<open>jed\<close> sets up.\<close>

definition jed_tools :: "sandbox \<Rightarrow> tool list" where
  "jed_tools sb =
     [\<lparr>to_Def = bash_def, to_Execute = BashTool sb\<rparr>, \<lparr>to_Def = read_def, to_Execute = ReadTool sb\<rparr>,
      \<lparr>to_Def = write_def, to_Execute = WriteTool sb\<rparr>, \<lparr>to_Def = edit_def, to_Execute = EditTool sb\<rparr>,
      \<lparr>to_Def = glob_def, to_Execute = GlobTool sb\<rparr>, \<lparr>to_Def = grep_def, to_Execute = GrepTool sb\<rparr>]"

definition jed_registry :: "sandbox \<Rightarrow> registry_map" where
  "jed_registry sb = fold Register (jed_tools sb) NewRegistry"

lemmas tool_defs = bash_def_def read_def_def write_def_def edit_def_def glob_def_def grep_def_def

lemma jed_registry_registry: "map_option to_Execute (Get (jed_registry sb) name) = registry sb name"
  by (simp add: jed_registry_def jed_tools_def Register_def NewRegistry_def registry_def Get_def tool_defs)

lemma jed_registry_tool: "jed_registry sb name = Some t \<Longrightarrow> t \<in> set (jed_tools sb) \<and> name = td_Name (to_Def t)"
  by (auto simp: jed_registry_def jed_tools_def Register_def NewRegistry_def tool_defs split: if_splits)

section \<open>Inputs that conform to a schema\<close>

text \<open>Of the kinds the schemas use: every member is declared and of its type, and the required ones are there.\<close>

definition has_type :: "json \<Rightarrow> json \<Rightarrow> bool" where
  "has_type ty v \<longleftrightarrow> (ty = JStr ''string'' \<and> (\<exists>s. v = JStr s)) \<or> (ty = JStr ''integer'' \<and> (\<exists>i. v = jint i \<and> int64_range i))"

definition member_of :: "string \<Rightarrow> json \<Rightarrow> json" where
  "member_of k v = (case v of JObj kvs \<Rightarrow> (case map_of kvs k of Some x \<Rightarrow> x | None \<Rightarrow> JNull) | _ \<Rightarrow> JNull)"

definition conforms :: "raw \<Rightarrow> (string \<times> json) list \<Rightarrow> bool" where
  "conforms schema kvs \<longleftrightarrow> (case schema of None \<Rightarrow> False | Some s \<Rightarrow>
     (\<forall>kv\<in>set kvs. has_type (member_of ''type'' (member_of (fst kv) (member_of ''properties'' s))) (snd kv))
     \<and> (case member_of ''required'' s of JArr ks \<Rightarrow> \<forall>k\<in>set ks. \<exists>kv\<in>set kvs. k = JStr (fst kv) | _ \<Rightarrow> False))"

text \<open>No text is empty.\<close>

definition filled :: "(string \<times> json) list \<Rightarrow> bool" where
  "filled kvs \<longleftrightarrow> (\<forall>kv\<in>set kvs. snd kv \<noteq> JStr [])"

text \<open>A tool's answer that is the outcome of one command.\<close>

definition runs_command :: "sandbox \<Rightarrow> nat \<Rightarrow> gerr + result \<Rightarrow> bool" where
  "runs_command sb n r \<longleftrightarrow> (\<exists>args timeout k. r = run_args sb n args timeout k)"

section \<open>Decoding them\<close>

lemma dec_members_ok:
  "(\<And>kv r. kv \<in> set kvs \<Longrightarrow> \<not> snd (dec_member fs kv r)) \<Longrightarrow> snd (dec_members fs kvs r) = False"
  by (induction kvs arbitrary: r) (simp_all add: Let_def split_beta)

lemma runs_commandI [simp]: "runs_command sb n (run_args sb n args timeout k)" "runs_command sb n (run_bash sb n cmd k)"
  by (auto simp: runs_command_def run_bash_def)

lemma dec_members_keeps:
  "(\<And>kv r. kv \<in> set kvs \<Longrightarrow> P r \<Longrightarrow> P (fst (dec_member fs kv r))) \<Longrightarrow> P r \<Longrightarrow> P (fst (dec_members fs kvs r))"
  by (induction kvs arbitrary: r) (simp_all add: Let_def split_beta)

lemma dec_members_sets:
  assumes "kv \<in> set kvs" "\<And>r. P (fst (dec_member fs kv r))"
    and "\<And>kv r. kv \<in> set kvs \<Longrightarrow> P r \<Longrightarrow> P (fst (dec_member fs kv r))"
  shows "P (fst (dec_members fs kvs r))"
  using assms
proof (induction kvs arbitrary: r)
  case (Cons kv' kvs)
  show ?case
  proof (cases "kv = kv'")
    case True
    then show ?thesis using dec_members_keeps [of kvs P fs "fst (dec_member fs kv' r)"] Cons.prems(2,3)
      by (simp add: Let_def split_beta)
  next
    case False
    then show ?thesis using Cons by (simp add: Let_def split_beta)
  qed
qed simp

lemma unmarshal_members: "unmarshal (dec_struct fs) z (Some (JObj kvs)) = dec_members fs kvs z"
  by (simp add: unmarshal_def dec_struct_def)

lemma decoded:
  assumes "P (fst (dec_members fs kvs z))" "\<And>kv r. kv \<in> set kvs \<Longrightarrow> \<not> snd (dec_member fs kv r)"
  obtains i where "dec_members fs kvs z = (i, False)" "P i"
  using assms(1) dec_members_ok [of kvs fs z] assms(2) by (cases "dec_members fs kvs z") auto

text \<open>Members of a declared type; what the two kinds of schema fields declare.\<close>

definition text_member :: "string \<Rightarrow> string \<times> json \<Rightarrow> bool" where
  "text_member k kv \<longleftrightarrow> (\<exists>s. kv = (k, JStr s) \<and> s \<noteq> [])"

definition int_member :: "string \<Rightarrow> string \<times> json \<Rightarrow> bool" where
  "int_member k kv \<longleftrightarrow> (\<exists>i. kv = (k, jint i) \<and> int64_range i)"

lemma kinds [simp]:
  "member_of ''type'' (described ty d) = JStr ty" "member_of ''type'' (undescribed ty) = JStr ty" "member_of ''type'' JNull = JNull"
  by (simp_all add: member_of_def described_def undescribed_def)

lemma conforms_object:
  assumes "conforms (object_schema props required) kvs"
  shows "kv \<in> set kvs \<Longrightarrow> has_type (member_of ''type'' (case map_of props (fst kv) of Some x \<Rightarrow> x | None \<Rightarrow> JNull)) (snd kv)"
    "k \<in> set required \<Longrightarrow> \<exists>kv\<in>set kvs. fst kv = k"
  using assms by (fastforce simp: conforms_def object_schema_def member_of_def)+

lemma conforms_members:
  assumes "conforms (object_schema props required) kvs" "filled kvs" "kv \<in> set kvs"
  shows "\<exists>(k, ty)\<in>set props. if member_of ''type'' ty = JStr ''integer'' then int_member k kv else text_member k kv"
proof -
  obtain k v where kv: "kv = (k, v)" by (cases kv)
  then have h: "has_type (member_of ''type'' (case map_of props k of Some x \<Rightarrow> x | None \<Rightarrow> JNull)) v"
    using conforms_object(1) [OF assms(1,3)] by simp
  then obtain ty where ty: "map_of props k = Some ty" by (cases "map_of props k") (simp_all add: has_type_def)
  have "v \<noteq> JStr []" using assms(2,3) by (auto simp: filled_def kv)
  then have "if member_of ''type'' ty = JStr ''integer'' then int_member k kv else text_member k kv"
    using h by (auto simp: ty kv has_type_def text_member_def int_member_def)
  then show ?thesis using map_of_SomeD [OF ty] by (intro bexI [of _ "(k, ty)"]) simp_all
qed

lemma required_set:
  assumes "conforms (object_schema props required) kvs" "filled kvs"
    and "k \<in> set required" "map_of props k = Some ty" "member_of ''type'' ty \<noteq> JStr ''integer''"
    and "\<And>s r. s \<noteq> [] \<Longrightarrow> P (fst (dec_member fs (k, JStr s) r))"
    and "\<And>kv r. kv \<in> set kvs \<Longrightarrow> P r \<Longrightarrow> P (fst (dec_member fs kv r))"
  shows "P (fst (dec_members fs kvs r))"
proof -
  obtain v where v: "(k, v) \<in> set kvs" using conforms_object(2) [OF assms(1,3)] by auto
  then have "has_type (member_of ''type'' ty) v" using conforms_object(1) [OF assms(1) v] assms(4) by simp
  then obtain s where "v = JStr s" using assms(5) by (auto simp: has_type_def)
  moreover from this have "s \<noteq> []" using assms(2) v by (auto simp: filled_def)
  ultimately show ?thesis using dec_members_sets [of "(k, v)" kvs P fs r] v assms(6,7) by simp
qed

lemmas member_defs = text_member_def int_member_def

lemma bash_runs:
  assumes "conforms (td_InputSchema bash_def) kvs" "filled kvs"
  shows "runs_command sb n (BashTool sb n (Some (JObj kvs)))"
proof -
  let ?fs = "[fld ''command'' bi_Command bi_Command_update dec_str, fld ''timeout'' bi_Timeout bi_Timeout_update dec_int64]"
  note c = assms(1) [unfolded bash_def_def tool_def.simps]
  have m: "text_member ''command'' kv \<or> int_member ''timeout'' kv" if "kv \<in> set kvs" for kv
    using conforms_members [OF c assms(2) that] by auto
  have step: "\<not> snd (dec_member ?fs kv r) \<and> (bi_Command r \<noteq> [] \<longrightarrow> bi_Command (fst (dec_member ?fs kv r)) \<noteq> [])" if "kv \<in> set kvs" for kv r
    using m [OF that] by (elim disjE) (auto simp: json_simps member_defs)
  have "bi_Command (fst (dec_members ?fs kvs \<lparr>bi_Command = [], bi_Timeout = 0\<rparr>)) \<noteq> []"
    by (rule required_set [OF c assms(2), of "''command''"], simp, simp, simp, simp add: json_simps, use step in blast)
  then obtain i where "dec_members ?fs kvs \<lparr>bi_Command = [], bi_Timeout = 0\<rparr> = (i, False)" "bi_Command i \<noteq> []"
    by (rule decoded) (use step in blast)
  then show ?thesis by (simp add: BashTool_def dec_bash_def unmarshal_members)
qed

lemma read_runs:
  assumes "conforms (td_InputSchema read_def) kvs" "filled kvs"
  shows "runs_command sb n (ReadTool sb n (Some (JObj kvs)))"
proof -
  let ?fs = "[fld ''path'' ri_Path ri_Path_update dec_str,
     fld ''offset'' ri_Offset ri_Offset_update dec_int64, fld ''limit'' ri_Limit ri_Limit_update dec_int64]"
  note c = assms(1) [unfolded read_def_def tool_def.simps]
  have m: "text_member ''path'' kv \<or> int_member ''offset'' kv \<or> int_member ''limit'' kv" if "kv \<in> set kvs" for kv
    using conforms_members [OF c assms(2) that] by auto
  have step: "\<not> snd (dec_member ?fs kv r) \<and> (ri_Path r \<noteq> [] \<longrightarrow> ri_Path (fst (dec_member ?fs kv r)) \<noteq> [])" if "kv \<in> set kvs" for kv r
    using m [OF that] by (elim disjE) (auto simp: json_simps member_defs)
  have "ri_Path (fst (dec_members ?fs kvs \<lparr>ri_Path = [], ri_Offset = 0, ri_Limit = 0\<rparr>)) \<noteq> []"
    by (rule required_set [OF c assms(2), of "''path''"], simp, simp, simp, simp add: json_simps, use step in blast)
  then obtain i where "dec_members ?fs kvs \<lparr>ri_Path = [], ri_Offset = 0, ri_Limit = 0\<rparr> = (i, False)" "ri_Path i \<noteq> []"
    by (rule decoded) (use step in blast)
  then show ?thesis by (simp add: ReadTool_def dec_read_def unmarshal_members)
qed

lemma write_runs:
  assumes "conforms (td_InputSchema write_def) kvs" "filled kvs"
  shows "runs_command sb n (WriteTool sb n (Some (JObj kvs)))"
proof -
  let ?fs = "[fld ''path'' wi_Path wi_Path_update dec_str, fld ''content'' wi_Content wi_Content_update dec_str]"
  note c = assms(1) [unfolded write_def_def tool_def.simps]
  have m: "text_member ''path'' kv \<or> text_member ''content'' kv" if "kv \<in> set kvs" for kv
    using conforms_members [OF c assms(2) that] by auto
  have step: "\<not> snd (dec_member ?fs kv r) \<and> (wi_Path r \<noteq> [] \<longrightarrow> wi_Path (fst (dec_member ?fs kv r)) \<noteq> [])" if "kv \<in> set kvs" for kv r
    using m [OF that] by (elim disjE) (auto simp: json_simps member_defs)
  have "wi_Path (fst (dec_members ?fs kvs \<lparr>wi_Path = [], wi_Content = []\<rparr>)) \<noteq> []"
    by (rule required_set [OF c assms(2), of "''path''"], simp, simp, simp, simp add: json_simps, use step in blast)
  then obtain i where "dec_members ?fs kvs \<lparr>wi_Path = [], wi_Content = []\<rparr> = (i, False)" "wi_Path i \<noteq> []"
    by (rule decoded) (use step in blast)
  then show ?thesis by (simp add: WriteTool_def dec_write_def unmarshal_members)
qed

lemma edit_runs:
  assumes "conforms (td_InputSchema edit_def) kvs" "filled kvs"
  shows "runs_command sb n (EditTool sb n (Some (JObj kvs)))"
proof -
  let ?fs = "[fld ''path'' ei_Path ei_Path_update dec_str, fld ''old_string'' ei_OldString ei_OldString_update dec_str,
     fld ''new_string'' ei_NewString ei_NewString_update dec_str]"
  note c = assms(1) [unfolded edit_def_def tool_def.simps]
  have m: "text_member ''path'' kv \<or> text_member ''old_string'' kv \<or> text_member ''new_string'' kv" if "kv \<in> set kvs" for kv
    using conforms_members [OF c assms(2) that] by auto
  have each: "\<not> snd (dec_member ?fs (k, JStr x) r)"
      "ei_Path r \<noteq> [] \<Longrightarrow> ei_Path (fst (dec_member ?fs (k, JStr x) r)) \<noteq> []"
      "ei_OldString r \<noteq> [] \<Longrightarrow> ei_OldString (fst (dec_member ?fs (k, JStr x) r)) \<noteq> []"
    if "k = ''path'' \<or> k = ''old_string'' \<or> k = ''new_string''" "x \<noteq> []" for k x r
    using that by (elim disjE; simp add: json_simps)+
  have step: "\<not> snd (dec_member ?fs kv r) \<and> (ei_Path r \<noteq> [] \<longrightarrow> ei_Path (fst (dec_member ?fs kv r)) \<noteq> [])
      \<and> (ei_OldString r \<noteq> [] \<longrightarrow> ei_OldString (fst (dec_member ?fs kv r)) \<noteq> [])" if member: "kv \<in> set kvs" for kv r
  proof -
    obtain k x where "kv = (k, JStr x)" "k = ''path'' \<or> k = ''old_string'' \<or> k = ''new_string''" "x \<noteq> []"
      using m [OF member] unfolding text_member_def by blast
    then show ?thesis using each [of k x r] by simp
  qed
  have "ei_Path (fst (dec_members ?fs kvs \<lparr>ei_Path = [], ei_OldString = [], ei_NewString = []\<rparr>)) \<noteq> []"
    by (rule required_set [OF c assms(2), of "''path''"], simp, simp, simp, simp add: json_simps, use step in blast)
  moreover have "ei_OldString (fst (dec_members ?fs kvs \<lparr>ei_Path = [], ei_OldString = [], ei_NewString = []\<rparr>)) \<noteq> []"
    by (rule required_set [OF c assms(2), of "''old_string''"], simp, simp, simp, simp add: json_simps, use step in blast)
  ultimately have "ei_Path (fst (dec_members ?fs kvs \<lparr>ei_Path = [], ei_OldString = [], ei_NewString = []\<rparr>)) \<noteq> [] \<and> ei_OldString (fst (dec_members ?fs kvs \<lparr>ei_Path = [], ei_OldString = [], ei_NewString = []\<rparr>)) \<noteq> []" ..
  then obtain i where "dec_members ?fs kvs \<lparr>ei_Path = [], ei_OldString = [], ei_NewString = []\<rparr> = (i, False)" "ei_Path i \<noteq> [] \<and> ei_OldString i \<noteq> []"
    by (rule decoded) (use step in blast)
  then show ?thesis by (simp add: EditTool_def dec_edit_def unmarshal_members)
qed

lemma glob_runs:
  assumes "conforms (td_InputSchema glob_def) kvs" "filled kvs"
  shows "runs_command sb n (GlobTool sb n (Some (JObj kvs)))"
proof -
  let ?fs = "[fld ''pattern'' gi_Pattern gi_Pattern_update dec_str]"
  note c = assms(1) [unfolded glob_def_def tool_def.simps]
  have m: "text_member ''pattern'' kv" if "kv \<in> set kvs" for kv
    using conforms_members [OF c assms(2) that] by auto
  have step: "\<not> snd (dec_member ?fs kv r) \<and> (gi_Pattern r \<noteq> [] \<longrightarrow> gi_Pattern (fst (dec_member ?fs kv r)) \<noteq> [])" if "kv \<in> set kvs" for kv r
    using m [OF that] by (auto simp: json_simps member_defs)
  have "gi_Pattern (fst (dec_members ?fs kvs \<lparr>gi_Pattern = []\<rparr>)) \<noteq> []"
    by (rule required_set [OF c assms(2), of "''pattern''"], simp, simp, simp, simp add: json_simps, use step in blast)
  then obtain i where "dec_members ?fs kvs \<lparr>gi_Pattern = []\<rparr> = (i, False)" "gi_Pattern i \<noteq> []"
    by (rule decoded) (use step in blast)
  then show ?thesis by (simp add: GlobTool_def unmarshal_members)
qed

lemma grep_runs:
  assumes "conforms (td_InputSchema grep_def) kvs" "filled kvs"
  shows "runs_command sb n (GrepTool sb n (Some (JObj kvs)))"
proof -
  let ?fs = "[fld ''pattern'' pi_Pattern pi_Pattern_update dec_str, fld ''path'' pi_Path pi_Path_update dec_str,
     fld ''glob'' pi_Glob pi_Glob_update dec_str]"
  note c = assms(1) [unfolded grep_def_def tool_def.simps]
  have m: "text_member ''pattern'' kv \<or> text_member ''path'' kv \<or> text_member ''glob'' kv" if "kv \<in> set kvs" for kv
    using conforms_members [OF c assms(2) that] by auto
  have step: "\<not> snd (dec_member ?fs kv r) \<and> (pi_Pattern r \<noteq> [] \<longrightarrow> pi_Pattern (fst (dec_member ?fs kv r)) \<noteq> [])" if "kv \<in> set kvs" for kv r
    using m [OF that] by (elim disjE) (auto simp: json_simps member_defs)
  have "pi_Pattern (fst (dec_members ?fs kvs \<lparr>pi_Pattern = [], pi_Path = [], pi_Glob = []\<rparr>)) \<noteq> []"
    by (rule required_set [OF c assms(2), of "''pattern''"], simp, simp, simp, simp add: json_simps, use step in blast)
  then obtain i where "dec_members ?fs kvs \<lparr>pi_Pattern = [], pi_Path = [], pi_Glob = []\<rparr> = (i, False)" "pi_Pattern i \<noteq> []"
    by (rule decoded) (use step in blast)
  then show ?thesis by (simp add: GrepTool_def dec_grep_def unmarshal_members)
qed

section \<open>What is announced is executed\<close>

lemma builtin_runs:
  assumes "d \<in> set (BuiltinDefs (jed_registry sb) order)" "conforms (td_InputSchema d) kvs" "filled kvs"
  shows "\<exists>f. registry sb (td_Name d) = Some f \<and> runs_command sb n (f n (Some (JObj kvs)))"
proof -
  obtain t where t: "jed_registry sb (td_Name d) = Some t" "t \<in> set (jed_tools sb)" "to_Def t = d"
    using assms(1) jed_registry_tool [of sb] by (auto simp: BuiltinDefs_def List.map_filter_def)
  have "runs_command sb n (to_Execute t n (Some (JObj kvs)))"
    using t(2) assms(2,3) bash_runs read_runs write_runs edit_runs glob_runs grep_runs
    by (auto simp: jed_tools_def t(3) [symmetric])
  moreover have "registry sb (td_Name d) = Some (to_Execute t)" using jed_registry_registry [of sb "td_Name d"] t(1) by (simp add: Get_def)
  ultimately show ?thesis by blast
qed

end
