(* ===== verification/Startup.thy ===== *)
theory Startup
  imports StoreOpen Recovery Config MockProvider OaiCompat Router Sandbox ToolDefs
begin

text \<open>
  How the daemon starts (\<open>run\<close> and \<open>buildProvider\<close> of \<open>cmd/jed/main.go\<close>): the configuration, the
  recovery of interrupted sessions, the provider, and the harness and the services with what the
  configuration sets. What is not configured (interfaces to servers, sandboxes and libraries) comes in a
  record of parameters; serving is not modelled.
\<close>

section \<open>The provider\<close>

datatype built_provider = BuiltMock MockProvider | BuiltCompat OAICompatProvider | BuiltAnthropic AnthropicProvider

definition buildProvider :: "config \<Rightarrow> gerr + built_provider" where
  "buildProvider c =
     (if cf_LLMProvider c = ''mock'' then Inr (BuiltMock NewMockProvider)
      else if cf_LLMProvider c = ''openai_compat'' then
        (if cf_LLMBaseURL c = [] then Inl (ErrMsg ''JE_LLM_BASE_URL required for openai_compat provider'')
         else Inr (BuiltCompat (NewOAICompat (cf_LLMBaseURL c) (cf_LLMAPIKey c))))
      else if cf_LLMProvider c = ''anthropic'' then Inr (BuiltAnthropic (NewAnthropic (cf_LLMBaseURL c) (cf_LLMAPIKey c) ''anthropic''))
      else if cf_LLMProvider c = ''anthropic_compat'' then
        (if cf_LLMBaseURL c = [] then Inl (ErrMsg ''JE_LLM_BASE_URL required for anthropic_compat provider'')
         else Inr (BuiltAnthropic (NewAnthropic (cf_LLMBaseURL c) (cf_LLMAPIKey c) ''anthropic_compat'')))
      else Inl (ErrMsg (''unknown provider: '' @ cf_LLMProvider c)))"

text \<open>The provider as the harness calls it. The scripted one has no scripts, so only its counter changes.\<close>

definition provider_of :: "http_lib \<Rightarrow> (nat \<Rightarrow> nat \<Rightarrow> bool) \<Rightarrow> built_provider \<Rightarrow> provider" where
  "provider_of L done p n req =
     (case p of
        BuiltMock m \<Rightarrow> fst (mock_Stream (done n) req m)
      | BuiltCompat q \<Rightarrow> oai_Stream L q n req
      | BuiltAnthropic a \<Rightarrow> anthropic_Stream L a n req)"

section \<open>Wiring\<close>

record jed_lib =
  jl_Getenv :: getenv
  jl_Abs :: "string \<Rightarrow> gerr + string"
  jl_Mkdir :: "string \<Rightarrow> gerr option"
  jl_Sql :: sql_lib
  jl_Http :: http_lib
  jl_MockDone :: "nat \<Rightarrow> nat \<Rightarrow> bool"
  jl_Harness :: harness
  jl_Sandbox :: sandbox
  jl_Order :: "string list"
  jl_Deps :: deps
  jl_Vault :: vault_lib
  jl_Webhook :: webhook_svc

definition harness_New :: "jed_lib \<Rightarrow> provider \<Rightarrow> harness" where
  "harness_New L p = (jl_Harness L)\<lparr>h_Provider := p, h_Builtins := BuiltinDefs (jed_registry (jl_Sandbox L)) (jl_Order L),
     h_Execute := (\<lambda>name. map_option to_Execute (Get (jed_registry (jl_Sandbox L)) name)), h_HasMemory := False, h_ResolveToken := None, h_CompactThreshold := 0,
     h_KeepRecent := 0, h_MaxSteps := 20, h_MaxRetries := 2, h_RetryBackoff := 0\<rparr>"

definition wire_sandbox :: "config \<Rightarrow> local_provider" where
  "wire_sandbox c = (NewLocalSubprocessProvider (Join [cf_DataDir c, ''sandboxes'']))\<lparr>lp_KeepWorkdir := cf_SandboxKeepWorkdir c\<rparr>"

text \<open>A \<open>Duration\<close> is 64 bits of nanoseconds.\<close>

definition wire_harness :: "jed_lib \<Rightarrow> config \<Rightarrow> provider \<Rightarrow> harness" where
  "wire_harness L c p = (harness_New L p)\<lparr>h_HasMemory := True, h_ResolveToken := h_ResolveToken (jl_Harness L),
     h_CompactThreshold := cf_CompactThresholdTokens c, h_KeepRecent := cf_KeepRecentTurns c,
     h_MaxRetries := cf_LLMMaxRetries c, h_RetryBackoff := wrap64 (cf_LLMRetryBackoffMS c * 1000000)\<rparr>"

definition wire_deps :: "jed_lib \<Rightarrow> config \<Rightarrow> deps" where
  "wire_deps L c = (jl_Deps L)\<lparr>dp_Memory := True,
     dp_Webhook := Some ((jl_Webhook L)\<lparr>wh_AllowPrivate := cf_WebhookAllowPrivate c\<rparr>),
     dp_Vault := Some (jl_Vault L, NewVaultService (jl_Vault L) (cf_PlatformRootSecret c)),
     dp_Auth := Some (NewAuthService (cf_AuthMode c) (cf_PlatformRootSecret c)),
     dp_Harness := True, dp_AuthMode := cf_AuthMode c, dp_LLMProvider := cf_LLMProvider c,
     dp_DefaultAgentModel := cf_DefaultAgentModel c\<rparr>"

definition jed_start :: "jed_lib \<Rightarrow> env \<Rightarrow> ctx \<Rightarrow> (world, config \<times> harness \<times> deps \<times> local_provider) io" where
  "jed_start L e ctx =
     (case Load (jl_Getenv L) (jl_Abs L) of
        Inl err \<Rightarrow> throwE (Wrap ''config'' err)
      | Inr c \<Rightarrow>
          (case jl_Mkdir L (cf_DataDir c) of
             Some err \<Rightarrow> throwE (Wrap ''mkdir data dir'' err)
           | None \<Rightarrow>
               (case open_error (jl_Sql L) (cf_DatabaseURL c) of
                  Some err \<Rightarrow> throwE (Wrap ''open store'' err)
                | None \<Rightarrow>
                    bindE (recoverInterruptedSessions e ctx) (\<lambda>_.
                      case buildProvider c of
                        Inl err \<Rightarrow> throwE (Wrap ''provider'' err)
                      | Inr p \<Rightarrow> returnE (c, wire_harness L c (provider_of (jl_Http L) (jl_MockDone L) p), wire_deps L c, wire_sandbox c)))))"

text \<open>What becomes of every published event: it is queued for the default tenant, errors are logged.\<close>

definition jed_hook :: "env \<Rightarrow> webhook_svc \<Rightarrow> Event \<Rightarrow> (world, unit) io" where
  "jed_hook e W ev = ignoreE (PublishEvent e Background W ''tnt-default'' ev)"

section \<open>When it starts\<close>

lemma recover_returns: "fst (recoverInterruptedSessions e c w) = Inr ()"
  by (auto simp: recoverInterruptedSessions_def catchE_def returnE_def split: prod.splits sum.splits)

lemma buildProvider_Inr:
  assumes "Validate c = None"
  shows "(\<exists>p. buildProvider c = Inr p) \<longleftrightarrow> (cf_LLMProvider c \<in> {''openai_compat'', ''anthropic_compat''} \<longrightarrow> cf_LLMBaseURL c \<noteq> [])"
  using assms unfolding Validate_None by (elim conjE insertE) (auto simp: buildProvider_def)

lemma jed_start_Inr:
  "fst (jed_start L e ctx w) = Inr r \<longleftrightarrow> (\<exists>c p. r = (c, wire_harness L c (provider_of (jl_Http L) (jl_MockDone L) p), wire_deps L c, wire_sandbox c)
     \<and> Load (jl_Getenv L) (jl_Abs L) = Inr c \<and> jl_Mkdir L (cf_DataDir c) = None \<and> open_error (jl_Sql L) (cf_DatabaseURL c) = None
     \<and> buildProvider c = Inr p)"
proof -
  obtain w' where "recoverInterruptedSessions e ctx w = (Inr (), w')"
    using recover_returns [of e ctx w] by (cases "recoverInterruptedSessions e ctx w") auto
  then show ?thesis
    by (auto simp: jed_start_def bindE_def throwE_def returnE_def split: sum.splits option.splits)
qed

definition data_dir :: "getenv \<Rightarrow> string" where
  "data_dir g = envOr g ''JE_DATA_DIR'' ''./data''"

definition database_url :: "getenv \<Rightarrow> string \<Rightarrow> string" where
  "database_url g dir = (if g ''JE_DATABASE_URL'' = [] then ''sqlite://'' @ Join [dir, ''jadeenvoy.db''] else g ''JE_DATABASE_URL'')"

lemma loaded_fields:
  assumes "Load g f = Inr c"
  shows "cf_LLMProvider c = envOr g ''JE_LLM_PROVIDER'' ''mock''" "cf_LLMBaseURL c = g ''JE_LLM_BASE_URL''"
    "cf_LLMMaxRetries c = envInt g ''JE_LLM_MAX_RETRIES'' 2" "f (data_dir g) = Inr (cf_DataDir c)"
    "cf_DatabaseURL c = database_url g (cf_DataDir c)" "Validate c = None"
proof -
  obtain dir where dir: "f (envOr g ''JE_DATA_DIR'' ''./data'') = Inr dir" "Validate (from_env g) = None"
    "c = (from_env g)\<lparr>cf_DataDir := dir, cf_DatabaseURL := database_url g dir\<rparr>"
    using assms by (auto simp: Load_Inr database_url_def)
  then show "cf_LLMProvider c = envOr g ''JE_LLM_PROVIDER'' ''mock''" "cf_LLMBaseURL c = g ''JE_LLM_BASE_URL''"
    "cf_LLMMaxRetries c = envInt g ''JE_LLM_MAX_RETRIES'' 2" "f (data_dir g) = Inr (cf_DataDir c)"
    "cf_DatabaseURL c = database_url g (cf_DataDir c)" "Validate c = None"
    by (simp_all add: Validate_frame data_dir_def)
qed

lemma Load_loads:
  assumes "Validate (from_env g) = None" "f (data_dir g) = Inr dir"
  shows "\<exists>c. Load g f = Inr c \<and> cf_DataDir c = dir"
proof -
  have "f (envOr g ''JE_DATA_DIR'' ''./data'') = Inr dir" using assms(2) by (simp add: data_dir_def)
  then show ?thesis using assms(1) by (simp add: Load_Inr)
qed

lemma unset_or_known: "(envOr g k def \<in> set ks) = (g k \<in> set ([] # ks))" if "def \<in> set ks" "[] \<notin> set ks"
  using that by (auto simp: envOr_def)

lemma Validate_env: "Validate (from_env g) = None \<longleftrightarrow> g ''JE_AUTH_MODE'' \<in> {[], ''required'', ''optional'', ''bypass''}
     \<and> g ''JE_LLM_PROVIDER'' \<in> {[], ''anthropic'', ''anthropic_compat'', ''openai_compat'', ''mock''}
     \<and> g ''JE_SANDBOX_KIND'' \<in> {[], ''subprocess'', ''docker''}"
  using unset_or_known [of "''bypass''" "[''required'', ''optional'', ''bypass'']" g "''JE_AUTH_MODE''"]
    unset_or_known [of "''mock''" "[''anthropic'', ''anthropic_compat'', ''openai_compat'', ''mock'']" g "''JE_LLM_PROVIDER''"]
    unset_or_known [of "''subprocess''" "[''subprocess'', ''docker'']" g "''JE_SANDBOX_KIND''"]
  unfolding Validate_None from_env_fields by simp

lemma compat_env: "(envOr g ''JE_LLM_PROVIDER'' ''mock'' \<in> {''openai_compat'', ''anthropic_compat''} \<longrightarrow> g ''JE_LLM_BASE_URL'' \<noteq> [])
    \<longleftrightarrow> \<not> (g ''JE_LLM_PROVIDER'' \<in> {''anthropic_compat'', ''openai_compat''} \<and> g ''JE_LLM_BASE_URL'' = [])"
  by (auto simp: envOr_def)

text \<open>C32: The daemon starts exactly if the mode of authentication, the provider and the sandbox are unset or
known, a compatible provider has its address, and the directory and the database can be opened.\<close>

theorem daemon_starts_iff:
  "(\<exists>r. fst (jed_start L e ctx w) = Inr r) =
     (jl_Getenv L ''JE_AUTH_MODE'' \<in> {[], ''required'', ''optional'', ''bypass''}
      \<and> jl_Getenv L ''JE_LLM_PROVIDER'' \<in> {[], ''anthropic'', ''anthropic_compat'', ''openai_compat'', ''mock''}
      \<and> jl_Getenv L ''JE_SANDBOX_KIND'' \<in> {[], ''subprocess'', ''docker''}
      \<and> \<not> (jl_Getenv L ''JE_LLM_PROVIDER'' \<in> {''anthropic_compat'', ''openai_compat''} \<and> jl_Getenv L ''JE_LLM_BASE_URL'' = [])
      \<and> (\<exists>dir. jl_Abs L (data_dir (jl_Getenv L)) = Inr dir \<and> jl_Mkdir L dir = None
           \<and> open_error (jl_Sql L) (database_url (jl_Getenv L) dir) = None))" (is "?l = (?modes \<and> ?prov \<and> ?sb \<and> ?url \<and> ?dir)")
proof -
  let ?g = "jl_Getenv L"
  have built: "(\<exists>q. buildProvider c = Inr q) = ?url" if "Load ?g (jl_Abs L) = Inr c" for c
    unfolding buildProvider_Inr [OF loaded_fields(6) [OF that]] loaded_fields(1,2) [OF that] by (rule compat_env)
  show ?thesis
  proof
    assume ?l
    then obtain c q where c: "Load ?g (jl_Abs L) = Inr c" "jl_Mkdir L (cf_DataDir c) = None" "open_error (jl_Sql L) (cf_DatabaseURL c) = None"
      "buildProvider c = Inr q" by (auto simp: jed_start_Inr)
    have "Validate (from_env ?g) = None" using c(1) unfolding Load_Inr by (elim exE conjE)
    moreover have ?url using built [OF c(1)] c(4) by simp
    moreover have ?dir using c(2,3) loaded_fields(4,5) [OF c(1)] by (intro exI [of _ "cf_DataDir c"]) simp
    ultimately show "?modes \<and> ?prov \<and> ?sb \<and> ?url \<and> ?dir" unfolding Validate_env by simp
  next
    assume r: "?modes \<and> ?prov \<and> ?sb \<and> ?url \<and> ?dir"
    then obtain dir where dir: "jl_Abs L (data_dir ?g) = Inr dir" "jl_Mkdir L dir = None" "open_error (jl_Sql L) (database_url ?g dir) = None" by blast
    have "Validate (from_env ?g) = None" unfolding Validate_env using r by simp
    from Load_loads [where f = "jl_Abs L", OF this dir(1)] obtain c where c: "Load ?g (jl_Abs L) = Inr c" "cf_DataDir c = dir" by blast
    obtain q where q: "buildProvider c = Inr q" using built [OF c(1)] r by simp blast
    have "open_error (jl_Sql L) (cf_DatabaseURL c) = None" using dir(3) loaded_fields(5) [OF c(1)] c(2) by simp
    then show ?l using c q dir(2) by (intro exI) (simp add: jed_start_Inr)
  qed
qed

text \<open>A negative number of retries is accepted, and with it no call ever reaches the model: every call fails
before its first attempt.\<close>

theorem negative_retries_never_call:
  assumes "fst (jed_start L e ctx w) = Inr (c, h, d, p)" "ParseInt (jl_Getenv L ''JE_LLM_MAX_RETRIES'') = Some n" "n < 0"
  shows "callModelWithRetry e' ctx' h sid req w' = (Inl (Wrap (''model call failed after '' @ int_str n @ '' retries'') nil_error), w')"
proof -
  obtain q where l: "Load (jl_Getenv L) (jl_Abs L) = Inr c" "h = wire_harness L c q" using assms(1) by (auto simp: jed_start_Inr)
  have "jl_Getenv L ''JE_LLM_MAX_RETRIES'' \<noteq> []" using assms(2) by (auto simp: ParseInt_def)
  then have "h_MaxRetries h = n" using loaded_fields(3) [OF l(1)] assms(2) by (simp add: l(2) wire_harness_def envInt_def)
  then show ?thesis using assms(3) by (simp add: callModelWithRetry_def throwE_def)
qed


section \<open>Examples\<close>

definition jed_env :: getenv where
  "jed_env k = (if k = ''JE_LLM_MAX_RETRIES'' then ''-1'' else [])"

definition jed_demo :: "deps \<Rightarrow> vault_lib \<Rightarrow> webhook_svc \<Rightarrow> jed_lib" where
  "jed_demo d v s = \<lparr>jl_Getenv = jed_env, jl_Abs = (\<lambda>p. Inr (''/srv/'' @ p)), jl_Mkdir = (\<lambda>_. None), jl_Sql = \<lparr>ql_MkdirAll = (\<lambda>_. None), ql_Open = (\<lambda>_ _. None), ql_Ping = (\<lambda>_. None), ql_Exec = (\<lambda>_ _. None)\<rparr>,
     jl_Http = \<lparr>hl_BadURL = (\<lambda>_. None), hl_Do = (\<lambda>_ _. Inl []), hl_Done = (\<lambda>_ _. False)\<rparr>, jl_MockDone = (\<lambda>_ _. False),
     jl_Harness = plain_harness (\<lambda>_ _. Inr []),
     jl_Sandbox = \<lparr>sb_Exec = (\<lambda>_ _ _. Inl Canceled), sb_JsonErr = (\<lambda>_. [])\<rparr>,
     jl_Order = [''grep'', ''bash'', ''read'', ''write'', ''glob'', ''edit''], jl_Deps = d, jl_Vault = v, jl_Webhook = s\<rparr>"

lemma demo_starts:
  "\<exists>c q. Load jed_env (jl_Abs (jed_demo d v s)) = Inr c \<and>
     fst (jed_start (jed_demo d v s) demo_env Background crashed_world)
       = Inr (c, wire_harness (jed_demo d v s) c q, wire_deps (jed_demo d v s) c, wire_sandbox c)"
proof -
  let ?L = "jed_demo d v s"
  have "Validate (from_env jed_env) = None" by (simp add: Validate_env jed_env_def)
  from Load_loads [where f = "jl_Abs ?L" and dir = "''/srv/./data''", OF this] obtain c where c: "Load jed_env (jl_Abs ?L) = Inr c"
    by (auto simp: jed_demo_def data_dir_def envOr_def jed_env_def)
  have "buildProvider c = Inr (BuiltMock NewMockProvider)"
    using loaded_fields(1) [OF c] by (simp add: buildProvider_def envOr_def jed_env_def)
  moreover have "jl_Getenv ?L = jed_env" "jl_Mkdir ?L = (\<lambda>_. None)" by (simp_all add: jed_demo_def)
  moreover have url: "cf_DatabaseURL c = ''sqlite://'' @ Join [cf_DataDir c, ''jadeenvoy.db'']"
    by (simp add: loaded_fields(5) [OF c] database_url_def jed_env_def)
  moreover have "open_error (jl_Sql ?L) (cf_DatabaseURL c) = None"
    unfolding url by (rule sqlite_opens) (simp_all add: jed_demo_def)
  ultimately have "fst (jed_start ?L demo_env Background crashed_world)
      = Inr (c, wire_harness ?L c (provider_of (jl_Http ?L) (jl_MockDone ?L) (BuiltMock NewMockProvider)), wire_deps ?L c, wire_sandbox c)"
    using c unfolding jed_start_Inr by metis
  then show ?thesis using c by blast
qed

lemma negative_retries_never_call_witness:
  "\<forall>d v s req w'. \<exists>r. fst (jed_start (jed_demo d v s) demo_env Background crashed_world) = Inr r
     \<and> callModelWithRetry demo_env Background (fst (snd r)) ''a'' req w' = (Inl (Wrap ''model call failed after -1 retries'' nil_error), w')"
proof (intro allI)
  fix d v s req w'
  have n: "ParseInt ''-1'' = Some (-1)" "int_str (-1) = ''-1''" by code_simp+
  let ?L = "jed_demo d v s"
  obtain c h d' p where r: "fst (jed_start ?L demo_env Background crashed_world) = Inr (c, h, d', p)" using demo_starts by blast
  have "ParseInt (jl_Getenv ?L ''JE_LLM_MAX_RETRIES'') = Some (-1)" by (simp add: jed_demo_def jed_env_def n)
  from negative_retries_never_call [OF r this] show "\<exists>r. fst (jed_start ?L demo_env Background crashed_world) = Inr r
     \<and> callModelWithRetry demo_env Background (fst (snd r)) ''a'' req w' = (Inl (Wrap ''model call failed after -1 retries'' nil_error), w')"
    using r by (auto simp: n)
qed


end
