(* ===== verification/CliClient.thy ===== *)
theory CliClient
  imports GoAny Anthropic
begin

text \<open>
  The command line client (\<open>cmd/je/main.go\<close>): every command from its arguments to its requests and
  what it prints. The server, the files and the environment are parameters; a run keeps the
  requests sent and what was printed to the standard output.
\<close>

section \<open>State and surroundings\<close>

record cli_request =
  cq_Method :: string
  cq_URL :: string
  cq_Header :: "(string \<times> string) list"
  cq_Body :: "string option"

text \<open>A line of text, a document printed with indentation, the usage, or the version.\<close>

datatype printed = Line string | Indented json | UsageText | VersionText

record cli_state =
  cs_Tick :: nat
  cs_Sent :: "cli_request list"
  cs_Out :: "printed list"

text \<open>
  \<open>ci_Do\<close> answers with the body and the status; \<open>ci_Polls\<close> is how often the clock is found before the deadline
  (at most 300 times, since 400 milliseconds pass between two looks); \<open>ci_Float\<close> is the integer part of
  a number as a \<open>float64\<close>.
\<close>

record cli_lib =
  ci_Getenv :: "string \<Rightarrow> string"
  ci_BadURL :: "string \<Rightarrow> gerr option"
  ci_Do :: "nat \<Rightarrow> cli_request \<Rightarrow> gerr + string \<times> int"
  ci_ReadFile :: "string \<Rightarrow> gerr + string"
  ci_Renum :: renum
  ci_Float :: "string \<Rightarrow> int"
  ci_DecodeErr :: "string \<Rightarrow> string"
  ci_Polls :: nat

definition out :: "printed list \<Rightarrow> (cli_state, unit) io" where
  "out ps s = (Inr (), s\<lparr>cs_Out := cs_Out s @ ps\<rparr>)"

section \<open>The client\<close>

record je_client =
  jc_Base :: string
  jc_Key :: string

definition newClient :: "cli_lib \<Rightarrow> je_client" where
  "newClient L = (let base = ci_Getenv L ''JE_API'' in
     \<lparr>jc_Base = TrimRight (CHR ''/'') (if base = [] then ''http://localhost:8787'' else base), jc_Key = ci_Getenv L ''JE_API_KEY''\<rparr>)"

definition cli_call :: "je_client \<Rightarrow> string \<Rightarrow> string \<Rightarrow> json option \<Rightarrow> cli_request" where
  "cli_call c meth path body =
     \<lparr>cq_Method = meth, cq_URL = jc_Base c @ path,
      cq_Header = (if body \<noteq> None then [(''Content-Type'', ''application/json'')] else [])
        @ (if jc_Key c \<noteq> [] then [(''x-api-key'', jc_Key c)] else []),
      cq_Body = map_option jprint body\<rparr>"

definition cli_do :: "cli_lib \<Rightarrow> je_client \<Rightarrow> string \<Rightarrow> string \<Rightarrow> json option \<Rightarrow> (cli_state, string \<times> int) io" where
  "cli_do L c meth path body s =
     (case ci_BadURL L (jc_Base c @ path) of
        Some err \<Rightarrow> (Inl err, s)
      | None \<Rightarrow> (let q = cli_call c meth path body in
          (ci_Do L (cs_Tick s) q, s\<lparr>cs_Tick := Suc (cs_Tick s), cs_Sent := cs_Sent s @ [q]\<rparr>)))"

text \<open>A document is printed as it comes out of an \<open>any\<close>; what is no document is printed as it is.\<close>

definition printJSON :: "cli_lib \<Rightarrow> string \<Rightarrow> printed" where
  "printJSON L received =
     (case jparse received of
        None \<Rightarrow> Line received
      | Some v \<Rightarrow> (if any_ok (ci_Renum L) v then Indented (any_json (ci_Renum L) v) else Line received))"

definition arrow :: string where
  "arrow = [CHR 0xE2, CHR 0x86, CHR 0x92]"

definition callPrint :: "cli_lib \<Rightarrow> je_client \<Rightarrow> string \<Rightarrow> string \<Rightarrow> json option \<Rightarrow> (cli_state, unit) io" where
  "callPrint L c meth path body =
     bindE (cli_do L c meth path body) (\<lambda>(received, code).
       if code \<ge> 300
       then throwE (ErrMsg (meth @ '' '' @ path @ '' '' @ arrow @ '' '' @ int_str code @ '': '' @ TrimSpace received))
       else out [printJSON L received])"

definition getPrint :: "cli_lib \<Rightarrow> je_client \<Rightarrow> string \<Rightarrow> (cli_state, unit) io" where
  "getPrint L c path = callPrint L c ''GET'' path None"

section \<open>Flags\<close>

text \<open>
  The package \<open>flag\<close>, for flags that take a text: one or two minus signs, the value after an equals sign or
  as the next argument; parsing ends at the first argument that is no flag, and after two minus signs.
  Later values replace earlier ones.
\<close>

definition flag_name :: "string \<Rightarrow> string" where
  "flag_name a = (if HasPrefix a ''--'' then drop 2 a else drop 1 a)"

definition is_flag :: "string \<Rightarrow> bool" where
  "is_flag a \<longleftrightarrow> length a \<ge> 2 \<and> HasPrefix a ''-''"

fun parse_flags :: "(string \<times> string) list \<Rightarrow> string list \<Rightarrow> gerr + (string \<times> string) list" where
  "parse_flags vs [] = Inr vs"
| "parse_flags vs (a # args) =
     (if \<not> is_flag a \<or> a = ''--'' then Inr vs
      else (let n = flag_name a; name = takeWhile (\<lambda>ch. ch \<noteq> CHR ''='') n in
        if n = [] \<or> hd n = CHR ''-'' \<or> hd n = CHR ''='' then Inl (ErrMsg (''bad flag syntax: '' @ a))
        else if map_of vs name = None then
          (if name = ''help'' \<or> name = ''h'' then Inl (ErrMsg ''flag: help requested'')
           else Inl (ErrMsg (''flag provided but not defined: -'' @ name)))
        else if CHR ''='' \<in> set n then parse_flags (AList.update name (drop (length name + 1) n) vs) args
        else (case args of
            [] \<Rightarrow> Inl (ErrMsg (''flag needs an argument: -'' @ name))
          | v # rest \<Rightarrow> parse_flags (AList.update name v vs) rest)))"

definition flag_value :: "(string \<times> string) list \<Rightarrow> string \<Rightarrow> string" where
  "flag_value vs k = (case map_of vs k of Some v \<Rightarrow> v | None \<Rightarrow> [])"

definition with_flags :: "(string \<times> string) list \<Rightarrow> string list \<Rightarrow> ((string \<Rightarrow> string) \<Rightarrow> (cli_state, unit) io) \<Rightarrow> (cli_state, unit) io" where
  "with_flags defaults args f = (case parse_flags defaults args of Inl err \<Rightarrow> throwE err | Inr vs \<Rightarrow> f (flag_value vs))"

section \<open>Agents, vaults and keys\<close>

definition usage_error :: "string \<Rightarrow> (cli_state, unit) io" where
  "usage_error m = throwE (ErrMsg m)"

definition maybeReadFile :: "cli_lib \<Rightarrow> string \<Rightarrow> gerr + string" where
  "maybeReadFile L s =
     (if HasPrefix s ''@''
      then (case ci_ReadFile L (tl s) of Inl err \<Rightarrow> Inl (Wrap ''read system prompt file'' err) | Inr t \<Rightarrow> Inr t)
      else Inr s)"

definition agent_body :: "string \<Rightarrow> string \<Rightarrow> string \<Rightarrow> json" where
  "agent_body name model sys = JObj ([(''model'', JStr model), (''name'', JStr name)] @ (if sys \<noteq> [] then [(''system'', JStr sys)] else []))"

definition je_agents :: "cli_lib \<Rightarrow> je_client \<Rightarrow> string list \<Rightarrow> (cli_state, unit) io" where
  "je_agents L c args =
     (case args of
        [] \<Rightarrow> usage_error ''usage: je agents <list|get|create|delete>''
      | a # rest \<Rightarrow>
          (if a = ''list'' then getPrint L c ''/v1/agents''
           else if a = ''get'' then
             (case rest of [] \<Rightarrow> usage_error ''usage: je agents get <id>'' | i # _ \<Rightarrow> getPrint L c (''/v1/agents/'' @ i))
           else if a = ''delete'' then
             (case rest of [] \<Rightarrow> usage_error ''usage: je agents delete <id>''
              | i # _ \<Rightarrow> callPrint L c ''DELETE'' (''/v1/agents/'' @ i) None)
           else if a = ''create'' then
             with_flags [(''name'', []), (''model'', []), (''system'', [])] rest (\<lambda>v.
               if v ''name'' = [] \<or> v ''model'' = [] then usage_error ''agents create requires --name and --model''
               else (case maybeReadFile L (v ''system'') of
                       Inl err \<Rightarrow> throwE err
                     | Inr sys \<Rightarrow> callPrint L c ''POST'' ''/v1/agents'' (Some (agent_body (v ''name'') (v ''model'') sys))))
           else usage_error (''unknown agents action '' @ goquote a)))"

definition credential_body :: "string \<Rightarrow> string \<Rightarrow> string \<Rightarrow> json" where
  "credential_body name url token = JObj
     [(''auth'', JObj [(''mcp_server_url'', JStr url), (''token'', JStr token), (''type'', JStr ''static_bearer'')]),
      (''display_name'', JStr name)]"

definition je_vaults :: "cli_lib \<Rightarrow> je_client \<Rightarrow> string list \<Rightarrow> (cli_state, unit) io" where
  "je_vaults L c args =
     (case args of
        [] \<Rightarrow> usage_error ''usage: je vaults <list|create|cred-add|cred-list>''
      | a # rest \<Rightarrow>
          (if a = ''list'' then getPrint L c ''/v1/vaults''
           else if a = ''create'' then
             with_flags [(''name'', [])] rest (\<lambda>v.
               if v ''name'' = [] then usage_error ''vaults create requires --name''
               else callPrint L c ''POST'' ''/v1/vaults'' (Some (JObj [(''display_name'', JStr (v ''name''))])))
           else if a = ''cred-list'' then
             (case rest of [] \<Rightarrow> usage_error ''usage: je vaults cred-list <vaultID>''
              | i # _ \<Rightarrow> getPrint L c (''/v1/vaults/'' @ i @ ''/credentials''))
           else if a = ''cred-add'' then
             (case rest of [] \<Rightarrow> usage_error ''usage: je vaults cred-add <vaultID> --url URL --token TOK [--name N]''
              | i # flags \<Rightarrow>
                  with_flags [(''url'', []), (''token'', []), (''name'', ''credential'')] flags (\<lambda>v.
                    if v ''url'' = [] \<or> v ''token'' = [] then usage_error ''cred-add requires --url and --token''
                    else callPrint L c ''POST'' (''/v1/vaults/'' @ i @ ''/credentials'')
                           (Some (credential_body (v ''name'') (v ''url'') (v ''token'')))))
           else usage_error (''unknown vaults action '' @ goquote a)))"

definition je_apikeys :: "cli_lib \<Rightarrow> je_client \<Rightarrow> string list \<Rightarrow> (cli_state, unit) io" where
  "je_apikeys L c args =
     (case args of
        [] \<Rightarrow> usage_error ''usage: je apikeys <list|create>''
      | a # rest \<Rightarrow>
          (if a = ''list'' then getPrint L c ''/admin/api_keys''
           else if a = ''create'' then
             with_flags [(''name'', [])] rest (\<lambda>v.
               callPrint L c ''POST'' ''/admin/api_keys'' (Some (JObj [(''name'', JStr (v ''name''))])))
           else usage_error (''unknown apikeys action '' @ goquote a)))"

section \<open>Events\<close>

type_synonym event_map = "(string \<times> json) list option"

definition ev_get :: "event_map \<Rightarrow> string \<Rightarrow> json option" where
  "ev_get ev k = (case ev of None \<Rightarrow> None | Some kvs \<Rightarrow> any_lookup kvs k)"

definition str_of :: "json option \<Rightarrow> string" where
  "str_of v = (case v of Some (JStr s) \<Rightarrow> s | _ \<Rightarrow> [])"

definition asSlice :: "json option \<Rightarrow> json list" where
  "asSlice v = (case v of Some (JArr vs) \<Rightarrow> vs | _ \<Rightarrow> [])"

definition seqOf :: "cli_lib \<Rightarrow> event_map \<Rightarrow> int" where
  "seqOf L ev = (case ev_get ev ''seq'' of Some (JNum t) \<Rightarrow> ci_Float L t | _ \<Rightarrow> 0)"

definition decode_events :: "cli_lib \<Rightarrow> string \<times> int \<Rightarrow> gerr + event_map list" where
  "decode_events L answer =
     (case answer of (received, code) \<Rightarrow>
        if code \<ge> 300 then Inl (ErrMsg (''list events: '' @ int_str code))
        else (case unmarshal (dec_struct [fld ''data'' (\<lambda>evs. evs) (\<lambda>f evs. f evs) (dec_list None (dec_any_map (ci_Renum L)))]) [] (jparse received) of
                (evs, err) \<Rightarrow> (if err then Inl (ErrMsg (ci_DecodeErr L received)) else Inr (sort_key (seqOf L) evs))))"

definition fetchEvents :: "cli_lib \<Rightarrow> je_client \<Rightarrow> string \<Rightarrow> (cli_state, event_map list) io" where
  "fetchEvents L c sid =
     bindE (cli_do L c ''GET'' (''/v1/sessions/'' @ sid @ ''/events'') None) (\<lambda>answer.
       case decode_events L answer of Inl err \<Rightarrow> throwE err | Inr evs \<Rightarrow> returnE evs)"

text \<open>The largest number of an event; events that cannot be fetched count as none.\<close>

definition maxSeq :: "cli_lib \<Rightarrow> je_client \<Rightarrow> string \<Rightarrow> (cli_state, int) io" where
  "maxSeq L c sid = bindE (catchE (fetchEvents L c sid) (\<lambda>_. returnE [])) (\<lambda>evs. returnE (foldl max 0 (map (seqOf L) evs)))"

section \<open>Cutting text\<close>

text \<open>
  \<open>[]rune(s)\<close>: the characters of a text in UTF-8, each as the bytes it is written with again; a byte that
  starts no character becomes U+FFFD.
\<close>

definition cont :: "nat \<Rightarrow> nat \<Rightarrow> char \<Rightarrow> bool" where
  "cont lo hi ch \<longleftrightarrow> lo \<le> (of_char ch :: nat) \<and> (of_char ch :: nat) \<le> hi"

text \<open>How many bytes the character at the start of the text has; 0 if none starts there.\<close>

definition rune_len :: "string \<Rightarrow> nat" where
  "rune_len s = (case s of [] \<Rightarrow> 0
     | a # r \<Rightarrow> (let n = of_char a :: nat; more = (\<lambda>k lo hi.
           if length r \<ge> k \<and> cont lo hi (hd r) \<and> list_all (cont 0x80 0xBF) (take (k - 1) (tl r)) then k + 1 else 0) in
         if n < 0x80 then 1
         else if 0xC2 \<le> n \<and> n \<le> 0xDF then more 1 0x80 0xBF
         else if n = 0xE0 then more 2 0xA0 0xBF
         else if n = 0xED then more 2 0x80 0x9F
         else if 0xE1 \<le> n \<and> n \<le> 0xEF then more 2 0x80 0xBF
         else if n = 0xF0 then more 3 0x90 0xBF
         else if n = 0xF4 then more 3 0x80 0x8F
         else if 0xF1 \<le> n \<and> n \<le> 0xF3 then more 3 0x80 0xBF
         else 0))"

definition replacement :: string where
  "replacement = [CHR 0xEF, CHR 0xBF, CHR 0xBD]"

fun runes :: "nat \<Rightarrow> string \<Rightarrow> string list" where
  "runes 0 s = []"
| "runes (Suc n) s = (if s = [] then [] else if rune_len s = 0 then replacement # runes n (tl s)
     else take (rune_len s) s # runes n (drop (rune_len s) s))"

definition ellipsis :: string where
  "ellipsis = [CHR 0xE2, CHR 0x80, CHR 0xA6]"

definition cut_text :: "string \<Rightarrow> nat \<Rightarrow> string" where
  "cut_text s n =
     (if length s \<le> n then s
      else (let r = runes (length s) s in if length r \<le> n then s else concat (take n r) @ ellipsis))"

section \<open>Sending a message\<close>

definition marshal_any :: "json option \<Rightarrow> string" where
  "marshal_any v = (case v of None \<Rightarrow> ''null'' | Some x \<Rightarrow> jprint x)"

text \<open>What is printed of an event, and whether the turn is over.\<close>

definition text_lines :: "json list \<Rightarrow> printed list" where
  "text_lines blocks = concat (map (\<lambda>b. case b of
       JObj kvs \<Rightarrow> (if any_lookup kvs ''type'' = Some (JStr ''text'') then [Line (str_of (any_lookup kvs ''text''))] else [])
     | _ \<Rightarrow> []) blocks)"

definition printEvent :: "event_map \<Rightarrow> printed list \<times> bool" where
  "printEvent ev =
     (let ty = str_of (ev_get ev ''type'') in
      if ty = ''agent.message'' then (text_lines (asSlice (ev_get ev ''content'')), False)
      else if ty = ''agent.tool_use'' \<or> ty = ''agent.custom_tool_use'' then
        ([Line (arrow @ '' '' @ str_of (ev_get ev ''name'') @ '' '' @ marshal_any (ev_get ev ''input''))], False)
      else if ty = ''agent.tool_result'' then
        ([Line (''  '' @ [CHR 0xE2, CHR 0xAE, CHR 0x91] @ '' '' @ cut_text (str_of (ev_get ev ''content'')) 500)], False)
      else if ty = ''session.status_requires_action'' then
        ([Line (''[requires_action '' @ [CHR 0xE2, CHR 0x80, CHR 0x94] @ '' waiting for a custom tool result]'')], True)
      else if ty = ''session.status_idle'' then ([Line ''[idle]''], True)
      else if ty = ''session.status_terminated'' then ([Line ''[terminated]''], True)
      else ([], False))"

text \<open>The loop over the events of one answer: the largest number so far, what is printed, whether it is over.\<close>

fun print_new :: "cli_lib \<Rightarrow> int \<Rightarrow> event_map list \<Rightarrow> int \<times> printed list \<times> bool" where
  "print_new L m [] = (m, [], False)"
| "print_new L m (ev # evs) =
     (if seqOf L ev \<le> m then print_new L m evs
      else (case printEvent ev of (ls, fin) \<Rightarrow>
        if fin then (seqOf L ev, ls, True)
        else (case print_new L (seqOf L ev) evs of (m', ls', fin') \<Rightarrow> (m', ls @ ls', fin'))))"

fun poll :: "cli_lib \<Rightarrow> je_client \<Rightarrow> string \<Rightarrow> nat \<Rightarrow> int \<Rightarrow> (cli_state, unit) io" where
  "poll L c sid 0 m = throwE (ErrMsg ''timeout waiting for agent turn'')"
| "poll L c sid (Suc n) m =
     bindE (fetchEvents L c sid) (\<lambda>evs.
       case print_new L m evs of (m', ls, fin) \<Rightarrow>
         bindE (out ls) (\<lambda>_. if fin then returnE () else poll L c sid n m'))"

definition message_body :: "string \<Rightarrow> json" where
  "message_body msg = JObj [(''events'', JArr [JObj
     [(''content'', JArr [JObj [(''text'', JStr msg), (''type'', JStr ''text'')]]), (''type'', JStr ''user.message'')]])]"

definition sessionsSend :: "cli_lib \<Rightarrow> je_client \<Rightarrow> string \<Rightarrow> string \<Rightarrow> (cli_state, unit) io" where
  "sessionsSend L c sid msg =
     bindE (maxSeq L c sid) (\<lambda>m.
     bindE (cli_do L c ''POST'' (''/v1/sessions/'' @ sid @ ''/events'') (Some (message_body msg))) (\<lambda>(received, code).
       if code \<ge> 300 then throwE (ErrMsg (''send failed: '' @ int_str code)) else poll L c sid (ci_Polls L) m))"

definition session_body :: "string \<Rightarrow> string \<Rightarrow> json" where
  "session_body agent title = JObj ([(''agent'', JStr agent)] @ (if title \<noteq> [] then [(''title'', JStr title)] else []))"

definition je_sessions :: "cli_lib \<Rightarrow> je_client \<Rightarrow> string list \<Rightarrow> (cli_state, unit) io" where
  "je_sessions L c args =
     (case args of
        [] \<Rightarrow> usage_error ''usage: je sessions <list|get|create|send>''
      | a # rest \<Rightarrow>
          (if a = ''list'' then getPrint L c ''/v1/sessions''
           else if a = ''get'' then
             (case rest of [] \<Rightarrow> usage_error ''usage: je sessions get <id>'' | i # _ \<Rightarrow> getPrint L c (''/v1/sessions/'' @ i))
           else if a = ''create'' then
             with_flags [(''agent'', []), (''title'', [])] rest (\<lambda>v.
               if v ''agent'' = [] then usage_error ''sessions create requires --agent''
               else callPrint L c ''POST'' ''/v1/sessions'' (Some (session_body (v ''agent'') (v ''title''))))
           else if a = ''send'' then
             (case rest of i # w # ws \<Rightarrow> sessionsSend L c i (join '' '' (w # ws))
              | _ \<Rightarrow> usage_error ''usage: je sessions send <id> <message...>'')
           else usage_error (''unknown sessions action '' @ goquote a)))"

section \<open>The command\<close>

definition je_run :: "cli_lib \<Rightarrow> string list \<Rightarrow> (cli_state, unit) io" where
  "je_run L args =
     (case args of
        [] \<Rightarrow> out [UsageText]
      | a # rest \<Rightarrow>
          (let c = newClient L in
           if a = ''version'' \<or> a = ''--version'' \<or> a = ''-v'' then out [VersionText]
           else if a = ''help'' \<or> a = ''-h'' \<or> a = ''--help'' then out [UsageText]
           else if a = ''health'' then getPrint L c ''/health''
           else if a = ''agents'' then je_agents L c rest
           else if a = ''sessions'' then je_sessions L c rest
           else if a = ''vaults'' then je_vaults L c rest
           else if a = ''apikeys'' then je_apikeys L c rest
           else throwE (ErrMsg (''unknown command '' @ goquote a @ '' (try `je help`)''))))"

end
