(* ===== verification/CliProperties.thy ===== *)
theory CliProperties
  imports CliClient
begin

text \<open>
  What the command line client promises: its requests go to the configured server with the configured key, and
  sending a message prints the events of the turn, each once and in order.
\<close>

section \<open>Requests\<close>

definition addressed :: "je_client \<Rightarrow> cli_request \<Rightarrow> bool" where
  "addressed c q \<longleftrightarrow> HasPrefix (cq_URL q) (jc_Base c)
     \<and> (\<forall>v. (''x-api-key'', v) \<in> set (cq_Header q) \<longleftrightarrow> jc_Key c \<noteq> [] \<and> v = jc_Key c)"

definition sends :: "je_client \<Rightarrow> cli_state \<Rightarrow> cli_state \<Rightarrow> bool" where
  "sends c s s' \<longleftrightarrow> (\<exists>qs. cs_Sent s' = cs_Sent s @ qs \<and> (\<forall>q\<in>set qs. addressed c q))"

lemma sends_refl: "sends c s s"
  by (simp add: sends_def)

lemma sends_trans: "sends c s t \<Longrightarrow> sends c t u \<Longrightarrow> sends c s u"
  unfolding sends_def by (elim exE conjE) (auto simp: ball_Un)

lemma sends_out: "keeps (sends c) (out ps)" "keeps (sends c) (returnE x)" "keeps (sends c) (throwE err)" "keeps (sends c) (usage_error m)"
  by (simp_all add: keeps_def out_def returnE_def throwE_def usage_error_def sends_def)

lemma sends_do: "keeps (sends c) (cli_do L c meth path body)"
  by (auto simp: keeps_def cli_do_def cli_call_def sends_def addressed_def Let_def HasPrefix_append split: option.splits)

lemmas sends_bind = keeps_bindE [where R = "sends c" for c, OF _ _ sends_trans]

lemma sends_callPrint: "keeps (sends c) (callPrint L c meth path body)"
  unfolding callPrint_def by (intro sends_bind sends_do) (simp add: sends_out split: prod.splits)

lemma sends_getPrint: "keeps (sends c) (getPrint L c path)"
  unfolding getPrint_def by (rule sends_callPrint)

lemma sends_flags: "(\<And>v. keeps (sends c) (f v)) \<Longrightarrow> keeps (sends c) (with_flags defaults args f)"
  by (simp add: with_flags_def sends_out split: sum.split)

lemma sends_if: "keeps R f \<Longrightarrow> keeps R g \<Longrightarrow> keeps R (if b then f else g)"
  by simp

lemma sends_list: "keeps R f \<Longrightarrow> (\<And>x xs. keeps R (g x xs)) \<Longrightarrow> keeps R (case l of [] \<Rightarrow> f | x # xs \<Rightarrow> g x xs)"
  by (cases l) simp_all

lemma sends_sum: "(\<And>a. keeps R (f a)) \<Longrightarrow> (\<And>b. keeps R (g b)) \<Longrightarrow> keeps R (case r of Inl a \<Rightarrow> f a | Inr b \<Rightarrow> g b)"
  by (cases r) simp_all

lemmas sends_rules = sends_list sends_if sends_flags sends_sum sends_out sends_do sends_callPrint sends_getPrint

lemma sends_agents: "keeps (sends c) (je_agents L c args)"
  unfolding je_agents_def by (intro sends_rules)

lemma sends_vaults: "keeps (sends c) (je_vaults L c args)"
  unfolding je_vaults_def by (intro sends_rules)

lemma sends_apikeys: "keeps (sends c) (je_apikeys L c args)"
  unfolding je_apikeys_def by (intro sends_rules)

lemma sends_fetch: "keeps (sends c) (fetchEvents L c sid)"
  unfolding fetchEvents_def by (intro sends_bind sends_do) (simp add: sends_out split: sum.split)

lemma sends_poll: "keeps (sends c) (poll L c sid n m)"
proof (induction n arbitrary: m)
  case (Suc n)
  show ?case unfolding poll.simps
    by (intro sends_bind sends_fetch) (auto intro!: sends_bind simp: sends_out Suc split: prod.split)
qed (simp add: sends_out)

lemma sends_maxSeq: "keeps (sends c) (maxSeq L c sid)"
proof -
  have "keeps (sends c) (catchE (fetchEvents L c sid) (\<lambda>_. returnE []))"
    using sends_fetch [of c L sid] by (auto simp: keeps_def catchE_def returnE_def split: prod.splits sum.splits) (metis snd_conv)+
  then show ?thesis unfolding maxSeq_def by (intro sends_bind) (simp_all add: sends_out)
qed

lemma sends_send: "keeps (sends c) (sessionsSend L c sid msg)"
  unfolding sessionsSend_def by (intro sends_bind sends_maxSeq sends_do) (auto simp: sends_out sends_poll split: prod.split)

lemma sends_sessions: "keeps (sends c) (je_sessions L c args)"
  unfolding je_sessions_def by (intro sends_rules sends_send)

text \<open>Whatever the command and whatever is answered, every request of the client goes to the configured server and
carries exactly the configured key.\<close>

theorem client_requests_carry_the_key:
  "\<exists>qs. cs_Sent (snd (je_run L args s)) = cs_Sent s @ qs \<and> (\<forall>q\<in>set qs. addressed (newClient L) q)"
proof -
  have "keeps (sends (newClient L)) (je_run L args)"
    unfolding je_run_def Let_def by (intro sends_rules sends_agents sends_sessions sends_vaults sends_apikeys)
  then show ?thesis using keepsD [of "sends (newClient L)" "je_run L args" s] by (simp add: sends_def)
qed

section \<open>Following a turn\<close>

definition over :: "event_map \<Rightarrow> bool" where
  "over ev = snd (printEvent ev)"

definition turn_of :: "event_map list \<Rightarrow> event_map list" where
  "turn_of evs = takeWhile (\<lambda>ev. \<not> over ev) evs @ take 1 (dropWhile (\<lambda>ev. \<not> over ev) evs)"

definition shown :: "event_map list \<Rightarrow> printed list" where
  "shown evs = concat (map (\<lambda>ev. fst (printEvent ev)) evs)"

lemma shown_simps [simp]: "shown [] = []" "shown (ev # evs) = fst (printEvent ev) @ shown evs" "shown (xs @ ys) = shown xs @ shown ys"
  by (simp_all add: shown_def)

lemma turn_of_append:
  "turn_of (xs @ ys) = (if \<exists>ev\<in>set xs. over ev then turn_of xs else xs @ turn_of ys)"
  by (induction xs) (auto simp: turn_of_def)

text \<open>A log as the server numbers it.\<close>

definition numbered :: "cli_lib \<Rightarrow> event_map list \<Rightarrow> bool" where
  "numbered L log \<longleftrightarrow> (\<forall>i < length log. seqOf L (log ! i) = int i + 1)"

lemma print_new_later:
  assumes "\<forall>i < length evs. seqOf L (evs ! i) = m + int i + 1"
  shows "\<exists>m'. print_new L m evs = (m', shown (turn_of evs), \<exists>ev\<in>set evs. over ev)
     \<and> ((\<forall>ev\<in>set evs. \<not> over ev) \<longrightarrow> m' = m + int (length evs))"
  using assms
proof (induction evs arbitrary: m)
  case (Cons ev evs)
  have s: "seqOf L ev = m + 1" using Cons.prems by (auto dest: spec [of _ 0])
  have "\<forall>i < length evs. seqOf L (evs ! i) = (m + 1) + int i + 1"
  proof (intro allI impI)
    fix i assume "i < length evs"
    then show "seqOf L (evs ! i) = (m + 1) + int i + 1" using Cons.prems [rule_format, of "Suc i"] by simp
  qed
  from Cons.IH [OF this] obtain m' where
    "print_new L (m + 1) evs = (m', shown (turn_of evs), \<exists>ev\<in>set evs. over ev)"
    "(\<forall>ev\<in>set evs. \<not> over ev) \<longrightarrow> m' = m + 1 + int (length evs)" by blast
  then show ?case by (cases "printEvent ev") (auto simp: s turn_of_def over_def)
qed (simp add: turn_of_def)

lemma print_new_skip:
  "(\<And>ev. ev \<in> set xs \<Longrightarrow> seqOf L ev \<le> m) \<Longrightarrow> print_new L m (xs @ ys) = print_new L m ys"
  by (induction xs) auto

lemma print_new_log:
  assumes "numbered L log" "j \<le> k" "k \<le> length log"
  shows "\<exists>m'. print_new L (int j) (take k log)
      = (m', shown (turn_of (drop j (take k log))), \<exists>ev\<in>set (drop j (take k log)). over ev)
     \<and> ((\<forall>ev\<in>set (drop j (take k log)). \<not> over ev) \<longrightarrow> m' = int k)"
proof -
  have "take k log = take j log @ drop j (take k log)" using assms(2) by (metis append_take_drop_id min.absorb1 take_take)
  moreover have "seqOf L ev \<le> int j" if "ev \<in> set (take j log)" for ev
    using that assms by (auto simp: in_set_conv_nth numbered_def)
  ultimately have "print_new L (int j) (take k log) = print_new L (int j) (drop j (take k log))" by (metis print_new_skip)
  moreover have "\<forall>i < length (drop j (take k log)). seqOf L (drop j (take k log) ! i) = int j + int i + 1"
    using assms by (auto simp: numbered_def)
  moreover have "int j + int (length (drop j (take k log))) = int k" using assms by simp
  ultimately show ?thesis using print_new_later [of "drop j (take k log)" L "int j"] by auto
qed

text \<open>A server that, from some time on, answers every request for the events with the log as it is by then: longer
and longer prefixes.\<close>

definition serves_log :: "cli_lib \<Rightarrow> je_client \<Rightarrow> event_map list \<Rightarrow> (nat \<Rightarrow> nat) \<Rightarrow> nat \<Rightarrow> bool" where
  "serves_log L c log n t0 \<longleftrightarrow> (\<forall>path. ci_BadURL L (jc_Base c @ path) = None) \<and> numbered L log \<and> mono n \<and> (\<forall>k. n k \<le> length log)
     \<and> (\<forall>k q. t0 \<le> k \<longrightarrow> cq_Method q = ''GET'' \<longrightarrow> (\<exists>a. ci_Do L k q = Inr a \<and> decode_events L a = Inr (take (n k) log)))"

lemma fetch_log:
  assumes "serves_log L c log n t0" "t0 \<le> cs_Tick s"
  shows "\<exists>s'. fetchEvents L c sid s = (Inr (take (n (cs_Tick s)) log), s') \<and> cs_Tick s' = Suc (cs_Tick s) \<and> cs_Out s' = cs_Out s"
proof -
  define path where "path = ''/v1/sessions/'' @ sid @ ''/events''"
  have "cq_Method (cli_call c ''GET'' path None) = ''GET''" by (simp add: cli_call_def)
  then have "\<exists>a. ci_Do L (cs_Tick s) (cli_call c ''GET'' path None) = Inr a \<and> decode_events L a = Inr (take (n (cs_Tick s)) log)"
    using assms unfolding serves_log_def by blast
  moreover have "ci_BadURL L (jc_Base c @ path) = None" using assms by (simp add: serves_log_def)
  ultimately show ?thesis unfolding fetchEvents_def path_def [symmetric] by (auto simp: cli_do_def bindE_def returnE_def Let_def)
qed

lemma window_split:
  assumes "j \<le> t" "t \<le> T" "t \<le> length xs"
  shows "drop j (take T xs) = drop j (take t xs) @ drop t (take T xs)"
proof -
  have "take T xs = take t xs @ drop t (take T xs)" using assms(2) by (metis append_take_drop_id min.absorb1 take_take)
  then have "drop j (take T xs) = drop j (take t xs @ drop t (take T xs))" by (rule arg_cong)
  then show ?thesis using assms by simp
qed

lemma poll_log:
  assumes "serves_log L c log n t0" "t0 \<le> cs_Tick s" "j \<le> n (cs_Tick s)"
  shows "\<exists>s'. poll L c sid (Suc k) (int j) s
      = (if \<exists>ev\<in>set (drop j (take (n (cs_Tick s + k)) log)). over ev then Inr () else Inl (ErrMsg ''timeout waiting for agent turn''), s')
     \<and> cs_Out s' = cs_Out s @ shown (turn_of (drop j (take (n (cs_Tick s + k)) log)))"
  using assms(2,3)
proof (induction k arbitrary: j s)
  case 0
  obtain s1 where f: "fetchEvents L c sid s = (Inr (take (n (cs_Tick s)) log), s1)" "cs_Out s1 = cs_Out s"
    using fetch_log [OF assms(1)] 0 by blast
  obtain m' where "print_new L (int j) (take (n (cs_Tick s)) log)
      = (m', shown (turn_of (drop j (take (n (cs_Tick s)) log))), \<exists>ev\<in>set (drop j (take (n (cs_Tick s)) log)). over ev)"
    using print_new_log [of L log j "n (cs_Tick s)"] assms(1) 0 by (auto simp: serves_log_def)
  then show ?case using f by (simp add: bindE_def out_def throwE_def returnE_def)
next
  case (Suc k)
  let ?t = "n (cs_Tick s)" and ?T = "n (cs_Tick s + Suc k)"
  let ?now = "drop j (take ?t log)"
  obtain s1 where f: "fetchEvents L c sid s = (Inr (take ?t log), s1)" "cs_Tick s1 = Suc (cs_Tick s)" "cs_Out s1 = cs_Out s"
    using fetch_log [OF assms(1) Suc.prems(1)] by blast
  obtain m' where p: "print_new L (int j) (take ?t log) = (m', shown (turn_of ?now), \<exists>ev\<in>set ?now. over ev)"
    "(\<forall>ev\<in>set ?now. \<not> over ev) \<longrightarrow> m' = int ?t"
    using print_new_log [of L log j ?t] assms(1) Suc.prems by (auto simp: serves_log_def)
  let ?s = "s1\<lparr>cs_Out := cs_Out s @ shown (turn_of ?now)\<rparr>"
  have tT: "?t \<le> ?T" "?t \<le> n (cs_Tick ?s)" using assms(1) f(2) by (simp_all add: serves_log_def monoD)
  have all: "drop j (take ?T log) = ?now @ drop ?t (take ?T log)"
    using window_split [of j ?t ?T log] tT(1) Suc.prems assms(1) by (simp add: serves_log_def)
  have run: "poll L c sid (Suc (Suc k)) (int j) s = (if \<exists>ev\<in>set ?now. over ev then (Inr (), ?s) else poll L c sid (Suc k) m' ?s)"
    unfolding poll.simps(2) [of L c sid "Suc k"] using f p(1) by (simp add: bindE_def out_def returnE_def del: poll.simps)
  show ?case
  proof (cases "\<exists>ev\<in>set ?now. over ev")
    case True
    then show ?thesis unfolding run all by (auto simp: turn_of_append)
  next
    case False
    then have m': "m' = int ?t" using p(2) by blast
    from Suc.IH [OF _ tT(2)] Suc.prems(1) f(2) obtain s' where
      "poll L c sid (Suc k) (int ?t) ?s = (if \<exists>ev\<in>set (drop ?t (take ?T log)). over ev then Inr () else Inl (ErrMsg ''timeout waiting for agent turn''), s')"
      "cs_Out s' = cs_Out ?s @ shown (turn_of (drop ?t (take ?T log)))" using f(2) by auto
    moreover have "turn_of ?now = ?now" using False by (simp add: turn_of_def takeWhile_eq_all_conv [THEN iffD2])
    ultimately show ?thesis using False unfolding run m' all by (auto simp: turn_of_append)
  qed
qed

lemma maxSeq_log:
  assumes "numbered L log" "k \<le> length log"
  shows "foldl max 0 (map (seqOf L) (take k log)) = int k"
  using assms(2)
proof (induction k)
  case (Suc k)
  then have "seqOf L (log ! k) = int k + 1" using assms(1) by (simp add: numbered_def)
  then show ?case using Suc by (simp add: take_Suc_conv_app_nth)
qed simp

lemma post_do:
  assumes "\<forall>path. ci_BadURL L (jc_Base c @ path) = None"
    and "\<forall>k q. t0 < k \<longrightarrow> cq_Method q = ''POST'' \<longrightarrow> (\<exists>t code. ci_Do L k q = Inr (t, code) \<and> code < 300)" "t0 < cs_Tick s"
  shows "\<exists>t code s'. cli_do L c ''POST'' path body s = (Inr (t, code), s') \<and> code < 300
     \<and> cs_Tick s' = Suc (cs_Tick s) \<and> cs_Out s' = cs_Out s"
proof -
  have "cq_Method (cli_call c ''POST'' path body) = ''POST''" by (simp add: cli_call_def)
  then obtain t code where "ci_Do L (cs_Tick s) (cli_call c ''POST'' path body) = Inr (t, code)" "code < 300" using assms(2,3) by blast
  then show ?thesis using assms(1) by (simp add: cli_do_def Let_def)
qed

text \<open>What remains after the first look: the message is posted and the log is followed from the largest number seen.\<close>

lemma send_after_look:
  assumes "maxSeq L c sid s = (Inr (int j), s1)" "cs_Tick s1 = Suc (cs_Tick s)" "cs_Out s1 = cs_Out s"
    and "serves_log L c log n (Suc (cs_Tick s))" "j \<le> n (cs_Tick s + 2)" "ci_Polls L = Suc k"
    and "\<forall>k q. cs_Tick s < k \<longrightarrow> cq_Method q = ''POST'' \<longrightarrow> (\<exists>t code. ci_Do L k q = Inr (t, code) \<and> code < 300)"
  shows "\<exists>s'. sessionsSend L c sid msg s = (if \<exists>ev\<in>set (drop j (take (n (cs_Tick s + 2 + k)) log)). over ev
       then Inr () else Inl (ErrMsg ''timeout waiting for agent turn''), s')
     \<and> cs_Out s' = cs_Out s @ shown (turn_of (drop j (take (n (cs_Tick s + 2 + k)) log)))"
proof -
  define path where "path = ''/v1/sessions/'' @ sid @ ''/events''"
  have "\<forall>path. ci_BadURL L (jc_Base c @ path) = None" using assms(4) by (simp add: serves_log_def)
  from post_do [OF this assms(7), of s1 path "Some (message_body msg)"] obtain t code s2 where
    p: "cli_do L c ''POST'' path (Some (message_body msg)) s1 = (Inr (t, code), s2)" "code < 300"
    "cs_Tick s2 = cs_Tick s + 2" "cs_Out s2 = cs_Out s" using assms(2,3) by auto
  have "sessionsSend L c sid msg s = poll L c sid (Suc k) (int j) s2"
    unfolding sessionsSend_def path_def [symmetric] using assms(1,6) p(1,2) by (simp add: bindE_def del: poll.simps)
  then show ?thesis using poll_log [OF assms(4), of s2 j sid k] assms(5) p(3,4) by simp
qed


text \<open>When the first look fails, which is not reported, the whole log is printed from its start, up to the end of
the first turn there ever was: the command succeeds without a word of the turn it started.\<close>

theorem failed_look_replays_the_past:
  assumes "serves_log L c log n (Suc (cs_Tick s))" "ci_Polls L = Suc k"
    and "\<forall>k q. cs_Tick s < k \<longrightarrow> cq_Method q = ''POST'' \<longrightarrow> (\<exists>t code. ci_Do L k q = Inr (t, code) \<and> code < 300)"
    and "\<And>q. ci_Do L (cs_Tick s) q = Inl err" "past = take (n (Suc (cs_Tick s))) log" "\<exists>ev\<in>set past. over ev"
  shows "\<exists>s'. sessionsSend L c sid msg s = (Inr (), s') \<and> cs_Out s' = cs_Out s @ shown (turn_of past)"
proof -
  obtain s1 where f: "fetchEvents L c sid s = (Inl err, s1)" "cs_Tick s1 = Suc (cs_Tick s)" "cs_Out s1 = cs_Out s"
    using assms(1,4) by (simp add: fetchEvents_def cli_do_def bindE_def Let_def serves_log_def)
  have "maxSeq L c sid s = (Inr (int 0), s1)" using f(1) by (simp add: maxSeq_def bindE_def catchE_def returnE_def)
  from send_after_look [OF this f(2,3) assms(1) _ assms(2,3)]
  obtain s' where s': "sessionsSend L c sid msg s = (if \<exists>ev\<in>set (take (n (cs_Tick s + 2 + k)) log). over ev
       then Inr () else Inl (ErrMsg ''timeout waiting for agent turn''), s')"
    "cs_Out s' = cs_Out s @ shown (turn_of (take (n (cs_Tick s + 2 + k)) log))" by auto
  have "n (Suc (cs_Tick s)) \<le> n (cs_Tick s + 2 + k)" using assms(1) by (simp add: serves_log_def monoD)
  then have "take (n (cs_Tick s + 2 + k)) log = past @ drop (n (Suc (cs_Tick s))) (take (n (cs_Tick s + 2 + k)) log)"
    using window_split [of 0 "n (Suc (cs_Tick s))" "n (cs_Tick s + 2 + k)" log] assms(1) by (simp add: assms(5) serves_log_def)
  then have "turn_of (take (n (cs_Tick s + 2 + k)) log) = turn_of past" "\<exists>ev\<in>set (take (n (cs_Tick s + 2 + k)) log). over ev"
    using assms(6) turn_of_append by (metis, metis Un_iff set_append)
  then show ?thesis using s' by simp
qed

section \<open>Examples\<close>

text \<open>A finished turn, and one that ends while the client looks.\<close>

definition demo_event :: "int \<Rightarrow> string \<Rightarrow> (string \<times> json) list" where
  "demo_event i ty = [(''type'', JStr ty), (''seq'', jint i),
     (''content'', JArr [JObj [(''text'', JStr ''hello''), (''type'', JStr ''text'')]])]"

definition demo_events :: "(string \<times> json) list list" where
  "demo_events = [demo_event 1 ''user.message'', demo_event 2 ''session.status_idle'', demo_event 3 ''user.message'',
     demo_event 4 ''agent.message'', demo_event 5 ''session.status_idle'']"

definition known :: "nat \<Rightarrow> nat" where
  "known k = (if k < 2 then 2 else if k < 3 then 4 else 5)"

definition demo_page :: "nat \<Rightarrow> string" where
  "demo_page j = jprint (JObj [(''data'', JArr (map JObj (take j demo_events)))])"

definition demo_cli :: "bool \<Rightarrow> cli_lib" where
  "demo_cli fails = \<lparr>ci_Getenv = (\<lambda>k. if k = ''JE_API'' then ''http://j/'' else if k = ''JE_API_KEY'' then ''k1'' else []), ci_BadURL = (\<lambda>_. None),
     ci_Do = (\<lambda>k q. if fails \<and> k = 0 then Inl (ErrMsg ''EOF'')
       else if cq_Method q = ''GET'' then Inr (demo_page (known k), 200) else Inr ([], 202)),
     ci_ReadFile = (\<lambda>_. Inl Canceled), ci_Renum = Some,
     ci_Float = (\<lambda>t. case ParseInt t of Some i \<Rightarrow> i | None \<Rightarrow> 0), ci_DecodeErr = (\<lambda>_. []), ci_Polls = 2\<rparr>"

definition demo_log :: "event_map list" where
  "demo_log = map Some demo_events"

lemma demo_pages:
  "decode_events (demo_cli f) (demo_page 2, 200) = Inr (take 2 demo_log)"
  "decode_events (demo_cli f) (demo_page 4, 200) = Inr (take 4 demo_log)"
  "decode_events (demo_cli f) (demo_page 5, 200) = Inr (take 5 demo_log)"
proof -
  have d: "decode_events (demo_cli f) a = decode_events (demo_cli True) a" for a
    unfolding decode_events_def seqOf_def demo_cli_def cli_lib.simps by (rule refl)
  show "decode_events (demo_cli f) (demo_page 2, 200) = Inr (take 2 demo_log)"
    "decode_events (demo_cli f) (demo_page 4, 200) = Inr (take 4 demo_log)"
    "decode_events (demo_cli f) (demo_page 5, 200) = Inr (take 5 demo_log)"
    unfolding d by code_simp+
qed

lemma demo_serves: "serves_log (demo_cli f) c demo_log known (if f then 1 else 0)"
proof -
  have "seqOf (demo_cli f) ev = seqOf (demo_cli True) ev" for ev
    unfolding seqOf_def demo_cli_def cli_lib.simps by (rule refl)
  moreover have "list_all (\<lambda>i. seqOf (demo_cli True) (demo_log ! i) = int i + 1) [0..<5]" by code_simp
  ultimately have "numbered (demo_cli f) demo_log" by (auto simp: numbered_def list_all_iff demo_log_def demo_events_def)
  moreover have "length demo_log = 5" by (simp add: demo_log_def demo_events_def)
  ultimately show ?thesis using demo_pages [of f]
    by (auto simp: serves_log_def demo_cli_def known_def mono_def)
qed

definition quiet :: cli_state where
  "quiet = \<lparr>cs_Tick = 0, cs_Sent = [], cs_Out = []\<rparr>"

lemma quiet_simps [simp]: "cs_Tick quiet = 0" "cs_Out quiet = []"
  by (simp_all add: quiet_def)

lemma demo_posts: "\<forall>k q. cs_Tick quiet < k \<longrightarrow> cq_Method q = ''POST'' \<longrightarrow> (\<exists>t code. ci_Do (demo_cli f) k q = Inr (t, code) \<and> code < 300)"
  by (simp add: demo_cli_def)

lemma demo_polls: "ci_Polls (demo_cli f) = Suc 1"
  by (simp add: demo_cli_def)


lemma failed_look_replays_the_past_witness:
  "\<exists>s'. sessionsSend (demo_cli True) (newClient (demo_cli True)) ''s1'' ''hi'' quiet = (Inr (), s') \<and> cs_Out s' = [Line ''[idle]'']"
proof -
  have serves: "serves_log (demo_cli True) (newClient (demo_cli True)) demo_log known (Suc (cs_Tick quiet))"
    using demo_serves [of True] by simp
  have fails: "ci_Do (demo_cli True) (cs_Tick quiet) q = Inl (ErrMsg ''EOF'')" for q by (simp add: demo_cli_def)
  have past: "take 2 demo_log = take (known (Suc (cs_Tick quiet))) demo_log" by code_simp
  have s: "shown (turn_of (take 2 demo_log)) = [Line ''[idle]'']" "list_ex over (take 2 demo_log)" by code_simp+
  then have "\<exists>ev\<in>set (take 2 demo_log). over ev" by (simp only: list_ex_iff)
  from failed_look_replays_the_past [OF serves demo_polls demo_posts fails past this, of "''s1''" "''hi''"] show ?thesis by (simp add: s(1))
qed

lemma client_requests_carry_the_key_witness:
  "list_all (addressed (newClient (demo_cli False))) (cs_Sent (snd (je_run (demo_cli False) [''apikeys'', ''create'', ''--name=ci''] quiet)))"
proof -
  have "cs_Sent quiet = []" by (simp add: quiet_def)
  then show ?thesis using client_requests_carry_the_key [of "demo_cli False" "[''apikeys'', ''create'', ''--name=ci'']" quiet]
    by (auto simp: list_all_iff)
qed

end
