(* ===== verification/TurnLock.thy ===== *)
theory TurnLock
  imports Transition
begin

text \<open>
  The turns of all sessions as their goroutines interleave (\<open>lockTurn\<close>, \<open>Interrupt\<close> and the deferred
  functions of \<open>RunThread\<close> in \<open>internal/harness/harness.go\<close>): one mutex per session, and the
  registered cancellation of its running turn. What a turn does while it runs is the subject of
  \<open>HarnessTurn\<close>; here it is one step.
\<close>

section \<open>States and steps\<close>

text \<open>
  Before \<open>mu.Lock\<close>, between it and \<open>cancels.Store\<close>, with the body running, after the deferred function that
  settles the session, after the one that calls \<open>cancel\<close> and deletes the registration, after \<open>mu.Unlock\<close>.
\<close>

datatype turn_phase = Waiting | Locked | Registered | Settled | Unregistered | Finished

record turn_run =
  tu_Session :: string
  tu_Phase :: turn_phase
  tu_Cancelled :: bool

record turns =
  tl_Turns :: "turn_run list"
  tl_Holder :: "string \<rightharpoonup> nat"
  tl_Cancels :: "string \<rightharpoonup> nat"

datatype turn_action =
    TArrive string
  | TLock nat
  | TRegister nat
  | TSettle nat
  | TUnregister nat
  | TUnlock nat
  | TInterrupt string

definition turns_init :: turns where
  "turns_init = \<lparr>tl_Turns = [], tl_Holder = Map.empty, tl_Cancels = Map.empty\<rparr>"

definition in_phase :: "turn_phase \<Rightarrow> nat \<Rightarrow> turns \<Rightarrow> bool" where
  "in_phase ph t r \<longleftrightarrow> t < length (tl_Turns r) \<and> tu_Phase (tl_Turns r ! t) = ph"

definition session_of :: "nat \<Rightarrow> turns \<Rightarrow> string" where
  "session_of t r = tu_Session (tl_Turns r ! t)"

definition set_phase :: "nat \<Rightarrow> turn_phase \<Rightarrow> turns \<Rightarrow> turns" where
  "set_phase t ph r = r\<lparr>tl_Turns := (tl_Turns r)[t := (tl_Turns r ! t)\<lparr>tu_Phase := ph\<rparr>]\<rparr>"

definition cancel_turn :: "nat \<Rightarrow> turns \<Rightarrow> turns" where
  "cancel_turn t r = r\<lparr>tl_Turns := (tl_Turns r)[t := (tl_Turns r ! t)\<lparr>tu_Cancelled := True\<rparr>]\<rparr>"

text \<open>\<open>Interrupt\<close>, with whether a turn was cancelled. (The code loads the cancellation and then calls it; if the
turn unregisters in between, it has already called it itself.)\<close>

definition Interrupt :: "string \<Rightarrow> turns \<Rightarrow> bool \<times> turns" where
  "Interrupt s r = (case tl_Cancels r s of Some t \<Rightarrow> (True, cancel_turn t r) | None \<Rightarrow> (False, r))"

definition turn_lock_step :: "turn_action \<Rightarrow> turns \<Rightarrow> turns option" where
  "turn_lock_step a r =
     (case a of
        TArrive s \<Rightarrow> Some (r\<lparr>tl_Turns := tl_Turns r @ [\<lparr>tu_Session = s, tu_Phase = Waiting, tu_Cancelled = False\<rparr>]\<rparr>)
      | TLock t \<Rightarrow>
          (if in_phase Waiting t r \<and> tl_Holder r (session_of t r) = None
           then Some (set_phase t Locked (r\<lparr>tl_Holder := (tl_Holder r)(session_of t r \<mapsto> t)\<rparr>)) else None)
      | TRegister t \<Rightarrow>
          (if in_phase Locked t r
           then Some (set_phase t Registered (r\<lparr>tl_Cancels := (tl_Cancels r)(session_of t r \<mapsto> t)\<rparr>)) else None)
      | TSettle t \<Rightarrow> (if in_phase Registered t r then Some (set_phase t Settled r) else None)
      | TUnregister t \<Rightarrow>
          (if in_phase Settled t r
           then Some (set_phase t Unregistered (cancel_turn t (r\<lparr>tl_Cancels := (tl_Cancels r)(session_of t r := None)\<rparr>))) else None)
      | TUnlock t \<Rightarrow>
          (if in_phase Unregistered t r
           then Some (set_phase t Finished (r\<lparr>tl_Holder := (tl_Holder r)(session_of t r := None)\<rparr>)) else None)
      | TInterrupt s \<Rightarrow> Some (snd (Interrupt s r)))"

section \<open>The invariant\<close>

definition holding :: "turn_phase \<Rightarrow> bool" where
  "holding ph \<longleftrightarrow> ph \<in> {Locked, Registered, Settled, Unregistered}"

definition registered :: "turn_phase \<Rightarrow> bool" where
  "registered ph \<longleftrightarrow> ph \<in> {Registered, Settled}"

text \<open>The mutex of a session is held by the turn that is between locking and unlocking, and the registration is
that of the turn between registering and unregistering; no other turn has been cancelled.\<close>

definition turns_ok :: "turns \<Rightarrow> bool" where
  "turns_ok r \<longleftrightarrow> (\<forall>s t. tl_Holder r s = Some t \<longleftrightarrow> t < length (tl_Turns r) \<and> session_of t r = s \<and> holding (tu_Phase (tl_Turns r ! t)))
     \<and> (\<forall>s t. tl_Cancels r s = Some t \<longleftrightarrow> t < length (tl_Turns r) \<and> session_of t r = s \<and> registered (tu_Phase (tl_Turns r ! t)))
     \<and> (\<forall>t < length (tl_Turns r). tu_Cancelled (tl_Turns r ! t) \<longrightarrow> tu_Phase (tl_Turns r ! t) \<notin> {Waiting, Locked})"

lemma phase_simps [simp]:
  "\<not> holding Waiting" "holding Locked" "holding Registered" "holding Settled" "holding Unregistered" "\<not> holding Finished"
  "\<not> registered Waiting" "\<not> registered Locked" "registered Registered" "registered Settled" "\<not> registered Unregistered" "\<not> registered Finished"
  by (simp_all add: holding_def registered_def)

lemma turns_fields [simp]:
  "tl_Holder (set_phase t ph r) = tl_Holder r" "tl_Cancels (set_phase t ph r) = tl_Cancels r"
  "tl_Holder (cancel_turn t r) = tl_Holder r" "tl_Cancels (cancel_turn t r) = tl_Cancels r"
  "length (tl_Turns (set_phase t ph r)) = length (tl_Turns r)" "length (tl_Turns (cancel_turn t r)) = length (tl_Turns r)"
  by (simp_all add: set_phase_def cancel_turn_def)

lemma turns_nth [simp]:
  assumes "t < length (tl_Turns r)"
  shows "tu_Phase (tl_Turns (set_phase t ph r) ! u) = (if u = t then ph else tu_Phase (tl_Turns r ! u))"
    "tu_Cancelled (tl_Turns (set_phase t ph r) ! u) = tu_Cancelled (tl_Turns r ! u)"
    "session_of u (set_phase t ph r) = session_of u r"
    "tu_Phase (tl_Turns (cancel_turn t r) ! u) = tu_Phase (tl_Turns r ! u)"
    "tu_Cancelled (tl_Turns (cancel_turn t r) ! u) = (u = t \<or> tu_Cancelled (tl_Turns r ! u))"
    "session_of u (cancel_turn t r) = session_of u r"
  using assms by (cases "u = t"; simp add: set_phase_def cancel_turn_def session_of_def)+

lemma session_of_fields [simp]:
  "session_of t (r\<lparr>tl_Holder := m\<rparr>) = session_of t r" "session_of t (r\<lparr>tl_Cancels := m\<rparr>) = session_of t r"
  by (simp_all add: session_of_def)

lemma registered_holding: "registered ph \<Longrightarrow> holding ph"
  by (auto simp: registered_def holding_def)

lemma one_holder:
  assumes "turns_ok r" "t < length (tl_Turns r)" "u < length (tl_Turns r)" "session_of t r = session_of u r"
    and "holding (tu_Phase (tl_Turns r ! t))" "holding (tu_Phase (tl_Turns r ! u))"
  shows "t = u"
proof -
  have "tl_Holder r (session_of t r) = Some t" "tl_Holder r (session_of t r) = Some u" using assms by (auto simp: turns_ok_def)
  then show ?thesis by simp
qed

lemma turns_ok_step:
  assumes ok: "turns_ok r" and step: "turn_lock_step a r = Some r'"
  shows "turns_ok r'"
proof (cases a)
  case (TArrive s)
  then show ?thesis using assms by (auto simp: turns_ok_def turn_lock_step_def session_of_def nth_append less_Suc_eq)
next
  case (TInterrupt s)
  show ?thesis
  proof (cases "tl_Cancels r s")
    case (Some t)
    then have "t < length (tl_Turns r)" "registered (tu_Phase (tl_Turns r ! t))" using ok by (auto simp: turns_ok_def)
    then show ?thesis using assms TInterrupt Some by (auto simp: turns_ok_def turn_lock_step_def Interrupt_def registered_def)
  qed (use assms TInterrupt in \<open>simp add: turn_lock_step_def Interrupt_def\<close>)
next
  case (TLock t)
  have "\<not> holding (tu_Phase (tl_Turns r ! u))" if "tl_Holder r (session_of t r) = None" "u < length (tl_Turns r)" "session_of u r = session_of t r" for u
    using ok that by (metis (no_types) option.distinct(1) turns_ok_def)
  then show ?thesis using assms TLock by (auto simp: turns_ok_def turn_lock_step_def in_phase_def split: if_splits)
next
  case (TRegister t)
  have "\<not> registered (tu_Phase (tl_Turns r ! u))"
    if "in_phase Locked t r" "u < length (tl_Turns r)" "session_of u r = session_of t r" "u \<noteq> t" for u
    using one_holder [OF ok, of u t] that registered_holding by (auto simp: in_phase_def)
  then show ?thesis using assms TRegister by (auto simp: turns_ok_def turn_lock_step_def in_phase_def split: if_splits)
next
  case (TUnregister t)
  have "\<not> registered (tu_Phase (tl_Turns r ! u))"
    if "in_phase Settled t r" "u < length (tl_Turns r)" "session_of u r = session_of t r" "u \<noteq> t" for u
    using one_holder [OF ok, of u t] that registered_holding by (auto simp: in_phase_def)
  then show ?thesis using assms TUnregister by (auto simp: turns_ok_def turn_lock_step_def in_phase_def split: if_splits)
next
  case (TUnlock t)
  have "\<not> holding (tu_Phase (tl_Turns r ! u))"
    if "in_phase Unregistered t r" "u < length (tl_Turns r)" "session_of u r = session_of t r" "u \<noteq> t" for u
    using one_holder [OF ok, of u t] that by (auto simp: in_phase_def)
  then show ?thesis using assms TUnlock by (auto simp: turns_ok_def turn_lock_step_def in_phase_def split: if_splits)
qed (use assms in \<open>auto simp: turns_ok_def turn_lock_step_def in_phase_def split: if_splits\<close>)

interpretation turn_lock: invariant_system turn_lock_step "\<lambda>r. r = turns_init" turns_ok
proof
  fix r assume "r = turns_init"
  then show "turns_ok r" by (simp add: turns_init_def turns_ok_def)
qed (rule turns_ok_step)

section \<open>Properties\<close>

definition holders :: "string \<Rightarrow> turns \<Rightarrow> nat set" where
  "holders s r = {t. t < length (tl_Turns r) \<and> session_of t r = s \<and> holding (tu_Phase (tl_Turns r ! t))}"

text \<open>C14: Whatever requests arrive in whatever order, at most one turn of a session is between taking and
releasing the mutex of the session, whatever its thread.\<close>

theorem one_turn_per_session:
  assumes "reachable turn_lock_step turns_init r"
  shows "card (holders s r) \<le> 1"
proof -
  have "finite (holders s r)" by (simp add: holders_def)
  moreover have "t = u" if "t \<in> holders s r" "u \<in> holders s r" for t u
    using one_holder [OF turn_lock.reachable_inv [OF assms refl], of t u] that by (auto simp: holders_def)
  ultimately show ?thesis by (simp add: card_le_Suc0_iff_eq)
qed

text \<open>C30: An interruption cancels the turn of the session that is registered, and only that one; there is at most
one, and when there is none nothing happens.\<close>

theorem interrupt_hits_the_running_turn:
  assumes "reachable turn_lock_step turns_init r" "Interrupt s r = (hit, r')"
  shows "if hit
     then \<exists>t < length (tl_Turns r). session_of t r = s \<and> registered (tu_Phase (tl_Turns r ! t)) \<and> r' = cancel_turn t r
     else r' = r \<and> \<not> (\<exists>t < length (tl_Turns r). session_of t r = s \<and> registered (tu_Phase (tl_Turns r ! t)))"
proof -
  have ok: "turns_ok r" using turn_lock.reachable_inv [OF assms(1) refl] .
  show ?thesis
  proof (cases "tl_Cancels r s")
    case None
    then have "\<not> (\<exists>t < length (tl_Turns r). session_of t r = s \<and> registered (tu_Phase (tl_Turns r ! t)))"
      using ok by (metis (no_types) option.distinct(1) turns_ok_def)
    then show ?thesis using None assms(2) by (auto simp: Interrupt_def)
  next
    case (Some t)
    then show ?thesis using ok assms(2) by (auto simp: Interrupt_def turns_ok_def)
  qed
qed

definition moves :: "nat \<Rightarrow> turns \<Rightarrow> bool" where
  "moves t r \<longleftrightarrow> (\<exists>a\<in>{TLock t, TRegister t, TSettle t, TUnregister t, TUnlock t}. turn_lock_step a r \<noteq> None)"

lemma holding_moves: "t < length (tl_Turns r) \<Longrightarrow> holding (tu_Phase (tl_Turns r ! t)) \<Longrightarrow> moves t r"
  by (auto simp: moves_def turn_lock_step_def in_phase_def holding_def)

text \<open>A turn that has not finished is never stuck for good: as long as there is one, some turn can go on.\<close>

theorem turns_never_deadlock:
  assumes "reachable turn_lock_step turns_init r" "t < length (tl_Turns r)" "tu_Phase (tl_Turns r ! t) \<noteq> Finished"
  shows "\<exists>u < length (tl_Turns r). session_of u r = session_of t r \<and> moves u r"
proof (cases "tu_Phase (tl_Turns r ! t) = Waiting")
  case True
  have ok: "turns_ok r" using turn_lock.reachable_inv [OF assms(1) refl] .
  show ?thesis
  proof (cases "tl_Holder r (session_of t r)")
    case None
    then have "moves t r" using True assms(2) by (auto simp: moves_def turn_lock_step_def in_phase_def)
    then show ?thesis using assms(2) by blast
  next
    case (Some u)
    then show ?thesis using ok holding_moves [of u r] by (auto simp: turns_ok_def)
  qed
next
  case False
  then have "holding (tu_Phase (tl_Turns r ! t))" using assms(3) by (cases "tu_Phase (tl_Turns r ! t)") simp_all
  then show ?thesis using holding_moves assms(2) by blast
qed

text \<open>An interruption between the acceptance of a message and the registration of its turn is lost: it finds
nothing to cancel, and the turn runs. One that finds a turn leaves the turns queued behind it alone.\<close>

theorem early_interrupt_is_lost:
  "\<exists>r. run_actions turn_lock_step [TArrive s, TLock 0, TInterrupt s, TRegister 0] turns_init = Some r
     \<and> tu_Phase (tl_Turns r ! 0) = Registered \<and> \<not> tu_Cancelled (tl_Turns r ! 0)"
  by (simp add: turn_lock_step_def turns_init_def in_phase_def session_of_def set_phase_def Interrupt_def)

section \<open>Examples\<close>

definition busy :: turns where
  "busy = the (run_actions turn_lock_step [TArrive ''s'', TLock 0, TRegister 0, TArrive ''s''] turns_init)"

lemma busy_reachable: "reachable turn_lock_step turns_init busy"
proof -
  have "run_actions turn_lock_step [TArrive ''s'', TLock 0, TRegister 0, TArrive ''s''] turns_init = Some busy"
    by (simp add: busy_def turn_lock_step_def turns_init_def in_phase_def session_of_def set_phase_def)
  then show ?thesis by (rule run_actions_reachable)
qed

lemma busy_turns: "tl_Turns busy = [\<lparr>tu_Session = ''s'', tu_Phase = Registered, tu_Cancelled = False\<rparr>,
     \<lparr>tu_Session = ''s'', tu_Phase = Waiting, tu_Cancelled = False\<rparr>]"
  by (simp add: busy_def turn_lock_step_def turns_init_def in_phase_def session_of_def set_phase_def)

lemma one_turn_per_session_witness: "card (holders ''s'' busy) \<le> 1 \<and> 0 \<in> holders ''s'' busy"
  using one_turn_per_session [OF busy_reachable] by (simp add: holders_def session_of_def busy_turns)

lemma interrupt_hits_the_running_turn_witness:
  "fst (Interrupt ''s'' busy) \<and> tu_Cancelled (tl_Turns (snd (Interrupt ''s'' busy)) ! 0) \<and> \<not> tu_Cancelled (tl_Turns (snd (Interrupt ''s'' busy)) ! 1)"
proof -
  have "\<exists>t < length (tl_Turns busy). session_of t busy = ''s'' \<and> registered (tu_Phase (tl_Turns busy ! t))"
    by (intro exI [of _ 0]) (simp add: busy_turns session_of_def)
  moreover have "t = 0" if "t < length (tl_Turns busy)" "registered (tu_Phase (tl_Turns busy ! t))" for t
    using that by (cases t) (auto simp: busy_turns less_Suc_eq)
  ultimately obtain "fst (Interrupt ''s'' busy)" "snd (Interrupt ''s'' busy) = cancel_turn 0 busy"
    using interrupt_hits_the_running_turn [OF busy_reachable prod.collapse [symmetric], of "''s''"]
    by (metis (no_types, lifting))
  then show ?thesis by (simp add: cancel_turn_def busy_turns)
qed

lemma turns_never_deadlock_witness: "\<exists>u < length (tl_Turns busy). session_of u busy = ''s'' \<and> moves u busy"
  using turns_never_deadlock [OF busy_reachable, of 1] by (simp add: busy_turns session_of_def)

end
