(* ===== verification/Spec2Isabelle.thy ===== *)
theory Spec2Isabelle
  imports AuthProperties ProviderProperties ServiceProperties ApiProperties UploadProperties DashboardProperties MemoryAudit BrokerRace TurnProperties EventApi Recovery VaultCA McpProperties WebhookProperties Dialect Startup CliProperties TurnLock Sandbox ToolDefs Permissions
begin

text \<open>
  A verification library of the agent server jadeenvoy (\<open>cmd/jed\<close>, \<open>cmd/je-vault\<close>, \<open>cmd/je\<close> and
  \<open>internal/\<close>).

  \<^bold>\<open>The program.\<close> A client creates agents, environments and sessions over HTTP and posts events
  to a session. Every event goes through the broker into an append-only log and to the
  subscribers of the session. An event that asks for work starts a turn of the harness: it builds the
  conversation from the log, compacts it when it is too long, calls a language model, and runs the
  tools the model asks for in a sandbox, by MCP servers, or by the client, some of them only after the
  user confirmed them. A vault keeps credentials encrypted; a proxy in front of the sandbox injects
  them into outgoing requests. Webhooks are told of events by a queue with retries. All state is in a
  SQL database; the server's tables, the broker's channels and the logs of outgoing calls are the
  record \<open>world\<close> of \<open>Tables\<close>.

  \<^bold>\<open>How the code is translated.\<close> An operation is a function of the state, of type \<open>io\<close>:
  \<open>world \<Rightarrow> (gerr + 'a) \<times> world\<close>, where \<open>gerr\<close> holds the errors of Go. Whatever comes from outside
  (clock, fresh identifiers, whether a statement fails, what a server answers) is a function of a
  counter \<open>tick\<close> that every interaction increases, in the record \<open>env\<close> or in a record of parameters
  of the component; a theorem that does not restrict it holds for every failure and every answer at
  every point. A context is \<open>Background\<close> or cancelled from a tick on. A table is the list of its rows in
  the order of insertion, with the constraints of the schema checked at insertion; \<open>ORDER BY\<close> is a
  stable sort. JSON is a datatype with the decoding rules of \<open>encoding/json\<close>; a raw message is
  \<open>json option\<close>. Numbers of 64 bits are \<open>int\<close> with their range checked where they are read and
  \<open>wrap64\<close> where the code adds or multiplies them; addresses are words of 8 bits. Strings are byte
  strings. Goroutines that interleave are transition systems (\<open>Transition\<close>): the sends of
  concurrent dispatches (\<open>BrokerRace\<close>), an event stream between publishers (\<open>EventStream\<close>), and the turns
  of all sessions (\<open>TurnLock\<close>).

  \<^bold>\<open>Foundations.\<close> \<open>Prelude\<close> has the errors, \<open>env\<close>, the combinators of \<open>io\<close>, operations on tables and
  the string functions; \<open>GoJson\<close>, \<open>GoMap\<close> and \<open>GoAny\<close> the JSON of Go, and \<open>JsonCodec\<close> that printing
  and parsing are inverse; \<open>KeptRelations\<close> a calculus (a locale) for what an operation leaves alone;
  \<open>Tables\<close> the rows and the state.

  \<^bold>\<open>Store\<close> (\<open>internal/store\<close>). \<open>StoreSession\<close>: \<open>session.go\<close>, \<open>event.go\<close>. \<open>EventLog\<close>: the contract
  of the log, sequence numbers 1, 2, 3 and so on per session, appends all or nothing, as a locale that the store
  interprets. \<open>StoreCatalog\<close>: \<open>agent.go\<close>, \<open>environment.go\<close>, \<open>resource.go\<close>, \<open>file.go\<close>, \<open>skill.go\<close>,
  with optimistic versions of agents. \<open>StoreMemory\<close> and \<open>MemoryAudit\<close>: \<open>memory.go\<close>, and that the
  versions replay to the memories. \<open>StoreVault\<close>, \<open>StoreAuth\<close>, \<open>StoreWebhook\<close>: the files of these
  names. \<open>Dialect\<close>: \<open>dialect.go\<close> and the splitting of the schema, with quoting as a locale. \<open>Schema\<close>: the text
  of the schema and its translation for PostgreSQL, with what a replacement cannot leave behind.
  \<open>StoreOpen\<close>: \<open>Open\<close> and \<open>Migrate\<close> of \<open>store.go\<close>.

  \<^bold>\<open>Events.\<close> \<open>Broker\<close>, \<open>BrokerRace\<close>: \<open>internal/event/broker.go\<close>, sequentially and interleaved.
  \<open>EventStream\<close>, \<open>EventApi\<close>: \<open>internal/api/event.go\<close>, what a client of the stream receives, and
  posting and listing.

  \<^bold>\<open>Harness\<close> (\<open>internal/harness\<close>). \<open>HarnessMessages\<close>: the conversation as a function of the log
  (\<open>messages.go\<close>). \<open>Compaction\<close>: \<open>compaction.go\<close>. \<open>ModelCall\<close>: one call and the retries of
  \<open>harness.go\<close>. \<open>Permissions\<close>: \<open>permissions.go\<close>, \<open>guardrails.go\<close>. \<open>Approvals\<close>: \<open>approvals.go\<close> and
  the routing of \<open>mcp.go\<close>. \<open>TurnSetup\<close>: \<open>model.go\<close>, \<open>provider_tools.go\<close>, \<open>mcp.go\<close>, \<open>skills.go\<close>,
  \<open>resources.go\<close>. \<open>HarnessTurn\<close>: \<open>RunThread\<close>. \<open>TurnFrame\<close> and \<open>TurnProperties\<close>: what a turn may
  touch, how many calls it makes, which tools it runs, and that it settles its session. \<open>TurnLock\<close>: the mutex
  and the cancellation of turns, in every interleaving.

  \<^bold>\<open>Starting.\<close> \<open>Config\<close>: \<open>internal/config\<close>. \<open>Recovery\<close>: \<open>recoverInterruptedSessions\<close> of
  \<open>cmd/jed/main.go\<close>. \<open>Startup\<close>: its \<open>buildProvider\<close> and \<open>run\<close> up to serving, when the daemon starts and
  that the tools it announces run.

  \<^bold>\<open>Models and servers.\<close> \<open>Provider\<close>: \<open>internal/provider/provider.go\<close>. \<open>SseLines\<close>, \<open>Anthropic\<close>,
  \<open>OaiCompat\<close>: the two clients, from the request to the stream of events, with the bytes of the
  answer as input. \<open>ProviderProperties\<close>: answers in the documented protocols arrive as they were
  sent (both readers interpret the locale \<open>line_loop\<close>), and cut off answers count as complete.
  \<open>McpClient\<close>, \<open>McpProperties\<close>: \<open>internal/mcp/client.go\<close>, JSON-RPC by documents or streams.
  \<open>MockProvider\<close>: \<open>mock.go\<close>, the scripted provider that is the default.
  \<^bold>\<open>Tools.\<close> \<open>Tools\<close>: \<open>internal/tool\<close>, each tool and its command. \<open>ToolDefs\<close>: their names,
  descriptions, schemas and registry. \<open>Sandbox\<close>: \<open>internal/sandbox\<close>, as what is asked of the host, and
  \<open>injectVaultProxy\<close>. \<open>Paths\<close>: \<open>filepath\<close>, the
  virtual paths and the write guard of \<open>internal/sandbox/subprocess.go\<close>, and the checks of
  \<open>internal/harness/skills.go\<close> and \<open>resources.go\<close>. \<open>MemoryService\<close>: \<open>internal/memory\<close>.

  \<^bold>\<open>Credentials.\<close> \<open>VaultService\<close>, \<open>VaultProperties\<close>: \<open>internal/vault/service.go\<close> and \<open>crypto.go\<close>.
  \<open>VaultProxy\<close>: the requests of \<open>proxy.go\<close> and the injection of \<open>cmd/je-vault\<close>; \<open>VaultCA\<close>: its authority,
  the certificates of hosts, its connections and its start. \<open>AuthService\<close>, \<open>AuthProperties\<close>:
  \<open>internal/auth\<close> and the identity of a request in \<open>internal/api/middleware.go\<close>.

  \<^bold>\<open>Webhooks.\<close> \<open>Ssrf\<close>: \<open>internal/webhook/ssrf.go\<close> on the bytes of addresses. \<open>Webhook\<close>,
  \<open>WebhookProperties\<close>: \<open>dispatcher.go\<close>, the queue and its worker.

  \<^bold>\<open>Services and API.\<close> \<open>AgentService\<close>, \<open>SessionService\<close>, \<open>ServiceProperties\<close>: \<open>internal/agent\<close>,
  \<open>internal/session\<close> and the types of \<open>pkg/apitypes\<close>. \<open>ApiReply\<close>: requests, replies and the steps of
  handlers. \<open>AgentApi\<close>, \<open>StorageApi\<close>, \<open>AdminApi\<close>, \<open>Dashboard\<close>: the handlers of \<open>internal/api\<close>.
  \<open>Router\<close>: \<open>NewRouter\<close> with its middlewares and routes. \<open>ApiProperties\<close>, \<open>UploadProperties\<close>,
  \<open>DashboardProperties\<close>: credentials, tenants, secrets, uploads and the dashboard.

  \<^bold>\<open>Command line client.\<close> \<open>CliClient\<close>, \<open>CliProperties\<close>: \<open>cmd/je/main.go\<close>, every command from its
  arguments to its requests and its output.

  \<^bold>\<open>Bounds and fuel.\<close> The JSON parser has fuel \<open>2 * length s + 2\<close>, which covers every nesting since
  every second call consumes a character (\<open>json_roundtrip\<close> shows it suffices for every printed
  document). The retry loop has \<open>MaxRetries + 1\<close> attempts and the loop of a turn \<open>MaxSteps\<close> model
  calls, as in the code, so running out is the code's own outcome. The worker of the webhooks
  is run for any number of rounds. The client program looks for the end of a turn
  \<open>ci_Polls\<close> times, at most 300 by its deadline, and reports a timeout when they are used up. The scanners of streams
  end at lines of 4 MB, or 8 MB for MCP. All other
  recursion is structural.

  \<^bold>\<open>Parameters.\<close> Code that is not in the repository is a parameter, with what is relied on as a
  hypothesis where a theorem needs it: the database's reading of JSON columns, SHA-256, HMAC, PBKDF2,
  AES-GCM (decryption inverts encryption), keys and certificates, the random source, the parsing of URLs, times, floating point
  numbers, multipart bodies and archives, DNS, HTTP servers, the database
  drivers, and what the host answers to the sandbox.

  \<^bold>\<open>Not modelled.\<close> The database drivers, of whose behaviour only the constraints of the schema are used; TLS
  records and the encodings of keys and certificates; what processes do in the sandbox; HTTP framing, the listeners
  and their shutdown, signals, the matching of unknown routes; logging and metrics, on which nothing depends; the
  usage and version texts and the indentation of the client's output. The closure that resolves tokens for
  MCP servers is a parameter of the harness that answers by tick, without its effect on the vault. JSON output does not model the
  replacement of invalid UTF-8 and the escapes of U+2028 and U+2029; \<open>strings.TrimSpace\<close>,
  \<open>ToLower\<close> and the matching of field names are those of ASCII. An \<open>int\<close> is a 64-bit one.
\<close>

end
